(* ===== verification/Prelude.thy ===== *)
theory Prelude
  imports Complex_Main "HOL-Library.Monad_Syntax" "HOL-Library.Sublist" "HOL-Library.Code_Target_Numeral"
begin

text \<open>
  Shared vocabulary of the development: Python text and time values, the validators of bounded
  fields, and the generic interfaces (locales) that several components implement.

  A Python \<open>str\<close> is a list of characters, one per code point, over the code points 0 to 255.
  \<open>py_strip\<close>, \<open>py_lstrip\<close> and \<open>casefold\<close> follow the Unicode tables on that range; the one
  exception is the micro sign (181), whose folded form lies outside the range and which is left
  as it is. A Python \<open>datetime\<close> is naive, or it is an instant together with its UTC offset.

  A Pydantic model is a record of its fields and a function from the record to \<open>option\<close>:
  \<open>None\<close> is a \<open>ValidationError\<close>, \<open>Some\<close> holds the fields as the validators return them. The raw
  values already have their declared types.
\<close>

named_theorems contract_idem "a validator accepts its own result unchanged"
named_theorems contract_simps "unfolding rules for validators"

section \<open>Text\<close>

definition code_of :: "char \<Rightarrow> nat" where
  "code_of c = of_char c"

definition is_py_space :: "char \<Rightarrow> bool" where
  "is_py_space c \<longleftrightarrow>
     (let n = code_of c in (9 \<le> n \<and> n \<le> 13) \<or> (28 \<le> n \<and> n \<le> 32) \<or> n = 133 \<or> n = 160)"

text \<open>The Unicode property White_Space, which Pydantic's \<open>strip_whitespace\<close> removes.\<close>

definition is_white_space :: "char \<Rightarrow> bool" where
  "is_white_space c \<longleftrightarrow>
     (let n = code_of c in (9 \<le> n \<and> n \<le> 13) \<or> n = 32 \<or> n = 133 \<or> n = 160)"

definition is_digit_char :: "char \<Rightarrow> bool" where
  "is_digit_char c \<longleftrightarrow> 48 \<le> code_of c \<and> code_of c \<le> 57"

definition is_lower_char :: "char \<Rightarrow> bool" where
  "is_lower_char c \<longleftrightarrow> 97 \<le> code_of c \<and> code_of c \<le> 122"

definition is_upper_char :: "char \<Rightarrow> bool" where
  "is_upper_char c \<longleftrightarrow> 65 \<le> code_of c \<and> code_of c \<le> 90"

definition is_alnum_char :: "char \<Rightarrow> bool" where
  "is_alnum_char c \<longleftrightarrow> is_digit_char c \<or> is_lower_char c \<or> is_upper_char c"

text \<open>The regular-expression class \<open>\w\<close> on the code points 0 to 255.\<close>

definition is_word_char :: "char \<Rightarrow> bool" where
  "is_word_char c \<longleftrightarrow>
     (let n = code_of c in
      is_alnum_char c \<or> n \<in> {95, 170, 178, 179, 181, 185, 186, 188, 189, 190} \<or>
      (192 \<le> n \<and> n \<noteq> 215 \<and> n \<noteq> 247))"

text \<open>The class \<open>[^\W_]\<close>.\<close>

definition token_char :: "char \<Rightarrow> bool" where
  "token_char c \<longleftrightarrow> is_word_char c \<and> code_of c \<noteq> 95"

definition is_lower_hex :: "char \<Rightarrow> bool" where
  "is_lower_hex c \<longleftrightarrow> is_digit_char c \<or> (97 \<le> code_of c \<and> code_of c \<le> 102)"

definition is_hex :: "char \<Rightarrow> bool" where
  "is_hex c \<longleftrightarrow> is_lower_hex c \<or> (65 \<le> code_of c \<and> code_of c \<le> 70)"

definition strip_by :: "(char \<Rightarrow> bool) \<Rightarrow> string \<Rightarrow> string" where
  "strip_by p s = rev (dropWhile p (rev (dropWhile p s)))"

definition py_strip :: "string \<Rightarrow> string" where
  "py_strip s = strip_by is_py_space s"

definition py_lstrip :: "string \<Rightarrow> string" where
  "py_lstrip s = dropWhile is_py_space s"

definition trim_ws :: "string \<Rightarrow> string" where
  "trim_ws s = strip_by is_white_space s"

text \<open>
  \<open>casefold\<close> on one code point: the ASCII capitals and the Latin-1 capitals move by 32, the sharp
  s becomes two letters.
\<close>

definition casefold_char :: "char \<Rightarrow> string" where
  "casefold_char c =
     (let n = code_of c in
      if (65 \<le> n \<and> n \<le> 90) \<or> (192 \<le> n \<and> n \<le> 222 \<and> n \<noteq> 215) then [char_of (n + 32)]
      else if n = 223 then ''ss''
      else [c])"

definition casefold :: "string \<Rightarrow> string" where
  "casefold s = concat (map casefold_char s)"

text \<open>\<open>str.lower\<close>, which keeps the sharp s.\<close>

definition lower_char :: "char \<Rightarrow> char" where
  "lower_char c =
     (let n = code_of c in
      if (65 \<le> n \<and> n \<le> 90) \<or> (192 \<le> n \<and> n \<le> 222 \<and> n \<noteq> 215) then char_of (n + 32) else c)"

definition py_lower :: "string \<Rightarrow> string" where
  "py_lower s = map lower_char s"

definition NUL :: char where
  "NUL = char_of (0::nat)"

definition newline :: string where
  "newline = [char_of (10::nat)]"

definition in_class :: "char \<Rightarrow> string \<Rightarrow> bool" where
  "in_class c cs \<longleftrightarrow> c \<in> set cs"

lemma code_of_char_of: "n < 256 \<Longrightarrow> code_of (char_of n) = n"
  by (simp add: code_of_def)

lemma dropWhile_hd_not: "dropWhile p s = [] \<or> \<not> p (hd (dropWhile p s))"
  using hd_dropWhile[of p s] by (cases "dropWhile p s") auto

lemma dropWhile_fix: "s = [] \<or> \<not> p (hd s) \<Longrightarrow> dropWhile p s = s"
  by (cases s) auto

lemma rev_dropWhile_rev_prefix: "\<exists>t. s = rev (dropWhile p (rev s)) @ t"
proof -
  have "rev s = takeWhile p (rev s) @ dropWhile p (rev s)" by simp
  then have "s = rev (dropWhile p (rev s)) @ rev (takeWhile p (rev s))"
    by (metis rev_append rev_rev_ident)
  then show ?thesis by blast
qed

lemma strip_by_ends:
  "strip_by p s = [] \<or> (\<not> p (hd (strip_by p s)) \<and> \<not> p (last (strip_by p s)))"
proof (cases "strip_by p s = []")
  case False
  let ?d = "dropWhile p s"
  obtain t where t: "?d = strip_by p s @ t"
    using rev_dropWhile_rev_prefix[of ?d p] by (auto simp: strip_by_def)
  with False have "hd ?d = hd (strip_by p s)" by (metis hd_append2)
  moreover have "?d \<noteq> []" using False t by auto
  ultimately have 1: "\<not> p (hd (strip_by p s))"
    using dropWhile_hd_not[of p s] by auto
  have "dropWhile p (rev ?d) \<noteq> []" using False by (simp add: strip_by_def)
  then have "\<not> p (hd (dropWhile p (rev ?d)))" using dropWhile_hd_not by blast
  then have 2: "\<not> p (last (strip_by p s))" by (simp add: strip_by_def last_rev)
  from 1 2 show ?thesis by simp
qed simp

lemma strip_by_fix:
  assumes "s = [] \<or> (\<not> p (hd s) \<and> \<not> p (last s))"
  shows "strip_by p s = s"
  using assms by (auto simp: strip_by_def dropWhile_fix hd_rev)

lemma strip_by_idem [simp]: "strip_by p (strip_by p s) = strip_by p s"
  by (rule strip_by_fix) (rule strip_by_ends)

lemma py_strip_idem [simp]: "py_strip (py_strip s) = py_strip s"
  by (simp add: py_strip_def)

lemma trim_ws_idem [simp]: "trim_ws (trim_ws s) = trim_ws s"
  by (simp add: trim_ws_def)

lemma strip_by_subset: "set (strip_by p s) \<subseteq> set s"
  by (auto simp: strip_by_def dest!: set_dropWhileD)

lemma strip_by_length: "length (strip_by p s) \<le> length s"
  unfolding strip_by_def by (metis length_dropWhile_le length_rev order_trans)

lemma casefold_lower_hex: "\<forall>c \<in> set s. is_lower_hex c \<Longrightarrow> casefold s = s"
  by (induction s) (auto simp: casefold_def casefold_char_def is_lower_hex_def is_digit_char_def Let_def)

lemma casefold_Nil [simp]: "casefold [] = []"
  by (simp add: casefold_def)

lemma casefold_append: "casefold (s @ t) = casefold s @ casefold t"
  by (simp add: casefold_def)

lemma lower_char_idem [simp]: "lower_char (lower_char c) = lower_char c"
  by (auto simp: lower_char_def Let_def code_of_char_of)

lemma py_lower_idem [simp]: "py_lower (py_lower s) = py_lower s"
  by (simp add: py_lower_def)

section \<open>Time\<close>

datatype datetime = Naive int | Aware int int

fun instant :: "datetime \<Rightarrow> int" where
  "instant (Naive t) = t"
| "instant (Aware t off) = t"

fun aware_utc :: "datetime \<Rightarrow> datetime option" where
  "aware_utc (Naive t) = None"
| "aware_utc (Aware t off) = Some (Aware t 0)"

definition dt_less :: "datetime \<Rightarrow> datetime \<Rightarrow> bool" where
  "dt_less a b \<longleftrightarrow> instant a < instant b"

section \<open>Lists as the code uses them\<close>

text \<open>\<open>list(dict.fromkeys(xs))\<close>: the first occurrence of each element, in order.\<close>

primrec dedup :: "'a list \<Rightarrow> 'a list" where
  "dedup [] = []"
| "dedup (x # xs) = x # filter (\<lambda>y. y \<noteq> x) (dedup xs)"

lemma set_dedup [simp]: "set (dedup xs) = set xs"
  by (induction xs) auto

lemma distinct_dedup [simp]: "distinct (dedup xs)"
  by (induction xs) auto

lemma dedup_distinct: "distinct xs \<Longrightarrow> dedup xs = xs"
proof (induction xs)
  case (Cons x xs)
  then have "filter (\<lambda>y. y \<noteq> x) xs = xs" by (auto intro: filter_True)
  with Cons show ?case by simp
qed simp

lemma dedup_eq_Nil [simp]: "dedup xs = [] \<longleftrightarrow> xs = []"
  by (cases xs) auto

lemma length_dedup: "length (dedup xs) \<le> length xs"
  by (induction xs) (auto intro: le_trans[OF length_filter_le])

lemma length_dedup_card: "length (dedup xs) = card (set xs)"
  by (metis distinct_card distinct_dedup set_dedup)

primrec mapM :: "('a \<Rightarrow> 'b option) \<Rightarrow> 'a list \<Rightarrow> 'b list option" where
  "mapM f [] = Some []"
| "mapM f (x # xs) = do { y \<leftarrow> f x; ys \<leftarrow> mapM f xs; Some (y # ys) }"

lemma mapM_Some_iff: "mapM f xs = Some ys \<longleftrightarrow> list_all2 (\<lambda>x y. f x = Some y) xs ys"
  by (induction xs arbitrary: ys)
    (auto simp: bind_eq_Some_conv list_all2_Cons1 list_all2_Cons2)

lemma mapM_length: "mapM f xs = Some ys \<Longrightarrow> length ys = length xs"
  by (auto simp: mapM_Some_iff dest: list_all2_lengthD)

lemma mapM_in_result: "mapM f xs = Some ys \<Longrightarrow> y \<in> set ys \<Longrightarrow> \<exists>x \<in> set xs. f x = Some y"
  unfolding mapM_Some_iff by (induction rule: list_all2_induct) auto

lemma mapM_total: "(\<And>x. x \<in> set xs \<Longrightarrow> \<exists>y. f x = Some y) \<Longrightarrow> \<exists>ys. mapM f xs = Some ys"
  by (induction xs) force+

lemma mapM_fixpoint: "(\<And>x. x \<in> set xs \<Longrightarrow> f x = Some x) \<Longrightarrow> mapM f xs = Some xs"
  by (induction xs) auto

text \<open>\<open>sep.join(xs)\<close>.\<close>

fun join :: "string \<Rightarrow> string list \<Rightarrow> string" where
  "join sep [] = []"
| "join sep [x] = x"
| "join sep (x # y # ys) = x @ sep @ join sep (y # ys)"

text \<open>Truth of a Python string and of an optional string.\<close>

definition truthy :: "string option \<Rightarrow> bool" where
  "truthy v \<longleftrightarrow> v \<noteq> None \<and> v \<noteq> Some []"

text \<open>Decimal digits of a natural number, as \<open>str(n)\<close> prints them.\<close>

fun show_nat :: "nat \<Rightarrow> string" where
  "show_nat n = (if n < 10 then [char_of (48 + n)] else show_nat (n div 10) @ [char_of (48 + n mod 10)])"

declare show_nat.simps [simp del]

definition utf8_length :: "string \<Rightarrow> nat" where
  "utf8_length s = sum_list (map (\<lambda>c. if code_of c < 128 then 1 else 2) s)"

lemma utf8_length_append [simp]: "utf8_length (s @ t) = utf8_length s + utf8_length t"
  by (simp add: utf8_length_def)

lemma utf8_length_Nil [simp]: "utf8_length [] = 0"
  by (simp add: utf8_length_def)

lemma utf8_length_ge: "length s \<le> utf8_length s"
  by (induction s) (auto simp: utf8_length_def)

lemma join_Cons: "ys \<noteq> [] \<Longrightarrow> join sep (x # ys) = x @ sep @ join sep ys"
  by (cases ys) auto

lemma join_member: "x \<in> set xs \<Longrightarrow> \<exists>a b. join sep xs = a @ x @ b"
proof (induction sep xs rule: join.induct)
  case (2 sep y)
  then have "join sep [y] = [] @ x @ []" by simp
  then show ?case by blast
next
  case (3 sep x' y ys)
  show ?case
  proof (cases "x = x'")
    case True
    then have "join sep (x' # y # ys) = [] @ x @ (sep @ join sep (y # ys))" by simp
    then show ?thesis by blast
  next
    case False
    with 3 obtain a b where "join sep (y # ys) = a @ x @ b" by auto
    then have "join sep (x' # y # ys) = (x' @ sep @ a) @ x @ b" by simp
    then show ?thesis by blast
  qed
qed simp

lemma utf8_length_join_member: "x \<in> set xs \<Longrightarrow> utf8_length x \<le> utf8_length (join sep xs)"
  by (metis join_member le_add1 le_add2 order_trans utf8_length_append)

section \<open>Validators\<close>

definition require :: "bool \<Rightarrow> 'a \<Rightarrow> 'a option" where
  "require b x = (if b then Some x else None)"

text \<open>A validator on an optional field: \<open>None\<close> passes, a value is validated.\<close>

definition optional :: "('a \<Rightarrow> 'a option) \<Rightarrow> 'a option \<Rightarrow> 'a option option" where
  "optional f v = (case v of None \<Rightarrow> Some None | Some x \<Rightarrow> map_option Some (f x))"

text \<open>\<open>Field(min_length=lo, max_length=hi)\<close> on a list or a string.\<close>

definition bounded_len :: "nat \<Rightarrow> nat \<Rightarrow> 'a list \<Rightarrow> 'a list option" where
  "bounded_len lo hi xs = require (lo \<le> length xs \<and> length xs \<le> hi) xs"

definition unique_list :: "'a list \<Rightarrow> 'a list option" where
  "unique_list xs = require (distinct xs) xs"

definition bounded_int :: "int \<Rightarrow> int \<Rightarrow> int \<Rightarrow> int option" where
  "bounded_int lo hi n = require (lo \<le> n \<and> n \<le> hi) n"

lemma require_Some [simp]: "require b x = Some y \<longleftrightarrow> b \<and> y = x"
  by (auto simp: require_def)

lemma bounded_len_Some [simp]:
  "bounded_len lo hi xs = Some ys \<longleftrightarrow> lo \<le> length xs \<and> length xs \<le> hi \<and> ys = xs"
  by (auto simp: bounded_len_def)

lemma unique_list_Some [simp]: "unique_list xs = Some ys \<longleftrightarrow> distinct xs \<and> ys = xs"
  by (auto simp: unique_list_def)

lemma bounded_int_Some [simp]: "bounded_int lo hi n = Some m \<longleftrightarrow> lo \<le> n \<and> n \<le> hi \<and> m = n"
  by (auto simp: bounded_int_def)

lemma optional_Some:
  "optional f v = Some w \<longleftrightarrow>
     (v = None \<and> w = None) \<or> (\<exists>x y. v = Some x \<and> f x = Some y \<and> w = Some y)"
  by (auto simp: optional_def split: option.splits)

lemma optional_simps [simp]:
  "optional f None = Some None"
  "optional f (Some x) = map_option Some (f x)"
  by (simp_all add: optional_def)

text \<open>
  The interface of a validator whose result it accepts unchanged. Persisted snapshots are validated
  again when they are read, so this is what makes a store return what it was given.
\<close>

locale normaliser =
  fixes norm :: "'a \<Rightarrow> 'a option"
  assumes idem: "norm x = Some y \<Longrightarrow> norm y = Some y"
begin

lemma image_fixed: "norm x = Some y \<Longrightarrow> norm y = Some z \<Longrightarrow> z = y"
  by (auto dest: idem)

end

interpretation aware_utc: normaliser aware_utc
proof unfold_locales
  fix x y
  assume "aware_utc x = Some y"
  then show "aware_utc y = Some y" by (cases x) auto
qed

lemma aware_utc_idem [contract_idem]: "aware_utc s = Some t \<Longrightarrow> aware_utc t = Some t"
  by (rule aware_utc.idem)

lemma optional_bounded_int [simp]:
  "optional (bounded_int lo hi) v = Some w \<longleftrightarrow> w = v \<and> (\<forall>n. v = Some n \<longrightarrow> lo \<le> n \<and> n \<le> hi)"
  by (cases v) auto

lemma optional_idem [contract_idem]:
  "optional f v = Some w \<Longrightarrow> (\<And>x y. f x = Some y \<Longrightarrow> f y = Some y) \<Longrightarrow> optional f w = Some w"
  by (auto simp: optional_Some)

lemma mapM_idem [contract_idem]:
  "mapM f xs = Some ys \<Longrightarrow> (\<And>x y. f x = Some y \<Longrightarrow> f y = Some y) \<Longrightarrow> mapM f ys = Some ys"
  by (rule mapM_fixpoint) (auto dest: mapM_in_result)

lemma bounded_len_idem [contract_idem]: "bounded_len lo hi xs = Some ys \<Longrightarrow> bounded_len lo hi ys = Some ys"
  by auto

end
