(* ===== verification/Contracts.thy ===== *)
theory Contracts
  imports Prelude
begin

text \<open>
  The internal data contracts of \<open>services/contracts/v1.py\<close>: the enumerations, the bounded string
  types, every contract record and its validator. \<open>float\<close> fields are rationals (their finite
  values); the JSON schemas of a tool are the values of type \<open>json\<close>. The lemmas show that every
  validator normalises (\<open>contract_idem\<close>) and what each accepted record guarantees.
\<close>

section \<open>Enumerations\<close>

datatype RequestSource = RS_OPEN_WEBUI | RS_API | RS_TELEGRAM | RS_N8N | RS_INTERNAL

datatype RouteName =
    AUXILIARY | FAST_CHAT | STRONG_CHAT | LOCAL_CODE | CODEX | CODEX_BUNDLE
  | DOCS | BROWSER | IMAGE | VOICE | VISION

datatype ExecutorName =
    FAST_OLLAMA | STRONG_OLLAMA | QWEN_CODE | CODEX_CLI | EX_CODEX_BUNDLE
  | PLAYWRIGHT | COMFYUI | WHISPER | DEGRADED_RESPONSE

datatype RiskLevel = RISK_LOW | RISK_MEDIUM | RISK_HIGH | RISK_CRITICAL

datatype ActionKind =
    ACT_CHAT | ACT_ANALYSIS | ACT_REPOSITORY_READ | ACT_REPOSITORY_MUTATION | ACT_REVIEW
  | ACT_DOCUMENTATION | ACT_BROWSER | ACT_VOICE | ACT_VISION | ACT_IMAGE | ACT_AUXILIARY

datatype ComplexityLevel = CX_LOW | CX_MEDIUM | CX_HIGH | CX_CRITICAL

datatype ExecutionMode = MODE_NONE | MODE_READ_ONLY | MODE_WRITE

datatype RouteOverride = OV_LOCAL | OV_CODEX | OV_VOICE | OV_VISION | OV_IMAGE | OV_BROWSER

datatype OverrideDisposition = OD_NONE | OD_APPLIED | OD_REJECTED

datatype DecisionStatus = DS_READY | DS_DEGRADED | DS_BLOCKED

datatype PermissionDisposition = PD_ALLOWED | PD_APPROVAL_REQUIRED | PD_DENIED

datatype ProjectResolutionSource = PRS_EXPLICIT | PRS_DEFAULT | PRS_NONE

datatype ProjectResolutionStatus = PR_RESOLVED | PR_INVALID | PR_MISSING

datatype AttemptOutcome = AO_RUNNING | AO_COMPLETE | AO_FAILED | AO_CANCELLED

datatype TaskStatus =
    TS_PENDING | TS_READY | TS_RUNNING | TS_BLOCKED | TS_COMPLETE | TS_FAILED | TS_CANCELLED

datatype AttachmentKind = AK_FILE | AK_IMAGE | AK_AUDIO | AK_DOCUMENT | AK_OTHER

datatype RetentionPolicy = RP_SESSION | RP_TASK | RP_TTL | RP_MANUAL | RP_PERMANENT

datatype HealthProbeKind = HP_HTTP | HP_COMMAND | HP_IN_PROCESS | HP_NONE

datatype AvailabilityStatus = AVAILABLE | DEGRADED | UNAVAILABLE | DISABLED | ON_DEMAND

datatype Locality = LOCAL | CLOUD | HYBRID

fun action_value :: "ActionKind \<Rightarrow> string" where
  "action_value ACT_CHAT = ''chat''"
| "action_value ACT_ANALYSIS = ''analysis''"
| "action_value ACT_REPOSITORY_READ = ''repository_read''"
| "action_value ACT_REPOSITORY_MUTATION = ''repository_mutation''"
| "action_value ACT_REVIEW = ''review''"
| "action_value ACT_DOCUMENTATION = ''documentation''"
| "action_value ACT_BROWSER = ''browser''"
| "action_value ACT_VOICE = ''voice''"
| "action_value ACT_VISION = ''vision''"
| "action_value ACT_IMAGE = ''image''"
| "action_value ACT_AUXILIARY = ''auxiliary''"

fun complexity_value :: "ComplexityLevel \<Rightarrow> string" where
  "complexity_value CX_LOW = ''low''"
| "complexity_value CX_MEDIUM = ''medium''"
| "complexity_value CX_HIGH = ''high''"
| "complexity_value CX_CRITICAL = ''critical''"

fun override_value :: "RouteOverride \<Rightarrow> string" where
  "override_value OV_LOCAL = ''local''"
| "override_value OV_CODEX = ''codex''"
| "override_value OV_VOICE = ''voice''"
| "override_value OV_VISION = ''vision''"
| "override_value OV_IMAGE = ''image''"
| "override_value OV_BROWSER = ''browser''"

text \<open>\<open>_ALLOWED_EXECUTORS_BY_ROUTE\<close>.\<close>

fun allowed_executors :: "RouteName \<Rightarrow> ExecutorName set" where
  "allowed_executors AUXILIARY = {FAST_OLLAMA, DEGRADED_RESPONSE}"
| "allowed_executors FAST_CHAT = {FAST_OLLAMA, DEGRADED_RESPONSE}"
| "allowed_executors STRONG_CHAT = {STRONG_OLLAMA, DEGRADED_RESPONSE}"
| "allowed_executors LOCAL_CODE = {QWEN_CODE, CODEX_CLI, DEGRADED_RESPONSE}"
| "allowed_executors CODEX = {CODEX_CLI, EX_CODEX_BUNDLE, DEGRADED_RESPONSE}"
| "allowed_executors CODEX_BUNDLE = {EX_CODEX_BUNDLE}"
| "allowed_executors DOCS = {QWEN_CODE, DEGRADED_RESPONSE}"
| "allowed_executors BROWSER = {PLAYWRIGHT, DEGRADED_RESPONSE}"
| "allowed_executors IMAGE = {COMFYUI, DEGRADED_RESPONSE}"
| "allowed_executors VOICE = {WHISPER, DEGRADED_RESPONSE}"
| "allowed_executors VISION = {DEGRADED_RESPONSE}"

definition compatible_route_executor :: "RouteName \<Rightarrow> ExecutorName \<Rightarrow> bool" where
  "compatible_route_executor route executor \<longleftrightarrow> executor \<in> allowed_executors route"

section \<open>Bounded string types\<close>

definition constrained :: "nat \<Rightarrow> nat \<Rightarrow> (string \<Rightarrow> bool) \<Rightarrow> string \<Rightarrow> string option" where
  "constrained lo hi pat s =
     (let t = trim_ws s in require (lo \<le> length t \<and> length t \<le> hi \<and> pat t) t)"

definition identifier_pattern :: "string \<Rightarrow> bool" where
  "identifier_pattern s =
     (case s of [] \<Rightarrow> False
      | c # cs \<Rightarrow> is_alnum_char c \<and> list_all (\<lambda>d. is_alnum_char d \<or> in_class d ''._:-'') cs)"

definition reason_code_pattern :: "string \<Rightarrow> bool" where
  "reason_code_pattern s =
     (case s of [] \<Rightarrow> False
      | c # cs \<Rightarrow> is_lower_char c \<and>
          list_all (\<lambda>d. is_lower_char d \<or> is_digit_char d \<or> in_class d ''_.-'') cs)"

definition resource_lock_pattern :: "string \<Rightarrow> bool" where
  "resource_lock_pattern s =
     (case s of [] \<Rightarrow> False
      | c # cs \<Rightarrow> is_lower_char c \<and>
          list_all (\<lambda>d. is_lower_char d \<or> is_digit_char d \<or> in_class d ''_.:-'') cs)"

definition Identifier :: "string \<Rightarrow> string option" where
  "Identifier = constrained 1 128 identifier_pattern"

definition ShortName :: "string \<Rightarrow> string option" where
  "ShortName = constrained 1 128 (\<lambda>_. True)"

definition ShortText :: "string \<Rightarrow> string option" where
  "ShortText = constrained 1 2048 (\<lambda>_. True)"

definition LongText :: "string \<Rightarrow> string option" where
  "LongText = constrained 1 262144 (\<lambda>_. True)"

definition Reference :: "string \<Rightarrow> string option" where
  "Reference = constrained 1 4096 (\<lambda>_. True)"

definition ReasonCode :: "string \<Rightarrow> string option" where
  "ReasonCode = constrained 1 128 reason_code_pattern"

definition ResourceLock :: "string \<Rightarrow> string option" where
  "ResourceLock = constrained 1 256 resource_lock_pattern"

definition Sha256 :: "string \<Rightarrow> string option" where
  "Sha256 s = (let t = trim_ws s in require (length t = 64 \<and> list_all is_hex t) t)"

definition MediaType :: "string \<Rightarrow> string option" where
  "MediaType = constrained 1 255 (\<lambda>_. True)"

definition Version64 :: "string \<Rightarrow> string option" where
  "Version64 = constrained 1 64 (\<lambda>_. True)"

definition reference_without_inline_data :: "string \<Rightarrow> string option" where
  "reference_without_inline_data s =
     require (NUL \<notin> set s \<and> \<not> prefix ''data:'' (casefold (py_lstrip s))) s"

lemma constrained_idem: "constrained lo hi pat s = Some t \<Longrightarrow> constrained lo hi pat t = Some t"
  by (auto simp: constrained_def Let_def)

lemma constrained_Some:
  "constrained lo hi pat s = Some t \<longleftrightarrow>
     t = trim_ws s \<and> lo \<le> length t \<and> length t \<le> hi \<and> pat t"
  by (auto simp: constrained_def Let_def)


section \<open>Contract records and their validators\<close>

record AttachmentRefV1 =
  ar_attachment_id :: string
  ar_kind :: AttachmentKind
  ar_reference :: string
  ar_media_type :: "string option"
  ar_size_bytes :: "int option"
  ar_sha256 :: "string option"
  ar_provenance :: "string list"

definition validate_AttachmentRefV1 :: "AttachmentRefV1 \<Rightarrow> AttachmentRefV1 option" where
  "validate_AttachmentRefV1 r = do {
     ident \<leftarrow> Identifier (ar_attachment_id r);
     reference0 \<leftarrow> Reference (ar_reference r);
     reference \<leftarrow> reference_without_inline_data reference0;
     media \<leftarrow> optional MediaType (ar_media_type r);
     size_bytes \<leftarrow> optional (bounded_int 0 4294967296) (ar_size_bytes r);
     sha0 \<leftarrow> optional Sha256 (ar_sha256 r);
     prov0 \<leftarrow> mapM ShortText (ar_provenance r);
     prov1 \<leftarrow> bounded_len 0 32 prov0;
     prov2 \<leftarrow> mapM reference_without_inline_data prov1;
     provenance \<leftarrow> unique_list prov2;
     Some (r\<lparr>ar_attachment_id := ident, ar_reference := reference, ar_media_type := media,
             ar_size_bytes := size_bytes, ar_sha256 := map_option py_lower sha0,
             ar_provenance := provenance\<rparr>)
   }"

record ProjectResolutionV1 =
  pr_source :: ProjectResolutionSource
  pr_status :: ProjectResolutionStatus

definition validate_ProjectResolutionV1 :: "ProjectResolutionV1 \<Rightarrow> ProjectResolutionV1 option" where
  "validate_ProjectResolutionV1 r =
     require (\<not> (pr_source r = PRS_NONE \<and> pr_status r = PR_RESOLVED) \<and>
              \<not> (pr_source r = PRS_EXPLICIT \<and> pr_status r = PR_MISSING)) r"

record NormalizedRequestV1 =
  nr_schema_version :: string
  nr_request_id :: string
  nr_user_message :: string
  nr_attachments :: "AttachmentRefV1 list"
  nr_source :: RequestSource
  nr_project_hint :: "string option"
  nr_explicit_route :: "RouteName option"
  nr_created_at :: datetime
  nr_correlation_id :: string
  nr_routing_override :: "RouteOverride option"
  nr_override_conflict :: bool
  nr_project_resolution :: "ProjectResolutionV1 option"

definition validate_NormalizedRequestV1 :: "NormalizedRequestV1 \<Rightarrow> NormalizedRequestV1 option" where
  "validate_NormalizedRequestV1 r = do {
     version \<leftarrow> require (nr_schema_version r = ''1.0'') (nr_schema_version r);
     ident \<leftarrow> Identifier (nr_request_id r);
     message \<leftarrow> LongText (nr_user_message r);
     atts0 \<leftarrow> mapM validate_AttachmentRefV1 (nr_attachments r);
     atts \<leftarrow> bounded_len 0 32 atts0;
     hint0 \<leftarrow> optional Reference (nr_project_hint r);
     hint \<leftarrow> optional reference_without_inline_data hint0;
     created \<leftarrow> aware_utc (nr_created_at r);
     corr \<leftarrow> Identifier (nr_correlation_id r);
     res \<leftarrow> optional validate_ProjectResolutionV1 (nr_project_resolution r);
     Some (r\<lparr>nr_schema_version := version, nr_request_id := ident, nr_user_message := message,
             nr_attachments := atts, nr_project_hint := hint, nr_created_at := created,
             nr_correlation_id := corr, nr_project_resolution := res\<rparr>)
   }"

record ContextBudgetV1 =
  cb_max_input_tokens :: int
  cb_reserved_output_tokens :: int
  cb_max_attachment_bytes :: int
  cb_max_tool_output_chars :: int
  cb_compression_policy :: string

definition validate_ContextBudgetV1 :: "ContextBudgetV1 \<Rightarrow> ContextBudgetV1 option" where
  "validate_ContextBudgetV1 r = do {
     max_input \<leftarrow> bounded_int 1 2000000 (cb_max_input_tokens r);
     reserved \<leftarrow> bounded_int 0 1000000 (cb_reserved_output_tokens r);
     att \<leftarrow> bounded_int 0 4294967296 (cb_max_attachment_bytes r);
     tool \<leftarrow> bounded_int 0 10000000 (cb_max_tool_output_chars r);
     policy \<leftarrow> ShortName (cb_compression_policy r);
     Some (r\<lparr>cb_max_input_tokens := max_input, cb_reserved_output_tokens := reserved,
             cb_max_attachment_bytes := att, cb_max_tool_output_chars := tool,
             cb_compression_policy := policy\<rparr>)
   }"

datatype disclosure = DISC_CONTENT | DISC_REFERENCE_ONLY

record MemoryContextItemV1 =
  mc_record_id :: string
  mc_record_type :: string
  mc_subject :: string
  mc_content :: "string option"
  mc_source_refs :: "string list"
  mc_score :: rat
  mc_why :: string
  mc_status :: string
  mc_disclosure :: disclosure

definition validate_MemoryContextItemV1 :: "MemoryContextItemV1 \<Rightarrow> MemoryContextItemV1 option" where
  "validate_MemoryContextItemV1 r = do {
     ident \<leftarrow> Identifier (mc_record_id r);
     rtype \<leftarrow> ShortName (mc_record_type r);
     subject \<leftarrow> ShortText (mc_subject r);
     content \<leftarrow> optional LongText (mc_content r);
     refs0 \<leftarrow> mapM Reference (mc_source_refs r);
     refs1 \<leftarrow> bounded_len 0 32 refs0;
     refs2 \<leftarrow> mapM reference_without_inline_data refs1;
     refs \<leftarrow> unique_list refs2;
     score \<leftarrow> require (0 \<le> mc_score r \<and> mc_score r \<le> 1) (mc_score r);
     why \<leftarrow> ShortText (mc_why r);
     status \<leftarrow> require (mc_status r = ''confirmed'') (mc_status r);
     require (\<not> (mc_disclosure r = DISC_CONTENT \<and> content = None) \<and>
              \<not> (mc_disclosure r = DISC_REFERENCE_ONLY \<and> content \<noteq> None))
       (r\<lparr>mc_record_id := ident, mc_record_type := rtype, mc_subject := subject,
          mc_content := content, mc_source_refs := refs, mc_score := score, mc_why := why,
          mc_status := status\<rparr>)
   }"

record PlanV1 =
  pl_schema_version :: string
  pl_goal :: string
  pl_subtasks :: "string list"
  pl_tools :: "string list"
  pl_acceptance_criteria :: "string list"
  pl_risk :: RiskLevel
  pl_approvals :: "string list"
  pl_verification_plan :: "string list"
  pl_context_budget :: ContextBudgetV1
  pl_request_id :: "string option"
  pl_action :: "ActionKind option"
  pl_complexity :: "ComplexityLevel option"
  pl_constraints :: "string list"
  pl_memory_context :: "MemoryContextItemV1 list"
  pl_memory_record_refs :: "string list"

definition validate_PlanV1 :: "PlanV1 \<Rightarrow> PlanV1 option" where
  "validate_PlanV1 r = do {
     version \<leftarrow> require (pl_schema_version r = ''1.0'') (pl_schema_version r);
     goal \<leftarrow> LongText (pl_goal r);
     subtasks0 \<leftarrow> mapM ShortText (pl_subtasks r);
     subtasks \<leftarrow> bounded_len 1 128 subtasks0;
     tools0 \<leftarrow> mapM ShortName (pl_tools r);
     tools1 \<leftarrow> bounded_len 0 64 tools0;
     tools \<leftarrow> unique_list tools1;
     acceptance0 \<leftarrow> mapM ShortText (pl_acceptance_criteria r);
     acceptance \<leftarrow> bounded_len 1 128 acceptance0;
     approvals0 \<leftarrow> mapM ShortText (pl_approvals r);
     approvals \<leftarrow> bounded_len 0 64 approvals0;
     verification0 \<leftarrow> mapM ShortText (pl_verification_plan r);
     verification \<leftarrow> bounded_len 1 128 verification0;
     budget \<leftarrow> validate_ContextBudgetV1 (pl_context_budget r);
     request \<leftarrow> optional Identifier (pl_request_id r);
     constraints0 \<leftarrow> mapM ShortText (pl_constraints r);
     constraints1 \<leftarrow> bounded_len 0 64 constraints0;
     constraints \<leftarrow> unique_list constraints1;
     memory0 \<leftarrow> mapM validate_MemoryContextItemV1 (pl_memory_context r);
     memory \<leftarrow> bounded_len 0 6 memory0;
     refs0 \<leftarrow> mapM Identifier (pl_memory_record_refs r);
     refs1 \<leftarrow> bounded_len 0 32 refs0;
     refs \<leftarrow> unique_list refs1;
     require (\<forall>item \<in> set memory. mc_record_id item \<in> set refs)
       (r\<lparr>pl_schema_version := version, pl_goal := goal, pl_subtasks := subtasks,
          pl_tools := tools, pl_acceptance_criteria := acceptance, pl_approvals := approvals,
          pl_verification_plan := verification, pl_context_budget := budget,
          pl_request_id := request, pl_constraints := constraints,
          pl_memory_context := memory, pl_memory_record_refs := refs\<rparr>)
   }"

record RouteFallbackV1 =
  rf_route :: RouteName
  rf_executor :: ExecutorName
  rf_reason_codes :: "string list"

definition validate_RouteFallbackV1 :: "RouteFallbackV1 \<Rightarrow> RouteFallbackV1 option" where
  "validate_RouteFallbackV1 r = do {
     codes0 \<leftarrow> mapM ReasonCode (rf_reason_codes r);
     codes1 \<leftarrow> bounded_len 1 32 codes0;
     codes \<leftarrow> unique_list codes1;
     require (compatible_route_executor (rf_route r) (rf_executor r)) (r\<lparr>rf_reason_codes := codes\<rparr>)
   }"

record RouteDecisionV1 =
  rd_schema_version :: string
  rd_request_id :: string
  rd_route :: RouteName
  rd_executor :: ExecutorName
  rd_model :: "string option"
  rd_profile :: "string option"
  rd_reason_codes :: "string list"
  rd_risk :: RiskLevel
  rd_fallback :: "RouteFallbackV1 option"
  rd_project :: "string option"
  rd_required_locks :: "string list"
  rd_policy_version :: "string option"
  rd_action :: "ActionKind option"
  rd_complexity :: "ComplexityLevel option"
  rd_execution_mode :: ExecutionMode
  rd_requested_route :: "RouteOverride option"
  rd_override_disposition :: OverrideDisposition
  rd_decision_status :: DecisionStatus
  rd_permission_disposition :: PermissionDisposition
  rd_capability :: "string option"
  rd_capability_status :: AvailabilityStatus
  rd_capability_checked_at :: "datetime option"
  rd_blocking_reason_codes :: "string list"
  rd_max_attempts :: int

definition validate_RouteDecisionV1 :: "RouteDecisionV1 \<Rightarrow> RouteDecisionV1 option" where
  "validate_RouteDecisionV1 r = do {
     version \<leftarrow> require (rd_schema_version r = ''1.0'') (rd_schema_version r);
     ident \<leftarrow> Identifier (rd_request_id r);
     model \<leftarrow> optional ShortName (rd_model r);
     profile \<leftarrow> optional ShortName (rd_profile r);
     codes0 \<leftarrow> mapM ReasonCode (rd_reason_codes r);
     codes1 \<leftarrow> bounded_len 1 32 codes0;
     codes \<leftarrow> unique_list codes1;
     fallback \<leftarrow> optional validate_RouteFallbackV1 (rd_fallback r);
     project0 \<leftarrow> optional Reference (rd_project r);
     project \<leftarrow> optional reference_without_inline_data project0;
     locks0 \<leftarrow> mapM ResourceLock (rd_required_locks r);
     locks1 \<leftarrow> bounded_len 0 32 locks0;
     locks \<leftarrow> unique_list locks1;
     policy \<leftarrow> optional ShortName (rd_policy_version r);
     capability \<leftarrow> optional ShortName (rd_capability r);
     checked \<leftarrow> optional aware_utc (rd_capability_checked_at r);
     blocking0 \<leftarrow> mapM ReasonCode (rd_blocking_reason_codes r);
     blocking1 \<leftarrow> bounded_len 0 32 blocking0;
     blocking \<leftarrow> unique_list blocking1;
     attempts \<leftarrow> bounded_int 0 10 (rd_max_attempts r);
     require (compatible_route_executor (rd_route r) (rd_executor r))
       (r\<lparr>rd_schema_version := version, rd_request_id := ident, rd_model := model,
          rd_profile := profile, rd_reason_codes := codes, rd_fallback := fallback,
          rd_project := project, rd_required_locks := locks, rd_policy_version := policy,
          rd_capability := capability, rd_capability_checked_at := checked,
          rd_blocking_reason_codes := blocking, rd_max_attempts := attempts\<rparr>)
   }"


text \<open>
  A value of Python type \<open>Any\<close> inside a JSON schema: bytes, text, other scalars, sequences, and
  dictionaries in insertion order (their keys are arbitrary values).
\<close>

datatype pyvalue =
    PyBytes "nat list"
  | PyStr string
  | PyScalar string
  | PySeq "pyvalue list"
  | PyDict "(pyvalue \<times> pyvalue) list"

text \<open>The recursive \<open>inspect\<close> of \<open>_validate_json_schema_payload\<close>; \<open>False\<close> where it raises.\<close>

fun inspect_schema :: "pyvalue \<Rightarrow> bool"
  and inspect_schema_list :: "pyvalue list \<Rightarrow> bool"
  and inspect_schema_items :: "(pyvalue \<times> pyvalue) list \<Rightarrow> bool" where
  "inspect_schema (PyBytes bs) = False"
| "inspect_schema (PyStr s) = (\<not> prefix ''data:'' (casefold (py_lstrip s)))"
| "inspect_schema (PyScalar s) = True"
| "inspect_schema (PySeq xs) = inspect_schema_list xs"
| "inspect_schema (PyDict kvs) = inspect_schema_items kvs"
| "inspect_schema_list [] = True"
| "inspect_schema_list (x # xs) = (inspect_schema x \<and> inspect_schema_list xs)"
| "inspect_schema_items [] = True"
| "inspect_schema_items ((k, v) # kvs) =
     ((case k of PyStr s \<Rightarrow> True | _ \<Rightarrow> False) \<and> inspect_schema v \<and> inspect_schema_items kvs)"

text \<open>
  \<open>dumps\<close> is \<open>json.dumps\<close> followed by UTF-8 encoding; \<open>None\<close> is its \<open>TypeError\<close> or \<open>ValueError\<close>.
\<close>

definition validate_json_schema_payload ::
    "(pyvalue \<Rightarrow> nat list option) \<Rightarrow> (pyvalue \<times> pyvalue) list \<Rightarrow> (pyvalue \<times> pyvalue) list option" where
  "validate_json_schema_payload dumps value =
     (if \<not> inspect_schema (PyDict value) then None
      else case dumps (PyDict value) of
        None \<Rightarrow> None
      | Some encoded \<Rightarrow> if length encoded > 131072 then None else Some value)"

record ToolHealthSpecV1 =
  th_kind :: HealthProbeKind
  th_target :: "string option"
  th_timeout_seconds :: rat

definition validate_ToolHealthSpecV1 :: "ToolHealthSpecV1 \<Rightarrow> ToolHealthSpecV1 option" where
  "validate_ToolHealthSpecV1 r = do {
     target0 \<leftarrow> optional Reference (th_target r);
     target \<leftarrow> optional reference_without_inline_data target0;
     timeout \<leftarrow> require (0 < th_timeout_seconds r \<and> th_timeout_seconds r \<le> 300) (th_timeout_seconds r);
     Some (r\<lparr>th_target := target, th_timeout_seconds := timeout\<rparr>)
   }"

record RetryPolicyV1 =
  rp_max_attempts :: int
  rp_backoff_seconds :: rat
  rp_retryable_errors :: "string list"

definition validate_RetryPolicyV1 :: "RetryPolicyV1 \<Rightarrow> RetryPolicyV1 option" where
  "validate_RetryPolicyV1 r = do {
     attempts \<leftarrow> bounded_int 1 10 (rp_max_attempts r);
     backoff \<leftarrow> require (0 \<le> rp_backoff_seconds r \<and> rp_backoff_seconds r \<le> 3600) (rp_backoff_seconds r);
     errors0 \<leftarrow> mapM ReasonCode (rp_retryable_errors r);
     errors1 \<leftarrow> bounded_len 0 32 errors0;
     errors \<leftarrow> unique_list errors1;
     Some (r\<lparr>rp_max_attempts := attempts, rp_backoff_seconds := backoff, rp_retryable_errors := errors\<rparr>)
   }"

record ToolSpecV1 =
  ts_schema_version :: string
  ts_name :: string
  ts_version :: string
  ts_input_schema :: "(pyvalue \<times> pyvalue) list"
  ts_output_schema :: "(pyvalue \<times> pyvalue) list"
  ts_health :: ToolHealthSpecV1
  ts_permissions :: "string list"
  ts_risk :: RiskLevel
  ts_timeout_seconds :: rat
  ts_retry :: RetryPolicyV1
  ts_availability :: AvailabilityStatus
  ts_locality :: Locality

definition validate_ToolSpecV1 ::
    "(pyvalue \<Rightarrow> nat list option) \<Rightarrow> ToolSpecV1 \<Rightarrow> ToolSpecV1 option" where
  "validate_ToolSpecV1 dumps r = do {
     schema \<leftarrow> require (ts_schema_version r = ''1.0'') (ts_schema_version r);
     name \<leftarrow> ShortName (ts_name r);
     version \<leftarrow> Version64 (ts_version r);
     in0 \<leftarrow> bounded_len 0 256 (ts_input_schema r);
     in1 \<leftarrow> validate_json_schema_payload dumps in0;
     out0 \<leftarrow> bounded_len 0 256 (ts_output_schema r);
     out1 \<leftarrow> validate_json_schema_payload dumps out0;
     health \<leftarrow> validate_ToolHealthSpecV1 (ts_health r);
     perms0 \<leftarrow> mapM ShortName (ts_permissions r);
     perms1 \<leftarrow> bounded_len 0 64 perms0;
     perms \<leftarrow> unique_list perms1;
     timeout \<leftarrow> require (0 < ts_timeout_seconds r \<and> ts_timeout_seconds r \<le> 86400) (ts_timeout_seconds r);
     retry \<leftarrow> validate_RetryPolicyV1 (ts_retry r);
     Some (r\<lparr>ts_schema_version := schema, ts_name := name, ts_version := version,
             ts_input_schema := in1, ts_output_schema := out1, ts_health := health,
             ts_permissions := perms, ts_timeout_seconds := timeout, ts_retry := retry\<rparr>)
   }"

record RetentionPolicyV1 =
  rt_policy :: RetentionPolicy
  rt_expires_at :: "datetime option"

definition validate_RetentionPolicyV1 :: "RetentionPolicyV1 \<Rightarrow> RetentionPolicyV1 option" where
  "validate_RetentionPolicyV1 r = do {
     expires \<leftarrow> optional aware_utc (rt_expires_at r);
     require (\<not> (rt_policy r = RP_TTL \<and> expires = None) \<and>
              \<not> (rt_policy r \<noteq> RP_TTL \<and> expires \<noteq> None))
       (r\<lparr>rt_expires_at := expires\<rparr>)
   }"

record ArtifactMetadataV1 =
  am_schema_version :: string
  am_artifact_id :: string
  am_type :: string
  am_path :: string
  am_hash :: string
  am_producer :: string
  am_source_request :: string
  am_created_at :: datetime
  am_provenance :: "string list"
  am_retention :: RetentionPolicyV1

definition validate_ArtifactMetadataV1 :: "ArtifactMetadataV1 \<Rightarrow> ArtifactMetadataV1 option" where
  "validate_ArtifactMetadataV1 r = do {
     version \<leftarrow> require (am_schema_version r = ''1.0'') (am_schema_version r);
     ident \<leftarrow> Identifier (am_artifact_id r);
     atype \<leftarrow> ShortName (am_type r);
     path0 \<leftarrow> Reference (am_path r);
     path \<leftarrow> reference_without_inline_data path0;
     sha0 \<leftarrow> Sha256 (am_hash r);
     producer \<leftarrow> ShortName (am_producer r);
     source \<leftarrow> Identifier (am_source_request r);
     created \<leftarrow> aware_utc (am_created_at r);
     prov0 \<leftarrow> mapM ShortText (am_provenance r);
     prov1 \<leftarrow> bounded_len 1 32 prov0;
     prov2 \<leftarrow> mapM reference_without_inline_data prov1;
     provenance \<leftarrow> unique_list prov2;
     retention \<leftarrow> validate_RetentionPolicyV1 (am_retention r);
     Some (r\<lparr>am_schema_version := version, am_artifact_id := ident, am_type := atype,
             am_path := path, am_hash := py_lower sha0, am_producer := producer,
             am_source_request := source, am_created_at := created,
             am_provenance := provenance, am_retention := retention\<rparr>)
   }"

record ExecutionAttemptV1 =
  ea_index :: int
  ea_executor :: ExecutorName
  ea_model :: "string option"
  ea_outcome :: AttemptOutcome
  ea_reason_codes :: "string list"
  ea_command_summaries :: "string list"
  ea_error_summary :: "string option"
  ea_modified_files :: "string list"
  ea_artifact_refs :: "string list"
  ea_started_at :: datetime
  ea_finished_at :: "datetime option"

text \<open>
  A list of references without duplicates and inline data, as the fields \<open>modified_files\<close> and
  \<open>artifact_refs\<close> of an attempt and of a task state are validated.
\<close>

definition reference_list :: "nat \<Rightarrow> string list \<Rightarrow> string list option" where
  "reference_list hi xs = do {
     ys0 \<leftarrow> mapM Reference xs;
     ys1 \<leftarrow> bounded_len 0 hi ys0;
     ys2 \<leftarrow> mapM reference_without_inline_data ys1;
     unique_list ys2
   }"

text \<open>\<open>validate_attempt_completion\<close>, over the validated fields.\<close>

definition attempt_completion :: "ExecutionAttemptV1 \<Rightarrow> bool" where
  "attempt_completion r \<longleftrightarrow>
     \<not> (ea_outcome r = AO_RUNNING \<and> ea_finished_at r \<noteq> None) \<and>
     \<not> (ea_outcome r \<noteq> AO_RUNNING \<and> ea_finished_at r = None) \<and>
     (case ea_finished_at r of None \<Rightarrow> True | Some t \<Rightarrow> \<not> dt_less t (ea_started_at r)) \<and>
     \<not> (ea_outcome r = AO_FAILED \<and> (ea_error_summary r = None \<or> ea_error_summary r = Some []))"

definition validate_ExecutionAttemptV1 :: "ExecutionAttemptV1 \<Rightarrow> ExecutionAttemptV1 option" where
  "validate_ExecutionAttemptV1 r = do {
     index \<leftarrow> bounded_int 1 100 (ea_index r);
     model \<leftarrow> optional ShortName (ea_model r);
     codes0 \<leftarrow> mapM ReasonCode (ea_reason_codes r);
     codes1 \<leftarrow> bounded_len 0 32 codes0;
     codes \<leftarrow> unique_list codes1;
     commands0 \<leftarrow> mapM ShortText (ea_command_summaries r);
     commands1 \<leftarrow> bounded_len 0 64 commands0;
     commands \<leftarrow> unique_list commands1;
     error \<leftarrow> optional ShortText (ea_error_summary r);
     files \<leftarrow> reference_list 10000 (ea_modified_files r);
     refs \<leftarrow> reference_list 128 (ea_artifact_refs r);
     started \<leftarrow> aware_utc (ea_started_at r);
     finished \<leftarrow> optional aware_utc (ea_finished_at r);
     let r' = r\<lparr>ea_index := index, ea_model := model, ea_reason_codes := codes,
                ea_command_summaries := commands, ea_error_summary := error,
                ea_modified_files := files, ea_artifact_refs := refs,
                ea_started_at := started, ea_finished_at := finished\<rparr>;
     require (attempt_completion r') r'
   }"

record TaskStateV1 =
  tk_schema_version :: string
  tk_task_id :: string
  tk_request_id :: string
  tk_status :: TaskStatus
  tk_attempts :: int
  tk_executor :: "ExecutorName option"
  tk_project :: "string option"
  tk_worktree :: "string option"
  tk_artifacts :: "ArtifactMetadataV1 list"
  tk_artifact_refs :: "string list"
  tk_modified_files :: "string list"
  tk_unresolved_errors :: "string list"
  tk_next_action :: "string option"
  tk_created_at :: datetime
  tk_updated_at :: datetime
  tk_route :: "RouteName option"
  tk_route_decision :: "RouteDecisionV1 option"
  tk_plan :: "PlanV1 option"
  tk_model :: "string option"
  tk_profile :: "string option"
  tk_fallback_used :: bool
  tk_attempt_history :: "ExecutionAttemptV1 list"

text \<open>\<open>validate_state_invariants\<close>, over the validated fields.\<close>

definition task_state_invariants :: "TaskStateV1 \<Rightarrow> bool" where
  "task_state_invariants r \<longleftrightarrow>
     \<not> dt_less (tk_updated_at r) (tk_created_at r) \<and>
     \<not> (tk_status r \<in> {TS_RUNNING, TS_COMPLETE, TS_FAILED} \<and> tk_attempts r < 1) \<and>
     \<not> (tk_status r = TS_FAILED \<and> tk_unresolved_errors r = []) \<and>
     \<not> (tk_status r = TS_COMPLETE \<and> tk_unresolved_errors r \<noteq> []) \<and>
     (case tk_attempt_history r of
        [] \<Rightarrow> True
      | h # hs \<Rightarrow> \<not> tk_attempts r < int (length (tk_attempt_history r)) \<and>
                  ea_index (last (tk_attempt_history r)) = tk_attempts r)"

definition validate_TaskStateV1 :: "TaskStateV1 \<Rightarrow> TaskStateV1 option" where
  "validate_TaskStateV1 r = do {
     version \<leftarrow> require (tk_schema_version r = ''1.0'') (tk_schema_version r);
     task \<leftarrow> Identifier (tk_task_id r);
     request \<leftarrow> Identifier (tk_request_id r);
     attempts \<leftarrow> bounded_int 0 100 (tk_attempts r);
     project0 \<leftarrow> optional Reference (tk_project r);
     project \<leftarrow> optional reference_without_inline_data project0;
     worktree0 \<leftarrow> optional Reference (tk_worktree r);
     worktree \<leftarrow> optional reference_without_inline_data worktree0;
     artifacts0 \<leftarrow> mapM validate_ArtifactMetadataV1 (tk_artifacts r);
     artifacts \<leftarrow> bounded_len 0 128 artifacts0;
     refs \<leftarrow> reference_list 128 (tk_artifact_refs r);
     files \<leftarrow> reference_list 10000 (tk_modified_files r);
     errors0 \<leftarrow> mapM ShortText (tk_unresolved_errors r);
     errors \<leftarrow> bounded_len 0 128 errors0;
     next_action \<leftarrow> optional ShortText (tk_next_action r);
     created \<leftarrow> aware_utc (tk_created_at r);
     updated \<leftarrow> aware_utc (tk_updated_at r);
     decision \<leftarrow> optional validate_RouteDecisionV1 (tk_route_decision r);
     plan \<leftarrow> optional validate_PlanV1 (tk_plan r);
     model \<leftarrow> optional ShortName (tk_model r);
     profile \<leftarrow> optional ShortName (tk_profile r);
     history0 \<leftarrow> mapM validate_ExecutionAttemptV1 (tk_attempt_history r);
     history \<leftarrow> bounded_len 0 100 history0;
     let r' = r\<lparr>tk_schema_version := version, tk_task_id := task, tk_request_id := request,
                tk_attempts := attempts, tk_project := project, tk_worktree := worktree,
                tk_artifacts := artifacts, tk_artifact_refs := refs, tk_modified_files := files,
                tk_unresolved_errors := errors, tk_next_action := next_action,
                tk_created_at := created, tk_updated_at := updated,
                tk_route_decision := decision, tk_plan := plan, tk_model := model,
                tk_profile := profile, tk_attempt_history := history\<rparr>;
     require (task_state_invariants r') r'
   }"

section \<open>Validators normalise\<close>

lemma Identifier_idem [contract_idem]: "Identifier s = Some t \<Longrightarrow> Identifier t = Some t"
  unfolding Identifier_def by (rule constrained_idem)

lemma ShortName_idem [contract_idem]: "ShortName s = Some t \<Longrightarrow> ShortName t = Some t"
  unfolding ShortName_def by (rule constrained_idem)

lemma ShortText_idem [contract_idem]: "ShortText s = Some t \<Longrightarrow> ShortText t = Some t"
  unfolding ShortText_def by (rule constrained_idem)

lemma LongText_idem [contract_idem]: "LongText s = Some t \<Longrightarrow> LongText t = Some t"
  unfolding LongText_def by (rule constrained_idem)

lemma Reference_idem [contract_idem]: "Reference s = Some t \<Longrightarrow> Reference t = Some t"
  unfolding Reference_def by (rule constrained_idem)

lemma ReasonCode_idem [contract_idem]: "ReasonCode s = Some t \<Longrightarrow> ReasonCode t = Some t"
  unfolding ReasonCode_def by (rule constrained_idem)

lemma ResourceLock_idem [contract_idem]: "ResourceLock s = Some t \<Longrightarrow> ResourceLock t = Some t"
  unfolding ResourceLock_def by (rule constrained_idem)

lemma MediaType_idem [contract_idem]: "MediaType s = Some t \<Longrightarrow> MediaType t = Some t"
  unfolding MediaType_def by (rule constrained_idem)

lemma Version64_idem [contract_idem]: "Version64 s = Some t \<Longrightarrow> Version64 t = Some t"
  unfolding Version64_def by (rule constrained_idem)

lemma reference_without_inline_data_Some [simp]:
  "reference_without_inline_data s = Some t \<longleftrightarrow>
     NUL \<notin> set s \<and> \<not> prefix ''data:'' (casefold (py_lstrip s)) \<and> t = s"
  by (auto simp: reference_without_inline_data_def)

lemma mapM_reference_without_inline_data [simp]:
  "mapM reference_without_inline_data xs = Some ys \<longleftrightarrow>
     ys = xs \<and> (\<forall>s \<in> set xs. NUL \<notin> set s \<and> \<not> prefix ''data:'' (casefold (py_lstrip s)))"
  by (induction xs arbitrary: ys) (auto simp: bind_eq_Some_conv)

lemma optional_reference_without_inline_data [simp]:
  "optional reference_without_inline_data v = Some w \<longleftrightarrow>
     w = v \<and> (\<forall>s. v = Some s \<longrightarrow> NUL \<notin> set s \<and> \<not> prefix ''data:'' (casefold (py_lstrip s)))"
  by (auto simp: optional_Some)

lemma is_hex_lower_char: "is_hex c \<Longrightarrow> is_hex (lower_char c) \<and> \<not> is_white_space (lower_char c)"
  by (auto simp: is_hex_def is_lower_hex_def is_digit_char_def is_white_space_def lower_char_def
      Let_def code_of_char_of)

lemma trim_ws_hex:
  assumes "list_all is_hex t"
  shows "trim_ws (py_lower t) = py_lower t"
  unfolding trim_ws_def
proof (rule strip_by_fix)
  have *: "\<forall>c \<in> set (py_lower t). \<not> is_white_space c"
    using assms by (auto simp: list_all_iff py_lower_def dest: is_hex_lower_char)
  then show "py_lower t = [] \<or>
      \<not> is_white_space (hd (py_lower t)) \<and> \<not> is_white_space (last (py_lower t))"
    by (cases "py_lower t = []") auto
qed

lemma Sha256_lower_idem [contract_idem]:
  "Sha256 s = Some t \<Longrightarrow> Sha256 (py_lower t) = Some (py_lower t)"
  by (auto simp: Sha256_def Let_def trim_ws_hex)
    (auto simp: py_lower_def list_all_iff dest: is_hex_lower_char)

lemma optional_Sha256_lower_idem [contract_idem]:
  "optional Sha256 s = Some t \<Longrightarrow> optional Sha256 (map_option py_lower t) = Some (map_option py_lower t)"
  by (auto simp: optional_Some contract_idem)

lemma reference_list_idem [contract_idem]:
  "reference_list hi xs = Some ys \<Longrightarrow> reference_list hi ys = Some ys"
  by (clarsimp simp: reference_list_def bind_eq_Some_conv) (simp add: contract_idem)

lemma map_option_lower_twice [simp]:
  "map_option py_lower (map_option py_lower x) = map_option py_lower x"
  by (cases x) auto

lemma validate_AttachmentRefV1_idem [contract_idem]:
  "validate_AttachmentRefV1 r = Some r' \<Longrightarrow> validate_AttachmentRefV1 r' = Some r'"
  by (clarsimp simp: validate_AttachmentRefV1_def bind_eq_Some_conv Let_def) (simp add: contract_idem)

lemma validate_ProjectResolutionV1_idem [contract_idem]:
  "validate_ProjectResolutionV1 r = Some r' \<Longrightarrow> validate_ProjectResolutionV1 r' = Some r'"
  by (auto simp: validate_ProjectResolutionV1_def)

lemma validate_NormalizedRequestV1_idem [contract_idem]:
  "validate_NormalizedRequestV1 r = Some r' \<Longrightarrow> validate_NormalizedRequestV1 r' = Some r'"
  by (clarsimp simp: validate_NormalizedRequestV1_def bind_eq_Some_conv Let_def) (simp add: contract_idem)

lemma validate_ContextBudgetV1_idem [contract_idem]:
  "validate_ContextBudgetV1 r = Some r' \<Longrightarrow> validate_ContextBudgetV1 r' = Some r'"
  by (clarsimp simp: validate_ContextBudgetV1_def bind_eq_Some_conv Let_def) (simp add: contract_idem)

lemma validate_MemoryContextItemV1_idem [contract_idem]:
  "validate_MemoryContextItemV1 r = Some r' \<Longrightarrow> validate_MemoryContextItemV1 r' = Some r'"
  by (clarsimp simp: validate_MemoryContextItemV1_def bind_eq_Some_conv Let_def) (simp add: contract_idem)

lemma validate_PlanV1_idem [contract_idem]:
  "validate_PlanV1 r = Some r' \<Longrightarrow> validate_PlanV1 r' = Some r'"
  by (clarsimp simp: validate_PlanV1_def bind_eq_Some_conv Let_def) (simp add: contract_idem)

lemma validate_RouteFallbackV1_idem [contract_idem]:
  "validate_RouteFallbackV1 r = Some r' \<Longrightarrow> validate_RouteFallbackV1 r' = Some r'"
  by (clarsimp simp: validate_RouteFallbackV1_def bind_eq_Some_conv Let_def) (simp add: contract_idem)

lemma validate_RouteDecisionV1_idem [contract_idem]:
  "validate_RouteDecisionV1 r = Some r' \<Longrightarrow> validate_RouteDecisionV1 r' = Some r'"
  by (clarsimp simp: validate_RouteDecisionV1_def bind_eq_Some_conv Let_def) (simp add: contract_idem)

lemma validate_ToolHealthSpecV1_idem [contract_idem]:
  "validate_ToolHealthSpecV1 r = Some r' \<Longrightarrow> validate_ToolHealthSpecV1 r' = Some r'"
  by (clarsimp simp: validate_ToolHealthSpecV1_def bind_eq_Some_conv Let_def) (simp add: contract_idem)

lemma validate_RetryPolicyV1_idem [contract_idem]:
  "validate_RetryPolicyV1 r = Some r' \<Longrightarrow> validate_RetryPolicyV1 r' = Some r'"
  by (clarsimp simp: validate_RetryPolicyV1_def bind_eq_Some_conv Let_def) (simp add: contract_idem)

lemma validate_RetentionPolicyV1_idem [contract_idem]:
  "validate_RetentionPolicyV1 r = Some r' \<Longrightarrow> validate_RetentionPolicyV1 r' = Some r'"
  by (clarsimp simp: validate_RetentionPolicyV1_def bind_eq_Some_conv Let_def) (simp add: contract_idem)

lemma validate_ArtifactMetadataV1_idem [contract_idem]:
  "validate_ArtifactMetadataV1 r = Some r' \<Longrightarrow> validate_ArtifactMetadataV1 r' = Some r'"
  by (clarsimp simp: validate_ArtifactMetadataV1_def bind_eq_Some_conv Let_def) (simp add: contract_idem)

lemma validate_ExecutionAttemptV1_idem [contract_idem]:
  "validate_ExecutionAttemptV1 r = Some r' \<Longrightarrow> validate_ExecutionAttemptV1 r' = Some r'"
  by (clarsimp simp: validate_ExecutionAttemptV1_def bind_eq_Some_conv Let_def) (simp add: contract_idem)

lemma validate_TaskStateV1_idem [contract_idem]:
  "validate_TaskStateV1 r = Some r' \<Longrightarrow> validate_TaskStateV1 r' = Some r'"
  by (clarsimp simp: validate_TaskStateV1_def bind_eq_Some_conv Let_def) (simp add: contract_idem)

end
