(* ===== verification/RoutingPolicy.thy ===== *)
theory RoutingPolicy
  imports Contracts
begin

text \<open>
  The routing policy of \<open>services/orchestration/config.py\<close>: its records, the bounds of their fields
  and the validators of the marker lists and of \<open>planner_routes\<close>. Reading and caching the JSON file
  is not modelled.
\<close>

record RoutingThresholds =
  strong_chat_chars :: int
  high_complexity_markers :: int
  critical_complexity_markers :: int
  local_code_max_attempts :: int
  fast_input_tokens :: int
  strong_input_tokens :: int
  agent_input_tokens :: int
  max_attachment_bytes :: int
  max_tool_output_chars :: int

definition valid_RoutingThresholds :: "RoutingThresholds \<Rightarrow> bool" where
  "valid_RoutingThresholds t \<longleftrightarrow>
     128 \<le> strong_chat_chars t \<and> strong_chat_chars t \<le> 100000 \<and>
     1 \<le> high_complexity_markers t \<and> high_complexity_markers t \<le> 16 \<and>
     1 \<le> critical_complexity_markers t \<and> critical_complexity_markers t \<le> 16 \<and>
     1 \<le> local_code_max_attempts t \<and> local_code_max_attempts t \<le> 4 \<and>
     256 \<le> fast_input_tokens t \<and> fast_input_tokens t \<le> 2000000 \<and>
     256 \<le> strong_input_tokens t \<and> strong_input_tokens t \<le> 2000000 \<and>
     256 \<le> agent_input_tokens t \<and> agent_input_tokens t \<le> 2000000 \<and>
     0 \<le> max_attachment_bytes t \<and> max_attachment_bytes t \<le> 4294967296 \<and>
     0 \<le> max_tool_output_chars t \<and> max_tool_output_chars t \<le> 10000000"

record LlmSignalPolicy =
  llm_enabled :: bool
  llm_timeout_ms :: int
  llm_minimum_confidence :: rat

definition valid_LlmSignalPolicy :: "LlmSignalPolicy \<Rightarrow> bool" where
  "valid_LlmSignalPolicy p \<longleftrightarrow>
     50 \<le> llm_timeout_ms p \<and> llm_timeout_ms p \<le> 10000 \<and>
     1 / 2 \<le> llm_minimum_confidence p \<and> llm_minimum_confidence p \<le> 1"

record RoutingRules =
  r_auxiliary :: "string list"
  r_educational :: "string list"
  r_repository_context :: "string list"
  r_code_targets :: "string list"
  r_read_actions :: "string list"
  r_mutation_actions :: "string list"
  r_review_actions :: "string list"
  r_read_only :: "string list"
  r_docs :: "string list"
  r_browser :: "string list"
  r_image :: "string list"
  r_strong :: "string list"
  r_architecture :: "string list"
  r_high_complexity :: "string list"
  r_critical :: "string list"

definition validate_rule_list :: "string list \<Rightarrow> string list option" where
  "validate_rule_list values =
     (let normalized = map (\<lambda>value. casefold (py_strip value)) values in
      if list_ex (\<lambda>value. value = [] \<or> length value > 128) normalized then None
      else if length normalized \<noteq> card (set normalized) then None
      else if length normalized > 256 then None
      else Some normalized)"

definition validate_RoutingRules :: "RoutingRules \<Rightarrow> RoutingRules option" where
  "validate_RoutingRules r = do {
     auxiliary \<leftarrow> validate_rule_list (r_auxiliary r);
     educational \<leftarrow> validate_rule_list (r_educational r);
     repository_context \<leftarrow> validate_rule_list (r_repository_context r);
     code_targets \<leftarrow> validate_rule_list (r_code_targets r);
     read_actions \<leftarrow> validate_rule_list (r_read_actions r);
     mutation_actions \<leftarrow> validate_rule_list (r_mutation_actions r);
     review_actions \<leftarrow> validate_rule_list (r_review_actions r);
     read_only \<leftarrow> validate_rule_list (r_read_only r);
     docs \<leftarrow> validate_rule_list (r_docs r);
     browser \<leftarrow> validate_rule_list (r_browser r);
     image \<leftarrow> validate_rule_list (r_image r);
     strong \<leftarrow> validate_rule_list (r_strong r);
     architecture \<leftarrow> validate_rule_list (r_architecture r);
     high_complexity \<leftarrow> validate_rule_list (r_high_complexity r);
     critical \<leftarrow> validate_rule_list (r_critical r);
     Some \<lparr>r_auxiliary = auxiliary, r_educational = educational,
           r_repository_context = repository_context, r_code_targets = code_targets,
           r_read_actions = read_actions, r_mutation_actions = mutation_actions,
           r_review_actions = review_actions, r_read_only = read_only, r_docs = docs,
           r_browser = browser, r_image = image, r_strong = strong,
           r_architecture = architecture, r_high_complexity = high_complexity,
           r_critical = critical\<rparr>
   }"

record RoutingPolicyModel =
  p_schema_version :: string
  p_policy_version :: string
  p_thresholds :: RoutingThresholds
  p_planner_routes :: "string list"
  p_rules :: RoutingRules
  p_llm_signal :: LlmSignalPolicy

definition required_planner_routes :: "string set" where
  "required_planner_routes =
     {''strong_chat'', ''local_code'', ''codex'', ''docs'', ''browser'', ''image'', ''voice'', ''vision''}"

definition unique_names :: "string list \<Rightarrow> string list option" where
  "unique_names values =
     (if length values \<noteq> card (set values) then None
      else if set values \<noteq> required_planner_routes then None
      else Some values)"

definition validate_RoutingPolicy :: "RoutingPolicyModel \<Rightarrow> RoutingPolicyModel option" where
  "validate_RoutingPolicy p = do {
     schema \<leftarrow> require (p_schema_version p = ''1.0'') (p_schema_version p);
     version \<leftarrow> bounded_len 1 64 (p_policy_version p);
     thresholds \<leftarrow> require (valid_RoutingThresholds (p_thresholds p)) (p_thresholds p);
     routes0 \<leftarrow> bounded_len 1 32 (p_planner_routes p);
     routes \<leftarrow> unique_names routes0;
     rules \<leftarrow> validate_RoutingRules (p_rules p);
     llm \<leftarrow> require (valid_LlmSignalPolicy (p_llm_signal p)) (p_llm_signal p);
     Some (p\<lparr>p_schema_version := schema, p_policy_version := version, p_thresholds := thresholds,
             p_planner_routes := routes, p_rules := rules, p_llm_signal := llm\<rparr>)
   }"

text \<open>An accepted policy names every executor route exactly once.\<close>

lemma length_card_distinct: "length xs = card (set xs) \<longleftrightarrow> distinct xs"
  by (metis card_distinct distinct_card)

lemma unique_names_Some:
  "unique_names xs = Some ys \<longleftrightarrow> ys = xs \<and> distinct xs \<and> set xs = required_planner_routes"
  unfolding unique_names_def length_card_distinct by auto

lemma validate_rule_list_Some:
  "validate_rule_list xs = Some ys \<longleftrightarrow>
     ys = map (\<lambda>x. casefold (py_strip x)) xs \<and> distinct ys \<and> length ys \<le> 256 \<and>
     (\<forall>y \<in> set ys. y \<noteq> [] \<and> length y \<le> 128)"
  unfolding validate_rule_list_def Let_def list_ex_iff length_card_distinct
  by (force simp: not_less)

lemma accepted_policy:
  assumes "validate_RoutingPolicy p = Some q"
  shows "valid_RoutingThresholds (p_thresholds q)"
    and "set (p_planner_routes q) = required_planner_routes"
    and "1 \<le> length (p_policy_version q) \<and> length (p_policy_version q) \<le> 64"
  using assms unfolding validate_RoutingPolicy_def
  by (clarsimp simp: bind_eq_Some_conv unique_names_Some)+

end
