(* ===== verification/Router.thy ===== *)
theory Router
  imports Planner
begin

text \<open>
  The policy router of \<open>services/orchestration/router.py\<close>. \<open>route_request\<close> assigns and reassigns a
  handful of local variables; they are the record \<open>RouteDraft\<close>, each block of the function is one
  definition from drafts to drafts, in the order of the code, and \<open>route_request\<close> composes them.

  The environment of the router is a record of functions: the canonical path of a project
  (\<open>os.path.normcase\<close> of \<open>os.path.realpath\<close>, which reads the file system), the hexadecimal SHA-256
  digest of a text, \<open>urlsplit\<close> with the components the code reads (\<open>None\<close> for \<open>ValueError\<close>), and
  \<open>ipaddress.ip_address(host).is_global\<close> (\<open>None\<close> where the host is not an address literal).
\<close>

section \<open>Inputs\<close>

record CapabilitySnapshot =
  cs_statuses :: "string \<Rightarrow> AvailabilityStatus option"
  cs_checked_at :: datetime
  cs_stale :: bool

definition capability_status_of :: "CapabilitySnapshot \<Rightarrow> string \<Rightarrow> AvailabilityStatus" where
  "capability_status_of cs name =
     (if cs_stale cs then UNAVAILABLE
      else case cs_statuses cs name of None \<Rightarrow> UNAVAILABLE | Some s \<Rightarrow> s)"

record PermissionSnapshot =
  codex_cloud_approved :: bool
  browser_public_network_allowed :: bool

record FailureHistory =
  local_code_failures :: int

definition assumed_capabilities :: "datetime \<Rightarrow> AvailabilityStatus \<Rightarrow> CapabilitySnapshot" where
  "assumed_capabilities now vision =
     \<lparr>cs_statuses = Map.empty(
        ''fast_model'' \<mapsto> AVAILABLE, ''strong_model'' \<mapsto> AVAILABLE, ''qwen_code'' \<mapsto> AVAILABLE,
        ''codex'' \<mapsto> AVAILABLE, ''context7'' \<mapsto> AVAILABLE, ''browser'' \<mapsto> AVAILABLE,
        ''voice'' \<mapsto> AVAILABLE, ''vision'' \<mapsto> vision, ''image'' \<mapsto> ON_DEMAND),
      cs_checked_at = now, cs_stale = False\<rparr>"

record SplitUrl =
  su_scheme :: string
  su_hostname :: "string option"
  su_username :: "string option"
  su_password :: "string option"

record RouteEnv =
  env_canonical_path :: "string \<Rightarrow> string"
  env_sha256_hex :: "string \<Rightarrow> string"
  env_urlsplit :: "string \<Rightarrow> SplitUrl option"
  env_ip_is_global :: "string \<Rightarrow> bool option"

record ModelNames =
  fast_model :: string
  strong_model :: string
  agent_model :: string
  codex_model :: string

definition worktree_lock_reference :: "RouteEnv \<Rightarrow> string \<Rightarrow> string" where
  "worktree_lock_reference env project =
     ''worktree:'' @ take 16 (env_sha256_hex env (env_canonical_path env project))"

section \<open>Network policy\<close>

definition rstrip_dots :: "string \<Rightarrow> string" where
  "rstrip_dots s = rev (dropWhile (\<lambda>c. c = CHR ''.'') (rev s))"

definition public_url_policy_reason :: "RouteEnv \<Rightarrow> string option \<Rightarrow> string option" where
  "public_url_policy_reason env url =
     (case url of
        None \<Rightarrow> Some ''browser.url_missing''
      | Some u \<Rightarrow>
          if u = [] then Some ''browser.url_missing''
          else case env_urlsplit env u of
            None \<Rightarrow> Some ''browser.url_invalid''
          | Some parsed \<Rightarrow>
              if su_scheme parsed \<notin> {''http'', ''https''} \<or> \<not> truthy (su_hostname parsed) \<or>
                 truthy (su_username parsed) \<or> truthy (su_password parsed)
              then Some ''browser.url_invalid''
              else (let host = rstrip_dots (casefold (the (su_hostname parsed)))
                    in if host = ''localhost'' \<or>
                          list_ex (\<lambda>ending. suffix ending host) [''.localhost'', ''.local'', ''.internal'']
                       then Some ''permission.network_target_denied''
                       else case env_ip_is_global env host of
                         None \<Rightarrow> None
                       | Some is_global \<Rightarrow>
                           if \<not> is_global then Some ''permission.network_target_denied'' else None))"

section \<open>Natural route and override\<close>

definition natural_route :: "IntentSignals \<Rightarrow> RouteName" where
  "natural_route signals =
     (if is_auxiliary_request signals then AUXILIARY
      else if is_repository_action signals then
        (if is_review signals \<or> is_complexity signals \<in> {CX_HIGH, CX_CRITICAL} then CODEX else LOCAL_CODE)
      else case is_action signals of
        ACT_VOICE \<Rightarrow> VOICE
      | ACT_VISION \<Rightarrow> VISION
      | ACT_IMAGE \<Rightarrow> IMAGE
      | ACT_DOCUMENTATION \<Rightarrow> DOCS
      | ACT_BROWSER \<Rightarrow> BROWSER
      | ACT_ANALYSIS \<Rightarrow> STRONG_CHAT
      | _ \<Rightarrow> FAST_CHAT)"

definition apply_override ::
    "RouteName \<Rightarrow> RouteOverride option \<Rightarrow> bool \<Rightarrow> IntentSignals \<Rightarrow>
     RouteName \<times> OverrideDisposition \<times> string list" where
  "apply_override natural override conflict signals =
     (case override of
        None \<Rightarrow> (natural, OD_NONE, [])
      | Some ov \<Rightarrow>
          if conflict then (natural, OD_REJECTED, [''override.conflict''])
          else case ov of
            OV_LOCAL \<Rightarrow>
              if is_repository_action signals then (LOCAL_CODE, OD_APPLIED, [''override.local.applied''])
              else if natural \<in> {IMAGE, VOICE, VISION} then (natural, OD_APPLIED, [''override.local.applied''])
              else (if is_complexity signals \<noteq> CX_LOW then STRONG_CHAT else FAST_CHAT,
                    OD_APPLIED, [''override.local.applied''])
          | OV_CODEX \<Rightarrow>
              if \<not> (is_repository_action signals \<or> is_architecture signals \<or> is_programming signals)
              then (natural, OD_REJECTED, [''override.codex.rejected_not_applicable''])
              else (CODEX, OD_APPLIED, [''override.codex.applied''])
          | OV_VOICE \<Rightarrow> (VOICE, OD_APPLIED, [''override.'' @ override_value ov @ ''.applied''])
          | OV_VISION \<Rightarrow> (VISION, OD_APPLIED, [''override.'' @ override_value ov @ ''.applied''])
          | OV_IMAGE \<Rightarrow> (IMAGE, OD_APPLIED, [''override.'' @ override_value ov @ ''.applied''])
          | OV_BROWSER \<Rightarrow> (BROWSER, OD_APPLIED, [''override.'' @ override_value ov @ ''.applied'']))"

fun capability_by_route :: "RouteName \<Rightarrow> string" where
  "capability_by_route AUXILIARY = ''fast_model''"
| "capability_by_route FAST_CHAT = ''fast_model''"
| "capability_by_route STRONG_CHAT = ''strong_model''"
| "capability_by_route LOCAL_CODE = ''qwen_code''"
| "capability_by_route CODEX = ''codex''"
| "capability_by_route CODEX_BUNDLE = ''codex''"
| "capability_by_route DOCS = ''context7''"
| "capability_by_route BROWSER = ''browser''"
| "capability_by_route IMAGE = ''image''"
| "capability_by_route VOICE = ''voice''"
| "capability_by_route VISION = ''vision''"

fun executor_by_route :: "RouteName \<Rightarrow> ExecutorName" where
  "executor_by_route AUXILIARY = FAST_OLLAMA"
| "executor_by_route FAST_CHAT = FAST_OLLAMA"
| "executor_by_route STRONG_CHAT = STRONG_OLLAMA"
| "executor_by_route LOCAL_CODE = QWEN_CODE"
| "executor_by_route CODEX = CODEX_CLI"
| "executor_by_route CODEX_BUNDLE = EX_CODEX_BUNDLE"
| "executor_by_route DOCS = QWEN_CODE"
| "executor_by_route BROWSER = PLAYWRIGHT"
| "executor_by_route IMAGE = COMFYUI"
| "executor_by_route VOICE = WHISPER"
| "executor_by_route VISION = DEGRADED_RESPONSE"

section \<open>The blocks of route_request\<close>

record RouteDraft =
  dr_route :: RouteName
  dr_executor :: ExecutorName
  dr_reasons :: "string list"
  dr_blocking :: "string list"
  dr_status :: DecisionStatus
  dr_permission :: PermissionDisposition
  dr_capability :: string
  dr_capability_status :: AvailabilityStatus

definition deny :: "string \<Rightarrow> RouteDraft \<Rightarrow> RouteDraft" where
  "deny code d = d\<lparr>dr_blocking := dr_blocking d @ [code], dr_status := DS_BLOCKED, dr_permission := PD_DENIED\<rparr>"

definition block :: "string \<Rightarrow> RouteDraft \<Rightarrow> RouteDraft" where
  "block code d = d\<lparr>dr_blocking := dr_blocking d @ [code], dr_status := DS_BLOCKED\<rparr>"

definition apply_if :: "bool \<Rightarrow> ('a \<Rightarrow> 'a) \<Rightarrow> 'a \<Rightarrow> 'a" where
  "apply_if c f x = (if c then f x else x)"

definition initial_draft :: "RouteName \<Rightarrow> string list \<Rightarrow> RouteDraft" where
  "initial_draft route reasons =
     \<lparr>dr_route = route, dr_executor = executor_by_route route, dr_reasons = reasons, dr_blocking = [],
      dr_status = DS_READY, dr_permission = PD_ALLOWED, dr_capability = capability_by_route route,
      dr_capability_status = UNAVAILABLE\<rparr>"

definition project_is_resolved :: "NormalizedRequestV1 \<Rightarrow> bool" where
  "project_is_resolved request \<longleftrightarrow>
     truthy (nr_project_hint request) \<and>
     (case nr_project_resolution request of None \<Rightarrow> True | Some res \<Rightarrow> pr_status res = PR_RESOLVED)"

definition permission_block :: "NormalizedRequestV1 \<Rightarrow> IntentSignals \<Rightarrow> RouteDraft \<Rightarrow> RouteDraft" where
  "permission_block request signals d0 =
     (let needs_project = (dr_route d0 \<in> {LOCAL_CODE, CODEX} \<and> is_repository_action signals);
          explicit_invalid = (case nr_project_resolution request of
             None \<Rightarrow> False | Some res \<Rightarrow> pr_status res = PR_INVALID);
          d1 = apply_if (needs_project \<and> \<not> project_is_resolved request)
                 (deny (if explicit_invalid then ''project.explicit_invalid'' else ''project.missing'')) d0;
          d2 = apply_if (is_permission_conflict signals) (deny ''permission.read_only_conflict'') d1;
          d3 = apply_if (nr_override_conflict request) (deny ''override.conflict'') d2
      in if nr_routing_override request = Some OV_LOCAL \<and>
            is_complexity signals = CX_CRITICAL \<and> is_repository_action signals
         then deny ''permission.critical_action_denied'' d3
         else if nr_routing_override request = Some OV_LOCAL \<and>
            is_complexity signals = CX_HIGH \<and> is_repository_action signals \<and>
            is_execution_mode signals = MODE_WRITE
         then deny ''permission.high_risk_local_override_denied'' d3
         else d3)"

definition input_block ::
    "RouteEnv \<Rightarrow> PermissionSnapshot \<Rightarrow> IntentSignals \<Rightarrow> RouteDraft \<Rightarrow> RouteDraft" where
  "input_block env permissions signals d0 =
     (let d1 = (if dr_route d0 = BROWSER then
                  (case public_url_policy_reason env (is_public_url signals) of
                     Some url_reason \<Rightarrow> deny url_reason d0
                   | None \<Rightarrow> apply_if (\<not> browser_public_network_allowed permissions)
                               (deny ''permission.network_access_denied'') d0)
                else d0);
          d2 = apply_if (dr_route d1 = VOICE \<and> \<not> is_audio_attachment signals)
                 (block ''voice.attachment_missing'') d1
      in apply_if (dr_route d2 = VISION \<and> \<not> is_image_attachment signals)
           (block ''vision.attachment_missing'') d2)"

definition budget_block :: "NormalizedRequestV1 \<Rightarrow> PlanV1 option \<Rightarrow> RouteDraft \<Rightarrow> RouteDraft" where
  "budget_block request plan d =
     (if dr_route d = LOCAL_CODE \<and> dr_status d = DS_READY \<and>
         (case plan of None \<Rightarrow> False
          | Some p \<Rightarrow> plan_exceeds_agent_input_budget p (Some (nr_user_message request))
                       agent_prompt_wrapper_reserve_tokens)
      then d\<lparr>dr_blocking := dr_blocking d @ [''context.agent_input_exceeds_budget''],
             dr_reasons := dr_reasons d @ [''context.fail_closed''], dr_status := DS_BLOCKED\<rparr>
      else d)"

definition degrade :: "RouteDraft \<Rightarrow> RouteDraft" where
  "degrade d = (if dr_status d = DS_READY then d\<lparr>dr_status := DS_DEGRADED\<rparr> else d)"

definition capability_block :: "CapabilitySnapshot \<Rightarrow> RouteDraft \<Rightarrow> RouteDraft" where
  "capability_block capabilities d0 =
     (let capability = capability_by_route (dr_route d0);
          status = capability_status_of capabilities capability;
          d1 = d0\<lparr>dr_capability := capability, dr_capability_status := status\<rparr>
      in if status \<in> {UNAVAILABLE, DISABLED} then
           degrade (d1\<lparr>dr_reasons := dr_reasons d1 @ [''capability.'' @ capability @ ''.unavailable'']\<rparr>)
         else if status = DEGRADED then
           degrade (d1\<lparr>dr_reasons := dr_reasons d1 @ [''capability.'' @ capability @ ''.degraded'']\<rparr>)
         else d1)"

definition executor_block :: "RouteDraft \<Rightarrow> RouteDraft" where
  "executor_block d =
     d\<lparr>dr_executor := (if dr_status d \<noteq> DS_READY then DEGRADED_RESPONSE else executor_by_route (dr_route d))\<rparr>"

definition cloud_block :: "PermissionSnapshot \<Rightarrow> RouteDraft \<Rightarrow> RouteDraft" where
  "cloud_block permissions d =
     (if dr_route d = CODEX \<and> dr_permission d \<noteq> PD_DENIED then
        (if \<not> codex_cloud_approved permissions then
           d\<lparr>dr_permission := PD_APPROVAL_REQUIRED,
             dr_blocking := (if ''permission.cloud_approval_required'' \<notin> set (dr_blocking d)
                             then dr_blocking d @ [''permission.cloud_approval_required'']
                             else dr_blocking d),
             dr_reasons := dr_reasons d @ [''fallback.codex_bundle'', ''permission.cloud_approval_required''],
             dr_executor := EX_CODEX_BUNDLE, dr_status := DS_BLOCKED\<rparr>
         else if dr_capability_status d \<notin> {AVAILABLE, ON_DEMAND} then
           d\<lparr>dr_executor := EX_CODEX_BUNDLE, dr_reasons := dr_reasons d @ [''fallback.codex_bundle''],
             dr_status := DS_DEGRADED\<rparr>
         else d)
      else d)"

definition attempt_limit_block ::
    "CapabilitySnapshot \<Rightarrow> FailureHistory \<Rightarrow> RoutingPolicyModel \<Rightarrow> IntentSignals \<Rightarrow> RouteDraft \<Rightarrow> RouteDraft" where
  "attempt_limit_block capabilities failures policy signals d =
     (if is_repository_action signals \<and> dr_route d = LOCAL_CODE \<and> dr_status d = DS_READY \<and>
         local_code_failures failures \<ge> local_code_max_attempts (p_thresholds policy)
      then d\<lparr>dr_route := CODEX_BUNDLE, dr_executor := EX_CODEX_BUNDLE, dr_capability := ''codex'',
             dr_capability_status := capability_status_of capabilities ''codex'',
             dr_reasons := dr_reasons d @ [''failure.local_attempt_limit'', ''fallback.codex_bundle''],
             dr_blocking := dr_blocking d @ [''failure.local_attempt_limit'', ''permission.cloud_approval_required''],
             dr_status := DS_BLOCKED, dr_permission := PD_APPROVAL_REQUIRED\<rparr>
      else d)"

definition fill_blocking :: "RouteDraft \<Rightarrow> RouteDraft" where
  "fill_blocking d =
     (if dr_executor d = DEGRADED_RESPONSE \<and> dr_blocking d = []
      then d\<lparr>dr_blocking := [''capability.'' @ dr_capability d @ ''.unavailable'']\<rparr> else d)"

definition model_and_profile :: "ModelNames \<Rightarrow> ExecutorName \<Rightarrow> string option \<times> string option" where
  "model_and_profile models executor =
     (if executor = FAST_OLLAMA then (Some (fast_model models), Some ''local-fast'')
      else if executor = STRONG_OLLAMA then (Some (strong_model models), Some ''local-strong'')
      else if executor = QWEN_CODE then (Some (agent_model models), Some ''local-strong'')
      else if executor = CODEX_CLI then (Some (codex_model models), Some ''codex-high'')
      else (None, None))"

definition decision_project :: "NormalizedRequestV1 \<Rightarrow> IntentSignals \<Rightarrow> RouteName \<Rightarrow> string option" where
  "decision_project request signals route =
     (if is_repository_action signals \<and> route \<in> {LOCAL_CODE, CODEX, CODEX_BUNDLE}
      then nr_project_hint request else None)"

definition decision_locks :: "RouteEnv \<Rightarrow> string option \<Rightarrow> ExecutorName \<Rightarrow> string list" where
  "decision_locks env project executor =
     (if truthy project \<and> executor \<in> {QWEN_CODE, CODEX_CLI}
      then [worktree_lock_reference env (the project)] else []) @
     (if executor = FAST_OLLAMA then [''fast_model'']
      else if executor = STRONG_OLLAMA then [''gpu_heavy'']
      else if executor = QWEN_CODE then [''qwen_agent'', ''gpu_heavy'']
      else if executor = CODEX_CLI then [''codex_agent'']
      else if executor = COMFYUI then [''image'', ''gpu_heavy'']
      else [])"

definition decision_fallback :: "RouteName \<Rightarrow> ExecutorName \<Rightarrow> RouteFallbackV1 option" where
  "decision_fallback route executor =
     (if route = LOCAL_CODE \<and> executor = QWEN_CODE then
        Some \<lparr>rf_route = CODEX_BUNDLE, rf_executor = EX_CODEX_BUNDLE,
              rf_reason_codes = [''failure.local_attempt_limit'']\<rparr>
      else if route = CODEX \<and> executor = CODEX_CLI then
        Some \<lparr>rf_route = CODEX_BUNDLE, rf_executor = EX_CODEX_BUNDLE,
              rf_reason_codes = [''executor.codex_failure'']\<rparr>
      else None)"

definition effective_intent ::
    "OverrideDisposition \<Rightarrow> IntentSignals \<Rightarrow> RouteName \<Rightarrow> ActionKind \<times> ExecutionMode \<times> RiskLevel" where
  "effective_intent disposition signals route =
     (if disposition = OD_APPLIED \<and> \<not> is_repository_action signals then
        (let am = (case route of
             VOICE \<Rightarrow> (ACT_VOICE, MODE_READ_ONLY)
           | VISION \<Rightarrow> (ACT_VISION, MODE_READ_ONLY)
           | IMAGE \<Rightarrow> (ACT_IMAGE, MODE_WRITE)
           | BROWSER \<Rightarrow> (ACT_BROWSER, MODE_READ_ONLY)
           | _ \<Rightarrow> (is_action signals, is_execution_mode signals))
         in (fst am, snd am, if route = BROWSER then RISK_HIGH else is_risk signals))
      else (is_action signals, is_execution_mode signals, is_risk signals))"

record RouteContext =
  rc_env :: RouteEnv
  rc_capabilities :: CapabilitySnapshot
  rc_permissions :: PermissionSnapshot
  rc_failures :: FailureHistory
  rc_policy :: RoutingPolicyModel
  rc_models :: ModelNames

definition route_draft :: "RouteContext \<Rightarrow> NormalizedRequestV1 \<Rightarrow> PlanningResult \<Rightarrow> RouteDraft" where
  "route_draft ctx request planning =
     (let signals = pres_signals planning;
          ov = apply_override (natural_route signals) (nr_routing_override request)
                 (nr_override_conflict request) signals;
          d = initial_draft (fst ov) (is_reason_codes signals @ snd (snd ov));
          d = permission_block request signals d;
          d = input_block (rc_env ctx) (rc_permissions ctx) signals d;
          d = budget_block request (pres_plan planning) d;
          d = capability_block (rc_capabilities ctx) d;
          d = executor_block d;
          d = cloud_block (rc_permissions ctx) d;
          d = attempt_limit_block (rc_capabilities ctx) (rc_failures ctx) (rc_policy ctx) signals d
      in fill_blocking d)"

definition raw_decision ::
    "RouteContext \<Rightarrow> NormalizedRequestV1 \<Rightarrow> PlanningResult \<Rightarrow> RouteDraft \<Rightarrow> RouteDecisionV1" where
  "raw_decision ctx request planning d =
     (let signals = pres_signals planning;
          disposition = fst (snd (apply_override (natural_route signals) (nr_routing_override request)
                 (nr_override_conflict request) signals));
          project = decision_project request signals (dr_route d);
          eff = effective_intent disposition signals (dr_route d);
          reasons = (if pres_plan planning = None
                     then dr_reasons d @ [''planner.'' @ planning_mode_value (pres_planning_mode planning)]
                     else dr_reasons d)
      in \<lparr>rd_schema_version = ''1.0'',
          rd_request_id = nr_request_id request,
          rd_route = dr_route d,
          rd_executor = dr_executor d,
          rd_model = fst (model_and_profile (rc_models ctx) (dr_executor d)),
          rd_profile = snd (model_and_profile (rc_models ctx) (dr_executor d)),
          rd_reason_codes = dedup reasons,
          rd_risk = snd (snd eff),
          rd_fallback = decision_fallback (dr_route d) (dr_executor d),
          rd_project = project,
          rd_required_locks = decision_locks (rc_env ctx) project (dr_executor d),
          rd_policy_version = Some (p_policy_version (rc_policy ctx)),
          rd_action = Some (fst eff),
          rd_complexity = Some (is_complexity signals),
          rd_execution_mode = fst (snd eff),
          rd_requested_route = nr_routing_override request,
          rd_override_disposition = disposition,
          rd_decision_status = dr_status d,
          rd_permission_disposition = dr_permission d,
          rd_capability = Some (dr_capability d),
          rd_capability_status = dr_capability_status d,
          rd_capability_checked_at = Some (cs_checked_at (rc_capabilities ctx)),
          rd_blocking_reason_codes = dedup (dr_blocking d),
          rd_max_attempts = (if dr_route d = LOCAL_CODE
                             then local_code_max_attempts (p_thresholds (rc_policy ctx)) else 1)\<rparr>)"

definition route_request ::
    "RouteContext \<Rightarrow> NormalizedRequestV1 \<Rightarrow> PlanningResult \<Rightarrow> RouteDecisionV1 option" where
  "route_request ctx request planning =
     validate_RouteDecisionV1 (raw_decision ctx request planning (route_draft ctx request planning))"

section \<open>How the blocks change a draft\<close>

text \<open>The state of a draft before the capability block.\<close>

definition early_inv :: "RouteDraft \<Rightarrow> bool" where
  "early_inv d \<longleftrightarrow>
     dr_status d \<noteq> DS_DEGRADED \<and> (dr_status d = DS_BLOCKED \<longleftrightarrow> dr_blocking d \<noteq> []) \<and>
     dr_permission d \<noteq> PD_APPROVAL_REQUIRED \<and> (dr_permission d = PD_DENIED \<longrightarrow> dr_status d = DS_BLOCKED)"

lemmas draft_block_defs =
  deny_def block_def apply_if_def permission_block_def input_block_def budget_block_def
  capability_block_def degrade_def executor_block_def cloud_block_def attempt_limit_block_def
  fill_blocking_def

lemma deny_simps [simp]:
  "dr_route (deny c d) = dr_route d" "dr_reasons (deny c d) = dr_reasons d"
  "dr_permission (deny c d) = PD_DENIED" "dr_status (deny c d) = DS_BLOCKED"
  "dr_blocking (deny c d) = dr_blocking d @ [c]"
  by (simp_all add: deny_def)

lemma block_simps [simp]:
  "dr_route (block c d) = dr_route d" "dr_reasons (block c d) = dr_reasons d"
  "dr_permission (block c d) = dr_permission d" "dr_status (block c d) = DS_BLOCKED"
  "dr_blocking (block c d) = dr_blocking d @ [c]"
  by (simp_all add: block_def)

lemma apply_if_route: "(\<And>x. dr_route (f x) = dr_route x) \<Longrightarrow> dr_route (apply_if c f d) = dr_route d"
  by (simp add: apply_if_def)

lemma early_inv_initial: "early_inv (initial_draft route reasons)"
  by (simp add: early_inv_def initial_draft_def)

lemma early_inv_deny: "early_inv d \<Longrightarrow> early_inv (deny c d)"
  by (simp add: early_inv_def)

lemma early_inv_block: "early_inv d \<Longrightarrow> early_inv (block c d)"
  by (simp add: early_inv_def)

lemma early_inv_apply_if: "early_inv d \<Longrightarrow> (early_inv d \<Longrightarrow> early_inv (f d)) \<Longrightarrow> early_inv (apply_if c f d)"
  by (simp add: apply_if_def)

lemmas early_intros = early_inv_deny early_inv_block early_inv_apply_if

lemma early_inv_permission_block: "early_inv d \<Longrightarrow> early_inv (permission_block request signals d)"
  by (simp add: permission_block_def Let_def early_intros)

lemma early_inv_input_block: "early_inv d \<Longrightarrow> early_inv (input_block env perms signals d)"
  by (simp add: input_block_def Let_def early_intros split: option.split)

lemma early_inv_budget_block: "early_inv d \<Longrightarrow> early_inv (budget_block request plan d)"
  by (simp add: budget_block_def early_inv_def)

lemma permission_block_route [simp]: "dr_route (permission_block request signals d) = dr_route d"
  by (simp add: permission_block_def Let_def apply_if_def)

lemma input_block_route [simp]: "dr_route (input_block env perms signals d) = dr_route d"
  by (simp add: input_block_def Let_def apply_if_def split: option.split)

lemma budget_block_route [simp]: "dr_route (budget_block request plan d) = dr_route d"
  by (simp add: budget_block_def)

text \<open>The draft as the blocks up to the budget leave it, and the rest of the function after it.\<close>

definition early_draft :: "RouteContext \<Rightarrow> NormalizedRequestV1 \<Rightarrow> PlanningResult \<Rightarrow> RouteDraft" where
  "early_draft ctx request planning =
     (let signals = pres_signals planning;
          ov = apply_override (natural_route signals) (nr_routing_override request)
                 (nr_override_conflict request) signals
      in budget_block request (pres_plan planning)
           (input_block (rc_env ctx) (rc_permissions ctx) signals
             (permission_block request signals
               (initial_draft (fst ov) (is_reason_codes signals @ snd (snd ov))))))"

definition late_blocks :: "RouteContext \<Rightarrow> IntentSignals \<Rightarrow> RouteDraft \<Rightarrow> RouteDraft" where
  "late_blocks ctx signals d =
     fill_blocking (attempt_limit_block (rc_capabilities ctx) (rc_failures ctx) (rc_policy ctx) signals
       (cloud_block (rc_permissions ctx) (executor_block (capability_block (rc_capabilities ctx) d))))"

lemma route_draft_split:
  "route_draft ctx request planning = late_blocks ctx (pres_signals planning) (early_draft ctx request planning)"
  by (simp add: route_draft_def late_blocks_def early_draft_def Let_def)

lemma early_draft_inv: "early_inv (early_draft ctx request planning)"
  by (simp add: early_draft_def Let_def early_inv_initial early_inv_permission_block
      early_inv_input_block early_inv_budget_block)

text \<open>What the late blocks make of a draft that satisfies the invariant.\<close>

definition late_inv :: "RouteContext \<Rightarrow> RouteDraft \<Rightarrow> bool" where
  "late_inv ctx d \<longleftrightarrow>
     dr_executor d \<in> allowed_executors (dr_route d) \<and>
     (dr_permission d = PD_DENIED \<longrightarrow> dr_status d = DS_BLOCKED \<and> dr_executor d = DEGRADED_RESPONSE) \<and>
     (dr_permission d = PD_APPROVAL_REQUIRED \<longrightarrow> dr_status d = DS_BLOCKED \<and> dr_executor d = EX_CODEX_BUNDLE) \<and>
     (dr_status d = DS_BLOCKED \<longrightarrow>
        dr_blocking d \<noteq> [] \<and> dr_executor d \<in> {DEGRADED_RESPONSE, EX_CODEX_BUNDLE}) \<and>
     (dr_status d = DS_DEGRADED \<longrightarrow> dr_executor d \<in> {DEGRADED_RESPONSE, EX_CODEX_BUNDLE}) \<and>
     (dr_status d = DS_READY \<longrightarrow>
        dr_executor d = executor_by_route (dr_route d) \<and> dr_permission d = PD_ALLOWED \<and>
        dr_capability d = capability_by_route (dr_route d) \<and>
        dr_capability_status d \<in> {AVAILABLE, ON_DEMAND} \<and>
        (dr_blocking d = [] \<or> dr_route d = VISION)) \<and>
     (dr_executor d = CODEX_CLI \<longrightarrow> codex_cloud_approved (rc_permissions ctx) \<and> dr_status d = DS_READY \<and> dr_route d = CODEX) \<and>
     dr_capability_status d = capability_status_of (rc_capabilities ctx) (dr_capability d)"

lemma executor_by_route_allowed: "executor_by_route r \<in> allowed_executors r"
  by (cases r) auto


text \<open>After the executor is chosen; the two blocks that follow may still move it to the bundle.\<close>

definition mid_inv :: "RouteContext \<Rightarrow> RouteDraft \<Rightarrow> bool" where
  "mid_inv ctx d \<longleftrightarrow>
     (dr_status d = DS_BLOCKED \<longleftrightarrow> dr_blocking d \<noteq> []) \<and>
     dr_permission d \<noteq> PD_APPROVAL_REQUIRED \<and> (dr_permission d = PD_DENIED \<longrightarrow> dr_status d = DS_BLOCKED) \<and>
     dr_executor d = (if dr_status d = DS_READY then executor_by_route (dr_route d) else DEGRADED_RESPONSE) \<and>
     dr_capability d = capability_by_route (dr_route d) \<and>
     dr_capability_status d = capability_status_of (rc_capabilities ctx) (dr_capability d) \<and>
     (dr_status d = DS_READY \<longrightarrow> dr_capability_status d \<in> {AVAILABLE, ON_DEMAND})"

lemma capability_block_route [simp]: "dr_route (capability_block cs d) = dr_route d"
  by (simp add: capability_block_def Let_def degrade_def)

lemma executor_block_route [simp]: "dr_route (executor_block d) = dr_route d"
  by (simp add: executor_block_def)

lemma cloud_block_route [simp]: "dr_route (cloud_block ps d) = dr_route d"
  by (simp add: cloud_block_def)

lemma fill_blocking_route [simp]: "dr_route (fill_blocking d) = dr_route d"
  by (simp add: fill_blocking_def)

lemma mid_inv_blocks:
  assumes "early_inv d"
  shows "mid_inv ctx (executor_block (capability_block (rc_capabilities ctx) d))"
proof (cases "capability_status_of (rc_capabilities ctx) (capability_by_route (dr_route d))")
qed (use assms in \<open>auto simp: early_inv_def mid_inv_def capability_block_def executor_block_def Let_def degrade_def\<close>)

lemma late_inv_cloud_block:
  assumes m: "mid_inv ctx d" and r: "dr_route d \<noteq> CODEX_BUNDLE"
  shows "late_inv ctx (fill_blocking (cloud_block (rc_permissions ctx) d))"
proof (cases "dr_route d = CODEX \<and> dr_permission d \<noteq> PD_DENIED")
  case True
  with m show ?thesis
    by (cases "codex_cloud_approved (rc_permissions ctx)"; cases "dr_status d"; cases "dr_permission d")
      (simp_all add: mid_inv_def late_inv_def cloud_block_def fill_blocking_def)
next
  case False
  then have *: "cloud_block (rc_permissions ctx) d = d" by (auto simp: cloud_block_def)
  show ?thesis
  proof (cases "dr_status d = DS_READY")
    case True
    with m False r show ?thesis
      unfolding * by (cases "dr_route d"; cases "dr_permission d")
        (simp_all add: mid_inv_def late_inv_def fill_blocking_def)
  next
    case False
    then have "dr_executor d = DEGRADED_RESPONSE" using m by (simp add: mid_inv_def)
    moreover have "DEGRADED_RESPONSE \<in> allowed_executors (dr_route d)" using r by (cases "dr_route d") auto
    ultimately show ?thesis using m False unfolding *
      by (cases "dr_status d") (auto simp: mid_inv_def late_inv_def fill_blocking_def)
  qed
qed

lemma late_blocks_inv:
  assumes e: "early_inv d" and r: "dr_route d \<noteq> CODEX_BUNDLE"
  shows "late_inv ctx (late_blocks ctx signals d)"
proof -
  let ?m = "executor_block (capability_block (rc_capabilities ctx) d)"
  let ?c = "cloud_block (rc_permissions ctx) ?m"
  have l: "late_inv ctx (fill_blocking ?c)"
    by (rule late_inv_cloud_block) (use mid_inv_blocks[OF e] r in simp_all)
  show ?thesis
  proof (cases "attempt_limit_block (rc_capabilities ctx) (rc_failures ctx) (rc_policy ctx) signals ?c = ?c")
    case True
    then show ?thesis using l by (simp add: late_blocks_def)
  next
    case False
    then show ?thesis
      by (auto simp: late_blocks_def attempt_limit_block_def fill_blocking_def late_inv_def split: if_splits)
  qed
qed

lemma natural_route_not_bundle: "natural_route signals \<noteq> CODEX_BUNDLE"
  by (simp add: natural_route_def split: ActionKind.split)

lemma apply_override_not_bundle:
  "natural \<noteq> CODEX_BUNDLE \<Longrightarrow> fst (apply_override natural override conflict signals) \<noteq> CODEX_BUNDLE"
  by (auto simp: apply_override_def split: option.split RouteOverride.split)

lemma early_draft_route:
  "dr_route (early_draft ctx request planning) =
     fst (apply_override (natural_route (pres_signals planning)) (nr_routing_override request)
       (nr_override_conflict request) (pres_signals planning))"
  by (simp add: early_draft_def Let_def initial_draft_def)

lemma route_draft_inv: "late_inv ctx (route_draft ctx request planning)"
  unfolding route_draft_split
  by (rule late_blocks_inv[OF early_draft_inv])
    (simp add: early_draft_route apply_override_not_bundle natural_route_not_bundle)

text \<open>No block makes a draft ready again.\<close>

lemma degrade_not_ready: "dr_status (degrade d) \<noteq> DS_READY"
  by (simp add: degrade_def)

lemma capability_block_not_ready:
  "dr_status d \<noteq> DS_READY \<Longrightarrow> dr_status (capability_block cs d) \<noteq> DS_READY"
  by (simp add: capability_block_def Let_def degrade_not_ready)

lemma executor_block_status [simp]: "dr_status (executor_block d) = dr_status d"
  by (simp add: executor_block_def)

lemma cloud_block_not_ready:
  "dr_status d \<noteq> DS_READY \<Longrightarrow> dr_status (cloud_block ps d) \<noteq> DS_READY"
  by (simp add: cloud_block_def)

lemma attempt_limit_block_not_ready:
  "dr_status d \<noteq> DS_READY \<Longrightarrow> dr_status (attempt_limit_block cs fs p signals d) \<noteq> DS_READY"
  by (simp add: attempt_limit_block_def)

lemma fill_blocking_status [simp]: "dr_status (fill_blocking d) = dr_status d"
  by (simp add: fill_blocking_def)

lemma late_blocks_not_ready:
  "dr_status d \<noteq> DS_READY \<Longrightarrow> dr_status (late_blocks ctx signals d) \<noteq> DS_READY"
  unfolding late_blocks_def fill_blocking_status
  by (intro attempt_limit_block_not_ready cloud_block_not_ready)
    (simp add: capability_block_not_ready)

text \<open>Once denied, a draft stays denied.\<close>

lemma degrade_permission: "dr_permission (degrade d) = dr_permission d"
  by (simp add: degrade_def)

lemma capability_block_permission [simp]: "dr_permission (capability_block cs d) = dr_permission d"
  by (simp add: capability_block_def Let_def degrade_permission)

lemma executor_block_permission [simp]: "dr_permission (executor_block d) = dr_permission d"
  by (simp add: executor_block_def)

lemma fill_blocking_permission [simp]: "dr_permission (fill_blocking d) = dr_permission d"
  by (simp add: fill_blocking_def)

lemma deny_final:
  assumes "dr_permission d = PD_DENIED" and "early_inv d"
  shows "dr_permission (late_blocks ctx signals d) = PD_DENIED"
proof -
  let ?x = "executor_block (capability_block (rc_capabilities ctx) d)"
  have x: "dr_permission ?x = PD_DENIED" using assms(1) by simp
  have "dr_status ?x \<noteq> DS_READY"
    using assms by (simp add: capability_block_not_ready early_inv_def)
  moreover have "cloud_block (rc_permissions ctx) ?x = ?x" using x by (simp add: cloud_block_def)
  ultimately have "attempt_limit_block (rc_capabilities ctx) (rc_failures ctx) (rc_policy ctx) signals
      (cloud_block (rc_permissions ctx) ?x) = ?x"
    by (simp add: attempt_limit_block_def)
  with x show ?thesis by (simp add: late_blocks_def)
qed

lemma input_block_keeps_denied:
  "dr_permission d = PD_DENIED \<Longrightarrow> dr_permission (input_block env ps signals d) = PD_DENIED"
  by (simp add: input_block_def Let_def apply_if_def split: option.split)

lemma budget_block_keeps_denied:
  "dr_permission d = PD_DENIED \<Longrightarrow> dr_permission (budget_block request plan d) = PD_DENIED"
  by (simp add: budget_block_def)

lemma permission_block_denies:
  assumes "is_permission_conflict signals \<or> nr_override_conflict request \<or>
     (dr_route d \<in> {LOCAL_CODE, CODEX} \<and> is_repository_action signals \<and> \<not> project_is_resolved request) \<or>
     (nr_routing_override request = Some OV_LOCAL \<and> is_repository_action signals \<and>
        (is_complexity signals = CX_CRITICAL \<or>
         is_complexity signals = CX_HIGH \<and> is_execution_mode signals = MODE_WRITE))"
  shows "dr_permission (permission_block request signals d) = PD_DENIED"
  using assms by (auto simp: permission_block_def Let_def apply_if_def)

lemma route_draft_denied:
  assumes "is_permission_conflict (pres_signals planning) \<or> nr_override_conflict request \<or>
     (dr_route (early_draft ctx request planning) \<in> {LOCAL_CODE, CODEX} \<and>
        is_repository_action (pres_signals planning) \<and> \<not> project_is_resolved request) \<or>
     (nr_routing_override request = Some OV_LOCAL \<and> is_repository_action (pres_signals planning) \<and>
        (is_complexity (pres_signals planning) = CX_CRITICAL \<or>
         is_complexity (pres_signals planning) = CX_HIGH \<and>
           is_execution_mode (pres_signals planning) = MODE_WRITE))"
  shows "dr_permission (route_draft ctx request planning) = PD_DENIED"
  unfolding route_draft_split
proof (rule deny_final[OF _ early_draft_inv])
  show "dr_permission (early_draft ctx request planning) = PD_DENIED"
    unfolding early_draft_def Let_def
    by (rule budget_block_keeps_denied, rule input_block_keeps_denied, rule permission_block_denies)
      (use assms in \<open>auto simp: early_draft_route initial_draft_def\<close>)
qed

end
