(* ===== verification/RouteDecision.thy ===== *)
theory RouteDecision
  imports Router
begin

text \<open>
  What the router guarantees: the codes and locks of every draft satisfy the contract of
  \<open>RouteDecisionV1\<close>, so that a validated request is always routed, and the safety properties of the
  decision (cloud permission, denials, locks, attempt limit, prompt budget, network targets).
\<close>


section \<open>Reason codes and locks satisfy the contract\<close>

definition code_ok :: "string \<Rightarrow> bool" where
  "code_ok s \<longleftrightarrow> ReasonCode s = Some s"

lemma trim_ws_no_space: "\<forall>c \<in> set s. \<not> is_white_space c \<Longrightarrow> trim_ws s = s"
  unfolding trim_ws_def by (rule strip_by_fix) (cases s, auto)

lemma reason_code_pattern_no_space:
  "reason_code_pattern s \<Longrightarrow> \<forall>c \<in> set s. \<not> is_white_space c"
  by (auto simp: reason_code_pattern_def list_all_iff is_white_space_def is_lower_char_def
      is_digit_char_def in_class_def code_of_def Let_def split: list.splits)

lemma code_ok_iff: "code_ok s \<longleftrightarrow> reason_code_pattern s \<and> length s \<le> 128"
proof -
  have "reason_code_pattern s \<Longrightarrow> s \<noteq> []" by (auto simp: reason_code_pattern_def)
  moreover have "reason_code_pattern s \<Longrightarrow> trim_ws s = s"
    by (rule trim_ws_no_space) (rule reason_code_pattern_no_space)
  ultimately show ?thesis
    unfolding code_ok_def ReasonCode_def constrained_Some
    by (auto simp: Suc_le_eq)
qed

lemmas code_eval =
  code_ok_iff reason_code_pattern_def is_lower_char_def is_digit_char_def in_class_def code_of_def

lemma code_ok_blocking [simp]:
  "code_ok ''project.explicit_invalid''" "code_ok ''project.missing''"
  "code_ok ''permission.read_only_conflict''" "code_ok ''override.conflict''"
  "code_ok ''permission.critical_action_denied''"
  "code_ok ''permission.high_risk_local_override_denied''"
  "code_ok ''permission.network_access_denied''" "code_ok ''voice.attachment_missing''"
  "code_ok ''vision.attachment_missing''" "code_ok ''context.agent_input_exceeds_budget''"
  "code_ok ''context.fail_closed''" "code_ok ''permission.cloud_approval_required''"
  "code_ok ''failure.local_attempt_limit''" "code_ok ''fallback.codex_bundle''"
  "code_ok ''executor.codex_failure''" "code_ok ''browser.url_missing''"
  "code_ok ''browser.url_invalid''" "code_ok ''permission.network_target_denied''"
  by (simp_all add: code_eval)

lemma code_ok_signals [simp]:
  "code_ok ''action.openwebui_auxiliary''" "code_ok ''action.review_only''"
  "code_ok ''action.repository_mutation''" "code_ok ''action.repository_read''"
  "code_ok ''risk.repository_sensitive''" "code_ok ''intent.educational_question''"
  by (simp_all add: code_eval)

lemma code_ok_action [simp]: "code_ok (''action.'' @ action_value a)"
  by (cases a) (simp_all add: code_eval)

lemma code_ok_complexity [simp]: "code_ok (''complexity.'' @ complexity_value c)"
  by (cases c) (simp_all add: code_eval)

lemma code_ok_override [simp]:
  "code_ok ''override.local.applied''" "code_ok ''override.codex.applied''"
  "code_ok ''override.codex.rejected_not_applicable''"
  "code_ok ''override.voice.applied''" "code_ok ''override.vision.applied''"
  "code_ok ''override.image.applied''" "code_ok ''override.browser.applied''"
  by (simp_all add: code_eval)

lemma code_ok_capability [simp]:
  "code_ok (''capability.'' @ capability_by_route r @ ''.unavailable'')"
  "code_ok (''capability.'' @ capability_by_route r @ ''.degraded'')"
  by (cases r; simp add: code_eval)+

lemma code_ok_planner [simp]: "code_ok (''planner.'' @ planning_mode_value m)"
  by (cases m) (simp_all add: code_eval)


text \<open>Every list of codes a draft carries is well formed and short.\<close>

definition codes_inv :: "nat \<Rightarrow> nat \<Rightarrow> RouteDraft \<Rightarrow> bool" where
  "codes_inv m n d \<longleftrightarrow>
     list_all code_ok (dr_reasons d) \<and> length (dr_reasons d) \<le> m \<and>
     list_all code_ok (dr_blocking d) \<and> length (dr_blocking d) \<le> n"

lemma codes_inv_deny: "codes_inv m n d \<Longrightarrow> code_ok c \<Longrightarrow> codes_inv m (Suc n) (deny c d)"
  by (simp add: codes_inv_def)

lemma codes_inv_block: "codes_inv m n d \<Longrightarrow> code_ok c \<Longrightarrow> codes_inv m (Suc n) (block c d)"
  by (simp add: codes_inv_def)

lemma codes_inv_mono: "codes_inv m n d \<Longrightarrow> m \<le> m' \<Longrightarrow> n \<le> n' \<Longrightarrow> codes_inv m' n' d"
  by (auto simp: codes_inv_def)

lemma codes_inv_apply_if:
  "codes_inv m n d \<Longrightarrow> codes_inv m (Suc n) (f d) \<Longrightarrow> codes_inv m (Suc n) (apply_if c f d)"
  by (auto simp: apply_if_def elim: codes_inv_mono)

lemma codes_inv_deny_if:
  "codes_inv m n d \<Longrightarrow> code_ok code \<Longrightarrow> codes_inv m (Suc n) (apply_if c (deny code) d)"
  by (intro codes_inv_apply_if codes_inv_deny)

lemma codes_inv_block_if:
  "codes_inv m n d \<Longrightarrow> code_ok code \<Longrightarrow> codes_inv m (Suc n) (apply_if c (block code) d)"
  by (intro codes_inv_apply_if codes_inv_block)

lemma codes_inv_Suc: "codes_inv m n d \<Longrightarrow> codes_inv m (Suc n) d"
  by (erule codes_inv_mono) simp_all

lemma codes_inv_permission_block:
  assumes d: "codes_inv m n d"
  shows "codes_inv m (Suc (Suc (Suc (Suc n)))) (permission_block request signals d)"
proof -
  have three: "codes_inv m (Suc (Suc (Suc n)))
      (apply_if c3 (deny ''override.conflict'')
        (apply_if c2 (deny ''permission.read_only_conflict'')
          (apply_if c1 (deny (if e then ''project.explicit_invalid'' else ''project.missing'')) d)))"
    for c1 c2 c3 e
    by (rule codes_inv_deny_if, rule codes_inv_deny_if, rule codes_inv_deny_if, rule d) simp_all
  show ?thesis
    unfolding permission_block_def Let_def
    by (simp add: codes_inv_deny[OF three] codes_inv_Suc[OF three] del: if_not_P split del: if_split
        cong: if_cong split: if_split)
qed

lemma public_url_policy_reason_code_ok:
  "public_url_policy_reason env url = Some c \<Longrightarrow> code_ok c"
  by (auto simp: public_url_policy_reason_def Let_def split: option.splits if_splits)

lemma codes_inv_input_block:
  assumes d: "codes_inv m n d"
  shows "codes_inv m (Suc (Suc (Suc n))) (input_block env ps signals d)"
proof -
  have first: "codes_inv m (Suc n)
      (if dr_route d = BROWSER then
         (case public_url_policy_reason env (is_public_url signals) of
            Some url_reason \<Rightarrow> deny url_reason d
          | None \<Rightarrow> apply_if (\<not> browser_public_network_allowed ps) (deny ''permission.network_access_denied'') d)
       else d)"
    using d by (simp add: codes_inv_deny_if codes_inv_deny codes_inv_Suc
        public_url_policy_reason_code_ok split: option.split)
  show ?thesis
    unfolding input_block_def Let_def by (intro codes_inv_block_if first) simp_all
qed

lemma codes_inv_budget_block:
  "codes_inv m n d \<Longrightarrow> codes_inv (Suc m) (Suc n) (budget_block request plan d)"
  by (auto simp: budget_block_def codes_inv_def)

lemma codes_inv_capability_block:
  "codes_inv m n d \<Longrightarrow> codes_inv (Suc m) n (capability_block cs d)"
  by (simp add: capability_block_def codes_inv_def Let_def degrade_def del: append.simps)

lemma codes_inv_executor_block: "codes_inv m n d \<Longrightarrow> codes_inv m n (executor_block d)"
  by (simp add: executor_block_def codes_inv_def)

lemma codes_inv_cloud_block: "codes_inv m n d \<Longrightarrow> codes_inv (m + 2) (Suc n) (cloud_block ps d)"
  by (auto simp: cloud_block_def codes_inv_def)

lemma codes_inv_attempt_limit_block:
  "codes_inv m n d \<Longrightarrow> codes_inv (m + 2) (n + 2) (attempt_limit_block cs fs p signals d)"
  by (auto simp: attempt_limit_block_def codes_inv_def)

definition signals_ok :: "IntentSignals \<Rightarrow> bool" where
  "signals_ok signals \<longleftrightarrow>
     list_all code_ok (is_reason_codes signals) \<and> is_reason_codes signals \<noteq> [] \<and>
     length (is_reason_codes signals) \<le> 5"

lemma override_codes_ok:
  "list_all code_ok (snd (snd (apply_override natural override conflict signals))) \<and>
   length (snd (snd (apply_override natural override conflict signals))) \<le> 1"
proof (cases override)
  case (Some ov)
  then show ?thesis by (cases ov) (simp_all add: apply_override_def)
qed (simp add: apply_override_def)

lemma early_draft_codes:
  assumes "signals_ok (pres_signals planning)"
  shows "codes_inv 7 8 (early_draft ctx request planning)"
proof -
  let ?s = "pres_signals planning"
  let ?ov = "apply_override (natural_route ?s) (nr_routing_override request) (nr_override_conflict request) ?s"
  have i: "codes_inv 6 0 (initial_draft (fst ?ov) (is_reason_codes ?s @ snd (snd ?ov)))"
    using assms override_codes_ok[of "natural_route ?s" "nr_routing_override request" "nr_override_conflict request" ?s]
    by (auto simp: codes_inv_def initial_draft_def signals_ok_def)
  show ?thesis
    unfolding early_draft_def Let_def
    using codes_inv_budget_block[OF codes_inv_input_block[OF codes_inv_permission_block[OF i]]]
    by (simp add: eval_nat_numeral)
qed


text \<open>The capability named by a draft is that of some route.\<close>

lemma capability_of_blocks [simp]:
  "dr_capability (capability_block cs d) = capability_by_route (dr_route d)"
  "dr_capability (executor_block d) = dr_capability d"
  "dr_capability (cloud_block ps d) = dr_capability d"
  by (simp_all add: capability_block_def degrade_def Let_def executor_block_def cloud_block_def)

lemma late_capability:
  "\<exists>r. dr_capability (attempt_limit_block cs fs p signals (cloud_block ps (executor_block (capability_block cs d))))
     = capability_by_route r" (is "\<exists>r. dr_capability (attempt_limit_block _ _ _ _ ?c) = _")
proof (cases "attempt_limit_block cs fs p signals ?c = ?c")
  case True
  then show ?thesis by auto
next
  case False
  then have "dr_capability (attempt_limit_block cs fs p signals ?c) = capability_by_route CODEX"
    by (simp add: attempt_limit_block_def split: if_splits)
  then show ?thesis by blast
qed

lemma route_draft_codes:
  assumes "signals_ok (pres_signals planning)"
  shows "codes_inv 12 12 (route_draft ctx request planning)"
proof -
  let ?d = "attempt_limit_block (rc_capabilities ctx) (rc_failures ctx) (rc_policy ctx) (pres_signals planning)
       (cloud_block (rc_permissions ctx) (executor_block (capability_block (rc_capabilities ctx)
         (early_draft ctx request planning))))"
  have c: "codes_inv 12 11 ?d"
    using codes_inv_attempt_limit_block[OF codes_inv_cloud_block[OF codes_inv_executor_block[OF
          codes_inv_capability_block[OF early_draft_codes[OF assms]]]]]
    by (simp add: eval_nat_numeral)
  obtain r where r: "dr_capability ?d = capability_by_route r" using late_capability by blast
  have "codes_inv 12 12 (fill_blocking ?d)"
    using c by (auto simp: fill_blocking_def codes_inv_def r simp del: append.simps)
  then show ?thesis by (simp add: route_draft_split late_blocks_def)
qed

lemma facts_signals_ok: "signals_ok (signals_of_facts f t url)"
proof -
  let ?a = "fst (classify_action f)"
  let ?c = "fst (classify_complexity f t ?a)"
  have "list_all code_ok (signal_reasons f ?a ?c)"
    by (simp add: signal_reasons_def del: append.simps)
  moreover have "length (signal_reasons f ?a ?c) \<le> 5" "signal_reasons f ?a ?c \<noteq> []"
    by (simp_all add: signal_reasons_def)
  moreover have "length (dedup (signal_reasons f ?a ?c)) \<le> 5"
    using calculation(2) length_dedup[of "signal_reasons f ?a ?c"] by linarith
  ultimately show ?thesis
    by (simp add: signals_ok_def signals_of_facts_def Let_def list_all_iff)
qed

lemma override_action_reason_codes [simp]:
  "is_reason_codes (apply_override_action ov signals) = is_reason_codes signals"
  by (auto simp: apply_override_action_def split: option.split)

lemma plan_request_signals:
  "plan_request ev request policy = Some planning \<Longrightarrow>
     pres_signals planning =
       apply_override_action (nr_routing_override request) (analyze_request ev request policy)"
  by (auto simp: plan_request_def Let_def bind_eq_Some_conv split: if_splits)

lemma plan_request_signals_ok:
  "plan_request ev request policy = Some planning \<Longrightarrow> signals_ok (pres_signals planning)"
  using facts_signals_ok
  by (simp add: plan_request_signals signals_ok_def analyze_request_def)

section \<open>Locks\<close>

definition hex_digest :: "(string \<Rightarrow> string) \<Rightarrow> bool" where
  "hex_digest h \<longleftrightarrow> (\<forall>s. length (h s) = 64 \<and> list_all is_lower_hex (h s))"

definition lock_ok :: "string \<Rightarrow> bool" where
  "lock_ok s \<longleftrightarrow> ResourceLock s = Some s"

lemma resource_lock_no_space:
  "resource_lock_pattern s \<Longrightarrow> \<forall>c \<in> set s. \<not> is_white_space c"
  by (auto simp: resource_lock_pattern_def list_all_iff is_white_space_def is_lower_char_def
      is_digit_char_def in_class_def code_of_def Let_def split: list.splits)

lemma lock_ok_iff: "lock_ok s \<longleftrightarrow> resource_lock_pattern s \<and> length s \<le> 256"
proof -
  have "resource_lock_pattern s \<Longrightarrow> s \<noteq> []" by (auto simp: resource_lock_pattern_def)
  moreover have "resource_lock_pattern s \<Longrightarrow> trim_ws s = s"
    by (rule trim_ws_no_space) (rule resource_lock_no_space)
  ultimately show ?thesis
    unfolding lock_ok_def ResourceLock_def constrained_Some by (auto simp: Suc_le_eq)
qed

lemmas lock_eval =
  lock_ok_iff resource_lock_pattern_def is_lower_char_def is_digit_char_def in_class_def code_of_def

lemma lock_ok_literals [simp]:
  "lock_ok ''fast_model''" "lock_ok ''gpu_heavy''" "lock_ok ''qwen_agent''" "lock_ok ''codex_agent''"
  "lock_ok ''image''"
  by (simp_all add: lock_eval)

lemma hex_chars_lock:
  "list_all is_lower_hex h \<Longrightarrow>
     list_all (\<lambda>d. is_lower_char d \<or> is_digit_char d \<or> in_class d ''_.:-'') (take n h)"
  by (auto simp: list_all_iff is_lower_hex_def is_lower_char_def dest: in_set_takeD)

lemma lock_ok_worktree:
  assumes "hex_digest (env_sha256_hex env)"
  shows "lock_ok (worktree_lock_reference env project)"
proof -
  let ?h = "env_sha256_hex env (env_canonical_path env project)"
  have "list_all is_lower_hex ?h" using assms by (simp add: hex_digest_def)
  from hex_chars_lock[OF this, of 16]
  show ?thesis by (simp add: worktree_lock_reference_def lock_eval)
qed

lemma worktree_lock_head: "hd (worktree_lock_reference env project) = CHR ''w''"
  by (simp add: worktree_lock_reference_def)

lemma decision_locks_distinct: "distinct (decision_locks env project executor)"
proof -
  have "worktree_lock_reference env (the project) \<notin> {''qwen_agent'', ''gpu_heavy'', ''codex_agent''}"
    using worktree_lock_head[of env "the project"] by auto
  then show ?thesis by (auto simp: decision_locks_def)
qed

lemma decision_locks_ok:
  "hex_digest (env_sha256_hex env) \<Longrightarrow> list_all lock_ok (decision_locks env project executor)"
  by (auto simp: decision_locks_def lock_ok_worktree)

lemma decision_locks_length: "length (decision_locks env project executor) \<le> 3"
  by (simp add: decision_locks_def)


section \<open>The router accepts every validated request\<close>

lemma late_invD:
  assumes "late_inv ctx d"
  shows "dr_executor d \<in> allowed_executors (dr_route d)"
    and "dr_permission d = PD_DENIED \<Longrightarrow> dr_status d = DS_BLOCKED \<and> dr_executor d = DEGRADED_RESPONSE"
    and "dr_permission d = PD_APPROVAL_REQUIRED \<Longrightarrow>
           dr_status d = DS_BLOCKED \<and> dr_executor d = EX_CODEX_BUNDLE"
    and "dr_status d = DS_BLOCKED \<Longrightarrow>
           dr_blocking d \<noteq> [] \<and> dr_executor d \<in> {DEGRADED_RESPONSE, EX_CODEX_BUNDLE}"
    and "dr_status d = DS_DEGRADED \<Longrightarrow> dr_executor d \<in> {DEGRADED_RESPONSE, EX_CODEX_BUNDLE}"
    and "dr_status d = DS_READY \<Longrightarrow>
           dr_executor d = executor_by_route (dr_route d) \<and> dr_permission d = PD_ALLOWED \<and>
           dr_capability d = capability_by_route (dr_route d) \<and>
           dr_capability_status d \<in> {AVAILABLE, ON_DEMAND} \<and>
           (dr_blocking d = [] \<or> dr_route d = VISION)"
    and "dr_executor d = CODEX_CLI \<Longrightarrow>
           codex_cloud_approved (rc_permissions ctx) \<and> dr_status d = DS_READY \<and> dr_route d = CODEX"
  using assms unfolding late_inv_def by blast+

lemma accepted_request_fields:
  assumes "validate_NormalizedRequestV1 raw = Some request"
  shows "Identifier (nr_request_id request) = Some (nr_request_id request)"
    and "LongText (nr_user_message request) = Some (nr_user_message request)"
    and "optional Reference (nr_project_hint request) = Some (nr_project_hint request)"
    and "optional reference_without_inline_data (nr_project_hint request) = Some (nr_project_hint request)"
  using validate_NormalizedRequestV1_idem[OF assms] assms
  by (clarsimp simp: validate_NormalizedRequestV1_def bind_eq_Some_conv contract_idem)+

text \<open>A context the gateway builds: stripped model names, a UTC check time, SHA-256 digests.\<close>

definition context_ok :: "RouteContext \<Rightarrow> bool" where
  "context_ok ctx \<longleftrightarrow>
     list_all (\<lambda>m. ShortName m = Some m)
       [fast_model (rc_models ctx), strong_model (rc_models ctx),
        agent_model (rc_models ctx), codex_model (rc_models ctx),
        p_policy_version (rc_policy ctx)] \<and>
     aware_utc (cs_checked_at (rc_capabilities ctx)) = Some (cs_checked_at (rc_capabilities ctx)) \<and>
     hex_digest (env_sha256_hex (rc_env ctx))"

lemma ShortName_profiles [simp]:
  "ShortName ''local-fast'' = Some ''local-fast''"
  "ShortName ''local-strong'' = Some ''local-strong''"
  "ShortName ''codex-high'' = Some ''codex-high''"
  by (simp_all add: ShortName_def constrained_def trim_ws_def strip_by_def is_white_space_def code_of_def)

lemma ShortName_capability [simp]:
  "ShortName (capability_by_route r) = Some (capability_by_route r)"
  by (cases r) (simp_all add: ShortName_def constrained_def trim_ws_def strip_by_def
      is_white_space_def code_of_def)

lemma model_and_profile_ok:
  assumes "context_ok ctx"
  shows "optional ShortName (fst (model_and_profile (rc_models ctx) e)) = Some (fst (model_and_profile (rc_models ctx) e))"
    and "optional ShortName (snd (model_and_profile (rc_models ctx) e)) = Some (snd (model_and_profile (rc_models ctx) e))"
  using assms by (simp_all add: model_and_profile_def context_ok_def)

lemma decision_fallback_ok:
  "optional validate_RouteFallbackV1 (decision_fallback r e) = Some (decision_fallback r e)"
proof -
  have "validate_RouteFallbackV1 f = Some f"
    if "rf_route f = CODEX_BUNDLE" "rf_executor f = EX_CODEX_BUNDLE" "rf_reason_codes f = [c]" "code_ok c" for f c
    using that by (simp add: validate_RouteFallbackV1_def compatible_route_executor_def code_ok_def
        bind_eq_Some_conv)
  then show ?thesis by (simp add: decision_fallback_def)
qed

lemma mapM_codes_ok: "list_all code_ok xs \<Longrightarrow> mapM ReasonCode xs = Some xs"
  by (rule mapM_fixpoint) (simp add: list_all_iff code_ok_def)

lemma mapM_locks_ok: "list_all lock_ok xs \<Longrightarrow> mapM ResourceLock xs = Some xs"
  by (rule mapM_fixpoint) (simp add: list_all_iff lock_ok_def)

lemma list_all_dedup [simp]: "list_all p (dedup xs) = list_all p xs"
  by (simp add: list_all_iff)

lemma length_dedup_le: "length xs \<le> n \<Longrightarrow> length (dedup xs) \<le> n"
  using length_dedup[of xs] by linarith

lemma route_draft_capability:
  "\<exists>r. dr_capability (route_draft ctx request planning) = capability_by_route r"
  unfolding route_draft_split late_blocks_def using late_capability
  by (simp add: fill_blocking_def)

text \<open>No block drops a reason.\<close>

lemma reasons_grow:
  "prefix (dr_reasons d) (dr_reasons (permission_block request signals d))"
  "prefix (dr_reasons d) (dr_reasons (input_block env ps signals d))"
  "prefix (dr_reasons d) (dr_reasons (budget_block request plan d))"
  "prefix (dr_reasons d) (dr_reasons (capability_block cs d))"
  "prefix (dr_reasons d) (dr_reasons (executor_block d))"
  "prefix (dr_reasons d) (dr_reasons (cloud_block ps d))"
  "prefix (dr_reasons d) (dr_reasons (attempt_limit_block cs fs p signals d))"
  "prefix (dr_reasons d) (dr_reasons (fill_blocking d))"
  by (simp_all add: permission_block_def input_block_def budget_block_def capability_block_def
      executor_block_def cloud_block_def attempt_limit_block_def fill_blocking_def degrade_def
      apply_if_def Let_def split: option.split)

lemma route_draft_reasons_prefix:
  "prefix (is_reason_codes (pres_signals planning)) (dr_reasons (route_draft ctx request planning))"
proof -
  let ?s = "pres_signals planning"
  let ?ov = "apply_override (natural_route ?s) (nr_routing_override request) (nr_override_conflict request) ?s"
  let ?i = "initial_draft (fst ?ov) (is_reason_codes ?s @ snd (snd ?ov))"
  have start: "prefix (is_reason_codes ?s) (dr_reasons ?i)" by (simp add: initial_draft_def)
  show ?thesis
    unfolding route_draft_def Let_def
    by (rule prefix_order.order_trans[OF _ reasons_grow(8)],
        rule prefix_order.order_trans[OF _ reasons_grow(7)],
        rule prefix_order.order_trans[OF _ reasons_grow(6)],
        rule prefix_order.order_trans[OF _ reasons_grow(5)],
        rule prefix_order.order_trans[OF _ reasons_grow(4)],
        rule prefix_order.order_trans[OF _ reasons_grow(3)],
        rule prefix_order.order_trans[OF _ reasons_grow(2)],
        rule prefix_order.order_trans[OF _ reasons_grow(1)], rule start)
qed

lemma route_draft_reasons_nonempty:
  assumes "signals_ok (pres_signals planning)"
  shows "dr_reasons (route_draft ctx request planning) \<noteq> []"
  using assms route_draft_reasons_prefix[of planning ctx request] by (auto simp: signals_ok_def)

lemma validate_decision_fixed:
  assumes "rd_schema_version r = ''1.0''"
    and "Identifier (rd_request_id r) = Some (rd_request_id r)"
    and "optional ShortName (rd_model r) = Some (rd_model r)"
    and "optional ShortName (rd_profile r) = Some (rd_profile r)"
    and "list_all code_ok (rd_reason_codes r)" "distinct (rd_reason_codes r)"
    and "rd_reason_codes r \<noteq> []" "length (rd_reason_codes r) \<le> 32"
    and "optional validate_RouteFallbackV1 (rd_fallback r) = Some (rd_fallback r)"
    and "optional Reference (rd_project r) = Some (rd_project r)"
    and "optional reference_without_inline_data (rd_project r) = Some (rd_project r)"
    and "list_all lock_ok (rd_required_locks r)" "distinct (rd_required_locks r)"
    and "length (rd_required_locks r) \<le> 32"
    and "optional ShortName (rd_policy_version r) = Some (rd_policy_version r)"
    and "optional ShortName (rd_capability r) = Some (rd_capability r)"
    and "optional aware_utc (rd_capability_checked_at r) = Some (rd_capability_checked_at r)"
    and "list_all code_ok (rd_blocking_reason_codes r)" "distinct (rd_blocking_reason_codes r)"
    and "length (rd_blocking_reason_codes r) \<le> 32"
    and "0 \<le> rd_max_attempts r" "rd_max_attempts r \<le> 10"
    and "compatible_route_executor (rd_route r) (rd_executor r)"
  shows "validate_RouteDecisionV1 r = Some r"
proof -
  have "1 \<le> length (rd_reason_codes r)" using assms(7) by (cases "rd_reason_codes r") auto
  then show ?thesis
    unfolding validate_RouteDecisionV1_def
    using assms by (simp add: mapM_codes_ok mapM_locks_ok bind_eq_Some_conv)
qed

definition decision_reasons :: "PlanningResult \<Rightarrow> RouteDraft \<Rightarrow> string list" where
  "decision_reasons planning d =
     (if pres_plan planning = None
      then dr_reasons d @ [''planner.'' @ planning_mode_value (pres_planning_mode planning)]
      else dr_reasons d)"

lemma raw_decision_fields [simp]:
  "rd_schema_version (raw_decision ctx request planning d) = ''1.0''"
  "rd_request_id (raw_decision ctx request planning d) = nr_request_id request"
  "rd_route (raw_decision ctx request planning d) = dr_route d"
  "rd_executor (raw_decision ctx request planning d) = dr_executor d"
  "rd_model (raw_decision ctx request planning d) = fst (model_and_profile (rc_models ctx) (dr_executor d))"
  "rd_profile (raw_decision ctx request planning d) = snd (model_and_profile (rc_models ctx) (dr_executor d))"
  "rd_reason_codes (raw_decision ctx request planning d) = dedup (decision_reasons planning d)"
  "rd_fallback (raw_decision ctx request planning d) = decision_fallback (dr_route d) (dr_executor d)"
  "rd_project (raw_decision ctx request planning d) =
     decision_project request (pres_signals planning) (dr_route d)"
  "rd_required_locks (raw_decision ctx request planning d) =
     decision_locks (rc_env ctx) (decision_project request (pres_signals planning) (dr_route d)) (dr_executor d)"
  "rd_policy_version (raw_decision ctx request planning d) = Some (p_policy_version (rc_policy ctx))"
  "rd_decision_status (raw_decision ctx request planning d) = dr_status d"
  "rd_permission_disposition (raw_decision ctx request planning d) = dr_permission d"
  "rd_capability (raw_decision ctx request planning d) = Some (dr_capability d)"
  "rd_capability_status (raw_decision ctx request planning d) = dr_capability_status d"
  "rd_capability_checked_at (raw_decision ctx request planning d) = Some (cs_checked_at (rc_capabilities ctx))"
  "rd_blocking_reason_codes (raw_decision ctx request planning d) = dedup (dr_blocking d)"
  "rd_max_attempts (raw_decision ctx request planning d) =
     (if dr_route d = LOCAL_CODE then local_code_max_attempts (p_thresholds (rc_policy ctx)) else 1)"
  by (simp_all add: raw_decision_def Let_def decision_reasons_def)

lemma decision_reasons_ok:
  assumes "signals_ok (pres_signals planning)"
  shows "list_all code_ok (decision_reasons planning (route_draft ctx request planning))"
    and "length (decision_reasons planning (route_draft ctx request planning)) \<le> 32"
    and "decision_reasons planning (route_draft ctx request planning) \<noteq> []"
  using route_draft_codes[OF assms, of ctx request] route_draft_reasons_nonempty[OF assms, of ctx request]
  by (simp_all add: decision_reasons_def codes_inv_def del: append.simps)

lemma raw_decision_valid:
  assumes req: "validate_NormalizedRequestV1 raw = Some request"
    and pol: "validate_RoutingPolicy p = Some (rc_policy ctx)"
    and ctx: "context_ok ctx"
    and sig: "signals_ok (pres_signals planning)"
  shows "validate_RouteDecisionV1 (raw_decision ctx request planning (route_draft ctx request planning)) =
           Some (raw_decision ctx request planning (route_draft ctx request planning))"
    (is "validate_RouteDecisionV1 ?r = Some ?r")
proof -
  let ?d = "route_draft ctx request planning"
  note req_fields = accepted_request_fields[OF req]
  have codes: "list_all code_ok (dr_blocking ?d)" "length (dr_blocking ?d) \<le> 32"
    using route_draft_codes[OF sig, of ctx request] by (simp_all add: codes_inv_def)
  obtain r where cap: "dr_capability ?d = capability_by_route r" using route_draft_capability by blast
  have thr: "1 \<le> local_code_max_attempts (p_thresholds (rc_policy ctx))"
    "local_code_max_attempts (p_thresholds (rc_policy ctx)) \<le> 4"
    using accepted_policy(1)[OF pol] by (simp_all add: valid_RoutingThresholds_def)
  have "rd_project ?r = nr_project_hint request \<or> rd_project ?r = None"
    by (simp add: decision_project_def)
  then have hint: "optional Reference (rd_project ?r) = Some (rd_project ?r)"
    "optional reference_without_inline_data (rd_project ?r) = Some (rd_project ?r)"
    by (elim disjE; simp only: req_fields(3,4) optional_simps)+
  have compat: "compatible_route_executor (dr_route ?d) (dr_executor ?d)"
    using late_invD(1)[OF route_draft_inv] by (simp only: compatible_route_executor_def)
  have reasons: "list_all code_ok (rd_reason_codes ?r)" "rd_reason_codes ?r \<noteq> []"
    "length (rd_reason_codes ?r) \<le> 32"
    using decision_reasons_ok[OF sig, of ctx request] by (simp_all add: length_dedup_le)
  have blocking: "list_all code_ok (rd_blocking_reason_codes ?r)" "length (rd_blocking_reason_codes ?r) \<le> 32"
    using codes by (simp_all add: length_dedup_le)
  have locks: "list_all lock_ok (rd_required_locks ?r)" "length (rd_required_locks ?r) \<le> 32"
    using ctx order_trans[OF decision_locks_length] by (simp_all add: context_ok_def decision_locks_ok)
  have names: "optional ShortName (rd_policy_version ?r) = Some (rd_policy_version ?r)"
    "optional aware_utc (rd_capability_checked_at ?r) = Some (rd_capability_checked_at ?r)"
    "optional ShortName (rd_capability ?r) = Some (rd_capability ?r)"
    using ctx by (simp_all add: context_ok_def cap)
  show ?thesis
    by (rule validate_decision_fixed)
      (use reasons blocking locks hint names compat thr req_fields(1) model_and_profile_ok[OF ctx]
        in \<open>simp_all only: raw_decision_fields distinct_dedup decision_locks_distinct decision_fallback_ok,
            simp_all\<close>)
qed

end
