(* ===== verification/RouteProperties.thy ===== *)
theory RouteProperties
  imports RouteDecision
begin

text \<open>
  What a routing decision promises: \<open>route_request\<close> always produces a decision its contract accepts,
  nothing executes without permission and an available capability, denials are final, the attempt
  limit, the worktree lock, the prompt budget and the network policy are enforced.
\<close>

section \<open>Properties of the decision\<close>

lemma validate_decision_keeps:
  assumes "validate_RouteDecisionV1 r = Some r'"
  shows "rd_route r' = rd_route r" "rd_executor r' = rd_executor r"
    "rd_decision_status r' = rd_decision_status r"
    "rd_permission_disposition r' = rd_permission_disposition r"
    "rd_capability_status r' = rd_capability_status r"
    "mapM ReasonCode (rd_blocking_reason_codes r) = Some (rd_blocking_reason_codes r')"
    "mapM ResourceLock (rd_required_locks r) = Some (rd_required_locks r')"
    "optional Reference (rd_project r) = Some (rd_project r')"
  using assms unfolding validate_RouteDecisionV1_def
  by (clarsimp simp: bind_eq_Some_conv)+

lemma route_request_draft:
  assumes "route_request ctx request planning = Some d"
  defines "draft \<equiv> route_draft ctx request planning"
  shows "rd_route d = dr_route draft" "rd_executor d = dr_executor draft"
    "rd_decision_status d = dr_status draft" "rd_permission_disposition d = dr_permission draft"
    "rd_capability_status d = dr_capability_status draft"
    "rd_blocking_reason_codes d = [] \<longleftrightarrow> dr_blocking draft = []"
proof -
  note v = validate_decision_keeps[OF assms(1)[unfolded route_request_def]]
  show "rd_route d = dr_route draft" "rd_executor d = dr_executor draft"
    "rd_decision_status d = dr_status draft" "rd_permission_disposition d = dr_permission draft"
    "rd_capability_status d = dr_capability_status draft"
    using v(1-5) by (simp_all only: raw_decision_fields draft_def)
  from mapM_length[OF v(6)] show "rd_blocking_reason_codes d = [] \<longleftrightarrow> dr_blocking draft = []"
    by (simp add: draft_def) (metis dedup_eq_Nil length_0_conv)
qed


text \<open>
  C11: A decision that names a real executor is ready and allowed, has no blocking code, runs the executor
  of its route on an available or on-demand capability, and is a Codex run only with cloud approval.
\<close>

theorem execution_needs_permission:
  assumes "route_request ctx request planning = Some d"
    and "rd_executor d \<notin> {DEGRADED_RESPONSE, EX_CODEX_BUNDLE}"
  shows "rd_decision_status d = DS_READY \<and> rd_permission_disposition d = PD_ALLOWED \<and>
         rd_blocking_reason_codes d = [] \<and> rd_executor d = executor_by_route (rd_route d) \<and>
         rd_capability_status d \<in> {AVAILABLE, ON_DEMAND} \<and>
         (rd_executor d = CODEX_CLI \<longrightarrow> codex_cloud_approved (rc_permissions ctx))"
proof -
  let ?r = "route_draft ctx request planning"
  note f = route_request_draft[OF assms(1)]
  note inv = late_invD[OF route_draft_inv[of ctx request planning]]
  have ne: "dr_executor ?r \<noteq> DEGRADED_RESPONSE" "dr_executor ?r \<noteq> EX_CODEX_BUNDLE"
    using assms(2) by (auto simp: f)
  have ready: "dr_status ?r = DS_READY"
    using inv(4,5) ne by (cases "dr_status ?r") auto
  have "dr_route ?r \<noteq> VISION" using inv(6)[OF ready] ne by auto
  then show ?thesis using inv(6)[OF ready] inv(7) ready by (auto simp: f)
qed

text \<open>
  A denied decision is blocked, answers with the degraded response and says why.
\<close>

theorem denied_never_executes:
  assumes "route_request ctx request planning = Some d"
    and "rd_permission_disposition d = PD_DENIED"
  shows "rd_decision_status d = DS_BLOCKED \<and> rd_executor d = DEGRADED_RESPONSE \<and>
         rd_blocking_reason_codes d \<noteq> []"
proof -
  let ?r = "route_draft ctx request planning"
  note f = route_request_draft[OF assms(1)]
  note inv = late_invD[OF route_draft_inv[of ctx request planning]]
  have "dr_permission ?r = PD_DENIED" using assms(2) by (simp add: f)
  from inv(2)[OF this] inv(4) show ?thesis by (simp add: f)
qed

text \<open>
  C27: A read-only message that also asks for a change, conflicting override commands, and a local
  override of a critical repository action or of a high-complexity repository write are denied.
\<close>

theorem conflicting_requests_are_denied:
  assumes "route_request ctx request planning = Some d"
    and "is_permission_conflict (pres_signals planning) \<or> nr_override_conflict request \<or>
      (nr_routing_override request = Some OV_LOCAL \<and> is_repository_action (pres_signals planning) \<and>
         (is_complexity (pres_signals planning) = CX_CRITICAL \<or>
          is_complexity (pres_signals planning) = CX_HIGH \<and>
            is_execution_mode (pres_signals planning) = MODE_WRITE))"
  shows "rd_permission_disposition d = PD_DENIED \<and> rd_decision_status d = DS_BLOCKED \<and>
         rd_executor d = DEGRADED_RESPONSE"
proof -
  have "dr_permission (route_draft ctx request planning) = PD_DENIED"
    by (rule route_draft_denied) (use assms(2) in blast)
  then show ?thesis
    using late_invD(2)[OF route_draft_inv[of ctx request planning]] route_request_draft[OF assms(1)]
    by simp
qed

text \<open>A repository action only reaches Qwen or the Codex CLI over the two repository routes.\<close>

lemma repository_natural_route:
  "is_repository_action signals \<Longrightarrow> natural_route signals \<in> {AUXILIARY, CODEX, LOCAL_CODE}"
  by (simp add: natural_route_def)

lemma attempt_limit_route:
  "dr_route (attempt_limit_block cs fs p signals d) \<in> {dr_route d, CODEX_BUNDLE}"
  by (simp add: attempt_limit_block_def)

lemma attempt_limit_unchanged:
  "dr_executor (attempt_limit_block cs fs p signals d) = e \<Longrightarrow> e \<noteq> EX_CODEX_BUNDLE \<Longrightarrow>
     attempt_limit_block cs fs p signals d = d"
  by (auto simp: attempt_limit_block_def Let_def split: if_splits)

lemma draft_route_cases:
  "dr_route (route_draft ctx request planning) \<in> {dr_route (early_draft ctx request planning), CODEX_BUNDLE}"
  unfolding route_draft_split late_blocks_def fill_blocking_route
  by (rule subsetD[OF _ attempt_limit_route]) simp

lemma repository_route:
  assumes "is_repository_action (pres_signals planning)"
    and "dr_executor (route_draft ctx request planning) \<in> {QWEN_CODE, CODEX_CLI}"
  shows "dr_route (route_draft ctx request planning) \<in> {LOCAL_CODE, CODEX}"
    and "dr_route (early_draft ctx request planning) = dr_route (route_draft ctx request planning)"
proof -
  let ?d = "route_draft ctx request planning"
  note inv = late_invD[OF route_draft_inv[of ctx request planning]]
  have ready: "dr_status ?d = DS_READY"
    using inv(4,5) assms(2) by (cases "dr_status ?d") auto
  have "dr_executor ?d = executor_by_route (dr_route ?d)" using inv(6)[OF ready] by blast
  then have r: "dr_route ?d \<in> {LOCAL_CODE, CODEX, DOCS}" using assms(2) by (cases "dr_route ?d") auto
  then show e: "dr_route (early_draft ctx request planning) = dr_route ?d"
    using draft_route_cases[of ctx request planning] by auto
  have "dr_route (early_draft ctx request planning) \<noteq> DOCS"
    using repository_natural_route[OF assms(1)] assms(1)
    by (auto simp: early_draft_route apply_override_def split: option.splits RouteOverride.splits)
  then show "dr_route ?d \<in> {LOCAL_CODE, CODEX}" using r e by auto
qed


text \<open>
  Once the local attempts of the policy are used up, a repository action does not go to Qwen.
\<close>

theorem exhausted_local_attempts_stop_qwen:
  assumes "route_request ctx request planning = Some d"
    and "is_repository_action (pres_signals planning)"
    and "local_code_failures (rc_failures ctx) \<ge> local_code_max_attempts (p_thresholds (rc_policy ctx))"
  shows "rd_executor d \<noteq> QWEN_CODE"
proof
  let ?d = "route_draft ctx request planning"
  let ?s = "pres_signals planning"
  assume "rd_executor d = QWEN_CODE"
  then have q: "dr_executor ?d = QWEN_CODE" by (simp add: route_request_draft[OF assms(1)])
  let ?c = "cloud_block (rc_permissions ctx) (executor_block (capability_block (rc_capabilities ctx)
              (early_draft ctx request planning)))"
  let ?a = "attempt_limit_block (rc_capabilities ctx) (rc_failures ctx) (rc_policy ctx) ?s ?c"
  have d: "?d = fill_blocking ?a" by (simp add: route_draft_split late_blocks_def)
  have qa: "dr_executor ?a = QWEN_CODE" using q by (simp add: d fill_blocking_def split: if_splits)
  note inv = late_invD[OF route_draft_inv[of ctx request planning]]
  have ready: "dr_status ?d = DS_READY"
    using inv(4,5) q by (cases "dr_status ?d") auto
  then have ra: "dr_status ?a = DS_READY" by (simp add: d fill_blocking_def split: if_splits)
  have same: "?a = ?c"
    using qa by (rule attempt_limit_unchanged) simp
  have "dr_route ?d \<in> {LOCAL_CODE, CODEX}" by (rule repository_route(1)[OF assms(2)]) (simp add: q)
  moreover have "dr_route ?d \<noteq> CODEX" using inv(6)[OF ready] q by auto
  ultimately have "dr_route ?c = LOCAL_CODE" by (simp add: d same)
  moreover have "dr_status ?c = DS_READY" using ra same by simp
  ultimately have "dr_executor ?a = EX_CODEX_BUNDLE"
    using assms(2,3) by (simp add: attempt_limit_block_def Let_def)
  with qa show False by simp
qed

lemma raw_project_and_locks:
  assumes "route_request ctx request planning = Some d"
    and "hex_digest (env_sha256_hex (rc_env ctx))"
  defines "draft \<equiv> route_draft ctx request planning"
  shows "rd_required_locks d = decision_locks (rc_env ctx)
           (decision_project request (pres_signals planning) (dr_route draft)) (dr_executor draft)"
    and "optional Reference (decision_project request (pres_signals planning) (dr_route draft)) =
           Some (rd_project d)"
proof -
  note v = validate_decision_keeps[OF assms(1)[unfolded route_request_def]]
  show "rd_required_locks d = decision_locks (rc_env ctx)
           (decision_project request (pres_signals planning) (dr_route draft)) (dr_executor draft)"
    using v(7) by (simp add: mapM_locks_ok decision_locks_ok assms(2) draft_def)
  show "optional Reference (decision_project request (pres_signals planning) (dr_route draft)) =
           Some (rd_project d)"
    using v(8) by (simp add: draft_def)
qed

lemma executing_project:
  assumes "route_request ctx request planning = Some d"
    and "rd_executor d \<in> {QWEN_CODE, CODEX_CLI}"
    and "is_repository_action (pres_signals planning)"
  shows "\<exists>path. nr_project_hint request = Some path \<and> path \<noteq> [] \<and>
           decision_project request (pres_signals planning) (rd_route d) = Some path"
proof -
  let ?d = "route_draft ctx request planning"
  note f = route_request_draft[OF assms(1)]
  have e: "dr_executor ?d \<in> {QWEN_CODE, CODEX_CLI}" using assms(2) by (simp add: f)
  note r = repository_route[OF assms(3) e]
  have "dr_permission ?d \<noteq> PD_DENIED"
    using late_invD(2)[OF route_draft_inv[of ctx request planning]] e by auto
  then have "project_is_resolved request"
    using route_draft_denied[of planning request ctx] r assms(3) by auto
  then show ?thesis
    using r(1) assms(3) by (auto simp: project_is_resolved_def truthy_def decision_project_def f)
qed

text \<open>
  Two decisions that let an agent work on projects with the same canonical path require the same
  worktree lock.
\<close>

theorem executing_agents_hold_the_worktree_lock:
  assumes "route_request ctx request1 planning1 = Some d1" and "route_request ctx request2 planning2 = Some d2"
    and "rd_executor d1 \<in> {QWEN_CODE, CODEX_CLI}" and "rd_executor d2 \<in> {QWEN_CODE, CODEX_CLI}"
    and "is_repository_action (pres_signals planning1)" and "is_repository_action (pres_signals planning2)"
    and "hex_digest (env_sha256_hex (rc_env ctx))"
    and "nr_project_hint request1 = Some path1" and "nr_project_hint request2 = Some path2"
    and "env_canonical_path (rc_env ctx) path1 = env_canonical_path (rc_env ctx) path2"
  shows "worktree_lock_reference (rc_env ctx) path1 \<in> set (rd_required_locks d1) \<inter> set (rd_required_locks d2)"
proof -
  have locked: "worktree_lock_reference (rc_env ctx) path \<in> set (rd_required_locks d)"
    if h1: "route_request ctx request planning = Some d" and h2: "rd_executor d \<in> {QWEN_CODE, CODEX_CLI}"
      and h3: "is_repository_action (pres_signals planning)" and h4: "nr_project_hint request = Some path"
    for request planning d path
  proof -
    have "decision_project request (pres_signals planning) (rd_route d) = Some path \<and> path \<noteq> []"
      using executing_project[OF h1 h2 h3] h4 by auto
    then show ?thesis
      using raw_project_and_locks(1)[OF h1 assms(7)] h2
      by (auto simp: route_request_draft[OF h1] decision_locks_def truthy_def)
  qed
  have "worktree_lock_reference (rc_env ctx) path1 = worktree_lock_reference (rc_env ctx) path2"
    using assms(10) by (simp add: worktree_lock_reference_def)
  then show ?thesis
    using locked[OF assms(1,3,5,8)] locked[OF assms(2,4,6,9)] by simp
qed

text \<open>
  Whatever is sent to Qwen over the local-code route fits the input budget of its plan, with the
  1500 tokens reserved for the wrapper, counting one token per UTF-8 byte.
\<close>

theorem qwen_prompt_fits_its_budget:
  assumes "route_request ctx request planning = Some d"
    and "rd_executor d = QWEN_CODE" and "rd_route d = LOCAL_CODE"
    and "pres_plan planning = Some plan"
  shows "int (utf8_length (render_plan_execution_context plan (Some (nr_user_message request)))) + 1500
           \<le> cb_max_input_tokens (pl_context_budget plan)"
proof (rule ccontr)
  let ?d = "route_draft ctx request planning"
  let ?s = "pres_signals planning"
  let ?ov = "apply_override (natural_route ?s) (nr_routing_override request) (nr_override_conflict request) ?s"
  let ?i = "input_block (rc_env ctx) (rc_permissions ctx) ?s
     (permission_block request ?s (initial_draft (fst ?ov) (is_reason_codes ?s @ snd (snd ?ov))))"
  assume "\<not> ?thesis"
  then have over: "plan_exceeds_agent_input_budget plan (Some (nr_user_message request)) agent_prompt_wrapper_reserve_tokens"
    by (simp add: plan_exceeds_agent_input_budget_def conservative_token_upper_bound_def
        agent_prompt_wrapper_reserve_tokens_def)
  note f = route_request_draft[OF assms(1)]
  have x: "dr_executor ?d = QWEN_CODE" "dr_route ?d = LOCAL_CODE" using assms(2,3) by (simp_all add: f)
  have e: "dr_route (early_draft ctx request planning) = LOCAL_CODE"
    using draft_route_cases[of ctx request planning] x(2) by auto
  have blocked: "dr_status (early_draft ctx request planning) = DS_BLOCKED"
  proof (cases "dr_status ?i = DS_READY")
    case True
    have eq: "early_draft ctx request planning = budget_block request (pres_plan planning) ?i"
      by (simp add: early_draft_def Let_def)
    have "dr_route ?i = LOCAL_CODE" using e by (simp add: eq budget_block_route)
    then show ?thesis using True over assms(4) by (simp add: eq budget_block_def)
  next
    case False
    moreover have "early_inv ?i" by (intro early_inv_input_block early_inv_permission_block early_inv_initial)
    ultimately have "dr_status ?i = DS_BLOCKED" by (cases "dr_status ?i") (auto simp: early_inv_def)
    then show ?thesis by (simp add: early_draft_def Let_def budget_block_def)
  qed
  then have "dr_status ?d \<noteq> DS_READY" unfolding route_draft_split by (simp add: late_blocks_not_ready)
  moreover have "dr_status ?d = DS_READY"
    using late_invD(4,5)[OF route_draft_inv[of ctx request planning]] x(1) by (cases "dr_status ?d") auto
  ultimately show False ..
qed

lemma budget_block_permission [simp]:
  "dr_permission (budget_block request plan d) = dr_permission d"
  by (simp add: budget_block_def)

lemma input_block_browser:
  assumes "dr_route d = BROWSER" and "dr_permission (input_block env perms signals d) \<noteq> PD_DENIED"
  shows "public_url_policy_reason env (is_public_url signals) = None \<and> browser_public_network_allowed perms"
proof (cases "public_url_policy_reason env (is_public_url signals)")
  case None
  then show ?thesis using assms by (cases "browser_public_network_allowed perms") (auto simp: input_block_def apply_if_def)
next
  case (Some r)
  then show ?thesis using assms by (simp add: input_block_def apply_if_def)
qed

lemma public_url_accepted:
  assumes "public_url_policy_reason env u = None"
  shows "\<exists>url parsed name. u = Some url \<and>
       env_urlsplit env url = Some parsed \<and> su_scheme parsed \<in> {''http'', ''https''} \<and>
       su_hostname parsed = Some name \<and>
       \<not> truthy (su_username parsed) \<and> \<not> truthy (su_password parsed) \<and>
       rstrip_dots (casefold name) \<noteq> ''localhost'' \<and>
       \<not> suffix ''.localhost'' (rstrip_dots (casefold name)) \<and>
       \<not> suffix ''.local'' (rstrip_dots (casefold name)) \<and>
       \<not> suffix ''.internal'' (rstrip_dots (casefold name)) \<and>
       env_ip_is_global env (rstrip_dots (casefold name)) \<noteq> Some False"
  using assms unfolding public_url_policy_reason_def
  by (auto simp: Let_def truthy_def split: option.splits if_splits)

text \<open>
  C18: The browser executor is chosen only with permission for the public network and for an http or https
  URL without credentials whose host is not a local name and not a private address literal.
\<close>

theorem playwright_only_visits_public_targets:
  assumes "route_request ctx request planning = Some d" and "rd_executor d = PLAYWRIGHT"
  shows "browser_public_network_allowed (rc_permissions ctx) \<and>
    (\<exists>url parsed name. is_public_url (pres_signals planning) = Some url \<and>
       env_urlsplit (rc_env ctx) url = Some parsed \<and> su_scheme parsed \<in> {''http'', ''https''} \<and>
       su_hostname parsed = Some name \<and>
       \<not> truthy (su_username parsed) \<and> \<not> truthy (su_password parsed) \<and>
       rstrip_dots (casefold name) \<noteq> ''localhost'' \<and>
       \<not> suffix ''.localhost'' (rstrip_dots (casefold name)) \<and>
       \<not> suffix ''.local'' (rstrip_dots (casefold name)) \<and>
       \<not> suffix ''.internal'' (rstrip_dots (casefold name)) \<and>
       env_ip_is_global (rc_env ctx) (rstrip_dots (casefold name)) \<noteq> Some False)"
proof -
  let ?d = "route_draft ctx request planning"
  let ?s = "pres_signals planning"
  let ?e = "early_draft ctx request planning"
  note f = route_request_draft[OF assms(1)]
  note inv = late_invD[OF route_draft_inv[of ctx request planning]]
  have x: "dr_executor ?d = PLAYWRIGHT" using assms(2) by (simp add: f)
  have ready: "dr_status ?d = DS_READY" using inv(4,5) x by (cases "dr_status ?d") auto
  have "executor_by_route (dr_route ?d) = PLAYWRIGHT" using inv(6)[OF ready] x by simp
  then have b: "dr_route ?d = BROWSER" by (cases "dr_route ?d") auto
  then have be: "dr_route ?e = BROWSER" using draft_route_cases[of ctx request planning] by auto
  have nd: "dr_permission ?e \<noteq> PD_DENIED"
  proof
    assume "dr_permission ?e = PD_DENIED"
    then have "dr_permission ?d = PD_DENIED"
      unfolding route_draft_split by (rule deny_final[OF _ early_draft_inv])
    then show False using inv(2) ready by simp
  qed
  have p: "public_url_policy_reason (rc_env ctx) (is_public_url ?s) = None \<and>
        browser_public_network_allowed (rc_permissions ctx)"
    using input_block_browser nd be unfolding early_draft_def Let_def
    by (metis budget_block_permission budget_block_route input_block_route)
  from p show ?thesis using public_url_accepted[of "rc_env ctx"] by blast
qed

text \<open>
  A ready decision carries no blocking code, except on the vision route: its only executor is the
  degraded response, so it always carries one.
\<close>

theorem ready_decisions_have_no_blocking_code_except_vision:
  assumes "route_request ctx request planning = Some d"
  shows "(rd_decision_status d = DS_READY \<and> rd_route d \<noteq> VISION \<longrightarrow> rd_blocking_reason_codes d = []) \<and>
         (rd_route d = VISION \<longrightarrow>
            rd_executor d = DEGRADED_RESPONSE \<and> rd_blocking_reason_codes d \<noteq> [])"
proof -
  let ?d = "route_draft ctx request planning"
  note f = route_request_draft[OF assms]
  note inv = late_invD[OF route_draft_inv[of ctx request planning]]
  have v: "dr_route ?d = VISION \<Longrightarrow> dr_executor ?d = DEGRADED_RESPONSE" using inv(1) by auto
  moreover have "dr_executor ?d = DEGRADED_RESPONSE \<Longrightarrow> dr_blocking ?d \<noteq> []"
    by (auto simp: route_draft_split late_blocks_def fill_blocking_def)
  ultimately show ?thesis using inv(6) by (auto simp: f)
qed

section \<open>Sample inputs\<close>

definition sample_thresholds :: RoutingThresholds where
  "sample_thresholds = \<lparr>strong_chat_chars = 1200, high_complexity_markers = 1,
     critical_complexity_markers = 1, local_code_max_attempts = 2, fast_input_tokens = 8192,
     strong_input_tokens = 24576, agent_input_tokens = 32768, max_attachment_bytes = 52428800,
     max_tool_output_chars = 200000\<rparr>"

definition sample_rules :: RoutingRules where
  "sample_rules = \<lparr>r_auxiliary = [''### task:''], r_educational = [''explain''],
     r_repository_context = [''repository''], r_code_targets = [''test''],
     r_read_actions = [''read''], r_mutation_actions = [''fix''], r_review_actions = [''review''],
     r_read_only = [''read-only''], r_docs = [''docs''], r_browser = [''open''], r_image = [''draw''],
     r_strong = [''analyze''], r_architecture = [''architecture''], r_high_complexity = [''migration''],
     r_critical = [''production'']\<rparr>"

definition sample_policy :: RoutingPolicyModel where
  "sample_policy = \<lparr>p_schema_version = ''1.0'', p_policy_version = ''2026-07'',
     p_thresholds = sample_thresholds,
     p_planner_routes = [''strong_chat'', ''local_code'', ''codex'', ''docs'', ''browser'', ''image'', ''voice'', ''vision''],
     p_rules = sample_rules,
     p_llm_signal = \<lparr>llm_enabled = False, llm_timeout_ms = 800, llm_minimum_confidence = 3 / 4\<rparr>\<rparr>"

definition sample_request :: "string \<Rightarrow> string option \<Rightarrow> bool \<Rightarrow> NormalizedRequestV1" where
  "sample_request message project conflict = \<lparr>nr_schema_version = ''1.0'', nr_request_id = ''req-1'',
     nr_user_message = message, nr_attachments = [], nr_source = RS_API, nr_project_hint = project,
     nr_explicit_route = None, nr_created_at = Aware 0 0, nr_correlation_id = ''cor-1'',
     nr_routing_override = None, nr_override_conflict = conflict, nr_project_resolution = None\<rparr>"

definition sample_evidence :: "string \<Rightarrow> bool \<Rightarrow> string option \<Rightarrow> ScanEvidence" where
  "sample_evidence message mutation url = \<lparr>ev_intent_text = message, ev_requested_mutation = mutation,
     ev_global_read_only = False, ev_scoped_read_positions = False, ev_read_positions = False,
     ev_artifact_target = False, ev_official_documentation = False, ev_public_url = url\<rparr>"

definition sample_context :: "int \<Rightarrow> RouteContext" where
  "sample_context failures = \<lparr>rc_env = \<lparr>env_canonical_path = (\<lambda>p. p), env_sha256_hex = (\<lambda>s. replicate 64 (CHR ''0'')),
       env_urlsplit = (\<lambda>u. Some \<lparr>su_scheme = ''https'', su_hostname = Some ''example.org'',
         su_username = None, su_password = None\<rparr>),
       env_ip_is_global = (\<lambda>h. None)\<rparr>,
     rc_capabilities = assumed_capabilities (Aware 0 0) UNAVAILABLE,
     rc_permissions = \<lparr>codex_cloud_approved = False, browser_public_network_allowed = True\<rparr>,
     rc_failures = \<lparr>local_code_failures = failures\<rparr>, rc_policy = sample_policy,
     rc_models = \<lparr>fast_model = ''fast'', strong_model = ''strong'', agent_model = ''agent'', codex_model = ''codex''\<rparr>\<rparr>"

definition fix_request :: "bool \<Rightarrow> NormalizedRequestV1" where
  "fix_request conflict = sample_request ''Fix the test'' (Some ''/p'') conflict"

definition fix_planning :: PlanningResult where
  "fix_planning = the (plan_request (sample_evidence ''Fix the test'' True None) (fix_request False) sample_policy)"

definition fix_decision :: "int \<Rightarrow> bool \<Rightarrow> RouteDecisionV1" where
  "fix_decision failures conflict = the (route_request (sample_context failures) (fix_request conflict) fix_planning)"

definition open_request :: NormalizedRequestV1 where
  "open_request = sample_request ''Open https://example.org'' None False"

definition open_planning :: PlanningResult where
  "open_planning = \<lparr>pres_signals =
     \<lparr>is_action = ACT_BROWSER, is_complexity = CX_LOW, is_risk = RISK_HIGH,
      is_execution_mode = MODE_READ_ONLY, is_repository_action = False, is_programming = False,
      is_architecture = False, is_educational = False, is_auxiliary_request = False, is_docs = False,
      is_browser = True, is_image = False, is_audio_attachment = False, is_image_attachment = False,
      is_review = False, is_mutation = False, is_read_action = False, is_permission_conflict = False,
      is_public_url = Some ''https://example.org'', is_reason_codes = [''action.browser'']\<rparr>,
     pres_plan = None, pres_planning_mode = SKIPPED_BY_POLICY\<rparr>"

definition open_decision :: RouteDecisionV1 where
  "open_decision = the (route_request (sample_context 0) open_request open_planning)"

lemma fix_planned:
  "plan_request (sample_evidence ''Fix the test'' True None) (fix_request False) sample_policy = Some fix_planning"
  by code_simp

lemma fix_decided:
  "route_request (sample_context 0) (fix_request False) fix_planning = Some (fix_decision 0 False)"
  by code_simp

lemma fix_decided_conflict:
  "route_request (sample_context 0) (fix_request True) fix_planning = Some (fix_decision 0 True)"
  by code_simp

lemma fix_decided_exhausted:
  "route_request (sample_context 2) (fix_request False) fix_planning = Some (fix_decision 2 False)"
  by code_simp

lemma fix_signals: "is_repository_action (pres_signals fix_planning)"
  by code_simp

lemma fix_executor: "rd_executor (fix_decision 0 False) = QWEN_CODE \<and> rd_route (fix_decision 0 False) = LOCAL_CODE"
  by code_simp

lemma fix_status: "rd_decision_status (fix_decision 0 False) = DS_READY"
  by code_simp

lemma fix_permission: "rd_permission_disposition (fix_decision 0 True) = PD_DENIED"
  by code_simp

lemma fix_plan: "pres_plan fix_planning = Some (the (pres_plan fix_planning))"
  by code_simp

lemma open_decided:
  "route_request (sample_context 0) open_request open_planning = Some open_decision"
  by code_simp

lemma open_executor: "rd_executor open_decision = PLAYWRIGHT"
  by code_simp

lemma sample_inputs_accepted:
  "validate_NormalizedRequestV1 (fix_request False) = Some (fix_request False)"
  "validate_RoutingPolicy sample_policy = Some sample_policy"
  by code_simp+

lemma sample_digest: "hex_digest (env_sha256_hex (rc_env (sample_context 0)))"
  by (simp add: hex_digest_def sample_context_def list_all_iff) code_simp

lemma sample_names:
  "list_all (\<lambda>m. ShortName m = Some m)
     (let ctx = sample_context 0 in
       [fast_model (rc_models ctx), strong_model (rc_models ctx), agent_model (rc_models ctx),
        codex_model (rc_models ctx), p_policy_version (rc_policy ctx)])"
  by code_simp

lemma sample_context_ok: "context_ok (sample_context 0)"
  using sample_names sample_digest
  by (simp add: context_ok_def) (simp add: sample_context_def assumed_capabilities_def)

lemma rc_policy_sample: "rc_policy (sample_context n) = sample_policy"
  by (simp add: sample_context_def)

section \<open>The properties at the sample inputs\<close>


lemma execution_needs_permission_witness:
  "rd_decision_status (fix_decision 0 False) = DS_READY"
  using execution_needs_permission[OF fix_decided] by (simp add: fix_executor)

lemma denied_never_executes_witness:
  "rd_executor (fix_decision 0 True) = DEGRADED_RESPONSE"
  using denied_never_executes[OF fix_decided_conflict fix_permission] by simp

lemma conflicting_requests_are_denied_witness:
  "rd_permission_disposition (fix_decision 0 True) = PD_DENIED"
  using conflicting_requests_are_denied[OF fix_decided_conflict]
  by (simp add: fix_request_def sample_request_def)

lemma exhausted_local_attempts_stop_qwen_witness:
  "rd_executor (fix_decision 2 False) \<noteq> QWEN_CODE"
  by (rule exhausted_local_attempts_stop_qwen[OF fix_decided_exhausted fix_signals])
    (simp add: sample_context_def sample_policy_def sample_thresholds_def)

lemma executing_agents_hold_the_worktree_lock_witness:
  "worktree_lock_reference (rc_env (sample_context 0)) ''/p'' \<in> set (rd_required_locks (fix_decision 0 False))"
  using executing_agents_hold_the_worktree_lock[OF fix_decided fix_decided _ _ fix_signals fix_signals
      sample_digest, of "''/p''" "''/p''"]
  by (simp add: fix_executor) (simp add: fix_request_def sample_request_def)

lemma qwen_prompt_fits_its_budget_witness:
  "int (utf8_length (render_plan_execution_context (the (pres_plan fix_planning))
      (Some (nr_user_message (fix_request False))))) + 1500
     \<le> cb_max_input_tokens (pl_context_budget (the (pres_plan fix_planning)))"
  by (rule qwen_prompt_fits_its_budget[OF fix_decided _ _ fix_plan]) (simp_all add: fix_executor)

lemma playwright_only_visits_public_targets_witness:
  "browser_public_network_allowed (rc_permissions (sample_context 0))"
  using playwright_only_visits_public_targets[OF open_decided open_executor] by blast

lemma ready_decisions_have_no_blocking_code_except_vision_witness:
  "rd_blocking_reason_codes (fix_decision 0 False) = []"
  using ready_decisions_have_no_blocking_code_except_vision[OF fix_decided]
  by (simp add: fix_executor fix_status)

end
