(* ===== verification/PlannerProperties.thy ===== *)
theory PlannerProperties
  imports RouteProperties
begin

text \<open>
  What the planner promises: it never raises on an accepted request whose clauses are short, the
  constraints it extracts come from the message, its budgets are bounded, memory that is disclosed
  by reference only is never rendered, and a read-only ceiling excludes repository writes.
\<close>

section \<open>Constraints\<close>

definition constraint_clause :: "RoutingPolicyModel \<Rightarrow> string \<Rightarrow> bool" where
  "constraint_clause policy clause \<longleftrightarrow>
     any_marker clause (r_read_only (p_rules policy)) \<or> has_constraint_phrase (casefold clause)"

lemma select_constraints_set:
  "set (select_constraints policy selected clauses) =
     set selected \<union> take 2048 ` {c \<in> set clauses. constraint_clause policy c}"
  by (induction clauses arbitrary: selected) (auto simp: Let_def constraint_clause_def)

lemma select_constraints_distinct:
  "distinct selected \<Longrightarrow> distinct (select_constraints policy selected clauses)"
  by (induction clauses arbitrary: selected) (auto simp: Let_def)

lemma set_clauses_of: "c \<in> set (clauses_of text) \<Longrightarrow> c \<noteq> [] \<and> py_strip c = c"
  by (auto simp: clauses_of_def)

lemma constraints_of_set:
  "set (constraints_of text policy) \<subseteq> take 2048 ` {c \<in> set (clauses_of text). constraint_clause policy c}"
  using set_take_subset[of 64 "select_constraints policy [] (clauses_of text)"]
  by (simp add: constraints_of_def select_constraints_set)

lemma constraints_of_distinct: "distinct (constraints_of text policy)"
  by (simp add: constraints_of_def select_constraints_distinct distinct_take)

lemma white_space_py_space: "is_white_space c \<Longrightarrow> is_py_space c"
  by (auto simp: is_white_space_def is_py_space_def Let_def)

lemma py_strip_fixed_trim:
  assumes "py_strip s = s"
  shows "trim_ws s = s"
  unfolding trim_ws_def
  using strip_by_ends[of is_py_space s] assms
  by (intro strip_by_fix) (auto simp: py_strip_def dest: white_space_py_space)

lemma short_clause_accepted:
  "c \<in> set (clauses_of text) \<Longrightarrow> length c \<le> 2048 \<Longrightarrow> ShortText c = Some c"
  using set_clauses_of[of c "text"] by (simp add: ShortText_def constrained_Some py_strip_fixed_trim Suc_le_eq)

text \<open>
  the constraints of a plan are distinct, at most 64, each the first 2048 characters of a clause
  of the message that carries a read-only marker of the policy or a constraint phrase; and as long
  as no more than 64 of them are selected, none is lost.
\<close>

theorem constraints_come_from_the_message:
  "distinct (constraints_of text policy) \<and> length (constraints_of text policy) \<le> 64 \<and>
   set (constraints_of text policy) \<subseteq> take 2048 ` {c \<in> set (clauses_of text). constraint_clause policy c} \<and>
   (length (constraints_of text policy) < 64 \<longrightarrow>
      take 2048 ` {c \<in> set (clauses_of text). constraint_clause policy c} \<subseteq> set (constraints_of text policy))"
proof -
  let ?s = "select_constraints policy [] (clauses_of text)"
  have "set ?s \<subseteq> set (constraints_of text policy)" if "length (constraints_of text policy) < 64"
    using that by (auto simp: constraints_of_def min_def split: if_splits)
  then show ?thesis
    using constraints_of_distinct constraints_of_set
    by (simp add: select_constraints_set constraints_of_def)
qed

section \<open>The plan is accepted by its contract\<close>

lemma context_budget_accepted:
  assumes "valid_RoutingThresholds (p_thresholds policy)"
  shows "validate_ContextBudgetV1 (context_budget signals policy) = Some (context_budget signals policy)"
proof -
  have "ShortName ''provenance_preserving'' = Some ''provenance_preserving''" by code_simp
  then show ?thesis
    using assms
    by (auto simp: validate_ContextBudgetV1_def context_budget_def Let_def valid_RoutingThresholds_def
        bind_eq_Some_conv min_def)
qed

lemma plan_tools_accepted:
  "mapM ShortName (plan_tools signals) = Some (plan_tools signals) \<and> distinct (plan_tools signals) \<and>
   length (plan_tools signals) \<le> 64"
proof -
  have "ShortName s = Some s"
    if "s \<in> {''filesystem'', ''terminal'', ''git'', ''context7'', ''playwright'', ''comfyui'', ''whisper'', ''vision''}" for s
    using that by (elim insertE emptyE; clarsimp; code_simp)
  then show ?thesis
    by (auto simp: plan_tools_def split: ActionKind.split)
qed

definition plain_text :: "string \<Rightarrow> bool" where
  "plain_text s \<longleftrightarrow> ShortText s = Some s"

lemma plan_texts_plain:
  "list_all plain_text (fst (acceptance_and_verification signals))"
  "list_all plain_text (snd (acceptance_and_verification signals))"
proof -
  have texts: "list_all plain_text
     [''The requested repository outcome is completed in the resolved worktree.'',
      ''Relevant verification is run or an exact blocking reason is reported.'',
      ''Inspect the resulting files or diff and run the smallest relevant verification.'',
      ''The answer is grounded in retrieved current documentation.'',
      ''Cite the retrieved library/topic and preserve source provenance.'',
      ''The requested public page is inspected and its result is reported.'',
      ''Validate the target against network policy and report the final URL.'',
      ''The requested media operation returns a concrete artifact or an explicit degraded result.'',
      ''Verify that the selected capability completed and produced the expected output type.'',
      ''The answer directly addresses the requested analysis with concrete conclusions.'',
      ''Check the conclusions against the stated constraints.'']"
    by code_simp
  show "list_all plain_text (fst (acceptance_and_verification signals))"
    "list_all plain_text (snd (acceptance_and_verification signals))"
    using texts by (simp_all add: acceptance_and_verification_def)
qed

lemma plan_texts_lengths:
  "length (fst (acceptance_and_verification signals)) \<in> {1, 2}"
  "length (snd (acceptance_and_verification signals)) \<in> {1, 2}"
  by (simp_all add: acceptance_and_verification_def)

lemma mapM_plain: "list_all plain_text xs \<Longrightarrow> mapM ShortText xs = Some xs"
  by (rule mapM_fixpoint) (simp add: list_all_iff plain_text_def)

lemma plan_approvals_accepted:
  "mapM ShortText (pl_approvals (raw_plan request signals policy)) =
     Some (pl_approvals (raw_plan request signals policy)) \<and>
   length (pl_approvals (raw_plan request signals policy)) \<le> 64"
proof -
  have "list_all plain_text
      [''Explicit scoped approval is required before sending workspace data to Codex cloud.'']"
    by code_simp
  then show ?thesis by (simp add: raw_plan_def plain_text_def)
qed

lemma subtask_accepted:
  "mapM ShortText [''Complete the bounded requested action.''] = Some [''Complete the bounded requested action.'']"
  by code_simp

lemma constraints_accepted:
  assumes "\<forall>c \<in> set (clauses_of text). length c \<le> 2048"
  shows "mapM ShortText (constraints_of text policy) = Some (constraints_of text policy)"
proof (rule mapM_fixpoint)
  fix x assume "x \<in> set (constraints_of text policy)"
  then obtain c where "c \<in> set (clauses_of text)" "x = take 2048 c" using constraints_of_set by blast
  with assms short_clause_accepted show "ShortText x = Some x" by auto
qed

lemma raw_plan_accepted:
  assumes req: "validate_NormalizedRequestV1 raw = Some request"
    and thr: "valid_RoutingThresholds (p_thresholds policy)"
    and short: "\<forall>c \<in> set (clauses_of (nr_user_message request)). length c \<le> 2048"
  shows "validate_PlanV1 (raw_plan request signals policy) = Some (raw_plan request signals policy)"
proof -
  let ?p = "raw_plan request signals policy"
  have fields: "LongText (nr_user_message request) = Some (nr_user_message request)"
      "Identifier (nr_request_id request) = Some (nr_request_id request)"
    using req unfolding validate_NormalizedRequestV1_def
    by (auto simp: bind_eq_Some_conv LongText_def Identifier_def dest: constrained_idem)
  have goal: "LongText (pl_goal ?p) = Some (pl_goal ?p)"
    and ident: "optional Identifier (pl_request_id ?p) = Some (pl_request_id ?p)"
    using fields by (simp_all add: raw_plan_def)
  have subtasks: "mapM ShortText (pl_subtasks ?p) = Some (pl_subtasks ?p)" "length (pl_subtasks ?p) = 1"
    using subtask_accepted by (simp_all add: raw_plan_def)
  have tools: "mapM ShortName (pl_tools ?p) = Some (pl_tools ?p)" "distinct (pl_tools ?p)" "length (pl_tools ?p) \<le> 64"
    using plan_tools_accepted[of signals] by (simp_all add: raw_plan_def)
  have texts: "mapM ShortText (pl_acceptance_criteria ?p) = Some (pl_acceptance_criteria ?p)"
      "mapM ShortText (pl_verification_plan ?p) = Some (pl_verification_plan ?p)"
      "length (pl_acceptance_criteria ?p) \<in> {1, 2}" "length (pl_verification_plan ?p) \<in> {1, 2}"
    using plan_texts_plain[of signals] plan_texts_lengths[of signals]
    by (simp_all add: raw_plan_def mapM_plain)
  have budget: "validate_ContextBudgetV1 (pl_context_budget ?p) = Some (pl_context_budget ?p)"
    using context_budget_accepted[OF thr] by (simp add: raw_plan_def)
  have constraints: "mapM ShortText (pl_constraints ?p) = Some (pl_constraints ?p)"
      "distinct (pl_constraints ?p)" "length (pl_constraints ?p) \<le> 64"
    using constraints_accepted[OF short] constraints_of_distinct
    by (simp_all add: raw_plan_def) (simp add: constraints_of_def)
  have rest: "pl_schema_version ?p = ''1.0''" "pl_memory_context ?p = []" "pl_memory_record_refs ?p = []"
    by (simp_all add: raw_plan_def)
  show ?thesis
    unfolding validate_PlanV1_def
    using goal ident subtasks tools texts budget constraints rest plan_approvals_accepted[of request signals policy]
    by (auto simp: bind_eq_Some_conv)
qed

text \<open>
  on an accepted request under an accepted policy, as long as no clause of the message is longer
  than 2048 characters, the planner returns; it skips the plan exactly for chat and auxiliary
  requests (every other planner route is in an accepted policy), and otherwise returns the plan it
  built, unchanged by the contract.
\<close>

theorem plan_request_total:
  assumes "validate_NormalizedRequestV1 raw = Some request"
    and "validate_RoutingPolicy p = Some policy"
    and "\<forall>c \<in> set (clauses_of (nr_user_message request)). length c \<le> 2048"
    and "signals = apply_override_action (nr_routing_override request) (analyze_request ev request policy)"
  shows "plan_request ev request policy =
    Some (if is_action signals \<in> {ACT_CHAT, ACT_AUXILIARY}
          then \<lparr>pres_signals = signals, pres_plan = None, pres_planning_mode = SKIPPED_FAST_PATH\<rparr>
          else \<lparr>pres_signals = signals, pres_plan = Some (raw_plan request signals policy),
                pres_planning_mode = DETERMINISTIC_BOUNDED\<rparr>)"
proof -
  have fast: "planner_route signals = ''fast_chat''" if "planner_route signals \<notin> required_planner_routes"
    using that by (auto simp: planner_route_def required_planner_routes_def split: ActionKind.splits if_splits)
  have aux: "is_repository_action signals \<or> is_action signals \<notin> {ACT_REPOSITORY_READ, ACT_REPOSITORY_MUTATION, ACT_REVIEW}"
  proof -
    have "is_repository_action (analyze_request ev request policy) \<or>
        is_action (analyze_request ev request policy) \<notin> {ACT_REPOSITORY_READ, ACT_REPOSITORY_MUTATION, ACT_REVIEW}"
      by (simp add: analyze_request_def signals_of_facts_def Let_def classify_action_def)
    then show ?thesis
      unfolding assms(4) by (cases "nr_routing_override request" rule: override_action.cases)
        (auto simp: apply_override_action_def)
  qed
  have "planner_route signals \<in> set (p_planner_routes policy)" if "is_action signals \<notin> {ACT_CHAT, ACT_AUXILIARY}"
    using that aux fast accepted_policy(2)[OF assms(2)]
    by (auto simp: planner_route_def required_planner_routes_def split: ActionKind.splits if_splits)
  then show ?thesis
    using raw_plan_accepted[OF assms(1) accepted_policy(1)[OF assms(2)] assms(3)]
    unfolding plan_request_def assms(4)[symmetric] Let_def by simp
qed

text \<open>every budget the planner builds respects the thresholds of the policy.\<close>

theorem context_budget_bounds:
  assumes "valid_RoutingThresholds (p_thresholds policy)"
  shows "256 \<le> cb_max_input_tokens (context_budget signals policy) \<and>
    0 < cb_reserved_output_tokens (context_budget signals policy) \<and>
    cb_reserved_output_tokens (context_budget signals policy) \<le> cb_max_input_tokens (context_budget signals policy) \<and>
    cb_reserved_output_tokens (context_budget signals policy) \<le> 6000 \<and>
    cb_max_input_tokens (context_budget signals policy) \<le> 2000000"
  using assms by (auto simp: context_budget_def Let_def valid_RoutingThresholds_def min_def)

section \<open>Rendering\<close>

lemma map_filter_filter:
  "List.map_filter (\<lambda>x. if p x then f x else None) (filter p xs) =
   List.map_filter (\<lambda>x. if p x then f x else None) xs"
  by (induction xs) (simp_all add: map_filter_simps split: option.split)

text \<open>
  the text sent to an executor depends on the memory of a plan only through the items disclosed
  with their content; items disclosed by reference leave no trace in it.
\<close>

theorem reference_only_memory_is_never_rendered:
  "render_plan_execution_context plan prompt =
   render_plan_execution_context
     (plan\<lparr>pl_memory_context := filter (\<lambda>item. mc_disclosure item = DISC_CONTENT) (pl_memory_context plan),
           pl_memory_record_refs := refs\<rparr>) prompt"
proof -
  let ?q = "plan\<lparr>pl_memory_context := filter (\<lambda>item. mc_disclosure item = DISC_CONTENT) (pl_memory_context plan),
           pl_memory_record_refs := refs\<rparr>"
  have "content_memory ?q = content_memory plan"
    unfolding content_memory_def by (simp add: map_filter_filter)
  moreover have "attempt_notes ?q prompt = attempt_notes plan prompt"
    by (cases prompt) (simp_all add: attempt_notes_def Let_def)
  ultimately show ?thesis
    by (simp only: render_plan_execution_context_def plan_sections_def) simp
qed

section \<open>The read-only ceiling\<close>

text \<open>
  C17: a decision whose execution mode is WRITE on a repository action is only reached when the message
  asks for a mutation and carries no global read-only ceiling.
\<close>

theorem repository_writes_were_requested:
  assumes "plan_request ev request policy = Some planning"
    and "route_request ctx request planning = Some d"
    and "is_repository_action (pres_signals planning)" and "rd_execution_mode d = MODE_WRITE"
  shows "ev_requested_mutation ev \<and> \<not> ev_global_read_only ev"
proof -
  let ?s = "analyze_request ev request policy"
  have s: "pres_signals planning = ?s"
    using plan_request_signals[OF assms(1)] assms(3)
    by (auto simp: apply_override_action_def split: option.splits if_splits)
  have "rd_execution_mode d = is_execution_mode ?s"
    using assms(2,3) unfolding route_request_def s
    by (auto simp: validate_RouteDecisionV1_def bind_eq_Some_conv raw_decision_def Let_def s effective_intent_def)
  then have "is_execution_mode ?s = MODE_WRITE" using assms(4) by simp
  moreover have "f_repository_action (request_facts ev request policy)"
    using assms(3) unfolding s by (simp add: analyze_request_def signals_of_facts_def Let_def)
  ultimately have "f_mutation (request_facts ev request policy)"
    by (auto simp: analyze_request_def signals_of_facts_def Let_def classify_action_def
        request_facts_def split: if_splits)
  then show ?thesis by (simp add: request_facts_def Let_def)
qed


section \<open>The properties at sample inputs\<close>

lemma constraints_come_from_the_message_witness:
  "set (constraints_of ''Fix it. Never touch main'' sample_policy) \<subseteq>
     take 2048 ` {c \<in> set (clauses_of ''Fix it. Never touch main''). constraint_clause sample_policy c}"
  using constraints_come_from_the_message by blast

lemma fix_clauses: "list_all (\<lambda>c. length c \<le> 2048) (clauses_of (nr_user_message (fix_request False)))"
  by code_simp

lemma plan_request_total_witness:
  "plan_request (sample_evidence ''Fix the test'' True None) (fix_request False) sample_policy \<noteq> None"
  using plan_request_total[OF sample_inputs_accepted _ refl] fix_clauses by (simp add: list_all_iff)

lemma context_budget_bounds_witness:
  "256 \<le> cb_max_input_tokens (context_budget (pres_signals fix_planning) sample_policy)"
  using context_budget_bounds[of sample_policy]
  by (simp add: sample_policy_def sample_thresholds_def valid_RoutingThresholds_def)

lemma fix_mode: "rd_execution_mode (fix_decision 0 False) = MODE_WRITE"
  by code_simp

lemma repository_writes_were_requested_witness:
  "\<not> ev_global_read_only (sample_evidence ''Fix the test'' True None)"
  using repository_writes_were_requested[OF fix_planned fix_decided fix_signals fix_mode] by blast

end
