(* ===== verification/CodingContracts.thy ===== *)
theory CodingContracts
  imports Prelude
begin

text \<open>
  The contracts of the Coding Engine, \<open>services/coding/contracts.py\<close>: enumerations, the checks of
  single fields, every model with its validators, and the delivery gate
  \<open>is_successful_review_delivery\<close>. A validator returns the validated record, or \<open>None\<close> where Pydantic
  raises \<open>ValidationError\<close>; \<open>nt\<close> stands for \<open>os.name == "nt"\<close>.
\<close>

section \<open>Enumerations\<close>

datatype CodingMode = CM_READ_ONLY | CM_WRITE

datatype CodingRisk = CR_LOW | CR_MEDIUM | CR_HIGH | CR_CRITICAL

datatype DataClassification = DC_PUBLIC | DC_INTERNAL | DC_SENSITIVE

datatype CodingTaskStatus =
  CREATED | INSPECTED | PLANNED | ISOLATED | EXECUTING | VERIFYING | REVIEWING | HANDOFF_READY |
  COMPLETED | BLOCKED | FAILED | CANCELLED | ORPHANED

datatype ExecutorKind = LOCAL_QWEN | LOCAL_SEMANTIC_REVIEW | CODEX_EXEC | CODEX_REVIEW | DETERMINISTIC

datatype AttemptStatus = AT_RUNNING | AT_PASSED | AT_FAILED | AT_TIMED_OUT | AT_CANCELLED

datatype CommandStatus = CS_PASSED | CS_FAILED | CS_TIMED_OUT | CS_CANCELLED | CS_NOT_RUN

datatype ReviewSeverity = SEV_INFO | SEV_LOW | SEV_MEDIUM | SEV_HIGH | SEV_CRITICAL

datatype ReviewVerdict = APPROVED | REJECTED | RV_BLOCKED

datatype ArtifactKind =
  AF_STATE | AF_DIFF | AF_COMMAND_OUTPUT | AF_REVIEW | AF_HANDOFF | AF_SCREENSHOT | AF_UI_EVIDENCE |
  AF_CONTEXT

datatype WorktreeStatus = WS_ACTIVE | WS_COMPLETE | WS_ORPHANED | WS_CLEANUP_BLOCKED | WS_REMOVED

section \<open>Checks of single fields\<close>

definition task_id_pattern :: "string \<Rightarrow> bool" where
  "task_id_pattern s \<longleftrightarrow>
     (case s of [] \<Rightarrow> False
      | c # cs \<Rightarrow> is_alnum_char c \<and> length cs \<le> 63 \<and>
                  list_all (\<lambda>d. is_alnum_char d \<or> in_class d ''._-'') cs)"

definition sha256_pattern :: "string \<Rightarrow> bool" where
  "sha256_pattern s \<longleftrightarrow> length s = 64 \<and> list_all is_lower_hex s"

definition git_sha_pattern :: "string \<Rightarrow> bool" where
  "git_sha_pattern s \<longleftrightarrow> 40 \<le> length s \<and> length s \<le> 64 \<and> list_all is_lower_hex s"

definition bounded_text :: "nat \<Rightarrow> string \<Rightarrow> string option" where
  "bounded_text maximum value =
     (if NUL \<in> set value then None
      else let cleaned = py_strip value in
        if cleaned = [] then None
        else if length cleaned > maximum then None
        else Some cleaned)"

definition is_bad_control :: "char \<Rightarrow> bool" where
  "is_bad_control c \<longleftrightarrow> code_of c < 32 \<and> code_of c \<notin> {9, 13, 10}"

definition reference_text :: "nat \<Rightarrow> string \<Rightarrow> string option" where
  "reference_text maximum value = do {
     checked \<leftarrow> bounded_text maximum value;
     require (\<not> list_ex is_bad_control checked) checked
   }"

definition task_id :: "string \<Rightarrow> string option" where
  "task_id value = require (task_id_pattern value) value"

definition lower_sha256 :: "string \<Rightarrow> string option" where
  "lower_sha256 value = (let lowered = casefold value in require (sha256_pattern lowered) lowered)"

definition git_commit :: "string \<Rightarrow> string option" where
  "git_commit value = (let lowered = casefold value in require (git_sha_pattern lowered) lowered)"

definition exact_sha256 :: "string \<Rightarrow> string option" where
  "exact_sha256 value = require (sha256_pattern value) value"

definition sized :: "nat \<Rightarrow> nat \<Rightarrow> string \<Rightarrow> string option" where
  "sized lo hi value = bounded_len lo hi value"

definition unique_references :: "nat \<Rightarrow> nat \<Rightarrow> string list \<Rightarrow> string list option" where
  "unique_references lo hi values = do {
     bounded \<leftarrow> bounded_len lo hi values;
     checked \<leftarrow> mapM (reference_text 4096) bounded;
     unique_list checked
   }"

definition has_newline :: "string \<Rightarrow> bool" where
  "has_newline s \<longleftrightarrow> list_ex (\<lambda>c. code_of c = 13 \<or> code_of c = 10) s"

text \<open>\<open>PurePosixPath(normalized).parts\<close>: the parts between slashes, without empty ones and dots.\<close>

fun split_on :: "char \<Rightarrow> string \<Rightarrow> string \<Rightarrow> string list" where
  "split_on sep acc [] = [rev acc]"
| "split_on sep acc (c # cs) =
     (if c = sep then rev acc # split_on sep [] cs else split_on sep (c # acc) cs)"

definition posix_parts :: "string \<Rightarrow> string list" where
  "posix_parts s = filter (\<lambda>p. p \<noteq> [] \<and> p \<noteq> ''.'') (split_on (CHR ''/'') [] s)"

definition slash_normalized :: "string \<Rightarrow> string" where
  "slash_normalized s = map (\<lambda>c. if c = CHR 0x5C then CHR ''/'' else c) s"

definition has_drive_prefix :: "string \<Rightarrow> bool" where
  "has_drive_prefix s \<longleftrightarrow>
     (case s of c # d # cs \<Rightarrow> (is_lower_char c \<or> is_upper_char c) \<and> d = CHR '':'' | _ \<Rightarrow> False)"

definition repository_relative_scope :: "string \<Rightarrow> string option" where
  "repository_relative_scope raw =
     (let normalized = slash_normalized raw in
      require (\<not> (normalized \<in> {[], ''.''} \<or> prefix ''/'' normalized \<or> has_drive_prefix normalized \<or>
                  ''..'' \<in> set (posix_parts normalized) \<or>
                  list_ex (\<lambda>c. code_of c < 32) normalized))
        raw)"

definition scope_paths :: "string list \<Rightarrow> string list option" where
  "scope_paths values = do {
     checked \<leftarrow> unique_references 0 10000 values;
     mapM repository_relative_scope checked
   }"

section \<open>Requests\<close>

record CodingPermissionsV1 =
  cp_modify_files :: bool
  cp_local_commit :: bool
  cp_cloud_execution :: bool
  cp_data_classification :: DataClassification
  cp_push :: bool
  cp_deploy :: bool

definition validate_CodingPermissionsV1 :: "CodingPermissionsV1 \<Rightarrow> CodingPermissionsV1 option" where
  "validate_CodingPermissionsV1 p =
     require (\<not> cp_push p \<and> \<not> cp_deploy p \<and>
              \<not> (cp_local_commit p \<and> \<not> cp_modify_files p) \<and>
              \<not> (cp_cloud_execution p \<and> cp_data_classification p \<noteq> DC_PUBLIC)) p"

record VerificationCommandV1 =
  vc_argv :: "string list"
  vc_purpose :: string
  vc_timeout_seconds :: int
  vc_required :: bool

definition validate_VerificationCommandV1 :: "VerificationCommandV1 \<Rightarrow> VerificationCommandV1 option" where
  "validate_VerificationCommandV1 r = do {
     argv \<leftarrow> bounded_len 1 64 (vc_argv r);
     checked \<leftarrow> mapM (\<lambda>item. do { _ \<leftarrow> reference_text 4096 item; require (\<not> has_newline item) item }) argv;
     purpose \<leftarrow> sized 1 256 (vc_purpose r);
     timeout \<leftarrow> bounded_int 1 7200 (vc_timeout_seconds r);
     Some (r\<lparr>vc_argv := checked, vc_purpose := purpose, vc_timeout_seconds := timeout\<rparr>)
   }"

record CodingTaskRequestV1 =
  cq_schema_version :: string
  cq_task_id :: string
  cq_request_id :: string
  cq_goal :: string
  cq_repository_path :: string
  cq_mode :: CodingMode
  cq_risk :: CodingRisk
  cq_constraints :: "string list"
  cq_acceptance_criteria :: "string list"
  cq_verification_plan :: "string list"
  cq_verification_commands :: "VerificationCommandV1 list"
  cq_permissions :: CodingPermissionsV1
  cq_route_reasons :: "string list"
  cq_rule_scope_paths :: "string list"
  cq_expected_diff_paths :: "string list"
  cq_forbidden_diff_paths :: "string list"
  cq_commit_message :: "string option"
  cq_ui_url :: "string option"
  cq_ui_selector :: "string option"
  cq_ui_expected_text :: "string option"

definition diff_path_conflict :: "bool \<Rightarrow> string \<Rightarrow> string \<Rightarrow> bool" where
  "diff_path_conflict nt allowed denied \<longleftrightarrow>
     (let allowed_key = (if nt then casefold allowed else allowed);
          denied_key = (if nt then casefold denied else denied)
      in allowed_key = denied_key \<or> prefix (denied_key @ ''/'') allowed_key)"

definition validate_request_permissions :: "bool \<Rightarrow> CodingTaskRequestV1 \<Rightarrow> bool" where
  "validate_request_permissions nt r \<longleftrightarrow>
     \<not> (cq_mode r = CM_READ_ONLY \<and> cp_modify_files (cq_permissions r)) \<and>
     \<not> (cq_mode r = CM_WRITE \<and> \<not> cp_modify_files (cq_permissions r)) \<and>
     \<not> (truthy (cq_commit_message r) \<and> \<not> cp_local_commit (cq_permissions r)) \<and>
     \<not> (truthy (cq_commit_message r) \<and> has_newline (the (cq_commit_message r))) \<and>
     \<not> list_ex (\<lambda>allowed. list_ex (diff_path_conflict nt allowed) (cq_forbidden_diff_paths r))
         (cq_expected_diff_paths r) \<and>
     (let ui_fields = [cq_ui_url r, cq_ui_selector r, cq_ui_expected_text r]
      in list_ex truthy ui_fields \<longrightarrow> list_all truthy ui_fields)"

definition validate_CodingTaskRequestV1 :: "bool \<Rightarrow> CodingTaskRequestV1 \<Rightarrow> CodingTaskRequestV1 option" where
  "validate_CodingTaskRequestV1 nt r = do {
     version \<leftarrow> require (cq_schema_version r = ''1.0'') (cq_schema_version r);
     task \<leftarrow> task_id (cq_task_id r);
     request \<leftarrow> task_id (cq_request_id r);
     goal \<leftarrow> sized 1 262144 (cq_goal r);
     repository0 \<leftarrow> sized 1 4096 (cq_repository_path r);
     repository \<leftarrow> reference_text 4096 repository0;
     constraints \<leftarrow> unique_references 0 128 (cq_constraints r);
     acceptance \<leftarrow> unique_references 1 128 (cq_acceptance_criteria r);
     plan \<leftarrow> unique_references 1 128 (cq_verification_plan r);
     commands0 \<leftarrow> mapM validate_VerificationCommandV1 (cq_verification_commands r);
     commands \<leftarrow> bounded_len 0 32 commands0;
     permissions \<leftarrow> validate_CodingPermissionsV1 (cq_permissions r);
     reasons \<leftarrow> unique_references 0 64 (cq_route_reasons r);
     rule_scopes \<leftarrow> scope_paths (cq_rule_scope_paths r);
     expected \<leftarrow> scope_paths (cq_expected_diff_paths r);
     forbidden \<leftarrow> scope_paths (cq_forbidden_diff_paths r);
     message \<leftarrow> optional (sized 0 256) (cq_commit_message r);
     url \<leftarrow> optional (sized 0 2048) (cq_ui_url r);
     selector \<leftarrow> optional (sized 0 512) (cq_ui_selector r);
     expected_text \<leftarrow> optional (sized 0 2048) (cq_ui_expected_text r);
     let r' = r\<lparr>cq_schema_version := version, cq_task_id := task, cq_request_id := request,
                cq_goal := goal, cq_repository_path := repository, cq_constraints := constraints,
                cq_acceptance_criteria := acceptance, cq_verification_plan := plan,
                cq_verification_commands := commands, cq_permissions := permissions,
                cq_route_reasons := reasons, cq_rule_scope_paths := rule_scopes,
                cq_expected_diff_paths := expected, cq_forbidden_diff_paths := forbidden,
                cq_commit_message := message, cq_ui_url := url, cq_ui_selector := selector,
                cq_ui_expected_text := expected_text\<rparr>;
     require (validate_request_permissions nt r') r'
   }"

section \<open>Evidence records\<close>

record RuleReferenceV1 =
  ru_path :: string
  ru_sha256 :: string
  ru_scope :: string

definition validate_RuleReferenceV1 :: "RuleReferenceV1 \<Rightarrow> RuleReferenceV1 option" where
  "validate_RuleReferenceV1 r = do {
     path \<leftarrow> reference_text 4096 (ru_path r);
     sha \<leftarrow> lower_sha256 (ru_sha256 r);
     scope \<leftarrow> reference_text 4096 (ru_scope r);
     Some (r\<lparr>ru_path := path, ru_sha256 := sha, ru_scope := scope\<rparr>)
   }"

record WorktreeRecordV1 =
  wr_schema_version :: string
  wr_task_id :: string
  wr_source_repository :: string
  wr_worktree_path :: string
  wr_branch :: "string option"
  wr_git_dir :: "string option"
  wr_git_common_dir :: "string option"
  wr_git_marker_sha256 :: "string option"
  wr_base_commit :: string
  wr_owner_token_hash :: string
  wr_status :: WorktreeStatus
  wr_owner_pid :: int
  wr_created_at :: datetime
  wr_heartbeat_at :: datetime
  wr_completed_at :: "datetime option"

definition validate_WorktreeRecordV1 :: "WorktreeRecordV1 \<Rightarrow> WorktreeRecordV1 option" where
  "validate_WorktreeRecordV1 r = do {
     version \<leftarrow> require (wr_schema_version r = ''1.0'') (wr_schema_version r);
     task \<leftarrow> task_id (wr_task_id r);
     source \<leftarrow> reference_text 4096 (wr_source_repository r);
     path \<leftarrow> reference_text 4096 (wr_worktree_path r);
     branch \<leftarrow> optional (reference_text 4096) (wr_branch r);
     git_dir \<leftarrow> optional (reference_text 4096) (wr_git_dir r);
     common_dir \<leftarrow> optional (reference_text 4096) (wr_git_common_dir r);
     marker \<leftarrow> optional lower_sha256 (wr_git_marker_sha256 r);
     base \<leftarrow> git_commit (wr_base_commit r);
     owner \<leftarrow> lower_sha256 (wr_owner_token_hash r);
     pid \<leftarrow> require (1 \<le> wr_owner_pid r) (wr_owner_pid r);
     created \<leftarrow> aware_utc (wr_created_at r);
     heartbeat \<leftarrow> aware_utc (wr_heartbeat_at r);
     completed \<leftarrow> optional aware_utc (wr_completed_at r);
     Some (r\<lparr>wr_schema_version := version, wr_task_id := task, wr_source_repository := source,
             wr_worktree_path := path, wr_branch := branch, wr_git_dir := git_dir,
             wr_git_common_dir := common_dir, wr_git_marker_sha256 := marker,
             wr_base_commit := base, wr_owner_token_hash := owner, wr_owner_pid := pid,
             wr_created_at := created, wr_heartbeat_at := heartbeat, wr_completed_at := completed\<rparr>)
   }"

record ArtifactReferenceV1 =
  af_artifact_id :: string
  af_kind :: ArtifactKind
  af_path :: string
  af_sha256 :: string
  af_size_bytes :: int
  af_media_type :: string
  af_producer :: string
  af_created_at :: datetime

definition validate_ArtifactReferenceV1 :: "ArtifactReferenceV1 \<Rightarrow> ArtifactReferenceV1 option" where
  "validate_ArtifactReferenceV1 r = do {
     ident \<leftarrow> task_id (af_artifact_id r);
     path \<leftarrow> reference_text 4096 (af_path r);
     sha \<leftarrow> lower_sha256 (af_sha256 r);
     size \<leftarrow> require (0 \<le> af_size_bytes r) (af_size_bytes r);
     media \<leftarrow> sized 1 128 (af_media_type r);
     producer \<leftarrow> sized 1 128 (af_producer r);
     created \<leftarrow> aware_utc (af_created_at r);
     Some (r\<lparr>af_artifact_id := ident, af_path := path, af_sha256 := sha, af_size_bytes := size,
             af_media_type := media, af_producer := producer, af_created_at := created\<rparr>)
   }"

record CommandResultV1 =
  cm_command_id :: string
  cm_argv :: "string list"
  cm_cwd :: string
  cm_purpose :: string
  cm_status :: CommandStatus
  cm_exit_code :: "int option"
  cm_started_at :: datetime
  cm_finished_at :: datetime
  cm_duration_ms :: int
  cm_output_artifact_id :: "string option"
  cm_summary :: string

definition command_result_consistent :: "CommandResultV1 \<Rightarrow> bool" where
  "command_result_consistent r \<longleftrightarrow>
     \<not> dt_less (cm_finished_at r) (cm_started_at r) \<and>
     \<not> (cm_status r = CS_PASSED \<and> cm_exit_code r \<noteq> Some 0) \<and>
     \<not> (cm_status r \<in> {CS_TIMED_OUT, CS_CANCELLED, CS_NOT_RUN} \<and> cm_exit_code r \<noteq> None)"

definition validate_CommandResultV1 :: "CommandResultV1 \<Rightarrow> CommandResultV1 option" where
  "validate_CommandResultV1 r = do {
     ident \<leftarrow> task_id (cm_command_id r);
     argv \<leftarrow> bounded_len 1 64 (cm_argv r);
     cwd \<leftarrow> reference_text 4096 (cm_cwd r);
     purpose \<leftarrow> sized 1 256 (cm_purpose r);
     started \<leftarrow> aware_utc (cm_started_at r);
     finished \<leftarrow> aware_utc (cm_finished_at r);
     duration \<leftarrow> require (0 \<le> cm_duration_ms r) (cm_duration_ms r);
     output \<leftarrow> optional task_id (cm_output_artifact_id r);
     summary \<leftarrow> sized 1 2048 (cm_summary r);
     let r' = r\<lparr>cm_command_id := ident, cm_argv := argv, cm_cwd := cwd, cm_purpose := purpose,
                cm_started_at := started, cm_finished_at := finished, cm_duration_ms := duration,
                cm_output_artifact_id := output, cm_summary := summary\<rparr>;
     require (command_result_consistent r') r'
   }"

record CodingAttemptV1 =
  at_index :: int
  at_executor :: ExecutorKind
  at_status :: AttemptStatus
  at_strategy :: string
  at_started_at :: datetime
  at_finished_at :: "datetime option"
  at_error_summary :: "string option"
  at_command_ids :: "string list"
  at_modified_files :: "string list"
  at_artifact_ids :: "string list"

definition attempt_consistent :: "CodingAttemptV1 \<Rightarrow> bool" where
  "attempt_consistent r \<longleftrightarrow>
     \<not> (at_status r = AT_RUNNING \<and> at_finished_at r \<noteq> None) \<and>
     \<not> (at_status r \<noteq> AT_RUNNING \<and> at_finished_at r = None) \<and>
     \<not> (at_status r = AT_FAILED \<and> \<not> truthy (at_error_summary r))"

definition validate_CodingAttemptV1 :: "CodingAttemptV1 \<Rightarrow> CodingAttemptV1 option" where
  "validate_CodingAttemptV1 r = do {
     index \<leftarrow> bounded_int 1 10 (at_index r);
     strategy \<leftarrow> sized 1 512 (at_strategy r);
     started \<leftarrow> aware_utc (at_started_at r);
     finished \<leftarrow> optional aware_utc (at_finished_at r);
     summary \<leftarrow> optional (sized 0 2048) (at_error_summary r);
     commands \<leftarrow> unique_references 0 128 (at_command_ids r);
     files \<leftarrow> unique_references 0 10000 (at_modified_files r);
     artifacts \<leftarrow> unique_references 0 128 (at_artifact_ids r);
     let r' = r\<lparr>at_index := index, at_strategy := strategy, at_started_at := started,
                at_finished_at := finished, at_error_summary := summary, at_command_ids := commands,
                at_modified_files := files, at_artifact_ids := artifacts\<rparr>;
     require (attempt_consistent r') r'
   }"

section \<open>Reviews and the delivery gate\<close>

record ReviewFindingV1 =
  fi_severity :: ReviewSeverity
  fi_code :: string
  fi_file :: "string option"
  fi_line :: "int option"
  fi_failure_scenario :: string
  fi_remediation :: string

definition validate_ReviewFindingV1 :: "ReviewFindingV1 \<Rightarrow> ReviewFindingV1 option" where
  "validate_ReviewFindingV1 r = do {
     code \<leftarrow> sized 1 128 (fi_code r);
     file \<leftarrow> optional (sized 0 4096) (fi_file r);
     line \<leftarrow> optional (\<lambda>n. require (1 \<le> n) n) (fi_line r);
     scenario \<leftarrow> sized 1 4096 (fi_failure_scenario r);
     remediation \<leftarrow> sized 1 4096 (fi_remediation r);
     require (\<not> (line \<noteq> None \<and> file = None))
       (r\<lparr>fi_code := code, fi_file := file, fi_line := line, fi_failure_scenario := scenario,
          fi_remediation := remediation\<rparr>)
   }"

record ReviewResultV1 =
  rv_reviewer_id :: string
  rv_reviewer :: ExecutorKind
  rv_independent :: bool
  rv_verdict :: ReviewVerdict
  rv_findings :: "ReviewFindingV1 list"
  rv_checked_requirements :: bool
  rv_checked_tests :: bool
  rv_checked_diff_scope :: bool
  rv_checked_secrets :: bool
  rv_checked_constitution :: bool
  rv_subject_sha256 :: "string option"
  rv_evidence_artifact_id :: "string option"
  rv_evidence_artifact_sha256 :: "string option"
  rv_summary :: string
  rv_reviewed_at :: datetime

definition blocking_severity :: "ReviewSeverity \<Rightarrow> bool" where
  "blocking_severity s \<longleftrightarrow> s \<in> {SEV_HIGH, SEV_CRITICAL}"

definition review_verdict_consistent :: "ReviewResultV1 \<Rightarrow> bool" where
  "review_verdict_consistent r \<longleftrightarrow>
     (let blocking = list_ex (\<lambda>item. blocking_severity (fi_severity item)) (rv_findings r);
          bindings = [rv_subject_sha256 r, rv_evidence_artifact_id r, rv_evidence_artifact_sha256 r];
          bound = list_all (\<lambda>item. item \<noteq> None) bindings
      in \<not> (rv_verdict r = APPROVED \<and> blocking) \<and>
         \<not> (list_ex (\<lambda>item. item \<noteq> None) bindings \<and> \<not> bound) \<and>
         \<not> (rv_reviewer r = LOCAL_SEMANTIC_REVIEW \<and> rv_verdict r \<noteq> RV_BLOCKED \<and> \<not> bound))"

definition validate_ReviewResultV1 :: "ReviewResultV1 \<Rightarrow> ReviewResultV1 option" where
  "validate_ReviewResultV1 r = do {
     ident \<leftarrow> task_id (rv_reviewer_id r);
     independent \<leftarrow> require (rv_independent r) (rv_independent r);
     findings0 \<leftarrow> mapM validate_ReviewFindingV1 (rv_findings r);
     findings \<leftarrow> bounded_len 0 256 findings0;
     subject \<leftarrow> optional exact_sha256 (rv_subject_sha256 r);
     artifact \<leftarrow> optional task_id (rv_evidence_artifact_id r);
     artifact_sha \<leftarrow> optional exact_sha256 (rv_evidence_artifact_sha256 r);
     summary \<leftarrow> sized 1 4096 (rv_summary r);
     reviewed \<leftarrow> aware_utc (rv_reviewed_at r);
     let r' = r\<lparr>rv_reviewer_id := ident, rv_independent := independent, rv_findings := findings,
                rv_subject_sha256 := subject, rv_evidence_artifact_id := artifact,
                rv_evidence_artifact_sha256 := artifact_sha, rv_summary := summary,
                rv_reviewed_at := reviewed\<rparr>;
     require (review_verdict_consistent r') r'
   }"

definition undeliverable_review_codes :: "string list" where
  "undeliverable_review_codes = [''codex.review_unstructured'', ''codex.review_mutated_worktree'']"

definition all_gates :: "ReviewResultV1 \<Rightarrow> bool" where
  "all_gates review \<longleftrightarrow>
     rv_checked_requirements review \<and> rv_checked_tests review \<and> rv_checked_diff_scope review \<and>
     rv_checked_secrets review \<and> rv_checked_constitution review"

definition codex_delivery_required :: "CodingTaskRequestV1 \<Rightarrow> bool" where
  "codex_delivery_required request \<longleftrightarrow>
     cq_mode request = CM_READ_ONLY \<and> cq_risk request \<in> {CR_HIGH, CR_CRITICAL} \<and>
     cp_cloud_execution (cq_permissions request) \<and>
     cp_data_classification (cq_permissions request) = DC_PUBLIC"

definition is_successful_review_delivery :: "CodingTaskRequestV1 \<Rightarrow> ReviewResultV1 \<Rightarrow> bool" where
  "is_successful_review_delivery request review \<longleftrightarrow>
     (if rv_verdict review = APPROVED then
        all_gates review \<and> (\<not> codex_delivery_required request \<or> rv_reviewer review = CODEX_REVIEW)
      else
        codex_delivery_required request \<and> rv_reviewer review = CODEX_REVIEW \<and>
        rv_verdict review = REJECTED \<and> rv_findings review \<noteq> [] \<and> all_gates review \<and>
        \<not> list_ex (\<lambda>item. fi_code item \<in> set undeliverable_review_codes) (rv_findings review))"

section \<open>Task states\<close>

record CodingTaskStateV1 =
  ct_schema_version :: string
  ct_request :: CodingTaskRequestV1
  ct_status :: CodingTaskStatus
  ct_source_repository :: string
  ct_worktree :: "WorktreeRecordV1 option"
  ct_applicable_rules :: "RuleReferenceV1 list"
  ct_inspected_files :: "string list"
  ct_context_artifact_id :: "string option"
  ct_attempts :: "CodingAttemptV1 list"
  ct_command_results :: "CommandResultV1 list"
  ct_artifacts :: "ArtifactReferenceV1 list"
  ct_modified_files :: "string list"
  ct_review :: "ReviewResultV1 option"
  ct_handoff_artifact_id :: "string option"
  ct_commit_sha :: "string option"
  ct_unresolved_errors :: "string list"
  ct_created_at :: datetime
  ct_updated_at :: datetime

text \<open>A rejected review as the deliverable: a clean, command-free, passed Codex review attempt.\<close>

definition clean_rejected_delivery :: "CodingTaskStateV1 \<Rightarrow> bool" where
  "clean_rejected_delivery r \<longleftrightarrow>
     ct_attempts r \<noteq> [] \<and>
     (let delivered_attempt = last (ct_attempts r) in
        at_executor delivered_attempt = CODEX_REVIEW \<and> at_status delivered_attempt = AT_PASSED \<and>
        at_command_ids delivered_attempt = [] \<and> at_modified_files delivered_attempt = []) \<and>
     ct_command_results r = [] \<and> ct_modified_files r = [] \<and> ct_commit_sha r = None \<and>
     (case ct_worktree r of None \<Rightarrow> False | Some w \<Rightarrow> wr_status w = WS_COMPLETE)"

definition completed_gate :: "CodingTaskStateV1 \<Rightarrow> bool" where
  "completed_gate r \<longleftrightarrow>
     (case ct_review r of
        None \<Rightarrow> False
      | Some review \<Rightarrow>
          is_successful_review_delivery (ct_request r) review \<and>
          (rv_verdict review = REJECTED \<longrightarrow> clean_rejected_delivery r)) \<and>
     ct_unresolved_errors r = []"

definition validate_state :: "CodingTaskStateV1 \<Rightarrow> bool" where
  "validate_state r \<longleftrightarrow>
     \<not> dt_less (ct_updated_at r) (ct_created_at r) \<and>
     \<not> (cq_mode (ct_request r) = CM_WRITE \<and>
         ct_status r \<in> {ISOLATED, EXECUTING, VERIFYING, REVIEWING, COMPLETED, HANDOFF_READY} \<and>
         ct_worktree r = None) \<and>
     (ct_status r = COMPLETED \<longrightarrow> completed_gate r) \<and>
     \<not> (truthy (ct_commit_sha r) \<and> \<not> cp_local_commit (cq_permissions (ct_request r)))"

definition validate_CodingTaskStateV1 :: "bool \<Rightarrow> CodingTaskStateV1 \<Rightarrow> CodingTaskStateV1 option" where
  "validate_CodingTaskStateV1 nt r = do {
     version \<leftarrow> require (ct_schema_version r = ''1.0'') (ct_schema_version r);
     request \<leftarrow> validate_CodingTaskRequestV1 nt (ct_request r);
     source \<leftarrow> reference_text 4096 (ct_source_repository r);
     worktree \<leftarrow> optional validate_WorktreeRecordV1 (ct_worktree r);
     rules0 \<leftarrow> mapM validate_RuleReferenceV1 (ct_applicable_rules r);
     rules \<leftarrow> bounded_len 0 64 rules0;
     inspected \<leftarrow> unique_references 0 10000 (ct_inspected_files r);
     ctx \<leftarrow> optional task_id (ct_context_artifact_id r);
     attempts0 \<leftarrow> mapM validate_CodingAttemptV1 (ct_attempts r);
     attempts \<leftarrow> bounded_len 0 10 attempts0;
     commands0 \<leftarrow> mapM validate_CommandResultV1 (ct_command_results r);
     commands \<leftarrow> bounded_len 0 256 commands0;
     artifacts0 \<leftarrow> mapM validate_ArtifactReferenceV1 (ct_artifacts r);
     artifacts \<leftarrow> bounded_len 0 256 artifacts0;
     modified \<leftarrow> unique_references 0 10000 (ct_modified_files r);
     review \<leftarrow> optional validate_ReviewResultV1 (ct_review r);
     handoff \<leftarrow> optional task_id (ct_handoff_artifact_id r);
     sha \<leftarrow> optional git_commit (ct_commit_sha r);
     errors \<leftarrow> unique_references 0 128 (ct_unresolved_errors r);
     created \<leftarrow> aware_utc (ct_created_at r);
     updated \<leftarrow> aware_utc (ct_updated_at r);
     let r' = r\<lparr>ct_schema_version := version, ct_request := request, ct_source_repository := source,
                ct_worktree := worktree, ct_applicable_rules := rules, ct_inspected_files := inspected,
                ct_context_artifact_id := ctx, ct_attempts := attempts,
                ct_command_results := commands, ct_artifacts := artifacts,
                ct_modified_files := modified, ct_review := review,
                ct_handoff_artifact_id := handoff, ct_commit_sha := sha,
                ct_unresolved_errors := errors, ct_created_at := created, ct_updated_at := updated\<rparr>;
     require (validate_state r') r'
   }"

record CodingTaskResultV1 =
  cs_schema_version :: string
  cs_task_id :: string
  cs_status :: CodingTaskStatus
  cs_summary :: string
  cs_source_repository :: string
  cs_worktree_path :: "string option"
  cs_branch :: "string option"
  cs_commit_sha :: "string option"
  cs_attempts :: int
  cs_modified_files :: "string list"
  cs_verification_passed :: bool
  cs_review_verdict :: "ReviewVerdict option"
  cs_final_executor :: "ExecutorKind option"
  cs_final_model :: "string option"
  cs_review_findings_count :: int
  cs_artifact_paths :: "string list"
  cs_handoff_path :: "string option"

definition validate_CodingTaskResultV1 :: "CodingTaskResultV1 \<Rightarrow> CodingTaskResultV1 option" where
  "validate_CodingTaskResultV1 r = do {
     version \<leftarrow> require (cs_schema_version r = ''1.0'') (cs_schema_version r);
     task \<leftarrow> task_id (cs_task_id r);
     summary \<leftarrow> sized 1 4096 (cs_summary r);
     attempts \<leftarrow> bounded_int 0 10 (cs_attempts r);
     files \<leftarrow> bounded_len 0 10000 (cs_modified_files r);
     model0 \<leftarrow> optional (sized 0 256) (cs_final_model r);
     model \<leftarrow> (if truthy model0 then map_option Some (reference_text 256 (the model0)) else Some None);
     findings \<leftarrow> bounded_int 0 256 (cs_review_findings_count r);
     paths \<leftarrow> bounded_len 0 256 (cs_artifact_paths r);
     Some (r\<lparr>cs_schema_version := version, cs_task_id := task, cs_summary := summary,
             cs_attempts := attempts, cs_modified_files := files, cs_final_model := model,
             cs_review_findings_count := findings, cs_artifact_paths := paths\<rparr>)
   }"

section \<open>Validators normalise\<close>

lemma reference_text_idem [contract_idem]:
  "reference_text m s = Some t \<Longrightarrow> reference_text m t = Some t"
  by (auto simp: reference_text_def bounded_text_def Let_def bind_eq_Some_conv py_strip_def
      dest!: subsetD[OF strip_by_subset] split: if_splits)

lemma task_id_Some [simp]: "task_id s = Some t \<longleftrightarrow> task_id_pattern s \<and> t = s"
  by (auto simp: task_id_def)

lemma sized_Some [simp]: "sized lo hi s = Some t \<longleftrightarrow> lo \<le> length s \<and> length s \<le> hi \<and> t = s"
  by (auto simp: sized_def)

lemma exact_sha256_Some [simp]: "exact_sha256 s = Some t \<longleftrightarrow> sha256_pattern s \<and> t = s"
  by (auto simp: exact_sha256_def)

lemma lower_sha256_idem [contract_idem]: "lower_sha256 s = Some t \<Longrightarrow> lower_sha256 t = Some t"
  by (auto simp: lower_sha256_def Let_def sha256_pattern_def list_all_iff casefold_lower_hex)

lemma git_commit_idem [contract_idem]: "git_commit s = Some t \<Longrightarrow> git_commit t = Some t"
  by (auto simp: git_commit_def Let_def git_sha_pattern_def list_all_iff casefold_lower_hex)

lemma unique_references_idem [contract_idem]:
  "unique_references lo hi xs = Some ys \<Longrightarrow> unique_references lo hi ys = Some ys"
  by (clarsimp simp: unique_references_def bind_eq_Some_conv) (auto simp: contract_idem dest: mapM_length)

lemma checker_optional:
  "(\<And>s t. f s = Some t \<longleftrightarrow> P s \<and> t = s) \<Longrightarrow>
     optional f v = Some w \<longleftrightarrow> w = v \<and> (\<forall>s. v = Some s \<longrightarrow> P s)"
  by (cases v) (auto simp: optional_Some)

lemma checker_mapM:
  "(\<And>s t. f s = Some t \<longleftrightarrow> P s \<and> t = s) \<Longrightarrow> mapM f xs = Some ys \<longleftrightarrow> ys = xs \<and> (\<forall>x \<in> set xs. P x)"
  by (induction xs arbitrary: ys) (auto simp: bind_eq_Some_conv)

lemma optional_task_id [simp]:
  "optional task_id v = Some w \<longleftrightarrow> w = v \<and> (\<forall>s. v = Some s \<longrightarrow> task_id_pattern s)"
  by (rule checker_optional) (rule task_id_Some)

lemma optional_exact_sha256 [simp]:
  "optional exact_sha256 v = Some w \<longleftrightarrow> w = v \<and> (\<forall>s. v = Some s \<longrightarrow> sha256_pattern s)"
  by (rule checker_optional) (rule exact_sha256_Some)

lemma optional_sized [simp]:
  "optional (sized lo hi) v = Some w \<longleftrightarrow> w = v \<and> (\<forall>s. v = Some s \<longrightarrow> lo \<le> length s \<and> length s \<le> hi)"
  using checker_optional[of "sized lo hi" "\<lambda>s. lo \<le> length s \<and> length s \<le> hi"] by simp

lemma optional_require [simp]:
  "optional (\<lambda>n. require (P n) n) v = Some w \<longleftrightarrow> w = v \<and> (\<forall>n. v = Some n \<longrightarrow> P n)"
  by (rule checker_optional) (rule require_Some)

lemma repository_relative_scope_checker:
  "repository_relative_scope s = Some t \<longleftrightarrow> repository_relative_scope s = Some s \<and> t = s"
  by (auto simp: repository_relative_scope_def Let_def)

lemma scope_paths_Some:
  "scope_paths xs = Some ys \<longleftrightarrow>
     unique_references 0 10000 xs = Some ys \<and> (\<forall>y \<in> set ys. repository_relative_scope y = Some y)"
  unfolding scope_paths_def bind_eq_Some_conv
  using checker_mapM[of repository_relative_scope, OF repository_relative_scope_checker] by auto

lemma scope_paths_idem [contract_idem]: "scope_paths xs = Some ys \<Longrightarrow> scope_paths ys = Some ys"
  by (auto simp: scope_paths_Some contract_idem)

lemma argv_checker:
  "(do { _ \<leftarrow> reference_text 4096 item; require (\<not> has_newline item) item }) = Some t \<longleftrightarrow>
     (reference_text 4096 item \<noteq> None \<and> \<not> has_newline item) \<and> t = item"
  by (auto simp: bind_eq_Some_conv)

lemma argv_checked [simp]:
  "mapM (\<lambda>item. do { _ \<leftarrow> reference_text 4096 item; require (\<not> has_newline item) item }) xs = Some ys \<longleftrightarrow>
     ys = xs \<and> (\<forall>item \<in> set xs. reference_text 4096 item \<noteq> None \<and> \<not> has_newline item)"
  by (rule checker_mapM) (rule argv_checker)

lemma reference_text_length [simp]:
  "reference_text m s = Some t \<Longrightarrow> Suc 0 \<le> length t \<and> length t \<le> m"
  by (auto simp: reference_text_def bounded_text_def Let_def bind_eq_Some_conv Suc_le_eq split: if_splits)

lemma validate_CodingPermissionsV1_idem [contract_idem]:
  "validate_CodingPermissionsV1 r = Some s \<Longrightarrow> validate_CodingPermissionsV1 s = Some s"
  by (auto simp: validate_CodingPermissionsV1_def)

lemma validate_VerificationCommandV1_idem [contract_idem]:
  "validate_VerificationCommandV1 r = Some s \<Longrightarrow> validate_VerificationCommandV1 s = Some s"
  unfolding validate_VerificationCommandV1_def by (clarsimp simp: bind_eq_Some_conv Let_def)

lemma validate_CodingTaskRequestV1_idem [contract_idem]:
  "validate_CodingTaskRequestV1 nt r = Some s \<Longrightarrow> validate_CodingTaskRequestV1 nt s = Some s"
  unfolding validate_CodingTaskRequestV1_def
  by (clarsimp simp: bind_eq_Some_conv Let_def) (simp add: contract_idem)

lemma validate_RuleReferenceV1_idem [contract_idem]:
  "validate_RuleReferenceV1 r = Some s \<Longrightarrow> validate_RuleReferenceV1 s = Some s"
  unfolding validate_RuleReferenceV1_def
  by (clarsimp simp: bind_eq_Some_conv Let_def) (simp add: contract_idem)

lemma validate_WorktreeRecordV1_idem [contract_idem]:
  "validate_WorktreeRecordV1 r = Some s \<Longrightarrow> validate_WorktreeRecordV1 s = Some s"
  unfolding validate_WorktreeRecordV1_def
  by (clarsimp simp: bind_eq_Some_conv Let_def) (simp add: contract_idem)

lemma validate_ArtifactReferenceV1_idem [contract_idem]:
  "validate_ArtifactReferenceV1 r = Some s \<Longrightarrow> validate_ArtifactReferenceV1 s = Some s"
  unfolding validate_ArtifactReferenceV1_def
  by (clarsimp simp: bind_eq_Some_conv Let_def) (simp add: contract_idem)

lemma validate_CommandResultV1_idem [contract_idem]:
  "validate_CommandResultV1 r = Some s \<Longrightarrow> validate_CommandResultV1 s = Some s"
  unfolding validate_CommandResultV1_def
  by (clarsimp simp: bind_eq_Some_conv Let_def) (simp add: contract_idem)

lemma validate_CodingAttemptV1_idem [contract_idem]:
  "validate_CodingAttemptV1 r = Some s \<Longrightarrow> validate_CodingAttemptV1 s = Some s"
  unfolding validate_CodingAttemptV1_def
  by (clarsimp simp: bind_eq_Some_conv Let_def) (simp add: contract_idem)

lemma validate_ReviewFindingV1_idem [contract_idem]:
  "validate_ReviewFindingV1 r = Some s \<Longrightarrow> validate_ReviewFindingV1 s = Some s"
  unfolding validate_ReviewFindingV1_def by (clarsimp simp: bind_eq_Some_conv Let_def)

lemma validate_ReviewResultV1_idem [contract_idem]:
  "validate_ReviewResultV1 r = Some s \<Longrightarrow> validate_ReviewResultV1 s = Some s"
  unfolding validate_ReviewResultV1_def
  by (clarsimp simp: bind_eq_Some_conv Let_def) (simp add: contract_idem)

lemma validate_CodingTaskStateV1_idem [contract_idem]:
  "validate_CodingTaskStateV1 nt r = Some s \<Longrightarrow> validate_CodingTaskStateV1 nt s = Some s"
  unfolding validate_CodingTaskStateV1_def
  by (clarsimp simp: bind_eq_Some_conv Let_def) (simp add: contract_idem)

interpretation worktree_record: normaliser validate_WorktreeRecordV1
  by unfold_locales (rule validate_WorktreeRecordV1_idem)

interpretation coding_request: normaliser "validate_CodingTaskRequestV1 nt" for nt
  by unfold_locales (rule validate_CodingTaskRequestV1_idem)

interpretation coding_state: normaliser "validate_CodingTaskStateV1 nt" for nt
  by unfold_locales (rule validate_CodingTaskStateV1_idem)

section \<open>What an accepted state satisfies\<close>

lemma accepted_state:
  assumes "validate_CodingTaskStateV1 nt raw = Some s"
  shows "validate_state s" "validate_CodingTaskRequestV1 nt (ct_request s) = Some (ct_request s)"
    "optional validate_ReviewResultV1 (ct_review s) = Some (ct_review s)"
    "optional validate_WorktreeRecordV1 (ct_worktree s) = Some (ct_worktree s)"
proof -
  note u = assms[unfolded validate_CodingTaskStateV1_def]
  show "validate_state s" using u by (clarsimp simp: bind_eq_Some_conv Let_def)
  show "validate_CodingTaskRequestV1 nt (ct_request s) = Some (ct_request s)"
    using u by (clarsimp simp: bind_eq_Some_conv Let_def) (erule validate_CodingTaskRequestV1_idem)
  show "optional validate_ReviewResultV1 (ct_review s) = Some (ct_review s)"
    using u by (clarsimp simp: bind_eq_Some_conv Let_def) (simp only: contract_idem)
  show "optional validate_WorktreeRecordV1 (ct_worktree s) = Some (ct_worktree s)"
    using u by (clarsimp simp: bind_eq_Some_conv Let_def) (simp only: contract_idem)
qed

lemma accepted_request:
  assumes "validate_CodingTaskRequestV1 nt raw = Some r"
  shows "validate_request_permissions nt r" "validate_CodingPermissionsV1 (cq_permissions r) = Some (cq_permissions r)"
    "task_id_pattern (cq_task_id r)"
proof -
  note u = assms[unfolded validate_CodingTaskRequestV1_def]
  show "validate_request_permissions nt r" using u by (clarsimp simp: bind_eq_Some_conv Let_def)
  show "validate_CodingPermissionsV1 (cq_permissions r) = Some (cq_permissions r)"
    using u by (clarsimp simp: bind_eq_Some_conv Let_def) (erule validate_CodingPermissionsV1_idem)
  show "task_id_pattern (cq_task_id r)" using u by (clarsimp simp: bind_eq_Some_conv Let_def)
qed

lemma accepted_review:
  "validate_ReviewResultV1 raw = Some r \<Longrightarrow> review_verdict_consistent r"
  unfolding validate_ReviewResultV1_def by (auto simp: bind_eq_Some_conv Let_def)

end
