(* ===== verification/Tables.thy ===== *)
theory Tables
  imports Prelude
begin

text \<open>
  SQL tables as lists of rows: \<open>SELECT ... WHERE key = ?\<close>, the compare-and-swap
  \<open>UPDATE ... WHERE key = ? AND version = ?\<close> with its row count, and graphs of allowed status
  transitions. The stores of the repository use these shapes; the two locales state what their
  clients rely on.
\<close>

section \<open>Rows by key\<close>

definition select :: "('r \<Rightarrow> 'k) \<Rightarrow> 'k \<Rightarrow> 'r list \<Rightarrow> 'r option" where
  "select key k rows = find (\<lambda>r. key r = k) rows"

definition unique_keys :: "('r \<Rightarrow> 'k) \<Rightarrow> 'r list \<Rightarrow> bool" where
  "unique_keys key rows \<longleftrightarrow> distinct (map key rows)"

lemma select_Nil [simp]: "select key k [] = None"
  by (simp add: select_def)

lemma select_Cons [simp]: "select key k (r # rows) = (if key r = k then Some r else select key k rows)"
  by (simp add: select_def)

lemma select_append [simp]:
  "select key k (xs @ ys) = (case select key k xs of None \<Rightarrow> select key k ys | Some r \<Rightarrow> Some r)"
  by (induction xs) auto

lemma select_None: "select key k rows = None \<longleftrightarrow> k \<notin> key ` set rows"
  by (induction rows) auto

lemma select_Some_in: "select key k rows = Some r \<Longrightarrow> r \<in> set rows \<and> key r = k"
  by (induction rows) (auto split: if_splits)

lemma select_unique: "unique_keys key rows \<Longrightarrow> r \<in> set rows \<Longrightarrow> select key (key r) rows = Some r"
  unfolding unique_keys_def by (induction rows) (auto simp: image_iff)

lemma unique_keys_snoc:
  "unique_keys key (rows @ [r]) \<longleftrightarrow> unique_keys key rows \<and> select key (key r) rows = None"
  by (auto simp: unique_keys_def select_None)

section \<open>Compare and swap\<close>

definition cas_update ::
    "('r \<Rightarrow> 'k) \<Rightarrow> ('r \<Rightarrow> int) \<Rightarrow> ('v \<Rightarrow> int \<Rightarrow> 'r \<Rightarrow> 'r) \<Rightarrow> 'k \<Rightarrow> int \<Rightarrow> 'v \<Rightarrow> 'r list \<Rightarrow> 'r list \<times> nat" where
  "cas_update key version store k n v rows =
     (map (\<lambda>r. if key r = k \<and> version r = n then store v (n + 1) r else r) rows,
      length (filter (\<lambda>r. key r = k \<and> version r = n) rows))"

text \<open>What an update must keep for optimistic locking: the key, and the version it is given.\<close>

locale versioned =
  fixes key :: "'r \<Rightarrow> 'k"
    and version :: "'r \<Rightarrow> int"
    and store :: "'v \<Rightarrow> int \<Rightarrow> 'r \<Rightarrow> 'r"
  assumes key_store: "key (store v n r) = key r"
    and version_store: "version (store v n r) = n"
begin

lemma keys_kept: "map key (fst (cas_update key version store k n v rows)) = map key rows"
  by (simp add: cas_update_def key_store)

lemma unique_kept: "unique_keys key rows \<Longrightarrow> unique_keys key (fst (cas_update key version store k n v rows))"
  by (simp add: unique_keys_def keys_kept)

lemma select_other:
  "k' \<noteq> k \<Longrightarrow> select key k' (fst (cas_update key version store k n v rows)) = select key k' rows"
  unfolding cas_update_def by (induction rows) (auto simp: key_store)

lemma select_updated:
  "select key k rows = Some r \<Longrightarrow> version r = n \<Longrightarrow>
     select key k (fst (cas_update key version store k n v rows)) = Some (store v (n + 1) r)"
  unfolding cas_update_def by (induction rows) (auto simp: key_store split: if_splits)

lemma other_rows_kept:
  "r \<in> set rows \<Longrightarrow> key r \<noteq> k \<Longrightarrow> r \<in> set (fst (cas_update key version store k n v rows))"
  unfolding cas_update_def by force

lemma rows_after:
  "unique_keys key rows \<Longrightarrow> select key k rows = Some r \<Longrightarrow> version r = n \<Longrightarrow>
     set (fst (cas_update key version store k n v rows)) =
       insert (store v (n + 1) r) {x \<in> set rows. key x \<noteq> k}"
  unfolding cas_update_def unique_keys_def
  by (induction rows) (auto split: if_splits simp: image_iff)

lemma count_hit:
  assumes "unique_keys key rows" and "select key k rows = Some r" and "version r = n"
  shows "snd (cas_update key version store k n v rows) = 1"
  using assms unfolding cas_update_def unique_keys_def
proof (induction rows)
  case (Cons x rows)
  show ?case
  proof (cases "key x = k")
    case True
    then have "filter (\<lambda>r. key r = k \<and> version r = n) rows = []"
      using Cons.prems(1) by (auto simp: filter_empty_conv image_iff)
    with True Cons.prems show ?thesis by simp
  qed (use Cons in auto)
qed simp

text \<open>Of two writers that read the same version, the second one changes nothing.\<close>

lemma second_writer_loses:
  assumes "unique_keys key rows"
  shows "cas_update key version store k n w (fst (cas_update key version store k n v rows)) =
           (fst (cas_update key version store k n v rows), 0)"
proof -
  have miss: "\<not> (key r = k \<and> version r = n)"
    if "r \<in> set (fst (cas_update key version store k n v rows))" for r
  proof -
    from that obtain x where "r = (if key x = k \<and> version x = n then store v (n + 1) x else x)"
      unfolding cas_update_def by (simp only: fst_conv set_map image_iff) blast
    then show ?thesis using version_store[of v "n + 1" x] by (cases "key x = k \<and> version x = n") auto
  qed
  then have "map (\<lambda>r. if key r = k \<and> version r = n then store w (n + 1) r else r)
      (fst (cas_update key version store k n v rows)) = fst (cas_update key version store k n v rows)"
    by (intro map_idI) auto
  moreover have "filter (\<lambda>r. key r = k \<and> version r = n) (fst (cas_update key version store k n v rows)) = []"
    using miss by (auto simp: filter_empty_conv)
  ultimately show ?thesis by (subst (1) cas_update_def) simp
qed

end

section \<open>Transition graphs\<close>

inductive follows :: "('s \<Rightarrow> 's set) \<Rightarrow> 's list \<Rightarrow> bool" for allowed :: "'s \<Rightarrow> 's set" where
  follows_one: "follows allowed [s]"
| follows_step: "follows allowed (xs @ [s]) \<Longrightarrow> t \<in> allowed s \<Longrightarrow> follows allowed (xs @ [s, t])"

text \<open>
  A graph of statuses with terminal ones. \<open>follows\<close> holds of the histories that respect the graph;
  the history is in order, the latest status last.
\<close>

locale transition_graph =
  fixes allowed :: "'s \<Rightarrow> 's set"
    and terminal :: "'s \<Rightarrow> bool"
  assumes terminal_stuck: "terminal s \<Longrightarrow> allowed s = {}"
begin

lemma follows_adjacent:
  assumes "follows allowed (xs @ [s, t] @ ys)"
  shows "t \<in> allowed s"
  using assms
proof (induction ys rule: rev_induct)
  case Nil
  then show ?case by (cases rule: follows.cases) auto
next
  case (snoc y ys)
  from snoc.prems have "follows allowed (xs @ [s, t] @ ys)"
    by (cases rule: follows.cases) (auto simp: append_eq_append_conv2 append_eq_Cons_conv Cons_eq_append_conv)
  with snoc.IH show ?case .
qed

lemma follows_prefix: "follows allowed (xs @ ys) \<Longrightarrow> xs \<noteq> [] \<Longrightarrow> follows allowed xs"
proof (induction ys rule: rev_induct)
  case (snoc y ys)
  then have "follows allowed ((xs @ ys) @ [y])" by simp
  then have "follows allowed (xs @ ys)" using snoc.prems(2)
    by (cases rule: follows.cases) (auto simp: append_eq_append_conv2 append_eq_Cons_conv Cons_eq_append_conv)
  with snoc show ?case by simp
qed simp

text \<open>A status that is entered only from \<open>p\<close> or from itself is reached through \<open>p\<close>.\<close>

lemma entered_through:
  assumes "follows allowed (xs @ [s])" and "hd (xs @ [s]) \<noteq> s" and "\<And>u. s \<in> allowed u \<Longrightarrow> u = s \<or> u = p"
    and "p \<noteq> s"
  shows "\<exists>ys n. xs @ [s] = ys @ [p] @ replicate (Suc n) s"
  using assms(1,2)
proof (induction xs rule: rev_induct)
  case (snoc u us)
  have "s \<in> allowed u" using follows_adjacent[of us u s "[]"] snoc.prems(1) by simp
  then consider "u = s" | "u = p" using assms(3) by blast
  then show ?case
  proof cases
    case 1
    have f: "follows allowed (us @ [s])" using follows_prefix[of "us @ [s]" "[s]"] snoc.prems(1) 1 by simp
    have "hd (us @ [s]) \<noteq> s" using snoc.prems(2) 1 by (cases us) auto
    then obtain ys n where "us @ [s] = ys @ [p] @ replicate (Suc n) s" using snoc.IH[OF f] by blast
    then have "(us @ [u]) @ [s] = ys @ [p] @ replicate (Suc (Suc n)) s"
      by (metis 1 append.assoc replicate_Suc replicate_append_same)
    then show ?thesis by blast
  next
    case 2
    then have "(us @ [u]) @ [s] = us @ [p] @ replicate (Suc 0) s" by simp
    then show ?thesis by blast
  qed
qed simp

lemma terminal_is_last:
  assumes "follows allowed (xs @ s # ys)" and "terminal s"
  shows "ys = []"
proof (cases ys)
  case (Cons t zs)
  then have "t \<in> allowed s" using follows_adjacent[of xs s t zs] assms(1) by simp
  with terminal_stuck[OF assms(2)] show ?thesis by simp
qed simp

end

end
