(* ===== verification/CodingStore.thy ===== *)
theory CodingStore
  imports CodingContracts Tables
begin

text \<open>
  The durable store of the Coding Engine: \<open>services/coding/store.py\<close> over the schema of
  \<open>services/coding/migrations.py\<close>. A table is a list of rows; an \<open>INSERT\<close> checks the primary key, the
  foreign key, the \<open>CHECK\<close> constraints and the partial unique indexes of the schema; a write
  transaction is a function that returns the new database, or an error, in which case the database
  is the old one (rollback).

  The column \<open>state_json\<close> holds the record itself, and \<open>state_sha256\<close> the digest of its canonical JSON:
  reading compares the digest and validates the record again. The digests, \<open>os.name\<close> and the path key
  (\<open>normcase\<close> of \<open>abspath\<close>) come from the environment. Text columns that hold a time hold the
  \<open>datetime\<close>; \<open>now\<close> is the clock of the operation.
\<close>

section \<open>Errors and transition tables\<close>

datatype StoreError =
  CodingStoreFailure | TaskAlreadyExistsError | TaskNotFoundError | ConcurrentTransitionError |
  InvalidTransitionError | WorktreeRegistryError | StoreValueError | StoreIntegrityError

fun allowed_transitions :: "CodingTaskStatus \<Rightarrow> CodingTaskStatus set" where
  "allowed_transitions CREATED = {INSPECTED, BLOCKED, FAILED, CANCELLED}"
| "allowed_transitions INSPECTED = {INSPECTED, PLANNED, BLOCKED, FAILED, CANCELLED}"
| "allowed_transitions PLANNED = {PLANNED, ISOLATED, HANDOFF_READY, BLOCKED, FAILED, CANCELLED}"
| "allowed_transitions ISOLATED =
     {ISOLATED, EXECUTING, HANDOFF_READY, BLOCKED, FAILED, CANCELLED, ORPHANED}"
| "allowed_transitions EXECUTING =
     {EXECUTING, VERIFYING, HANDOFF_READY, BLOCKED, FAILED, CANCELLED, ORPHANED}"
| "allowed_transitions VERIFYING =
     {VERIFYING, EXECUTING, REVIEWING, HANDOFF_READY, BLOCKED, FAILED, CANCELLED, ORPHANED}"
| "allowed_transitions REVIEWING =
     {REVIEWING, EXECUTING, COMPLETED, HANDOFF_READY, BLOCKED, FAILED, CANCELLED, ORPHANED}"
| "allowed_transitions HANDOFF_READY =
     {HANDOFF_READY, ISOLATED, EXECUTING, BLOCKED, FAILED, CANCELLED, ORPHANED}"
| "allowed_transitions BLOCKED = {BLOCKED, PLANNED, ISOLATED, HANDOFF_READY, FAILED, CANCELLED}"
| "allowed_transitions ORPHANED = {ORPHANED, ISOLATED, HANDOFF_READY, BLOCKED, FAILED, CANCELLED}"
| "allowed_transitions COMPLETED = {}"
| "allowed_transitions FAILED = {}"
| "allowed_transitions CANCELLED = {}"

fun worktree_transitions :: "WorktreeStatus \<Rightarrow> WorktreeStatus set" where
  "worktree_transitions WS_ACTIVE = {WS_ACTIVE, WS_COMPLETE, WS_ORPHANED, WS_CLEANUP_BLOCKED}"
| "worktree_transitions WS_ORPHANED =
     {WS_ORPHANED, WS_ACTIVE, WS_COMPLETE, WS_CLEANUP_BLOCKED, WS_REMOVED}"
| "worktree_transitions WS_COMPLETE = {WS_COMPLETE, WS_ORPHANED, WS_CLEANUP_BLOCKED, WS_REMOVED}"
| "worktree_transitions WS_CLEANUP_BLOCKED = {WS_CLEANUP_BLOCKED, WS_ORPHANED, WS_COMPLETE, WS_REMOVED}"
| "worktree_transitions WS_REMOVED = {}"

definition terminal_task_status :: "CodingTaskStatus \<Rightarrow> bool" where
  "terminal_task_status s \<longleftrightarrow> s \<in> {COMPLETED, FAILED, CANCELLED}"

section \<open>Rows\<close>

record StoreEnv =
  se_nt :: bool
  se_state_digest :: "CodingTaskStateV1 \<Rightarrow> string"
  se_record_digest :: "WorktreeRecordV1 \<Rightarrow> string"
  se_path_key :: "string \<Rightarrow> string"

record TaskRow =
  tr_task_id :: string
  tr_request_id :: string
  tr_status :: CodingTaskStatus
  tr_version :: int
  tr_json :: CodingTaskStateV1
  tr_sha256 :: string
  tr_created_at :: datetime
  tr_updated_at :: datetime

record EventRow =
  ce_task_id :: string
  ce_version :: int
  ce_event_type :: string
  ce_from_status :: "CodingTaskStatus option"
  ce_to_status :: CodingTaskStatus
  ce_reason_code :: "string option"
  ce_sha256 :: string
  ce_occurred_at :: datetime

record WorktreeRow =
  wt_task_id :: string
  wt_source_repository :: string
  wt_worktree_path :: string
  wt_worktree_key :: string
  wt_branch :: "string option"
  wt_branch_key :: "string option"
  wt_base_commit :: string
  wt_owner_token_hash :: string
  wt_status :: WorktreeStatus
  wt_owner_pid :: int
  wt_version :: int
  wt_json :: WorktreeRecordV1
  wt_sha256 :: string
  wt_created_at :: datetime
  wt_heartbeat_at :: datetime
  wt_completed_at :: "datetime option"
  wt_updated_at :: datetime

record CodingDb =
  db_tasks :: "TaskRow list"
  db_events :: "EventRow list"
  db_worktrees :: "WorktreeRow list"

definition empty_coding_db :: CodingDb where
  "empty_coding_db = \<lparr>db_tasks = [], db_events = [], db_worktrees = []\<rparr>"

section \<open>Constraints of the schema\<close>

definition task_insert_ok :: "CodingDb \<Rightarrow> TaskRow \<Rightarrow> bool" where
  "task_insert_ok db row \<longleftrightarrow>
     select tr_task_id (tr_task_id row) (db_tasks db) = None \<and>
     1 \<le> tr_version row \<and> sha256_pattern (tr_sha256 row)"

definition event_insert_ok :: "CodingDb \<Rightarrow> EventRow \<Rightarrow> bool" where
  "event_insert_ok db row \<longleftrightarrow>
     select tr_task_id (ce_task_id row) (db_tasks db) \<noteq> None \<and>
     1 \<le> ce_version row \<and>
     1 \<le> length (ce_event_type row) \<and> length (ce_event_type row) \<le> 64 \<and>
     (case ce_reason_code row of None \<Rightarrow> True | Some c \<Rightarrow> 1 \<le> length c \<and> length c \<le> 128) \<and>
     sha256_pattern (ce_sha256 row) \<and>
     \<not> list_ex (\<lambda>e. ce_task_id e = ce_task_id row \<and> ce_version e = ce_version row) (db_events db)"

text \<open>\<open>COLLATE NOCASE\<close> folds the ASCII letters.\<close>

definition nocase :: "string \<Rightarrow> string" where
  "nocase s = map (\<lambda>c. if is_upper_char c then char_of (code_of c + 32) else c) s"

text \<open>The two partial unique indexes: live rows share neither a path key nor a branch.\<close>

definition live_conflict :: "WorktreeRow \<Rightarrow> WorktreeRow \<Rightarrow> bool" where
  "live_conflict a b \<longleftrightarrow>
     wt_status a \<noteq> WS_REMOVED \<and> wt_status b \<noteq> WS_REMOVED \<and>
     (wt_worktree_key a = wt_worktree_key b \<or>
      (wt_branch_key a \<noteq> None \<and> wt_branch_key a = wt_branch_key b \<and>
       nocase (wt_source_repository a) = nocase (wt_source_repository b)))"

definition worktree_checks :: "WorktreeRow \<Rightarrow> bool" where
  "worktree_checks row \<longleftrightarrow>
     1 \<le> wt_owner_pid row \<and> 1 \<le> wt_version row \<and> sha256_pattern (wt_sha256 row)"

definition worktree_insert_ok :: "CodingDb \<Rightarrow> WorktreeRow \<Rightarrow> bool" where
  "worktree_insert_ok db row \<longleftrightarrow>
     select wt_task_id (wt_task_id row) (db_worktrees db) = None \<and>
     select tr_task_id (wt_task_id row) (db_tasks db) \<noteq> None \<and>
     worktree_checks row \<and> \<not> list_ex (live_conflict row) (db_worktrees db)"

definition worktree_update_ok :: "CodingDb \<Rightarrow> WorktreeRow \<Rightarrow> bool" where
  "worktree_update_ok db row \<longleftrightarrow>
     worktree_checks row \<and>
     \<not> list_ex (live_conflict row) (filter (\<lambda>w. wt_task_id w \<noteq> wt_task_id row) (db_worktrees db))"

section \<open>Helpers of the store\<close>

text \<open>The pattern of event and reason codes: lower-case words joined by single separators.\<close>

fun event_code_tail :: "bool \<Rightarrow> string \<Rightarrow> bool" where
  "event_code_tail after_separator [] = (\<not> after_separator)"
| "event_code_tail after_separator (c # cs) =
     (if is_lower_char c \<or> is_digit_char c then event_code_tail False cs
      else in_class c ''._-'' \<and> \<not> after_separator \<and> event_code_tail True cs)"

definition event_code_pattern :: "string \<Rightarrow> bool" where
  "event_code_pattern s \<longleftrightarrow>
     (case s of [] \<Rightarrow> False | c # cs \<Rightarrow> is_lower_char c \<and> event_code_tail False cs)"

definition validate_event_code :: "nat \<Rightarrow> string \<Rightarrow> bool" where
  "validate_event_code maximum value \<longleftrightarrow> length value \<le> maximum \<and> event_code_pattern value"

fun dt_eq :: "datetime \<Rightarrow> datetime \<Rightarrow> bool" where
  "dt_eq (Naive a) (Naive b) = (a = b)"
| "dt_eq (Aware a x) (Aware b y) = (a = b)"
| "dt_eq _ _ = False"

fun dt_opt_eq :: "datetime option \<Rightarrow> datetime option \<Rightarrow> bool" where
  "dt_opt_eq None None = True"
| "dt_opt_eq (Some a) (Some b) = dt_eq a b"
| "dt_opt_eq _ _ = False"

definition validate_worktree_record :: "WorktreeRecordV1 \<Rightarrow> bool" where
  "validate_worktree_record r \<longleftrightarrow>
     \<not> dt_less (wr_heartbeat_at r) (wr_created_at r) \<and>
     \<not> (wr_status r = WS_ACTIVE \<and> wr_completed_at r \<noteq> None) \<and>
     \<not> (wr_status r \<in> {WS_COMPLETE, WS_REMOVED} \<and> wr_completed_at r = None) \<and>
     (case wr_completed_at r of
        None \<Rightarrow> True
      | Some completed \<Rightarrow>
          \<not> dt_less completed (wr_created_at r) \<and> \<not> dt_less (wr_heartbeat_at r) completed)"

definition load_state_json :: "StoreEnv \<Rightarrow> CodingTaskStateV1 \<Rightarrow> string \<Rightarrow> StoreError + CodingTaskStateV1" where
  "load_state_json env payload expected_hash =
     (if se_state_digest env payload \<noteq> expected_hash then Inl CodingStoreFailure
      else case validate_CodingTaskStateV1 (se_nt env) payload of
             None \<Rightarrow> Inl CodingStoreFailure | Some state \<Rightarrow> Inr state)"

definition load_worktree_json :: "StoreEnv \<Rightarrow> WorktreeRecordV1 \<Rightarrow> string \<Rightarrow> StoreError + WorktreeRecordV1" where
  "load_worktree_json env payload expected_hash =
     (if se_record_digest env payload \<noteq> expected_hash then Inl WorktreeRegistryError
      else case validate_WorktreeRecordV1 payload of
             None \<Rightarrow> Inl WorktreeRegistryError
           | Some r \<Rightarrow> if validate_worktree_record r then Inr r else Inl WorktreeRegistryError)"

definition ensure_state_identity :: "CodingTaskStateV1 \<Rightarrow> bool" where
  "ensure_state_identity state \<longleftrightarrow>
     (case ct_worktree state of
        None \<Rightarrow> True | Some w \<Rightarrow> wr_task_id w = cq_task_id (ct_request state))"

definition same_identity :: "WorktreeRecordV1 \<Rightarrow> WorktreeRecordV1 \<Rightarrow> bool" where
  "same_identity a b \<longleftrightarrow>
     wr_source_repository a = wr_source_repository b \<and> wr_worktree_path a = wr_worktree_path b \<and>
     wr_branch a = wr_branch b \<and> wr_base_commit a = wr_base_commit b \<and>
     wr_owner_token_hash a = wr_owner_token_hash b"

definition ensure_registered_worktree :: "StoreEnv \<Rightarrow> CodingDb \<Rightarrow> CodingTaskStateV1 \<Rightarrow> StoreError option" where
  "ensure_registered_worktree env db state =
     (case ct_worktree state of
        None \<Rightarrow> None
      | Some record \<Rightarrow>
          case select wt_task_id (cq_task_id (ct_request state)) (db_worktrees db) of
            None \<Rightarrow> Some WorktreeRegistryError
          | Some row \<Rightarrow>
              case load_worktree_json env (wt_json row) (wt_sha256 row) of
                Inl e \<Rightarrow> Some e
              | Inr registered \<Rightarrow>
                  if \<not> same_identity record registered then Some WorktreeRegistryError
                  else if wt_status row = WS_REMOVED \<and> ct_status state \<notin> {COMPLETED, CANCELLED, FAILED}
                  then Some WorktreeRegistryError
                  else None)"

section \<open>Operations on tasks\<close>

definition create_task :: "StoreEnv \<Rightarrow> datetime \<Rightarrow> CodingTaskStateV1 \<Rightarrow> CodingDb \<Rightarrow> StoreError + CodingDb \<times> int" where
  "create_task env now state db =
     (let task = cq_task_id (ct_request state); digest = se_state_digest env state;
          row = \<lparr>tr_task_id = task, tr_request_id = cq_request_id (ct_request state),
                 tr_status = ct_status state, tr_version = 1, tr_json = state, tr_sha256 = digest,
                 tr_created_at = ct_created_at state, tr_updated_at = ct_updated_at state\<rparr>;
          event = \<lparr>ce_task_id = task, ce_version = 1, ce_event_type = ''task.created'',
                   ce_from_status = None, ce_to_status = ct_status state, ce_reason_code = None,
                   ce_sha256 = digest, ce_occurred_at = now\<rparr>;
          db1 = db\<lparr>db_tasks := db_tasks db @ [row]\<rparr>
      in if \<not> ensure_state_identity state then Inl CodingStoreFailure
         else if ct_status state \<noteq> CREATED then Inl InvalidTransitionError
         else if ct_worktree state \<noteq> None then Inl InvalidTransitionError
         else if \<not> task_insert_ok db row then Inl TaskAlreadyExistsError
         else if \<not> event_insert_ok db1 event then Inl TaskAlreadyExistsError
         else Inr (db1\<lparr>db_events := db_events db1 @ [event]\<rparr>, 1))"

definition load_task :: "StoreEnv \<Rightarrow> CodingDb \<Rightarrow> string \<Rightarrow> StoreError + CodingTaskStateV1 option" where
  "load_task env db task =
     (case select tr_task_id task (db_tasks db) of
        None \<Rightarrow> Inr None
      | Some row \<Rightarrow>
          case load_state_json env (tr_json row) (tr_sha256 row) of
            Inl e \<Rightarrow> Inl e | Inr state \<Rightarrow> Inr (Some state))"

definition task_version :: "CodingDb \<Rightarrow> string \<Rightarrow> StoreError + int" where
  "task_version db task =
     (case select tr_task_id task (db_tasks db) of
        None \<Rightarrow> Inl TaskNotFoundError | Some row \<Rightarrow> Inr (tr_version row))"

text \<open>The columns an \<open>UPDATE coding_tasks\<close> sets, from the new state, its digest and the new version.\<close>

definition set_task_row :: "CodingTaskStateV1 \<times> string \<Rightarrow> int \<Rightarrow> TaskRow \<Rightarrow> TaskRow" where
  "set_task_row new version row =
     row\<lparr>tr_status := ct_status (fst new), tr_version := version, tr_json := fst new,
         tr_sha256 := snd new, tr_updated_at := ct_updated_at (fst new)\<rparr>"

definition transition_guard :: "CodingTaskStateV1 \<Rightarrow> CodingTaskStateV1 \<Rightarrow> bool" where
  "transition_guard current state \<longleftrightarrow>
     ct_request current = ct_request state \<and>
     ct_source_repository current = ct_source_repository state \<and>
     dt_eq (ct_created_at current) (ct_created_at state) \<and>
     \<not> dt_less (ct_updated_at state) (ct_updated_at current) \<and>
     ct_status state \<in> allowed_transitions (ct_status current)"

definition transition_task ::
    "StoreEnv \<Rightarrow> datetime \<Rightarrow> CodingTaskStateV1 \<Rightarrow> string \<Rightarrow> string option \<Rightarrow> int option \<Rightarrow>
     CodingDb \<Rightarrow> StoreError + CodingDb \<times> int" where
  "transition_task env now state event_type reason_code expected_version db =
     (let task = cq_task_id (ct_request state); digest = se_state_digest env state in
      if \<not> ensure_state_identity state then Inl CodingStoreFailure
      else if \<not> validate_event_code 64 event_type then Inl StoreValueError
      else if \<not> (case reason_code of None \<Rightarrow> True | Some c \<Rightarrow> validate_event_code 128 c)
      then Inl StoreValueError
      else if \<not> (case expected_version of None \<Rightarrow> True | Some v \<Rightarrow> 1 \<le> v) then Inl StoreValueError
      else case select tr_task_id task (db_tasks db) of
        None \<Rightarrow> Inl TaskNotFoundError
      | Some row \<Rightarrow>
          if \<not> (case expected_version of None \<Rightarrow> True | Some v \<Rightarrow> tr_version row = v)
          then Inl ConcurrentTransitionError
          else case load_state_json env (tr_json row) (tr_sha256 row) of
            Inl e \<Rightarrow> Inl e
          | Inr current \<Rightarrow>
              if \<not> transition_guard current state then Inl InvalidTransitionError
              else case ensure_registered_worktree env db state of
                Some e \<Rightarrow> Inl e
              | None \<Rightarrow>
                  let new_version = tr_version row + 1;
                      updated = cas_update tr_task_id tr_version set_task_row task (tr_version row)
                                  (state, digest) (db_tasks db);
                      db1 = db\<lparr>db_tasks := fst updated\<rparr>;
                      event = \<lparr>ce_task_id = task, ce_version = new_version, ce_event_type = event_type,
                               ce_from_status = Some (ct_status current), ce_to_status = ct_status state,
                               ce_reason_code = reason_code, ce_sha256 = digest, ce_occurred_at = now\<rparr>
                  in if \<not> sha256_pattern digest then Inl StoreIntegrityError
                     else if snd updated \<noteq> 1 then Inl ConcurrentTransitionError
                     else if \<not> event_insert_ok db1 event then Inl StoreIntegrityError
                     else Inr (db1\<lparr>db_events := db_events db1 @ [event]\<rparr>, new_version))"

section \<open>Operations on worktrees\<close>

definition branch_key :: "string option \<Rightarrow> string option" where
  "branch_key value = map_option casefold value"

definition worktree_row :: "StoreEnv \<Rightarrow> datetime \<Rightarrow> int \<Rightarrow> datetime \<Rightarrow> WorktreeRecordV1 \<Rightarrow> WorktreeRow" where
  "worktree_row env now version created r =
     \<lparr>wt_task_id = wr_task_id r, wt_source_repository = wr_source_repository r,
      wt_worktree_path = wr_worktree_path r, wt_worktree_key = se_path_key env (wr_worktree_path r),
      wt_branch = wr_branch r, wt_branch_key = branch_key (wr_branch r),
      wt_base_commit = wr_base_commit r, wt_owner_token_hash = wr_owner_token_hash r,
      wt_status = wr_status r, wt_owner_pid = wr_owner_pid r, wt_version = version, wt_json = r,
      wt_sha256 = se_record_digest env r, wt_created_at = created, wt_heartbeat_at = wr_heartbeat_at r,
      wt_completed_at = wr_completed_at r, wt_updated_at = now\<rparr>"

definition register_worktree :: "StoreEnv \<Rightarrow> datetime \<Rightarrow> WorktreeRecordV1 \<Rightarrow> CodingDb \<Rightarrow> StoreError + CodingDb" where
  "register_worktree env now record db =
     (if \<not> validate_worktree_record record then Inl WorktreeRegistryError
      else if wr_status record \<noteq> WS_ACTIVE \<or> wr_completed_at record \<noteq> None then Inl WorktreeRegistryError
      else case select tr_task_id (wr_task_id record) (db_tasks db) of
        None \<Rightarrow> Inl TaskNotFoundError
      | Some task \<Rightarrow>
          case load_state_json env (tr_json task) (tr_sha256 task) of
            Inl e \<Rightarrow> Inl e
          | Inr state \<Rightarrow>
              let row = worktree_row env now 1 (wr_created_at record) record in
              if ct_source_repository state \<noteq> wr_source_repository record then Inl WorktreeRegistryError
              else if \<not> worktree_insert_ok db row then Inl WorktreeRegistryError
              else Inr (db\<lparr>db_worktrees := db_worktrees db @ [row]\<rparr>))"

text \<open>The \<open>UPDATE\<close> keeps the task, the creation time and nothing else of the old row.\<close>

definition set_worktree_row :: "StoreEnv \<times> datetime \<times> WorktreeRecordV1 \<Rightarrow> int \<Rightarrow> WorktreeRow \<Rightarrow> WorktreeRow" where
  "set_worktree_row new version row =
     (case new of (env, now, record) \<Rightarrow>
        (worktree_row env now version (wt_created_at row) record)\<lparr>wt_task_id := wt_task_id row\<rparr>)"

definition worktree_immutable :: "WorktreeRecordV1 \<Rightarrow> WorktreeRecordV1 \<Rightarrow> bool" where
  "worktree_immutable current record \<longleftrightarrow>
     wr_task_id current = wr_task_id record \<and> same_identity current record \<and>
     dt_eq (wr_created_at current) (wr_created_at record)"

definition worktree_update_guard :: "WorktreeRecordV1 \<Rightarrow> WorktreeRecordV1 \<Rightarrow> bool" where
  "worktree_update_guard current record \<longleftrightarrow>
     worktree_immutable current record \<and>
     wr_status record \<in> worktree_transitions (wr_status current) \<and>
     \<not> dt_less (wr_heartbeat_at record) (wr_heartbeat_at current) \<and>
     \<not> (wr_completed_at current \<noteq> None \<and> \<not> dt_opt_eq (wr_completed_at record) (wr_completed_at current)) \<and>
     \<not> (wr_owner_pid record \<noteq> wr_owner_pid current \<and>
         \<not> (wr_status current = WS_ORPHANED \<and> wr_status record = WS_ACTIVE))"

definition update_worktree :: "StoreEnv \<Rightarrow> datetime \<Rightarrow> WorktreeRecordV1 \<Rightarrow> CodingDb \<Rightarrow> StoreError + CodingDb" where
  "update_worktree env now record db =
     (if \<not> validate_worktree_record record then Inl WorktreeRegistryError
      else case select wt_task_id (wr_task_id record) (db_worktrees db) of
        None \<Rightarrow> Inl WorktreeRegistryError
      | Some row \<Rightarrow>
          case load_worktree_json env (wt_json row) (wt_sha256 row) of
            Inl e \<Rightarrow> Inl e
          | Inr current \<Rightarrow>
              if \<not> worktree_update_guard current record then Inl WorktreeRegistryError
              else
                let updated = cas_update wt_task_id wt_version set_worktree_row (wr_task_id record)
                                (wt_version row) (env, now, record) (db_worktrees db)
                in if \<not> worktree_update_ok db (set_worktree_row (env, now, record) (wt_version row + 1) row)
                   then Inl WorktreeRegistryError
                   else if snd updated \<noteq> 1 then Inl ConcurrentTransitionError
                   else Inr (db\<lparr>db_worktrees := fst updated\<rparr>))"

definition load_worktree :: "StoreEnv \<Rightarrow> CodingDb \<Rightarrow> string \<Rightarrow> StoreError + WorktreeRecordV1 option" where
  "load_worktree env db task =
     (case select wt_task_id task (db_worktrees db) of
        None \<Rightarrow> Inr None
      | Some row \<Rightarrow>
          case load_worktree_json env (wt_json row) (wt_sha256 row) of
            Inl e \<Rightarrow> Inl e | Inr record \<Rightarrow> Inr (Some record))"

section \<open>Verification of the database\<close>

text \<open>
  The event query of \<open>verify_coding_database\<close>: tasks without an event of their version, or with one
  whose digest is another; and \<open>PRAGMA foreign_key_check\<close>.
\<close>

definition inconsistent_events :: "CodingDb \<Rightarrow> nat" where
  "inconsistent_events db =
     length (filter (\<lambda>t. case find (\<lambda>e. ce_task_id e = tr_task_id t \<and> ce_version e = tr_version t) (db_events db) of
                           None \<Rightarrow> True | Some e \<Rightarrow> ce_sha256 e \<noteq> tr_sha256 t)
               (db_tasks db))"

definition foreign_key_violations :: "CodingDb \<Rightarrow> nat" where
  "foreign_key_violations db =
     length (filter (\<lambda>e. select tr_task_id (ce_task_id e) (db_tasks db) = None) (db_events db)) +
     length (filter (\<lambda>w. select tr_task_id (wt_task_id w) (db_tasks db) = None) (db_worktrees db))"

definition verify_coding_data :: "CodingDb \<Rightarrow> bool" where
  "verify_coding_data db \<longleftrightarrow> foreign_key_violations db = 0 \<and> inconsistent_events db = 0"

text \<open>The \<open>GROUP BY status\<close> counts of \<open>status\<close>.\<close>

definition task_status_count :: "CodingDb \<Rightarrow> CodingTaskStatus \<Rightarrow> nat" where
  "task_status_count db s = length (filter (\<lambda>t. tr_status t = s) (db_tasks db))"

definition worktree_status_count :: "CodingDb \<Rightarrow> WorktreeStatus \<Rightarrow> nat" where
  "worktree_status_count db s = length (filter (\<lambda>w. wt_status w = s) (db_worktrees db))"

section \<open>Interfaces\<close>

interpretation task_rows: versioned tr_task_id tr_version set_task_row
  by unfold_locales (simp_all add: set_task_row_def)

interpretation worktree_rows: versioned wt_task_id wt_version set_worktree_row
  by unfold_locales (simp_all add: set_worktree_row_def worktree_row_def split: prod.splits)

interpretation task_graph: transition_graph allowed_transitions terminal_task_status
  by unfold_locales (auto simp: terminal_task_status_def)

interpretation worktree_graph: transition_graph worktree_transitions "\<lambda>s. s = WS_REMOVED"
  by unfold_locales simp

section \<open>Runs of the store\<close>

datatype StoreOp =
  CreateTask datetime CodingTaskStateV1
| TransitionTask datetime CodingTaskStateV1 string "string option" "int option"
| RegisterWorktree datetime WorktreeRecordV1
| UpdateWorktree datetime WorktreeRecordV1

fun apply_op :: "StoreEnv \<Rightarrow> StoreOp \<Rightarrow> CodingDb \<Rightarrow> StoreError + CodingDb" where
  "apply_op env (CreateTask now state) db = map_sum id fst (create_task env now state db)"
| "apply_op env (TransitionTask now state event_type reason expected) db =
     map_sum id fst (transition_task env now state event_type reason expected db)"
| "apply_op env (RegisterWorktree now record) db = register_worktree env now record db"
| "apply_op env (UpdateWorktree now record) db = update_worktree env now record db"

text \<open>The arguments are model instances, which their constructors have validated.\<close>

fun op_valid :: "StoreEnv \<Rightarrow> StoreOp \<Rightarrow> bool" where
  "op_valid env (CreateTask now state) = (validate_CodingTaskStateV1 (se_nt env) state = Some state)"
| "op_valid env (TransitionTask now state event_type reason expected) =
     (validate_CodingTaskStateV1 (se_nt env) state = Some state)"
| "op_valid env (RegisterWorktree now record) = (validate_WorktreeRecordV1 record = Some record)"
| "op_valid env (UpdateWorktree now record) = (validate_WorktreeRecordV1 record = Some record)"

inductive store_step :: "StoreEnv \<Rightarrow> CodingDb \<Rightarrow> CodingDb \<Rightarrow> bool" for env :: StoreEnv where
  store_step_op: "op_valid env op \<Longrightarrow> apply_op env op db = Inr db' \<Longrightarrow> store_step env db db'"

inductive store_reachable :: "StoreEnv \<Rightarrow> CodingDb \<Rightarrow> bool" for env :: StoreEnv where
  reachable_empty: "store_reachable env empty_coding_db"
| reachable_step: "store_reachable env db \<Longrightarrow> store_step env db db' \<Longrightarrow> store_reachable env db'"

inductive_cases store_step_cases: "store_step env db db'"

end
