(* ===== verification/CodingStoreInvariant.thy ===== *)
theory CodingStoreInvariant
  imports CodingStore
begin

text \<open>
  The invariant of the coding store and its preservation by every operation: rows agree with the
  snapshots they carry, the events of a task are the numbered history of its status, worktree rows
  are owned by tasks and live ones do not collide.
\<close>

section \<open>The invariant\<close>

definition task_row_ok :: "StoreEnv \<Rightarrow> TaskRow \<Rightarrow> bool" where
  "task_row_ok env row \<longleftrightarrow>
     tr_task_id row = cq_task_id (ct_request (tr_json row)) \<and> tr_status row = ct_status (tr_json row) \<and>
     tr_sha256 row = se_state_digest env (tr_json row) \<and>
     validate_CodingTaskStateV1 (se_nt env) (tr_json row) = Some (tr_json row) \<and>
     ensure_state_identity (tr_json row)"

definition history :: "EventRow list \<Rightarrow> string \<Rightarrow> EventRow list" where
  "history events t = filter (\<lambda>e. ce_task_id e = t) events"

definition history_ok :: "EventRow list \<Rightarrow> TaskRow \<Rightarrow> bool" where
  "history_ok events row \<longleftrightarrow>
     (let h = history events (tr_task_id row) in
      h \<noteq> [] \<and> follows allowed_transitions (map ce_to_status h) \<and> ce_to_status (hd h) = CREATED \<and>
      map ce_version h = [1..int (length h)] \<and> tr_version row = int (length h) \<and>
      ce_to_status (last h) = tr_status row \<and> ce_sha256 (last h) = tr_sha256 row)"

definition worktree_row_ok :: "StoreEnv \<Rightarrow> WorktreeRow \<Rightarrow> bool" where
  "worktree_row_ok env row \<longleftrightarrow>
     row = worktree_row env (wt_updated_at row) (wt_version row) (wt_created_at row) (wt_json row) \<and>
     validate_WorktreeRecordV1 (wt_json row) = Some (wt_json row) \<and>
     validate_worktree_record (wt_json row)"

definition worktree_linked :: "WorktreeRow list \<Rightarrow> TaskRow \<Rightarrow> bool" where
  "worktree_linked worktrees row \<longleftrightarrow>
     (case ct_worktree (tr_json row) of
        None \<Rightarrow> True
      | Some record \<Rightarrow> \<exists>w \<in> set worktrees.
          wt_task_id w = tr_task_id row \<and> same_identity record (wt_json w))"

definition worktree_owned :: "TaskRow list \<Rightarrow> WorktreeRow \<Rightarrow> bool" where
  "worktree_owned tasks w \<longleftrightarrow>
     (\<exists>t \<in> set tasks. tr_task_id t = wt_task_id w \<and>
        ct_source_repository (tr_json t) = wt_source_repository w)"

definition store_inv :: "StoreEnv \<Rightarrow> CodingDb \<Rightarrow> bool" where
  "store_inv env db \<longleftrightarrow>
     unique_keys tr_task_id (db_tasks db) \<and> unique_keys wt_task_id (db_worktrees db) \<and>
     (\<forall>t \<in> set (db_tasks db). task_row_ok env t \<and> history_ok (db_events db) t \<and>
        worktree_linked (db_worktrees db) t) \<and>
     (\<forall>e \<in> set (db_events db). ce_task_id e \<in> tr_task_id ` set (db_tasks db)) \<and>
     (\<forall>w \<in> set (db_worktrees db). worktree_row_ok env w \<and> worktree_owned (db_tasks db) w) \<and>
     (\<forall>a \<in> set (db_worktrees db). \<forall>b \<in> set (db_worktrees db).
        wt_task_id a \<noteq> wt_task_id b \<longrightarrow> \<not> live_conflict a b)"

lemma store_invD:
  assumes "store_inv env db"
  shows "unique_keys tr_task_id (db_tasks db)" "unique_keys wt_task_id (db_worktrees db)"
    and "t \<in> set (db_tasks db) \<Longrightarrow> task_row_ok env t"
    and "t \<in> set (db_tasks db) \<Longrightarrow> history_ok (db_events db) t"
    and "t \<in> set (db_tasks db) \<Longrightarrow> worktree_linked (db_worktrees db) t"
    and "e \<in> set (db_events db) \<Longrightarrow> ce_task_id e \<in> tr_task_id ` set (db_tasks db)"
    and "w \<in> set (db_worktrees db) \<Longrightarrow> worktree_row_ok env w"
    and "w \<in> set (db_worktrees db) \<Longrightarrow> worktree_owned (db_tasks db) w"
    and "a \<in> set (db_worktrees db) \<Longrightarrow> b \<in> set (db_worktrees db) \<Longrightarrow> wt_task_id a \<noteq> wt_task_id b \<Longrightarrow>
           \<not> live_conflict a b"
  using assms unfolding store_inv_def by blast+

lemma empty_inv: "store_inv env empty_coding_db"
  by (simp add: store_inv_def empty_coding_db_def unique_keys_def)

lemma history_snoc [simp]:
  "history (events @ [e]) t = history events t @ (if ce_task_id e = t then [e] else [])"
  by (simp add: history_def)

lemma history_ok_other:
  "ce_task_id e \<noteq> tr_task_id row \<Longrightarrow> history_ok (events @ [e]) row = history_ok events row"
  by (simp add: history_ok_def)

lemma live_conflict_sym: "live_conflict a b = live_conflict b a"
  by (auto simp: live_conflict_def)

text \<open>Loading a row that satisfies the invariant returns its snapshot.\<close>

lemma load_state_row: "task_row_ok env row \<Longrightarrow> load_state_json env (tr_json row) (tr_sha256 row) = Inr (tr_json row)"
  by (simp add: task_row_ok_def load_state_json_def)

lemma load_worktree_row:
  assumes "worktree_row_ok env row"
  shows "load_worktree_json env (wt_json row) (wt_sha256 row) = Inr (wt_json row)"
proof -
  have "wt_sha256 row = se_record_digest env (wt_json row)"
    using assms unfolding worktree_row_ok_def by (metis WorktreeRow.select_convs(13) worktree_row_def)
  then show ?thesis using assms by (simp add: worktree_row_ok_def load_worktree_json_def)
qed

lemma worktree_row_fields:
  assumes "worktree_row_ok env w"
  shows "wt_task_id w = wr_task_id (wt_json w)" "wt_source_repository w = wr_source_repository (wt_json w)"
    "wt_worktree_path w = wr_worktree_path (wt_json w)" "wt_status w = wr_status (wt_json w)"
    "wt_branch w = wr_branch (wt_json w)" "wt_owner_pid w = wr_owner_pid (wt_json w)"
    "wt_worktree_key w = se_path_key env (wr_worktree_path (wt_json w))"
    "wt_branch_key w = branch_key (wr_branch (wt_json w))"
proof -
  let ?r = "worktree_row env (wt_updated_at w) (wt_version w) (wt_created_at w) (wt_json w)"
  have e: "w = ?r" using assms by (simp add: worktree_row_ok_def)
  show "wt_task_id w = wr_task_id (wt_json w)" "wt_source_repository w = wr_source_repository (wt_json w)"
    "wt_worktree_path w = wr_worktree_path (wt_json w)" "wt_status w = wr_status (wt_json w)"
    "wt_branch w = wr_branch (wt_json w)" "wt_owner_pid w = wr_owner_pid (wt_json w)"
    "wt_worktree_key w = se_path_key env (wr_worktree_path (wt_json w))"
    "wt_branch_key w = branch_key (wr_branch (wt_json w))"
    by (subst e, simp add: worktree_row_def)+
qed

section \<open>Creation\<close>

lemma create_taskE:
  assumes "create_task env now state db = Inr (db', v)"
  obtains row event where
    "row = \<lparr>tr_task_id = cq_task_id (ct_request state), tr_request_id = cq_request_id (ct_request state),
            tr_status = CREATED, tr_version = 1, tr_json = state,
            tr_sha256 = se_state_digest env state, tr_created_at = ct_created_at state,
            tr_updated_at = ct_updated_at state\<rparr>"
    "event = \<lparr>ce_task_id = cq_task_id (ct_request state), ce_version = 1, ce_event_type = ''task.created'',
            ce_from_status = None, ce_to_status = CREATED, ce_reason_code = None,
            ce_sha256 = se_state_digest env state, ce_occurred_at = now\<rparr>"
    "ct_status state = CREATED" "ct_worktree state = None"
    "select tr_task_id (cq_task_id (ct_request state)) (db_tasks db) = None"
    "db' = db\<lparr>db_tasks := db_tasks db @ [row], db_events := db_events db @ [event]\<rparr>" "v = 1"
  using assms unfolding create_task_def
  by (auto simp: Let_def task_insert_ok_def split: if_splits)

lemma create_inv:
  assumes inv: "store_inv env db" and c: "create_task env now state db = Inr (db', v)"
    and valid: "validate_CodingTaskStateV1 (se_nt env) state = Some state"
  shows "store_inv env db'"
proof -
  from c obtain row event where
    row: "row = \<lparr>tr_task_id = cq_task_id (ct_request state), tr_request_id = cq_request_id (ct_request state),
            tr_status = CREATED, tr_version = 1, tr_json = state,
            tr_sha256 = se_state_digest env state, tr_created_at = ct_created_at state,
            tr_updated_at = ct_updated_at state\<rparr>"
    and ev: "event = \<lparr>ce_task_id = cq_task_id (ct_request state), ce_version = 1, ce_event_type = ''task.created'',
            ce_from_status = None, ce_to_status = CREATED, ce_reason_code = None,
            ce_sha256 = se_state_digest env state, ce_occurred_at = now\<rparr>"
    and st: "ct_status state = CREATED" "ct_worktree state = None"
    and new: "select tr_task_id (cq_task_id (ct_request state)) (db_tasks db) = None"
    and db': "db' = db\<lparr>db_tasks := db_tasks db @ [row], db_events := db_events db @ [event]\<rparr>"
    by (rule create_taskE)
  have fresh: "tr_task_id t \<noteq> cq_task_id (ct_request state)" if "t \<in> set (db_tasks db)" for t
    using new that unfolding select_None by force
  have "history (db_events db) (cq_task_id (ct_request state)) = []"
    using store_invD(6)[OF inv] fresh by (fastforce simp: history_def filter_empty_conv)
  then have h: "history_ok (db_events db @ [event]) row"
    by (simp add: history_ok_def row ev follows_one)
  have r: "task_row_ok env row" "worktree_linked (db_worktrees db) row"
    using st valid by (simp_all add: row task_row_ok_def ensure_state_identity_def worktree_linked_def)
  have old: "history_ok (db_events db @ [event]) t" if "t \<in> set (db_tasks db)" for t
    using store_invD(4)[OF inv that] fresh[OF that] by (subst history_ok_other) (auto simp: ev)
  have owned: "worktree_owned (db_tasks db @ [row]) w" if "w \<in> set (db_worktrees db)" for w
    using store_invD(8)[OF inv that] by (auto simp: worktree_owned_def)
  show ?thesis
    unfolding store_inv_def db'
    using store_invD[OF inv] new h r old owned by (auto simp: unique_keys_snoc row ev)
qed

section \<open>Transitions\<close>

lemma transition_taskE:
  assumes "transition_task env now state event_type reason expected db = Inr (db', v)"
  obtains row current event where
    "select tr_task_id (cq_task_id (ct_request state)) (db_tasks db) = Some row"
    "load_state_json env (tr_json row) (tr_sha256 row) = Inr current"
    "expected = None \<or> expected = Some (tr_version row)"
    "transition_guard current state" "ensure_registered_worktree env db state = None"
    "ensure_state_identity state"
    "event = \<lparr>ce_task_id = cq_task_id (ct_request state), ce_version = tr_version row + 1,
              ce_event_type = event_type, ce_from_status = Some (ct_status current),
              ce_to_status = ct_status state, ce_reason_code = reason,
              ce_sha256 = se_state_digest env state, ce_occurred_at = now\<rparr>"
    "db' = db\<lparr>db_tasks := fst (cas_update tr_task_id tr_version set_task_row
                (cq_task_id (ct_request state)) (tr_version row)
                (state, se_state_digest env state) (db_tasks db)),
              db_events := db_events db @ [event]\<rparr>"
    "v = tr_version row + 1"
  using assms unfolding transition_task_def
  by (auto simp: Let_def split: if_splits option.splits sum.splits)

lemma follows_snoc:
  assumes "follows allowed (map f h)" and "h \<noteq> []" and "t \<in> allowed (f (last h))"
  shows "follows allowed (map f h @ [t])"
proof -
  have "map f h = map f (butlast h) @ [f (last h)]" using assms(2) by (metis append_butlast_last_id list.simps(8,9) map_append)
  then show ?thesis using follows_step[of allowed "map f (butlast h)" "f (last h)" t] assms(1,3) by simp
qed

lemma history_ok_extend:
  assumes "history_ok events row" and "ce_task_id e = tr_task_id row" and "ce_version e = tr_version row + 1"
    and "ce_to_status e \<in> allowed_transitions (tr_status row)"
    and "tr_task_id row' = tr_task_id row" and "tr_version row' = tr_version row + 1"
    and "tr_status row' = ce_to_status e" and "tr_sha256 row' = ce_sha256 e"
  shows "history_ok (events @ [e]) row'"
proof -
  let ?h = "history events (tr_task_id row)"
  have h: "?h \<noteq> []" "follows allowed_transitions (map ce_to_status ?h)" "ce_to_status (hd ?h) = CREATED"
    "map ce_version ?h = [1..int (length ?h)]" "tr_version row = int (length ?h)"
    "ce_to_status (last ?h) = tr_status row"
    using assms(1) by (simp_all add: history_ok_def Let_def)
  have "follows allowed_transitions (map ce_to_status ?h @ [ce_to_status e])"
    using follows_snoc[OF h(2,1)] h(6) assms(4) by simp
  moreover have "[1..int (length ?h) + 1] = [1..int (length ?h)] @ [int (length ?h) + 1]"
    using upto_rec2[of 1 "int (length ?h) + 1"] by simp
  ultimately show ?thesis
    using h assms(2,3,5-8) by (simp add: history_ok_def Let_def add.commute)
qed

lemma transition_inv:
  assumes inv: "store_inv env db" and c: "transition_task env now state event_type reason expected db = Inr (db', v)"
    and valid: "validate_CodingTaskStateV1 (se_nt env) state = Some state"
  shows "store_inv env db'"
proof -
  let ?k = "cq_task_id (ct_request state)"
  from c obtain row current event where
    sel: "select tr_task_id ?k (db_tasks db) = Some row"
    and cur: "load_state_json env (tr_json row) (tr_sha256 row) = Inr current"
    and guard: "transition_guard current state" and reg: "ensure_registered_worktree env db state = None"
    and ident: "ensure_state_identity state"
    and ev: "event = \<lparr>ce_task_id = ?k, ce_version = tr_version row + 1,
              ce_event_type = event_type, ce_from_status = Some (ct_status current),
              ce_to_status = ct_status state, ce_reason_code = reason,
              ce_sha256 = se_state_digest env state, ce_occurred_at = now\<rparr>"
    and db': "db' = db\<lparr>db_tasks := fst (cas_update tr_task_id tr_version set_task_row ?k (tr_version row)
                (state, se_state_digest env state) (db_tasks db)),
              db_events := db_events db @ [event]\<rparr>"
    by (rule transition_taskE)
  note uk = store_invD(1)[OF inv]
  have mem: "row \<in> set (db_tasks db)" "tr_task_id row = ?k" using select_Some_in[OF sel] by auto
  note rok = store_invD(3)[OF inv mem(1)] and hok = store_invD(4)[OF inv mem(1)]
  have cur': "current = tr_json row" using cur load_state_row[OF rok] by simp
  let ?new = "set_task_row (state, se_state_digest env state) (tr_version row + 1) row"
  have tasks: "set (db_tasks db') = insert ?new {t \<in> set (db_tasks db). tr_task_id t \<noteq> ?k}"
    using task_rows.rows_after[OF uk sel refl] by (simp add: db')
  have new_id: "tr_task_id ?new = ?k" by (simp add: set_task_row_def mem(2))
  have u': "unique_keys tr_task_id (db_tasks db')" using task_rows.unique_kept[OF uk] by (simp add: db')
  have new_ok: "task_row_ok env ?new"
    using valid ident by (simp add: task_row_ok_def set_task_row_def mem(2))
  have "ct_status state \<in> allowed_transitions (tr_status row)"
    using guard rok by (simp add: transition_guard_def cur' task_row_ok_def)
  then have new_history: "history_ok (db_events db @ [event]) ?new"
    using mem(2) by (intro history_ok_extend[OF hok]) (simp_all add: ev set_task_row_def)
  have new_link: "worktree_linked (db_worktrees db) ?new"
  proof (cases "ct_worktree state")
    case None
    then show ?thesis by (simp add: worktree_linked_def set_task_row_def)
  next
    case (Some r)
    then obtain w where w: "select wt_task_id ?k (db_worktrees db) = Some w"
      using reg by (auto simp: ensure_registered_worktree_def split: option.splits)
    have wm: "w \<in> set (db_worktrees db)" "wt_task_id w = ?k" using select_Some_in[OF w] by auto
    have "same_identity r (wt_json w)"
      using reg Some w load_worktree_row[OF store_invD(7)[OF inv wm(1)]]
      by (simp add: ensure_registered_worktree_def split: if_splits)
    with wm show ?thesis using Some by (auto simp: worktree_linked_def set_task_row_def mem(2))
  qed
  have old_history: "history_ok (db_events db @ [event]) t" if "t \<in> set (db_tasks db)" "tr_task_id t \<noteq> ?k" for t
    using store_invD(4)[OF inv that(1)] that(2) by (subst history_ok_other) (auto simp: ev)
  have ids: "tr_task_id ` set (db_tasks db') = tr_task_id ` set (db_tasks db)"
    using task_rows.keys_kept by (simp add: db' flip: set_map)
  have repo: "ct_source_repository (tr_json ?new) = ct_source_repository (tr_json row)"
    using guard by (simp add: set_task_row_def transition_guard_def cur')
  have owned: "worktree_owned (db_tasks db') w" if wm: "w \<in> set (db_worktrees db)" for w
  proof -
    obtain t where t: "t \<in> set (db_tasks db)" "tr_task_id t = wt_task_id w"
      "ct_source_repository (tr_json t) = wt_source_repository w"
      using store_invD(8)[OF inv wm] by (auto simp: worktree_owned_def)
    show ?thesis
    proof (cases "tr_task_id t = ?k")
      case True
      then have "t = row" using select_unique[OF uk t(1)] sel by simp
      then show ?thesis using t repo new_id tasks mem(2) unfolding worktree_owned_def by auto
    next
      case False
      then show ?thesis using t tasks unfolding worktree_owned_def by auto
    qed
  qed
  have events: "db_events db' = db_events db @ [event]" "db_worktrees db' = db_worktrees db" by (simp_all add: db')
  have tasks_ok: "task_row_ok env t \<and> history_ok (db_events db @ [event]) t \<and> worktree_linked (db_worktrees db) t"
    if "t \<in> set (db_tasks db')" for t
    using that tasks new_ok new_history new_link old_history store_invD(3,5)[OF inv] by auto
  have events_ok: "ce_task_id e \<in> tr_task_id ` set (db_tasks db)" if "e \<in> set (db_events db @ [event])" for e
  proof (cases "e = event")
    case True
    then have "ce_task_id e = tr_task_id row" by (simp add: ev mem(2))
    then show ?thesis using mem(1) by (auto intro: image_eqI)
  qed (use that store_invD(6)[OF inv] in auto)
  show ?thesis
    unfolding store_inv_def events ids
    using u' store_invD(2,7,9)[OF inv] tasks_ok events_ok owned by blast
qed

section \<open>Worktrees\<close>

lemma worktree_row_selfrow:
  "worktree_row_ok env (worktree_row env now v created r) \<longleftrightarrow>
     validate_WorktreeRecordV1 r = Some r \<and> validate_worktree_record r"
  by (simp add: worktree_row_ok_def worktree_row_def)

lemma register_worktreeE:
  assumes "register_worktree env now record db = Inr db'"
  obtains task state where
    "select tr_task_id (wr_task_id record) (db_tasks db) = Some task"
    "load_state_json env (tr_json task) (tr_sha256 task) = Inr state"
    "ct_source_repository state = wr_source_repository record"
    "validate_worktree_record record" "wr_status record = WS_ACTIVE"
    "worktree_insert_ok db (worktree_row env now 1 (wr_created_at record) record)"
    "db' = db\<lparr>db_worktrees := db_worktrees db @ [worktree_row env now 1 (wr_created_at record) record]\<rparr>"
  using assms unfolding register_worktree_def
  by (auto simp: Let_def split: if_splits option.splits sum.splits)

lemma register_inv:
  assumes inv: "store_inv env db" and c: "register_worktree env now record db = Inr db'"
    and valid: "validate_WorktreeRecordV1 record = Some record"
  shows "store_inv env db'"
proof -
  let ?row = "worktree_row env now 1 (wr_created_at record) record"
  from c obtain task state where
    sel: "select tr_task_id (wr_task_id record) (db_tasks db) = Some task"
    and ld: "load_state_json env (tr_json task) (tr_sha256 task) = Inr state"
    and src: "ct_source_repository state = wr_source_repository record"
    and vr: "validate_worktree_record record"
    and ins: "worktree_insert_ok db ?row"
    and db': "db' = db\<lparr>db_worktrees := db_worktrees db @ [?row]\<rparr>"
    by (rule register_worktreeE)
  have mem: "task \<in> set (db_tasks db)" "tr_task_id task = wr_task_id record"
    using select_Some_in[OF sel] by auto
  have "state = tr_json task" using ld load_state_row[OF store_invD(3)[OF inv mem(1)]] by simp
  then have own: "worktree_owned (db_tasks db) ?row"
    using mem src by (auto simp: worktree_owned_def worktree_row_def)
  have new: "select wt_task_id (wt_task_id ?row) (db_worktrees db) = None"
    and live: "\<not> live_conflict ?row w" if "w \<in> set (db_worktrees db)" for w
    using ins that by (auto simp: worktree_insert_ok_def list_ex_iff)
  have uk: "unique_keys wt_task_id (db_worktrees db @ [?row])"
    using store_invD(2)[OF inv] ins by (simp add: unique_keys_snoc worktree_insert_ok_def)
  have link: "worktree_linked (db_worktrees db @ [?row]) t" if "t \<in> set (db_tasks db)" for t
    using store_invD(5)[OF inv that] by (auto simp: worktree_linked_def split: option.splits)
  have ok: "worktree_row_ok env ?row" using valid vr by (simp add: worktree_row_selfrow)
  have fields: "db_tasks db' = db_tasks db" "db_events db' = db_events db"
    "db_worktrees db' = db_worktrees db @ [?row]" by (simp_all add: db')
  have live': "\<not> live_conflict a b" if "a \<in> set (db_worktrees db @ [?row])" "b \<in> set (db_worktrees db @ [?row])"
    "wt_task_id a \<noteq> wt_task_id b" for a b
    using that live store_invD(9)[OF inv] live_conflict_sym by auto
  show ?thesis
    unfolding store_inv_def fields
    using store_invD[OF inv] uk link ok own live' by auto
qed

lemma update_worktreeE:
  assumes "update_worktree env now record db = Inr db'"
  obtains row current where
    "select wt_task_id (wr_task_id record) (db_worktrees db) = Some row"
    "load_worktree_json env (wt_json row) (wt_sha256 row) = Inr current"
    "worktree_update_guard current record" "validate_worktree_record record"
    "worktree_update_ok db (set_worktree_row (env, now, record) (wt_version row + 1) row)"
    "db' = db\<lparr>db_worktrees := fst (cas_update wt_task_id wt_version set_worktree_row (wr_task_id record)
                (wt_version row) (env, now, record) (db_worktrees db))\<rparr>"
  using assms unfolding update_worktree_def
  by (auto simp: Let_def split: if_splits option.splits sum.splits)

lemma update_inv:
  assumes inv: "store_inv env db" and c: "update_worktree env now record db = Inr db'"
    and valid: "validate_WorktreeRecordV1 record = Some record"
  shows "store_inv env db'"
proof -
  let ?k = "wr_task_id record"
  from c obtain row current where
    sel: "select wt_task_id ?k (db_worktrees db) = Some row"
    and ld: "load_worktree_json env (wt_json row) (wt_sha256 row) = Inr current"
    and guard: "worktree_update_guard current record" and vr: "validate_worktree_record record"
    and upd: "worktree_update_ok db (set_worktree_row (env, now, record) (wt_version row + 1) row)"
    and db': "db' = db\<lparr>db_worktrees := fst (cas_update wt_task_id wt_version set_worktree_row ?k
                (wt_version row) (env, now, record) (db_worktrees db))\<rparr>"
    by (rule update_worktreeE)
  let ?new = "set_worktree_row (env, now, record) (wt_version row + 1) row"
  note uk = store_invD(2)[OF inv]
  have mem: "row \<in> set (db_worktrees db)" "wt_task_id row = ?k" using select_Some_in[OF sel] by auto
  have cur: "current = wt_json row" using ld load_worktree_row[OF store_invD(7)[OF inv mem(1)]] by simp
  have rows: "set (db_worktrees db') = insert ?new {w \<in> set (db_worktrees db). wt_task_id w \<noteq> ?k}"
    using worktree_rows.rows_after[OF uk sel refl] by (simp add: db')
  have u': "unique_keys wt_task_id (db_worktrees db')" using worktree_rows.unique_kept[OF uk] by (simp add: db')
  have new: "?new = worktree_row env now (wt_version row + 1) (wt_created_at row) record"
    by (simp add: set_worktree_row_def worktree_row_def mem(2))
  have ok: "worktree_row_ok env ?new" using valid vr by (simp only: new worktree_row_selfrow)
  have new_fields: "wt_task_id ?new = ?k" "wt_json ?new = record" "wt_source_repository ?new = wr_source_repository record"
    by (simp_all add: new worktree_row_def)
  have same: "same_identity (wt_json row) record"
    using guard by (simp add: worktree_update_guard_def worktree_immutable_def cur)
  then have "wt_source_repository row = wr_source_repository record"
    using worktree_row_fields(2)[OF store_invD(7)[OF inv mem(1)]] by (simp add: same_identity_def)
  then have own: "worktree_owned (db_tasks db) ?new"
    using store_invD(8)[OF inv mem(1)] new_fields mem(2) by (simp add: worktree_owned_def)
  have link: "worktree_linked (db_worktrees db') t" if tm: "t \<in> set (db_tasks db)" for t
  proof (cases "ct_worktree (tr_json t)")
    case (Some r)
    then obtain w where w: "w \<in> set (db_worktrees db)" "wt_task_id w = tr_task_id t" "same_identity r (wt_json w)"
      using store_invD(5)[OF inv tm] by (auto simp: worktree_linked_def)
    show ?thesis
    proof (cases "wt_task_id w = ?k")
      case True
      then have "w = row" using select_unique[OF uk w(1)] sel by simp
      then have "same_identity r (wt_json ?new)" "wt_task_id ?new = tr_task_id t"
        using w same new_fields mem(2) by (simp_all add: same_identity_def)
      then show ?thesis using Some rows by (auto simp: worktree_linked_def)
    qed (use Some w rows in \<open>auto simp: worktree_linked_def\<close>)
  qed (simp add: worktree_linked_def)
  have live_new: "\<not> live_conflict ?new w" if "w \<in> set (db_worktrees db)" "wt_task_id w \<noteq> ?k" for w
    using upd that new_fields by (auto simp: worktree_update_ok_def list_ex_iff)
  have live': "\<not> live_conflict a b" if "a \<in> set (db_worktrees db')" "b \<in> set (db_worktrees db')"
    "wt_task_id a \<noteq> wt_task_id b" for a b
  proof (cases "a = ?new")
    case True
    then show ?thesis using that rows live_new new_fields by auto
  next
    case False
    then show ?thesis using that rows live_new[of a] store_invD(9)[OF inv] live_conflict_sym[of ?new a] by auto
  qed
  have fields: "db_tasks db' = db_tasks db" "db_events db' = db_events db" by (simp_all add: db')
  have all_ok: "worktree_row_ok env w \<and> worktree_owned (db_tasks db) w" if "w \<in> set (db_worktrees db')" for w
    using that rows ok own store_invD(7,8)[OF inv] by auto
  show ?thesis
    unfolding store_inv_def fields
    using store_invD[OF inv] u' link all_ok live' by auto
qed

section \<open>Every reachable database satisfies the invariant\<close>

lemma apply_op_inv:
  assumes "store_inv env db" and "op_valid env op" and "apply_op env op db = Inr db'"
  shows "store_inv env db'"
proof (cases op)
  case (CreateTask now state)
  then show ?thesis using assms create_inv by (cases "create_task env now state db") auto
next
  case (TransitionTask now state et rc ex)
  then show ?thesis using assms transition_inv by (cases "transition_task env now state et rc ex db") auto
next
  case (RegisterWorktree now wrec)
  then show ?thesis using assms register_inv by auto
next
  case (UpdateWorktree now wrec)
  then show ?thesis using assms update_inv by auto
qed

lemma store_step_inv: "store_inv env db \<Longrightarrow> store_step env db db' \<Longrightarrow> store_inv env db'"
  by (erule store_step_cases) (rule apply_op_inv)

lemma reachable_inv: "store_reachable env db \<Longrightarrow> store_inv env db"
  by (induction rule: store_reachable.induct) (auto intro: empty_inv store_step_inv)

end
