(* ===== verification/CodingStoreProperties.thy ===== *)
theory CodingStoreProperties
  imports CodingStoreInvariant
begin

text \<open>
  What the coding store promises to its clients, over every database it can reach: verification
  passes, reads return what was written, terminal tasks stay as they are, a completed task went
  through execution, verification and review, writers with a stale version lose, and live worktrees
  never share a path or a branch.
\<close>

section \<open>How an operation changes the rows\<close>

lemma task_row_loaded:
  assumes "store_inv env db" and "select tr_task_id t (db_tasks db) = Some row"
  shows "load_task env db t = Inr (Some (tr_json row))" "task_version db t = Inr (tr_version row)"
    "tr_status row = ct_status (tr_json row)" "cq_task_id (ct_request (tr_json row)) = t"
    "validate_CodingTaskStateV1 (se_nt env) (tr_json row) = Some (tr_json row)"
proof -
  have "row \<in> set (db_tasks db)" "tr_task_id row = t" using select_Some_in[OF assms(2)] by auto
  note ok = store_invD(3)[OF assms(1) this(1)] this(2)
  then show "load_task env db t = Inr (Some (tr_json row))" "task_version db t = Inr (tr_version row)"
    "tr_status row = ct_status (tr_json row)" "cq_task_id (ct_request (tr_json row)) = t"
    "validate_CodingTaskStateV1 (se_nt env) (tr_json row) = Some (tr_json row)"
    using assms(2) load_state_row[OF ok(1)] by (simp_all add: load_task_def task_version_def task_row_ok_def)
qed

lemma worktree_row_loaded:
  assumes "store_inv env db" and "select wt_task_id t (db_worktrees db) = Some w"
  shows "load_worktree env db t = Inr (Some (wt_json w))" "worktree_row_ok env w" "wt_task_id w = t"
proof -
  have m: "w \<in> set (db_worktrees db)" and t: "wt_task_id w = t" using select_Some_in[OF assms(2)] by auto
  show "worktree_row_ok env w" by (rule store_invD(7)[OF assms(1) m])
  then show "load_worktree env db t = Inr (Some (wt_json w))"
    using assms(2) load_worktree_row by (simp add: load_worktree_def)
  show "wt_task_id w = t" by (rule t)
qed

text \<open>One operation on a task row: it is left alone, or a guarded transition replaces it.\<close>

lemma task_row_step:
  assumes inv: "store_inv env db" and step: "store_step env db db'"
    and sel: "select tr_task_id t (db_tasks db) = Some row"
  shows "select tr_task_id t (db_tasks db') = Some row \<or>
    (\<exists>state. select tr_task_id t (db_tasks db') =
        Some (set_task_row (state, se_state_digest env state) (tr_version row + 1) row) \<and>
      transition_guard (tr_json row) state)"
  using step
proof (cases rule: store_step.cases)
  case (store_step_op op)
  show ?thesis
  proof (cases op)
    case (CreateTask now state)
    then obtain v where "create_task env now state db = Inr (db', v)"
      using store_step_op(2) by (cases "create_task env now state db") auto
    then show ?thesis using sel by (elim create_taskE) simp
  next
    case (TransitionTask now state et rc ex)
    then obtain v where v: "transition_task env now state et rc ex db = Inr (db', v)"
      using store_step_op(2) by (cases "transition_task env now state et rc ex db") auto
    then obtain r cur where r: "select tr_task_id (cq_task_id (ct_request state)) (db_tasks db) = Some r"
      "load_state_json env (tr_json r) (tr_sha256 r) = Inr cur" "transition_guard cur state"
      and d: "db_tasks db' = fst (cas_update tr_task_id tr_version set_task_row (cq_task_id (ct_request state))
           (tr_version r) (state, se_state_digest env state) (db_tasks db))"
      by (elim transition_taskE) simp
    show ?thesis
    proof (cases "cq_task_id (ct_request state) = t")
      case True
      have "r = row" using r(1) sel True by simp
      moreover have "cur = tr_json r"
        using r(2) load_state_row[OF store_invD(3)[OF inv]] select_Some_in[OF r(1)] by auto
      ultimately show ?thesis using task_rows.select_updated[OF r(1) refl] r(3) d True by auto
    qed (use sel d task_rows.select_other in auto)
  next
    case (RegisterWorktree now wrec)
    then show ?thesis using store_step_op(2) sel by (auto elim: register_worktreeE)
  next
    case (UpdateWorktree now wrec)
    then show ?thesis using store_step_op(2) sel by (auto elim: update_worktreeE)
  qed
qed

lemma worktree_row_step:
  assumes inv: "store_inv env db" and step: "store_step env db db'"
    and sel: "select wt_task_id t (db_worktrees db) = Some row"
  shows "select wt_task_id t (db_worktrees db') = Some row \<or>
    (\<exists>now wrec. select wt_task_id t (db_worktrees db') =
        Some (set_worktree_row (env, now, wrec) (wt_version row + 1) row) \<and>
      worktree_update_guard (wt_json row) wrec)"
  using step
proof (cases rule: store_step.cases)
  case (store_step_op op)
  show ?thesis
  proof (cases op)
    case (CreateTask now state)
    then obtain v where "create_task env now state db = Inr (db', v)"
      using store_step_op(2) by (cases "create_task env now state db") auto
    then show ?thesis using sel by (elim create_taskE) simp
  next
    case (TransitionTask now state et rc ex)
    then obtain v where "transition_task env now state et rc ex db = Inr (db', v)"
      using store_step_op(2) by (cases "transition_task env now state et rc ex db") auto
    then show ?thesis using sel by (elim transition_taskE) simp
  next
    case (RegisterWorktree now wrec)
    then show ?thesis using store_step_op(2) sel by (auto elim: register_worktreeE)
  next
    case (UpdateWorktree now wrec)
    then have "update_worktree env now wrec db = Inr db'" using store_step_op(2) by simp
    then obtain r cur where r: "select wt_task_id (wr_task_id wrec) (db_worktrees db) = Some r"
      "load_worktree_json env (wt_json r) (wt_sha256 r) = Inr cur" "worktree_update_guard cur wrec"
      and d: "db_worktrees db' = fst (cas_update wt_task_id wt_version set_worktree_row (wr_task_id wrec)
           (wt_version r) (env, now, wrec) (db_worktrees db))"
      by (elim update_worktreeE) simp
    show ?thesis
    proof (cases "wr_task_id wrec = t")
      case True
      have "r = row" using r(1) sel True by simp
      moreover have "cur = wt_json r"
        using r(2) load_worktree_row[OF store_invD(7)[OF inv]] select_Some_in[OF r(1)] by auto
      ultimately show ?thesis using worktree_rows.select_updated[OF r(1) refl] r(3) d True by auto
    qed (use sel d worktree_rows.select_other in auto)
  qed
qed

section \<open>Verification and reads\<close>

lemma find_event:
  assumes "history_ok events row"
  shows "\<exists>e. find (\<lambda>e. ce_task_id e = tr_task_id row \<and> ce_version e = tr_version row) events = Some e \<and>
    ce_sha256 e = tr_sha256 row"
proof -
  let ?h = "history events (tr_task_id row)"
  have h: "?h \<noteq> []" "map ce_version ?h = [1..int (length ?h)]" "tr_version row = int (length ?h)"
    "ce_sha256 (last ?h) = tr_sha256 row"
    using assms by (simp_all add: history_ok_def Let_def)
  have d: "distinct (map ce_version ?h)" by (simp add: h(2))
  have "ce_version (last ?h) = last (map ce_version ?h)" using h(1) by (simp add: last_map)
  also have "\<dots> = tr_version row"
    using h(1) upto_rec2[of 1 "int (length ?h)"] by (simp add: h(2,3) Suc_le_eq)
  finally have lv: "ce_version (last ?h) = tr_version row" .
  have lm: "last ?h \<in> set ?h" using h(1) by simp
  then have "\<exists>x \<in> set events. ce_task_id x = tr_task_id row \<and> ce_version x = tr_version row"
    using lv by (auto simp: history_def)
  then obtain e where e: "find (\<lambda>e. ce_task_id e = tr_task_id row \<and> ce_version e = tr_version row) events = Some e"
    by (cases "find (\<lambda>e. ce_task_id e = tr_task_id row \<and> ce_version e = tr_version row) events")
      (auto simp: find_None_iff)
  then have "e \<in> set ?h" "ce_version e = tr_version row"
    by (auto simp: history_def find_Some_iff)
  then have "e = last ?h" using d lm lv by (auto simp: distinct_map inj_on_def)
  with e h(4) show ?thesis by simp
qed

text \<open>
  C13: whatever sequence of operations is run on the store, with models that their constructors
  accepted, verification of the database finds no dangling reference and no broken event chain, and
  every read succeeds.
\<close>

theorem reachable_store_verifies:
  assumes "store_reachable env db"
  shows "verify_coding_data db \<and> (\<forall>t. \<exists>r. load_task env db t = Inr r) \<and> (\<forall>t. \<exists>r. load_worktree env db t = Inr r)"
proof -
  note inv = reachable_inv[OF assms]
  have events: "select tr_task_id (ce_task_id e) (db_tasks db) \<noteq> None" if "e \<in> set (db_events db)" for e
    using store_invD(6)[OF inv that] by (auto simp: select_None)
  have trees: "select tr_task_id (wt_task_id w) (db_tasks db) \<noteq> None" if "w \<in> set (db_worktrees db)" for w
    using store_invD(8)[OF inv that] unfolding worktree_owned_def select_None by force
  have chain: "\<not> (case find (\<lambda>e. ce_task_id e = tr_task_id t \<and> ce_version e = tr_version t) (db_events db) of
                 None \<Rightarrow> True | Some e \<Rightarrow> ce_sha256 e \<noteq> tr_sha256 t)" if "t \<in> set (db_tasks db)" for t
    using find_event[OF store_invD(4)[OF inv that]] by auto
  have "verify_coding_data db"
    using events trees chain
    by (simp add: verify_coding_data_def foreign_key_violations_def inconsistent_events_def filter_empty_conv)
  moreover have "\<exists>r. load_task env db t = Inr r" for t
    using task_row_loaded(1)[OF inv, of t] by (cases "select tr_task_id t (db_tasks db)") (auto simp: load_task_def)
  moreover have "\<exists>r. load_worktree env db t = Inr r" for t
    using worktree_row_loaded(1)[OF inv, of t] by (cases "select wt_task_id t (db_worktrees db)") (auto simp: load_worktree_def)
  ultimately show ?thesis by blast
qed

text \<open>
  after a transition the task reads back as the state that was written, under the returned
  version, and every other task and every worktree reads as before.
\<close>

theorem transition_then_load:
  assumes "store_reachable env db" and "validate_CodingTaskStateV1 (se_nt env) state = Some state"
    and "transition_task env now state event_type reason expected db = Inr (db', v)"
  shows "load_task env db' (cq_task_id (ct_request state)) = Inr (Some state) \<and>
    task_version db' (cq_task_id (ct_request state)) = Inr v \<and>
    (\<forall>t. t \<noteq> cq_task_id (ct_request state) \<longrightarrow>
       load_task env db' t = load_task env db t \<and> task_version db' t = task_version db t) \<and>
    (\<forall>t. load_worktree env db' t = load_worktree env db t)"
proof -
  let ?k = "cq_task_id (ct_request state)"
  note inv = reachable_inv[OF assms(1)]
  from assms(3) obtain row where r: "select tr_task_id ?k (db_tasks db) = Some row"
    and d: "db_tasks db' = fst (cas_update tr_task_id tr_version set_task_row ?k (tr_version row)
              (state, se_state_digest env state) (db_tasks db))" "db_worktrees db' = db_worktrees db"
    and v: "v = tr_version row + 1"
    by (elim transition_taskE) simp
  have new: "select tr_task_id ?k (db_tasks db') =
      Some (set_task_row (state, se_state_digest env state) (tr_version row + 1) row)"
    unfolding d by (rule task_rows.select_updated[OF r refl])
  have "store_inv env db'" by (rule transition_inv[OF inv assms(3,2)])
  note loaded = task_row_loaded[OF this new]
  have "load_task env db' t = load_task env db t \<and> task_version db' t = task_version db t" if "t \<noteq> ?k" for t
    using task_rows.select_other[OF that] by (simp add: load_task_def task_version_def d)
  then show ?thesis using loaded(1,2) v by (simp add: set_task_row_def load_worktree_def d(2))
qed

text \<open>C15: of two writers that expect the same version of a task, the second one is refused.\<close>

theorem second_writer_is_refused:
  assumes "store_reachable env db" and "validate_CodingTaskStateV1 (se_nt env) state1 = Some state1"
    and "transition_task env now1 state1 type1 reason1 (Some n) db = Inr (db', v)"
    and "cq_task_id (ct_request state2) = cq_task_id (ct_request state1)"
    and "ensure_state_identity state2" and "validate_event_code 64 type2"
    and "reason2 = None \<or> (\<exists>c. reason2 = Some c \<and> validate_event_code 128 c)"
  shows "transition_task env now2 state2 type2 reason2 (Some n) db' = Inl ConcurrentTransitionError"
proof -
  let ?k = "cq_task_id (ct_request state1)"
  from assms(3) obtain row where r: "select tr_task_id ?k (db_tasks db) = Some row" "n = tr_version row"
    and d: "db_tasks db' = fst (cas_update tr_task_id tr_version set_task_row ?k (tr_version row)
              (state1, se_state_digest env state1) (db_tasks db))"
    by (elim transition_taskE) simp
  have new: "select tr_task_id ?k (db_tasks db') =
      Some (set_task_row (state1, se_state_digest env state1) (tr_version row + 1) row)"
    unfolding d by (rule task_rows.select_updated[OF r(1) refl])
  have "row \<in> set (db_tasks db)" using select_Some_in[OF r(1)] by simp
  from store_invD(4)[OF reachable_inv[OF assms(1)] this] have "1 \<le> tr_version row"
    by (auto simp: history_ok_def Let_def Suc_le_eq)
  then show ?thesis
    using assms(4-7) new r(2)
    by (auto simp: transition_task_def Let_def set_task_row_def split: option.splits)
qed

section \<open>Histories\<close>

lemma task_history:
  assumes "store_inv env db" and "select tr_task_id t (db_tasks db) = Some row"
  shows "follows allowed_transitions (map ce_to_status (history (db_events db) t))"
    "hd (map ce_to_status (history (db_events db) t)) = CREATED"
    "last (map ce_to_status (history (db_events db) t)) = tr_status row"
    "history (db_events db) t \<noteq> []"
proof -
  have "row \<in> set (db_tasks db)" "tr_task_id row = t" using select_Some_in[OF assms(2)] by auto
  with store_invD(4)[OF assms(1)] have "history_ok (db_events db) row" "tr_task_id row = t" by auto
  then show "follows allowed_transitions (map ce_to_status (history (db_events db) t))"
    "hd (map ce_to_status (history (db_events db) t)) = CREATED"
    "last (map ce_to_status (history (db_events db) t)) = tr_status row"
    "history (db_events db) t \<noteq> []"
    by (auto simp: history_ok_def Let_def hd_map last_map)
qed

lemma into_completed: "COMPLETED \<in> allowed_transitions u \<Longrightarrow> u = REVIEWING"
  by (cases u) auto

lemma into_reviewing: "REVIEWING \<in> allowed_transitions u \<Longrightarrow> u = REVIEWING \<or> u = VERIFYING"
  by (cases u) auto

lemma into_verifying: "VERIFYING \<in> allowed_transitions u \<Longrightarrow> u = VERIFYING \<or> u = EXECUTING"
  by (cases u) auto

lemma completed_history:
  assumes f: "follows allowed_transitions h" and "hd h = CREATED" and "last h = COMPLETED"
  shows "\<exists>before m n. h = before @ [EXECUTING] @ replicate (Suc m) VERIFYING @ replicate (Suc n) REVIEWING @ [COMPLETED]"
proof -
  have "h \<noteq> []" using f by (cases rule: follows.cases) auto
  then obtain xs where h: "h = xs @ [COMPLETED]" using assms(3) by (metis append_butlast_last_id)
  have "xs \<noteq> []" using h assms(2) by auto
  then obtain ys u where xs: "xs = ys @ [u]" by (metis append_butlast_last_id)
  then have "u = REVIEWING" using task_graph.follows_adjacent[of ys u COMPLETED "[]"] f h into_completed by simp
  then have fr: "follows allowed_transitions (ys @ [REVIEWING])"
    using task_graph.follows_prefix[of "ys @ [REVIEWING]" "[COMPLETED]"] f h xs by simp
  have "hd (ys @ [REVIEWING]) = CREATED" using assms(2) h xs \<open>u = REVIEWING\<close> by (cases ys) auto
  with task_graph.entered_through[OF fr _ into_reviewing] obtain zs n where
    z: "ys @ [REVIEWING] = zs @ [VERIFYING] @ replicate (Suc n) REVIEWING" by auto
  have fv: "follows allowed_transitions (zs @ [VERIFYING])"
    using task_graph.follows_prefix[of "zs @ [VERIFYING]" "replicate (Suc n) REVIEWING"] fr z by simp
  have "hd (zs @ [VERIFYING]) = CREATED"
    using \<open>hd (ys @ [REVIEWING]) = CREATED\<close> unfolding z by (cases zs) auto
  with task_graph.entered_through[OF fv _ into_verifying] obtain ws m where
    w: "zs @ [VERIFYING] = ws @ [EXECUTING] @ replicate (Suc m) VERIFYING" by auto
  have "h = ws @ [EXECUTING] @ replicate (Suc m) VERIFYING @ replicate (Suc n) REVIEWING @ [COMPLETED]"
    using h xs \<open>u = REVIEWING\<close> z w by simp
  then show ?thesis by blast
qed

text \<open>
  C1: a task that the store holds as completed carries a successful review delivery and no unresolved
  error, and its recorded history ends with an execution, one or more verifications, one or more
  reviews and the completion, with nothing in between.
\<close>

theorem completed_tasks_were_verified_and_reviewed:
  assumes "store_reachable env db" and "load_task env db t = Inr (Some state)" and "ct_status state = COMPLETED"
  shows "(\<exists>review. ct_review state = Some review \<and> is_successful_review_delivery (ct_request state) review) \<and>
    ct_unresolved_errors state = [] \<and>
    (\<exists>before m n. map ce_to_status (history (db_events db) t) =
       before @ [EXECUTING] @ replicate (Suc m) VERIFYING @ replicate (Suc n) REVIEWING @ [COMPLETED])"
proof -
  note inv = reachable_inv[OF assms(1)]
  obtain row where row: "select tr_task_id t (db_tasks db) = Some row"
    using assms(2) by (cases "select tr_task_id t (db_tasks db)") (auto simp: load_task_def)
  note loaded = task_row_loaded[OF inv row]
  have s: "state = tr_json row" using assms(2) loaded(1) by simp
  have "completed_gate state"
    using accepted_state(1)[OF loaded(5)] assms(3) by (simp add: s validate_state_def)
  moreover have "last (map ce_to_status (history (db_events db) t)) = COMPLETED"
    using task_history(3)[OF inv row] loaded(3) assms(3) s by simp
  ultimately show ?thesis
    using completed_history[OF task_history(1,2)[OF inv row]]
    by (auto simp: completed_gate_def split: option.splits)
qed

section \<open>What later operations cannot change\<close>

definition store_steps :: "StoreEnv \<Rightarrow> CodingDb \<Rightarrow> CodingDb \<Rightarrow> bool" where
  "store_steps env = (store_step env)\<^sup>*\<^sup>*"

lemma steps_induct [consumes 2, case_names refl step]:
  assumes "store_steps env db db'" and "store_reachable env db"
    and "P db"
    and "\<And>a b. store_steps env db a \<Longrightarrow> store_reachable env a \<Longrightarrow> store_step env a b \<Longrightarrow> P a \<Longrightarrow> P b"
  shows "P db'"
proof -
  have "P db' \<and> store_reachable env db'"
    using assms(1) unfolding store_steps_def
  proof (induction rule: rtranclp_induct)
    case (step a b)
    then show ?case using assms(4)[of a b] by (auto simp: store_steps_def intro: reachable_step)
  qed (use assms in auto)
  then show ?thesis ..
qed

text \<open>C12: once a task is completed, failed or cancelled, no sequence of operations changes it.\<close>

theorem terminal_tasks_are_final:
  assumes "store_steps env db db'" and "store_reachable env db"
    and "load_task env db t = Inr (Some state)" and "terminal_task_status (ct_status state)"
  shows "load_task env db' t = Inr (Some state) \<and> task_version db' t = task_version db t"
proof -
  obtain row where row: "select tr_task_id t (db_tasks db) = Some row"
    using assms(3) by (cases "select tr_task_id t (db_tasks db)") (auto simp: load_task_def)
  note inv = reachable_inv[OF assms(2)]
  have s: "state = tr_json row" using assms(3) task_row_loaded(1)[OF inv row] by simp
  have "select tr_task_id t (db_tasks db') = Some row"
    using assms(1,2)
  proof (induction rule: steps_induct)
    case (step a b)
    have stuck: "\<not> transition_guard (tr_json row) new" for new
      using task_graph.terminal_stuck[OF assms(4)] by (simp add: transition_guard_def s)
    from task_row_step[OF reachable_inv[OF step(2)] step(3,4)] stuck show ?case by blast
  qed (rule row)
  then show ?thesis using row assms(3) by (simp add: load_task_def task_version_def)
qed

lemma dt_eq_refl [simp]: "dt_eq a a"
  by (cases a) simp_all

lemma dt_eq_trans: "dt_eq a b \<Longrightarrow> dt_eq b c \<Longrightarrow> dt_eq a c"
  by (cases a; cases b; cases c) simp_all

text \<open>
  C19: a task never disappears; its request, repository and creation time are those it was created
  with, its version never decreases and its update time never moves backwards.
\<close>

theorem task_identity_is_immutable:
  assumes "store_steps env db db'" and "store_reachable env db"
    and "load_task env db t = Inr (Some state)" and "task_version db t = Inr v"
  shows "\<exists>state' v'. load_task env db' t = Inr (Some state') \<and> task_version db' t = Inr v' \<and>
    ct_request state' = ct_request state \<and> ct_source_repository state' = ct_source_repository state \<and>
    dt_eq (ct_created_at state) (ct_created_at state') \<and>
    \<not> dt_less (ct_updated_at state') (ct_updated_at state) \<and> v \<le> v'"
proof -
  obtain row where row: "select tr_task_id t (db_tasks db) = Some row"
    using assms(3) by (cases "select tr_task_id t (db_tasks db)") (auto simp: load_task_def)
  let ?keeps = "\<lambda>r. ct_request (tr_json r) = ct_request (tr_json row) \<and>
     ct_source_repository (tr_json r) = ct_source_repository (tr_json row) \<and>
     dt_eq (ct_created_at (tr_json row)) (ct_created_at (tr_json r)) \<and>
     \<not> dt_less (ct_updated_at (tr_json r)) (ct_updated_at (tr_json row)) \<and> tr_version row \<le> tr_version r"
  have "store_reachable env db' \<and> (\<exists>r. select tr_task_id t (db_tasks db') = Some r \<and> ?keeps r)"
    using assms(1,2)
  proof (induction rule: steps_induct)
    case refl
    then show ?case using row assms(2) by (simp add: dt_less_def)
  next
    case (step a b)
    then obtain r where r: "select tr_task_id t (db_tasks a) = Some r" "?keeps r" by blast
    from task_row_step[OF reachable_inv[OF step(2)] step(3) r(1)] r(2)
    have "\<exists>r. select tr_task_id t (db_tasks b) = Some r \<and> ?keeps r"
      by (auto simp: set_task_row_def transition_guard_def dt_less_def intro: dt_eq_trans)
    with step show ?case by (auto intro: reachable_step)
  qed
  then obtain r where r: "store_inv env db'" "select tr_task_id t (db_tasks db') = Some r" "?keeps r"
    using reachable_inv by blast
  have "state = tr_json row" "v = tr_version row"
    using assms(3,4) task_row_loaded(1,2)[OF reachable_inv[OF assms(2)] row] by simp_all
  then show ?thesis using task_row_loaded(1,2)[OF r(1,2)] r(3) by auto
qed

definition worktree_kept :: "WorktreeRecordV1 \<Rightarrow> WorktreeRecordV1 \<Rightarrow> bool" where
  "worktree_kept r r' \<longleftrightarrow>
     same_identity r r' \<and> dt_eq (wr_created_at r) (wr_created_at r') \<and>
     (\<forall>c. wr_completed_at r = Some c \<longrightarrow> (\<exists>c'. wr_completed_at r' = Some c' \<and> dt_eq c c')) \<and>
     (wr_status r = WS_REMOVED \<longrightarrow> r' = r)"

lemma worktree_kept_refl: "worktree_kept r r"
  by (simp add: worktree_kept_def same_identity_def)

lemma worktree_kept_trans:
  assumes "worktree_kept a b" and "worktree_kept b c"
  shows "worktree_kept a c"
proof -
  have "\<exists>y. wr_completed_at c = Some y \<and> dt_eq x y" if "wr_completed_at a = Some x" for x
    using assms that unfolding worktree_kept_def by (blast intro: dt_eq_trans)
  moreover have "same_identity a c" using assms by (simp add: worktree_kept_def same_identity_def)
  moreover have "dt_eq (wr_created_at a) (wr_created_at c)"
    using assms dt_eq_trans unfolding worktree_kept_def by blast
  moreover have "c = a" if "wr_status a = WS_REMOVED"
    using assms that by (simp add: worktree_kept_def)
  ultimately show ?thesis by (simp add: worktree_kept_def)
qed

lemma dt_eq_sym: "dt_eq a b = dt_eq b a"
  by (cases a; cases b) auto

lemma dt_opt_eq_Some: "dt_opt_eq v (Some c) \<longleftrightarrow> (\<exists>c'. v = Some c' \<and> dt_eq c c')"
  by (cases v) (simp_all add: dt_eq_sym)

lemma guard_keeps_worktree:
  assumes "worktree_update_guard r r'"
  shows "worktree_kept r r'"
proof -
  have "wr_status r \<noteq> WS_REMOVED"
    using assms by (cases "wr_status r") (simp_all add: worktree_update_guard_def)
  moreover have "\<exists>c'. wr_completed_at r' = Some c' \<and> dt_eq c c'" if "wr_completed_at r = Some c" for c
    using assms that by (simp add: worktree_update_guard_def dt_opt_eq_Some)
  ultimately show ?thesis
    using assms by (simp add: worktree_update_guard_def worktree_immutable_def worktree_kept_def)
qed

text \<open>
  a registered worktree keeps its repository, path, branch, base commit, owner token and creation
  time; a recorded completion time is permanent; and a removed worktree stays as it is.
\<close>

theorem worktree_identity_is_immutable:
  assumes "store_steps env db db'" and "store_reachable env db"
    and "load_worktree env db t = Inr (Some r)"
  shows "\<exists>r'. load_worktree env db' t = Inr (Some r') \<and> worktree_kept r r'"
proof -
  obtain row where row: "select wt_task_id t (db_worktrees db) = Some row"
    using assms(3) by (cases "select wt_task_id t (db_worktrees db)") (auto simp: load_worktree_def)
  have "store_reachable env db' \<and>
    (\<exists>w. select wt_task_id t (db_worktrees db') = Some w \<and> worktree_kept (wt_json row) (wt_json w))"
    using assms(1,2)
  proof (induction rule: steps_induct)
    case refl
    then show ?case using row assms(2) worktree_kept_refl by blast
  next
    case (step a b)
    then obtain w where w: "select wt_task_id t (db_worktrees a) = Some w" "worktree_kept (wt_json row) (wt_json w)"
      by blast
    have "wt_json (set_worktree_row (env, now, wrec) n x) = wrec" for now wrec n x
      by (simp add: set_worktree_row_def worktree_row_def)
    then have "\<exists>w. select wt_task_id t (db_worktrees b) = Some w \<and> worktree_kept (wt_json row) (wt_json w)"
      using worktree_row_step[OF reachable_inv[OF step(2)] step(3) w(1)] w(2)
        worktree_kept_trans[OF w(2) guard_keeps_worktree] by auto
    with step show ?case by (auto intro: reachable_step)
  qed
  then obtain w where w: "store_inv env db'" "select wt_task_id t (db_worktrees db') = Some w"
    "worktree_kept (wt_json row) (wt_json w)" using reachable_inv by blast
  have "r = wt_json row" using assms(3) worktree_row_loaded(1)[OF reachable_inv[OF assms(2)] row] by simp
  then show ?thesis using worktree_row_loaded(1)[OF w(1,2)] w(3) by auto
qed

text \<open>
  the owner process of a worktree changes only when an orphaned worktree becomes active again.
\<close>

theorem owner_changes_only_in_orphan_recovery:
  assumes "store_reachable env db" and "store_step env db db'"
    and "load_worktree env db t = Inr (Some r)" and "load_worktree env db' t = Inr (Some r')"
    and "wr_owner_pid r' \<noteq> wr_owner_pid r"
  shows "wr_status r = WS_ORPHANED \<and> wr_status r' = WS_ACTIVE"
proof -
  note inv = reachable_inv[OF assms(1)]
  have inv': "store_inv env db'" by (rule store_step_inv[OF inv assms(2)])
  obtain row where row: "select wt_task_id t (db_worktrees db) = Some row"
    using assms(3) by (cases "select wt_task_id t (db_worktrees db)") (auto simp: load_worktree_def)
  have r: "r = wt_json row" using assms(3) worktree_row_loaded(1)[OF inv row] by simp
  from worktree_row_step[OF inv assms(2) row] show ?thesis
  proof (elim disjE exE conjE)
    assume "select wt_task_id t (db_worktrees db') = Some row"
    from worktree_row_loaded(1)[OF inv' this] show ?thesis using assms(4,5) r by simp
  next
    fix now wrec
    assume "select wt_task_id t (db_worktrees db') = Some (set_worktree_row (env, now, wrec) (wt_version row + 1) row)"
      and g: "worktree_update_guard (wt_json row) wrec"
    from worktree_row_loaded(1)[OF inv' this(1)] have "r' = wrec"
      using assms(4) by (simp add: set_worktree_row_def worktree_row_def)
    then show ?thesis using g assms(5) r by (simp add: worktree_update_guard_def)
  qed
qed

text \<open>
  C16: no two live worktrees of different tasks share a path (up to the path key), and none on the same
  repository (up to ASCII case) share a branch (up to case folding).
\<close>

theorem live_worktrees_never_collide:
  assumes "store_reachable env db" and "t1 \<noteq> t2"
    and "load_worktree env db t1 = Inr (Some r1)" and "load_worktree env db t2 = Inr (Some r2)"
    and "wr_status r1 \<noteq> WS_REMOVED" and "wr_status r2 \<noteq> WS_REMOVED"
  shows "se_path_key env (wr_worktree_path r1) \<noteq> se_path_key env (wr_worktree_path r2) \<and>
    \<not> (\<exists>b1 b2. wr_branch r1 = Some b1 \<and> wr_branch r2 = Some b2 \<and> casefold b1 = casefold b2 \<and>
        nocase (wr_source_repository r1) = nocase (wr_source_repository r2))"
proof -
  note inv = reachable_inv[OF assms(1)]
  obtain w1 where w1: "select wt_task_id t1 (db_worktrees db) = Some w1"
    using assms(3) by (cases "select wt_task_id t1 (db_worktrees db)") (auto simp: load_worktree_def)
  obtain w2 where w2: "select wt_task_id t2 (db_worktrees db) = Some w2"
    using assms(4) by (cases "select wt_task_id t2 (db_worktrees db)") (auto simp: load_worktree_def)
  note l1 = worktree_row_loaded[OF inv w1] and l2 = worktree_row_loaded[OF inv w2]
  note f1 = worktree_row_fields[OF l1(2)] and f2 = worktree_row_fields[OF l2(2)]
  have r: "r1 = wt_json w1" "r2 = wt_json w2" using assms(3,4) l1(1) l2(1) by simp_all
  have "\<not> live_conflict w1 w2"
    using store_invD(9)[OF inv] select_Some_in[OF w1] select_Some_in[OF w2] assms(2) by blast
  then show ?thesis
    using assms(5,6) unfolding live_conflict_def r f1(2,4,7,8) f2(2,4,7,8) branch_key_def by auto
qed

section \<open>Which writes succeed\<close>

lemma event_code_length: "validate_event_code m c \<Longrightarrow> 1 \<le> length c \<and> length c \<le> m"
  by (cases c) (simp_all add: validate_event_code_def event_code_pattern_def)

lemma fresh_task_events:
  assumes "store_inv env db" and "select tr_task_id k (db_tasks db) = None"
  shows "\<not> list_ex (\<lambda>e. ce_task_id e = k \<and> ce_version e = n) (db_events db)"
  using store_invD(6)[OF assms(1)] assms(2) unfolding select_None list_ex_iff by metis


text \<open>a new task in the created state is stored at version 1 and reads back as it was given.\<close>

theorem create_succeeds:
  assumes "store_reachable env db" and "validate_CodingTaskStateV1 (se_nt env) state = Some state"
    and "ct_status state = CREATED" and "ct_worktree state = None"
    and "load_task env db (cq_task_id (ct_request state)) = Inr None"
    and "sha256_pattern (se_state_digest env state)"
  shows "\<exists>db'. create_task env now state db = Inr (db', 1) \<and>
    load_task env db' (cq_task_id (ct_request state)) = Inr (Some state)"
proof -
  let ?k = "cq_task_id (ct_request state)"
  note inv = reachable_inv[OF assms(1)]
  have none: "select tr_task_id ?k (db_tasks db) = None"
    using assms(5) task_row_loaded(1)[OF inv, of ?k] by (cases "select tr_task_id ?k (db_tasks db)") auto
  have "\<not> list_ex (\<lambda>e. ce_task_id e = ?k \<and> ce_version e = 1) (db_events db)"
    by (rule fresh_task_events[OF inv none])
  then obtain db' where c: "create_task env now state db = Inr (db', 1)"
    using none assms(3,4,6)
    by (auto simp: create_task_def Let_def ensure_state_identity_def task_insert_ok_def event_insert_ok_def)
  have inv': "store_inv env db'" by (rule create_inv[OF inv c assms(2)])
  obtain row where "select tr_task_id ?k (db_tasks db') = Some row" "tr_json row = state"
    using c none by (elim create_taskE) simp
  with task_row_loaded(1)[OF inv'] c show ?thesis by auto
qed

end
