(* ===== verification/CodingStoreSamples.thy ===== *)
theory CodingStoreSamples
  imports CodingStoreProperties
begin

text \<open>
  Concrete runs of the coding store: a read-only task from its creation to its completion, and two
  tasks with their worktrees. The properties of the store are applied to them.
\<close>

section \<open>Runs\<close>

fun run_store :: "StoreEnv \<Rightarrow> StoreOp list \<Rightarrow> CodingDb \<Rightarrow> CodingDb option" where
  "run_store env [] db = Some db"
| "run_store env (op # ops) db =
     (if op_valid env op then
        (case apply_op env op db of Inl e \<Rightarrow> None | Inr db' \<Rightarrow> run_store env ops db')
      else None)"

lemma run_store_Cons:
  "run_store env (op # ops) db = Some db' \<Longrightarrow>
     \<exists>m. op_valid env op \<and> apply_op env op db = Inr m \<and> run_store env ops m = Some db'"
  by (auto split: if_splits sum.splits)

lemma run_store_reachable:
  "run_store env ops db = Some db' \<Longrightarrow> store_reachable env db \<Longrightarrow> store_reachable env db'"
proof (induction ops arbitrary: db)
  case (Cons op ops)
  from run_store_Cons[OF Cons.prems(1)] obtain m where
    m: "op_valid env op" "apply_op env op db = Inr m" "run_store env ops m = Some db'" by blast
  from m(1,2) have "store_step env db m" by (rule store_step_op)
  then show ?case using Cons.IH[OF m(3)] Cons.prems(2) by (blast intro: reachable_step)
qed simp

lemma run_store_steps: "run_store env ops db = Some db' \<Longrightarrow> store_steps env db db'"
proof (induction ops arbitrary: db)
  case (Cons op ops)
  then obtain m where m: "op_valid env op" "apply_op env op db = Inr m" "run_store env ops m = Some db'"
    using run_store_Cons by blast
  then have "store_step env db m" by (blast intro: store_step_op)
  then show ?case using Cons.IH[OF m(3)] unfolding store_steps_def by (rule converse_rtranclp_into_rtranclp)
qed (simp add: store_steps_def)

section \<open>Sample values\<close>

definition sample_env :: StoreEnv where
  "sample_env = \<lparr>se_nt = False, se_state_digest = (\<lambda>s. replicate 64 (CHR ''a'')),
     se_record_digest = (\<lambda>r. replicate 64 (CHR ''b'')), se_path_key = (\<lambda>p. p)\<rparr>"

definition sample_coding_request :: "string \<Rightarrow> CodingTaskRequestV1" where
  "sample_coding_request ident = \<lparr>cq_schema_version = ''1.0'', cq_task_id = ident, cq_request_id = ''r1'',
     cq_goal = ''Explain the parser'', cq_repository_path = ''/repo'', cq_mode = CM_READ_ONLY,
     cq_risk = CR_LOW, cq_constraints = [], cq_acceptance_criteria = [''answered''],
     cq_verification_plan = [''read it''], cq_verification_commands = [],
     cq_permissions = \<lparr>cp_modify_files = False, cp_local_commit = False, cp_cloud_execution = False,
       cp_data_classification = DC_INTERNAL, cp_push = False, cp_deploy = False\<rparr>,
     cq_route_reasons = [], cq_rule_scope_paths = [], cq_expected_diff_paths = [],
     cq_forbidden_diff_paths = [], cq_commit_message = None, cq_ui_url = None,
     cq_ui_selector = None, cq_ui_expected_text = None\<rparr>"

definition sample_review :: ReviewResultV1 where
  "sample_review = \<lparr>rv_reviewer_id = ''reviewer'', rv_reviewer = DETERMINISTIC, rv_independent = True,
     rv_verdict = APPROVED, rv_findings = [], rv_checked_requirements = True, rv_checked_tests = True,
     rv_checked_diff_scope = True, rv_checked_secrets = True, rv_checked_constitution = True,
     rv_subject_sha256 = None, rv_evidence_artifact_id = None, rv_evidence_artifact_sha256 = None,
     rv_summary = ''ok'', rv_reviewed_at = Aware 5 0\<rparr>"

definition sample_state :: "string \<Rightarrow> CodingTaskStatus \<Rightarrow> CodingTaskStateV1" where
  "sample_state ident status = \<lparr>ct_schema_version = ''1.0'', ct_request = sample_coding_request ident,
     ct_status = status, ct_source_repository = ''/repo'', ct_worktree = None, ct_applicable_rules = [],
     ct_inspected_files = [], ct_context_artifact_id = None, ct_attempts = [], ct_command_results = [],
     ct_artifacts = [], ct_modified_files = [], ct_review = Some sample_review,
     ct_handoff_artifact_id = None, ct_commit_sha = None, ct_unresolved_errors = [],
     ct_created_at = Aware 0 0, ct_updated_at = Aware 9 0\<rparr>"

definition sample_record :: "string \<Rightarrow> string \<Rightarrow> WorktreeStatus \<Rightarrow> int \<Rightarrow> WorktreeRecordV1" where
  "sample_record ident path status pid = \<lparr>wr_schema_version = ''1.0'', wr_task_id = ident,
     wr_source_repository = ''/repo'', wr_worktree_path = path, wr_branch = Some path,
     wr_git_dir = None, wr_git_common_dir = None, wr_git_marker_sha256 = None,
     wr_base_commit = replicate 40 (CHR ''0''), wr_owner_token_hash = replicate 64 (CHR ''c''),
     wr_status = status, wr_owner_pid = pid, wr_created_at = Aware 0 0, wr_heartbeat_at = Aware 1 0,
     wr_completed_at = None\<rparr>"

definition sample_move :: "CodingTaskStatus \<Rightarrow> StoreOp" where
  "sample_move status = TransitionTask (Aware 9 0) (sample_state ''t1'' status) ''task.moved'' None None"

definition to_review :: "StoreOp list" where
  "to_review = CreateTask (Aware 9 0) (sample_state ''t1'' CREATED) #
     map sample_move [INSPECTED, PLANNED, ISOLATED, EXECUTING, VERIFYING, REVIEWING]"

definition review_db :: CodingDb where
  "review_db = the (run_store sample_env to_review empty_coding_db)"

definition complete_db :: CodingDb where
  "complete_db = the (run_store sample_env [sample_move COMPLETED] review_db)"

definition trees_ops :: "StoreOp list" where
  "trees_ops = [CreateTask (Aware 9 0) (sample_state ''t1'' CREATED), CreateTask (Aware 9 0) (sample_state ''t2'' CREATED),
      RegisterWorktree (Aware 9 0) (sample_record ''t1'' ''/w1'' WS_ACTIVE 7),
      RegisterWorktree (Aware 9 0) (sample_record ''t2'' ''/w2'' WS_ACTIVE 8),
      UpdateWorktree (Aware 9 0) (sample_record ''t1'' ''/w1'' WS_ORPHANED 7)]"

definition trees_db :: CodingDb where
  "trees_db = the (run_store sample_env trees_ops empty_coding_db)"

definition recovery :: StoreOp where
  "recovery = UpdateWorktree (Aware 9 0) (sample_record ''t1'' ''/w1'' WS_ACTIVE 9)"

lemma review_run: "run_store sample_env to_review empty_coding_db = Some review_db"
  by code_simp

lemma review_reachable: "store_reachable sample_env review_db"
  by (rule run_store_reachable[OF review_run reachable_empty])

lemma complete_run: "run_store sample_env [sample_move COMPLETED] review_db = Some complete_db"
  by code_simp

lemma complete_reachable: "store_reachable sample_env complete_db"
  by (rule run_store_reachable[OF complete_run review_reachable])

lemma complete_loaded:
  "load_task sample_env complete_db ''t1'' = Inr (Some (sample_state ''t1'' COMPLETED))"
  by code_simp

lemma states_accepted:
  "validate_CodingTaskStateV1 (se_nt sample_env) (sample_state ''t1'' COMPLETED) = Some (sample_state ''t1'' COMPLETED)"
  "validate_CodingTaskStateV1 (se_nt sample_env) (sample_state ''t1'' CREATED) = Some (sample_state ''t1'' CREATED)"
  by code_simp+

lemma completing:
  "transition_task sample_env (Aware 9 0) (sample_state ''t1'' COMPLETED) ''task.moved'' None (Some 7) review_db =
     Inr (complete_db, 8)"
  by code_simp

lemma review_loaded:
  "load_task sample_env review_db ''t1'' = Inr (Some (sample_state ''t1'' REVIEWING)) \<and>
   task_version review_db ''t1'' = Inr 7"
  by code_simp

lemma trees_run: "run_store sample_env trees_ops empty_coding_db = Some trees_db"
  by code_simp

lemma trees_reachable: "store_reachable sample_env trees_db"
  by (rule run_store_reachable[OF trees_run reachable_empty])

lemma trees_loaded:
  "load_worktree sample_env trees_db ''t1'' = Inr (Some (sample_record ''t1'' ''/w1'' WS_ORPHANED 7)) \<and>
   load_worktree sample_env trees_db ''t2'' = Inr (Some (sample_record ''t2'' ''/w2'' WS_ACTIVE 8))"
  by code_simp

definition recovered_db :: CodingDb where
  "recovered_db = the (run_store sample_env [recovery] trees_db)"

lemma recovery_run: "run_store sample_env [recovery] trees_db = Some recovered_db"
  by code_simp

lemma recovered_loaded:
  "load_worktree sample_env recovered_db ''t1'' = Inr (Some (sample_record ''t1'' ''/w1'' WS_ACTIVE 9))"
  by code_simp

lemma recovery_step: "store_step sample_env trees_db recovered_db"
  using run_store_Cons[OF recovery_run] by (auto intro: store_step_op)

section \<open>The properties at the sample runs\<close>

lemma reachable_store_verifies_witness: "verify_coding_data complete_db"
  using reachable_store_verifies[OF complete_reachable] by blast

lemma sample_key: "cq_task_id (ct_request (sample_state ''t1'' s)) = ''t1''"
  by (simp add: sample_state_def sample_coding_request_def)

lemma transition_then_load_witness: "task_version complete_db ''t1'' = Inr 8"
  using transition_then_load[OF review_reachable states_accepted(1) completing] by (simp add: sample_key)

lemma second_writer_is_refused_witness:
  "transition_task sample_env (Aware 9 0) (sample_state ''t1'' FAILED) ''task.moved'' None (Some 7) complete_db =
     Inl ConcurrentTransitionError"
  by (rule second_writer_is_refused[OF review_reachable states_accepted(1) completing])
    (simp_all add: sample_state_def ensure_state_identity_def validate_event_code_def event_code_pattern_def
      is_lower_char_def is_digit_char_def code_of_def in_class_def)

lemma completed_tasks_were_verified_and_reviewed_witness:
  "\<exists>before m n. map ce_to_status (history (db_events complete_db) ''t1'') =
     before @ [EXECUTING] @ replicate (Suc m) VERIFYING @ replicate (Suc n) REVIEWING @ [COMPLETED]"
  using completed_tasks_were_verified_and_reviewed[OF complete_reachable complete_loaded]
  by (simp add: sample_state_def)

lemma terminal_tasks_are_final_witness:
  "load_task sample_env complete_db ''t1'' = Inr (Some (sample_state ''t1'' COMPLETED))"
  using terminal_tasks_are_final[OF _ complete_reachable complete_loaded]
  by (simp add: store_steps_def terminal_task_status_def sample_state_def)

lemma task_identity_is_immutable_witness:
  "\<exists>v'. task_version complete_db ''t1'' = Inr v' \<and> 7 \<le> v'"
  using task_identity_is_immutable[OF run_store_steps[OF complete_run] review_reachable] review_loaded by blast

lemma worktree_identity_is_immutable_witness:
  "worktree_kept (sample_record ''t1'' ''/w1'' WS_ORPHANED 7) (sample_record ''t1'' ''/w1'' WS_ACTIVE 9)"
  using worktree_identity_is_immutable[OF run_store_steps[OF recovery_run] trees_reachable] trees_loaded
    recovered_loaded by fastforce

lemma owner_changes_only_in_orphan_recovery_witness:
  "wr_status (sample_record ''t1'' ''/w1'' WS_ORPHANED 7) = WS_ORPHANED"
  using owner_changes_only_in_orphan_recovery[OF trees_reachable recovery_step conjunct1[OF trees_loaded] recovered_loaded]
  by (simp add: sample_record_def)

lemma live_worktrees_never_collide_witness:
  "se_path_key sample_env ''/w1'' \<noteq> se_path_key sample_env ''/w2''"
  using live_worktrees_never_collide[OF trees_reachable _ conjunct1[OF trees_loaded] conjunct2[OF trees_loaded]]
  by (simp add: sample_record_def)

lemma completion_allowed:
  "transition_guard (sample_state ''t1'' REVIEWING) (sample_state ''t1'' COMPLETED)"
  "validate_event_code 64 ''task.moved''"
  by code_simp+

lemma sample_digest_pattern: "sha256_pattern (se_state_digest sample_env s)"
  by (simp add: sample_env_def) code_simp

lemma sample_no_worktree: "ct_worktree (sample_state t s) = None" "ct_status (sample_state t s) = s"
  by (simp_all add: sample_state_def)


lemma nothing_loaded: "load_task sample_env empty_coding_db t = Inr None"
  by (simp add: load_task_def empty_coding_db_def)

lemma create_succeeds_witness:
  "\<exists>db'. create_task sample_env (Aware 9 0) (sample_state ''t1'' CREATED) empty_coding_db = Inr (db', 1)"
  using create_succeeds[OF reachable_empty states_accepted(2) sample_no_worktree(2) sample_no_worktree(1)
      nothing_loaded sample_digest_pattern] by blast

end
