(* ===== verification/Json.thy ===== *)
theory Json
  imports Prelude
begin

text \<open>
  JSON values as Python holds them after \<open>json.loads\<close>. An object stands for a \<open>dict\<close>: its keys are
  unique and in insertion order. Floats are rationals; the non-finite floats are not modelled.
\<close>

datatype json =
    JNull
  | JBool bool
  | JInt int
  | JFloat rat
  | JStr string
  | JList "json list"
  | JObj "(string \<times> json) list"

definition jget :: "string \<Rightarrow> (string \<times> json) list \<Rightarrow> json option" where
  "jget key kvs = map_of kvs key"

lemma jget_simps [simp]:
  "jget key [] = None"
  "jget key ((k, v) # kvs) = (if key = k then Some v else jget key kvs)"
  by (simp_all add: jget_def)

text \<open>Truth of a value.\<close>

fun jtruthy :: "json \<Rightarrow> bool" where
  "jtruthy JNull = False"
| "jtruthy (JBool b) = b"
| "jtruthy (JInt n) = (n \<noteq> 0)"
| "jtruthy (JFloat x) = (x \<noteq> 0)"
| "jtruthy (JStr s) = (s \<noteq> [])"
| "jtruthy (JList xs) = (xs \<noteq> [])"
| "jtruthy (JObj kvs) = (kvs \<noteq> [])"

text \<open>\<open>kvs[key] = value\<close> on a \<open>dict\<close>: an existing key keeps its place.\<close>

fun jset :: "string \<Rightarrow> json \<Rightarrow> (string \<times> json) list \<Rightarrow> (string \<times> json) list" where
  "jset key v [] = [(key, v)]"
| "jset key v ((k, w) # kvs) = (if k = key then (k, v) # kvs else (k, w) # jset key v kvs)"

lemma jget_jset [simp]: "jget k (jset key v kvs) = (if k = key then Some v else jget k kvs)"
  by (induction kvs) auto

lemma jset_key_set: "set (map fst (jset key v kvs)) = insert key (set (map fst kvs))"
proof (induction kvs)
  case (Cons p kvs)
  show ?case using Cons.IH by (cases p) auto
qed simp

lemma jset_keys: "distinct (map fst kvs) \<Longrightarrow> distinct (map fst (jset key v kvs))"
proof (induction kvs)
  case (Cons p kvs)
  show ?case using Cons.IH Cons.prems jset_key_set[of key v kvs] by (cases p) auto
qed simp

end
