(* ===== verification/Normalizer.thy ===== *)
theory Normalizer
  imports Contracts Json
begin

text \<open>
  The request normalizer of \<open>services/orchestration/normalizer.py\<close>: routing override commands, message
  content, attachment references and the replacement of the routed text.

  The environment gives Unicode normalisation (\<open>unicodedata.normalize("NFKC", ...)\<close>), \<open>str\<close> of values
  that are no strings, the path a message names (the first match of the path expressions, which are
  not translated) and what the file system says of a path.
\<close>

record NormalizerEnv =
  ne_nfkc :: "string \<Rightarrow> string"
  ne_str :: "json \<Rightarrow> string"
  ne_path_candidate :: "string \<Rightarrow> string option"
  ne_nt :: bool
  ne_remote_drive :: "string \<Rightarrow> bool"
  ne_directory :: "string \<Rightarrow> string option"

definition py_str :: "NormalizerEnv \<Rightarrow> json \<Rightarrow> string" where
  "py_str env v = (case v of JStr s \<Rightarrow> s | _ \<Rightarrow> ne_str env v)"

definition normalize_text :: "NormalizerEnv \<Rightarrow> string \<Rightarrow> string" where
  "normalize_text env value = py_strip (ne_nfkc env value)"

section \<open>Override commands\<close>

definition override_names :: "(string \<times> RouteOverride) list" where
  "override_names = [(''local'', OV_LOCAL), (''codex'', OV_CODEX), (''voice'', OV_VOICE),
     (''vision'', OV_VISION), (''image'', OV_IMAGE), (''browser'', OV_BROWSER)]"

text \<open>The name is followed by white space or by the end of the text.\<close>

definition at_word_end :: "string \<Rightarrow> bool" where
  "at_word_end rest \<longleftrightarrow> (case rest of [] \<Rightarrow> True | c # cs \<Rightarrow> is_py_space c)"

definition name_matches :: "string \<Rightarrow> string \<Rightarrow> bool" where
  "name_matches name s \<longleftrightarrow> prefix name (py_lower s) \<and> at_word_end (drop (length name) s)"

text \<open>One match of the override pattern at the start: the override and the text after it.\<close>

definition find_override :: "string \<Rightarrow> (string \<times> RouteOverride) option" where
  "find_override cs = find (\<lambda>(name, ov). name_matches name cs) override_names"

definition match_override :: "string \<Rightarrow> (RouteOverride \<times> string) option" where
  "match_override s =
     (case py_lstrip s of
        [] \<Rightarrow> None
      | c # cs \<Rightarrow>
          if c \<noteq> CHR ''/'' then None
          else map_option (\<lambda>(name, ov). (ov, drop (length name) cs)) (find_override cs))"

lemma match_override_Cons:
  assumes "py_lstrip s = c # cs" "match_override s = Some (ov, rest)"
  shows "\<exists>name. c = CHR ''/'' \<and> find_override cs = Some (name, ov) \<and> rest = drop (length name) cs"
  using assms by (cases "c = CHR ''/''") (auto simp: match_override_def simp del: char.inject)

lemma match_override_shorter: "match_override s = Some (ov, rest) \<Longrightarrow> length rest < length s"
proof -
  assume *: "match_override s = Some (ov, rest)"
  obtain c cs where s: "py_lstrip s = c # cs"
    using * by (cases "py_lstrip s") (simp_all add: match_override_def)
  from match_override_Cons[OF s *] have "length rest \<le> length cs" by auto
  moreover have "length (py_lstrip s) \<le> length s" by (simp add: py_lstrip_def length_dropWhile_le)
  ultimately show "length rest < length s" using s by simp
qed

function strip_overrides :: "string \<Rightarrow> RouteOverride list \<times> string" where
  "strip_overrides s =
     (case match_override s of
        None \<Rightarrow> ([], s)
      | Some (ov, rest) \<Rightarrow> (let r = strip_overrides rest in (ov # fst r, snd r)))"
  by pat_completeness auto
termination
  by (relation "measure length") (auto dest: match_override_shorter)

declare strip_overrides.simps [simp del]

definition parse_override :: "NormalizerEnv \<Rightarrow> string \<Rightarrow> string \<times> RouteOverride option \<times> bool" where
  "parse_override env t =
     (let parsed = strip_overrides t; uniq = dedup (fst parsed)
      in (normalize_text env (snd parsed),
          (case uniq of [] \<Rightarrow> None | ov # ovs \<Rightarrow> Some ov),
          length uniq > 1))"

definition override_to_route :: "RouteOverride option \<Rightarrow> RouteName option" where
  "override_to_route ov =
     (case ov of
        Some OV_CODEX \<Rightarrow> Some CODEX
      | Some OV_VOICE \<Rightarrow> Some VOICE
      | Some OV_VISION \<Rightarrow> Some VISION
      | Some OV_IMAGE \<Rightarrow> Some IMAGE
      | Some OV_BROWSER \<Rightarrow> Some BROWSER
      | _ \<Rightarrow> None)"

section \<open>Messages\<close>

text \<open>A message is a dictionary.\<close>

type_synonym message = "(string \<times> json) list"

definition text_kinds :: "string list" where
  "text_kinds = [''text'', ''input_text'']"

definition part_text :: "NormalizerEnv \<Rightarrow> (string \<times> json) list \<Rightarrow> string \<Rightarrow> string \<Rightarrow> string" where
  "part_text env part key dflt = (case jget key part of None \<Rightarrow> dflt | Some v \<Rightarrow> py_str env v)"

definition attachment_label :: "string \<Rightarrow> string option" where
  "attachment_label kind =
     (if kind \<in> {''image_url'', ''input_image'', ''image''} then Some ''[image attached]''
      else if kind \<in> {''input_audio'', ''audio'', ''audio_url''} then Some ''[audio attached]''
      else if kind \<in> {''file'', ''input_file''} then Some ''[file attached]''
      else None)"

fun content_parts :: "NormalizerEnv \<Rightarrow> json list \<Rightarrow> string list \<times> string list" where
  "content_parts env [] = ([], [])"
| "content_parts env (JObj part # items) =
     (let kind = part_text env part ''type'' []; r = content_parts env items
      in if kind \<in> set text_kinds then (part_text env part ''text'' [] # fst r, snd r)
         else case attachment_label kind of
                None \<Rightarrow> r | Some label \<Rightarrow> (fst r, label # snd r))"
| "content_parts env (_ # items) = content_parts env items"

definition flatten_content :: "NormalizerEnv \<Rightarrow> json \<Rightarrow> string" where
  "flatten_content env content =
     (case content of
        JNull \<Rightarrow> []
      | JStr s \<Rightarrow> s
      | JList items \<Rightarrow> join newline (fst (content_parts env items) @ snd (content_parts env items))
      | _ \<Rightarrow> py_str env content)"

definition is_user :: "message \<Rightarrow> bool" where
  "is_user m \<longleftrightarrow> jget ''role'' m = Some (JStr ''user'')"

definition last_user_text :: "NormalizerEnv \<Rightarrow> message list \<Rightarrow> string" where
  "last_user_text env messages =
     (case find is_user (rev messages) of
        None \<Rightarrow> []
      | Some m \<Rightarrow> flatten_content env (case jget ''content'' m of None \<Rightarrow> JStr [] | Some c \<Rightarrow> c))"

section \<open>Attachments\<close>

text \<open>The position of the last user message, which three functions look up.\<close>

definition last_user_index :: "message list \<Rightarrow> nat option" where
  "last_user_index messages = find (\<lambda>i. is_user (messages ! i)) (rev [0..<length messages])"

definition text_at :: "(string \<times> json) list \<Rightarrow> string \<Rightarrow> string option" where
  "text_at kvs key = (case jget key kvs of Some (JStr s) \<Rightarrow> Some s | _ \<Rightarrow> None)"

definition first_text :: "(string \<times> json) list \<Rightarrow> string list \<Rightarrow> string option" where
  "first_text kvs keys = find (\<lambda>_. True) (List.map_filter (text_at kvs) keys)"

text \<open>\<open>re.match(r"data:([^;,]+)", value, re.IGNORECASE)\<close> and its group.\<close>

definition data_url_type :: "string \<Rightarrow> string option" where
  "data_url_type value =
     (if prefix ''data:'' (py_lower value) then
        (let g = takeWhile (\<lambda>c. \<not> in_class c '';,'') (drop 5 value) in if g = [] then None else Some g)
      else None)"

definition or_chain :: "(string \<times> json) list \<Rightarrow> string list \<Rightarrow> json" where
  "or_chain kvs keys =
     (case find jtruthy (map (\<lambda>k. case jget k kvs of None \<Rightarrow> JNull | Some v \<Rightarrow> v) keys) of
        Some v \<Rightarrow> v
      | None \<Rightarrow> (case jget (last keys) kvs of None \<Rightarrow> JNull | Some v \<Rightarrow> v))"

definition media_type_from_part :: "(string \<times> json) list \<Rightarrow> string option" where
  "media_type_from_part part =
     (case first_text part [''media_type'', ''mime_type''] of
        Some s \<Rightarrow> Some (take 255 s)
      | None \<Rightarrow>
          let value0 = or_chain part [''image_url'', ''audio_url'', ''file''];
              value = (case value0 of
                  JObj kvs \<Rightarrow> (case first_text kvs [''url'', ''data''] of Some s \<Rightarrow> JStr s | None \<Rightarrow> value0)
                | _ \<Rightarrow> value0);
              from_url = (case value of JStr s \<Rightarrow> data_url_type s | _ \<Rightarrow> None)
          in case from_url of
               Some g \<Rightarrow> Some (take 255 g)
             | None \<Rightarrow>
                 (case jget ''input_audio'' part of
                    Some (JObj audio) \<Rightarrow>
                      map_option (\<lambda>f. take 255 (''audio/'' @ casefold f)) (text_at audio ''format'')
                  | _ \<Rightarrow> None))"

definition attachment_kind :: "string \<Rightarrow> string option \<Rightarrow> AttachmentKind option" where
  "attachment_kind part_type media_type =
     (let media = (case media_type of None \<Rightarrow> [] | Some m \<Rightarrow> m) in
      if part_type \<in> {''image_url'', ''input_image'', ''image''} \<or> prefix ''image/'' media then Some AK_IMAGE
      else if part_type \<in> {''input_audio'', ''audio''} \<or> prefix ''audio/'' media then Some AK_AUDIO
      else if part_type \<in> {''file'', ''input_file''} then
        Some (if prefix ''text/'' media \<or> prefix ''application/pdf'' media then AK_DOCUMENT else AK_FILE)
      else None)"

definition raw_attachment :: "nat \<Rightarrow> nat \<Rightarrow> AttachmentKind \<Rightarrow> string option \<Rightarrow> AttachmentRefV1" where
  "raw_attachment i j kind media_type =
     \<lparr>ar_attachment_id = ''attachment-'' @ show_nat i @ ''-'' @ show_nat j, ar_kind = kind,
      ar_reference = ''request-message:'' @ show_nat i @ '':part:'' @ show_nat j,
      ar_media_type = media_type, ar_size_bytes = None, ar_sha256 = None,
      ar_provenance = [''OpenAI message position; inline content intentionally excluded.'']\<rparr>"

fun part_references :: "NormalizerEnv \<Rightarrow> nat \<Rightarrow> nat \<Rightarrow> json list \<Rightarrow> AttachmentRefV1 list option" where
  "part_references env i j [] = Some []"
| "part_references env i j (JObj part # parts) =
     (let media_type = media_type_from_part part in
      case attachment_kind (casefold (part_text env part ''type'' [])) media_type of
        None \<Rightarrow> part_references env i (Suc j) parts
      | Some kind \<Rightarrow> do {
          r \<leftarrow> validate_AttachmentRefV1 (raw_attachment i j kind media_type);
          rs \<leftarrow> part_references env i (Suc j) parts;
          Some (r # rs)
        })"
| "part_references env i j (_ # parts) = part_references env i (Suc j) parts"

text \<open>Only the last user message is looked at; \<open>None\<close> where \<open>AttachmentRefV1\<close> raises.\<close>

definition attachment_references :: "NormalizerEnv \<Rightarrow> message list \<Rightarrow> AttachmentRefV1 list option" where
  "attachment_references env messages =
     (case last_user_index messages of
        None \<Rightarrow> Some []
      | Some i \<Rightarrow>
          (case jget ''content'' (messages ! i) of
             Some (JList parts) \<Rightarrow> part_references env i 0 parts
           | _ \<Rightarrow> Some []))"

section \<open>Projects and requests\<close>

definition is_unc :: "string \<Rightarrow> bool" where
  "is_unc s \<longleftrightarrow> prefix [CHR 0x5C, CHR 0x5C] s \<or> prefix ''//'' s"

definition is_drive_path :: "string \<Rightarrow> bool" where
  "is_drive_path s \<longleftrightarrow>
     (case s of c # d # e # cs \<Rightarrow>
        (is_lower_char c \<or> is_upper_char c) \<and> d = CHR '':'' \<and> (e = CHR ''/'' \<or> e = CHR 0x5C)
      | _ \<Rightarrow> False)"

definition clean_candidate :: "string \<Rightarrow> string" where
  "clean_candidate s = rev (dropWhile (\<lambda>c. in_class c ''.,;)'') (rev (py_strip s)))"

definition resolve_project :: "NormalizerEnv \<Rightarrow> string \<Rightarrow> string option \<Rightarrow> string option \<times> ProjectResolutionV1" where
  "resolve_project env t default_project =
     (let explicit_invalid = (None, \<lparr>pr_source = PRS_EXPLICIT, pr_status = PR_INVALID\<rparr>);
          missing = (None, \<lparr>pr_source = PRS_NONE, pr_status = PR_MISSING\<rparr>)
      in case ne_path_candidate env t of
        Some candidate \<Rightarrow>
          let cleaned = clean_candidate candidate in
          if is_unc cleaned then explicit_invalid
          else if ne_nt env \<and> is_drive_path cleaned \<and> ne_remote_drive env (take 2 cleaned @ [CHR 0x5C])
          then explicit_invalid
          else (case ne_directory env cleaned of
                  Some path \<Rightarrow> (Some path, \<lparr>pr_source = PRS_EXPLICIT, pr_status = PR_RESOLVED\<rparr>)
                | None \<Rightarrow> explicit_invalid)
      | None \<Rightarrow>
          if truthy default_project then
            (case ne_directory env (the default_project) of
               Some path \<Rightarrow> (Some path, \<lparr>pr_source = PRS_DEFAULT, pr_status = PR_RESOLVED\<rparr>)
             | None \<Rightarrow> missing)
          else missing)"

definition normalize_messages ::
    "NormalizerEnv \<Rightarrow> message list \<Rightarrow> string option \<Rightarrow> string \<Rightarrow> RequestSource \<Rightarrow> datetime \<Rightarrow> NormalizedRequestV1 option" where
  "normalize_messages env messages default_project identifier source now = do {
     let parsed = parse_override env (normalize_text env (last_user_text env messages));
     let project = resolve_project env (fst parsed) default_project;
     attachments \<leftarrow> attachment_references env messages;
     validate_NormalizedRequestV1
       \<lparr>nr_schema_version = ''1.0'', nr_request_id = identifier, nr_user_message = fst parsed,
        nr_attachments = attachments, nr_source = source, nr_project_hint = fst project,
        nr_explicit_route = override_to_route (fst (snd parsed)), nr_created_at = now,
        nr_correlation_id = identifier, nr_routing_override = fst (snd parsed),
        nr_override_conflict = snd (snd parsed), nr_project_resolution = Some (snd project)\<rparr>
   }"

section \<open>Replacing the routed text\<close>

text \<open>
  The first text part takes the text, the others become empty. \<open>None\<close>: the type of a part is a list
  or an object, which cannot be looked up in a set.
\<close>

fun replace_parts :: "bool \<Rightarrow> string \<Rightarrow> json list \<Rightarrow> (bool \<times> json list) option" where
  "replace_parts replaced cleaned [] = Some (replaced, [])"
| "replace_parts replaced cleaned (JObj part # parts) =
     (case jget ''type'' part of
        Some (JList _) \<Rightarrow> None
      | Some (JObj _) \<Rightarrow> None
      | kind \<Rightarrow>
          if kind \<in> {Some (JStr ''text''), Some (JStr ''input_text'')} then do {
            r \<leftarrow> replace_parts True cleaned parts;
            Some (fst r, JObj (jset ''text'' (JStr (if replaced then [] else cleaned)) part) # snd r)
          } else do {
            r \<leftarrow> replace_parts replaced cleaned parts;
            Some (fst r, JObj part # snd r)
          })"
| "replace_parts replaced cleaned (v # parts) =
     map_option (\<lambda>r. (fst r, v # snd r)) (replace_parts replaced cleaned parts)"

definition replace_content :: "string \<Rightarrow> message \<Rightarrow> message option" where
  "replace_content cleaned m =
     (case jget ''content'' m of
        Some (JStr s) \<Rightarrow> Some (jset ''content'' (JStr cleaned) m)
      | Some (JList parts) \<Rightarrow> do {
          r \<leftarrow> replace_parts False cleaned parts;
          let new = (if fst r then snd r
                     else JObj [(''type'', JStr ''text''), (''text'', JStr cleaned)] # snd r);
          Some (jset ''content'' (JList new) m)
        }
      | _ \<Rightarrow> Some m)"

definition replace_last_user_text :: "message list \<Rightarrow> string \<Rightarrow> message list option" where
  "replace_last_user_text messages cleaned =
     (case last_user_index messages of
        None \<Rightarrow> Some messages
      | Some i \<Rightarrow> map_option (\<lambda>m. messages[i := m]) (replace_content cleaned (messages ! i)))"

end
