(* ===== verification/NormalizerProperties.thy ===== *)
theory NormalizerProperties
  imports Normalizer
begin

text \<open>
  What the request normalizer guarantees: overrides are read and removed exactly, the routed text is
  the one the executor sees, and attachments are positions, never content.
\<close>

section \<open>The last user message\<close>

lemma find_map: "find P (map f xs) = map_option f (find (P \<circ> f) xs)"
  by (induction xs) auto

lemma find_Some_mem: "find P xs = Some x \<Longrightarrow> x \<in> set xs \<and> P x"
  by (induction xs) (auto split: if_splits)

lemma last_user_index_Some: "last_user_index ms = Some i \<Longrightarrow> i < length ms \<and> is_user (ms ! i)"
  unfolding last_user_index_def by (drule find_Some_mem) auto

lemma last_user_text_index:
  "last_user_text env ms =
     (case last_user_index ms of
        None \<Rightarrow> []
      | Some i \<Rightarrow> flatten_content env (case jget ''content'' (ms ! i) of None \<Rightarrow> JStr [] | Some c \<Rightarrow> c))"
proof -
  have "rev ms = map ((!) ms) (rev [0..<length ms])" by (metis map_nth rev_map)
  then have "find is_user (rev ms) = map_option ((!) ms) (last_user_index ms)"
    by (simp add: find_map last_user_index_def comp_def)
  then show ?thesis by (cases "last_user_index ms") (simp_all add: last_user_text_def)
qed

lemma last_user_index_update:
  assumes "last_user_index ms = Some i" "is_user m"
  shows "last_user_index (ms[i := m]) = Some i"
proof -
  have "is_user (ms[i := m] ! j) = is_user (ms ! j)" if "j < length ms" for j
    using assms last_user_index_Some[OF assms(1)] that by (cases "j = i") auto
  then have "last_user_index (ms[i := m]) = last_user_index ms"
    unfolding last_user_index_def by (intro find_cong) auto
  with assms show ?thesis by simp
qed

section \<open>Replaced text\<close>

text \<open>\<open>str\<close> of \<open>None\<close>, a Boolean, a number, a list or a dictionary is never one of the text kinds.\<close>

definition plain_str :: "NormalizerEnv \<Rightarrow> bool" where
  "plain_str env \<longleftrightarrow> (\<forall>v. (\<forall>s. v \<noteq> JStr s) \<longrightarrow> ne_str env v \<notin> set text_kinds)"

lemma text_kind_iff:
  assumes "plain_str env"
  shows "part_text env part ''type'' [] \<in> set text_kinds \<longleftrightarrow>
    jget ''type'' part \<in> {Some (JStr ''text''), Some (JStr ''input_text'')}"
proof (cases "jget ''type'' part")
  case (Some v)
  then show ?thesis
    using assms
    by (cases v) (simp_all add: plain_str_def part_text_def py_str_def text_kinds_def)
qed (simp add: part_text_def text_kinds_def)

definition emptied :: "bool \<Rightarrow> string \<Rightarrow> nat \<Rightarrow> string list" where
  "emptied replaced cleaned n =
     (if replaced then replicate n [] else if n = 0 then [] else cleaned # replicate (n - 1) [])"

lemma part_text_jset [simp]:
  "part_text env (jset ''text'' v part) ''type'' d = part_text env part ''type'' d"
  "part_text env (jset ''text'' (JStr s) part) ''text'' d = s"
  by (simp_all add: part_text_def py_str_def)

lemma replace_parts_obj:
  assumes "replace_parts b cleaned (JObj part # parts) = Some (b', out)"
  shows "if jget ''type'' part \<in> {Some (JStr ''text''), Some (JStr ''input_text'')}
    then (\<exists>r. replace_parts True cleaned parts = Some (b', r) \<and>
            out = JObj (jset ''text'' (JStr (if b then [] else cleaned)) part) # r)
    else (\<exists>r. replace_parts b cleaned parts = Some (b', r) \<and> out = JObj part # r)"
proof (cases "jget ''type'' part")
  case None
  then show ?thesis using assms by (auto simp: bind_eq_Some_conv)
next
  case (Some v)
  then show ?thesis
    using assms by (cases v) (auto simp: bind_eq_Some_conv split: if_split_asm)
qed

lemma replace_parts_texts:
  assumes "plain_str env" "replace_parts b cleaned parts = Some (b', out)"
  shows "fst (content_parts env out) = emptied b cleaned (length (fst (content_parts env parts))) \<and>
    snd (content_parts env out) = snd (content_parts env parts) \<and>
    b' = (b \<or> fst (content_parts env parts) \<noteq> [])"
  using assms(2)
proof (induction parts arbitrary: b b' out)
  case Nil
  then show ?case by (auto simp: emptied_def)
next
  case (Cons v parts)
  show ?case
  proof (cases "\<exists>part. v = JObj part")
    case True
    then obtain part where v: "v = JObj part" by blast
    note kind = text_kind_iff[OF assms(1), of part]
    note step = replace_parts_obj[OF Cons.prems[unfolded v]]
    show ?thesis
    proof (cases "part_text env part ''type'' [] \<in> set text_kinds")
      case True
      with step kind obtain r where
        r: "replace_parts True cleaned parts = Some (b', r)"
        "out = JObj (jset ''text'' (JStr (if b then [] else cleaned)) part) # r" by auto
      from Cons.IH[OF r(1)] show ?thesis using True r(2) v by (auto simp: emptied_def Let_def)
    next
      case False
      with step kind obtain r where
        r: "replace_parts b cleaned parts = Some (b', r)" "out = JObj part # r" by auto
      from Cons.IH[OF r(1)] show ?thesis using False r(2) v
        by (auto simp: Let_def split: option.splits)
    qed
  next
    case False
    with Cons.prems obtain r where r: "replace_parts b cleaned parts = Some (b', r)" "out = v # r"
      by (cases v) auto
    from Cons.IH[OF r(1)] False r(2) show ?thesis by (cases v) auto
  qed
qed

lemma replace_content_text:
  assumes "plain_str env" "replace_content cleaned m = Some m'" "jget ''content'' m = Some content"
    "content = JStr s \<or> content = JList parts"
  shows "\<exists>n. flatten_content env (case jget ''content'' m' of None \<Rightarrow> JStr [] | Some c \<Rightarrow> c) =
    join newline (cleaned # replicate n [] @
      (case content of JList ps \<Rightarrow> snd (content_parts env ps) | _ \<Rightarrow> []))"
  using assms(4)
proof
  assume "content = JStr s"
  with assms show ?thesis
    by (auto simp: replace_content_def flatten_content_def intro!: exI[of _ 0])
next
  assume c: "content = JList parts"
  with assms obtain b out where r: "replace_parts False cleaned parts = Some (b, out)"
    and m': "m' = jset ''content'' (JList (if b then out
      else JObj [(''type'', JStr ''text''), (''text'', JStr cleaned)] # out)) m"
    by (auto simp: replace_content_def bind_eq_Some_conv)
  note texts = replace_parts_texts[OF assms(1) r]
  show ?thesis
  proof (cases "fst (content_parts env parts) = []")
    case True
    with texts c m' show ?thesis
      by (auto simp: flatten_content_def emptied_def part_text_def py_str_def
        text_kinds_def Let_def intro!: exI[of _ 0])
  next
    case False
    with texts c m' show ?thesis
      by (auto simp: flatten_content_def emptied_def Let_def
        intro!: exI[of _ "length (fst (content_parts env parts)) - 1"])
  qed
qed

lemma replace_content_keeps:
  assumes "replace_content cleaned m = Some m'" "k \<noteq> ''content''"
  shows "jget k m' = jget k m"
  using assms
  by (auto simp: replace_content_def bind_eq_Some_conv split: option.splits json.splits)

lemma is_user_replaced: "replace_content cleaned m = Some m' \<Longrightarrow> is_user m' = is_user m"
  by (simp add: is_user_def replace_content_keeps)

text \<open>
  The routed text is the one an executor reads. After the replacement the last user message of
  the conversation starts with the cleaned text, followed only by emptied text parts and by the
  labels of its attachments; its other keys and every other message are unchanged.
\<close>

theorem replaced_text_is_what_executors_read:
  assumes "plain_str env" "last_user_index messages = Some i"
    "jget ''content'' (messages ! i) = Some content" "content = JStr s \<or> content = JList parts"
    "replace_last_user_text messages cleaned = Some out"
  shows "length out = length messages \<and>
    (\<forall>j. j \<noteq> i \<longrightarrow> out ! j = messages ! j) \<and>
    (\<forall>k. k \<noteq> ''content'' \<longrightarrow> jget k (out ! i) = jget k (messages ! i)) \<and>
    (\<exists>n. last_user_text env out = join newline (cleaned # replicate n [] @
      (case content of JList ps \<Rightarrow> snd (content_parts env ps) | _ \<Rightarrow> [])))"
proof -
  from assms(2,5) obtain m where m: "replace_content cleaned (messages ! i) = Some m"
    and out: "out = messages[i := m]" by (auto simp: replace_last_user_text_def)
  have i: "i < length messages" "is_user (messages ! i)" using last_user_index_Some[OF assms(2)] by auto
  have "last_user_index out = Some i"
    unfolding out using i by (intro last_user_index_update[OF assms(2)]) (simp add: is_user_replaced[OF m])
  then have "last_user_text env out =
      flatten_content env (case jget ''content'' m of None \<Rightarrow> JStr [] | Some c \<Rightarrow> c)"
    using i out by (simp add: last_user_text_index)
  with replace_content_text[OF assms(1) m assms(3,4)] replace_content_keeps[OF m] i(1) out
  show ?thesis by simp
qed

section \<open>Overrides\<close>

text \<open>A command as a user writes it: white space, a slash and a name in any case.\<close>

definition override_command :: "RouteOverride \<times> string \<Rightarrow> bool" where
  "override_command cmd \<longleftrightarrow> (py_lower (snd cmd), fst cmd) \<in> set override_names"

definition write_commands :: "(RouteOverride \<times> string) list \<Rightarrow> string \<Rightarrow> string" where
  "write_commands cmds rest = concat (map (\<lambda>cmd. '' /'' @ snd cmd) cmds) @ rest"

definition fresh_text :: "string \<Rightarrow> bool" where
  "fresh_text rest \<longleftrightarrow> at_word_end rest \<and> match_override rest = None"

lemma override_names_no_prefix:
  "list_all (\<lambda>p. list_all (\<lambda>q. \<not> prefix p q \<or> p = q) (map fst override_names)) (map fst override_names)"
  "distinct (map fst override_names)"
  by (simp_all add: override_names_def)

lemma find_unique:
  assumes "x \<in> set xs" "P x" "\<And>y. y \<in> set xs \<Longrightarrow> P y \<Longrightarrow> y = x"
  shows "find P xs = Some x"
proof (cases "find P xs")
  case None
  with assms(1,2) show ?thesis by (simp add: find_None_iff)
next
  case (Some y)
  from find_Some_mem[OF Some] have "y = x" by (intro assms(3)) simp_all
  with Some show ?thesis by simp
qed

lemma find_override_command:
  assumes cmd: "(py_lower w, ov) \<in> set override_names" and rest: "at_word_end rest"
  shows "find_override (w @ rest) = Some (py_lower w, ov)"
proof -
  have len: "length (py_lower w) = length w" by (simp add: py_lower_def)
  have low: "py_lower (w @ rest) = py_lower w @ py_lower rest" by (simp add: py_lower_def)
  have self: "name_matches (py_lower w) (w @ rest)"
    using rest len low by (simp add: name_matches_def)
  have uniq: "p = (py_lower w, ov)"
    if p: "p \<in> set override_names" and m: "name_matches (fst p) (w @ rest)" for p
  proof -
    have "prefix (fst p) (py_lower w @ py_lower rest)" using m low by (simp add: name_matches_def)
    then have "prefix (fst p) (py_lower w) \<or> prefix (py_lower w) (fst p)"
      by (metis prefix_same_cases prefixI)
    moreover have "fst p \<in> set (map fst override_names)" "py_lower w \<in> set (map fst override_names)"
      using p cmd by force+
    ultimately have "fst p = py_lower w"
      using override_names_no_prefix(1) unfolding list_all_iff by metis
    with p cmd override_names_no_prefix(2) show ?thesis
      by (metis eq_key_imp_eq_value prod.collapse)
  qed
  show ?thesis unfolding find_override_def
  proof (rule find_unique[OF cmd])
    show "case (py_lower w, ov) of (name, ov) \<Rightarrow> name_matches name (w @ rest)" using self by simp
    show "y = (py_lower w, ov)"
      if "y \<in> set override_names" "case y of (name, ov) \<Rightarrow> name_matches name (w @ rest)" for y
      using that uniq[of y] by (simp add: case_prod_unfold)
  qed
qed

lemma match_override_space: "is_py_space c \<Longrightarrow> match_override (c # s) = match_override s"
  by (simp add: match_override_def py_lstrip_def)

lemma match_override_command:
  assumes "override_command cmd" "at_word_end rest"
  shows "match_override ('' /'' @ snd cmd @ rest) = Some (fst cmd, rest)"
proof -
  have space: "is_py_space CHR '' ''" "\<not> is_py_space CHR ''/''"
    by (simp_all add: is_py_space_def code_of_def)
  have "find_override (snd cmd @ rest) = Some (py_lower (snd cmd), fst cmd)"
    using assms by (intro find_override_command) (simp_all add: override_command_def)
  moreover have "drop (length (py_lower (snd cmd))) (snd cmd @ rest) = rest"
    by (simp add: py_lower_def)
  ultimately show ?thesis using space by (simp add: match_override_def py_lstrip_def)
qed

lemma strip_write_commands:
  assumes "list_all override_command cmds" "fresh_text rest"
  shows "strip_overrides (write_commands cmds rest) = (map fst cmds, rest) \<and>
    at_word_end (write_commands cmds rest)"
  using assms(1)
proof (induction cmds)
  case Nil
  with assms(2) show ?case by (subst strip_overrides.simps) (simp add: fresh_text_def write_commands_def)
next
  case (Cons cmd cmds)
  let ?more = "write_commands cmds rest"
  from Cons have IH: "strip_overrides ?more = (map fst cmds, rest)" "at_word_end ?more" by auto
  have written: "write_commands (cmd # cmds) rest = '' /'' @ snd cmd @ ?more"
    by (simp add: write_commands_def)
  have "match_override (write_commands (cmd # cmds) rest) = Some (fst cmd, ?more)"
    unfolding written using Cons.prems IH(2) by (intro match_override_command) auto
  then have "strip_overrides (write_commands (cmd # cmds) rest) = (fst cmd # map fst cmds, rest)"
    using IH(1) by (subst strip_overrides.simps) (simp add: Let_def)
  moreover have "at_word_end (write_commands (cmd # cmds) rest)"
    by (simp add: written at_word_end_def is_py_space_def code_of_def)
  ultimately show ?case by simp
qed

text \<open>
  C28: Writing override commands before a text and parsing the result gives the text back, normalised,
  with the first command as the override and a conflict exactly when two of the commands differ;
  white space before a command and the case of its letters do not matter.
\<close>

theorem commands_are_parsed_and_removed:
  assumes "list_all override_command cmds" "fresh_text rest"
  shows "parse_override env (write_commands cmds rest) =
    (normalize_text env rest,
     (if cmds = [] then None else Some (fst (hd cmds))),
     (\<exists>a \<in> set cmds. \<exists>b \<in> set cmds. fst a \<noteq> fst b))"
proof -
  have conflict: "length (dedup xs) > 1 \<longleftrightarrow> (\<exists>a \<in> set xs. \<exists>b \<in> set xs. a \<noteq> b)"
    for xs :: "RouteOverride list"
    using card_le_Suc0_iff_eq[of "set xs"] by (auto simp: length_dedup_card not_le[symmetric])
  have first: "(case dedup (map fst cmds) of [] \<Rightarrow> None | ov # ovs \<Rightarrow> Some ov) =
      (if cmds = [] then None else Some (fst (hd cmds)))"
    by (cases cmds) simp_all
  show ?thesis
    using strip_write_commands[OF assms] conflict[of "map fst cmds"] first
    by (simp add: parse_override_def Let_def)
qed

section \<open>Attachments\<close>

lemma show_nat_digits: "show_nat n \<noteq> [] \<and> (\<forall>c \<in> set (show_nat n). is_digit_char c)"
proof (induction n rule: show_nat.induct)
  case (1 n)
  have digit: "is_digit_char (char_of (48 + k))" if "k < 10" for k :: nat
    using that by (simp add: is_digit_char_def code_of_char_of)
  show ?case
  proof (cases "n < 10")
    case True
    then show ?thesis using digit[of n] by (subst (1 2) show_nat.simps) simp
  next
    case False
    with 1 digit[of "n mod 10"] show ?thesis by (subst (1 2) show_nat.simps) auto
  qed
qed

lemma last_show_nat [simp]: "\<not> is_white_space (last (show_nat n))"
proof -
  have "is_digit_char (last (show_nat n))" using show_nat_digits[of n] by simp
  then show ?thesis by (auto simp: is_digit_char_def is_white_space_def Let_def)
qed

definition digits_value :: "string \<Rightarrow> nat" where
  "digits_value s = foldl (\<lambda>a c. 10 * a + (code_of c - 48)) 0 s"

lemma digits_value_show_nat [simp]: "digits_value (show_nat n) = n"
proof (induction n rule: show_nat.induct)
  case (1 n)
  show ?case
  proof (cases "n < 10")
    case True
    then show ?thesis by (subst show_nat.simps) (simp add: digits_value_def code_of_char_of)
  next
    case False
    with 1 show ?thesis by (subst show_nat.simps) (simp add: digits_value_def code_of_char_of)
  qed
qed

lemma show_nat_inject [simp]: "show_nat m = show_nat n \<longleftrightarrow> m = n"
  by (metis digits_value_show_nat)

lemma trim_ws_show_nat:
  assumes "s \<noteq> []" "\<not> is_white_space (hd s)"
  shows "trim_ws (s @ show_nat n) = s @ show_nat n"
  using assms show_nat_digits[of n] unfolding trim_ws_def by (intro strip_by_fix) auto

lemma trimmed_references:
  "trim_ws (''attachment-'' @ show_nat i @ ''-'' @ show_nat j) = ''attachment-'' @ show_nat i @ ''-'' @ show_nat j"
  "trim_ws (''request-message:'' @ show_nat i @ '':part:'' @ show_nat j) =
    ''request-message:'' @ show_nat i @ '':part:'' @ show_nat j"
  using trim_ws_show_nat[of "''attachment-'' @ show_nat i @ ''-''" j]
    trim_ws_show_nat[of "''request-message:'' @ show_nat i @ '':part:''" j]
  by (simp_all add: is_white_space_def code_of_def)

lemma validate_raw_attachment:
  assumes "validate_AttachmentRefV1 (raw_attachment i j kind media) = Some r"
  shows "r = raw_attachment i j kind (map_option trim_ws media) \<and>
    (case media of None \<Rightarrow> True | Some m \<Rightarrow> 0 < length (trim_ws m) \<and> length (trim_ws m) \<le> 255)"
proof -
  have prov: "trim_ws ''OpenAI message position; inline content intentionally excluded.'' =
      ''OpenAI message position; inline content intentionally excluded.''" by code_simp
  show ?thesis
    using assms trimmed_references[of i j] prov
    by (cases media)
       (auto simp: validate_AttachmentRefV1_def raw_attachment_def bind_eq_Some_conv Identifier_def
         Reference_def ShortText_def MediaType_def constrained_Some reference_without_inline_data_def
         bounded_len_def unique_list_def optional_def)
qed

text \<open>The reference of the part at position \<open>j\<close>, when the part is an attachment.\<close>

definition reference_of_part :: "NormalizerEnv \<Rightarrow> nat \<Rightarrow> json list \<Rightarrow> nat \<Rightarrow> AttachmentRefV1 \<Rightarrow> bool" where
  "reference_of_part env i parts j r \<longleftrightarrow>
     (\<exists>part kind. j < length parts \<and> parts ! j = JObj part \<and>
        attachment_kind (casefold (part_text env part ''type'' [])) (media_type_from_part part) = Some kind \<and>
        r = raw_attachment i j kind (map_option trim_ws (media_type_from_part part)))"

lemma part_references_Cons:
  assumes "part_references env i j (v # parts) = Some refs"
  shows "(part_references env i (Suc j) parts = Some refs) \<or>
    (\<exists>part kind r rs. v = JObj part \<and>
      attachment_kind (casefold (part_text env part ''type'' [])) (media_type_from_part part) = Some kind \<and>
      validate_AttachmentRefV1 (raw_attachment i j kind (media_type_from_part part)) = Some r \<and>
      part_references env i (Suc j) parts = Some rs \<and> refs = r # rs)"
  using assms by (cases v) (auto simp: Let_def bind_eq_Some_conv split: option.splits)

lemma part_references_positions:
  assumes "part_references env i (length pre) parts = Some refs"
  shows "\<exists>js. map ar_attachment_id refs = map (\<lambda>k. ''attachment-'' @ show_nat i @ ''-'' @ show_nat k) js \<and>
    distinct js \<and> (\<forall>k \<in> set js. length pre \<le> k) \<and>
    (\<forall>r \<in> set refs. \<exists>k. reference_of_part env i (pre @ parts) k r)"
  using assms
proof (induction parts arbitrary: pre refs)
  case Nil
  then show ?case by (auto intro: exI[of _ "[]"])
next
  case (Cons v parts)
  have IH: "\<exists>js. map ar_attachment_id rs = map (\<lambda>k. ''attachment-'' @ show_nat i @ ''-'' @ show_nat k) js \<and>
    distinct js \<and> (\<forall>k \<in> set js. Suc (length pre) \<le> k) \<and>
    (\<forall>r \<in> set rs. \<exists>k. reference_of_part env i (pre @ v # parts) k r)"
    if "part_references env i (Suc (length pre)) parts = Some rs" for rs
    using Cons.IH[of "pre @ [v]" rs] that by simp
  from part_references_Cons[OF Cons.prems] show ?case
  proof (elim disjE exE conjE)
    assume "part_references env i (Suc (length pre)) parts = Some refs"
    from IH[OF this] show ?thesis by (meson Suc_leD)
  next
    fix part kind r rs
    assume v: "v = JObj part"
      and kind: "attachment_kind (casefold (part_text env part ''type'' [])) (media_type_from_part part) = Some kind"
      and r: "validate_AttachmentRefV1 (raw_attachment i (length pre) kind (media_type_from_part part)) = Some r"
      and rs: "part_references env i (Suc (length pre)) parts = Some rs" and refs: "refs = r # rs"
    from IH[OF rs] obtain js where
      js: "map ar_attachment_id rs = map (\<lambda>k. ''attachment-'' @ show_nat i @ ''-'' @ show_nat k) js"
      "distinct js" "\<forall>k \<in> set js. Suc (length pre) \<le> k"
      "\<forall>r \<in> set rs. \<exists>k. reference_of_part env i (pre @ v # parts) k r" by blast
    have here: "reference_of_part env i (pre @ v # parts) (length pre) r"
      using validate_raw_attachment[OF r] kind v by (auto simp: reference_of_part_def)
    have "ar_attachment_id r = ''attachment-'' @ show_nat i @ ''-'' @ show_nat (length pre)"
      using validate_raw_attachment[OF r] by (simp add: raw_attachment_def)
    then have ids: "map ar_attachment_id refs =
        map (\<lambda>k. ''attachment-'' @ show_nat i @ ''-'' @ show_nat k) (length pre # js)"
      using js(1) refs by simp
    have "distinct (length pre # js)" "\<forall>k \<in> set (length pre # js). length pre \<le> k" using js(2,3) by auto
    with ids js(4) here refs show ?thesis by (intro exI[of _ "length pre # js"]) auto
  qed
qed

text \<open>
  Attachment references are positions. Every reference of a conversation names a part of its last
  user message that is an attachment; it consists of the position, the kind, the media type and a
  fixed provenance and carries nothing of the part's content, and no two references share an identifier.
\<close>

theorem attachments_are_positions_of_the_last_user_message:
  assumes "attachment_references env messages = Some refs"
  shows "distinct (map ar_attachment_id refs) \<and>
    (\<forall>r \<in> set refs. \<exists>i parts j part kind. last_user_index messages = Some i \<and>
       jget ''content'' (messages ! i) = Some (JList parts) \<and> j < length parts \<and> parts ! j = JObj part \<and>
       attachment_kind (casefold (part_text env part ''type'' [])) (media_type_from_part part) = Some kind \<and>
       r = raw_attachment i j kind (map_option trim_ws (media_type_from_part part)))"
proof (cases "refs = []")
  case False
  with assms obtain i parts where i: "last_user_index messages = Some i"
    and parts: "jget ''content'' (messages ! i) = Some (JList parts)"
    and refs: "part_references env i 0 parts = Some refs"
    by (auto simp: attachment_references_def split: option.splits json.splits)
  from part_references_positions[of env i "[]" parts refs] refs obtain js where
    ids: "map ar_attachment_id refs = map (\<lambda>k. ''attachment-'' @ show_nat i @ ''-'' @ show_nat k) js"
    and "distinct js" and each: "\<forall>r \<in> set refs. \<exists>k. reference_of_part env i parts k r" by auto
  then have "distinct (map ar_attachment_id refs)"
    unfolding ids by (simp add: distinct_map inj_on_def)
  with each i parts show ?thesis by (auto simp: reference_of_part_def)
qed simp

section \<open>Witnesses\<close>

definition sample_normalizer_env :: NormalizerEnv where
  "sample_normalizer_env =
     \<lparr>ne_nfkc = (\<lambda>s. s), ne_str = (\<lambda>_. ''None''), ne_path_candidate = (\<lambda>_. None), ne_nt = False,
      ne_remote_drive = (\<lambda>_. False), ne_directory = (\<lambda>_. None)\<rparr>"

definition sample_messages :: "message list" where
  "sample_messages =
     [[(''role'', JStr ''system''), (''content'', JStr ''be brief'')],
      [(''role'', JStr ''user''),
       (''content'', JList [JObj [(''type'', JStr ''text''), (''text'', JStr ''/local describe'')],
          JObj [(''type'', JStr ''image_url''), (''image_url'', JStr ''data:image/png;base64,AAAA'')],
          JObj [(''type'', JStr ''text''), (''text'', JStr ''please'')]])]]"

lemma commands_are_parsed_and_removed_witness:
  "parse_override sample_normalizer_env '' /Local /CODEX fix it'' = (''fix it'', Some OV_LOCAL, True)"
proof -
  have cmds: "list_all override_command [(OV_LOCAL, ''Local''), (OV_CODEX, ''CODEX'')]" by code_simp
  have fresh: "fresh_text '' fix it''" by code_simp
  have written: "write_commands [(OV_LOCAL, ''Local''), (OV_CODEX, ''CODEX'')] '' fix it'' = '' /Local /CODEX fix it''"
    by code_simp
  have result: "normalize_text sample_normalizer_env '' fix it'' = ''fix it''" by code_simp
  show ?thesis
    using commands_are_parsed_and_removed[OF cmds fresh, of sample_normalizer_env]
    by (simp add: written result) blast
qed

lemma replaced_text_is_what_executors_read_witness:
  "\<exists>out n. replace_last_user_text sample_messages ''describe'' = Some out \<and>
    out ! 0 = sample_messages ! 0 \<and>
    last_user_text sample_normalizer_env out =
      join newline (''describe'' # replicate n [] @ [''[image attached]''])"
proof -
  have plain: "plain_str sample_normalizer_env"
    by (simp add: plain_str_def sample_normalizer_env_def text_kinds_def)
  have last: "last_user_index sample_messages = Some 1" by code_simp
  obtain parts where content: "jget ''content'' (sample_messages ! 1) = Some (JList parts)"
    and labels: "snd (content_parts sample_normalizer_env parts) = [''[image attached]'']"
    by (simp add: sample_messages_def content_parts.simps Let_def part_text_def py_str_def
      text_kinds_def attachment_label_def)
  obtain out where out: "replace_last_user_text sample_messages ''describe'' = Some out"
    using last by (simp add: replace_last_user_text_def sample_messages_def replace_content_def)
  from replaced_text_is_what_executors_read[OF plain last content disjI2[OF refl] out] labels out
  show ?thesis by auto
qed

lemma attachments_are_positions_of_the_last_user_message_witness:
  "\<exists>r i j kind media. attachment_references sample_normalizer_env sample_messages = Some [r] \<and>
    last_user_index sample_messages = Some i \<and> r = raw_attachment i j kind media"
proof -
  obtain r where refs: "attachment_references sample_normalizer_env sample_messages = Some [r]"
  proof
    show "attachment_references sample_normalizer_env sample_messages =
      Some [raw_attachment 1 1 AK_IMAGE (Some ''image/png'')]" by code_simp
  qed
  from attachments_are_positions_of_the_last_user_message[OF refs] refs show ?thesis by auto
qed

end
