(* ===== verification/Health.thy ===== *)
theory Health
  imports Contracts "HOL-Library.Multiset"
begin

text \<open>
  The health aggregation of \<open>services/health.py\<close>: observations of capabilities, the canonical report
  with its consistency check, and \<open>aggregate_health\<close>. \<open>None\<close> stands for a raised \<open>ValueError\<close>.
  Latencies are rationals.
\<close>

section \<open>The contracts\<close>

datatype CapabilityStatus = CAP_OK | CAP_DEGRADED | CAP_UNAVAILABLE | CAP_ON_DEMAND | CAP_DISABLED

datatype CanonicalHealthStatus = HEALTH_OK | HEALTH_DEGRADED | HEALTH_UNAVAILABLE

definition HealthName :: "string \<Rightarrow> string option" where
  "HealthName = constrained 1 128 identifier_pattern"

definition HealthDetail :: "string \<Rightarrow> string option" where
  "HealthDetail = constrained 1 2048 (\<lambda>_. True)"

record CapabilityHealthV1 =
  ch_schema_version :: string
  ch_name :: string
  ch_required :: bool
  ch_status :: CapabilityStatus
  ch_detail :: "string option"
  ch_checked_at :: datetime
  ch_latency_ms :: "rat option"

definition validate_CapabilityHealthV1 :: "CapabilityHealthV1 \<Rightarrow> CapabilityHealthV1 option" where
  "validate_CapabilityHealthV1 c = do {
     version \<leftarrow> require (ch_schema_version c = ''1.0'') (ch_schema_version c);
     nm \<leftarrow> HealthName (ch_name c);
     detail \<leftarrow> optional HealthDetail (ch_detail c);
     checked \<leftarrow> aware_utc (ch_checked_at c);
     latency \<leftarrow> optional (\<lambda>x. require (0 \<le> x \<and> x \<le> 86400000) x) (ch_latency_ms c);
     Some (c\<lparr>ch_schema_version := version, ch_name := nm, ch_detail := detail,
             ch_checked_at := checked, ch_latency_ms := latency\<rparr>)
   }"

record HealthReportV1 =
  hr_schema_version :: string
  hr_service :: string
  hr_live :: bool
  hr_ready :: bool
  hr_status :: CanonicalHealthStatus
  hr_checked_at :: datetime
  hr_capabilities :: "CapabilityHealthV1 list"

definition validate_consistency :: "HealthReportV1 \<Rightarrow> HealthReportV1 option" where
  "validate_consistency r =
     (if hr_ready r \<and> \<not> hr_live r then None
      else if (\<not> hr_live r \<or> \<not> hr_ready r) \<and> hr_status r \<noteq> HEALTH_UNAVAILABLE then None
      else if hr_live r \<and> hr_ready r \<and> hr_status r = HEALTH_UNAVAILABLE then None
      else if \<not> distinct (map ch_name (hr_capabilities r)) then None
      else Some r)"

text \<open>Observations are instances already validated; Pydantic does not validate them again.\<close>

definition validate_HealthReportV1 :: "HealthReportV1 \<Rightarrow> HealthReportV1 option" where
  "validate_HealthReportV1 r = do {
     version \<leftarrow> require (hr_schema_version r = ''1.0'') (hr_schema_version r);
     service \<leftarrow> HealthName (hr_service r);
     checked \<leftarrow> aware_utc (hr_checked_at r);
     caps \<leftarrow> bounded_len 0 128 (hr_capabilities r);
     validate_consistency
       (r\<lparr>hr_schema_version := version, hr_service := service, hr_checked_at := checked,
          hr_capabilities := caps\<rparr>)
   }"

section \<open>Aggregation\<close>

definition required_ready :: "CapabilityHealthV1 list \<Rightarrow> bool" where
  "required_ready observed \<longleftrightarrow>
     list_all (\<lambda>c. ch_status c \<in> {CAP_OK, CAP_DEGRADED}) (filter ch_required observed)"

definition canonical_status :: "bool \<Rightarrow> CapabilityHealthV1 list \<Rightarrow> CanonicalHealthStatus" where
  "canonical_status ready observed =
     (if \<not> ready then HEALTH_UNAVAILABLE
      else if list_ex (\<lambda>c. ch_required c \<and> ch_status c = CAP_DEGRADED) observed
         \<or> list_ex (\<lambda>c. \<not> ch_required c \<and> ch_status c \<in> {CAP_DEGRADED, CAP_UNAVAILABLE}) observed
      then HEALTH_DEGRADED
      else HEALTH_OK)"

definition aggregate_health ::
    "string \<Rightarrow> CapabilityHealthV1 list \<Rightarrow> bool \<Rightarrow> datetime \<Rightarrow> HealthReportV1 option" where
  "aggregate_health service capabilities live checked_at =
     (if \<not> distinct (map ch_name capabilities) then None
      else (let ready = live \<and> required_ready capabilities in
        validate_HealthReportV1
          \<lparr>hr_schema_version = ''1.0'', hr_service = service, hr_live = live, hr_ready = ready,
           hr_status = canonical_status ready capabilities, hr_checked_at = checked_at,
           hr_capabilities = capabilities\<rparr>))"

section \<open>The worst observation decides\<close>

text \<open>The severity of an observation and the severity a canonical status stands for.\<close>

definition severity :: "CapabilityHealthV1 \<Rightarrow> nat" where
  "severity c =
     (if ch_required c
      then (case ch_status c of CAP_OK \<Rightarrow> 0 | CAP_DEGRADED \<Rightarrow> 1 | _ \<Rightarrow> 2)
      else (case ch_status c of CAP_DEGRADED \<Rightarrow> 1 | CAP_UNAVAILABLE \<Rightarrow> 1 | _ \<Rightarrow> 0))"

fun status_severity :: "CanonicalHealthStatus \<Rightarrow> nat" where
  "status_severity HEALTH_OK = 0"
| "status_severity HEALTH_DEGRADED = 1"
| "status_severity HEALTH_UNAVAILABLE = 2"

lemma status_severity_inject [simp]: "status_severity a = status_severity b \<longleftrightarrow> a = b"
  by (cases a; cases b) auto

definition worst_severity :: "CapabilityHealthV1 list \<Rightarrow> nat" where
  "worst_severity observed = foldr max (map severity observed) 0"

lemma worst_severity_le: "worst_severity cs \<le> n \<longleftrightarrow> (\<forall>c \<in> set cs. severity c \<le> n)"
  by (induction cs) (auto simp: worst_severity_def)

lemma severity_le_1:
  "severity c \<le> 1 \<longleftrightarrow> (ch_required c \<longrightarrow> ch_status c \<in> {CAP_OK, CAP_DEGRADED})"
  by (cases "ch_status c") (simp_all add: severity_def)

lemma severity_eq_1:
  "severity c = 1 \<longleftrightarrow> (ch_required c \<and> ch_status c = CAP_DEGRADED) \<or>
     (\<not> ch_required c \<and> ch_status c \<in> {CAP_DEGRADED, CAP_UNAVAILABLE})"
  by (cases "ch_status c") (simp_all add: severity_def)

lemma required_ready_severity: "required_ready cs \<longleftrightarrow> worst_severity cs \<le> 1"
  unfolding required_ready_def worst_severity_le severity_le_1 by (auto simp: list_all_iff)

lemma degraded_severity:
  "(list_ex (\<lambda>c. ch_required c \<and> ch_status c = CAP_DEGRADED) cs \<or>
    list_ex (\<lambda>c. \<not> ch_required c \<and> ch_status c \<in> {CAP_DEGRADED, CAP_UNAVAILABLE}) cs) \<longleftrightarrow>
   (\<exists>c \<in> set cs. severity c = 1)"
  unfolding severity_eq_1 list_ex_iff by blast

lemma severity_le_2: "severity c \<le> 2"
  by (auto simp: severity_def split: CapabilityStatus.splits)

lemma canonical_status_severity:
  "status_severity (canonical_status (live \<and> required_ready cs) cs) =
    (if live then worst_severity cs else 2)"
proof (cases "live \<and> required_ready cs")
  case True
  then have le: "worst_severity cs \<le> 1" by (simp add: required_ready_severity)
  show ?thesis
  proof (cases "\<exists>c \<in> set cs. severity c = 1")
    case True': True
    then have "\<not> worst_severity cs \<le> 0" unfolding worst_severity_le by force
    with True le True' show ?thesis unfolding canonical_status_def degraded_severity by auto
  next
    case False
    with le have "\<forall>c \<in> set cs. severity c \<le> 0"
      unfolding worst_severity_le by (metis One_nat_def le_Suc_eq)
    then have "worst_severity cs \<le> 0" unfolding worst_severity_le .
    with True False show ?thesis unfolding canonical_status_def degraded_severity by auto
  qed
next
  case False
  moreover have "worst_severity cs \<le> 2" using severity_le_2 by (auto simp: worst_severity_le)
  ultimately show ?thesis by (auto simp: canonical_status_def required_ready_severity)
qed

lemma canonical_status_unavailable [simp]: "canonical_status ready cs = HEALTH_UNAVAILABLE \<longleftrightarrow> \<not> ready"
  by (auto simp: canonical_status_def)

lemma HealthName_idem [contract_idem]: "HealthName s = Some t \<Longrightarrow> HealthName t = Some t"
  unfolding HealthName_def by (rule constrained_idem)

text \<open>
  The report of an aggregation is the worst observation. For capabilities with distinct names, at
  most 128 of them, a valid service name and an aware time, \<open>aggregate_health\<close> returns a report that
  its own contract accepts unchanged; its status is the maximum of the severities of the
  observations (unavailable when the service is not live), it is ready exactly below unavailable,
  and the order in which the capabilities were observed does not matter.
\<close>

theorem health_is_the_worst_observation:
  assumes "distinct (map ch_name cs)" "length cs \<le> 128" "HealthName service = Some name"
    "aware_utc at_time = Some utc"
  shows "\<exists>r. aggregate_health service cs live at_time = Some r \<and>
    validate_HealthReportV1 r = Some r \<and>
    status_severity (hr_status r) = (if live then worst_severity cs else 2) \<and>
    (hr_ready r \<longleftrightarrow> hr_status r \<noteq> HEALTH_UNAVAILABLE) \<and>
    (\<forall>ds. mset ds = mset cs \<longrightarrow>
      map_option hr_status (aggregate_health service ds live at_time) = Some (hr_status r))"
proof -
  have agg: "\<exists>r. aggregate_health service ds live at_time = Some r \<and> validate_HealthReportV1 r = Some r \<and>
      hr_status r = canonical_status (live \<and> required_ready ds) ds \<and> hr_ready r = (live \<and> required_ready ds)"
    if "distinct (map ch_name ds)" "length ds \<le> 128" for ds
    using that assms(3,4) HealthName_idem[OF assms(3)] aware_utc_idem[OF assms(4)]
    by (cases "live \<and> required_ready ds")
       (auto simp: aggregate_health_def validate_HealthReportV1_def bounded_len_def Let_def
         require_def validate_consistency_def)
  have same: "map_option hr_status (aggregate_health service ds live at_time) =
      Some (canonical_status (live \<and> required_ready cs) cs)" if "mset ds = mset cs" for ds
  proof -
    have set: "set ds = set cs" and len: "length ds = length cs"
      using that by (auto dest: mset_eq_setD mset_eq_length)
    have "distinct (map ch_name ds)" using assms(1) that
      by (metis mset_eq_imp_distinct_iff mset_map)
    from agg[OF this] len assms(2) obtain r where r: "aggregate_health service ds live at_time = Some r"
      "hr_status r = canonical_status (live \<and> required_ready ds) ds" by auto
    have "worst_severity ds = worst_severity cs"
      using worst_severity_le[of ds] worst_severity_le[of cs] set by (metis order_antisym order_refl)
    then have "status_severity (hr_status r) =
        status_severity (canonical_status (live \<and> required_ready cs) cs)"
      using r(2) canonical_status_severity[of live ds] canonical_status_severity[of live cs] by simp
    with r(1) show ?thesis by (simp add: status_severity_inject)
  qed
  from agg[OF assms(1,2)] obtain r where
    r: "aggregate_health service cs live at_time = Some r" "validate_HealthReportV1 r = Some r"
    "hr_status r = canonical_status (live \<and> required_ready cs) cs" "hr_ready r = (live \<and> required_ready cs)"
    by blast
  have "hr_ready r \<longleftrightarrow> hr_status r \<noteq> HEALTH_UNAVAILABLE"
    using r(3,4) by simp
  with r same canonical_status_severity[of live cs] show ?thesis by auto
qed

definition sample_capability :: "string \<Rightarrow> bool \<Rightarrow> CapabilityStatus \<Rightarrow> CapabilityHealthV1" where
  "sample_capability name required status =
     \<lparr>ch_schema_version = ''1.0'', ch_name = name, ch_required = required, ch_status = status,
      ch_detail = None, ch_checked_at = (Aware 0 0), ch_latency_ms = None\<rparr>"

lemma health_is_the_worst_observation_witness:
  "\<exists>r. aggregate_health ''gateway''
      [sample_capability ''ollama'' True CAP_OK, sample_capability ''voice'' False CAP_UNAVAILABLE,
       sample_capability ''browser'' False CAP_ON_DEMAND] True (Aware 0 0) = Some r \<and>
    hr_status r = HEALTH_DEGRADED \<and> hr_ready r"
proof -
  let ?cs = "[sample_capability ''ollama'' True CAP_OK, sample_capability ''voice'' False CAP_UNAVAILABLE,
    sample_capability ''browser'' False CAP_ON_DEMAND]"
  have names: "distinct (map ch_name ?cs)" "length ?cs \<le> 128" by (simp_all add: sample_capability_def)
  have service: "HealthName ''gateway'' = Some ''gateway''" by code_simp
  have utc: "aware_utc (Aware 0 0) = Some (Aware 0 0)" by code_simp
  have worst: "worst_severity ?cs = 1" by (simp add: worst_severity_def severity_def sample_capability_def)
  from health_is_the_worst_observation[OF names service utc, of True] obtain r where
    "aggregate_health ''gateway'' ?cs True (Aware 0 0) = Some r" "status_severity (hr_status r) = 1"
    "hr_ready r \<longleftrightarrow> hr_status r \<noteq> HEALTH_UNAVAILABLE" using worst by auto
  then show ?thesis by (cases "hr_status r") auto
qed

end
