(* ===== verification/McpCircuit.thy ===== *)
theory McpCircuit
  imports Json
begin

text \<open>
  The circuit breaker of the MCP hub, \<open>services/mcp_hub/runtime.py\<close>: the status file of a server, how
  it is read back and checked, and the records of success and failure.

  The state is the content of the status file. Times of day are given to the operations: \<open>t\<close> is
  \<open>time.time()\<close> in rational seconds, \<open>stamp\<close> the text of \<open>_utc_now()\<close>. \<open>None\<close> stands for an exception
  that leaves the operation. The guards serialise the operations, so one operation is one step.
\<close>

section \<open>Status files\<close>

datatype RuntimeState = RS_DISABLED | RS_ON_DEMAND | RS_READY | RS_DEGRADED | RS_CIRCUIT_OPEN

definition runtime_states :: "(string \<times> RuntimeState) list" where
  "runtime_states = [(''disabled'', RS_DISABLED), (''on_demand'', RS_ON_DEMAND), (''ready'', RS_READY),
     (''degraded'', RS_DEGRADED), (''circuit_open'', RS_CIRCUIT_OPEN)]"

fun runtime_state_text :: "RuntimeState \<Rightarrow> string" where
  "runtime_state_text RS_DISABLED = ''disabled''"
| "runtime_state_text RS_ON_DEMAND = ''on_demand''"
| "runtime_state_text RS_READY = ''ready''"
| "runtime_state_text RS_DEGRADED = ''degraded''"
| "runtime_state_text RS_CIRCUIT_OPEN = ''circuit_open''"

record ServerSpec =
  sv_id :: string
  sv_enabled :: bool
  sv_circuit_failure_threshold :: int
  sv_circuit_cooldown_seconds :: int

text \<open>The bounds of the life-cycle fields.\<close>

definition valid_ServerSpec :: "ServerSpec \<Rightarrow> bool" where
  "valid_ServerSpec server \<longleftrightarrow>
     1 \<le> sv_circuit_failure_threshold server \<and> sv_circuit_failure_threshold server \<le> 10 \<and>
     1 \<le> sv_circuit_cooldown_seconds server \<and> sv_circuit_cooldown_seconds server \<le> 600"

text \<open>A status that passed the checks; a Boolean counter counts as 0 or 1, as in Python's arithmetic.\<close>

record McpStatus =
  ms_state :: RuntimeState
  ms_consecutive_failures :: int
  ms_circuit_open_until_epoch :: rat
  ms_last_reason_code :: json
  ms_checked_at :: json

text \<open>
  What the path holds: nothing, a file that cannot be read or parsed (\<open>OSError\<close>, \<open>JSONDecodeError\<close>), a
  file that is not UTF-8 (\<open>UnicodeDecodeError\<close>, which is not caught), or a JSON value.
\<close>

datatype StatusFile = NoFile | Unreadable | Undecodable | Payload json

definition default_status :: "ServerSpec \<Rightarrow> McpStatus" where
  "default_status server =
     \<lparr>ms_state = (if \<not> sv_enabled server then RS_DISABLED else RS_ON_DEMAND),
      ms_consecutive_failures = 0, ms_circuit_open_until_epoch = 0,
      ms_last_reason_code = JStr ''not_checked'', ms_checked_at = JNull\<rparr>"

definition invalid_status :: "ServerSpec \<Rightarrow> McpStatus" where
  "invalid_status server =
     (default_status server)\<lparr>ms_state := RS_DEGRADED, ms_last_reason_code := JStr ''invalid_runtime_state''\<rparr>"

definition expected_keys :: "string list" where
  "expected_keys = [''schema_version'', ''server_id'', ''state'', ''consecutive_failures'',
     ''circuit_open_until_epoch'', ''last_reason_code'', ''checked_at'']"

definition status_json :: "ServerSpec \<Rightarrow> McpStatus \<Rightarrow> json" where
  "status_json server st = JObj
     [(''schema_version'', JStr ''1.0''), (''server_id'', JStr (sv_id server)),
      (''state'', JStr (runtime_state_text (ms_state st))),
      (''consecutive_failures'', JInt (ms_consecutive_failures st)),
      (''circuit_open_until_epoch'', JFloat (ms_circuit_open_until_epoch st)),
      (''last_reason_code'', ms_last_reason_code st), (''checked_at'', ms_checked_at st)]"

fun json_int :: "json \<Rightarrow> int option" where
  "json_int (JInt n) = Some n"
| "json_int (JBool b) = Some (if b then 1 else 0)"
| "json_int _ = None"

fun json_number :: "json \<Rightarrow> rat option" where
  "json_number (JFloat x) = Some x"
| "json_number (JInt n) = Some (of_int n)"
| "json_number (JBool b) = Some (if b then 1 else 0)"
| "json_number _ = None"

fun hashable :: "json \<Rightarrow> bool" where
  "hashable (JList _) = False"
| "hashable (JObj _) = False"
| "hashable _ = True"

text \<open>
  The checks on a dictionary, in the order of the condition: \<open>None\<close> is a \<open>TypeError\<close> (a state that
  cannot be looked up in a set), \<open>Some None\<close> a refused payload.
\<close>

definition check_status :: "ServerSpec \<Rightarrow> (string \<times> json) list \<Rightarrow> McpStatus option option" where
  "check_status server kvs =
     (if set (map fst kvs) \<noteq> set expected_keys
        \<or> jget ''schema_version'' kvs \<noteq> Some (JStr ''1.0'')
        \<or> jget ''server_id'' kvs \<noteq> Some (JStr (sv_id server)) then Some None
      else case jget ''state'' kvs of
        None \<Rightarrow> Some None
      | Some state \<Rightarrow>
          if \<not> hashable state then None
          else case (case state of JStr s \<Rightarrow> map_of runtime_states s | _ \<Rightarrow> None) of
            None \<Rightarrow> Some None
          | Some st \<Rightarrow>
              (case (Option.bind (jget ''consecutive_failures'' kvs) json_int,
                     Option.bind (jget ''circuit_open_until_epoch'' kvs) json_number) of
                 (Some failures, Some until) \<Rightarrow>
                   Some (Some \<lparr>ms_state = st, ms_consecutive_failures = failures,
                     ms_circuit_open_until_epoch = until,
                     ms_last_reason_code = (case jget ''last_reason_code'' kvs of None \<Rightarrow> JNull | Some v \<Rightarrow> v),
                     ms_checked_at = (case jget ''checked_at'' kvs of None \<Rightarrow> JNull | Some v \<Rightarrow> v)\<rparr>)
               | _ \<Rightarrow> Some None))"

text \<open>
  \<open>set(payload)\<close> of a value that is no dictionary: of a text or of a list of hashable values it is a
  set and differs from the expected keys, unless the list holds exactly these; then the next test
  calls \<open>get\<close> on the list. Other values cannot be turned into a set.
\<close>

definition check_payload :: "ServerSpec \<Rightarrow> json \<Rightarrow> McpStatus option option" where
  "check_payload server payload =
     (case payload of
        JObj kvs \<Rightarrow> check_status server kvs
      | JStr _ \<Rightarrow> Some None
      | JList vs \<Rightarrow>
          if list_all hashable vs \<and> set vs \<noteq> JStr ` set expected_keys then Some None else None
      | _ \<Rightarrow> None)"

section \<open>Operations\<close>

text \<open>\<open>_read_status_unlocked\<close>: the status and the file after a possible write of the elapsed cooldown.\<close>

definition read_status_unlocked ::
    "ServerSpec \<Rightarrow> bool \<Rightarrow> rat \<Rightarrow> string \<Rightarrow> StatusFile \<Rightarrow> (McpStatus \<times> StatusFile) option" where
  "read_status_unlocked server persist_cooldown t stamp file =
     (case file of
        NoFile \<Rightarrow> Some (default_status server, file)
      | Unreadable \<Rightarrow> Some (invalid_status server, file)
      | Undecodable \<Rightarrow> None
      | Payload payload \<Rightarrow>
          (case check_payload server payload of
             None \<Rightarrow> None
           | Some None \<Rightarrow> Some (invalid_status server, file)
           | Some (Some st) \<Rightarrow>
               if ms_state st = RS_CIRCUIT_OPEN \<and> t \<ge> ms_circuit_open_until_epoch st then
                 (let st' = st\<lparr>ms_state := RS_ON_DEMAND, ms_consecutive_failures := 0,
                        ms_circuit_open_until_epoch := 0,
                        ms_last_reason_code := JStr ''circuit_cooldown_elapsed'',
                        ms_checked_at := JStr stamp\<rparr>
                  in Some (st', if persist_cooldown then Payload (status_json server st') else file))
               else Some (st, file)))"

definition read_status :: "ServerSpec \<Rightarrow> rat \<Rightarrow> string \<Rightarrow> StatusFile \<Rightarrow> (McpStatus \<times> StatusFile) option" where
  "read_status server t stamp file = read_status_unlocked server True t stamp file"

definition peek_status :: "ServerSpec \<Rightarrow> rat \<Rightarrow> string \<Rightarrow> StatusFile \<Rightarrow> McpStatus option" where
  "peek_status server t stamp file = map_option fst (read_status_unlocked server False t stamp file)"

definition record_success :: "ServerSpec \<Rightarrow> string \<Rightarrow> StatusFile \<Rightarrow> StatusFile" where
  "record_success server stamp file =
     Payload (status_json server
       ((default_status server)\<lparr>ms_state := RS_READY, ms_last_reason_code := JStr ''ok'',
          ms_checked_at := JStr stamp\<rparr>))"

text \<open>\<open>t\<close> is the time of the read, \<open>t'\<close> the time the cooldown starts.\<close>

definition record_failure ::
    "ServerSpec \<Rightarrow> string \<Rightarrow> rat \<Rightarrow> rat \<Rightarrow> string \<Rightarrow> StatusFile \<Rightarrow> StatusFile option" where
  "record_failure server reason_code t t' stamp file = do {
     (payload, _) \<leftarrow> read_status_unlocked server False t stamp file;
     let failures = min (ms_consecutive_failures payload + 1) 1000;
     let opens = failures \<ge> sv_circuit_failure_threshold server;
     Some (Payload (status_json server
       (payload\<lparr>ms_state := (if opens then RS_CIRCUIT_OPEN else RS_DEGRADED),
          ms_consecutive_failures := failures,
          ms_circuit_open_until_epoch :=
            (if opens then t' + of_int (sv_circuit_cooldown_seconds server) else 0),
          ms_last_reason_code := JStr reason_code, ms_checked_at := JStr stamp\<rparr>)))
   }"

definition circuit_open :: "ServerSpec \<Rightarrow> rat \<Rightarrow> string \<Rightarrow> StatusFile \<Rightarrow> (bool \<times> StatusFile) option" where
  "circuit_open server t stamp file =
     map_option (\<lambda>(st, file'). (ms_state st = RS_CIRCUIT_OPEN, file')) (read_status server t stamp file)"

end
