(* ===== verification/McpCircuitProperties.thy ===== *)
theory McpCircuitProperties
  imports McpCircuit
begin

text \<open>
  The circuit breaker that the status file implements: an abstract breaker, a locale of what a store of
  breakers promises, its interpretation on the status file, and what follows for failures and probes.
\<close>

section \<open>The abstract breaker\<close>

record Breaker =
  br_failures :: int
  br_until :: "rat option"

definition closed_breaker :: Breaker where
  "closed_breaker = \<lparr>br_failures = 0, br_until = None\<rparr>"

definition breaker_open :: "rat \<Rightarrow> Breaker \<Rightarrow> bool" where
  "breaker_open t b \<longleftrightarrow> (case br_until b of None \<Rightarrow> False | Some u \<Rightarrow> t < u)"

text \<open>An elapsed cooldown forgets the failures.\<close>

definition breaker_probe :: "rat \<Rightarrow> Breaker \<Rightarrow> Breaker" where
  "breaker_probe t b = (if br_until b \<noteq> None \<and> \<not> breaker_open t b then closed_breaker else b)"

definition breaker_fail :: "int \<Rightarrow> rat \<Rightarrow> rat \<Rightarrow> rat \<Rightarrow> Breaker \<Rightarrow> Breaker" where
  "breaker_fail threshold cooldown t t' b =
     (let n = min (br_failures (breaker_probe t b) + 1) 1000
      in \<lparr>br_failures = n, br_until = (if n \<ge> threshold then Some (t' + cooldown) else None)\<rparr>)"

lemma breaker_open_closed [simp]: "\<not> breaker_open t closed_breaker"
  by (simp add: breaker_open_def closed_breaker_def)

section \<open>What a store of a breaker promises\<close>

locale breaker_store =
  fixes ok :: "'f \<Rightarrow> bool"
    and view :: "'f \<Rightarrow> Breaker"
    and threshold :: int
    and cooldown :: rat
    and success :: "'f \<Rightarrow> 'f"
    and failure :: "rat \<Rightarrow> rat \<Rightarrow> 'f \<Rightarrow> 'f option"
    and probe :: "rat \<Rightarrow> 'f \<Rightarrow> (bool \<times> 'f) option"
  assumes success: "ok (success f) \<and> view (success f) = closed_breaker"
    and failure: "ok f \<Longrightarrow> \<exists>f'. failure t t' f = Some f' \<and> ok f' \<and>
      view f' = breaker_fail threshold cooldown t t' (view f)"
    and probe: "ok f \<Longrightarrow> \<exists>f'. probe t f = Some (breaker_open t (view f), f') \<and> ok f' \<and>
      view f' = breaker_probe t (view f)"
begin

text \<open>Failures in a row, each with its time of reading and its time of opening.\<close>

fun failures :: "(rat \<times> rat) list \<Rightarrow> 'f \<Rightarrow> 'f option" where
  "failures [] f = Some f"
| "failures ((t, t') # ts) f = Option.bind (failure t t' f) (failures ts)"

fun breaker_fails :: "(rat \<times> rat) list \<Rightarrow> Breaker \<Rightarrow> Breaker" where
  "breaker_fails [] b = b"
| "breaker_fails ((t, t') # ts) b = breaker_fails ts (breaker_fail threshold cooldown t t' b)"

lemma failures_view:
  "ok f \<Longrightarrow> \<exists>f'. failures ts f = Some f' \<and> ok f' \<and> view f' = breaker_fails ts (view f)"
proof (induction ts arbitrary: f)
  case (Cons p ts)
  obtain t t' where p: "p = (t, t')" by (cases p)
  from failure[OF Cons.prems, of t t'] obtain g where g: "failure t t' f = Some g" "ok g"
    "view g = breaker_fail threshold cooldown t t' (view f)" by blast
  from Cons.IH[OF g(2)] g p show ?case by auto
qed simp

lemma breaker_fails_below:
  assumes "threshold \<le> 1000" "br_until b = None" "0 \<le> br_failures b" "br_failures b + int (length ts) < threshold"
  shows "breaker_fails ts b = b\<lparr>br_failures := br_failures b + int (length ts)\<rparr>"
  using assms
proof (induction ts arbitrary: b)
  case (Cons p ts)
  obtain t t' where p: "p = (t, t')" by (cases p)
  have "breaker_fail threshold cooldown t t' b = b\<lparr>br_failures := br_failures b + 1\<rparr>"
    using Cons.prems by (simp add: breaker_fail_def breaker_probe_def Let_def)
  with Cons.IH[of "b\<lparr>br_failures := br_failures b + 1\<rparr>"] Cons.prems p show ?case by simp
qed simp

lemma breaker_fails_append: "breaker_fails (ts @ us) b = breaker_fails us (breaker_fails ts b)"
  by (induction ts b rule: breaker_fails.induct) simp_all

lemma breaker_opens:
  assumes "threshold \<le> 1000" "int (length ts) + 1 = threshold"
  shows "breaker_fails (ts @ [(t, t')]) closed_breaker =
    \<lparr>br_failures = threshold, br_until = Some (t' + cooldown)\<rparr>"
proof -
  have "breaker_fails ts closed_breaker = closed_breaker\<lparr>br_failures := int (length ts)\<rparr>"
    using breaker_fails_below[of closed_breaker ts] assms by (simp add: closed_breaker_def)
  then show ?thesis
    using assms
    by (simp add: breaker_fails_append breaker_fail_def breaker_probe_def closed_breaker_def Let_def)
qed

lemma closed_below_threshold:
  assumes "threshold \<le> 1000" "int (length ts) < threshold"
  shows "\<exists>f'. failures ts (success f) = Some f' \<and> (\<exists>f''. probe t f' = Some (False, f''))"
proof -
  from failures_view[of "success f" ts] success obtain f' where
    f': "failures ts (success f) = Some f'" "ok f'" "view f' = breaker_fails ts closed_breaker" by auto
  have "view f' = closed_breaker\<lparr>br_failures := int (length ts)\<rparr>"
    using f'(3) breaker_fails_below[of closed_breaker ts] assms by (simp add: closed_breaker_def)
  then have "\<not> breaker_open t (view f')" by (simp add: breaker_open_def closed_breaker_def)
  with f' probe[OF f'(2), of t] show ?thesis by auto
qed

lemma open_at_threshold:
  assumes "threshold \<le> 1000" "int (length ts) + 1 = threshold"
  shows "\<exists>f'. failures (ts @ [(t, t')]) (success f) = Some f' \<and>
    (\<exists>f''. probe u f' = Some (u < t' + cooldown, f'') \<and>
       (u \<ge> t' + cooldown \<longrightarrow> view f'' = closed_breaker))"
proof -
  from failures_view[of "success f" "ts @ [(t, t')]"] success obtain f' where
    f': "failures (ts @ [(t, t')]) (success f) = Some f'" "ok f'"
    "view f' = breaker_fails (ts @ [(t, t')]) closed_breaker" by auto
  have view: "view f' = \<lparr>br_failures = threshold, br_until = Some (t' + cooldown)\<rparr>"
    using f'(3) breaker_opens[OF assms] by simp
  from probe[OF f'(2), of u] obtain f'' where
    "probe u f' = Some (breaker_open u (view f'), f'')" "view f'' = breaker_probe u (view f')" by blast
  with f'(1) view show ?thesis by (auto simp: breaker_open_def breaker_probe_def)
qed

end

section \<open>The status file is such a store\<close>

text \<open>A file whose read does not raise: absent, unreadable, or a value that the checks can look at.\<close>

definition readable :: "ServerSpec \<Rightarrow> StatusFile \<Rightarrow> bool" where
  "readable server file \<longleftrightarrow>
     (case file of
        Undecodable \<Rightarrow> False
      | Payload payload \<Rightarrow> check_payload server payload \<noteq> None
      | _ \<Rightarrow> True)"

definition status_breaker :: "McpStatus \<Rightarrow> Breaker" where
  "status_breaker st =
     \<lparr>br_failures = ms_consecutive_failures st,
      br_until = (if ms_state st = RS_CIRCUIT_OPEN then Some (ms_circuit_open_until_epoch st) else None)\<rparr>"

definition breaker_of :: "ServerSpec \<Rightarrow> StatusFile \<Rightarrow> Breaker" where
  "breaker_of server file =
     (case file of
        Payload payload \<Rightarrow>
          (case check_payload server payload of Some (Some st) \<Rightarrow> status_breaker st | _ \<Rightarrow> closed_breaker)
      | _ \<Rightarrow> closed_breaker)"

lemma map_of_runtime_states [simp]: "map_of runtime_states (runtime_state_text st) = Some st"
  by (cases st) (simp_all add: runtime_states_def)

lemma check_status_json: "check_payload server (status_json server st) = Some (Some st)"
  by (simp add: check_payload_def check_status_def status_json_def expected_keys_def)

lemma written_file [simp]:
  "readable server (Payload (status_json server st))"
  "breaker_of server (Payload (status_json server st)) = status_breaker st"
  by (simp_all add: readable_def breaker_of_def check_status_json)

lemma status_breaker_defaults [simp]:
  "status_breaker (default_status server) = closed_breaker"
  "status_breaker (invalid_status server) = closed_breaker"
  by (simp_all add: status_breaker_def closed_breaker_def default_status_def invalid_status_def)

lemma read_status_breaker:
  assumes "readable server file"
  shows "\<exists>st file'. read_status_unlocked server persist t stamp file = Some (st, file') \<and>
    status_breaker st = breaker_probe t (breaker_of server file) \<and>
    (ms_state st = RS_CIRCUIT_OPEN \<longleftrightarrow> breaker_open t (breaker_of server file)) \<and>
    readable server file' \<and>
    breaker_of server file' = (if persist then status_breaker st else breaker_of server file)"
proof (cases "file")
  case (Payload payload)
  with assms obtain r where r: "check_payload server payload = Some r" by (auto simp: readable_def)
  show ?thesis
  proof (cases r)
    case None
    with Payload r assms show ?thesis
      by (auto simp: read_status_unlocked_def breaker_of_def breaker_probe_def invalid_status_def
        default_status_def closed_breaker_def status_breaker_def breaker_open_def)
  next
    case (Some st)
    with Payload r assms show ?thesis
      by (auto simp: read_status_unlocked_def breaker_of_def breaker_probe_def Let_def
        check_status_json closed_breaker_def status_breaker_def breaker_open_def)
  qed
qed (use assms in \<open>auto simp: read_status_unlocked_def breaker_of_def breaker_probe_def invalid_status_def
  default_status_def closed_breaker_def status_breaker_def breaker_open_def readable_def\<close>)

lemma record_failure_breaker:
  assumes "readable server file"
  shows "\<exists>file'. record_failure server reason t t' stamp file = Some file' \<and> readable server file' \<and>
    breaker_of server file' = breaker_fail (sv_circuit_failure_threshold server)
      (of_int (sv_circuit_cooldown_seconds server)) t t' (breaker_of server file)"
proof -
  from read_status_breaker[OF assms, of False t stamp] obtain st file' where
    st: "read_status_unlocked server False t stamp file = Some (st, file')"
    "status_breaker st = breaker_probe t (breaker_of server file)" by blast
  have "ms_consecutive_failures st = br_failures (breaker_probe t (breaker_of server file))"
    using st(2) by (metis Breaker.select_convs(1) status_breaker_def)
  with st(1) show ?thesis
    by (simp add: record_failure_def Let_def breaker_fail_def status_breaker_def)
qed

lemma circuit_open_breaker:
  assumes "readable server file"
  shows "\<exists>file'. circuit_open server t stamp file = Some (breaker_open t (breaker_of server file), file') \<and>
    readable server file' \<and> breaker_of server file' = breaker_probe t (breaker_of server file)"
  using read_status_breaker[OF assms, of True t stamp] by (auto simp: circuit_open_def read_status_def)

interpretation status_file: breaker_store "readable server" "breaker_of server"
    "sv_circuit_failure_threshold server" "of_int (sv_circuit_cooldown_seconds server)"
    "record_success server stamp" "\<lambda>t t'. record_failure server reason t t' stamp"
    "\<lambda>t. circuit_open server t stamp"
  for server stamp reason
proof
  show "readable server (record_success server stamp f) \<and>
      breaker_of server (record_success server stamp f) = closed_breaker" for f
    by (simp add: record_success_def)
       (simp add: status_breaker_def closed_breaker_def default_status_def)
qed (rule record_failure_breaker circuit_open_breaker; assumption)+

section \<open>Sequences of operations\<close>

text \<open>What the launcher and the hub do with the breaker of a server, and what they see.\<close>

datatype CircuitEvent =
    Succeeded string
  | Failed string rat rat string
  | Asked rat string

fun circuit_event :: "ServerSpec \<Rightarrow> CircuitEvent \<Rightarrow> StatusFile \<Rightarrow> (bool list \<times> StatusFile) option" where
  "circuit_event server (Succeeded stamp) file = Some ([], record_success server stamp file)"
| "circuit_event server (Failed reason t t' stamp) file =
     map_option (Pair []) (record_failure server reason t t' stamp file)"
| "circuit_event server (Asked t stamp) file =
     map_option (\<lambda>(b, file'). ([b], file')) (circuit_open server t stamp file)"

fun circuit_run :: "ServerSpec \<Rightarrow> CircuitEvent list \<Rightarrow> StatusFile \<Rightarrow> bool list option" where
  "circuit_run server [] file = Some []"
| "circuit_run server (ev # evs) file =
     (case circuit_event server ev file of
        None \<Rightarrow> None
      | Some (seen, file') \<Rightarrow> map_option (append seen) (circuit_run server evs file'))"

fun breaker_run :: "int \<Rightarrow> rat \<Rightarrow> CircuitEvent list \<Rightarrow> Breaker \<Rightarrow> bool list" where
  "breaker_run threshold cooldown [] b = []"
| "breaker_run threshold cooldown (Succeeded stamp # evs) b =
     breaker_run threshold cooldown evs closed_breaker"
| "breaker_run threshold cooldown (Failed reason t t' stamp # evs) b =
     breaker_run threshold cooldown evs (breaker_fail threshold cooldown t t' b)"
| "breaker_run threshold cooldown (Asked t stamp # evs) b =
     breaker_open t b # breaker_run threshold cooldown evs (breaker_probe t b)"

text \<open>
  C29: The status file refines a circuit breaker held in memory. Whatever a readable status file holds,
  every sequence of recorded successes, recorded failures and \<open>circuit_open\<close> queries runs without
  raising and answers each query as the abstract breaker does that starts from what the file means.
\<close>

theorem status_file_refines_breaker:
  assumes "readable server file"
  shows "circuit_run server evs file =
    Some (breaker_run (sv_circuit_failure_threshold server)
      (of_int (sv_circuit_cooldown_seconds server)) evs (breaker_of server file))"
  using assms
proof (induction evs arbitrary: "file")
  case (Cons ev evs)
  show ?case
  proof (cases ev)
    case (Succeeded stamp)
    with Cons.IH[of "record_success server stamp file"] status_file.success[of server stamp "file"]
    show ?thesis by (simp add: map_option_case)
  next
    case (Failed reason t t' stamp)
    from record_failure_breaker[OF Cons.prems, of reason t t' stamp] obtain f where
      "record_failure server reason t t' stamp file = Some f" "readable server f"
      "breaker_of server f = breaker_fail (sv_circuit_failure_threshold server)
         (of_int (sv_circuit_cooldown_seconds server)) t t' (breaker_of server file)" by blast
    with Cons.IH[of f] Failed show ?thesis by simp
  next
    case (Asked t stamp)
    from circuit_open_breaker[OF Cons.prems, of t stamp] obtain f where
      "circuit_open server t stamp file = Some (breaker_open t (breaker_of server file), f)"
      "readable server f" "breaker_of server f = breaker_probe t (breaker_of server file)" by blast
    with Cons.IH[of f] Asked show ?thesis by simp
  qed
qed simp

text \<open>Failures recorded one after another.\<close>

definition record_failures ::
    "ServerSpec \<Rightarrow> string \<Rightarrow> string \<Rightarrow> (rat \<times> rat) list \<Rightarrow> StatusFile \<Rightarrow> StatusFile option" where
  "record_failures server reason stamp ts file =
     fold (\<lambda>(t, t') f. Option.bind f (record_failure server reason t t' stamp)) ts (Some file)"

lemma record_failures_eq:
  "fold (\<lambda>(t, t') f. Option.bind f (record_failure server reason t t' stamp)) ts start =
    Option.bind start (status_file.failures server reason stamp ts)"
proof (induction ts arbitrary: start)
  case (Cons p ts)
  then show ?case by (cases p; cases start) auto
next
  case Nil
  then show ?case by (cases start) auto
qed

lemma record_failures_file: "record_failures server reason stamp ts file = status_file.failures server reason stamp ts file"
  by (simp add: record_failures_def record_failures_eq)

text \<open>
  The circuit opens at the threshold and not earlier, and for the cooldown and not longer. After a
  recorded success, fewer consecutive failures than the threshold leave it closed at any time; when
  their number reaches the threshold, a query at time \<open>u\<close> finds it open exactly while \<open>u\<close> is before
  the last failure plus the cooldown, and the first query from then on finds a circuit without failures.
\<close>

theorem circuit_opens_at_the_threshold:
  assumes "valid_ServerSpec server"
    "int (length ts) + 1 = sv_circuit_failure_threshold server"
    "start = record_success server stamp content"
    "until = t' + of_int (sv_circuit_cooldown_seconds server)"
  shows "(\<exists>f. record_failures server reason stamp ts start = Some f \<and>
      map_option fst (circuit_open server u stamp f) = Some False) \<and>
    (\<exists>f f'. record_failures server reason stamp (ts @ [(t, t')]) start = Some f \<and>
      circuit_open server u stamp f = Some (u < until, f') \<and>
      (u \<ge> until \<longrightarrow> breaker_of server f' = closed_breaker))"
proof -
  have bound: "sv_circuit_failure_threshold server \<le> 1000" using assms(1) by (simp add: valid_ServerSpec_def)
  have less: "int (length ts) < sv_circuit_failure_threshold server" using assms(2) by simp
  show ?thesis
    unfolding record_failures_file assms(3,4)
    using status_file.closed_below_threshold[OF bound less, of reason stamp content u]
      status_file.open_at_threshold[OF bound assms(2), of reason stamp t t' content u]
    by auto
qed

section \<open>Witnesses\<close>

definition sample_server :: ServerSpec where
  "sample_server = \<lparr>sv_id = ''context7'', sv_enabled = True, sv_circuit_failure_threshold = 2,
     sv_circuit_cooldown_seconds = 60\<rparr>"

lemma status_file_refines_breaker_witness:
  "circuit_run sample_server
     [Failed ''timeout'' 1 1 ''t1'', Asked 2 ''t2'', Failed ''timeout'' 3 4 ''t3'', Asked 63 ''t4'',
      Asked 64 ''t5'', Succeeded ''t6''] NoFile = Some [False, True, False]"
proof -
  have readable: "readable sample_server NoFile" by (simp add: readable_def)
  show ?thesis
    unfolding status_file_refines_breaker[OF readable]
    by (simp add: sample_server_def breaker_of_def breaker_fail_def breaker_probe_def breaker_open_def
      closed_breaker_def Let_def)
qed

lemma circuit_opens_at_the_threshold_witness:
  "\<exists>f f'. record_failures sample_server ''timeout'' ''now'' ([(1, 1)] @ [(3, 4)])
      (record_success sample_server ''now'' Unreadable) = Some f \<and>
    circuit_open sample_server 63 ''now'' f = Some (True, f')"
proof -
  have spec: "valid_ServerSpec sample_server"
    "int (length [(1, 1) :: rat \<times> rat]) + 1 = sv_circuit_failure_threshold sample_server"
    by (simp_all add: valid_ServerSpec_def sample_server_def)
  have "(63 :: rat) < 4 + of_int (sv_circuit_cooldown_seconds sample_server)" by (simp add: sample_server_def)
  with circuit_opens_at_the_threshold[OF spec refl refl, where reason = "''timeout''" and stamp = "''now''" and u = 63
      and content = Unreadable and t = 3 and t' = 4]
  show ?thesis by auto
qed

end
