(* ===== verification/MemoryContracts.thy ===== *)
theory MemoryContracts
  imports Contracts Json
begin

text \<open>
  The contracts of \<open>services/memory/contracts.py\<close> that the memory store reads and writes: the
  enumerations, sources, upsert requests, records and retrieval results. A validator returns \<open>None\<close>
  where Pydantic raises. Confidences and scores are rationals.
\<close>

section \<open>Enumerations\<close>

datatype MemoryRecordType =
  MT_USER_PROFILE | MT_PROJECT_KNOWLEDGE | MT_TASK_HISTORY | MT_OPERATIONAL_STATE | MT_ARCHIVE_REFERENCE

fun record_type_text :: "MemoryRecordType \<Rightarrow> string" where
  "record_type_text MT_USER_PROFILE = ''user_profile''"
| "record_type_text MT_PROJECT_KNOWLEDGE = ''project_knowledge''"
| "record_type_text MT_TASK_HISTORY = ''task_history''"
| "record_type_text MT_OPERATIONAL_STATE = ''operational_state''"
| "record_type_text MT_ARCHIVE_REFERENCE = ''archive_reference''"

datatype MemoryScope = MSC_USER | MSC_PROJECT | MSC_TASK

datatype MemoryStatus =
  MST_CANDIDATE | MST_CONFIRMED | MST_CONFLICTED | MST_STALE | MST_REJECTED | MST_SUPERSEDED | MST_DELETED

datatype MemorySensitivity = MSE_PUBLIC | MSE_INTERNAL | MSE_SENSITIVE

datatype MemoryRetention = MR_SESSION | MR_TASK | MR_TTL | MR_MANUAL | MR_PERMANENT

section \<open>Field types\<close>

definition memory_identifier_char :: "char \<Rightarrow> bool" where
  "memory_identifier_char c \<longleftrightarrow> is_alnum_char c \<or> in_class c ''_.:-''"

definition MemoryIdentifier :: "nat \<Rightarrow> string \<Rightarrow> string option" where
  "MemoryIdentifier hi = constrained 1 hi (\<lambda>s. length s \<le> 128 \<and> list_all memory_identifier_char s)"

definition MemoryText :: "nat \<Rightarrow> string \<Rightarrow> string option" where
  "MemoryText hi = constrained 0 hi (\<lambda>_. True)"

definition HexText :: "nat \<Rightarrow> nat \<Rightarrow> string \<Rightarrow> string option" where
  "HexText lo hi = constrained lo hi (list_all is_hex)"

section \<open>Sources\<close>

record MemorySourceV1 =
  mo_source_type :: string
  mo_uri :: "string option"
  mo_fragment :: "string option"
  mo_source_hash :: "string option"
  mo_observed_at :: datetime
  mo_source_commit_sha :: "string option"
  mo_source_mtime_ns :: "int option"
  mo_producer :: string
  mo_author :: string

definition validate_MemorySourceV1 :: "MemorySourceV1 \<Rightarrow> MemorySourceV1 option" where
  "validate_MemorySourceV1 s = do {
     source_type \<leftarrow> MemoryIdentifier 64 (mo_source_type s);
     uri \<leftarrow> optional (MemoryText 2048) (mo_uri s);
     fragment \<leftarrow> optional (MemoryText 1024) (mo_fragment s);
     source_hash \<leftarrow> optional (HexText 64 64) (mo_source_hash s);
     observed \<leftarrow> aware_utc (mo_observed_at s);
     commit \<leftarrow> optional (HexText 7 64) (mo_source_commit_sha s);
     mtime \<leftarrow> optional (\<lambda>n. require (0 \<le> n) n) (mo_source_mtime_ns s);
     producer \<leftarrow> MemoryIdentifier 128 (mo_producer s);
     author \<leftarrow> MemoryIdentifier 128 (mo_author s);
     Some \<lparr>mo_source_type = source_type, mo_uri = uri, mo_fragment = fragment,
        mo_source_hash = source_hash, mo_observed_at = observed, mo_source_commit_sha = commit,
        mo_source_mtime_ns = mtime, mo_producer = producer, mo_author = author\<rparr>
   }"

section \<open>Upsert requests\<close>

record MemoryUpsertV1 =
  mu_record_type :: MemoryRecordType
  mu_scope :: MemoryScope
  mu_subject :: string
  mu_value :: json
  mu_source :: MemorySourceV1
  mu_owner_id :: string
  mu_project_path :: "string option"
  mu_task_id :: "string option"
  mu_status :: MemoryStatus
  mu_confidence :: rat
  mu_valid_from :: "datetime option"
  mu_valid_to :: "datetime option"
  mu_project_commit_sha :: "string option"
  mu_supersedes_record_id :: "string option"
  mu_sensitivity :: MemorySensitivity
  mu_retention :: MemoryRetention
  mu_expires_at :: "datetime option"
  mu_actor :: string

definition required_scope :: "MemoryRecordType \<Rightarrow> MemoryScope option" where
  "required_scope t =
     (case t of
        MT_USER_PROFILE \<Rightarrow> Some MSC_USER
      | MT_PROJECT_KNOWLEDGE \<Rightarrow> Some MSC_PROJECT
      | MT_TASK_HISTORY \<Rightarrow> Some MSC_TASK
      | MT_OPERATIONAL_STATE \<Rightarrow> Some MSC_TASK
      | MT_ARCHIVE_REFERENCE \<Rightarrow> None)"

definition validate_scope_and_retention :: "MemoryUpsertV1 \<Rightarrow> bool" where
  "validate_scope_and_retention r \<longleftrightarrow>
     \<not> (mu_scope r = MSC_PROJECT \<and> \<not> truthy (mu_project_path r)) \<and>
     \<not> (mu_scope r = MSC_TASK \<and> \<not> truthy (mu_task_id r)) \<and>
     \<not> (mu_scope r = MSC_USER \<and> (truthy (mu_project_path r) \<or> truthy (mu_task_id r))) \<and>
     \<not> (mu_scope r = MSC_PROJECT \<and> truthy (mu_task_id r)) \<and>
     (case required_scope (mu_record_type r) of None \<Rightarrow> True | Some scope \<Rightarrow> mu_scope r = scope) \<and>
     \<not> (mu_retention r = MR_TTL \<and> mu_expires_at r = None) \<and>
     (case (mu_valid_from r, mu_valid_to r) of
        (Some from, Some to) \<Rightarrow> \<not> dt_less to from
      | _ \<Rightarrow> True) \<and>
     mu_status r \<in> {MST_CANDIDATE, MST_CONFIRMED} \<and>
     (mu_record_type r = MT_ARCHIVE_REFERENCE \<longrightarrow> (case mu_value r of JObj _ \<Rightarrow> True | _ \<Rightarrow> False))"

text \<open>The source is an instance already validated.\<close>

definition validate_MemoryUpsertV1 :: "MemoryUpsertV1 \<Rightarrow> MemoryUpsertV1 option" where
  "validate_MemoryUpsertV1 r = do {
     subject \<leftarrow> MemoryIdentifier 128 (mu_subject r);
     owner \<leftarrow> MemoryIdentifier 128 (mu_owner_id r);
     project \<leftarrow> optional (MemoryText 4096) (mu_project_path r);
     task \<leftarrow> optional (MemoryText 256) (mu_task_id r);
     confidence \<leftarrow> require (0 \<le> mu_confidence r \<and> mu_confidence r \<le> 1) (mu_confidence r);
     valid_from \<leftarrow> optional aware_utc (mu_valid_from r);
     valid_to \<leftarrow> optional aware_utc (mu_valid_to r);
     commit \<leftarrow> optional (HexText 7 64) (mu_project_commit_sha r);
     supersedes \<leftarrow> optional (MemoryText 128) (mu_supersedes_record_id r);
     expires \<leftarrow> optional aware_utc (mu_expires_at r);
     actor \<leftarrow> MemoryIdentifier 128 (mu_actor r);
     let r' = r\<lparr>mu_subject := subject, mu_owner_id := owner, mu_project_path := project,
       mu_task_id := task, mu_confidence := confidence, mu_valid_from := valid_from,
       mu_valid_to := valid_to, mu_project_commit_sha := commit,
       mu_supersedes_record_id := supersedes, mu_expires_at := expires, mu_actor := actor\<rparr>;
     require (validate_scope_and_retention r') r'
   }"

section \<open>Records and retrieval results\<close>

record MemoryRecordV1 =
  me_schema_version :: string
  me_record_id :: string
  me_record_type :: MemoryRecordType
  me_owner_id :: string
  me_scope :: MemoryScope
  me_scope_key :: string
  me_project_path :: "string option"
  me_task_id :: "string option"
  me_subject :: string
  me_value :: json
  me_sources :: "MemorySourceV1 list"
  me_created_at :: datetime
  me_observed_at :: datetime
  me_updated_at :: datetime
  me_confidence :: rat
  me_status :: MemoryStatus
  me_valid_from :: "datetime option"
  me_valid_to :: "datetime option"
  me_project_commit_sha :: "string option"
  me_producer :: string
  me_author :: string
  me_supersedes_record_id :: "string option"
  me_sensitivity :: MemorySensitivity
  me_retention :: MemoryRetention
  me_expires_at :: "datetime option"
  me_deleted_at :: "datetime option"
  me_revision :: int

record RetrievalItemV1 =
  ri_record_id :: string
  ri_record_type :: MemoryRecordType
  ri_subject :: string
  ri_value :: json
  ri_score :: rat
  ri_why :: string
  ri_source_refs :: "string list"
  ri_project_commit_sha :: "string option"

definition validate_RetrievalItemV1 :: "RetrievalItemV1 \<Rightarrow> RetrievalItemV1 option" where
  "validate_RetrievalItemV1 r = do {
     score \<leftarrow> require (0 \<le> ri_score r \<and> ri_score r \<le> 1) (ri_score r);
     why \<leftarrow> constrained 1 512 (\<lambda>_. True) (ri_why r);
     refs \<leftarrow> bounded_len 0 32 (map trim_ws (ri_source_refs r));
     Some (r\<lparr>ri_record_id := trim_ws (ri_record_id r), ri_subject := trim_ws (ri_subject r),
       ri_score := score, ri_why := why, ri_source_refs := refs,
       ri_project_commit_sha := map_option trim_ws (ri_project_commit_sha r)\<rparr>)
   }"

record RetrievalResultV1 =
  rr_items :: "RetrievalItemV1 list"
  rr_used_chars :: int
  rr_max_chars :: int
  rr_degraded :: bool
  rr_diagnostic :: "string option"

lemma validate_upsert_fields:
  assumes "validate_MemoryUpsertV1 r = Some r'"
  shows "mu_record_type r' = mu_record_type r" "mu_scope r' = mu_scope r"
    "mu_source r' = mu_source r" "mu_value r' = mu_value r" "mu_status r' = mu_status r"
    "mu_retention r' = mu_retention r" "mu_sensitivity r' = mu_sensitivity r"
    "validate_scope_and_retention r'"
  using assms unfolding validate_MemoryUpsertV1_def bind_eq_Some_conv Let_def by auto

end
