(* ===== verification/Results.thy ===== *)
theory Results
  imports Main
begin

text \<open>
  Results of code that can raise: an error on the left, a value on the right. \<open>and_then\<close> is the next
  statement, \<open>or_fail\<close> raises on a missing value, \<open>guard\<close> on a failed condition.
\<close>

definition and_then :: "'e + 'a \<Rightarrow> ('a \<Rightarrow> 'e + 'b) \<Rightarrow> 'e + 'b" where
  "and_then r f = (case r of Inl e \<Rightarrow> Inl e | Inr x \<Rightarrow> f x)"

definition or_fail :: "'e \<Rightarrow> 'a option \<Rightarrow> 'e + 'a" where
  "or_fail e v = (case v of None \<Rightarrow> Inl e | Some x \<Rightarrow> Inr x)"

definition guard :: "bool \<Rightarrow> 'e \<Rightarrow> 'e + unit" where
  "guard b e = (if b then Inr () else Inl e)"

lemma and_then_Inr [simp]: "and_then r f = Inr y \<longleftrightarrow> (\<exists>x. r = Inr x \<and> f x = Inr y)"
  by (cases r) (auto simp: and_then_def)

lemma or_fail_Inr [simp]: "or_fail e v = Inr x \<longleftrightarrow> v = Some x"
  by (cases v) (auto simp: or_fail_def)

lemma guard_Inr [simp]: "guard b e = Inr u \<longleftrightarrow> b"
  by (simp add: guard_def)

end
