(* ===== verification/MemoryStore.thy ===== *)
theory MemoryStore
  imports MemoryContracts Tables Results
begin

text \<open>
  The memory store of \<open>services/memory/store.py\<close> over the tables that the migration
  \<open>_apply_controlled_memory_v1\<close> of \<open>services/memory/migrations.py\<close> creates. A write transaction is one
  function from the database to an error or a result and the new database; an error rolls the
  transaction back. Times are microseconds since the epoch, as the ISO texts of the tables order them.

  The environment gives SHA-256, canonical JSON, the privacy inspection of \<open>privacy.py\<close>, the
  contracts of typed values and the resolution of paths.
\<close>

section \<open>Results\<close>

datatype MemoryError =
    MemoryNotFoundError
  | MemoryRevisionError
  | MemoryPolicyError
  | MemoryPrivacyError
  | MemoryValidationError
  | SqlIntegrityError

type_synonym 'a memory_result = "MemoryError + 'a"

section \<open>Environment\<close>

text \<open>The parts of a payload that the privacy policy inspects and normalises.\<close>

record MemoryComposite =
  mp_subject :: string
  mp_value :: json
  mp_owner_id :: string
  mp_task_id :: "string option"
  mp_source_type :: string
  mp_source_fragment :: "string option"
  mp_producer :: string
  mp_author :: string

record MemoryEnv =
  mv_sha256 :: "string \<Rightarrow> string"
  mv_canonical_json :: "json \<Rightarrow> string"
  mv_loads :: "string \<Rightarrow> json"
  mv_inspect :: "MemoryComposite \<Rightarrow> string option \<Rightarrow> (MemoryComposite \<times> MemorySensitivity) option"
  mv_reference_allowed :: "string \<Rightarrow> bool"
  mv_source_reference :: "string \<Rightarrow> string option"
  mv_typed_value :: "MemoryRecordType \<Rightarrow> json \<Rightarrow> json option"
  mv_project_path :: "string option \<Rightarrow> string option"
  mv_source_uri :: "string \<Rightarrow> string option \<Rightarrow> string option option"

section \<open>Tables\<close>

record MemoryRow =
  mr_record_id :: string
  mr_schema_version :: string
  mr_record_type :: MemoryRecordType
  mr_owner_id :: string
  mr_scope_type :: MemoryScope
  mr_scope_key :: string
  mr_project_realpath :: "string option"
  mr_task_id :: "string option"
  mr_memory_key :: string
  mr_value_json :: string
  mr_value_hash :: string
  mr_dedupe_key :: string
  mr_status :: MemoryStatus
  mr_confidence :: rat
  mr_sensitivity :: MemorySensitivity
  mr_retention_class :: MemoryRetention
  mr_expires_at :: "int option"
  mr_valid_from :: "int option"
  mr_valid_to :: "int option"
  mr_source_commit_sha :: "string option"
  mr_author :: string
  mr_producer :: string
  mr_supersedes :: "string option"
  mr_created_at :: int
  mr_observed_at :: int
  mr_updated_at :: int
  mr_deleted_at :: "int option"
  mr_revision :: int

definition record_checks :: "MemoryRow \<Rightarrow> bool" where
  "record_checks r \<longleftrightarrow>
     length (mr_value_json r) \<le> 262144 \<and> length (mr_value_hash r) = 64 \<and>
     length (mr_dedupe_key r) = 64 \<and> 0 \<le> mr_confidence r \<and> mr_confidence r \<le> 1 \<and>
     1 \<le> mr_revision r \<and>
     (mr_retention_class r = MR_TTL \<longleftrightarrow> mr_expires_at r \<noteq> None) \<and>
     (case (mr_valid_from r, mr_valid_to r) of (Some from, Some to) \<Rightarrow> from \<le> to | _ \<Rightarrow> True) \<and>
     (mr_status r = MST_DELETED \<longleftrightarrow> mr_deleted_at r \<noteq> None) \<and>
     (mr_scope_type r = MSC_PROJECT \<longrightarrow> mr_project_realpath r \<noteq> None) \<and>
     (mr_scope_type r = MSC_TASK \<longrightarrow> mr_task_id r \<noteq> None)"

record SourceRow =
  sr_source_id :: string
  sr_record_id :: string
  sr_source_type :: string
  sr_source_uri :: "string option"
  sr_source_fragment :: "string option"
  sr_source_hash :: "string option"
  sr_source_commit_sha :: "string option"
  sr_source_mtime_ns :: "int option"
  sr_observed_at :: int
  sr_producer :: string
  sr_author :: string
  sr_dedupe_key :: string

definition source_checks :: "SourceRow \<Rightarrow> bool" where
  "source_checks s \<longleftrightarrow>
     (case sr_source_hash s of None \<Rightarrow> True | Some h \<Rightarrow> length h = 64) \<and>
     (case sr_source_mtime_ns s of None \<Rightarrow> True | Some n \<Rightarrow> 0 \<le> n) \<and>
     length (sr_dedupe_key s) = 64"

record ConflictRow =
  co_conflict_id :: string
  co_owner_id :: string
  co_scope_type :: MemoryScope
  co_scope_key :: string
  co_record_type :: MemoryRecordType
  co_memory_key :: string
  co_open :: bool
  co_resolution_record_id :: "string option"
  co_created_at :: int
  co_resolved_at :: "int option"

record AuditRow =
  au_record_id :: "string option"
  au_record_type :: "MemoryRecordType option"
  au_scope_hash :: string
  au_actor :: string
  au_action :: string
  au_reason_code :: string
  au_before_status :: "string option"
  au_after_status :: "string option"
  au_occurred_at :: int
  au_affected_count :: int

text \<open>A membership is the pair of a conflict and a record; its time stamp is not kept.\<close>

record MemoryDb =
  md_records :: "MemoryRow list"
  md_sources :: "SourceRow list"
  md_conflicts :: "ConflictRow list"
  md_members :: "(string \<times> string) list"
  md_audit :: "AuditRow list"

definition empty_memory_db :: MemoryDb where
  "empty_memory_db = \<lparr>md_records = [], md_sources = [], md_conflicts = [], md_members = [], md_audit = []\<rparr>"

text \<open>What a fact is: the columns that the conflict table and its unique index share.\<close>

type_synonym fact = "string \<times> MemoryScope \<times> string \<times> MemoryRecordType \<times> string"

definition row_fact :: "MemoryRow \<Rightarrow> fact" where
  "row_fact r = (mr_owner_id r, mr_scope_type r, mr_scope_key r, mr_record_type r, mr_memory_key r)"

definition conflict_fact :: "ConflictRow \<Rightarrow> fact" where
  "conflict_fact c = (co_owner_id c, co_scope_type c, co_scope_key c, co_record_type c, co_memory_key c)"

definition active_status :: "MemoryStatus \<Rightarrow> bool" where
  "active_status s \<longleftrightarrow> s \<in> {MST_CANDIDATE, MST_CONFIRMED, MST_CONFLICTED}"

text \<open>
  \<open>UPDATE memory_records SET ... WHERE p\<close>: every change also counts the revision up. The table's
  checks are tested on the changed rows.
\<close>

definition update_records ::
    "(MemoryRow \<Rightarrow> bool) \<Rightarrow> (MemoryRow \<Rightarrow> MemoryRow) \<Rightarrow> MemoryDb \<Rightarrow> MemoryDb memory_result" where
  "update_records p f db =
     (let change = (\<lambda>r. (f r)\<lparr>mr_revision := mr_revision r + 1\<rparr>) in
      if list_all (\<lambda>r. p r \<longrightarrow> record_checks (change r)) (md_records db)
      then Inr (db\<lparr>md_records := map (\<lambda>r. if p r then change r else r) (md_records db)\<rparr>)
      else Inl SqlIntegrityError)"

definition insert_record :: "MemoryRow \<Rightarrow> MemoryDb \<Rightarrow> MemoryDb memory_result" where
  "insert_record row db =
     (if record_checks row \<and> select mr_record_id (mr_record_id row) (md_records db) = None
        \<and> select mr_dedupe_key (mr_dedupe_key row) (md_records db) = None
        \<and> (case mr_supersedes row of None \<Rightarrow> True
            | Some old \<Rightarrow> select mr_record_id old (md_records db) \<noteq> None)
      then Inr (db\<lparr>md_records := md_records db @ [row]\<rparr>)
      else Inl SqlIntegrityError)"

text \<open>
  \<open>DELETE FROM memory_records\<close>: sources and memberships follow, references to the record become
  \<open>NULL\<close>.
\<close>

definition unlink :: "(string \<Rightarrow> bool) \<Rightarrow> string option \<Rightarrow> string option" where
  "unlink gone v = (case v of None \<Rightarrow> None | Some i \<Rightarrow> if gone i then None else Some i)"

definition delete_records :: "(string \<Rightarrow> bool) \<Rightarrow> MemoryDb \<Rightarrow> MemoryDb" where
  "delete_records gone db =
     db\<lparr>md_records := map (\<lambda>r. r\<lparr>mr_supersedes := unlink gone (mr_supersedes r)\<rparr>)
          (filter (\<lambda>r. \<not> gone (mr_record_id r)) (md_records db)),
        md_sources := filter (\<lambda>s. \<not> gone (sr_record_id s)) (md_sources db),
        md_conflicts := map (\<lambda>c. c\<lparr>co_resolution_record_id := unlink gone (co_resolution_record_id c)\<rparr>)
          (md_conflicts db),
        md_members := filter (\<lambda>m. \<not> gone (snd m)) (md_members db)\<rparr>"

text \<open>The conflicts without members, which a purge removes.\<close>

definition delete_empty_conflicts :: "MemoryDb \<Rightarrow> MemoryDb" where
  "delete_empty_conflicts db =
     db\<lparr>md_conflicts := filter (\<lambda>c. co_conflict_id c \<in> fst ` set (md_members db)) (md_conflicts db)\<rparr>"

section \<open>Audit\<close>

fun status_text :: "MemoryStatus \<Rightarrow> string" where
  "status_text MST_CANDIDATE = ''candidate''"
| "status_text MST_CONFIRMED = ''confirmed''"
| "status_text MST_CONFLICTED = ''conflicted''"
| "status_text MST_STALE = ''stale''"
| "status_text MST_REJECTED = ''rejected''"
| "status_text MST_SUPERSEDED = ''superseded''"
| "status_text MST_DELETED = ''deleted''"

definition audit_actors :: "string list" where
  "audit_actors = [''knowledge-engine'', ''knowledge-purge'', ''local-user'', ''memory-invalidator'',
     ''memory-retention'', ''trusted-adapter'']"

definition audit ::
    "MemoryEnv \<Rightarrow> string option \<Rightarrow> MemoryRecordType option \<Rightarrow> string \<Rightarrow> string \<Rightarrow> string \<Rightarrow> string \<Rightarrow>
     string option \<Rightarrow> string option \<Rightarrow> int \<Rightarrow> int \<Rightarrow> MemoryDb \<Rightarrow> MemoryDb" where
  "audit env rid rtype scope_key actor action reason from_status to_status count now db =
     db\<lparr>md_audit := md_audit db @
       [\<lparr>au_record_id = rid, au_record_type = rtype, au_scope_hash = mv_sha256 env scope_key,
         au_actor = (if actor \<in> set audit_actors then actor else ''external-actor''),
         au_action = action, au_reason_code = reason, au_before_status = from_status,
         au_after_status = to_status, au_occurred_at = now, au_affected_count = count\<rparr>]\<rparr>"

section \<open>Normalisation of a request\<close>

definition objective_sources :: "string list" where
  "objective_sources = [''file'', ''git'', ''manifest'', ''task_state'', ''tool_result'', ''test_result'']"

text \<open>The search for a model's name in a producer or an actor, ignoring case.\<close>

definition model_producer :: "string \<Rightarrow> bool" where
  "model_producer s \<longleftrightarrow>
     list_ex (\<lambda>m. sublist m (py_lower s)) [''model'', ''llm'', ''qwen'', ''ollama'', ''assistant'', ''agent'']"

definition validate_initial_confirmation :: "bool \<Rightarrow> MemoryUpsertV1 \<Rightarrow> bool" where
  "validate_initial_confirmation trusted r \<longleftrightarrow>
     mu_status r \<noteq> MST_CONFIRMED \<or>
     (trusted \<and> mo_source_type (mu_source r) \<in> set objective_sources \<and>
      (truthy (mo_source_hash (mu_source r)) \<or> truthy (mo_source_commit_sha (mu_source r)) \<or>
       truthy (mu_project_commit_sha r)) \<and>
      \<not> model_producer (mo_producer (mu_source r)))"

text \<open>\<open>a or b\<close> on optional texts.\<close>

definition or_text :: "string option \<Rightarrow> string option \<Rightarrow> string option" where
  "or_text a b = (if truthy a then a else b)"

definition lower_text :: "string option \<Rightarrow> string option" where
  "lower_text v = (if truthy v then map_option py_lower v else None)"

fun sensitivity_rank :: "MemorySensitivity \<Rightarrow> nat" where
  "sensitivity_rank MSE_PUBLIC = 0"
| "sensitivity_rank MSE_INTERNAL = 1"
| "sensitivity_rank MSE_SENSITIVE = 2"

definition composite_of :: "MemoryUpsertV1 \<Rightarrow> MemoryComposite" where
  "composite_of r =
     \<lparr>mp_subject = mu_subject r, mp_value = mu_value r, mp_owner_id = mu_owner_id r,
      mp_task_id = mu_task_id r, mp_source_type = mo_source_type (mu_source r),
      mp_source_fragment = mo_fragment (mu_source r), mp_producer = mo_producer (mu_source r),
      mp_author = mo_author (mu_source r)\<rparr>"

definition commits_agree :: "MemoryUpsertV1 \<Rightarrow> bool" where
  "commits_agree r \<longleftrightarrow>
     \<not> (truthy (mu_project_commit_sha r) \<and> truthy (mo_source_commit_sha (mu_source r)) \<and>
        casefold (the (mu_project_commit_sha r)) \<noteq> casefold (the (mo_source_commit_sha (mu_source r))))"

definition normalize_request :: "MemoryEnv \<Rightarrow> MemoryUpsertV1 \<Rightarrow> MemoryUpsertV1 memory_result" where
  "normalize_request env r =
     and_then (guard (commits_agree r) MemoryPolicyError) (\<lambda>_.
     and_then (or_fail MemoryPrivacyError (mv_inspect env (composite_of r) (mo_uri (mu_source r))))
       (\<lambda>(normalized, detected).
     and_then (or_fail MemoryPrivacyError (optional (mv_source_reference env) (mo_uri (mu_source r)))) (\<lambda>uri.
     and_then (or_fail MemoryValidationError (validate_MemorySourceV1
       ((mu_source r)\<lparr>mo_source_type := mp_source_type normalized, mo_uri := uri,
          mo_fragment := mp_source_fragment normalized,
          mo_source_commit_sha := lower_text (or_text (mo_source_commit_sha (mu_source r)) (mu_project_commit_sha r)),
          mo_producer := mp_producer normalized, mo_author := mp_author normalized\<rparr>))) (\<lambda>source.
     and_then (or_fail MemoryPrivacyError (optional (mv_source_reference env) (mu_project_path r))) (\<lambda>project.
     or_fail MemoryValidationError (validate_MemoryUpsertV1
       (r\<lparr>mu_subject := mp_subject normalized, mu_value := mp_value normalized,
          mu_owner_id := mp_owner_id normalized, mu_project_path := project,
          mu_task_id := mp_task_id normalized, mu_source := source,
          mu_sensitivity := (if sensitivity_rank (mu_sensitivity r) \<ge> sensitivity_rank detected
                             then mu_sensitivity r else detected)\<rparr>)))))))"

text \<open>Keys under which an archive reference could carry content, at any depth.\<close>

definition archive_content_keys :: "string list" where
  "archive_content_keys =
     [''body'', ''chat'', ''completion'', ''content'', ''conversation'', ''data'', ''history'', ''messages'',
      ''output'', ''payload'', ''prompt'', ''response'', ''result'', ''stderr'', ''stdout'', ''text'',
      ''tool_output'', ''transcript'']"

fun contains_forbidden_archive_key :: "json \<Rightarrow> bool" where
  "contains_forbidden_archive_key (JObj kvs) \<longleftrightarrow>
     (\<exists>(k, v) \<in> set kvs. casefold k \<in> set archive_content_keys \<or> contains_forbidden_archive_key v)"
| "contains_forbidden_archive_key (JList vs) \<longleftrightarrow> (\<exists>v \<in> set vs. contains_forbidden_archive_key v)"
| "contains_forbidden_archive_key _ \<longleftrightarrow> False"

text \<open>The value of a typed record in its contract; other values pass.\<close>

definition typed_request :: "MemoryEnv \<Rightarrow> MemoryUpsertV1 \<Rightarrow> MemoryUpsertV1 memory_result" where
  "typed_request env r =
     (if mu_record_type r = MT_ARCHIVE_REFERENCE then
        and_then (guard (\<not> contains_forbidden_archive_key (mu_value r)) MemoryPolicyError) (\<lambda>_.
        and_then (or_fail MemoryValidationError (mv_typed_value env MT_ARCHIVE_REFERENCE (mu_value r))) (\<lambda>v.
        and_then (guard (case v of
            JObj kvs \<Rightarrow> (case jget ''uri'' kvs of
                Some (JStr u) \<Rightarrow> u = [] \<or> mv_reference_allowed env u | _ \<Rightarrow> True)
          | _ \<Rightarrow> True) MemoryPrivacyError) (\<lambda>_.
        Inr (r\<lparr>mu_value := v\<rparr>))))
      else if mu_record_type r \<in> {MT_TASK_HISTORY, MT_OPERATIONAL_STATE} then
        and_then (or_fail MemoryValidationError (mv_typed_value env (mu_record_type r) (mu_value r))) (\<lambda>v.
        Inr (r\<lparr>mu_value := v\<rparr>))
      else Inr r)"

definition scope_key_of :: "MemoryScope \<Rightarrow> string \<Rightarrow> string option \<Rightarrow> string option \<Rightarrow> string option" where
  "scope_key_of scope owner project task =
     (case scope of
        MSC_USER \<Rightarrow> Some (''user:'' @ owner)
      | MSC_PROJECT \<Rightarrow> if truthy project then Some (''project:'' @ the project) else None
      | MSC_TASK \<Rightarrow>
          if truthy task
          then Some (''task:'' @ (if truthy project then the project else ''no-project'') @ '':'' @ the task)
          else None)"

definition unit_separator :: string where
  "unit_separator = [char_of (31::nat)]"

definition dedupe_key_of :: "MemoryEnv \<Rightarrow> string \<Rightarrow> string \<Rightarrow> MemoryRecordType \<Rightarrow> string \<Rightarrow> string \<Rightarrow> string" where
  "dedupe_key_of env owner scope_key rtype subject value_hash =
     mv_sha256 env (join unit_separator [owner, scope_key, record_type_text rtype, subject, value_hash])"

record MemoryIdentity =
  mi_project :: "string option"
  mi_scope_key :: string
  mi_value_json :: string
  mi_value_hash :: string
  mi_dedupe_key :: string

text \<open>A failed assertion of \<open>_scope_key\<close> is a \<open>MemoryValidationError\<close>.\<close>

definition identity :: "MemoryEnv \<Rightarrow> MemoryUpsertV1 \<Rightarrow> MemoryIdentity memory_result" where
  "identity env r =
     (let project = mv_project_path env (mu_project_path r); value_json = mv_canonical_json env (mu_value r);
          value_hash = mv_sha256 env value_json
      in and_then (or_fail MemoryValidationError (scope_key_of (mu_scope r) (mu_owner_id r) project (mu_task_id r)))
        (\<lambda>scope_key. Inr \<lparr>mi_project = project, mi_scope_key = scope_key, mi_value_json = value_json,
           mi_value_hash = value_hash,
           mi_dedupe_key = dedupe_key_of env (mu_owner_id r) scope_key (mu_record_type r) (mu_subject r) value_hash\<rparr>))"

section \<open>Sources and conflicts\<close>

definition source_key :: "MemoryEnv \<Rightarrow> string \<Rightarrow> MemorySourceV1 \<Rightarrow> string option \<Rightarrow> string" where
  "source_key env rid source uri =
     mv_sha256 env (join unit_separator
       [rid, mo_source_type source, case uri of None \<Rightarrow> [] | Some u \<Rightarrow> u,
        case mo_fragment source of None \<Rightarrow> [] | Some t \<Rightarrow> t,
        case mo_source_hash source of None \<Rightarrow> [] | Some t \<Rightarrow> t,
        case mo_source_commit_sha source of None \<Rightarrow> [] | Some t \<Rightarrow> t,
        case mo_source_mtime_ns source of None \<Rightarrow> [] | Some n \<Rightarrow> if n = 0 then [] else show_nat (nat n)])"

text \<open>\<open>INSERT OR IGNORE\<close>: a row that breaks a constraint of the table is left out.\<close>

definition add_source ::
    "MemoryEnv \<Rightarrow> string \<Rightarrow> MemorySourceV1 \<Rightarrow> string option \<Rightarrow> string \<Rightarrow> MemoryDb \<Rightarrow> (bool \<times> MemoryDb) memory_result" where
  "add_source env rid source project source_id db =
     and_then (case mo_uri source of
         None \<Rightarrow> Inr None
       | Some u \<Rightarrow> or_fail MemoryPolicyError (mv_source_uri env u project)) (\<lambda>uri.
     let row = \<lparr>sr_source_id = source_id, sr_record_id = rid, sr_source_type = mo_source_type source,
           sr_source_uri = uri, sr_source_fragment = mo_fragment source,
           sr_source_hash = lower_text (mo_source_hash source),
           sr_source_commit_sha = lower_text (mo_source_commit_sha source),
           sr_source_mtime_ns = mo_source_mtime_ns source,
           sr_observed_at = instant (mo_observed_at source), sr_producer = mo_producer source,
           sr_author = mo_author source, sr_dedupe_key = source_key env rid source uri\<rparr>
     in if source_checks row \<and> select sr_source_id source_id (md_sources db) = None
          \<and> select sr_dedupe_key (sr_dedupe_key row) (md_sources db) = None
        then Inr (True, db\<lparr>md_sources := md_sources db @ [row]\<rparr>)
        else Inr (False, db))"

definition open_conflict_of :: "fact \<Rightarrow> MemoryDb \<Rightarrow> ConflictRow option" where
  "open_conflict_of f db = find (\<lambda>c. conflict_fact c = f \<and> co_open c) (md_conflicts db)"

definition add_member :: "string \<Rightarrow> string \<Rightarrow> (string \<times> string) list \<Rightarrow> (string \<times> string) list" where
  "add_member cid rid members = (if (cid, rid) \<in> set members then members else members @ [(cid, rid)])"

definition open_conflict ::
    "MemoryRow \<Rightarrow> string list \<Rightarrow> string \<Rightarrow> int \<Rightarrow> MemoryDb \<Rightarrow> MemoryDb memory_result" where
  "open_conflict row conflicting new_conflict_id now db =
     (let existing = open_conflict_of (row_fact row) db;
          cid = (case existing of None \<Rightarrow> new_conflict_id | Some c \<Rightarrow> co_conflict_id c);
          new = \<lparr>co_conflict_id = cid, co_owner_id = mr_owner_id row, co_scope_type = mr_scope_type row,
            co_scope_key = mr_scope_key row, co_record_type = mr_record_type row,
            co_memory_key = mr_memory_key row, co_open = True, co_resolution_record_id = None,
            co_created_at = now, co_resolved_at = None\<rparr>;
          all_ids = dedup (mr_record_id row # conflicting)
      in and_then
        (if existing \<noteq> None then Inr db
         else if select co_conflict_id cid (md_conflicts db) = None
         then Inr (db\<lparr>md_conflicts := md_conflicts db @ [new]\<rparr>) else Inl SqlIntegrityError) (\<lambda>db1.
      and_then (update_records (\<lambda>r. mr_record_id r \<in> set all_ids \<and> active_status (mr_status r))
        (\<lambda>r. r\<lparr>mr_status := MST_CONFLICTED, mr_updated_at := now\<rparr>) db1) (\<lambda>db2.
      Inr (db2\<lparr>md_members := fold (add_member cid) all_ids (md_members db2)\<rparr>))))"

section \<open>Upsert\<close>

text \<open>The identifiers a transaction draws from \<open>uuid4\<close>.\<close>

record FreshIds =
  fi_record :: string
  fi_source :: string
  fi_conflict :: string

definition supersedes_ok :: "MemoryUpsertV1 \<Rightarrow> string \<Rightarrow> MemoryDb \<Rightarrow> bool" where
  "supersedes_ok r scope_key db \<longleftrightarrow>
     \<not> truthy (mu_supersedes_record_id r) \<or>
     (case select mr_record_id (the (mu_supersedes_record_id r)) (md_records db) of
        None \<Rightarrow> False
      | Some old \<Rightarrow>
          row_fact old = (mu_owner_id r, mu_scope r, scope_key, mu_record_type r, mu_subject r) \<and>
          mr_status old = MST_SUPERSEDED)"

text \<open>A new observation of a stored value; a stale record becomes a candidate again.\<close>

definition observed_row :: "MemoryUpsertV1 \<Rightarrow> MemoryStatus \<Rightarrow> int \<Rightarrow> MemoryRow \<Rightarrow> MemoryRow" where
  "observed_row r next_status now row =
     row\<lparr>mr_observed_at := instant (mo_observed_at (mu_source r)), mr_updated_at := now,
         mr_source_commit_sha := (case or_text (mu_project_commit_sha r) (mo_source_commit_sha (mu_source r)) of
           None \<Rightarrow> mr_source_commit_sha row | Some c \<Rightarrow> Some c),
         mr_status := next_status\<rparr>"

definition observe_existing ::
    "MemoryEnv \<Rightarrow> MemoryUpsertV1 \<Rightarrow> MemoryIdentity \<Rightarrow> MemoryRow \<Rightarrow> string \<Rightarrow> int \<Rightarrow> MemoryDb \<Rightarrow> MemoryDb memory_result" where
  "observe_existing env r ident existing source_id now db =
     and_then (guard (mr_status existing \<notin> {MST_DELETED, MST_REJECTED, MST_SUPERSEDED}) MemoryPolicyError) (\<lambda>_.
     and_then (add_source env (mr_record_id existing) (mu_source r) (mi_project ident) source_id db) (\<lambda>(added, db1).
     if \<not> added then Inr db1
     else let next_status = (if mr_status existing = MST_STALE then MST_CANDIDATE else mr_status existing)
       in and_then (update_records (\<lambda>row. mr_record_id row = mr_record_id existing)
           (observed_row r next_status now) db1) (\<lambda>db2.
         Inr (audit env (Some (mr_record_id existing)) (Some (mr_record_type existing)) (mi_scope_key ident)
           (mu_actor r) ''observe'' ''memory.provenance_added'' (Some (status_text (mr_status existing)))
           (Some (status_text next_status)) 1 now db2))))"

definition new_row :: "MemoryUpsertV1 \<Rightarrow> MemoryIdentity \<Rightarrow> string \<Rightarrow> int \<Rightarrow> MemoryRow" where
  "new_row r ident rid now =
     \<lparr>mr_record_id = rid, mr_schema_version = ''1.0'', mr_record_type = mu_record_type r,
      mr_owner_id = mu_owner_id r, mr_scope_type = mu_scope r, mr_scope_key = mi_scope_key ident,
      mr_project_realpath = mi_project ident, mr_task_id = mu_task_id r, mr_memory_key = mu_subject r,
      mr_value_json = mi_value_json ident, mr_value_hash = mi_value_hash ident,
      mr_dedupe_key = mi_dedupe_key ident, mr_status = mu_status r, mr_confidence = mu_confidence r,
      mr_sensitivity = mu_sensitivity r, mr_retention_class = mu_retention r,
      mr_expires_at = map_option instant (mu_expires_at r), mr_valid_from = map_option instant (mu_valid_from r),
      mr_valid_to = map_option instant (mu_valid_to r),
      mr_source_commit_sha = lower_text (or_text (mu_project_commit_sha r) (mo_source_commit_sha (mu_source r))),
      mr_author = mo_author (mu_source r), mr_producer = mo_producer (mu_source r),
      mr_supersedes = mu_supersedes_record_id r, mr_created_at = now,
      mr_observed_at = instant (mo_observed_at (mu_source r)), mr_updated_at = now,
      mr_deleted_at = None, mr_revision = 1\<rparr>"

text \<open>The active records of the same fact with another value.\<close>

definition conflicts_with :: "MemoryRow \<Rightarrow> MemoryDb \<Rightarrow> string list" where
  "conflicts_with row db =
     map mr_record_id (filter (\<lambda>r. row_fact r = row_fact row \<and> mr_value_hash r \<noteq> mr_value_hash row
        \<and> mr_record_id r \<noteq> mr_record_id row \<and> active_status (mr_status r)) (md_records db))"

definition create_record ::
    "MemoryEnv \<Rightarrow> MemoryUpsertV1 \<Rightarrow> MemoryIdentity \<Rightarrow> FreshIds \<Rightarrow> int \<Rightarrow> MemoryDb \<Rightarrow> MemoryDb memory_result" where
  "create_record env r ident ids now db =
     (let row = new_row r ident (fi_record ids) now in
      and_then (insert_record row db) (\<lambda>db1.
      and_then (add_source env (fi_record ids) (mu_source r) (mi_project ident) (fi_source ids) db1) (\<lambda>(_, db2).
      let conflicts = conflicts_with row db2 in
      and_then (if conflicts = [] then Inr db2 else open_conflict row conflicts (fi_conflict ids) now db2) (\<lambda>db3.
      Inr (audit env (Some (fi_record ids)) (Some (mu_record_type r)) (mi_scope_key ident) (mu_actor r) ''create''
        (if conflicts \<noteq> [] then ''memory.conflict_detected'' else ''memory.created'') None
        (Some (status_text (if conflicts \<noteq> [] then MST_CONFLICTED else mu_status r))) 1 now db3)))))"

definition upsert_in_transaction ::
    "MemoryEnv \<Rightarrow> bool \<Rightarrow> MemoryUpsertV1 \<Rightarrow> FreshIds \<Rightarrow> int \<Rightarrow> MemoryDb \<Rightarrow> (string \<times> bool \<times> MemoryDb) memory_result" where
  "upsert_in_transaction env trusted request ids now db =
     and_then (normalize_request env request) (\<lambda>r0.
     and_then (typed_request env r0) (\<lambda>r.
     and_then (guard (validate_initial_confirmation trusted r) MemoryPolicyError) (\<lambda>_.
     and_then (identity env r) (\<lambda>ident.
     and_then (guard (supersedes_ok r (mi_scope_key ident) db) MemoryPolicyError) (\<lambda>_.
     case select mr_dedupe_key (mi_dedupe_key ident) (md_records db) of
       Some existing \<Rightarrow>
         and_then (observe_existing env r ident existing (fi_source ids) now db) (\<lambda>db'.
         Inr (mr_record_id existing, False, db'))
     | None \<Rightarrow>
         and_then (create_record env r ident ids now db) (\<lambda>db'. Inr (fi_record ids, True, db')))))))"

definition select_owned :: "string \<Rightarrow> string \<Rightarrow> MemoryDb \<Rightarrow> MemoryRow option" where
  "select_owned rid owner db =
     (case select mr_record_id rid (md_records db) of
        None \<Rightarrow> None
      | Some r \<Rightarrow> if mr_owner_id r = owner then Some r else None)"

section \<open>Confirm, reject and delete\<close>

fun transition_allowed :: "MemoryStatus \<Rightarrow> MemoryStatus \<Rightarrow> bool" where
  "transition_allowed current MST_CONFIRMED \<longleftrightarrow> current \<in> {MST_CANDIDATE, MST_CONFLICTED, MST_CONFIRMED}"
| "transition_allowed current MST_REJECTED \<longleftrightarrow>
     current \<in> {MST_CANDIDATE, MST_CONFLICTED, MST_CONFIRMED, MST_REJECTED}"
| "transition_allowed current MST_DELETED \<longleftrightarrow> True"
| "transition_allowed current _ \<longleftrightarrow> False"

text \<open>The open conflict of a record, the other members of a conflict, and its resolution.\<close>

definition open_conflict_with :: "string \<Rightarrow> MemoryDb \<Rightarrow> ConflictRow option" where
  "open_conflict_with rid db =
     find (\<lambda>c. co_open c \<and> (co_conflict_id c, rid) \<in> set (md_members db)) (md_conflicts db)"

definition other_members :: "string \<Rightarrow> string \<Rightarrow> MemoryDb \<Rightarrow> string list" where
  "other_members cid rid db = map snd (filter (\<lambda>m. fst m = cid \<and> snd m \<noteq> rid) (md_members db))"

definition resolve_conflict :: "string \<Rightarrow> int \<Rightarrow> MemoryDb \<Rightarrow> (int \<times> MemoryDb) memory_result" where
  "resolve_conflict rid now db =
     (case open_conflict_with rid db of
        None \<Rightarrow> Inr (1, db)
      | Some c \<Rightarrow>
          let others = other_members (co_conflict_id c) rid db in
          and_then (update_records (\<lambda>r. mr_record_id r \<in> set others \<and> mr_status r = MST_CONFLICTED)
            (\<lambda>r. r\<lparr>mr_status := MST_REJECTED, mr_updated_at := now\<rparr>) db) (\<lambda>db1.
          Inr (1 + int (length others),
            db1\<lparr>md_conflicts := map (\<lambda>d. if co_conflict_id d = co_conflict_id c
                 then d\<lparr>co_open := False, co_resolution_record_id := Some rid, co_resolved_at := Some now\<rparr>
                 else d) (md_conflicts db1)\<rparr>)))"

definition transition_memory ::
    "MemoryEnv \<Rightarrow> string \<Rightarrow> string \<Rightarrow> string \<Rightarrow> MemoryStatus \<Rightarrow> string \<Rightarrow> int option \<Rightarrow> int \<Rightarrow> MemoryDb \<Rightarrow>
     MemoryDb memory_result" where
  "transition_memory env rid owner actor target reason expected_revision now db =
     and_then (or_fail MemoryNotFoundError (select_owned rid owner db)) (\<lambda>row.
     and_then (guard (case expected_revision of None \<Rightarrow> True | Some n \<Rightarrow> mr_revision row = n)
       MemoryRevisionError) (\<lambda>_.
     and_then (guard (transition_allowed (mr_status row) target) MemoryPolicyError) (\<lambda>_.
     and_then (guard (\<not> (target = MST_CONFIRMED \<and> model_producer actor)) MemoryPolicyError) (\<lambda>_.
     and_then (if target = MST_CONFIRMED \<and> mr_status row = MST_CONFLICTED
               then resolve_conflict rid now db else Inr (1, db)) (\<lambda>(affected, db1).
     and_then (update_records (\<lambda>r. mr_record_id r = rid)
       (\<lambda>r. r\<lparr>mr_status := target, mr_deleted_at := (if target = MST_DELETED then Some now else None),
          mr_updated_at := now\<rparr>) db1) (\<lambda>db2.
     Inr (audit env (Some rid) (Some (mr_record_type row)) (mr_scope_key row) actor (status_text target) reason
       (Some (status_text (mr_status row))) (Some (status_text target)) affected now db2)))))))"

definition confirm_memory ::
    "MemoryEnv \<Rightarrow> string \<Rightarrow> string \<Rightarrow> string \<Rightarrow> int option \<Rightarrow> int \<Rightarrow> MemoryDb \<Rightarrow> MemoryDb memory_result" where
  "confirm_memory env rid owner actor expected_revision now db =
     transition_memory env rid owner actor MST_CONFIRMED ''memory.user_confirmed'' expected_revision now db"

definition reject_memory ::
    "MemoryEnv \<Rightarrow> string \<Rightarrow> string \<Rightarrow> string \<Rightarrow> int option \<Rightarrow> int \<Rightarrow> MemoryDb \<Rightarrow> MemoryDb memory_result" where
  "reject_memory env rid owner actor expected_revision now db =
     transition_memory env rid owner actor MST_REJECTED ''memory.user_rejected'' expected_revision now db"

definition soft_delete_memory ::
    "MemoryEnv \<Rightarrow> string \<Rightarrow> string \<Rightarrow> string \<Rightarrow> int \<Rightarrow> MemoryDb \<Rightarrow> MemoryDb memory_result" where
  "soft_delete_memory env rid owner actor now db =
     transition_memory env rid owner actor MST_DELETED ''memory.user_deleted'' None now db"

section \<open>Supersede\<close>

text \<open>The request that \<open>supersede\<close> builds from the old row; the probe leaves out the last fields.\<close>

definition supersede_request ::
    "MemoryRow \<Rightarrow> json \<Rightarrow> MemorySourceV1 \<Rightarrow> string \<Rightarrow> string \<Rightarrow> MemoryStatus \<Rightarrow> MemoryUpsertV1" where
  "supersede_request old v source owner actor status =
     \<lparr>mu_record_type = mr_record_type old, mu_scope = mr_scope_type old, mu_subject = mr_memory_key old,
      mu_value = v, mu_source = source, mu_owner_id = owner, mu_project_path = mr_project_realpath old,
      mu_task_id = mr_task_id old, mu_status = status, mu_confidence = mr_confidence old,
      mu_valid_from = None, mu_valid_to = None, mu_project_commit_sha = mr_source_commit_sha old,
      mu_supersedes_record_id = Some (mr_record_id old), mu_sensitivity = mr_sensitivity old,
      mu_retention = mr_retention_class old,
      mu_expires_at = map_option (\<lambda>t. Aware t 0) (mr_expires_at old), mu_actor = actor\<rparr>"

definition supersede_probe :: "MemoryRow \<Rightarrow> json \<Rightarrow> MemorySourceV1 \<Rightarrow> string \<Rightarrow> string \<Rightarrow> MemoryUpsertV1" where
  "supersede_probe old v source owner actor =
     (supersede_request old v source owner actor MST_CANDIDATE)
       \<lparr>mu_confidence := 1 / 2, mu_project_commit_sha := None, mu_supersedes_record_id := None\<rparr>"

definition supersede_memory ::
    "MemoryEnv \<Rightarrow> string \<Rightarrow> json \<Rightarrow> MemorySourceV1 \<Rightarrow> string \<Rightarrow> string \<Rightarrow> MemoryStatus \<Rightarrow> FreshIds \<Rightarrow> int \<Rightarrow>
     MemoryDb \<Rightarrow> (string \<times> MemoryDb) memory_result" where
  "supersede_memory env rid v source owner actor status ids now db =
     and_then (or_fail MemoryNotFoundError (case select_owned rid owner db of
         Some r \<Rightarrow> if mr_status r = MST_DELETED then None else Some r | None \<Rightarrow> None)) (\<lambda>old.
     and_then (or_fail MemoryValidationError (validate_MemoryUpsertV1 (supersede_probe old v source owner actor)))
       (\<lambda>probe0.
     and_then (normalize_request env probe0) (\<lambda>probe.
     and_then (guard (mv_sha256 env (mv_canonical_json env (mu_value probe)) \<noteq> mr_value_hash old)
       MemoryPolicyError) (\<lambda>_.
     and_then (or_fail MemoryValidationError
       (validate_MemoryUpsertV1 (supersede_request old v source owner actor status))) (\<lambda>request.
     and_then (update_records (\<lambda>r. mr_record_id r = rid)
       (\<lambda>r. r\<lparr>mr_status := MST_SUPERSEDED, mr_valid_to := Some now, mr_updated_at := now\<rparr>) db) (\<lambda>db1.
     and_then (upsert_in_transaction env False request ids now db1) (\<lambda>(new_id, _, db2).
     Inr (new_id, audit env (Some rid) (Some (mr_record_type old)) (mr_scope_key old) actor ''supersede''
       ''memory.explicit_supersede'' (Some (status_text (mr_status old))) (Some (status_text MST_SUPERSEDED))
       1 now db2))))))))"

section \<open>Purges\<close>

definition hard_purge ::
    "MemoryEnv \<Rightarrow> string \<Rightarrow> string \<Rightarrow> string \<Rightarrow> string \<Rightarrow> int \<Rightarrow> MemoryDb \<Rightarrow> MemoryDb memory_result" where
  "hard_purge env rid confirmed owner actor now db =
     and_then (guard (confirmed = rid) MemoryPolicyError) (\<lambda>_.
     and_then (or_fail MemoryNotFoundError (select_owned rid owner db)) (\<lambda>row.
     Inr (audit env (Some rid) (Some (mr_record_type row)) (mr_scope_key row) actor ''purge''
       ''memory.explicit_hard_purge'' (Some (status_text (mr_status row))) None 1 now
       (delete_empty_conflicts (delete_records (\<lambda>i. i = rid) db)))))"

text \<open>A source that \<open>hard_purge_source\<close> removes (\<open>LIKE\<close> ignores the case of ASCII letters).\<close>

definition ascii_lower :: "string \<Rightarrow> string" where
  "ascii_lower s = map (\<lambda>c. if is_upper_char c then char_of (code_of c + 32) else c) s"

definition purged_source :: "string \<Rightarrow> SourceRow \<Rightarrow> bool" where
  "purged_source uri s \<longleftrightarrow>
     sr_source_uri s = Some uri \<and>
     (let low = ascii_lower (sr_source_type s); pat = ''knowledge_candidate''
      in length pat \<le> length low \<and> take 9 low = take 9 pat \<and> take 9 (drop 10 low) = drop 10 pat)"

definition purge_one :: "MemoryEnv \<Rightarrow> string \<Rightarrow> string \<Rightarrow> int \<Rightarrow> MemoryRow \<Rightarrow> MemoryDb \<Rightarrow> MemoryDb" where
  "purge_one env uri actor now row db =
     (let rid = mr_record_id row;
          db1 = db\<lparr>md_sources := filter (\<lambda>s. \<not> (sr_record_id s = rid \<and> purged_source uri s)) (md_sources db)\<rparr>;
          gone = (\<not> list_ex (\<lambda>s. sr_record_id s = rid) (md_sources db1));
          db2 = (if gone then delete_records (\<lambda>i. i = rid) db1 else db1)
      in audit env (Some rid) (Some (mr_record_type row)) (mr_scope_key row) actor ''purge_source''
           ''memory.knowledge_source_purged'' (Some (status_text (mr_status row)))
           (if gone then None else Some (status_text (mr_status row))) 1 now db2)"

definition hard_purge_source ::
    "MemoryEnv \<Rightarrow> string \<Rightarrow> string \<Rightarrow> string \<Rightarrow> string \<Rightarrow> string \<Rightarrow> int \<Rightarrow> MemoryDb \<Rightarrow> MemoryDb memory_result" where
  "hard_purge_source env uri confirmed project_path owner actor now db =
     and_then (guard (confirmed = uri) MemoryPolicyError) (\<lambda>_.
     and_then (or_fail MemoryPolicyError (mv_project_path env (Some project_path))) (\<lambda>project.
     let rows = filter (\<lambda>r. mr_owner_id r = owner \<and> mr_project_realpath r = Some project \<and>
           list_ex (\<lambda>s. sr_record_id s = mr_record_id r \<and> purged_source uri s) (md_sources db)) (md_records db)
     in Inr (delete_empty_conflicts (fold (purge_one env uri actor now) rows db))))"

section \<open>Retention and invalidation\<close>

text \<open>The records that become stale are counted; an audit entry is written when there is one.\<close>

definition make_stale ::
    "MemoryEnv \<Rightarrow> (MemoryRow \<Rightarrow> bool) \<Rightarrow> MemoryRecordType option \<Rightarrow> string \<Rightarrow> string \<Rightarrow> string \<Rightarrow> string \<Rightarrow> int \<Rightarrow>
     MemoryDb \<Rightarrow> (nat \<times> MemoryDb) memory_result" where
  "make_stale env p rtype scope_key actor action reason now db =
     (let n = length (filter p (md_records db)) in
      if n = 0 then Inr (0, db)
      else and_then (update_records p (\<lambda>r. r\<lparr>mr_status := MST_STALE, mr_updated_at := now\<rparr>) db) (\<lambda>db1.
        Inr (n, audit env None rtype scope_key actor action reason (Some ''active'')
          (Some (status_text MST_STALE)) (int n) now db1)))"

definition sweep_retention :: "MemoryEnv \<Rightarrow> string \<Rightarrow> int \<Rightarrow> MemoryDb \<Rightarrow> (nat \<times> MemoryDb) memory_result" where
  "sweep_retention env actor now db =
     make_stale env (\<lambda>r. mr_retention_class r = MR_TTL \<and>
         (case mr_expires_at r of None \<Rightarrow> False | Some t \<Rightarrow> t \<le> now) \<and> active_status (mr_status r))
       None ''retention-sweep'' actor ''retention'' ''memory.ttl_expired'' now db"

text \<open>SQL's \<open>lower\<close> maps the ASCII letters only.\<close>

definition commit_observed :: "string \<Rightarrow> string \<Rightarrow> MemoryDb \<Rightarrow> bool" where
  "commit_observed rid commit db \<longleftrightarrow>
     list_ex (\<lambda>s. sr_record_id s = rid \<and> map_option ascii_lower (sr_source_commit_sha s) = Some (ascii_lower commit))
       (md_sources db)"

definition invalidate_project_commit ::
    "MemoryEnv \<Rightarrow> string \<Rightarrow> string \<Rightarrow> string \<Rightarrow> string \<Rightarrow> int \<Rightarrow> MemoryDb \<Rightarrow> (nat \<times> MemoryDb) memory_result" where
  "invalidate_project_commit env project_path commit owner actor now db =
     (let project = mv_project_path env (Some project_path) in
      make_stale env (\<lambda>r. mr_owner_id r = owner \<and> project \<noteq> None \<and> mr_project_realpath r = project \<and>
          (case mr_source_commit_sha r of None \<Rightarrow> False | Some c \<Rightarrow> ascii_lower c \<noteq> ascii_lower commit) \<and>
          \<not> commit_observed (mr_record_id r) commit db \<and> active_status (mr_status r))
        (Some MT_PROJECT_KNOWLEDGE)
        (''project:'' @ (case project of None \<Rightarrow> ''None'' | Some t \<Rightarrow> t)) actor ''invalidate''
        ''memory.commit_changed'' now db)"

definition source_changed :: "string option \<Rightarrow> int option \<Rightarrow> SourceRow \<Rightarrow> bool" where
  "source_changed current_hash current_mtime s \<longleftrightarrow>
     (case (current_hash, sr_source_hash s) of
        (Some a, Some b) \<Rightarrow> ascii_lower b \<noteq> ascii_lower a | _ \<Rightarrow> False) \<or>
     (case (current_mtime, sr_source_mtime_ns s) of (Some a, Some b) \<Rightarrow> b \<noteq> a | _ \<Rightarrow> False)"

definition invalidate_source ::
    "MemoryEnv \<Rightarrow> string \<Rightarrow> string option \<Rightarrow> int option \<Rightarrow> string option \<Rightarrow> string \<Rightarrow> string \<Rightarrow> int \<Rightarrow> MemoryDb \<Rightarrow>
     (nat \<times> MemoryDb) memory_result" where
  "invalidate_source env uri current_hash current_mtime project_path owner actor now db =
     (let project = (if project_path \<noteq> None then mv_project_path env project_path else None) in
      make_stale env (\<lambda>r. mr_owner_id r = owner \<and> (project = None \<or> mr_project_realpath r = project) \<and>
          active_status (mr_status r) \<and>
          list_ex (\<lambda>s. sr_record_id s = mr_record_id r \<and> sr_source_uri s = Some uri \<and>
            source_changed current_hash current_mtime s) (md_sources db))
        None ''source-invalidation'' actor ''invalidate'' ''memory.source_changed'' now db)"

end
