(* ===== verification/MemoryStoreInvariant.thy ===== *)
theory MemoryStoreInvariant
  imports MemoryStore
begin

text \<open>
  The operations of the memory store as one datatype, how a row evolves under them, and the
  invariant of the conflict tables.
\<close>

section \<open>Operations\<close>

datatype MemoryOp =
    OpUpsert bool MemoryUpsertV1 FreshIds int
  | OpConfirm string string string "int option" int
  | OpReject string string string "int option" int
  | OpSoftDelete string string string int
  | OpSupersede string json MemorySourceV1 string string MemoryStatus FreshIds int
  | OpHardPurge string string string string int
  | OpPurgeSource string string string string string int
  | OpSweep string int
  | OpInvalidateCommit string string string string int
  | OpInvalidateSource string "string option" "int option" "string option" string string int

text \<open>The transaction of an operation: the database it commits, or the error it raises.\<close>

fun apply_memory_op :: "MemoryEnv \<Rightarrow> MemoryOp \<Rightarrow> MemoryDb \<Rightarrow> MemoryDb memory_result" where
  "apply_memory_op env (OpUpsert trusted r ids now) db =
     and_then (upsert_in_transaction env trusted r ids now db) (\<lambda>(_, _, db'). Inr db')"
| "apply_memory_op env (OpConfirm rid owner actor expected now) db = confirm_memory env rid owner actor expected now db"
| "apply_memory_op env (OpReject rid owner actor expected now) db = reject_memory env rid owner actor expected now db"
| "apply_memory_op env (OpSoftDelete rid owner actor now) db = soft_delete_memory env rid owner actor now db"
| "apply_memory_op env (OpSupersede rid v source owner actor status ids now) db =
     and_then (supersede_memory env rid v source owner actor status ids now db) (\<lambda>(_, db'). Inr db')"
| "apply_memory_op env (OpHardPurge rid confirmed owner actor now) db =
     hard_purge env rid confirmed owner actor now db"
| "apply_memory_op env (OpPurgeSource uri confirmed project owner actor now) db =
     hard_purge_source env uri confirmed project owner actor now db"
| "apply_memory_op env (OpSweep actor now) db = and_then (sweep_retention env actor now db) (\<lambda>(_, db'). Inr db')"
| "apply_memory_op env (OpInvalidateCommit project commit owner actor now) db =
     and_then (invalidate_project_commit env project commit owner actor now db) (\<lambda>(_, db'). Inr db')"
| "apply_memory_op env (OpInvalidateSource uri h m project owner actor now) db =
     and_then (invalidate_source env uri h m project owner actor now db) (\<lambda>(_, db'). Inr db')"

section \<open>How a row evolves\<close>

text \<open>The columns no operation writes again.\<close>

definition identity_of where
  "identity_of r =
     ((mr_record_id r, mr_schema_version r, row_fact r, mr_project_realpath r, mr_task_id r),
      (mr_value_json r, mr_value_hash r, mr_dedupe_key r, mr_confidence r, mr_sensitivity r),
      (mr_retention_class r, mr_expires_at r, mr_valid_from r, mr_author r, mr_producer r, mr_created_at r))"

definition inactive_status :: "MemoryStatus \<Rightarrow> bool" where
  "inactive_status s \<longleftrightarrow> s \<in> {MST_REJECTED, MST_SUPERSEDED, MST_DELETED}"

text \<open>
  From a row to a later version of it: the identity stays, the revision grows with every change
  except the loss of the predecessor, and a terminal status is never left for another kind.
\<close>

definition evolves :: "MemoryRow \<Rightarrow> MemoryRow \<Rightarrow> bool" where
  "evolves r r' \<longleftrightarrow>
     identity_of r' = identity_of r \<and> mr_revision r \<le> mr_revision r' \<and>
     (mr_revision r' = mr_revision r \<longrightarrow> r'\<lparr>mr_supersedes := mr_supersedes r\<rparr> = r) \<and>
     (inactive_status (mr_status r) \<longrightarrow> inactive_status (mr_status r')) \<and>
     (mr_status r = MST_DELETED \<longrightarrow> mr_status r' = MST_DELETED)"

lemma evolves_refl [simp]: "evolves r r"
  by (simp add: evolves_def)

lemma evolves_trans: "evolves a b \<Longrightarrow> evolves b c \<Longrightarrow> evolves a c"
proof -
  assume ab: "evolves a b" and bc: "evolves b c"
  have "c\<lparr>mr_supersedes := mr_supersedes a\<rparr> = a" if "mr_revision c = mr_revision a"
  proof -
    from that ab bc have "mr_revision b = mr_revision a" "mr_revision c = mr_revision b"
      by (auto simp: evolves_def)
    with ab bc have "b\<lparr>mr_supersedes := mr_supersedes a\<rparr> = a" "c\<lparr>mr_supersedes := mr_supersedes b\<rparr> = b"
      by (auto simp: evolves_def)
    then have "c\<lparr>mr_supersedes := mr_supersedes b\<rparr>\<lparr>mr_supersedes := mr_supersedes a\<rparr> = a" by simp
    then show ?thesis by simp
  qed
  with ab bc show ?thesis by (auto simp: evolves_def)
qed

lemma evolves_id: "evolves r r' \<Longrightarrow> mr_record_id r' = mr_record_id r"
  by (simp add: evolves_def identity_of_def)

text \<open>From a database to a later one: every row is new or a later version of a row.\<close>

definition db_evolves :: "MemoryDb \<Rightarrow> MemoryDb \<Rightarrow> bool" where
  "db_evolves db db' \<longleftrightarrow>
     (\<forall>r' \<in> set (md_records db').
        (\<exists>r \<in> set (md_records db). evolves r r') \<or> mr_record_id r' \<notin> mr_record_id ` set (md_records db)) \<and>
     mr_record_id ` set (md_records db) \<subseteq> mr_record_id ` set (md_records db')"

lemma db_evolves_refl: "md_records db' = md_records db \<Longrightarrow> db_evolves db db'"
  unfolding db_evolves_def by (auto intro: evolves_refl)

lemma db_evolves_trans:
  assumes "db_evolves a b" "db_evolves b c"
  shows "db_evolves a c"
  unfolding db_evolves_def
proof (intro conjI ballI)
  fix r' assume r': "r' \<in> set (md_records c)"
  show "(\<exists>r \<in> set (md_records a). evolves r r') \<or> mr_record_id r' \<notin> mr_record_id ` set (md_records a)"
  proof (cases "mr_record_id r' \<in> mr_record_id ` set (md_records b)")
    case True
    with r' assms(2) obtain s where s: "s \<in> set (md_records b)" "evolves s r'"
      unfolding db_evolves_def by blast
    with assms(1) show ?thesis
      unfolding db_evolves_def by (metis evolves_trans evolves_id)
  next
    case False
    with assms(1) show ?thesis unfolding db_evolves_def by blast
  qed
next
  show "mr_record_id ` set (md_records a) \<subseteq> mr_record_id ` set (md_records c)"
    using assms unfolding db_evolves_def by (meson order_trans)
qed

lemma db_evolves_map:
  assumes "md_records db' = map g (md_records db)" "\<And>r. r \<in> set (md_records db) \<Longrightarrow> evolves r (g r)"
  shows "db_evolves db db'"
  using assms unfolding db_evolves_def by (auto simp: image_iff) (metis evolves_id)+

lemma identity_update [simp]:
  "identity_of (r\<lparr>mr_status := a\<rparr>) = identity_of r"
  "identity_of (r\<lparr>mr_updated_at := b\<rparr>) = identity_of r"
  "identity_of (r\<lparr>mr_observed_at := b\<rparr>) = identity_of r"
  "identity_of (r\<lparr>mr_source_commit_sha := c\<rparr>) = identity_of r"
  "identity_of (r\<lparr>mr_deleted_at := d\<rparr>) = identity_of r"
  "identity_of (r\<lparr>mr_valid_to := d\<rparr>) = identity_of r"
  "identity_of (r\<lparr>mr_supersedes := e\<rparr>) = identity_of r"
  "identity_of (r\<lparr>mr_revision := n\<rparr>) = identity_of r"
  by (simp_all add: identity_of_def row_fact_def)

section \<open>Effects of the parts\<close>

lemma update_records_effect:
  assumes "update_records p f db = Inr db'"
  shows "db' = db\<lparr>md_records := map (\<lambda>r. if p r then (f r)\<lparr>mr_revision := mr_revision r + 1\<rparr> else r) (md_records db)\<rparr>"
    and "\<And>r. r \<in> set (md_records db) \<Longrightarrow> p r \<Longrightarrow> record_checks ((f r)\<lparr>mr_revision := mr_revision r + 1\<rparr>)"
  using assms by (auto simp: update_records_def Let_def list_all_iff split: if_splits)

lemma update_records_others:
  assumes "update_records p f db = Inr db'"
  shows "md_conflicts db' = md_conflicts db" "md_members db' = md_members db"
    "md_sources db' = md_sources db" "md_audit db' = md_audit db"
  using update_records_effect(1)[OF assms] by simp_all

lemma update_records_evolves:
  assumes "update_records p f db = Inr db'"
    "\<And>r. r \<in> set (md_records db) \<Longrightarrow> p r \<Longrightarrow> identity_of (f r) = identity_of r \<and>
       (inactive_status (mr_status r) \<longrightarrow> inactive_status (mr_status (f r))) \<and>
       (mr_status r = MST_DELETED \<longrightarrow> mr_status (f r) = MST_DELETED)"
  shows "db_evolves db db'"
  by (rule db_evolves_map[where g = "\<lambda>r. if p r then (f r)\<lparr>mr_revision := mr_revision r + 1\<rparr> else r"])
     (use assms(2) in \<open>auto simp: update_records_effect(1)[OF assms(1)] evolves_def\<close>)

lemma add_source_effect:
  "add_source env rid source project sid db = Inr (added, db') \<Longrightarrow>
     md_records db' = md_records db \<and> md_conflicts db' = md_conflicts db \<and>
     md_members db' = md_members db \<and> md_audit db' = md_audit db \<and>
     (\<forall>s \<in> set (md_sources db'). s \<in> set (md_sources db) \<or> sr_record_id s = rid)"
  by (auto simp: add_source_def Let_def split: if_splits option.splits)

lemma audit_effect [simp]:
  "md_records (audit env i t k a b c d e n now db) = md_records db"
  "md_sources (audit env i t k a b c d e n now db) = md_sources db"
  "md_conflicts (audit env i t k a b c d e n now db) = md_conflicts db"
  "md_members (audit env i t k a b c d e n now db) = md_members db"
  by (simp_all add: audit_def)

lemma insert_record_effect:
  "insert_record row db = Inr db' \<Longrightarrow>
     db' = db\<lparr>md_records := md_records db @ [row]\<rparr> \<and> record_checks row \<and>
     mr_record_id row \<notin> mr_record_id ` set (md_records db) \<and>
     mr_dedupe_key row \<notin> mr_dedupe_key ` set (md_records db)"
  by (auto simp: insert_record_def select_None split: if_splits)

lemma make_stale_effect:
  assumes "make_stale env p t k a b c now db = Inr (n, db')"
  shows "db' = db \<or> (\<exists>db1. update_records p (\<lambda>r. r\<lparr>mr_status := MST_STALE, mr_updated_at := now\<rparr>) db = Inr db1 \<and>
    md_records db' = md_records db1 \<and> md_conflicts db' = md_conflicts db \<and> md_members db' = md_members db
    \<and> md_sources db' = md_sources db)"
proof (cases "filter p (md_records db) = []")
  case True
  with assms show ?thesis by (simp add: make_stale_def)
next
  case False
  with assms obtain db1 where "update_records p (\<lambda>r. r\<lparr>mr_status := MST_STALE, mr_updated_at := now\<rparr>) db = Inr db1"
    "md_records db' = md_records db1" "md_conflicts db' = md_conflicts db1" "md_members db' = md_members db1"
    "md_sources db' = md_sources db1"
    by (auto simp: make_stale_def Let_def)
  with update_records_others[OF this(1)] show ?thesis by metis
qed

lemma make_stale_evolves:
  assumes "make_stale env p t k a b c now db = Inr (n, db')" "\<forall>r. p r \<longrightarrow> active_status (mr_status r)"
  shows "db_evolves db db'"
proof -
  from make_stale_effect[OF assms(1)] consider "db' = db"
    | db1 where "update_records p (\<lambda>r. r\<lparr>mr_status := MST_STALE, mr_updated_at := now\<rparr>) db = Inr db1"
      "md_records db' = md_records db1" by blast
  then show ?thesis
  proof cases
    case 1
    then show ?thesis by (simp add: db_evolves_refl)
  next
    case 2
    have "db_evolves db db1"
      by (rule update_records_evolves[OF 2(1)])
         (use assms(2) in \<open>auto simp: active_status_def inactive_status_def\<close>)
    with 2(2) show ?thesis by (simp add: db_evolves_def)
  qed
qed

section \<open>Every operation evolves the database\<close>

definition conflicted_row :: "string list \<Rightarrow> int \<Rightarrow> MemoryRow \<Rightarrow> MemoryRow" where
  "conflicted_row ids now r =
     (if mr_record_id r \<in> set ids \<and> active_status (mr_status r)
      then r\<lparr>mr_status := MST_CONFLICTED, mr_updated_at := now, mr_revision := mr_revision r + 1\<rparr> else r)"

lemma open_conflict_effect:
  assumes "open_conflict row ids new_id now db = Inr db'"
  obtains cid where
    "md_records db' = map (conflicted_row (mr_record_id row # ids) now) (md_records db)"
    "md_members db' = fold (add_member cid) (dedup (mr_record_id row # ids)) (md_members db)"
    "(\<exists>c. open_conflict_of (row_fact row) db = Some c \<and> cid = co_conflict_id c \<and> md_conflicts db' = md_conflicts db) \<or>
     (\<exists>c. open_conflict_of (row_fact row) db = None \<and> cid = co_conflict_id c \<and> co_open c \<and>
        conflict_fact c = row_fact row \<and> cid \<notin> co_conflict_id ` set (md_conflicts db) \<and>
        md_conflicts db' = md_conflicts db @ [c])"
    "md_sources db' = md_sources db"
proof -
  define cid where "cid = (case open_conflict_of (row_fact row) db of None \<Rightarrow> new_id | Some c \<Rightarrow> co_conflict_id c)"
  define new where "new = \<lparr>co_conflict_id = cid, co_owner_id = mr_owner_id row, co_scope_type = mr_scope_type row,
            co_scope_key = mr_scope_key row, co_record_type = mr_record_type row,
            co_memory_key = mr_memory_key row, co_open = True, co_resolution_record_id = None,
            co_created_at = now, co_resolved_at = None\<rparr>"
  define all_ids where "all_ids = dedup (mr_record_id row # ids)"
  have ids: "set all_ids = set (mr_record_id row # ids)" unfolding all_ids_def by (rule set_dedup)
  from assms obtain db1 db2 where
    db1: "(if open_conflict_of (row_fact row) db \<noteq> None then Inr db
         else if select co_conflict_id cid (md_conflicts db) = None
         then Inr (db\<lparr>md_conflicts := md_conflicts db @ [new]\<rparr>) else Inl SqlIntegrityError) = Inr db1"
    and db2: "update_records (\<lambda>r. mr_record_id r \<in> set all_ids \<and> active_status (mr_status r))
        (\<lambda>r. r\<lparr>mr_status := MST_CONFLICTED, mr_updated_at := now\<rparr>) db1 = Inr db2"
    and db': "db' = db2\<lparr>md_members := fold (add_member cid) all_ids (md_members db2)\<rparr>"
    unfolding open_conflict_def Let_def and_then_Inr cid_def new_def all_ids_def by blast
  note db2' = update_records_effect(1)[OF db2] update_records_others[OF db2]
  have same: "md_records db1 = md_records db" "md_members db1 = md_members db" "md_sources db1 = md_sources db"
    using db1 by (auto split: if_splits)
  have "(\<exists>c. open_conflict_of (row_fact row) db = Some c \<and> cid = co_conflict_id c \<and> md_conflicts db' = md_conflicts db) \<or>
     (\<exists>c. open_conflict_of (row_fact row) db = None \<and> cid = co_conflict_id c \<and> co_open c \<and>
        conflict_fact c = row_fact row \<and> cid \<notin> co_conflict_id ` set (md_conflicts db) \<and>
        md_conflicts db' = md_conflicts db @ [c])"
  proof (cases "open_conflict_of (row_fact row) db")
    case None
    with db1 db' db2' have "md_conflicts db' = md_conflicts db @ [new]" "select co_conflict_id cid (md_conflicts db) = None"
      by (auto split: if_splits)
    moreover have "conflict_fact new = row_fact row" "co_open new" "co_conflict_id new = cid"
      by (simp_all add: new_def conflict_fact_def row_fact_def)
    ultimately show ?thesis using None by (metis select_None)
  next
    case (Some c)
    with db1 db' db2' show ?thesis by (simp add: cid_def)
  qed
  moreover have "md_records db' = map (conflicted_row (mr_record_id row # ids) now) (md_records db)"
    unfolding db' db2'(1) ids by (simp add: same conflicted_row_def fun_eq_iff)
  moreover have "md_members db' = fold (add_member cid) (dedup (mr_record_id row # ids)) (md_members db)"
    unfolding db' by (simp add: same db2'(3) all_ids_def[symmetric] del: dedup.simps)
  moreover have "md_sources db' = md_sources db" unfolding db' by (simp add: same db2')
  ultimately show thesis by (metis that)
qed

lemma conflicted_row_evolves: "evolves r (conflicted_row ids now r)"
  by (auto simp: conflicted_row_def evolves_def active_status_def inactive_status_def)

lemma open_conflict_evolves:
  assumes "open_conflict row ids cid now db = Inr db'"
  shows "db_evolves db db'"
  using open_conflict_effect[OF assms] by (metis db_evolves_map conflicted_row_evolves)

lemma create_record_effect:
  assumes "create_record env r ident ids now db = Inr db'"
  obtains db1 db2 db3 added where
    "insert_record (new_row r ident (fi_record ids) now) db = Inr db1"
    "add_source env (fi_record ids) (mu_source r) (mi_project ident) (fi_source ids) db1 = Inr (added, db2)"
    "(if conflicts_with (new_row r ident (fi_record ids) now) db2 = [] then Inr db2
      else open_conflict (new_row r ident (fi_record ids) now)
        (conflicts_with (new_row r ident (fi_record ids) now) db2) (fi_conflict ids) now db2) = Inr db3"
    "md_records db' = md_records db3" "md_members db' = md_members db3" "md_conflicts db' = md_conflicts db3"
    "md_sources db' = md_sources db3"
proof -
  from assms obtain db1 p db3 where
    1: "insert_record (new_row r ident (fi_record ids) now) db = Inr db1"
    and 2: "add_source env (fi_record ids) (mu_source r) (mi_project ident) (fi_source ids) db1 = Inr p"
    and 3: "(if conflicts_with (new_row r ident (fi_record ids) now) (snd p) = [] then Inr (snd p)
      else open_conflict (new_row r ident (fi_record ids) now)
        (conflicts_with (new_row r ident (fi_record ids) now) (snd p)) (fi_conflict ids) now (snd p)) = Inr db3"
    and 4: "\<exists>a b c d e f g h i j. db' = audit env a b c d e f g h i j db3"
    unfolding create_record_def Let_def and_then_Inr case_prod_beta by (metis Inr_inject)
  from 4 have "md_records db' = md_records db3" "md_members db' = md_members db3"
    "md_conflicts db' = md_conflicts db3" "md_sources db' = md_sources db3" by auto
  with 1 2 3 that[of db1 "fst p" "snd p" db3] show thesis by simp
qed

lemma create_record_evolves:
  assumes "create_record env r ident ids now db = Inr db'"
  shows "db_evolves db db'"
proof -
  obtain db1 db2 db3 added where
    ins: "insert_record (new_row r ident (fi_record ids) now) db = Inr db1"
    and src: "add_source env (fi_record ids) (mu_source r) (mi_project ident) (fi_source ids) db1 = Inr (added, db2)"
    and conf: "(if conflicts_with (new_row r ident (fi_record ids) now) db2 = [] then Inr db2
      else open_conflict (new_row r ident (fi_record ids) now)
        (conflicts_with (new_row r ident (fi_record ids) now) db2) (fi_conflict ids) now db2) = Inr db3"
    and db': "md_records db' = md_records db3"
    using create_record_effect[OF assms] by metis
  from insert_record_effect[OF ins] have "db_evolves db db1"
    unfolding db_evolves_def by (auto intro: evolves_refl)
  moreover have "db_evolves db1 db2" using add_source_effect[OF src] by (simp add: db_evolves_refl)
  moreover have "db_evolves db2 db3"
    using conf open_conflict_evolves by (auto intro: db_evolves_refl split: if_splits)
  moreover have "db_evolves db3 db'" using db' by (simp add: db_evolves_refl)
  ultimately show ?thesis by (meson db_evolves_trans)
qed

lemma observed_row_simps [simp]:
  "identity_of (observed_row r st now row) = identity_of row"
  "mr_status (observed_row r st now row) = st"
  "mr_record_id (observed_row r st now row) = mr_record_id row"
  "mr_revision (observed_row r st now row) = mr_revision row"
  "row_fact (observed_row r st now row) = row_fact row"
  by (simp_all add: observed_row_def row_fact_def)

lemma observe_existing_effect:
  assumes "observe_existing env r ident existing sid now db = Inr db'"
  obtains added db1 where
    "\<not> inactive_status (mr_status existing)"
    "add_source env (mr_record_id existing) (mu_source r) (mi_project ident) sid db = Inr (added, db1)"
    "\<not> added \<Longrightarrow> db' = db1"
    "added \<Longrightarrow> \<exists>db2. update_records (\<lambda>row. mr_record_id row = mr_record_id existing)
       (observed_row r (if mr_status existing = MST_STALE then MST_CANDIDATE else mr_status existing) now) db1 = Inr db2 \<and>
       md_records db' = md_records db2 \<and> md_conflicts db' = md_conflicts db2 \<and> md_members db' = md_members db2 \<and>
       md_sources db' = md_sources db2"
proof -
  from assms obtain p where
    1: "mr_status existing \<notin> {MST_DELETED, MST_REJECTED, MST_SUPERSEDED}"
    and 2: "add_source env (mr_record_id existing) (mu_source r) (mi_project ident) sid db = Inr p"
    and 3: "(if \<not> fst p then Inr (snd p)
      else and_then (update_records (\<lambda>row. mr_record_id row = mr_record_id existing)
          (observed_row r (if mr_status existing = MST_STALE then MST_CANDIDATE else mr_status existing) now) (snd p))
        (\<lambda>db2. Inr (audit env (Some (mr_record_id existing)) (Some (mr_record_type existing)) (mi_scope_key ident)
           (mu_actor r) ''observe'' ''memory.provenance_added'' (Some (status_text (mr_status existing)))
           (Some (status_text (if mr_status existing = MST_STALE then MST_CANDIDATE else mr_status existing))) 1 now db2)))
      = Inr db'"
    unfolding observe_existing_def Let_def and_then_Inr case_prod_beta guard_Inr by blast
  have no: "db' = snd p" if "\<not> fst p" using 3 that by simp
  have yes: "\<exists>db2. update_records (\<lambda>row. mr_record_id row = mr_record_id existing)
       (observed_row r (if mr_status existing = MST_STALE then MST_CANDIDATE else mr_status existing) now) (snd p) = Inr db2 \<and>
       md_records db' = md_records db2 \<and> md_conflicts db' = md_conflicts db2 \<and> md_members db' = md_members db2 \<and>
       md_sources db' = md_sources db2" if "fst p"
    using 3 that by (simp only: if_False not_True_eq_False and_then_Inr) auto
  show thesis
    by (rule that[of "fst p" "snd p"]) (use 1 2 no yes in \<open>auto simp: inactive_status_def\<close>)
qed

lemma select_only:
  "select key k rows = Some x \<Longrightarrow> unique_keys key' rows \<Longrightarrow> r \<in> set rows \<Longrightarrow> key' r = key' x \<Longrightarrow> r = x"
proof -
  assume x: "select key k rows = Some x" and u: "unique_keys key' rows" and r: "r \<in> set rows" "key' r = key' x"
  have "select key' (key' x) rows = Some x" using select_unique[OF u] select_Some_in[OF x] by blast
  moreover have "select key' (key' r) rows = Some r" by (rule select_unique[OF u r(1)])
  ultimately show "r = x" using r(2) by simp
qed

lemma observe_existing_evolves:
  assumes "observe_existing env r ident existing sid now db = Inr db'"
    "select mr_dedupe_key k (md_records db) = Some existing" "unique_keys mr_record_id (md_records db)"
  shows "db_evolves db db'"
proof -
  obtain added db1 where active: "\<not> inactive_status (mr_status existing)"
    and src: "add_source env (mr_record_id existing) (mu_source r) (mi_project ident) sid db = Inr (added, db1)"
    and no: "\<not> added \<Longrightarrow> db' = db1"
    and yes: "added \<Longrightarrow> \<exists>db2. update_records (\<lambda>row. mr_record_id row = mr_record_id existing)
       (observed_row r (if mr_status existing = MST_STALE then MST_CANDIDATE else mr_status existing) now) db1 = Inr db2 \<and>
       md_records db' = md_records db2"
    using observe_existing_effect[OF assms(1)] by metis
  note recs = add_source_effect[OF src]
  have "db_evolves db db1" using recs by (simp add: db_evolves_refl)
  moreover have "db_evolves db1 db'"
  proof (cases added)
    case True
    with yes obtain db2 where upd: "update_records (\<lambda>row. mr_record_id row = mr_record_id existing)
       (observed_row r (if mr_status existing = MST_STALE then MST_CANDIDATE else mr_status existing) now) db1 = Inr db2"
      and same: "md_records db' = md_records db2" by blast
    have "db_evolves db1 db2"
    proof (rule update_records_evolves[OF upd])
      fix row assume "row \<in> set (md_records db1)" "mr_record_id row = mr_record_id existing"
      with select_only[OF assms(2,3)] recs have "row = existing" by metis
      with active show "identity_of (observed_row r (if mr_status existing = MST_STALE then MST_CANDIDATE else mr_status existing) now row) = identity_of row \<and>
         (inactive_status (mr_status row) \<longrightarrow> inactive_status (mr_status (observed_row r (if mr_status existing = MST_STALE then MST_CANDIDATE else mr_status existing) now row))) \<and>
         (mr_status row = MST_DELETED \<longrightarrow> mr_status (observed_row r (if mr_status existing = MST_STALE then MST_CANDIDATE else mr_status existing) now row) = MST_DELETED)"
        by (simp add: inactive_status_def)
    qed
    with same show ?thesis by (simp add: db_evolves_def)
  qed (use no in \<open>simp add: db_evolves_refl\<close>)
  ultimately show ?thesis by (rule db_evolves_trans)
qed

lemma upsert_effect:
  assumes "upsert_in_transaction env trusted request ids now db = Inr (rid, created, db')"
  obtains r0 r ident where
    "normalize_request env request = Inr r0" "typed_request env r0 = Inr r"
    "validate_initial_confirmation trusted r" "identity env r = Inr ident"
    "(\<exists>existing. select mr_dedupe_key (mi_dedupe_key ident) (md_records db) = Some existing \<and>
        rid = mr_record_id existing \<and> \<not> created \<and>
        observe_existing env r ident existing (fi_source ids) now db = Inr db') \<or>
     (select mr_dedupe_key (mi_dedupe_key ident) (md_records db) = None \<and> rid = fi_record ids \<and> created \<and>
        create_record env r ident ids now db = Inr db')"
proof -
  from assms obtain r0 r ident where
    1: "normalize_request env request = Inr r0" "typed_request env r0 = Inr r"
    "validate_initial_confirmation trusted r" "identity env r = Inr ident"
    and 2: "(case select mr_dedupe_key (mi_dedupe_key ident) (md_records db) of
       Some existing \<Rightarrow>
         and_then (observe_existing env r ident existing (fi_source ids) now db) (\<lambda>db'.
         Inr (mr_record_id existing, False, db'))
     | None \<Rightarrow>
         and_then (create_record env r ident ids now db) (\<lambda>db'. Inr (fi_record ids, True, db'))) = Inr (rid, created, db')"
    unfolding upsert_in_transaction_def and_then_Inr guard_Inr by blast
  show thesis
    by (rule that[OF 1]) (use 2 in \<open>cases "select mr_dedupe_key (mi_dedupe_key ident) (md_records db)"; auto\<close>)
qed

lemma upsert_evolves:
  assumes "upsert_in_transaction env trusted r ids now db = Inr (rid, created, db')"
    "unique_keys mr_record_id (md_records db)"
  shows "db_evolves db db'"
  using upsert_effect[OF assms(1)] create_record_evolves observe_existing_evolves[OF _ _ assms(2)] by metis

lemma select_owned_Some:
  "select_owned rid owner db = Some r \<Longrightarrow>
     select mr_record_id rid (md_records db) = Some r \<and> mr_owner_id r = owner \<and> r \<in> set (md_records db) \<and>
     mr_record_id r = rid"
  by (auto simp: select_owned_def split: option.splits if_splits dest: select_Some_in)

lemma select_owned_only:
  assumes "select_owned rid owner db = Some row" "unique_keys mr_record_id (md_records db)"
    "r \<in> set (md_records db)" "mr_record_id r = rid"
  shows "r = row"
  using select_owned_Some[OF assms(1)] select_only[of mr_record_id rid "md_records db" row mr_record_id r] assms
  by simp

definition rejected_row :: "string list \<Rightarrow> int \<Rightarrow> MemoryRow \<Rightarrow> MemoryRow" where
  "rejected_row ids now r =
     (if mr_record_id r \<in> set ids \<and> mr_status r = MST_CONFLICTED
      then r\<lparr>mr_status := MST_REJECTED, mr_updated_at := now, mr_revision := mr_revision r + 1\<rparr> else r)"

definition closed_conflict :: "string \<Rightarrow> string \<Rightarrow> int \<Rightarrow> ConflictRow \<Rightarrow> ConflictRow" where
  "closed_conflict cid rid now d =
     (if co_conflict_id d = cid
      then d\<lparr>co_open := False, co_resolution_record_id := Some rid, co_resolved_at := Some now\<rparr> else d)"

lemma resolve_conflict_effect:
  assumes "resolve_conflict rid now db = Inr (n, db')"
  shows "(open_conflict_with rid db = None \<and> db' = db) \<or>
    (\<exists>c. open_conflict_with rid db = Some c \<and>
       md_records db' = map (rejected_row (other_members (co_conflict_id c) rid db) now) (md_records db) \<and>
       md_conflicts db' = map (closed_conflict (co_conflict_id c) rid now) (md_conflicts db) \<and>
       md_members db' = md_members db \<and> md_sources db' = md_sources db)"
proof (cases "open_conflict_with rid db")
  case None
  with assms show ?thesis by (simp add: resolve_conflict_def)
next
  case (Some c)
  with assms obtain db1 where
    upd: "update_records (\<lambda>r. mr_record_id r \<in> set (other_members (co_conflict_id c) rid db) \<and> mr_status r = MST_CONFLICTED)
            (\<lambda>r. r\<lparr>mr_status := MST_REJECTED, mr_updated_at := now\<rparr>) db = Inr db1"
    and db': "db' = db1\<lparr>md_conflicts := map (\<lambda>d. if co_conflict_id d = co_conflict_id c
                 then d\<lparr>co_open := False, co_resolution_record_id := Some rid, co_resolved_at := Some now\<rparr>
                 else d) (md_conflicts db1)\<rparr>"
    by (auto simp: resolve_conflict_def Let_def)
  with update_records_effect(1)[OF upd] Some show ?thesis
    by (simp add: rejected_row_def[abs_def] closed_conflict_def[abs_def] cong: if_cong)
qed

lemma rejected_row_simps [simp]:
  "identity_of (rejected_row ids now r) = identity_of r"
  "mr_record_id (rejected_row ids now r) = mr_record_id r"
  "row_fact (rejected_row ids now r) = row_fact r"
  by (auto simp: rejected_row_def row_fact_def)

lemma rejected_row_evolves: "evolves r (rejected_row ids now r)"
  by (auto simp: evolves_def rejected_row_def inactive_status_def)

lemma other_members_not_self: "rid \<notin> set (other_members cid rid db)"
  by (auto simp: other_members_def)

lemma transition_effect:
  assumes "transition_memory env rid owner actor target reason expected now db = Inr db'"
  obtains row affected db1 db2 where
    "select_owned rid owner db = Some row" "transition_allowed (mr_status row) target"
    "\<not> (target = MST_CONFIRMED \<and> model_producer actor)"
    "case expected of None \<Rightarrow> True | Some n \<Rightarrow> mr_revision row = n"
    "(if target = MST_CONFIRMED \<and> mr_status row = MST_CONFLICTED then resolve_conflict rid now db else Inr (1, db))
       = Inr (affected, db1)"
    "update_records (\<lambda>r. mr_record_id r = rid)
       (\<lambda>r. r\<lparr>mr_status := target, mr_deleted_at := (if target = MST_DELETED then Some now else None),
          mr_updated_at := now\<rparr>) db1 = Inr db2"
    "md_records db' = md_records db2" "md_conflicts db' = md_conflicts db2" "md_members db' = md_members db2"
    "md_sources db' = md_sources db2"
proof -
  from assms obtain row affected db1 db2 where
    1: "select_owned rid owner db = Some row" "transition_allowed (mr_status row) target"
    "\<not> (target = MST_CONFIRMED \<and> model_producer actor)"
    "case expected of None \<Rightarrow> True | Some n \<Rightarrow> mr_revision row = n"
    "(if target = MST_CONFIRMED \<and> mr_status row = MST_CONFLICTED then resolve_conflict rid now db else Inr (1, db))
       = Inr (affected, db1)"
    "update_records (\<lambda>r. mr_record_id r = rid)
       (\<lambda>r. r\<lparr>mr_status := target, mr_deleted_at := (if target = MST_DELETED then Some now else None),
          mr_updated_at := now\<rparr>) db1 = Inr db2"
    and 2: "\<exists>a b c d e f g h i j. db' = audit env a b c d e f g h i j db2"
    unfolding transition_memory_def and_then_Inr or_fail_Inr guard_Inr case_prod_beta by (metis prod.collapse Inr_inject)
  show thesis by (rule that[OF 1]) (use 2 in auto)
qed

lemma transition_before_update:
  assumes "unique_keys mr_record_id (md_records db)" "select_owned rid owner db = Some row"
    "(if target = MST_CONFIRMED \<and> mr_status row = MST_CONFLICTED then resolve_conflict rid now db else Inr (1, db))
       = Inr (affected, db1)"
  shows "db_evolves db db1" and "r \<in> set (md_records db1) \<Longrightarrow> mr_record_id r = rid \<Longrightarrow> r = row"
proof -
  have row: "mr_record_id row = rid" using select_owned_Some[OF assms(2)] by simp
  consider "db1 = db" | c :: ConflictRow where
      "md_records db1 = map (rejected_row (other_members (co_conflict_id c) rid db) now) (md_records db)"
  proof (cases "target = MST_CONFIRMED \<and> mr_status row = MST_CONFLICTED")
    case True
    with assms(3) have "resolve_conflict rid now db = Inr (affected, db1)" by simp
    from resolve_conflict_effect[OF this] show thesis
    proof (elim disjE exE conjE)
      assume "db1 = db"
      then show thesis by (rule that(1))
    next
      fix c :: ConflictRow
      assume "md_records db1 = map (rejected_row (other_members (co_conflict_id c) rid db) now) (md_records db)"
      then show thesis by (rule that(2))
    qed
  next
    case False
    with assms(3) have "db1 = db" by auto
    then show thesis by (rule that(1))
  qed
  note this
  moreover have one: "x = row" if "x \<in> set (md_records db)" "mr_record_id x = rid" for x
    by (rule select_owned_only[OF assms(2,1) that])
  ultimately show "db_evolves db db1" and "r \<in> set (md_records db1) \<Longrightarrow> mr_record_id r = rid \<Longrightarrow> r = row"
  proof (atomize (full), cases)
    case 1
    then show "db_evolves db db1 \<and> (r \<in> set (md_records db1) \<longrightarrow> mr_record_id r = rid \<longrightarrow> r = row)"
      using one by (simp add: db_evolves_refl)
  next
    case (2 c)
    have "db_evolves db db1" by (rule db_evolves_map[OF 2]) (rule rejected_row_evolves)
    moreover have "r = row" if "r \<in> set (md_records db1)" "mr_record_id r = rid"
    proof -
      from that 2 obtain x where x: "x \<in> set (md_records db)"
        "r = rejected_row (other_members (co_conflict_id c) rid db) now x" by auto
      with that one have "x = row" by simp
      with x(2) row other_members_not_self show ?thesis by (simp add: rejected_row_def)
    qed
    ultimately show "db_evolves db db1 \<and> (r \<in> set (md_records db1) \<longrightarrow> mr_record_id r = rid \<longrightarrow> r = row)" by blast
  qed
qed

lemma transition_evolves:
  assumes "transition_memory env rid owner actor target reason expected now db = Inr db'"
    "unique_keys mr_record_id (md_records db)"
  shows "db_evolves db db'"
proof -
  obtain row affected db1 db2 where
    row: "select_owned rid owner db = Some row" and allowed: "transition_allowed (mr_status row) target"
    and db1: "(if target = MST_CONFIRMED \<and> mr_status row = MST_CONFLICTED then resolve_conflict rid now db else Inr (1, db))
       = Inr (affected, db1)"
    and db2: "update_records (\<lambda>r. mr_record_id r = rid)
       (\<lambda>r. r\<lparr>mr_status := target, mr_deleted_at := (if target = MST_DELETED then Some now else None),
          mr_updated_at := now\<rparr>) db1 = Inr db2"
    and db': "md_records db' = md_records db2"
    using transition_effect[OF assms(1)] by metis
  note before = transition_before_update[OF assms(2) row db1]
  have "db_evolves db1 db2"
  proof (rule update_records_evolves[OF db2])
    fix r assume "r \<in> set (md_records db1)" "mr_record_id r = rid"
    then have "r = row" by (rule before(2))
    with allowed show "identity_of (r\<lparr>mr_status := target, mr_deleted_at := (if target = MST_DELETED then Some now else None),
          mr_updated_at := now\<rparr>) = identity_of r \<and>
       (inactive_status (mr_status r) \<longrightarrow> inactive_status (mr_status (r\<lparr>mr_status := target,
          mr_deleted_at := (if target = MST_DELETED then Some now else None), mr_updated_at := now\<rparr>))) \<and>
       (mr_status r = MST_DELETED \<longrightarrow> mr_status (r\<lparr>mr_status := target,
          mr_deleted_at := (if target = MST_DELETED then Some now else None), mr_updated_at := now\<rparr>) = MST_DELETED)"
      by (cases target) (auto simp: inactive_status_def)
  qed
  with before(1) db' show ?thesis
    by (meson db_evolves_trans db_evolves_refl)
qed

lemma supersede_effect:
  assumes "supersede_memory env rid v source owner actor status ids now db = Inr (new_id, db')"
  obtains old request db1 created db2 where
    "select_owned rid owner db = Some old" "mr_status old \<noteq> MST_DELETED"
    "validate_MemoryUpsertV1 (supersede_request old v source owner actor status) = Some request"
    "update_records (\<lambda>r. mr_record_id r = rid)
       (\<lambda>r. r\<lparr>mr_status := MST_SUPERSEDED, mr_valid_to := Some now, mr_updated_at := now\<rparr>) db = Inr db1"
    "upsert_in_transaction env False request ids now db1 = Inr (new_id, created, db2)"
    "md_records db' = md_records db2" "md_conflicts db' = md_conflicts db2" "md_members db' = md_members db2"
    "md_sources db' = md_sources db2"
proof -
  from assms obtain old request db1 p where
    old: "(case select_owned rid owner db of
         Some r \<Rightarrow> if mr_status r = MST_DELETED then None else Some r | None \<Rightarrow> None) = Some old"
    and 1: "validate_MemoryUpsertV1 (supersede_request old v source owner actor status) = Some request"
    "update_records (\<lambda>r. mr_record_id r = rid)
       (\<lambda>r. r\<lparr>mr_status := MST_SUPERSEDED, mr_valid_to := Some now, mr_updated_at := now\<rparr>) db = Inr db1"
    and up: "upsert_in_transaction env False request ids now db1 = Inr p"
    and new: "new_id = fst p" "\<exists>a b c d e f g h i j. db' = audit env a b c d e f g h i j (snd (snd p))"
    unfolding supersede_memory_def and_then_Inr or_fail_Inr guard_Inr case_prod_beta sum.inject prod.inject
    by blast
  from old have 0: "select_owned rid owner db = Some old" "mr_status old \<noteq> MST_DELETED"
    by (auto split: option.splits if_splits)
  have "upsert_in_transaction env False request ids now db1 = Inr (new_id, fst (snd p), snd (snd p))"
    using up new(1) by simp
  then show thesis by (rule that[OF 0 1]) (use new(2) in auto)
qed

lemma update_records_ids:
  assumes "update_records p f db = Inr db'" "\<And>r. identity_of (f r) = identity_of r"
  shows "map mr_record_id (md_records db') = map mr_record_id (md_records db)"
    "map mr_dedupe_key (md_records db') = map mr_dedupe_key (md_records db)"
  using assms(2) by (auto simp: update_records_effect(1)[OF assms(1)] identity_of_def)

lemma supersede_evolves:
  assumes "supersede_memory env rid v source owner actor status ids now db = Inr (new_id, db')"
    "unique_keys mr_record_id (md_records db)"
  shows "db_evolves db db'"
proof -
  obtain old request db1 created db2 where
    old: "select_owned rid owner db = Some old" "mr_status old \<noteq> MST_DELETED"
    and upd: "update_records (\<lambda>r. mr_record_id r = rid)
       (\<lambda>r. r\<lparr>mr_status := MST_SUPERSEDED, mr_valid_to := Some now, mr_updated_at := now\<rparr>) db = Inr db1"
    and ups: "upsert_in_transaction env False request ids now db1 = Inr (new_id, created, db2)"
    and db': "md_records db' = md_records db2"
    using supersede_effect[OF assms(1)] by metis
  have "unique_keys mr_record_id (md_records db1)"
    using update_records_ids(1)[OF upd] assms(2) by (simp add: unique_keys_def)
  from upsert_evolves[OF ups this] have "db_evolves db1 db2" .
  moreover have "db_evolves db db1"
  proof (rule update_records_evolves[OF upd])
    fix r assume "r \<in> set (md_records db)" "mr_record_id r = rid"
    then have "r = old" by (rule select_owned_only[OF old(1) assms(2)])
    with old(2) show "identity_of (r\<lparr>mr_status := MST_SUPERSEDED, mr_valid_to := Some now, mr_updated_at := now\<rparr>)
        = identity_of r \<and>
       (inactive_status (mr_status r) \<longrightarrow> inactive_status (mr_status (r\<lparr>mr_status := MST_SUPERSEDED,
          mr_valid_to := Some now, mr_updated_at := now\<rparr>))) \<and>
       (mr_status r = MST_DELETED \<longrightarrow> mr_status (r\<lparr>mr_status := MST_SUPERSEDED,
          mr_valid_to := Some now, mr_updated_at := now\<rparr>) = MST_DELETED)"
      by (simp add: inactive_status_def)
  qed
  ultimately show ?thesis using db' by (meson db_evolves_trans db_evolves_refl)
qed

text \<open>A purge removes rows and unlinks their successors; every remaining row is a row of before.\<close>

definition shrinks :: "MemoryDb \<Rightarrow> MemoryDb \<Rightarrow> bool" where
  "shrinks db db' \<longleftrightarrow>
     (\<forall>r' \<in> set (md_records db'). \<exists>r \<in> set (md_records db). evolves r r' \<and> mr_status r' = mr_status r)"

lemma shrinks_refl [simp]: "md_records db' = md_records db \<Longrightarrow> shrinks db db'"
  by (auto simp: shrinks_def intro: evolves_refl)

lemma shrinks_trans: "shrinks a b \<Longrightarrow> shrinks b c \<Longrightarrow> shrinks a c"
  unfolding shrinks_def by (metis evolves_trans)

lemma delete_records_shrinks: "shrinks db (delete_records gone db)"
proof -
  have "evolves r (r\<lparr>mr_supersedes := x\<rparr>)" for r x by (simp add: evolves_def)
  then show ?thesis by (auto simp: shrinks_def delete_records_def)
qed

lemma delete_empty_conflicts_records [simp]: "md_records (delete_empty_conflicts db) = md_records db"
  by (simp add: delete_empty_conflicts_def)

lemma purge_one_shrinks: "shrinks db (purge_one env uri actor now row db)"
proof -
  define db1 where "db1 = db\<lparr>md_sources := filter (\<lambda>s. \<not> (sr_record_id s = mr_record_id row \<and> purged_source uri s)) (md_sources db)\<rparr>"
  have "shrinks db db1" by (simp add: db1_def)
  then have "shrinks db (delete_records (\<lambda>i. i = mr_record_id row) db1)"
    using delete_records_shrinks shrinks_trans by blast
  moreover have "md_records (purge_one env uri actor now row db) =
      md_records (if \<not> list_ex (\<lambda>s. sr_record_id s = mr_record_id row) (md_sources db1)
        then delete_records (\<lambda>i. i = mr_record_id row) db1 else db1)"
    by (simp add: purge_one_def Let_def db1_def)
  ultimately show ?thesis using \<open>shrinks db db1\<close> by (simp add: shrinks_def split: if_splits)
qed

lemma fold_purge_shrinks: "shrinks db (fold (purge_one env uri actor now) rows db)"
proof (induction rows arbitrary: db)
  case (Cons row rows)
  have "shrinks db (purge_one env uri actor now row db)" by (rule purge_one_shrinks)
  from shrinks_trans[OF this Cons.IH] show ?case by simp
qed simp

lemma hard_purge_effect:
  assumes "hard_purge env rid confirmed owner actor now db = Inr db'"
  shows "confirmed = rid" "\<exists>row. select_owned rid owner db = Some row"
    "md_records db' = md_records (delete_records (\<lambda>i. i = rid) db)"
    "md_sources db' = md_sources (delete_records (\<lambda>i. i = rid) db)"
    "md_members db' = md_members (delete_records (\<lambda>i. i = rid) db)"
    "md_conflicts db' = md_conflicts (delete_empty_conflicts (delete_records (\<lambda>i. i = rid) db))"
proof -
  from assms have "confirmed = rid \<and> (\<exists>row. select_owned rid owner db = Some row \<and>
    (\<exists>a b c d e f g h i j. db' = audit env a b c d e f g h i j (delete_empty_conflicts (delete_records (\<lambda>i. i = rid) db))))"
    unfolding hard_purge_def and_then_Inr or_fail_Inr guard_Inr by (metis Inr_inject)
  then show "confirmed = rid" "\<exists>row. select_owned rid owner db = Some row"
    "md_records db' = md_records (delete_records (\<lambda>i. i = rid) db)"
    "md_sources db' = md_sources (delete_records (\<lambda>i. i = rid) db)"
    "md_members db' = md_members (delete_records (\<lambda>i. i = rid) db)"
    "md_conflicts db' = md_conflicts (delete_empty_conflicts (delete_records (\<lambda>i. i = rid) db))"
    by (auto simp: delete_empty_conflicts_def)
qed

lemma hard_purge_source_effect:
  assumes "hard_purge_source env uri confirmed project owner actor now db = Inr db'"
  obtains rows where "db' = delete_empty_conflicts (fold (purge_one env uri actor now) rows db)"
  using assms unfolding hard_purge_source_def and_then_Inr or_fail_Inr guard_Inr Let_def by blast

lemma apply_op_evolves:
  assumes "apply_memory_op env op db = Inr db'" "unique_keys mr_record_id (md_records db)"
  shows "db_evolves db db' \<or> shrinks db db'"
proof (cases op)
  case (OpUpsert trusted r ids now)
  with assms upsert_evolves show ?thesis by auto
next
  case (OpSupersede rid v source owner actor status ids now)
  with assms supersede_evolves show ?thesis by auto
next
  case (OpHardPurge rid confirmed owner actor now)
  with assms have "md_records db' = md_records (delete_records (\<lambda>i. i = rid) db)"
    using hard_purge_effect(3) by auto
  with delete_records_shrinks[of db] show ?thesis by (simp add: shrinks_def)
next
  case (OpPurgeSource uri confirmed project owner actor now)
  with assms have "hard_purge_source env uri confirmed project owner actor now db = Inr db'" by simp
  then obtain rows where "db' = delete_empty_conflicts (fold (purge_one env uri actor now) rows db)"
    by (rule hard_purge_source_effect)
  with fold_purge_shrinks[of db] show ?thesis by (simp add: shrinks_def)
qed (use assms in \<open>auto simp: confirm_memory_def reject_memory_def soft_delete_memory_def sweep_retention_def
  invalidate_project_commit_def invalidate_source_def Let_def intro: transition_evolves make_stale_evolves\<close>)

end
