(* ===== verification/MemoryRetrieval.thy ===== *)
theory MemoryRetrieval
  imports MemoryStoreInvariant Planner "HOL-Library.Char_ord" "HOL-Library.List_Lexorder" "HOL-Library.Product_Lexorder"
begin

text \<open>
  The reading side of \<open>services/memory/store.py\<close>: single records, listings, the management search and
  the bounded retrieval that feeds a prompt. Scores are exact rationals, rounded to six decimals, where
  the code computes with floats. A row that no longer validates is a \<open>MemoryValidationError\<close>.
\<close>

section \<open>Tokens and scores\<close>

text \<open>The non-overlapping matches of \<open>[^\W_]{2,}\<close>: the maximal runs of two or more such characters.\<close>

function word_runs :: "string \<Rightarrow> string list" where
  "word_runs s =
     (if s = [] then []
      else let run = takeWhile token_char s; rest = dropWhile token_char s
        in if run = [] then word_runs (tl s)
           else if length run < 2 then word_runs rest else run # word_runs rest)"
  by pat_completeness auto

termination
proof (relation "measure length")
  fix s run rest :: string
  assume "s \<noteq> []" "run = takeWhile token_char s" "rest = dropWhile token_char s" "run \<noteq> []"
  then have "length run + length rest = length s" "0 < length run" by (auto simp flip: length_append)
  then have short: "length rest < length s" by linarith
  then show "length run < 2 \<Longrightarrow> (rest, s) \<in> measure length" by simp
  from short show "\<not> length run < 2 \<Longrightarrow> (rest, s) \<in> measure length" by simp
qed auto

declare word_runs.simps [simp del]

text \<open>The Cyrillic stop words lie outside the modelled code points.\<close>

definition retrieval_stopwords :: "string list" where
  "retrieval_stopwords = [''memory'', ''please'', ''project'', ''repo'', ''repository'', ''task'']"

definition tokens :: "string \<Rightarrow> string list" where
  "tokens s = dedup (filter (\<lambda>t. t \<notin> set retrieval_stopwords) (map casefold (word_runs s)))"

definition shared :: "string list \<Rightarrow> string list \<Rightarrow> string list" where
  "shared xs ys = filter (\<lambda>t. t \<in> set ys) xs"

text \<open>\<open>round(x, 6)\<close>, ties to the even digit.\<close>

definition round6 :: "rat \<Rightarrow> rat" where
  "round6 x =
     (let y = x * 1000000; n = \<lfloor>y\<rfloor>; d = y - of_int n;
          m = (if d < 1 / 2 then n else if d > 1 / 2 then n + 1 else if even n then n else n + 1)
      in of_int m / 1000000)"

definition score_memory :: "string \<Rightarrow> string \<Rightarrow> string \<Rightarrow> rat \<Rightarrow> rat" where
  "score_memory query subject value_json confidence =
     (let query_tokens = tokens query;
          overlap = length (shared query_tokens (tokens subject @ tokens (take 4096 value_json)));
          lexical = (if query_tokens = [] then 0
            else min 1 (of_nat overlap / of_nat (max 1 (min (length query_tokens) 8))));
          exact = (if sublist (casefold subject) (casefold query) then 1 / 4 else 0)
      in if lexical = 0 \<and> exact = 0 then 0
         else min 1 (round6 (exact + lexical * (65 / 100) + confidence * (10 / 100))))"

section \<open>Records\<close>

definition source_of_row :: "SourceRow \<Rightarrow> MemorySourceV1 option" where
  "source_of_row s = validate_MemorySourceV1
     \<lparr>mo_source_type = sr_source_type s, mo_uri = sr_source_uri s, mo_fragment = sr_source_fragment s,
      mo_source_hash = sr_source_hash s, mo_observed_at = Aware (sr_observed_at s) 0,
      mo_source_commit_sha = sr_source_commit_sha s, mo_source_mtime_ns = sr_source_mtime_ns s,
      mo_producer = sr_producer s, mo_author = sr_author s\<rparr>"

definition record_sources :: "MemoryDb \<Rightarrow> string \<Rightarrow> MemorySourceV1 list option" where
  "record_sources db rid =
     mapM source_of_row (sort_key (\<lambda>s. (sr_observed_at s, sr_source_id s))
       (filter (\<lambda>s. sr_record_id s = rid) (md_sources db)))"

definition at_utc :: "int \<Rightarrow> datetime" where
  "at_utc t = Aware t 0"

definition record_of_row :: "MemoryEnv \<Rightarrow> MemoryDb \<Rightarrow> MemoryRow \<Rightarrow> MemoryRecordV1 option" where
  "record_of_row env db r = do {
     sources \<leftarrow> record_sources db (mr_record_id r);
     Some \<lparr>me_schema_version = trim_ws (mr_schema_version r), me_record_id = trim_ws (mr_record_id r),
       me_record_type = mr_record_type r, me_owner_id = trim_ws (mr_owner_id r), me_scope = mr_scope_type r,
       me_scope_key = trim_ws (mr_scope_key r), me_project_path = map_option trim_ws (mr_project_realpath r),
       me_task_id = map_option trim_ws (mr_task_id r), me_subject = trim_ws (mr_memory_key r),
       me_value = mv_loads env (mr_value_json r), me_sources = sources, me_created_at = at_utc (mr_created_at r),
       me_observed_at = at_utc (mr_observed_at r), me_updated_at = at_utc (mr_updated_at r),
       me_confidence = mr_confidence r, me_status = mr_status r,
       me_valid_from = map_option at_utc (mr_valid_from r), me_valid_to = map_option at_utc (mr_valid_to r),
       me_project_commit_sha = map_option trim_ws (mr_source_commit_sha r),
       me_producer = trim_ws (mr_producer r), me_author = trim_ws (mr_author r),
       me_supersedes_record_id = map_option trim_ws (mr_supersedes r), me_sensitivity = mr_sensitivity r,
       me_retention = mr_retention_class r, me_expires_at = map_option at_utc (mr_expires_at r),
       me_deleted_at = map_option at_utc (mr_deleted_at r), me_revision = mr_revision r\<rparr>
   }"

definition get_memory :: "MemoryEnv \<Rightarrow> string \<Rightarrow> string \<Rightarrow> bool \<Rightarrow> MemoryDb \<Rightarrow> MemoryRecordV1 memory_result" where
  "get_memory env rid owner include_deleted db =
     and_then (or_fail MemoryNotFoundError (case select_owned rid owner db of
         None \<Rightarrow> None
       | Some r \<Rightarrow> if \<not> include_deleted \<and> mr_status r = MST_DELETED then None else Some r)) (\<lambda>row.
     or_fail MemoryValidationError (record_of_row env db row))"

section \<open>Listing and search\<close>

record MemoryFilter =
  mf_scope :: "MemoryScope option"
  mf_project_path :: "string option"
  mf_task_id :: "string option"
  mf_record_type :: "MemoryRecordType option"
  mf_statuses :: "MemoryStatus list"
  mf_include_deleted :: bool

text \<open>The \<open>WHERE\<close> clause; a comparison with \<open>NULL\<close> selects nothing.\<close>

definition listed :: "MemoryEnv \<Rightarrow> string \<Rightarrow> MemoryFilter \<Rightarrow> string option \<Rightarrow> MemoryRow \<Rightarrow> bool" where
  "listed env owner f task_scope_key r \<longleftrightarrow>
     mr_owner_id r = owner \<and>
     (case mf_scope f of None \<Rightarrow> True | Some scope \<Rightarrow> mr_scope_type r = scope) \<and>
     (mf_scope f = Some MSC_TASK \<and> mf_task_id f \<noteq> None \<longrightarrow> Some (mr_scope_key r) = task_scope_key) \<and>
     (mf_project_path f \<noteq> None \<longrightarrow>
        mr_project_realpath r \<noteq> None \<and> mr_project_realpath r = mv_project_path env (mf_project_path f)) \<and>
     (case mf_task_id f of
        None \<Rightarrow> True
      | Some task \<Rightarrow> mr_task_id r = Some task \<and>
          (mf_scope f \<noteq> Some MSC_TASK \<and> mf_project_path f = None \<longrightarrow> mr_project_realpath r = None)) \<and>
     (case mf_record_type f of None \<Rightarrow> True | Some t \<Rightarrow> mr_record_type r = t) \<and>
     (if mf_statuses f \<noteq> [] then mr_status r \<in> set (mf_statuses f)
      else mf_include_deleted f \<or> mr_status r \<noteq> MST_DELETED)"

definition list_memory ::
    "MemoryEnv \<Rightarrow> string \<Rightarrow> MemoryFilter \<Rightarrow> int \<Rightarrow> MemoryDb \<Rightarrow> MemoryRecordV1 list memory_result" where
  "list_memory env owner f limit db =
     and_then (if mf_scope f = Some MSC_TASK \<and> mf_task_id f \<noteq> None
       then or_fail MemoryValidationError (map_option Some
         (scope_key_of MSC_TASK owner (mv_project_path env (mf_project_path f)) (mf_task_id f)))
       else Inr None) (\<lambda>key.
     or_fail MemoryValidationError (mapM (record_of_row env db)
       (take (nat (max 1 (min limit 1000)))
         (sort_key (\<lambda>r. (- mr_updated_at r, mr_record_id r)) (filter (listed env owner f key) (md_records db))))))"

definition search_memory ::
    "MemoryEnv \<Rightarrow> string \<Rightarrow> string \<Rightarrow> MemoryFilter \<Rightarrow> datetime option \<Rightarrow> datetime option \<Rightarrow> int \<Rightarrow> MemoryDb \<Rightarrow>
     MemoryRecordV1 list memory_result" where
  "search_memory env query owner f updated_after updated_before limit db =
     and_then (guard (\<not> (mf_scope f = Some MSC_PROJECT \<and> \<not> truthy (mf_project_path f)) \<and>
       \<not> (mf_scope f = Some MSC_TASK \<and> \<not> truthy (mf_task_id f))) MemoryPolicyError) (\<lambda>_.
     and_then (list_memory env owner (f\<lparr>mf_include_deleted := False\<rparr>) (min 1000 (max (limit * 8) 64)) db) (\<lambda>candidates.
     Inr (take (nat (max 1 (min limit 1000))) (filter (\<lambda>record.
       \<not> (case updated_after of None \<Rightarrow> False | Some t \<Rightarrow> dt_less (me_updated_at record) t) \<and>
       \<not> (case updated_before of None \<Rightarrow> False | Some t \<Rightarrow> dt_less t (me_updated_at record)) \<and>
       (tokens query = [] \<or> set (tokens query) \<subseteq>
          set (tokens (me_subject record @ '' '' @ mv_canonical_json env (me_value record))))) candidates))))"

section \<open>Retrieval\<close>

record MemoryQuery =
  mq_owner :: string
  mq_project_path :: "string option"
  mq_task_id :: "string option"
  mq_query :: string
  mq_max_records :: int
  mq_max_chars :: int
  mq_min_relevance :: rat
  mq_current_commit :: "string option"
  mq_allowed_types :: "MemoryRecordType list"

definition retrievable_types :: "MemoryRecordType list" where
  "retrievable_types = [MT_PROJECT_KNOWLEDGE, MT_TASK_HISTORY, MT_USER_PROFILE]"

definition in_query_scope :: "MemoryEnv \<Rightarrow> MemoryQuery \<Rightarrow> MemoryRow \<Rightarrow> bool" where
  "in_query_scope env q r \<longleftrightarrow>
     (let project = mv_project_path env (mq_project_path q) in
      mr_scope_type r = MSC_USER \<and> mr_scope_key r = ''user:'' @ mq_owner q \<or>
      truthy project \<and> mr_scope_type r = MSC_PROJECT \<and> mr_project_realpath r = project \<or>
      truthy (mq_task_id q) \<and> mr_scope_type r = MSC_TASK \<and> mr_task_id r = mq_task_id q \<and>
        mr_project_realpath r = (if truthy project then project else None))"

definition valid_at :: "int \<Rightarrow> MemoryRow \<Rightarrow> bool" where
  "valid_at now r \<longleftrightarrow>
     (case mr_expires_at r of None \<Rightarrow> True | Some t \<Rightarrow> now < t) \<and>
     (case mr_valid_from r of None \<Rightarrow> True | Some t \<Rightarrow> t \<le> now) \<and>
     (case mr_valid_to r of None \<Rightarrow> True | Some t \<Rightarrow> now < t)"

definition row_text :: "MemoryRow \<Rightarrow> string" where
  "row_text r = mr_memory_key r @ '' '' @ take 4096 (mr_value_json r)"

definition query_text :: "MemoryQuery \<Rightarrow> string" where
  "query_text q = take 4096 (mq_query q)"

definition retrieval_row :: "MemoryEnv \<Rightarrow> MemoryQuery \<Rightarrow> int \<Rightarrow> MemoryRow \<Rightarrow> bool" where
  "retrieval_row env q now r \<longleftrightarrow>
     mr_owner_id r = mq_owner q \<and> mr_status r = MST_CONFIRMED \<and> valid_at now r \<and>
     mr_record_type r \<in> set (if mq_allowed_types q \<noteq> [] then mq_allowed_types q else retrievable_types) \<and>
     in_query_scope env q r \<and>
     shared (tokens (query_text q)) (tokens (row_text r)) \<noteq> []"

text \<open>A record tied to a commit counts only when that commit, or a source observed at it, is current.\<close>

definition commit_current :: "string option \<Rightarrow> MemoryRow \<Rightarrow> MemorySourceV1 list \<Rightarrow> bool" where
  "commit_current current r sources \<longleftrightarrow>
     \<not> truthy (mr_source_commit_sha r) \<or>
     (truthy current \<and>
      (casefold (the (mr_source_commit_sha r)) = casefold (the current) \<or>
       list_ex (\<lambda>s. truthy (mo_source_commit_sha s) \<and>
         casefold (the (mo_source_commit_sha s)) = casefold (the current)) sources))"

definition row_score :: "MemoryQuery \<Rightarrow> MemoryRow \<Rightarrow> rat" where
  "row_score q r = score_memory (query_text q) (mr_memory_key r) (mr_value_json r) (mr_confidence r)"

definition ranked_rows ::
    "MemoryEnv \<Rightarrow> MemoryQuery \<Rightarrow> int \<Rightarrow> MemoryDb \<Rightarrow> (rat \<times> MemoryRow \<times> MemorySourceV1 list) list option" where
  "ranked_rows env q now db = do {
     rows \<leftarrow> mapM (\<lambda>r. do { sources \<leftarrow> record_sources db (mr_record_id r); Some (row_score q r, r, sources) })
       (take 512 (sort_key (\<lambda>r. (- mr_observed_at r, mr_record_id r))
          (filter (retrieval_row env q now) (md_records db))));
     Some (sort_key (\<lambda>(score, r, _). (- score, - mr_observed_at r, mr_record_id r))
       (filter (\<lambda>(score, r, sources). commit_current (mq_current_commit q) r sources \<and> mq_min_relevance q \<le> score)
          rows))
   }"

definition source_ref :: "MemorySourceV1 \<Rightarrow> string" where
  "source_ref s =
     mo_source_type s @ '':'' @ (if truthy (mo_uri s) then the (mo_uri s) else ''local'') @
     (if truthy (mo_fragment s) then ''#'' @ the (mo_fragment s) else [])"

definition retrieval_item ::
    "MemoryEnv \<Rightarrow> MemoryQuery \<Rightarrow> rat \<times> MemoryRow \<times> MemorySourceV1 list \<Rightarrow> RetrievalItemV1" where
  "retrieval_item env q entry =
     (case entry of (score, r, sources) \<Rightarrow>
        let overlap = sort (shared (tokens (query_text q)) (tokens (row_text r)))
        in \<lparr>ri_record_id = mr_record_id r, ri_record_type = mr_record_type r, ri_subject = mr_memory_key r,
            ri_value = mv_loads env (mr_value_json r), ri_score = score,
            ri_why = ''confirmed scoped memory'' @
              (if overlap \<noteq> [] then ''; lexical match: '' @ join '', '' (take 5 overlap) else []),
            ri_source_refs = map source_ref (take 32 sources),
            ri_project_commit_sha = mr_source_commit_sha r\<rparr>)"

definition item_cost :: "MemoryEnv \<Rightarrow> RetrievalItemV1 \<Rightarrow> int" where
  "item_cost env i = int (length (mv_canonical_json env (JObj
     [(''record_id'', JStr (ri_record_id i)), (''record_type'', JStr (record_type_text (ri_record_type i))),
      (''subject'', JStr (ri_subject i)), (''value'', ri_value i), (''score'', JFloat (ri_score i)),
      (''why'', JStr (ri_why i)), (''source_refs'', JList (map JStr (ri_source_refs i)))])))"

text \<open>The loop over the ranked rows: an item that does not fit is skipped, the first full list ends it.\<close>

fun pack_items ::
    "MemoryEnv \<Rightarrow> int \<Rightarrow> int \<Rightarrow> RetrievalItemV1 list \<Rightarrow> RetrievalItemV1 list \<Rightarrow> int \<Rightarrow>
     (RetrievalItemV1 list \<times> int) option" where
  "pack_items env max_records max_chars [] items used = Some (items, used)"
| "pack_items env max_records max_chars (raw # rest) items used =
     (if max_chars - used < item_cost env raw then pack_items env max_records max_chars rest items used
      else do {
        item \<leftarrow> validate_RetrievalItemV1 raw;
        if max_records \<le> int (length (items @ [item])) then Some (items @ [item], used + item_cost env raw)
        else pack_items env max_records max_chars rest (items @ [item]) (used + item_cost env raw)
      })"

definition record_limit :: "MemoryQuery \<Rightarrow> int" where
  "record_limit q = max 1 (min (mq_max_records q) 32)"

definition char_limit :: "MemoryQuery \<Rightarrow> int" where
  "char_limit q = max 1 (min (mq_max_chars q) 32768)"

definition retrieve_memory :: "MemoryEnv \<Rightarrow> MemoryQuery \<Rightarrow> int \<Rightarrow> MemoryDb \<Rightarrow> RetrievalResultV1 memory_result" where
  "retrieve_memory env q now db =
     (if tokens (query_text q) = []
      then Inr \<lparr>rr_items = [], rr_used_chars = 0, rr_max_chars = char_limit q, rr_degraded = False, rr_diagnostic = None\<rparr>
      else and_then (or_fail MemoryValidationError (ranked_rows env q now db)) (\<lambda>ranked.
        and_then (or_fail MemoryValidationError
          (pack_items env (record_limit q) (char_limit q) (map (retrieval_item env q) ranked) [] 0)) (\<lambda>(items, used).
        Inr \<lparr>rr_items = items, rr_used_chars = used, rr_max_chars = char_limit q, rr_degraded = False,
          rr_diagnostic = None\<rparr>)))"

definition retrieve_memory_safe :: "MemoryEnv \<Rightarrow> MemoryQuery \<Rightarrow> int \<Rightarrow> MemoryDb \<Rightarrow> RetrievalResultV1" where
  "retrieve_memory_safe env q now db =
     (case retrieve_memory env q now db of
        Inr result \<Rightarrow> result
      | Inl _ \<Rightarrow> \<lparr>rr_items = [], rr_used_chars = 0,
          rr_max_chars = max 1 (if mq_max_chars q = 0 then 1500 else mq_max_chars q), rr_degraded = True,
          rr_diagnostic = Some ''memory unavailable: ValidationError''\<rparr>)"

end
