(* ===== verification/MemoryConflicts.thy ===== *)
theory MemoryConflicts
  imports MemoryStoreInvariant
begin

text \<open>
  The conflict invariant of the memory store: two active records of one fact are both conflicted and
  members of one open conflict. Every operation keeps it, unless it revives a stale record.
\<close>

section \<open>The invariant\<close>

definition paired :: "MemoryDb \<Rightarrow> MemoryRow \<Rightarrow> MemoryRow \<Rightarrow> bool" where
  "paired db r s \<longleftrightarrow>
     mr_status r = MST_CONFLICTED \<and> mr_status s = MST_CONFLICTED \<and>
     (\<exists>c \<in> set (md_conflicts db). co_open c \<and> conflict_fact c = row_fact r \<and>
        (co_conflict_id c, mr_record_id r) \<in> set (md_members db) \<and>
        (co_conflict_id c, mr_record_id s) \<in> set (md_members db))"

definition rivals :: "MemoryRow \<Rightarrow> MemoryRow \<Rightarrow> bool" where
  "rivals r s \<longleftrightarrow>
     mr_record_id r \<noteq> mr_record_id s \<and> row_fact r = row_fact s \<and>
     active_status (mr_status r) \<and> active_status (mr_status s)"

definition rivals_paired :: "MemoryDb \<Rightarrow> bool" where
  "rivals_paired db \<longleftrightarrow>
     (\<forall>r \<in> set (md_records db). \<forall>s \<in> set (md_records db). rivals r s \<longrightarrow> paired db r s)"

definition dedupe_ok :: "MemoryEnv \<Rightarrow> MemoryRow \<Rightarrow> bool" where
  "dedupe_ok env r \<longleftrightarrow>
     mr_dedupe_key r = dedupe_key_of env (mr_owner_id r) (mr_scope_key r) (mr_record_type r) (mr_memory_key r)
       (mr_value_hash r)"

definition conflicts_linked :: "MemoryDb \<Rightarrow> bool" where
  "conflicts_linked db \<longleftrightarrow>
     unique_keys co_conflict_id (md_conflicts db) \<and>
     (\<forall>c \<in> set (md_conflicts db). \<forall>d \<in> set (md_conflicts db).
        co_open c \<and> co_open d \<and> conflict_fact c = conflict_fact d \<longrightarrow> co_conflict_id c = co_conflict_id d) \<and>
     (\<forall>m \<in> set (md_members db). fst m \<in> co_conflict_id ` set (md_conflicts db) \<and>
        snd m \<in> mr_record_id ` set (md_records db)) \<and>
     (\<forall>c \<in> set (md_conflicts db). \<forall>r \<in> set (md_records db).
        (co_conflict_id c, mr_record_id r) \<in> set (md_members db) \<longrightarrow> conflict_fact c = row_fact r)"

lemma conflicts_linkedD:
  assumes "conflicts_linked db"
  shows "unique_keys co_conflict_id (md_conflicts db)"
    "c \<in> set (md_conflicts db) \<Longrightarrow> d \<in> set (md_conflicts db) \<Longrightarrow> co_open c \<Longrightarrow> co_open d \<Longrightarrow>
       conflict_fact c = conflict_fact d \<Longrightarrow> co_conflict_id c = co_conflict_id d"
    "m \<in> set (md_members db) \<Longrightarrow> fst m \<in> co_conflict_id ` set (md_conflicts db) \<and>
       snd m \<in> mr_record_id ` set (md_records db)"
    "c \<in> set (md_conflicts db) \<Longrightarrow> r \<in> set (md_records db) \<Longrightarrow>
       (co_conflict_id c, mr_record_id r) \<in> set (md_members db) \<Longrightarrow> conflict_fact c = row_fact r"
  using assms unfolding conflicts_linked_def by blast+

definition memory_inv :: "MemoryEnv \<Rightarrow> MemoryDb \<Rightarrow> bool" where
  "memory_inv env db \<longleftrightarrow>
     unique_keys mr_record_id (md_records db) \<and> unique_keys mr_dedupe_key (md_records db) \<and>
     (\<forall>r \<in> set (md_records db). dedupe_ok env r) \<and> conflicts_linked db \<and> rivals_paired db"

lemma memory_invD:
  assumes "memory_inv env db"
  shows "unique_keys mr_record_id (md_records db)" "unique_keys mr_dedupe_key (md_records db)"
    "\<And>r. r \<in> set (md_records db) \<Longrightarrow> dedupe_ok env r" "conflicts_linked db" "rivals_paired db"
  using assms by (auto simp: memory_inv_def)

lemma memory_inv_same:
  assumes "memory_inv env db" "md_records db' = md_records db" "md_conflicts db' = md_conflicts db"
    "md_members db' = md_members db"
  shows "memory_inv env db'"
proof -
  have "conflicts_linked db' = conflicts_linked db" "rivals_paired db' = rivals_paired db"
    unfolding conflicts_linked_def rivals_paired_def paired_def assms(2-4) by (rule refl)+
  with assms(1,2) show ?thesis unfolding memory_inv_def by simp
qed

lemma memory_inv_empty: "memory_inv env empty_memory_db"
  by (simp add: memory_inv_def conflicts_linked_def rivals_paired_def unique_keys_def empty_memory_db_def)

lemma identity_of_fields:
  assumes "identity_of a = identity_of b"
  shows "mr_record_id a = mr_record_id b" "row_fact a = row_fact b" "mr_dedupe_key a = mr_dedupe_key b"
    "mr_value_hash a = mr_value_hash b" "dedupe_ok env a = dedupe_ok env b"
  using assms by (auto simp: identity_of_def row_fact_def dedupe_ok_def)

section \<open>Updates of rows and conflicts\<close>

text \<open>
  Rows and conflicts are rewritten in place. Rivals after the rewrite were rivals before it, stay
  conflicted, and no conflict of their fact changes.
\<close>

lemma memory_inv_map:
  assumes inv: "memory_inv env db"
    and recs: "md_records db' = map g (md_records db)" and confs: "md_conflicts db' = map h (md_conflicts db)"
    and mem: "md_members db' = md_members db"
    and g: "\<And>r. r \<in> set (md_records db) \<Longrightarrow> identity_of (g r) = identity_of r"
    and h: "\<And>c. co_conflict_id (h c) = co_conflict_id c \<and> conflict_fact (h c) = conflict_fact c \<and>
              (co_open (h c) \<longrightarrow> co_open c)"
    and pairs: "\<And>r s. r \<in> set (md_records db) \<Longrightarrow> s \<in> set (md_records db) \<Longrightarrow> rivals (g r) (g s) \<Longrightarrow>
       rivals r s \<and> (mr_status r = MST_CONFLICTED \<longrightarrow> mr_status (g r) = MST_CONFLICTED) \<and>
       (mr_status s = MST_CONFLICTED \<longrightarrow> mr_status (g s) = MST_CONFLICTED) \<and>
       (\<forall>c \<in> set (md_conflicts db). conflict_fact c = row_fact r \<and> co_open c \<longrightarrow> co_open (h c))"
  shows "memory_inv env db'"
proof -
  note ids = identity_of_fields[OF g]
  have "map mr_record_id (md_records db') = map mr_record_id (md_records db)"
    "map mr_dedupe_key (md_records db') = map mr_dedupe_key (md_records db)"
    "map co_conflict_id (md_conflicts db') = map co_conflict_id (md_conflicts db)"
    using ids(1,3) h by (auto simp: recs confs)
  note keys = this this[THEN arg_cong[where f = set]]
  have linked: "conflicts_linked db'"
    unfolding conflicts_linked_def
  proof (intro conjI)
    note old = memory_invD(4)[OF inv, unfolded conflicts_linked_def]
    show "unique_keys co_conflict_id (md_conflicts db')" using old keys(3) by (simp add: unique_keys_def)
    show "\<forall>c \<in> set (md_conflicts db'). \<forall>d \<in> set (md_conflicts db').
        co_open c \<and> co_open d \<and> conflict_fact c = conflict_fact d \<longrightarrow> co_conflict_id c = co_conflict_id d"
    proof (intro ballI impI)
      fix c d assume "c \<in> set (md_conflicts db')" "d \<in> set (md_conflicts db')"
        and open_cd: "co_open c \<and> co_open d \<and> conflict_fact c = conflict_fact d"
      then obtain c0 d0 where cd: "c0 \<in> set (md_conflicts db)" "d0 \<in> set (md_conflicts db)" "c = h c0" "d = h d0"
        unfolding confs by auto
      have "co_open c0 \<and> co_open d0 \<and> conflict_fact c0 = conflict_fact d0"
        using open_cd h[of c0] h[of d0] unfolding cd(3,4) by metis
      with old cd(1,2) have "co_conflict_id c0 = co_conflict_id d0" by blast
      then show "co_conflict_id c = co_conflict_id d" using h[of c0] h[of d0] unfolding cd(3,4) by metis
    qed
    show "\<forall>m \<in> set (md_members db'). fst m \<in> co_conflict_id ` set (md_conflicts db') \<and>
        snd m \<in> mr_record_id ` set (md_records db')"
      using old keys(4,6) unfolding mem by simp
    show "\<forall>c \<in> set (md_conflicts db'). \<forall>r \<in> set (md_records db').
        (co_conflict_id c, mr_record_id r) \<in> set (md_members db') \<longrightarrow> conflict_fact c = row_fact r"
    proof (intro ballI impI)
      fix c r assume "c \<in> set (md_conflicts db')" "r \<in> set (md_records db')"
        and member: "(co_conflict_id c, mr_record_id r) \<in> set (md_members db')"
      then obtain c0 r0 where cr: "c0 \<in> set (md_conflicts db)" "r0 \<in> set (md_records db)" "c = h c0" "r = g r0"
        unfolding confs recs by auto
      have "(co_conflict_id c0, mr_record_id r0) \<in> set (md_members db)"
        using member h[of c0] ids(1)[OF cr(2)] unfolding cr(3,4) mem by metis
      with old cr(1,2) have "conflict_fact c0 = row_fact r0" by blast
      then show "conflict_fact c = row_fact r" using h[of c0] ids(2)[OF cr(2)] unfolding cr(3,4) by metis
    qed
  qed
  have "rivals_paired db'"
    unfolding rivals_paired_def recs
  proof (clarsimp)
    fix r s assume rs: "r \<in> set (md_records db)" "s \<in> set (md_records db)" "rivals (g r) (g s)"
    note p = pairs[OF rs]
    with memory_invD(5)[OF inv] rs have "paired db r s" unfolding rivals_paired_def by blast
    then obtain c where c: "c \<in> set (md_conflicts db)" "co_open c" "conflict_fact c = row_fact r"
      "(co_conflict_id c, mr_record_id r) \<in> set (md_members db)"
      "(co_conflict_id c, mr_record_id s) \<in> set (md_members db)"
      and st: "mr_status r = MST_CONFLICTED" "mr_status s = MST_CONFLICTED" unfolding paired_def by blast
    from p c(1-3) have "co_open (h c)" by blast
    moreover have "h c \<in> set (md_conflicts db')" unfolding confs set_map by (rule imageI[OF c(1)])
    ultimately show "paired db' (g r) (g s)"
      unfolding paired_def mem
    proof (intro conjI bexI[of _ "h c"])
      show "conflict_fact (h c) = row_fact (g r)" using c(3) h[of c] ids(2)[OF rs(1)] by metis
      show "(co_conflict_id (h c), mr_record_id (g r)) \<in> set (md_members db)"
        "(co_conflict_id (h c), mr_record_id (g s)) \<in> set (md_members db)"
        using c(4,5) h[of c] ids(1)[OF rs(1)] ids(1)[OF rs(2)] by metis+
    qed (use p st in blast)+
  qed
  moreover have "\<forall>r \<in> set (md_records db'). dedupe_ok env r"
    using memory_invD(3)[OF inv] ids(5) unfolding recs by simp
  moreover have "unique_keys mr_record_id (md_records db')" "unique_keys mr_dedupe_key (md_records db')"
    using memory_invD(1,2)[OF inv] unfolding unique_keys_def keys(1,2) by auto
  ultimately show ?thesis using linked unfolding memory_inv_def by blast
qed

lemma memory_inv_rows:
  assumes inv: "memory_inv env db"
    and "md_records db' = map g (md_records db)" "md_conflicts db' = md_conflicts db"
    "md_members db' = md_members db"
    and g: "\<And>r. r \<in> set (md_records db) \<Longrightarrow> identity_of (g r) = identity_of r \<and>
       (active_status (mr_status (g r)) \<longrightarrow> active_status (mr_status r) \<and>
         (mr_status r = MST_CONFLICTED \<longrightarrow> mr_status (g r) = MST_CONFLICTED))"
  shows "memory_inv env db'"
proof (rule memory_inv_map[OF inv assms(2), where h = "\<lambda>c. c"])
  show "md_conflicts db' = map (\<lambda>c. c) (md_conflicts db)" using assms(3) by simp
  show "identity_of (g r) = identity_of r" if "r \<in> set (md_records db)" for r using g[OF that] by blast
  fix r s assume rs: "r \<in> set (md_records db)" "s \<in> set (md_records db)" "rivals (g r) (g s)"
  have "row_fact (g r) = row_fact r" "mr_record_id (g r) = mr_record_id r"
    "row_fact (g s) = row_fact s" "mr_record_id (g s) = mr_record_id s"
    using g rs(1,2) identity_of_fields by blast+
  with g[OF rs(1)] g[OF rs(2)] rs(3) show "rivals r s \<and> (mr_status r = MST_CONFLICTED \<longrightarrow> mr_status (g r) = MST_CONFLICTED) \<and>
       (mr_status s = MST_CONFLICTED \<longrightarrow> mr_status (g s) = MST_CONFLICTED) \<and>
       (\<forall>c \<in> set (md_conflicts db). conflict_fact c = row_fact r \<and> co_open c \<longrightarrow> co_open c)"
    by (simp add: rivals_def)
qed (use assms(4) in simp_all)

lemma memory_inv_update:
  assumes "memory_inv env db" "update_records p f db = Inr db'"
    "\<And>r. r \<in> set (md_records db) \<Longrightarrow> p r \<Longrightarrow> identity_of (f r) = identity_of r \<and>
       (active_status (mr_status (f r)) \<longrightarrow> active_status (mr_status r) \<and>
         (mr_status r = MST_CONFLICTED \<longrightarrow> mr_status (f r) = MST_CONFLICTED))"
  shows "memory_inv env db'"
  by (rule memory_inv_rows[OF assms(1), where g = "\<lambda>r. if p r then (f r)\<lparr>mr_revision := mr_revision r + 1\<rparr> else r"])
     (use assms(3) in \<open>auto simp: update_records_effect(1)[OF assms(2)]\<close>)

lemma memory_inv_stale:
  assumes "memory_inv env db" "make_stale env p t k a b c now db = Inr (n, db')"
  shows "memory_inv env db'"
  using make_stale_effect[OF assms(2)]
proof (elim disjE exE conjE)
  fix db1
  assume upd: "update_records p (\<lambda>r. r\<lparr>mr_status := MST_STALE, mr_updated_at := now\<rparr>) db = Inr db1"
    and same: "md_records db' = md_records db1" "md_conflicts db' = md_conflicts db" "md_members db' = md_members db"
  have "memory_inv env db1"
    by (rule memory_inv_update[OF assms(1) upd]) (simp add: active_status_def)
  with same update_records_others[OF upd] show ?thesis by (auto intro: memory_inv_same)
qed (use assms(1) in simp)

section \<open>New records\<close>

lemma add_member_set: "set (add_member cid rid ms) = insert (cid, rid) (set ms)"
  by (auto simp: add_member_def)

lemma fold_add_member_set: "set (fold (add_member cid) ids ms) = (Pair cid ` set ids) \<union> set ms"
  by (induction ids arbitrary: ms) (auto simp: add_member_set)

lemma open_conflict_of_Some:
  "open_conflict_of f db = Some c \<Longrightarrow> c \<in> set (md_conflicts db) \<and> conflict_fact c = f \<and> co_open c"
  unfolding open_conflict_of_def by (induction "md_conflicts db") (auto simp: find_Some_iff)

lemma open_conflict_of_None:
  "open_conflict_of f db = None \<Longrightarrow> c \<in> set (md_conflicts db) \<Longrightarrow> conflict_fact c = f \<Longrightarrow> \<not> co_open c"
  unfolding open_conflict_of_def by (auto simp: find_None_iff)

text \<open>
  A row of a new value is inserted: the invariant holds but for the rivals of the new row, which are
  the records that \<open>conflicts_with\<close> lists.
\<close>

definition inv_but :: "MemoryEnv \<Rightarrow> MemoryRow \<Rightarrow> MemoryDb \<Rightarrow> bool" where
  "inv_but env row db \<longleftrightarrow>
     unique_keys mr_record_id (md_records db) \<and> unique_keys mr_dedupe_key (md_records db) \<and>
     (\<forall>r \<in> set (md_records db). dedupe_ok env r) \<and> conflicts_linked db \<and> row \<in> set (md_records db) \<and>
     (\<forall>r \<in> set (md_records db). \<forall>s \<in> set (md_records db).
        rivals r s \<and> mr_record_id r \<noteq> mr_record_id row \<and> mr_record_id s \<noteq> mr_record_id row \<longrightarrow> paired db r s)"

lemma inv_but_insert:
  assumes inv: "memory_inv env db" and ins: "insert_record row db = Inr db1" and row: "dedupe_ok env row"
  shows "inv_but env row db1"
proof -
  note eff = insert_record_effect[OF ins]
  have recs: "md_records db1 = md_records db @ [row]" and confs: "md_conflicts db1 = md_conflicts db"
    and mem: "md_members db1 = md_members db" using eff by auto
  note old = conflicts_linkedD[OF memory_invD(4)[OF inv]]
  have "\<forall>m \<in> set (md_members db). snd m \<in> mr_record_id ` set (md_records db)" using old(3) by blast
  moreover have "mr_record_id row \<notin> mr_record_id ` set (md_records db)" using eff by blast
  ultimately have fresh: "(cid, mr_record_id row) \<notin> set (md_members db)" for cid by (metis snd_conv)
  have "conflicts_linked db1"
    unfolding conflicts_linked_def confs mem
  proof (intro conjI ballI impI)
    fix m assume "m \<in> set (md_members db)"
    from old(3)[OF this] show "fst m \<in> co_conflict_id ` set (md_conflicts db)"
      "snd m \<in> mr_record_id ` set (md_records db1)" unfolding recs by auto
  next
    fix c r assume c: "c \<in> set (md_conflicts db)" and r: "r \<in> set (md_records db1)"
      and m: "(co_conflict_id c, mr_record_id r) \<in> set (md_members db)"
    with fresh have "r \<in> set (md_records db)" unfolding recs by auto
    from old(4)[OF c this m] show "conflict_fact c = row_fact r" .
  qed (use old(1,2) in blast)+
  moreover have "paired db1 r s" if "r \<in> set (md_records db1)" "s \<in> set (md_records db1)" "rivals r s"
    "mr_record_id r \<noteq> mr_record_id row" "mr_record_id s \<noteq> mr_record_id row" for r s
    using that memory_invD(5)[OF inv] unfolding rivals_paired_def paired_def recs confs mem by auto
  moreover have "unique_keys mr_record_id (md_records db1)" "unique_keys mr_dedupe_key (md_records db1)"
    using memory_invD(1,2)[OF inv] eff unfolding recs unique_keys_snoc select_None by auto
  moreover have "\<forall>r \<in> set (md_records db1). dedupe_ok env r"
    using memory_invD(3)[OF inv] row unfolding recs by auto
  ultimately show ?thesis unfolding inv_but_def using recs by auto
qed

lemma inv_but_same:
  assumes "inv_but env row db" "md_records db' = md_records db" "md_conflicts db' = md_conflicts db"
    "md_members db' = md_members db"
  shows "inv_but env row db'"
proof -
  have "conflicts_linked db' = conflicts_linked db" "paired db' = paired db"
    unfolding conflicts_linked_def paired_def[abs_def] assms(2-4) by (rule refl)+
  with assms show ?thesis unfolding inv_but_def by simp
qed

text \<open>Same fact and same value is the same record, by the key that the table keeps unique.\<close>

lemma rivals_differ_in_value:
  assumes "unique_keys mr_dedupe_key rows" "\<forall>r \<in> set rows. dedupe_ok env r" "r \<in> set rows" "s \<in> set rows"
    "rivals r s"
  shows "mr_value_hash r \<noteq> mr_value_hash s"
proof
  assume same: "mr_value_hash r = mr_value_hash s"
  from assms(2-5) same have "mr_dedupe_key r = mr_dedupe_key s"
    unfolding dedupe_ok_def rivals_def row_fact_def by auto
  with assms(1,3,4) have "r = s" unfolding unique_keys_def by (metis inj_on_def distinct_map)
  with assms(5) show False by (simp add: rivals_def)
qed

lemma conflicts_with_rivals:
  assumes but: "inv_but env row db" and act: "active_status (mr_status row)" and r: "r \<in> set (md_records db)"
  shows "mr_record_id r \<in> set (conflicts_with row db) \<longleftrightarrow> rivals r row"
proof -
  have row: "row \<in> set (md_records db)" using but by (simp add: inv_but_def)
  have inj: "x = r" if "x \<in> set (md_records db)" "mr_record_id x = mr_record_id r" for x
    using but that r unfolding inv_but_def unique_keys_def by (metis inj_on_def distinct_map)
  have "rivals r row \<Longrightarrow> mr_value_hash r \<noteq> mr_value_hash row"
    using rivals_differ_in_value[of "md_records db" env r row] but r row unfolding inv_but_def by blast
  then have "rivals r row \<longleftrightarrow> row_fact r = row_fact row \<and> mr_value_hash r \<noteq> mr_value_hash row
        \<and> mr_record_id r \<noteq> mr_record_id row \<and> active_status (mr_status r)"
    using act unfolding rivals_def by blast
  moreover have "mr_record_id r \<in> set (conflicts_with row db) \<longleftrightarrow>
      (\<exists>x \<in> set (md_records db). mr_record_id x = mr_record_id r \<and> row_fact x = row_fact row \<and>
        mr_value_hash x \<noteq> mr_value_hash row \<and> mr_record_id x \<noteq> mr_record_id row \<and> active_status (mr_status x))"
    unfolding conflicts_with_def set_map set_filter image_iff Bex_def mem_Collect_eq by metis
  ultimately show ?thesis using inj r by metis
qed

lemma inv_but_alone:
  assumes but: "inv_but env row db" and act: "active_status (mr_status row)" and none: "conflicts_with row db = []"
  shows "memory_inv env db"
proof -
  have alone: "\<not> rivals r row" if "r \<in> set (md_records db)" for r
    using conflicts_with_rivals[OF but act that] none by simp
  have only: "x = row" if "x \<in> set (md_records db)" "mr_record_id x = mr_record_id row" for x
    using but that unfolding inv_but_def unique_keys_def by (metis inj_on_def distinct_map)
  have "paired db r s" if rs: "r \<in> set (md_records db)" "s \<in> set (md_records db)" "rivals r s" for r s
  proof -
    have "\<not> rivals s row" "\<not> rivals r row" using alone rs by auto
    with rs(3) have "r \<noteq> row" "s \<noteq> row" unfolding rivals_def by metis+
    with only rs(1,2) have "mr_record_id r \<noteq> mr_record_id row" "mr_record_id s \<noteq> mr_record_id row" by blast+
    with but rs show ?thesis unfolding inv_but_def by blast
  qed
  with but show ?thesis unfolding inv_but_def memory_inv_def rivals_paired_def by blast
qed

lemma conflicted_row_simps [simp]:
  "identity_of (conflicted_row ids now r) = identity_of r"
  "mr_record_id (conflicted_row ids now r) = mr_record_id r"
  "row_fact (conflicted_row ids now r) = row_fact r"
  "active_status (mr_status (conflicted_row ids now r)) = active_status (mr_status r)"
  by (auto simp: conflicted_row_def row_fact_def active_status_def)

lemma conflicts_linked_open:
  assumes linked: "conflicts_linked db"
    and recs: "md_records db' = map g (md_records db)"
    and g: "\<And>r. r \<in> set (md_records db) \<Longrightarrow> mr_record_id (g r) = mr_record_id r \<and> row_fact (g r) = row_fact r"
    and mem: "set (md_members db') = Pair (co_conflict_id c) ` ids \<union> set (md_members db)"
    and conf: "(c \<in> set (md_conflicts db) \<and> md_conflicts db' = md_conflicts db) \<or>
      (co_conflict_id c \<notin> co_conflict_id ` set (md_conflicts db) \<and> md_conflicts db' = md_conflicts db @ [c] \<and>
       (\<forall>d \<in> set (md_conflicts db). conflict_fact d = conflict_fact c \<longrightarrow> \<not> co_open d))"
    and ids: "\<And>i. i \<in> ids \<Longrightarrow> i \<in> mr_record_id ` set (md_records db)"
    and fact: "\<And>r. r \<in> set (md_records db) \<Longrightarrow> mr_record_id r \<in> ids \<Longrightarrow> row_fact r = conflict_fact c"
  shows "conflicts_linked db'"
  unfolding conflicts_linked_def
proof (intro conjI ballI impI)
  note old = conflicts_linkedD[OF linked]
  have new_cases: "d \<in> set (md_conflicts db) \<or> d = c" if "d \<in> set (md_conflicts db')" for d
    using conf that by auto
  have c_in: "c \<in> set (md_conflicts db')" using conf by auto
  show unique: "unique_keys co_conflict_id (md_conflicts db')"
    using conf old(1) by (auto simp: unique_keys_snoc select_None)
  have same: "d = e" if "d \<in> set (md_conflicts db')" "e \<in> set (md_conflicts db')" "co_conflict_id d = co_conflict_id e" for d e
    using unique that unfolding unique_keys_def by (metis inj_on_def distinct_map)
  show "co_conflict_id d = co_conflict_id e"
    if "d \<in> set (md_conflicts db')" "e \<in> set (md_conflicts db')"
      "co_open d \<and> co_open e \<and> conflict_fact d = conflict_fact e" for d e
    using new_cases[OF that(1)] new_cases[OF that(2)] that(3) old(2) conf by metis
  show "fst m \<in> co_conflict_id ` set (md_conflicts db')" if "m \<in> set (md_members db')" for m
    using that old(3)[of m] c_in conf unfolding mem by auto
  have "mr_record_id ` set (md_records db') = mr_record_id ` set (md_records db)"
    using g unfolding recs by (force simp: image_iff)
  then show "snd m \<in> mr_record_id ` set (md_records db')" if "m \<in> set (md_members db')" for m
    using that old(3)[of m] ids unfolding mem by auto
  fix d r assume d: "d \<in> set (md_conflicts db')" and "r \<in> set (md_records db')"
    and m: "(co_conflict_id d, mr_record_id r) \<in> set (md_members db')"
  then obtain r0 where r: "r0 \<in> set (md_records db)" "r = g r0" unfolding recs by auto
  show "conflict_fact d = row_fact r"
  proof (cases "(co_conflict_id d, mr_record_id r) \<in> set (md_members db)")
    case True
    with old(3) have "co_conflict_id d \<in> co_conflict_id ` set (md_conflicts db)" by force
    moreover have "set (md_conflicts db) \<subseteq> set (md_conflicts db')" using conf by auto
    ultimately have "d \<in> set (md_conflicts db)" using same d by blast
    from old(4)[OF this r(1)] True g[OF r(1)] r(2) show ?thesis by simp
  next
    case False
    with m have "co_conflict_id d = co_conflict_id c" "mr_record_id r \<in> ids" unfolding mem by auto
    with same[OF d c_in] fact[OF r(1)] g[OF r(1)] r(2) show ?thesis by simp
  qed
qed

lemma inv_but_conflict:
  assumes but: "inv_but env row db" and act: "active_status (mr_status row)"
    and open_c: "open_conflict row (conflicts_with row db) new_id now db = Inr db'"
  shows "memory_inv env db'"
proof -
  let ?ids = "mr_record_id row # conflicts_with row db"
  obtain cid where recs: "md_records db' = map (conflicted_row ?ids now) (md_records db)"
    and mem0: "md_members db' = fold (add_member cid) (dedup ?ids) (md_members db)"
    and conf0: "(\<exists>c. open_conflict_of (row_fact row) db = Some c \<and> cid = co_conflict_id c \<and> md_conflicts db' = md_conflicts db) \<or>
     (\<exists>c. open_conflict_of (row_fact row) db = None \<and> cid = co_conflict_id c \<and> co_open c \<and>
        conflict_fact c = row_fact row \<and> cid \<notin> co_conflict_id ` set (md_conflicts db) \<and>
        md_conflicts db' = md_conflicts db @ [c])"
    using open_conflict_effect[OF open_c] by metis
  from conf0 obtain c where cid: "cid = co_conflict_id c" and c: "co_open c" "conflict_fact c = row_fact row"
    and conf: "(c \<in> set (md_conflicts db) \<and> md_conflicts db' = md_conflicts db) \<or>
      (co_conflict_id c \<notin> co_conflict_id ` set (md_conflicts db) \<and> md_conflicts db' = md_conflicts db @ [c] \<and>
       (\<forall>d \<in> set (md_conflicts db). conflict_fact d = conflict_fact c \<longrightarrow> \<not> co_open d))"
    using open_conflict_of_Some open_conflict_of_None by metis
  have mem: "set (md_members db') = Pair (co_conflict_id c) ` set ?ids \<union> set (md_members db)"
    unfolding mem0 fold_add_member_set set_dedup cid by (rule refl)
  have row: "row \<in> set (md_records db)" and linked: "conflicts_linked db"
    and keys: "unique_keys mr_record_id (md_records db)" using but unfolding inv_but_def by auto
  have only: "x = row" if "x \<in> set (md_records db)" "mr_record_id x = mr_record_id row" for x
    using keys row that unfolding unique_keys_def by (metis inj_on_def distinct_map)
  have ids: "mr_record_id r \<in> set ?ids \<longleftrightarrow> r = row \<or> rivals r row" if "r \<in> set (md_records db)" for r
    using conflicts_with_rivals[OF but act that] only[OF that] by auto
  have "conflicts_linked db'"
  proof (rule conflicts_linked_open[OF linked recs _ mem conf])
    show "i \<in> mr_record_id ` set (md_records db)" if "i \<in> set ?ids" for i
      using that row unfolding conflicts_with_def by auto
    show "row_fact r = conflict_fact c" if "r \<in> set (md_records db)" "mr_record_id r \<in> set ?ids" for r
      using ids[OF that(1)] that(2) c(2) unfolding rivals_def by auto
  qed simp
  moreover have "rivals_paired db'"
    unfolding rivals_paired_def recs set_map
  proof (clarify)
    fix r s assume r: "r \<in> set (md_records db)" and s: "s \<in> set (md_records db)"
      and "rivals (conflicted_row ?ids now r) (conflicted_row ?ids now s)"
    then have rs: "rivals r s" by (simp add: rivals_def)
    show "paired db' (conflicted_row ?ids now r) (conflicted_row ?ids now s)"
    proof (cases "row_fact r = row_fact row")
      case True
      have here: "x = row \<or> rivals x row" if "x \<in> set (md_records db)" "row_fact x = row_fact row"
        "active_status (mr_status x)" for x
        using that only act unfolding rivals_def by blast
      have in_ids: "mr_record_id r \<in> set ?ids" "mr_record_id s \<in> set ?ids"
        using here[OF r] here[OF s] ids[OF r] ids[OF s] True rs unfolding rivals_def by auto
      then have "(co_conflict_id c, mr_record_id r) \<in> set (md_members db')"
        "(co_conflict_id c, mr_record_id s) \<in> set (md_members db')" unfolding mem by blast+
      moreover have "c \<in> set (md_conflicts db')" using conf by auto
      moreover have "mr_status (conflicted_row ?ids now r) = MST_CONFLICTED"
        "mr_status (conflicted_row ?ids now s) = MST_CONFLICTED"
        using in_ids rs unfolding conflicted_row_def rivals_def by auto
      ultimately show ?thesis unfolding paired_def using c True by auto
    next
      case False
      have "mr_record_id r \<noteq> mr_record_id row" "mr_record_id s \<noteq> mr_record_id row"
        using False rs only[OF r] only[OF s] unfolding rivals_def by auto
      with but rs r s have old: "paired db r s" unfolding inv_but_def by blast
      moreover have "set (md_conflicts db) \<subseteq> set (md_conflicts db')" using conf by auto
      moreover have "set (md_members db) \<subseteq> set (md_members db')" unfolding mem by blast
      moreover have "mr_status x = MST_CONFLICTED \<Longrightarrow> mr_status (conflicted_row ?ids now x) = MST_CONFLICTED" for x
        by (simp add: conflicted_row_def)
      ultimately show ?thesis unfolding paired_def by (simp only: conflicted_row_simps) blast
    qed
  qed
  moreover have "unique_keys mr_record_id (md_records db')" "unique_keys mr_dedupe_key (md_records db')"
    using but unfolding inv_but_def unique_keys_def recs
    by (simp_all add: comp_def identity_of_fields(3)[OF conflicted_row_simps(1)])
  moreover have "\<forall>r \<in> set (md_records db'). dedupe_ok env r"
    using but unfolding inv_but_def recs by (simp add: identity_of_fields(5)[OF conflicted_row_simps(1)])
  ultimately show ?thesis unfolding memory_inv_def by blast
qed

section \<open>Upsert\<close>

lemma normalized_status:
  assumes "normalize_request env r = Inr r'"
  shows "mu_status r' \<in> {MST_CANDIDATE, MST_CONFIRMED}"
proof -
  from assms obtain x where "validate_MemoryUpsertV1 x = Some r'"
    unfolding normalize_request_def and_then_Inr case_prod_beta or_fail_Inr guard_Inr by blast
  from validate_upsert_fields(8)[OF this] show ?thesis by (simp add: validate_scope_and_retention_def)
qed

lemma typed_request_status:
  "typed_request env r = Inr r' \<Longrightarrow> mu_status r' = mu_status r \<and> mu_source r' = mu_source r"
  unfolding typed_request_def by (auto split: if_splits)

lemma identity_dedupe:
  "identity env r = Inr ident \<Longrightarrow>
     mi_dedupe_key ident = dedupe_key_of env (mu_owner_id r) (mi_scope_key ident) (mu_record_type r) (mu_subject r)
       (mi_value_hash ident)"
  by (auto simp: identity_def Let_def)

lemma memory_inv_create:
  assumes inv: "memory_inv env db" and ident: "identity env r = Inr ident"
    and status: "mu_status r \<in> {MST_CANDIDATE, MST_CONFIRMED}"
    and create: "create_record env r ident ids now db = Inr db'"
  shows "memory_inv env db'"
proof -
  let ?row = "new_row r ident (fi_record ids) now"
  obtain db1 db2 db3 added where
    ins: "insert_record ?row db = Inr db1"
    and src: "add_source env (fi_record ids) (mu_source r) (mi_project ident) (fi_source ids) db1 = Inr (added, db2)"
    and conf: "(if conflicts_with ?row db2 = [] then Inr db2
      else open_conflict ?row (conflicts_with ?row db2) (fi_conflict ids) now db2) = Inr db3"
    and db': "md_records db' = md_records db3" "md_members db' = md_members db3" "md_conflicts db' = md_conflicts db3"
    using create_record_effect[OF create] by metis
  have row: "dedupe_ok env ?row" using identity_dedupe[OF ident] by (simp add: dedupe_ok_def new_row_def)
  have act: "active_status (mr_status ?row)" using status by (auto simp: new_row_def active_status_def)
  have "inv_but env ?row db2"
    using inv_but_same[OF inv_but_insert[OF inv ins row]] add_source_effect[OF src] by simp
  then have "memory_inv env db3"
    using conf inv_but_alone[OF _ act] inv_but_conflict[OF _ act] by (auto split: if_splits)
  with db' show ?thesis by (auto intro: memory_inv_same)
qed

text \<open>A stale record that becomes active again.\<close>

definition revives :: "MemoryDb \<Rightarrow> MemoryDb \<Rightarrow> bool" where
  "revives db db' \<longleftrightarrow>
     (\<exists>r \<in> set (md_records db). \<exists>r' \<in> set (md_records db').
        mr_record_id r = mr_record_id r' \<and> mr_status r = MST_STALE \<and> active_status (mr_status r'))"

lemma memory_inv_observe:
  assumes inv: "memory_inv env db" and sel: "select mr_dedupe_key k (md_records db) = Some existing"
    and obs: "observe_existing env r ident existing sid now db = Inr db'" and alive: "\<not> revives db db'"
  shows "memory_inv env db'"
proof -
  obtain added db1 where
    src: "add_source env (mr_record_id existing) (mu_source r) (mi_project ident) sid db = Inr (added, db1)"
    and no: "\<not> added \<Longrightarrow> db' = db1"
    and yes: "added \<Longrightarrow> \<exists>db2. update_records (\<lambda>row. mr_record_id row = mr_record_id existing)
       (observed_row r (if mr_status existing = MST_STALE then MST_CANDIDATE else mr_status existing) now) db1 = Inr db2 \<and>
       md_records db' = md_records db2 \<and> md_conflicts db' = md_conflicts db2 \<and> md_members db' = md_members db2"
    using observe_existing_effect[OF obs] by metis
  have inv1: "memory_inv env db1" using memory_inv_same[OF inv] add_source_effect[OF src] by blast
  show ?thesis
  proof (cases added)
    case True
    with yes obtain db2 where upd: "update_records (\<lambda>row. mr_record_id row = mr_record_id existing)
       (observed_row r (if mr_status existing = MST_STALE then MST_CANDIDATE else mr_status existing) now) db1 = Inr db2"
      and same: "md_records db' = md_records db2" "md_conflicts db' = md_conflicts db2" "md_members db' = md_members db2"
      by blast
    have ex: "existing \<in> set (md_records db)" using select_Some_in[OF sel] by blast
    have "mr_status existing \<noteq> MST_STALE"
    proof
      assume stale: "mr_status existing = MST_STALE"
      let ?g = "\<lambda>row. if mr_record_id row = mr_record_id existing
        then (observed_row r MST_CANDIDATE now row)\<lparr>mr_revision := mr_revision row + 1\<rparr> else row"
      have recs: "md_records db' = map ?g (md_records db)"
        using update_records_effect(1)[OF upd] add_source_effect[OF src] same(1) stale by simp
      have "?g existing \<in> set (md_records db')" unfolding recs set_map by (rule imageI[OF ex])
      moreover have "mr_record_id (?g existing) = mr_record_id existing" "mr_status (?g existing) = MST_CANDIDATE"
        by simp_all
      ultimately have "\<exists>r' \<in> set (md_records db'). mr_record_id existing = mr_record_id r' \<and> mr_status r' = MST_CANDIDATE"
        by (intro bexI[of _ "?g existing"]) simp_all
      with ex stale alive show False unfolding revives_def active_status_def by blast
    qed
    then have upd': "update_records (\<lambda>row. mr_record_id row = mr_record_id existing)
       (observed_row r (mr_status existing) now) db1 = Inr db2" using upd by simp
    have "memory_inv env db2"
    proof (rule memory_inv_update[OF inv1 upd'])
      fix row assume "row \<in> set (md_records db1)" and same_id: "mr_record_id row = mr_record_id existing"
      then have "row \<in> set (md_records db)" using add_source_effect[OF src] by simp
      then have "row = existing" by (rule select_only[OF sel memory_invD(1)[OF inv] _ same_id])
      then show "identity_of (observed_row r (mr_status existing) now row) = identity_of row \<and>
         (active_status (mr_status (observed_row r (mr_status existing) now row)) \<longrightarrow> active_status (mr_status row) \<and>
           (mr_status row = MST_CONFLICTED \<longrightarrow> mr_status (observed_row r (mr_status existing) now row) = MST_CONFLICTED))"
        by simp
    qed
    with same show ?thesis by (auto intro: memory_inv_same)
  qed (use no inv1 in simp)
qed

lemma memory_inv_upsert:
  assumes inv: "memory_inv env db" and ups: "upsert_in_transaction env trusted request ids now db = Inr (rid, created, db')"
    and alive: "\<not> revives db db'"
  shows "memory_inv env db'"
proof -
  obtain r0 r ident where r: "normalize_request env request = Inr r0" "typed_request env r0 = Inr r"
    and ident: "identity env r = Inr ident"
    and cases: "(\<exists>existing. select mr_dedupe_key (mi_dedupe_key ident) (md_records db) = Some existing \<and>
        rid = mr_record_id existing \<and> \<not> created \<and>
        observe_existing env r ident existing (fi_source ids) now db = Inr db') \<or>
     (select mr_dedupe_key (mi_dedupe_key ident) (md_records db) = None \<and> rid = fi_record ids \<and> created \<and>
        create_record env r ident ids now db = Inr db')"
    using upsert_effect[OF ups] by metis
  have "mu_status r \<in> {MST_CANDIDATE, MST_CONFIRMED}"
    using normalized_status[OF r(1)] typed_request_status[OF r(2)] by simp
  with cases show ?thesis
    using memory_inv_observe[OF inv _ _ alive] memory_inv_create[OF inv ident] by blast
qed

section \<open>Confirm, reject and delete\<close>

lemma open_conflict_with_Some:
  "open_conflict_with rid db = Some c \<Longrightarrow>
     c \<in> set (md_conflicts db) \<and> co_open c \<and> (co_conflict_id c, rid) \<in> set (md_members db)"
  unfolding open_conflict_with_def by (auto simp: find_Some_iff)

text \<open>The rivals of a record are the other members of its open conflict, and conflicted.\<close>

lemma rivals_are_members:
  assumes inv: "memory_inv env db" and row: "row \<in> set (md_records db)" and x: "x \<in> set (md_records db)"
    and riv: "rivals x row"
  shows "mr_status x = MST_CONFLICTED" "mr_status row = MST_CONFLICTED"
    "\<exists>c. open_conflict_with (mr_record_id row) db = Some c \<and>
       mr_record_id x \<in> set (other_members (co_conflict_id c) (mr_record_id row) db)"
proof -
  note linked = conflicts_linkedD[OF memory_invD(4)[OF inv]]
  from memory_invD(5)[OF inv] row x riv have p: "paired db x row" unfolding rivals_paired_def by blast
  then show "mr_status x = MST_CONFLICTED" "mr_status row = MST_CONFLICTED" unfolding paired_def by auto
  from p obtain d where d: "d \<in> set (md_conflicts db)" "co_open d" "conflict_fact d = row_fact x"
    "(co_conflict_id d, mr_record_id x) \<in> set (md_members db)"
    "(co_conflict_id d, mr_record_id row) \<in> set (md_members db)" unfolding paired_def by blast
  then have "open_conflict_with (mr_record_id row) db \<noteq> None"
    unfolding open_conflict_with_def find_None_iff by blast
  then obtain c where c: "open_conflict_with (mr_record_id row) db = Some c" by blast
  note c' = open_conflict_with_Some[OF c]
  have "conflict_fact c = conflict_fact d"
    using linked(4)[of c row] c' row d(3) riv unfolding rivals_def by metis
  then have "co_conflict_id c = co_conflict_id d" using linked(2)[of c d] c' d(1,2) by metis
  with d(4) have "(co_conflict_id c, mr_record_id x) \<in> set (md_members db)" by simp
  moreover have "mr_record_id x \<noteq> mr_record_id row" using riv by (simp add: rivals_def)
  ultimately have "mr_record_id x \<in> set (other_members (co_conflict_id c) (mr_record_id row) db)"
    unfolding other_members_def by force
  with c show "\<exists>c. open_conflict_with (mr_record_id row) db = Some c \<and>
       mr_record_id x \<in> set (other_members (co_conflict_id c) (mr_record_id row) db)" by blast
qed

lemma memory_inv_confirm:
  assumes inv: "memory_inv env db" and sel: "select_owned rid owner db = Some row"
    and st: "mr_status row = MST_CONFLICTED" and res: "resolve_conflict rid now db = Inr (affected, db1)"
    and upd: "update_records (\<lambda>r. mr_record_id r = rid)
       (\<lambda>r. r\<lparr>mr_status := MST_CONFIRMED, mr_deleted_at := d, mr_updated_at := now\<rparr>) db1 = Inr db2"
  shows "memory_inv env db2"
proof -
  have row: "row \<in> set (md_records db)" "mr_record_id row = rid" using select_owned_Some[OF sel] by auto
  have only: "x = row" if "x \<in> set (md_records db)" "mr_record_id x = rid" for x
    by (rule select_owned_only[OF sel memory_invD(1)[OF inv] that])
  obtain others h where recs1: "md_records db1 = map (rejected_row others now) (md_records db)"
    and confs1: "md_conflicts db1 = map h (md_conflicts db)" and mem1: "md_members db1 = md_members db"
    and h: "\<And>c. co_conflict_id (h c) = co_conflict_id c \<and> conflict_fact (h c) = conflict_fact c \<and> (co_open (h c) \<longrightarrow> co_open c)"
    and others: "\<And>x. x \<in> set (md_records db) \<Longrightarrow> rivals x row \<Longrightarrow> mr_record_id x \<in> set others"
    and far: "\<And>c. c \<in> set (md_conflicts db) \<Longrightarrow> conflict_fact c \<noteq> row_fact row \<Longrightarrow> h c = c"
  proof (cases "open_conflict_with rid db")
    case None
    then have "db1 = db" using resolve_conflict_effect[OF res] by simp
    moreover have "rejected_row [] now = (\<lambda>r. r)" by (simp add: rejected_row_def fun_eq_iff)
    ultimately show thesis
      using that[of "[]" "\<lambda>c. c"] rivals_are_members(3)[OF inv row(1)] None row(2) by auto
  next
    case (Some c)
    note eff = resolve_conflict_effect[OF res] and c = open_conflict_with_Some[OF Some]
    have fact: "conflict_fact c = row_fact row"
      using conflicts_linkedD(4)[OF memory_invD(4)[OF inv], of c row] c row by metis
    have same: "e = c" if "e \<in> set (md_conflicts db)" "co_conflict_id e = co_conflict_id c" for e
      using conflicts_linkedD(1)[OF memory_invD(4)[OF inv]] c that unfolding unique_keys_def
      by (metis inj_on_def distinct_map)
    show thesis
    proof (rule that[of "other_members (co_conflict_id c) rid db" "closed_conflict (co_conflict_id c) rid now"])
      show "md_records db1 = map (rejected_row (other_members (co_conflict_id c) rid db) now) (md_records db)"
        "md_conflicts db1 = map (closed_conflict (co_conflict_id c) rid now) (md_conflicts db)"
        "md_members db1 = md_members db" using eff Some by auto
      show "co_conflict_id (closed_conflict (co_conflict_id c) rid now e) = co_conflict_id e \<and>
        conflict_fact (closed_conflict (co_conflict_id c) rid now e) = conflict_fact e \<and>
        (co_open (closed_conflict (co_conflict_id c) rid now e) \<longrightarrow> co_open e)" for e
        by (simp add: closed_conflict_def conflict_fact_def)
      show "mr_record_id x \<in> set (other_members (co_conflict_id c) rid db)"
        if "x \<in> set (md_records db)" "rivals x row" for x
        using rivals_are_members(3)[OF inv row(1) that] Some row(2) by simp
      show "closed_conflict (co_conflict_id c) rid now e = e"
        if "e \<in> set (md_conflicts db)" "conflict_fact e \<noteq> row_fact row" for e
        using same[OF that(1)] that(2) fact by (auto simp: closed_conflict_def)
    qed
  qed
  define up :: "MemoryRow \<Rightarrow> MemoryRow" where "up = (\<lambda>r. if mr_record_id r = rid
    then r\<lparr>mr_status := MST_CONFIRMED, mr_deleted_at := d, mr_updated_at := now, mr_revision := mr_revision r + 1\<rparr> else r)"
  have recs: "md_records db2 = map (up \<circ> rejected_row others now) (md_records db)"
    unfolding update_records_effect(1)[OF upd] using recs1 by (simp add: up_def)
  have up: "identity_of (up r) = identity_of r" "mr_record_id (up r) = mr_record_id r" "row_fact (up r) = row_fact r" for r
    by (simp_all add: up_def row_fact_def)
  show ?thesis
  proof (rule memory_inv_map[OF inv recs _ _ _ h])
    show "md_conflicts db2 = map h (md_conflicts db)" "md_members db2 = md_members db"
      using update_records_others[OF upd] confs1 mem1 by auto
    show "identity_of ((up \<circ> rejected_row others now) r) = identity_of r" for r by (simp add: up)
    fix r s assume r: "r \<in> set (md_records db)" and s: "s \<in> set (md_records db)"
      and riv: "rivals ((up \<circ> rejected_row others now) r) ((up \<circ> rejected_row others now) s)"
    have kept: "active_status (mr_status x) \<and> mr_status (up (rejected_row others now x)) = mr_status x"
      if "active_status (mr_status (up (rejected_row others now x)))" "mr_record_id x \<noteq> rid" for x
      using that unfolding up_def rejected_row_def active_status_def by (auto split: if_splits)
    have gone: False if x: "x \<in> set (md_records db)" "row_fact x = row_fact row" "mr_record_id x \<noteq> rid"
      "active_status (mr_status (up (rejected_row others now x)))" for x
    proof -
      have ract: "active_status (mr_status row)" using st by (simp add: active_status_def)
      have "rivals x row" using kept[OF x(4,3)] x row(2) ract unfolding rivals_def by simp
      then have "mr_status x = MST_CONFLICTED" "mr_record_id x \<in> set others"
        using rivals_are_members(1)[OF inv row(1) x(1)] others[OF x(1)] by auto
      then have "mr_status (up (rejected_row others now x)) = MST_REJECTED"
        using x(3) by (simp add: up_def rejected_row_def)
      with x(4) show False by (simp add: active_status_def)
    qed
    have acts: "active_status (mr_status (up (rejected_row others now r)))"
      "active_status (mr_status (up (rejected_row others now s)))"
      and ids: "mr_record_id r \<noteq> mr_record_id s" and facts: "row_fact r = row_fact s"
      using riv up by (auto simp: rivals_def)
    have "row_fact r \<noteq> row_fact row"
    proof
      assume same: "row_fact r = row_fact row"
      show False
      proof (cases "mr_record_id r = rid")
        case True
        with ids have "mr_record_id s \<noteq> rid" by simp
        from gone[OF s _ this acts(2)] same facts show False by simp
      next
        case False
        from gone[OF r same False acts(1)] show False .
      qed
    qed
    moreover from this have "mr_record_id r \<noteq> rid" "mr_record_id s \<noteq> rid"
      using only[OF r] only[OF s] facts by auto
    ultimately show "rivals r s \<and> (mr_status r = MST_CONFLICTED \<longrightarrow> mr_status ((up \<circ> rejected_row others now) r) = MST_CONFLICTED) \<and>
       (mr_status s = MST_CONFLICTED \<longrightarrow> mr_status ((up \<circ> rejected_row others now) s) = MST_CONFLICTED) \<and>
       (\<forall>c \<in> set (md_conflicts db). conflict_fact c = row_fact r \<and> co_open c \<longrightarrow> co_open (h c))"
      using kept[OF acts(1)] kept[OF acts(2)] ids facts far unfolding rivals_def by simp
  qed
qed

lemma memory_inv_transition:
  assumes inv: "memory_inv env db"
    and tr: "transition_memory env' rid owner actor target reason expected now db = Inr db'"
  shows "memory_inv env db'"
proof -
  obtain row affected db1 db2 where
    sel: "select_owned rid owner db = Some row" and allowed: "transition_allowed (mr_status row) target"
    and db1: "(if target = MST_CONFIRMED \<and> mr_status row = MST_CONFLICTED then resolve_conflict rid now db else Inr (1, db))
       = Inr (affected, db1)"
    and upd: "update_records (\<lambda>r. mr_record_id r = rid)
       (\<lambda>r. r\<lparr>mr_status := target, mr_deleted_at := (if target = MST_DELETED then Some now else None),
          mr_updated_at := now\<rparr>) db1 = Inr db2"
    and same: "md_records db' = md_records db2" "md_conflicts db' = md_conflicts db2" "md_members db' = md_members db2"
    using transition_effect[OF tr] by metis
  have "memory_inv env db2"
  proof (cases "target = MST_CONFIRMED \<and> mr_status row = MST_CONFLICTED")
    case True
    with db1 upd have "resolve_conflict rid now db = Inr (affected, db1)"
      "update_records (\<lambda>r. mr_record_id r = rid)
       (\<lambda>r. r\<lparr>mr_status := MST_CONFIRMED, mr_deleted_at := None, mr_updated_at := now\<rparr>) db1 = Inr db2" by auto
    from memory_inv_confirm[OF inv sel _ this] True show ?thesis by blast
  next
    case False
    with db1 have "db1 = db" by auto
    show ?thesis
    proof (rule memory_inv_update[OF inv upd[unfolded \<open>db1 = db\<close>]])
      fix r assume "r \<in> set (md_records db)" "mr_record_id r = rid"
      then have "r = row" by (rule select_owned_only[OF sel memory_invD(1)[OF inv]])
      with allowed False show "identity_of (r\<lparr>mr_status := target, mr_deleted_at := (if target = MST_DELETED then Some now else None),
          mr_updated_at := now\<rparr>) = identity_of r \<and>
       (active_status (mr_status (r\<lparr>mr_status := target, mr_deleted_at := (if target = MST_DELETED then Some now else None),
          mr_updated_at := now\<rparr>)) \<longrightarrow> active_status (mr_status r) \<and>
         (mr_status r = MST_CONFLICTED \<longrightarrow> mr_status (r\<lparr>mr_status := target,
            mr_deleted_at := (if target = MST_DELETED then Some now else None), mr_updated_at := now\<rparr>) = MST_CONFLICTED))"
        by (cases target) (auto simp: active_status_def)
    qed
  qed
  with same show ?thesis by (auto intro: memory_inv_same)
qed

section \<open>Supersede and purge\<close>

lemma memory_inv_supersede:
  assumes inv: "memory_inv env db" and alive: "\<not> revives db db'"
    and sup: "supersede_memory env rid v source owner actor status ids now db = Inr (new_id, db')"
  shows "memory_inv env db'"
proof -
  obtain old request db1 created db2 where
    sel: "select_owned rid owner db = Some old"
    and upd: "update_records (\<lambda>r. mr_record_id r = rid)
       (\<lambda>r. r\<lparr>mr_status := MST_SUPERSEDED, mr_valid_to := Some now, mr_updated_at := now\<rparr>) db = Inr db1"
    and ups: "upsert_in_transaction env False request ids now db1 = Inr (new_id, created, db2)"
    and same: "md_records db' = md_records db2" "md_conflicts db' = md_conflicts db2" "md_members db' = md_members db2"
    using supersede_effect[OF sup] by metis
  have inv1: "memory_inv env db1" by (rule memory_inv_update[OF inv upd]) (simp add: active_status_def)
  have "\<not> revives db1 db2"
  proof
    assume "revives db1 db2"
    then obtain r1 r' where r1: "r1 \<in> set (md_records db1)" and r': "r' \<in> set (md_records db2)"
      "mr_record_id r1 = mr_record_id r'" "mr_status r1 = MST_STALE" "active_status (mr_status r')"
      unfolding revives_def by blast
    from r1 obtain r where r: "r \<in> set (md_records db)" "r1 = (if mr_record_id r = rid
        then r\<lparr>mr_status := MST_SUPERSEDED, mr_valid_to := Some now, mr_updated_at := now, mr_revision := mr_revision r + 1\<rparr>
        else r)"
      unfolding update_records_effect(1)[OF upd] by auto
    with r' have "mr_status r = MST_STALE" "mr_record_id r = mr_record_id r'" by (auto split: if_splits)
    with r(1) r' same(1) alive show False unfolding revives_def by auto
  qed
  from memory_inv_upsert[OF inv1 ups this] same show ?thesis by (auto intro: memory_inv_same)
qed

lemma conflicts_linked_filter:
  assumes linked: "conflicts_linked db"
    and recs: "md_records db' = filter (\<lambda>r. \<not> gone (mr_record_id r)) (md_records db)"
    and mem: "md_members db' = filter (\<lambda>m. \<not> gone (snd m)) (md_members db)"
    and confs: "md_conflicts db' = filter Q (md_conflicts db)"
    and Q: "\<And>c. c \<in> set (md_conflicts db) \<Longrightarrow> co_conflict_id c \<in> fst ` set (md_members db') \<Longrightarrow> Q c"
  shows "conflicts_linked db'"
  unfolding conflicts_linked_def
proof (intro conjI ballI impI)
  note old = conflicts_linkedD[OF linked]
  show "unique_keys co_conflict_id (md_conflicts db')"
    using old(1) unfolding confs unique_keys_def by (simp add: distinct_map_filter)
  show "co_conflict_id c = co_conflict_id d"
    if "c \<in> set (md_conflicts db')" "d \<in> set (md_conflicts db')" "co_open c \<and> co_open d \<and> conflict_fact c = conflict_fact d" for c d
    using old(2)[of c d] that unfolding confs by auto
  fix m assume m: "m \<in> set (md_members db')"
  then have "m \<in> set (md_members db)" "\<not> gone (snd m)" unfolding mem by auto
  from old(3)[OF this(1)] obtain c r where "c \<in> set (md_conflicts db)" "fst m = co_conflict_id c"
    "r \<in> set (md_records db)" "snd m = mr_record_id r" by auto
  with Q[of c] m \<open>\<not> gone (snd m)\<close> show "fst m \<in> co_conflict_id ` set (md_conflicts db')"
    "snd m \<in> mr_record_id ` set (md_records db')" unfolding confs recs by force+
next
  note old = conflicts_linkedD[OF linked]
  fix c r assume "c \<in> set (md_conflicts db')" "r \<in> set (md_records db')"
    "(co_conflict_id c, mr_record_id r) \<in> set (md_members db')"
  with old(4)[of c r] show "conflict_fact c = row_fact r" unfolding confs recs mem by auto
qed

lemma memory_inv_filter:
  assumes inv: "memory_inv env db"
    and recs: "md_records db' = filter (\<lambda>r. \<not> gone (mr_record_id r)) (md_records db)"
    and mem: "md_members db' = filter (\<lambda>m. \<not> gone (snd m)) (md_members db)"
    and confs: "md_conflicts db' = filter Q (md_conflicts db)"
    and Q: "\<And>c. c \<in> set (md_conflicts db) \<Longrightarrow> co_conflict_id c \<in> fst ` set (md_members db') \<Longrightarrow> Q c"
  shows "memory_inv env db'"
proof -
  have "paired db' r s" if r: "r \<in> set (md_records db')" and s: "s \<in> set (md_records db')" and riv: "rivals r s" for r s
  proof -
    from r s have "r \<in> set (md_records db)" "s \<in> set (md_records db)" "\<not> gone (mr_record_id r)" "\<not> gone (mr_record_id s)"
      unfolding recs by auto
    with riv memory_invD(5)[OF inv] have p: "paired db r s" unfolding rivals_paired_def by blast
    then obtain c where c: "c \<in> set (md_conflicts db)" "co_open c" "conflict_fact c = row_fact r"
      "(co_conflict_id c, mr_record_id r) \<in> set (md_members db)"
      "(co_conflict_id c, mr_record_id s) \<in> set (md_members db)" unfolding paired_def by blast
    have m: "(co_conflict_id c, mr_record_id r) \<in> set (md_members db')"
      "(co_conflict_id c, mr_record_id s) \<in> set (md_members db')"
      using c(4,5) \<open>\<not> gone (mr_record_id r)\<close> \<open>\<not> gone (mr_record_id s)\<close> unfolding mem by auto
    then have "Q c" using Q[OF c(1)] by force
    with c(1) have "c \<in> set (md_conflicts db')" unfolding confs by simp
    with p c m show ?thesis unfolding paired_def by blast
  qed
  moreover have "unique_keys mr_record_id (md_records db')" "unique_keys mr_dedupe_key (md_records db')"
    using memory_invD(1,2)[OF inv] unfolding recs unique_keys_def by (simp_all add: distinct_map_filter)
  moreover have "\<forall>r \<in> set (md_records db'). dedupe_ok env r"
    using memory_invD(3)[OF inv] unfolding recs by simp
  moreover have "conflicts_linked db'"
    by (rule conflicts_linked_filter[OF memory_invD(4)[OF inv] recs mem confs Q])
  ultimately show ?thesis unfolding memory_inv_def rivals_paired_def by blast
qed

lemma memory_inv_delete:
  assumes inv: "memory_inv env db" and recs: "md_records db' = md_records (delete_records gone db)"
    and confs: "md_conflicts db' = md_conflicts (delete_records gone db) \<or>
      md_conflicts db' = md_conflicts (delete_empty_conflicts (delete_records gone db))"
    and mem: "md_members db' = md_members (delete_records gone db)"
  shows "memory_inv env db'"
proof -
  let ?u = "\<lambda>c. c\<lparr>co_resolution_record_id := unlink gone (co_resolution_record_id c)\<rparr>"
  let ?g = "\<lambda>r. r\<lparr>mr_supersedes := unlink gone (mr_supersedes r)\<rparr>"
  let ?Q = "if md_conflicts db' = md_conflicts (delete_records gone db) then (\<lambda>_. True)
    else (\<lambda>c. co_conflict_id c \<in> fst ` set (filter (\<lambda>m. \<not> gone (snd m)) (md_members db)))"
  define mid where "mid = db\<lparr>md_records := filter (\<lambda>r. \<not> gone (mr_record_id r)) (md_records db),
    md_members := filter (\<lambda>m. \<not> gone (snd m)) (md_members db), md_conflicts := filter ?Q (md_conflicts db)\<rparr>"
  have mid: "memory_inv env mid"
    by (rule memory_inv_filter[OF inv, of mid gone ?Q]) (simp_all add: mid_def)
  show ?thesis
  proof (rule memory_inv_map[OF mid, where g = ?g and h = ?u])
    show "md_records db' = map ?g (md_records mid)" using recs by (simp add: mid_def delete_records_def)
    show "md_members db' = md_members mid" using mem by (simp add: mid_def delete_records_def)
    show "md_conflicts db' = map ?u (md_conflicts mid)"
      using confs by (auto simp: mid_def delete_records_def delete_empty_conflicts_def filter_map comp_def)
    show "co_conflict_id (?u c) = co_conflict_id c \<and> conflict_fact (?u c) = conflict_fact c \<and> (co_open (?u c) \<longrightarrow> co_open c)" for c
      by (simp add: conflict_fact_def)
    show "rivals r s \<and> (mr_status r = MST_CONFLICTED \<longrightarrow> mr_status (?g r) = MST_CONFLICTED) \<and>
       (mr_status s = MST_CONFLICTED \<longrightarrow> mr_status (?g s) = MST_CONFLICTED) \<and>
       (\<forall>c \<in> set (md_conflicts mid). conflict_fact c = row_fact r \<and> co_open c \<longrightarrow> co_open (?u c))"
      if "rivals (?g r) (?g s)" for r s
      using that by (simp add: rivals_def row_fact_def)
  qed simp
qed

lemma memory_inv_purge_one:
  assumes "memory_inv env db"
  shows "memory_inv env (purge_one env' uri actor now row db)"
proof -
  define db1 where "db1 = db\<lparr>md_sources := filter (\<lambda>s. \<not> (sr_record_id s = mr_record_id row \<and> purged_source uri s)) (md_sources db)\<rparr>"
  have inv1: "memory_inv env db1" by (rule memory_inv_same[OF assms]) (simp_all add: db1_def)
  define db2 where "db2 = (if \<not> list_ex (\<lambda>s. sr_record_id s = mr_record_id row) (md_sources db1)
    then delete_records (\<lambda>i. i = mr_record_id row) db1 else db1)"
  have "memory_inv env db2"
    using inv1 memory_inv_delete[OF inv1, of "delete_records (\<lambda>i. i = mr_record_id row) db1"] by (simp add: db2_def)
  then show ?thesis
    by (rule memory_inv_same) (simp_all add: purge_one_def Let_def db1_def db2_def)
qed

lemma memory_inv_empty_conflicts:
  assumes "memory_inv env db"
  shows "memory_inv env (delete_empty_conflicts db)"
  by (rule memory_inv_filter[OF assms, where gone = "\<lambda>_. False"
      and Q = "\<lambda>c. co_conflict_id c \<in> fst ` set (md_members db)"])
     (simp_all add: delete_empty_conflicts_def)

lemma memory_inv_purge_source:
  assumes "memory_inv env db"
  shows "memory_inv env (fold (purge_one env' uri actor now) rows db)"
  using assms by (induction rows arbitrary: db) (simp_all add: memory_inv_purge_one)

section \<open>Every operation\<close>

lemma memory_op_inv:
  assumes inv: "memory_inv env db" and op: "apply_memory_op env op db = Inr db'" and alive: "\<not> revives db db'"
  shows "memory_inv env db'"
proof (cases op)
  case (OpHardPurge rid confirmed owner actor now)
  with op have "hard_purge env rid confirmed owner actor now db = Inr db'" by simp
  note eff = hard_purge_effect[OF this]
  show ?thesis by (rule memory_inv_delete[OF inv eff(3) disjI2[OF eff(6)] eff(5)])
next
  case (OpPurgeSource uri confirmed project owner actor now)
  with op have "hard_purge_source env uri confirmed project owner actor now db = Inr db'" by simp
  then obtain rows where "db' = delete_empty_conflicts (fold (purge_one env uri actor now) rows db)"
    by (rule hard_purge_source_effect)
  with memory_inv_empty_conflicts[OF memory_inv_purge_source[OF inv]] show ?thesis by simp
qed (use inv op alive in \<open>auto simp: confirm_memory_def reject_memory_def soft_delete_memory_def sweep_retention_def
  invalidate_project_commit_def invalidate_source_def Let_def
  intro: memory_inv_transition memory_inv_stale memory_inv_upsert memory_inv_supersede\<close>)

end
