(* ===== verification/MemoryProperties.thy ===== *)
theory MemoryProperties
  imports MemoryConflicts
begin

text \<open>
  What the memory store guarantees: agreement of confirmed memories, the life cycle of a record, who
  can confirm, and complete purges; with a run of each.
\<close>

section \<open>Reachable databases\<close>

text \<open>Databases that operations reach from the empty one without reviving a stale record.\<close>

inductive memory_reachable :: "MemoryEnv \<Rightarrow> MemoryDb \<Rightarrow> bool" for env where
  start: "memory_reachable env empty_memory_db"
| step: "memory_reachable env db \<Longrightarrow> apply_memory_op env op db = Inr db' \<Longrightarrow> \<not> revives db db' \<Longrightarrow>
    memory_reachable env db'"

lemma reachable_memory_inv: "memory_reachable env db \<Longrightarrow> memory_inv env db"
  by (induction rule: memory_reachable.induct) (auto intro: memory_inv_empty memory_op_inv)

fun run_memory :: "MemoryEnv \<Rightarrow> MemoryOp list \<Rightarrow> MemoryDb \<Rightarrow> MemoryDb memory_result" where
  "run_memory env [] db = Inr db"
| "run_memory env (op # ops) db = and_then (apply_memory_op env op db) (run_memory env ops)"

text \<open>
  C30: Confirmed memories never contradict each other. In a database reached without reviving a stale
  record, two records of one fact (owner, scope, type and subject) are never both confirmed; as long
  as both are active, they are marked conflicted and belong to one open conflict of that fact.
\<close>

theorem confirmed_memories_never_contradict:
  assumes "memory_reachable env db" "r \<in> set (md_records db)" "s \<in> set (md_records db)"
    "mr_record_id r \<noteq> mr_record_id s" "row_fact r = row_fact s"
  shows "\<not> (mr_status r = MST_CONFIRMED \<and> mr_status s = MST_CONFIRMED) \<and>
    (active_status (mr_status r) \<and> active_status (mr_status s) \<longrightarrow>
      mr_status r = MST_CONFLICTED \<and> mr_status s = MST_CONFLICTED \<and>
      (\<exists>c \<in> set (md_conflicts db). co_open c \<and> conflict_fact c = row_fact r \<and>
        (co_conflict_id c, mr_record_id r) \<in> set (md_members db) \<and>
        (co_conflict_id c, mr_record_id s) \<in> set (md_members db)))"
proof -
  have "rivals r s \<longrightarrow> paired db r s"
    using memory_invD(5)[OF reachable_memory_inv[OF assms(1)]] assms(2,3) unfolding rivals_paired_def by blast
  moreover have "active_status (mr_status r) \<and> active_status (mr_status s) \<longrightarrow> rivals r s"
    using assms(4,5) unfolding rivals_def by blast
  ultimately have active: "active_status (mr_status r) \<and> active_status (mr_status s) \<longrightarrow> paired db r s" by blast
  then have "\<not> (mr_status r = MST_CONFIRMED \<and> mr_status s = MST_CONFIRMED)"
    unfolding paired_def by (metis MemoryStatus.distinct(13) active_status_def insertCI)
  with active show ?thesis unfolding paired_def by blast
qed

text \<open>
  A record keeps its identity and moves forward only. Over every operation that commits, a record
  that stays in the table keeps owner, scope, subject, value, retention, authorship and creation time;
  its revision grows with every change but the loss of a purged predecessor; a rejected, superseded
  or deleted record never becomes active or stale again, and a deleted one stays deleted.
\<close>

theorem memory_records_move_forward_only:
  assumes "unique_keys mr_record_id (md_records db)" "apply_memory_op env op db = Inr db'"
    "r \<in> set (md_records db)" "r' \<in> set (md_records db')" "mr_record_id r' = mr_record_id r"
  shows "identity_of r' = identity_of r \<and> mr_revision r \<le> mr_revision r' \<and>
    (mr_revision r' = mr_revision r \<longrightarrow> r'\<lparr>mr_supersedes := mr_supersedes r\<rparr> = r) \<and>
    (inactive_status (mr_status r) \<longrightarrow> inactive_status (mr_status r')) \<and>
    (mr_status r = MST_DELETED \<longrightarrow> mr_status r' = MST_DELETED)"
proof -
  have "\<exists>s \<in> set (md_records db). evolves s r'"
    using apply_op_evolves[OF assms(2,1)] assms(3,4,5) unfolding db_evolves_def shrinks_def by force
  then obtain s where s: "s \<in> set (md_records db)" "evolves s r'" by blast
  have "s = r"
    using assms(1,3,5) s evolves_id[OF s(2)] unfolding unique_keys_def by (metis inj_on_def distinct_map)
  with s(2) show ?thesis unfolding evolves_def by blast
qed


section \<open>Who confirms\<close>

definition confirmed_ids :: "MemoryDb \<Rightarrow> string set" where
  "confirmed_ids db = mr_record_id ` {r \<in> set (md_records db). mr_status r = MST_CONFIRMED}"

lemma confirmed_ids_map:
  assumes "md_records db' = map g (md_records db)"
    "\<And>r. r \<in> set (md_records db) \<Longrightarrow> mr_record_id (g r) = mr_record_id r \<and>
       (mr_status (g r) = MST_CONFIRMED \<longrightarrow> mr_status r = MST_CONFIRMED)"
  shows "confirmed_ids db' \<subseteq> confirmed_ids db"
  using assms unfolding confirmed_ids_def by force

lemma confirmed_ids_update:
  assumes "update_records p f db = Inr db'"
    "\<And>r. r \<in> set (md_records db) \<Longrightarrow> p r \<Longrightarrow> mr_record_id (f r) = mr_record_id r \<and>
       (mr_status (f r) = MST_CONFIRMED \<longrightarrow> mr_status r = MST_CONFIRMED)"
  shows "confirmed_ids db' \<subseteq> confirmed_ids db"
  by (rule confirmed_ids_map[where g = "\<lambda>r. if p r then (f r)\<lparr>mr_revision := mr_revision r + 1\<rparr> else r"])
     (use assms(2) in \<open>auto simp: update_records_effect(1)[OF assms(1)]\<close>)

lemma confirmed_ids_stale:
  assumes "make_stale env p t k a b c now db = Inr (n, db')"
  shows "confirmed_ids db' \<subseteq> confirmed_ids db"
  using make_stale_effect[OF assms]
proof (elim disjE exE conjE)
  fix db1
  assume "update_records p (\<lambda>r. r\<lparr>mr_status := MST_STALE, mr_updated_at := now\<rparr>) db = Inr db1"
    "md_records db' = md_records db1"
  with confirmed_ids_update[of p _ db db1] show ?thesis by (simp add: confirmed_ids_def)
qed simp

lemma confirmed_ids_shrinks: "shrinks db db' \<Longrightarrow> confirmed_ids db' \<subseteq> confirmed_ids db"
  unfolding shrinks_def confirmed_ids_def using evolves_id by force

lemma confirmed_ids_transition:
  assumes tr: "transition_memory env rid owner actor target reason expected now db = Inr db'"
    and keys: "unique_keys mr_record_id (md_records db)"
  shows "confirmed_ids db' \<subseteq> (if target = MST_CONFIRMED then insert rid (confirmed_ids db) else confirmed_ids db) \<and>
    (target = MST_CONFIRMED \<longrightarrow> \<not> model_producer actor)"
proof -
  obtain row affected db1 db2 where
    sel: "select_owned rid owner db = Some row" and "transition_allowed (mr_status row) target"
    and actor: "\<not> (target = MST_CONFIRMED \<and> model_producer actor)"
    and "case expected of None \<Rightarrow> True | Some n \<Rightarrow> mr_revision row = n"
    and db1: "(if target = MST_CONFIRMED \<and> mr_status row = MST_CONFLICTED then resolve_conflict rid now db else Inr (1, db))
       = Inr (affected, db1)"
    and upd: "update_records (\<lambda>r. mr_record_id r = rid)
       (\<lambda>r. r\<lparr>mr_status := target, mr_deleted_at := (if target = MST_DELETED then Some now else None),
          mr_updated_at := now\<rparr>) db1 = Inr db2"
    and same: "md_records db' = md_records db2" and "md_conflicts db' = md_conflicts db2" "md_members db' = md_members db2"
      "md_sources db' = md_sources db2"
    by (rule transition_effect[OF tr])
  have "confirmed_ids db1 \<subseteq> confirmed_ids db"
  proof (cases "target = MST_CONFIRMED \<and> mr_status row = MST_CONFLICTED")
    case True
    with db1 have "resolve_conflict rid now db = Inr (affected, db1)" by simp
    from resolve_conflict_effect[OF this] show ?thesis
    proof (elim disjE exE conjE)
      fix c :: ConflictRow
      assume "md_records db1 = map (rejected_row (other_members (co_conflict_id c) rid db) now) (md_records db)"
      then show ?thesis by (rule confirmed_ids_map) (auto simp: rejected_row_def)
    qed simp
  qed (use db1 in auto)
  moreover have "confirmed_ids db2 \<subseteq> (if target = MST_CONFIRMED then insert rid (confirmed_ids db1) else confirmed_ids db1)"
    unfolding confirmed_ids_def update_records_effect(1)[OF upd] by (force split: if_splits)
  moreover have "confirmed_ids db' = confirmed_ids db2" unfolding confirmed_ids_def same ..
  ultimately show ?thesis using actor by (auto split: if_splits)
qed

lemma confirmed_ids_open_conflict:
  assumes "open_conflict row ids cid now db = Inr db'"
  shows "confirmed_ids db' \<subseteq> confirmed_ids db"
proof -
  obtain all where "md_records db' = map (conflicted_row all now) (md_records db)"
    using open_conflict_effect[OF assms] by metis
  then show ?thesis by (rule confirmed_ids_map) (auto simp: conflicted_row_def)
qed


lemma confirmed_create:
  assumes new: "create_record env r ident ids now db = Inr db'"
    and r': "r' \<in> set (md_records db')" "mr_status r' = MST_CONFIRMED"
  shows "r' \<in> set (md_records db) \<or> r' = new_row r ident (fi_record ids) now"
proof -
  obtain db1 db2 db3 added where
    ins: "insert_record (new_row r ident (fi_record ids) now) db = Inr db1"
    and src: "add_source env (fi_record ids) (mu_source r) (mi_project ident) (fi_source ids) db1 = Inr (added, db2)"
    and conf: "(if conflicts_with (new_row r ident (fi_record ids) now) db2 = [] then Inr db2
      else open_conflict (new_row r ident (fi_record ids) now)
        (conflicts_with (new_row r ident (fi_record ids) now) db2) (fi_conflict ids) now db2) = Inr db3"
    and db': "md_records db' = md_records db3"
    using create_record_effect[OF new] by metis
  have "r' \<in> set (md_records db2)"
  proof (cases "conflicts_with (new_row r ident (fi_record ids) now) db2 = []")
    case True
    with conf r'(1) db' show ?thesis by simp
  next
    case False
    with conf obtain all where "md_records db3 = map (conflicted_row all now) (md_records db2)"
      using open_conflict_effect by (metis (no_types, lifting))
    with r' db' show ?thesis by (auto simp: conflicted_row_def split: if_splits)
  qed
  with insert_record_effect[OF ins] add_source_effect[OF src] show ?thesis by auto
qed

lemma confirmed_observe:
  assumes obs: "observe_existing env r ident existing sid now db = Inr db'"
    and sel: "select mr_dedupe_key k (md_records db) = Some existing"
    and keys: "unique_keys mr_record_id (md_records db)"
  shows "confirmed_ids db' \<subseteq> confirmed_ids db"
proof -
  let ?st = "if mr_status existing = MST_STALE then MST_CANDIDATE else mr_status existing"
  obtain added db1 where
    src: "add_source env (mr_record_id existing) (mu_source r) (mi_project ident) sid db = Inr (added, db1)"
    and no: "\<not> added \<Longrightarrow> db' = db1"
    and yes: "added \<Longrightarrow> \<exists>db2. update_records (\<lambda>row. mr_record_id row = mr_record_id existing)
       (observed_row r ?st now) db1 = Inr db2 \<and> md_records db' = md_records db2"
    using observe_existing_effect[OF obs] by metis
  note recs = add_source_effect[OF src]
  have "confirmed_ids db' \<subseteq> confirmed_ids db1"
  proof (cases added)
    case True
    with yes obtain db2 where upd: "update_records (\<lambda>row. mr_record_id row = mr_record_id existing)
       (observed_row r ?st now) db1 = Inr db2" and same: "md_records db' = md_records db2" by blast
    have "confirmed_ids db2 \<subseteq> confirmed_ids db1"
    proof (rule confirmed_ids_update[OF upd])
      fix row assume "row \<in> set (md_records db1)" "mr_record_id row = mr_record_id existing"
      with select_only[OF sel keys] recs have "row = existing" by metis
      then show "mr_record_id (observed_row r ?st now row) = mr_record_id row \<and>
        (mr_status (observed_row r ?st now row) = MST_CONFIRMED \<longrightarrow> mr_status row = MST_CONFIRMED)" by simp
    qed
    then show ?thesis by (simp add: confirmed_ids_def same)
  qed (use no in simp)
  with recs show ?thesis by (simp add: confirmed_ids_def)
qed

lemma confirmed_upsert:
  assumes up: "upsert_in_transaction env trusted request ids now db = Inr (rid, created, db')"
    and keys: "unique_keys mr_record_id (md_records db)"
    and r': "r' \<in> set (md_records db')" "mr_status r' = MST_CONFIRMED"
  shows "mr_record_id r' \<in> confirmed_ids db \<or>
    trusted \<and> mr_record_id r' = fi_record ids \<and> \<not> model_producer (mr_producer r')"
proof -
  obtain r0 r ident where valid: "validate_initial_confirmation trusted r"
    and how: "(\<exists>existing. select mr_dedupe_key (mi_dedupe_key ident) (md_records db) = Some existing \<and>
        observe_existing env r ident existing (fi_source ids) now db = Inr db') \<or>
      create_record env r ident ids now db = Inr db'"
    using upsert_effect[OF up] by metis
  from how show ?thesis
  proof
    assume "create_record env r ident ids now db = Inr db'"
    from confirmed_create[OF this r'] show ?thesis
    proof
      assume "r' \<in> set (md_records db)"
      with r'(2) show ?thesis unfolding confirmed_ids_def by blast
    next
      assume "r' = new_row r ident (fi_record ids) now"
      with r'(2) valid show ?thesis by (auto simp: new_row_def validate_initial_confirmation_def)
    qed
  next
    assume "\<exists>existing. select mr_dedupe_key (mi_dedupe_key ident) (md_records db) = Some existing \<and>
        observe_existing env r ident existing (fi_source ids) now db = Inr db'"
    then obtain existing where sel: "select mr_dedupe_key (mi_dedupe_key ident) (md_records db) = Some existing"
      and obs: "observe_existing env r ident existing (fi_source ids) now db = Inr db'" by blast
    from confirmed_observe[OF obs sel keys] r' show ?thesis unfolding confirmed_ids_def by blast
  qed
qed

lemma confirmed_supersede:
  assumes "supersede_memory env rid v source owner actor status ids now db = Inr (new_id, db')"
    and keys: "unique_keys mr_record_id (md_records db)"
  shows "confirmed_ids db' \<subseteq> confirmed_ids db"
proof -
  from supersede_effect[OF assms(1)] obtain request db1 created db2 where
    upd: "update_records (\<lambda>r. mr_record_id r = rid)
       (\<lambda>r. r\<lparr>mr_status := MST_SUPERSEDED, mr_valid_to := Some now, mr_updated_at := now\<rparr>) db = Inr db1"
    and up: "upsert_in_transaction env False request ids now db1 = Inr (new_id, created, db2)"
    and same: "md_records db' = md_records db2" by metis
  have "unique_keys mr_record_id (md_records db1)"
    using keys update_records_ids[OF upd] unfolding unique_keys_def by (simp add: identity_of_def row_fact_def)
  with confirmed_upsert[OF up] same have "confirmed_ids db' \<subseteq> confirmed_ids db1" unfolding confirmed_ids_def by auto
  moreover have "confirmed_ids db1 \<subseteq> confirmed_ids db" by (rule confirmed_ids_update[OF upd]) simp
  ultimately show ?thesis by blast
qed

text \<open>The operations that neither create nor confirm a record.\<close>

definition quiet_op :: "MemoryOp \<Rightarrow> bool" where
  "quiet_op op \<longleftrightarrow> (case op of OpUpsert _ _ _ _ \<Rightarrow> False | OpConfirm _ _ _ _ _ \<Rightarrow> False | _ \<Rightarrow> True)"

lemma confirmed_ids_quiet:
  assumes op: "apply_memory_op env op db = Inr db'" and keys: "unique_keys mr_record_id (md_records db)"
    and quiet: "quiet_op op"
  shows "confirmed_ids db' \<subseteq> confirmed_ids db"
proof (cases op)
  case (OpReject rid owner actor expected now)
  with op confirmed_ids_transition[OF _ keys, of env rid owner actor MST_REJECTED] show ?thesis
    by (simp add: reject_memory_def)
next
  case (OpSoftDelete rid owner actor now)
  with op confirmed_ids_transition[OF _ keys, of env rid owner actor MST_DELETED] show ?thesis
    by (simp add: soft_delete_memory_def)
next
  case (OpSupersede rid v source owner actor status ids now)
  with op obtain new_id where sup: "supersede_memory env rid v source owner actor status ids now db = Inr (new_id, db')" by auto
  show ?thesis by (rule confirmed_supersede[OF sup keys])
next
  case (OpHardPurge rid confirmed owner actor now)
  with op have "hard_purge env rid confirmed owner actor now db = Inr db'" by simp
  then have "shrinks db db'" using hard_purge_effect(3) delete_records_shrinks[of db] by (metis shrinks_def)
  from confirmed_ids_shrinks[OF this] show ?thesis .
next
  case (OpPurgeSource uri confirmed project owner actor now)
  with op have "hard_purge_source env uri confirmed project owner actor now db = Inr db'" by simp
  then obtain rows where "db' = delete_empty_conflicts (fold (purge_one env uri actor now) rows db)"
    by (rule hard_purge_source_effect)
  with fold_purge_shrinks[of db] have "shrinks db db'" by (simp add: shrinks_def)
  from confirmed_ids_shrinks[OF this] show ?thesis .
next
  case (OpSweep actor now)
  with op obtain n where st: "sweep_retention env actor now db = Inr (n, db')" by auto
  from confirmed_ids_stale[OF st[unfolded sweep_retention_def]] show ?thesis .
next
  case (OpInvalidateCommit project commit owner actor now)
  with op obtain n where st: "invalidate_project_commit env project commit owner actor now db = Inr (n, db')" by auto
  from confirmed_ids_stale[OF st[unfolded invalidate_project_commit_def Let_def]] show ?thesis .
next
  case (OpInvalidateSource uri h m project owner actor now)
  with op obtain n where st: "invalidate_source env uri h m project owner actor now db = Inr (n, db')" by auto
  from confirmed_ids_stale[OF st[unfolded invalidate_source_def Let_def]] show ?thesis .
qed (use quiet in \<open>simp_all add: quiet_op_def\<close>)

text \<open>
  C31: Who confirms a memory. When an operation commits and leaves a record confirmed that was not, the
  operation is either the confirmation of exactly that record by an actor that carries no model's name, or an upsert by a trusted caller that created the record, whose producer
  carries no model's name. No other operation confirms anything.
\<close>

theorem only_users_and_trusted_adapters_confirm:
  assumes op: "apply_memory_op env op db = Inr db'" and keys: "unique_keys mr_record_id (md_records db)"
    and r': "r' \<in> set (md_records db')" "mr_status r' = MST_CONFIRMED"
    and new: "mr_record_id r' \<notin> confirmed_ids db"
  shows "(\<exists>owner actor expected now. op = OpConfirm (mr_record_id r') owner actor expected now \<and>
      \<not> model_producer actor) \<or>
    (\<exists>request ids now. op = OpUpsert True request ids now \<and> mr_record_id r' = fi_record ids \<and>
      \<not> model_producer (mr_producer r'))"
proof (cases op)
  case (OpUpsert trusted request ids now)
  with op obtain rid created where "upsert_in_transaction env trusted request ids now db = Inr (rid, created, db')" by auto
  from confirmed_upsert[OF this keys r'] new OpUpsert show ?thesis by auto
next
  case (OpConfirm rid owner actor expected now)
  with op have "transition_memory env rid owner actor MST_CONFIRMED ''memory.user_confirmed'' expected now db = Inr db'"
    by (simp add: confirm_memory_def)
  from confirmed_ids_transition[OF this keys] r' new have "mr_record_id r' = rid" "\<not> model_producer actor"
    unfolding confirmed_ids_def by auto
  with OpConfirm show ?thesis by simp
qed (use confirmed_ids_quiet[OF op keys] r' new in \<open>auto simp: quiet_op_def confirmed_ids_def\<close>)

end
