(* ===== verification/MemorySamples.thy ===== *)
theory MemorySamples
  imports MemoryProperties
begin

text \<open>
  Runs of the memory store on concrete requests: they show that the hypotheses of its properties can
  hold, and how a revived stale record ends in two confirmed values of one fact.
\<close>

section \<open>An environment and requests\<close>

definition sample_digest :: "string \<Rightarrow> string" where
  "sample_digest s = take 64 (rev s @ replicate 64 (CHR ''0''))"

fun sample_canonical :: "json \<Rightarrow> string" where
  "sample_canonical (JStr s) = s"
| "sample_canonical (JObj kvs) = concat (map (\<lambda>(k, v). k @ sample_canonical v) kvs)"
| "sample_canonical _ = []"

definition sample_memory_env :: MemoryEnv where
  "sample_memory_env =
     \<lparr>mv_sha256 = sample_digest, mv_canonical_json = sample_canonical, mv_loads = JStr,
      mv_inspect = (\<lambda>c _. Some (c, MSE_INTERNAL)), mv_reference_allowed = (\<lambda>_. True),
      mv_source_reference = Some, mv_typed_value = (\<lambda>_. Some), mv_project_path = (\<lambda>p. p),
      mv_source_uri = (\<lambda>u _. map_option Some (MemoryText 2048 u))\<rparr>"

definition sample_source :: "string \<Rightarrow> char \<Rightarrow> MemorySourceV1" where
  "sample_source uri digit =
     \<lparr>mo_source_type = ''file'', mo_uri = Some uri, mo_fragment = None,
      mo_source_hash = Some (replicate 64 digit), mo_observed_at = Aware 10 0, mo_source_commit_sha = None,
      mo_source_mtime_ns = None, mo_producer = ''editor'', mo_author = ''user''\<rparr>"

definition sample_upsert :: "string \<Rightarrow> MemorySourceV1 \<Rightarrow> MemoryStatus \<Rightarrow> MemoryUpsertV1" where
  "sample_upsert v source status =
     \<lparr>mu_record_type = MT_USER_PROFILE, mu_scope = MSC_USER, mu_subject = ''language'', mu_value = JStr v,
      mu_source = source, mu_owner_id = ''local'', mu_project_path = None, mu_task_id = None,
      mu_status = status, mu_confidence = 1 / 2, mu_valid_from = None, mu_valid_to = None,
      mu_project_commit_sha = None, mu_supersedes_record_id = None, mu_sensitivity = MSE_INTERNAL,
      mu_retention = MR_MANUAL, mu_expires_at = None, mu_actor = ''local-user''\<rparr>"

definition sample_ids :: "nat \<Rightarrow> FreshIds" where
  "sample_ids n = \<lparr>fi_record = ''r'' @ show_nat n, fi_source = ''s'' @ show_nat n, fi_conflict = ''c'' @ show_nat n\<rparr>"

definition candidate_op :: "string \<Rightarrow> string \<Rightarrow> char \<Rightarrow> nat \<Rightarrow> int \<Rightarrow> MemoryOp" where
  "candidate_op v uri digit n now =
     OpUpsert False (sample_upsert v (sample_source uri digit) MST_CANDIDATE) (sample_ids n) now"

definition confirm_op :: "string \<Rightarrow> int \<Rightarrow> MemoryOp" where
  "confirm_op rid now = OpConfirm rid ''local'' ''local-user'' None now"

text \<open>Two values of one fact: the second conflicts with the first, then the user chooses it.\<close>

definition choice_run :: "MemoryOp list" where
  "choice_run = [candidate_op ''ru'' ''a'' (CHR ''1'') 1 100, candidate_op ''en'' ''b'' (CHR ''2'') 2 200]"

definition choice_db :: MemoryDb where
  "choice_db = (case run_memory sample_memory_env choice_run empty_memory_db of Inr db \<Rightarrow> db | Inl _ \<Rightarrow> empty_memory_db)"

text \<open>
  A confirmed value whose source changes, another confirmed value, and a new observation of the first
  that the user confirms again.
\<close>

definition revived_run :: "MemoryOp list" where
  "revived_run =
     [candidate_op ''ru'' ''a'' (CHR ''1'') 1 100, confirm_op ''r1'' 110,
      OpInvalidateSource ''a'' (Some (replicate 64 (CHR ''3''))) None None ''local'' ''memory-invalidator'' 120,
      candidate_op ''en'' ''b'' (CHR ''2'') 2 200, confirm_op ''r2'' 210,
      candidate_op ''ru'' ''c'' (CHR ''4'') 3 300, confirm_op ''r1'' 310]"

definition op_result :: "MemoryOp \<Rightarrow> MemoryDb \<Rightarrow> MemoryDb" where
  "op_result op db = (case apply_memory_op sample_memory_env op db of Inr db' \<Rightarrow> db' | Inl _ \<Rightarrow> db)"

definition chosen_db :: MemoryDb where
  "chosen_db = op_result (confirm_op ''r2'' 310) choice_db"

definition purged_db :: MemoryDb where
  "purged_db = op_result (OpHardPurge ''r1'' ''r1'' ''local'' ''local-user'' 320) choice_db"

section \<open>The runs evaluated\<close>

fun never_revives :: "MemoryEnv \<Rightarrow> MemoryOp list \<Rightarrow> MemoryDb \<Rightarrow> bool" where
  "never_revives env [] db \<longleftrightarrow> True"
| "never_revives env (op # ops) db \<longleftrightarrow>
     (case apply_memory_op env op db of
        Inl _ \<Rightarrow> True | Inr db' \<Rightarrow> \<not> revives db db' \<and> never_revives env ops db')"

lemma run_reachable:
  "memory_reachable env db \<Longrightarrow> run_memory env ops db = Inr db' \<Longrightarrow> never_revives env ops db \<Longrightarrow> memory_reachable env db'"
  by (induction ops arbitrary: db) (auto dest: memory_reachable.step)

lemma choice_runs: "\<not> isl (run_memory sample_memory_env choice_run empty_memory_db)"
  by code_simp

lemma choice_alive: "never_revives sample_memory_env choice_run empty_memory_db"
  by code_simp

lemma choice_records:
  "map (\<lambda>r. (mr_record_id r, mr_status r, row_fact r)) (md_records choice_db) =
     [(''r1'', MST_CONFLICTED, ''local'', MSC_USER, ''user:local'', MT_USER_PROFILE, ''language''),
      (''r2'', MST_CONFLICTED, ''local'', MSC_USER, ''user:local'', MT_USER_PROFILE, ''language'')]"
  by code_simp

lemma choice_result: "run_memory sample_memory_env choice_run empty_memory_db = Inr choice_db"
  using choice_runs unfolding choice_db_def by (auto split: sum.split)

lemma choice_reachable: "memory_reachable sample_memory_env choice_db"
  by (rule run_reachable[OF memory_reachable.start choice_result choice_alive])

lemma choice_keys: "unique_keys mr_record_id (md_records choice_db)"
  using memory_invD(1)[OF reachable_memory_inv[OF choice_reachable]] .

lemma op_result_Inr:
  "\<not> isl (apply_memory_op sample_memory_env op db) \<Longrightarrow> apply_memory_op sample_memory_env op db = Inr (op_result op db)"
  unfolding op_result_def by (auto split: sum.split)

lemma chosen_runs: "\<not> isl (apply_memory_op sample_memory_env (confirm_op ''r2'' 310) choice_db)"
  by code_simp

lemma chosen_records:
  "map (\<lambda>r. (mr_record_id r, mr_status r, mr_revision r)) (md_records chosen_db) =
     [(''r1'', MST_REJECTED, 3), (''r2'', MST_CONFIRMED, 3)]"
  by code_simp

lemma purged_runs: "\<not> isl (apply_memory_op sample_memory_env (OpHardPurge ''r1'' ''r1'' ''local'' ''local-user'' 320) choice_db)"
  by code_simp

lemma purged_records: "map mr_record_id (md_records purged_db) = [''r2'']"
  by code_simp

text \<open>Two confirmed values of one fact, after a stale record came back unchecked.\<close>

theorem revived_record_contradicts_confirmed:
  "map_sum id (\<lambda>db. map (\<lambda>r. (mr_record_id r, mr_status r, mr_memory_key r, mr_value_json r)) (md_records db))
     (run_memory sample_memory_env revived_run empty_memory_db) =
   Inr [(''r1'', MST_CONFIRMED, ''language'', ''ru''), (''r2'', MST_CONFIRMED, ''language'', ''en'')]"
  by code_simp

section \<open>Witnesses\<close>

lemma map_eq_pair: "map f xs = [a, b] \<Longrightarrow> \<exists>x y. xs = [x, y] \<and> f x = a \<and> f y = b"
  by (auto simp: map_eq_Cons_conv)

theorem confirmed_memories_never_contradict_witness:
  "\<exists>r \<in> set (md_records choice_db). \<exists>s \<in> set (md_records choice_db). mr_record_id r = ''r1'' \<and> mr_record_id s = ''r2'' \<and>
     (\<exists>c \<in> set (md_conflicts choice_db). co_open c \<and> (co_conflict_id c, ''r1'') \<in> set (md_members choice_db) \<and>
        (co_conflict_id c, ''r2'') \<in> set (md_members choice_db))"
proof -
  obtain r s where rs: "md_records choice_db = [r, s]" "mr_record_id r = ''r1''" "mr_record_id s = ''r2''"
    "row_fact r = row_fact s" "mr_status r = MST_CONFLICTED" "mr_status s = MST_CONFLICTED"
    using map_eq_pair[OF choice_records] by auto
  with confirmed_memories_never_contradict[OF choice_reachable, of r s] show ?thesis
    by (simp add: active_status_def) blast
qed

theorem memory_records_move_forward_only_witness:
  "\<exists>r \<in> set (md_records choice_db). \<exists>r' \<in> set (md_records chosen_db).
     mr_status r = MST_CONFLICTED \<and> mr_status r' = MST_REJECTED \<and> identity_of r' = identity_of r \<and>
     mr_revision r \<le> mr_revision r'"
proof -
  obtain r s where rs: "md_records choice_db = [r, s]" "mr_record_id r = ''r1''" "mr_status r = MST_CONFLICTED"
    using map_eq_pair[OF choice_records] by auto
  obtain r' s' where rs': "md_records chosen_db = [r', s']" "mr_record_id r' = ''r1''" "mr_status r' = MST_REJECTED"
    using map_eq_pair[OF chosen_records] by auto
  from memory_records_move_forward_only[OF choice_keys op_result_Inr[OF chosen_runs], of r r'] rs rs'
  show ?thesis by (simp add: chosen_db_def)
qed


theorem only_users_and_trusted_adapters_confirm_witness:
  "mr_status (md_records chosen_db ! 1) = MST_CONFIRMED \<and> \<not> model_producer ''local-user'' \<and>
   ''r2'' \<notin> confirmed_ids choice_db"
proof -
  obtain r s where rs: "md_records choice_db = [r, s]" "mr_status r = MST_CONFLICTED" "mr_status s = MST_CONFLICTED"
    using map_eq_pair[OF choice_records] by auto
  then have new: "''r2'' \<notin> confirmed_ids choice_db" by (auto simp: confirmed_ids_def)
  obtain r' s' where rs': "md_records chosen_db = [r', s']" "mr_record_id s' = ''r2''" "mr_status s' = MST_CONFIRMED"
    using map_eq_pair[OF chosen_records] by auto
  from only_users_and_trusted_adapters_confirm[OF op_result_Inr[OF chosen_runs] choice_keys, of s'] rs' new
  have "\<not> model_producer ''local-user''" by (simp add: chosen_db_def confirm_op_def)
  with rs' new show ?thesis by simp
qed

end
