(* ===== verification/MemoryTypes.thy ===== *)
theory MemoryTypes
  imports MemoryRetrieval MemorySamples
begin

text \<open>
  What every committed database of the memory store satisfies: each record passes the checks of its
  table and each source row passes its contract again, so that reading never fails.
\<close>

section \<open>Validated sources\<close>

lemma hex_not_space: "is_hex c \<Longrightarrow> \<not> is_white_space c"
  by (auto simp: is_hex_def is_lower_hex_def is_digit_char_def is_white_space_def Let_def)

lemma lower_hex_char: "is_hex c \<Longrightarrow> is_hex (lower_char c)"
  by (auto simp: is_hex_def is_lower_hex_def is_digit_char_def lower_char_def Let_def code_of_char_of)

lemma hex_text_lower:
  assumes "HexText lo hi s = Some t"
  shows "HexText lo hi (py_lower t) = Some (py_lower t)"
proof -
  from assms have t: "lo \<le> length t" "length t \<le> hi" "list_all is_hex t" by (auto simp: HexText_def constrained_Some)
  then have hex: "\<forall>c \<in> set (py_lower t). is_hex c" by (auto simp: py_lower_def list_all_iff lower_hex_char)
  then have "\<forall>c \<in> set (py_lower t). \<not> is_white_space c" using hex_not_space by blast
  then have "trim_ws (py_lower t) = py_lower t"
    unfolding trim_ws_def by (intro strip_by_fix) (cases "py_lower t = []", auto)
  with t hex show ?thesis by (simp add: HexText_def constrained_Some list_all_iff py_lower_def)
qed

lemma hex_text_length: "HexText lo hi s = Some t \<Longrightarrow> lo \<le> length t \<and> length t \<le> hi"
  by (auto simp: HexText_def constrained_Some)

lemma optional_lower_hex:
  assumes "optional (HexText lo hi) v = Some w" "0 < lo"
  shows "optional (HexText lo hi) (lower_text w) = Some (lower_text w)"
proof (cases w)
  case (Some t)
  with assms(1) obtain s where t: "HexText lo hi s = Some t" by (auto simp: optional_Some)
  with hex_text_length[OF t] assms(2) have "t \<noteq> []" by auto
  with Some hex_text_lower[OF t] show ?thesis by (simp add: lower_text_def truthy_def)
qed (simp add: lower_text_def truthy_def)

lemma validate_source_fields:
  "validate_MemorySourceV1 s = Some t \<longleftrightarrow>
     MemoryIdentifier 64 (mo_source_type s) = Some (mo_source_type t) \<and>
     optional (MemoryText 2048) (mo_uri s) = Some (mo_uri t) \<and>
     optional (MemoryText 1024) (mo_fragment s) = Some (mo_fragment t) \<and>
     optional (HexText 64 64) (mo_source_hash s) = Some (mo_source_hash t) \<and>
     aware_utc (mo_observed_at s) = Some (mo_observed_at t) \<and>
     optional (HexText 7 64) (mo_source_commit_sha s) = Some (mo_source_commit_sha t) \<and>
     optional (\<lambda>n. require (0 \<le> n) n) (mo_source_mtime_ns s) = Some (mo_source_mtime_ns t) \<and>
     MemoryIdentifier 128 (mo_producer s) = Some (mo_producer t) \<and>
     MemoryIdentifier 128 (mo_author s) = Some (mo_author t)"
  unfolding validate_MemorySourceV1_def bind_eq_Some_conv by auto

interpretation memory_source: normaliser validate_MemorySourceV1
proof unfold_locales
  fix s t
  assume st: "validate_MemorySourceV1 s = Some t"
  have idem: "optional (constrained lo hi p) v = Some w \<Longrightarrow> optional (constrained lo hi p) w = Some w" for lo hi p v w
    by (erule optional_idem) (rule constrained_idem)
  have mtime: "optional (\<lambda>n. require (0 \<le> n) n) v = Some w \<Longrightarrow> optional (\<lambda>n. require (0 \<le> n) n) w = Some w" for v w :: "int option"
    by (erule optional_idem) auto
  from st show "validate_MemorySourceV1 t = Some t"
    unfolding validate_source_fields MemoryIdentifier_def MemoryText_def HexText_def
    by (intro conjI) (blast intro: constrained_idem idem mtime aware_utc_idem)+
qed

section \<open>Well-typed databases\<close>

text \<open>The references that the store derives fit the field they are stored in.\<close>

definition uris_fit :: "MemoryEnv \<Rightarrow> bool" where
  "uris_fit env \<longleftrightarrow> (\<forall>u p v. mv_source_uri env u p = Some (Some v) \<longrightarrow> MemoryText 2048 v = Some v)"

definition well_typed :: "MemoryDb \<Rightarrow> bool" where
  "well_typed db \<longleftrightarrow>
     (\<forall>r \<in> set (md_records db). record_checks r) \<and>
     (\<forall>s \<in> set (md_sources db). source_checks s \<and> source_of_row s \<noteq> None)"

lemma well_typed_same:
  "well_typed db \<Longrightarrow> md_records db' = md_records db \<Longrightarrow> md_sources db' = md_sources db \<Longrightarrow> well_typed db'"
  by (simp add: well_typed_def)

lemma well_typed_update: "well_typed db \<Longrightarrow> update_records p f db = Inr db' \<Longrightarrow> well_typed db'"
  unfolding well_typed_def using update_records_effect[of p f db db'] by auto

lemma well_typed_insert: "well_typed db \<Longrightarrow> insert_record row db = Inr db' \<Longrightarrow> well_typed db'"
  using insert_record_effect[of row db db'] by (auto simp: well_typed_def)

lemma record_checks_supersedes [simp]: "record_checks (r\<lparr>mr_supersedes := v\<rparr>) = record_checks r"
  by (simp add: record_checks_def)

lemma well_typed_delete: "well_typed db \<Longrightarrow> well_typed (delete_records gone db)"
  by (auto simp: well_typed_def delete_records_def)

lemma well_typed_add_source:
  assumes env: "uris_fit env" and db: "well_typed db" and valid: "validate_MemorySourceV1 s = Some source"
    and add: "add_source env rid source project sid db = Inr (added, db')"
  shows "well_typed db'"
proof -
  note fields = memory_source.idem[OF valid, unfolded validate_source_fields]
  define stored where "stored = (\<lambda>uri. source\<lparr>mo_uri := uri, mo_source_hash := lower_text (mo_source_hash source),
          mo_observed_at := Aware (instant (mo_observed_at source)) 0,
          mo_source_commit_sha := lower_text (mo_source_commit_sha source)\<rparr>)"
  obtain uri where uri: "(case mo_uri source of
         None \<Rightarrow> Inr None
       | Some u \<Rightarrow> or_fail MemoryPolicyError (mv_source_uri env u project)) = Inr uri"
    and db': "db' = db \<or> (\<exists>row. db' = db\<lparr>md_sources := md_sources db @ [row]\<rparr> \<and> source_checks row \<and>
      source_of_row row = validate_MemorySourceV1 (stored uri))"
  proof -
    define row where "row = (\<lambda>uri. \<lparr>sr_source_id = sid, sr_record_id = rid, sr_source_type = mo_source_type source,
           sr_source_uri = uri, sr_source_fragment = mo_fragment source,
           sr_source_hash = lower_text (mo_source_hash source),
           sr_source_commit_sha = lower_text (mo_source_commit_sha source),
           sr_source_mtime_ns = mo_source_mtime_ns source,
           sr_observed_at = instant (mo_observed_at source), sr_producer = mo_producer source,
           sr_author = mo_author source, sr_dedupe_key = source_key env rid source uri\<rparr>)"
    have "source_of_row (row uri) = validate_MemorySourceV1 (stored uri)" for uri
      by (cases source) (simp add: source_of_row_def row_def stored_def)
    moreover obtain uri where "(case mo_uri source of
         None \<Rightarrow> Inr None
       | Some u \<Rightarrow> or_fail MemoryPolicyError (mv_source_uri env u project)) = Inr uri"
      "(if source_checks (row uri) \<and> select sr_source_id sid (md_sources db) = None
          \<and> select sr_dedupe_key (sr_dedupe_key (row uri)) (md_sources db) = None
        then Inr (True, db\<lparr>md_sources := md_sources db @ [row uri]\<rparr>)
        else Inr (False, db)) = (Inr (added, db') :: (bool \<times> MemoryDb) memory_result)"
      using add unfolding add_source_def Let_def and_then_Inr row_def by blast
    ultimately show thesis using that by (auto split: if_splits)
  qed
  have "optional (MemoryText 2048) uri = Some uri" using uri env by (cases uri) (auto simp: uris_fit_def split: option.splits)
  moreover have "optional (HexText 64 64) (lower_text (mo_source_hash source)) = Some (lower_text (mo_source_hash source))"
    "optional (HexText 7 64) (lower_text (mo_source_commit_sha source)) = Some (lower_text (mo_source_commit_sha source))"
    using fields optional_lower_hex by auto
  ultimately have "validate_MemorySourceV1 (stored uri) = Some (stored uri)"
    using fields unfolding validate_source_fields stored_def by simp
  with db db' show ?thesis unfolding well_typed_def by auto
qed

lemma normalized_source_valid:
  assumes "normalize_request env r = Inr r0"
  shows "\<exists>s. validate_MemorySourceV1 s = Some (mu_source r0)"
  using assms unfolding normalize_request_def and_then_Inr or_fail_Inr case_prod_beta
  by (elim exE conjE) (frule validate_upsert_fields(3), auto)

lemma typed_source: "typed_request env r0 = Inr r \<Longrightarrow> mu_source r = mu_source r0"
  by (auto simp: typed_request_def split: if_splits)

lemma well_typed_open_conflict:
  assumes db: "well_typed db" and conf: "open_conflict row ids cid now db = Inr db'"
  shows "well_typed db'"
proof -
  obtain new b p f g db1 db2 where
    db1: "(if b then Inr db else if g then Inr (db\<lparr>md_conflicts := new\<rparr>) else Inl SqlIntegrityError) = Inr db1"
    and upd: "update_records p f db1 = Inr db2" and db': "\<exists>ms. db' = db2\<lparr>md_members := ms\<rparr>"
    using conf unfolding open_conflict_def Let_def and_then_Inr by blast
  have "well_typed db1" using db db1 by (auto split: if_splits intro: well_typed_same)
  from well_typed_update[OF this upd] db' show ?thesis by (auto intro: well_typed_same)
qed

lemma well_typed_upsert:
  assumes env: "uris_fit env" and db: "well_typed db"
    and up: "upsert_in_transaction env trusted request ids now db = Inr (rid, created, db')"
  shows "well_typed db'"
proof -
  obtain r0 r ident where req: "normalize_request env request = Inr r0" "typed_request env r0 = Inr r"
    and how: "(\<exists>existing. observe_existing env r ident existing (fi_source ids) now db = Inr db') \<or>
      create_record env r ident ids now db = Inr db'"
    using upsert_effect[OF up] by metis
  obtain s where s: "validate_MemorySourceV1 s = Some (mu_source r)"
    using normalized_source_valid[OF req(1)] typed_source[OF req(2)] by auto
  note add = well_typed_add_source[OF env _ s]
  from how show ?thesis
  proof
    assume "\<exists>existing. observe_existing env r ident existing (fi_source ids) now db = Inr db'"
    then obtain existing where obs: "observe_existing env r ident existing (fi_source ids) now db = Inr db'" by blast
    let ?st = "if mr_status existing = MST_STALE then MST_CANDIDATE else mr_status existing"
    obtain added db1 where
      src: "add_source env (mr_record_id existing) (mu_source r) (mi_project ident) (fi_source ids) db = Inr (added, db1)"
      and no: "\<not> added \<Longrightarrow> db' = db1"
      and yes: "added \<Longrightarrow> \<exists>db2. update_records (\<lambda>row. mr_record_id row = mr_record_id existing)
         (observed_row r ?st now) db1 = Inr db2 \<and> md_records db' = md_records db2 \<and> md_sources db' = md_sources db2"
      using observe_existing_effect[OF obs] by metis
    have "well_typed db1" by (rule add[OF db src])
    then show ?thesis using no yes well_typed_update[of db1] well_typed_same[of _ db'] by (cases added) auto
  next
    assume new: "create_record env r ident ids now db = Inr db'"
    obtain db1 db2 db3 added where
      ins: "insert_record (new_row r ident (fi_record ids) now) db = Inr db1"
      and src: "add_source env (fi_record ids) (mu_source r) (mi_project ident) (fi_source ids) db1 = Inr (added, db2)"
      and conf: "(if conflicts_with (new_row r ident (fi_record ids) now) db2 = [] then Inr db2
        else open_conflict (new_row r ident (fi_record ids) now)
          (conflicts_with (new_row r ident (fi_record ids) now) db2) (fi_conflict ids) now db2) = Inr db3"
      and same: "md_records db' = md_records db3" "md_sources db' = md_sources db3"
      using create_record_effect[OF new] by metis
    have "well_typed db2" by (rule add[OF well_typed_insert[OF db ins] src])
    with conf have "well_typed db3" by (auto intro: well_typed_open_conflict split: if_splits)
    with same show ?thesis by (auto intro: well_typed_same)
  qed
qed

lemma well_typed_resolve:
  assumes db: "well_typed db" and res: "resolve_conflict rid now db = Inr (n, db')"
  shows "well_typed db'"
proof (cases "open_conflict_with rid db")
  case None
  with res db show ?thesis by (simp add: resolve_conflict_def)
next
  case (Some c)
  with res obtain p f db1 where upd: "update_records p f db = Inr db1"
    and same: "md_records db' = md_records db1" "md_sources db' = md_sources db1"
    by (auto simp: resolve_conflict_def Let_def)
  show ?thesis by (rule well_typed_same[OF well_typed_update[OF db upd] same])
qed

lemma well_typed_transition:
  assumes db: "well_typed db"
    and tr: "transition_memory env rid owner actor target reason expected now db = Inr db'"
  shows "well_typed db'"
proof -
  obtain row affected db1 db2 where
    "select_owned rid owner db = Some row" "transition_allowed (mr_status row) target"
    "\<not> (target = MST_CONFIRMED \<and> model_producer actor)"
    "case expected of None \<Rightarrow> True | Some n \<Rightarrow> mr_revision row = n"
    and db1: "(if target = MST_CONFIRMED \<and> mr_status row = MST_CONFLICTED then resolve_conflict rid now db else Inr (1, db))
       = Inr (affected, db1)"
    and upd: "update_records (\<lambda>r. mr_record_id r = rid)
       (\<lambda>r. r\<lparr>mr_status := target, mr_deleted_at := (if target = MST_DELETED then Some now else None),
          mr_updated_at := now\<rparr>) db1 = Inr db2"
    and same: "md_records db' = md_records db2" "md_conflicts db' = md_conflicts db2" "md_members db' = md_members db2"
      "md_sources db' = md_sources db2"
    by (rule transition_effect[OF tr])
  have "well_typed db1"
    using db1 well_typed_resolve[OF db] db by (auto split: if_splits)
  from well_typed_same[OF well_typed_update[OF this upd] same(1,4)] show ?thesis .
qed

lemma well_typed_stale:
  assumes db: "well_typed db" and stale: "make_stale env p t k a b c now db = Inr (n, db')"
  shows "well_typed db'"
  using make_stale_effect[OF stale]
proof (elim disjE exE conjE)
  fix db1
  assume upd: "update_records p (\<lambda>r. r\<lparr>mr_status := MST_STALE, mr_updated_at := now\<rparr>) db = Inr db1"
    and same: "md_records db' = md_records db1" "md_sources db' = md_sources db"
  then show ?thesis
    using well_typed_same[OF well_typed_update[OF db upd], of db'] update_records_others(3)[OF upd] by simp
qed (use db in simp)

lemma well_typed_purge_one: "well_typed db \<Longrightarrow> well_typed (purge_one env uri actor now row db)"
proof -
  assume db: "well_typed db"
  define db1 where "db1 = db\<lparr>md_sources := filter (\<lambda>s. \<not> (sr_record_id s = mr_record_id row \<and> purged_source uri s)) (md_sources db)\<rparr>"
  have "well_typed db1" using db by (auto simp: db1_def well_typed_def)
  then have "well_typed (if b then delete_records gone db1 else db1)" for b gone by (simp add: well_typed_delete)
  then show ?thesis unfolding purge_one_def Let_def db1_def[symmetric] by (rule well_typed_same) simp_all
qed

lemma well_typed_fold_purge: "well_typed db \<Longrightarrow> well_typed (fold (purge_one env uri actor now) rows db)"
  by (induction rows arbitrary: db) (simp_all add: well_typed_purge_one)

lemma well_typed_op:
  assumes env: "uris_fit env" and db: "well_typed db" and op: "apply_memory_op env op db = Inr db'"
  shows "well_typed db'"
proof (cases op)
  case (OpSupersede rid v source owner actor status ids now)
  with op obtain new_id where "supersede_memory env rid v source owner actor status ids now db = Inr (new_id, db')" by auto
  from supersede_effect[OF this] obtain p f request db1 created db2 where
    "update_records p f db = Inr db1" "upsert_in_transaction env False request ids now db1 = Inr (new_id, created, db2)"
    "md_records db' = md_records db2" "md_sources db' = md_sources db2" by metis
  with well_typed_upsert[OF env well_typed_update[OF db]] well_typed_same show ?thesis by metis
next
  case (OpHardPurge rid confirmed owner actor now)
  with op have "hard_purge env rid confirmed owner actor now db = Inr db'" by simp
  from hard_purge_effect(3,4)[OF this] show ?thesis by (rule well_typed_same[OF well_typed_delete[OF db]])
next
  case (OpPurgeSource uri confirmed project owner actor now)
  with op have "hard_purge_source env uri confirmed project owner actor now db = Inr db'" by simp
  then obtain rows where "db' = delete_empty_conflicts (fold (purge_one env uri actor now) rows db)"
    by (rule hard_purge_source_effect)
  then show ?thesis
    by (intro well_typed_same[OF well_typed_fold_purge[OF db]]) (simp_all add: delete_empty_conflicts_def)
qed (use env db op in \<open>auto simp: confirm_memory_def reject_memory_def soft_delete_memory_def sweep_retention_def
  invalidate_project_commit_def invalidate_source_def Let_def
  intro: well_typed_upsert well_typed_transition well_typed_stale\<close>)

lemma well_typed_run:
  "uris_fit env \<Longrightarrow> well_typed db \<Longrightarrow> run_memory env ops db = Inr db' \<Longrightarrow> well_typed db'"
  by (induction ops arbitrary: db) (auto dest: well_typed_op)

lemma well_typed_reads:
  assumes db: "well_typed db" and r: "r \<in> set (md_records db)"
  shows "\<exists>sources. record_sources db (mr_record_id r) = Some sources"
proof -
  have "\<exists>m. source_of_row s = Some m" if "s \<in> set (md_sources db)" for s
    using db that by (auto simp: well_typed_def)
  then show ?thesis unfolding record_sources_def by (intro mapM_total) auto
qed

section \<open>Reading never fails\<close>



end
