(* ===== verification/MemoryRetrievalProperties.thy ===== *)
theory MemoryRetrievalProperties
  imports MemoryRetrieval MemorySamples
begin

text \<open>
  What the reading side guarantees: a retrieval stays within its budget and its scope and leaves out
  only what does not fit; a management search never crosses the scope it was given.
\<close>

section \<open>The packing loop\<close>

lemma list_all2_preimage: "list_all2 P xs ys \<Longrightarrow> y \<in> set ys \<Longrightarrow> \<exists>x \<in> set xs. P x y"
  by (induction rule: list_all2_induct) auto

lemma list_all2_image: "list_all2 P xs ys \<Longrightarrow> x \<in> set xs \<Longrightarrow> \<exists>y \<in> set ys. P x y"
  by (induction rule: list_all2_induct) auto

lemma validate_item_fields:
  assumes "validate_RetrievalItemV1 raw = Some item"
  shows "ri_record_id item = trim_ws (ri_record_id raw)" "ri_record_type item = ri_record_type raw"
    "ri_value item = ri_value raw" "ri_score item = ri_score raw" "0 \<le> ri_score item" "ri_score item \<le> 1"
  using assms unfolding validate_RetrievalItemV1_def bind_eq_Some_conv by auto

lemma item_cost_nonneg: "0 \<le> item_cost env raw"
  by (simp add: item_cost_def)

text \<open>The result of the loop: some of the entries in order, within the limits, and what it left out.\<close>

lemma pack_items_spec:
  assumes "pack_items env n limit raws items used = Some (items', used')" "used \<le> limit" "int (length items) < n"
  shows "\<exists>kept new. subseq kept raws \<and> list_all2 (\<lambda>raw item. validate_RetrievalItemV1 raw = Some item) kept new \<and>
    items' = items @ new \<and> used' = used + sum_list (map (item_cost env) kept) \<and> used' \<le> limit \<and>
    int (length items') \<le> n \<and>
    (int (length items') < n \<longrightarrow> (\<forall>raw \<in> set raws. raw \<in> set kept \<or> limit - used' < item_cost env raw))"
  using assms
proof (induction env n limit raws items used rule: pack_items.induct)
  case (1 env n limit items used)
  then have "items' = items" "used' = used" by auto
  with 1 show ?case by (intro exI[of _ "[]"]) auto
next
  case (2 env n limit raw rest items used)
  show ?case
  proof (cases "limit - used < item_cost env raw")
    case True
    with 2 obtain kept new where kn: "subseq kept rest"
      "list_all2 (\<lambda>raw item. validate_RetrievalItemV1 raw = Some item) kept new" "items' = items @ new"
      "used' = used + sum_list (map (item_cost env) kept)" "used' \<le> limit" "int (length items') \<le> n"
      "int (length items') < n \<longrightarrow> (\<forall>raw \<in> set rest. raw \<in> set kept \<or> limit - used' < item_cost env raw)"
      by (auto simp: True)
    have "0 \<le> sum_list (map (item_cost env) kept)" by (rule sum_list_nonneg) (auto simp: item_cost_nonneg)
    with True kn(4) have "limit - used' < item_cost env raw" by linarith
    with kn show ?thesis by (intro exI[of _ kept] exI[of _ new]) (auto intro: list_emb.list_emb_Cons)
  next
    case False
    from 2(3) False obtain item where item: "validate_RetrievalItemV1 raw = Some item"
      and next': "(if n \<le> int (length (items @ [item])) then Some (items @ [item], used + item_cost env raw)
         else pack_items env n limit rest (items @ [item]) (used + item_cost env raw)) = Some (items', used')"
      by (auto simp: bind_eq_Some_conv)
    show ?thesis
    proof (cases "n \<le> int (length (items @ [item]))")
      case True
      with next' False 2(5) item show ?thesis
        by (intro exI[of _ "[raw]"] exI[of _ "[item]"]) auto
    next
      case more: False
      with 2(2)[OF False item more] next' False obtain kept new where kn: "subseq kept rest"
        "list_all2 (\<lambda>raw item. validate_RetrievalItemV1 raw = Some item) kept new" "items' = (items @ [item]) @ new"
        "used' = used + item_cost env raw + sum_list (map (item_cost env) kept)" "used' \<le> limit"
        "int (length items') \<le> n"
        "int (length items') < n \<longrightarrow> (\<forall>raw \<in> set rest. raw \<in> set kept \<or> limit - used' < item_cost env raw)"
        by auto
      with item show ?thesis by (intro exI[of _ "raw # kept"] exI[of _ "item # new"]) auto
    qed
  qed
qed

section \<open>The ranked rows\<close>

lemma ranked_rows_member:
  assumes "ranked_rows env q now db = Some ranked"
  shows "(score, r, sources) \<in> set ranked \<Longrightarrow>
      r \<in> set (md_records db) \<and> retrieval_row env q now r \<and> record_sources db (mr_record_id r) = Some sources \<and>
      commit_current (mq_current_commit q) r sources \<and> mq_min_relevance q \<le> score \<and> score = row_score q r"
    and "length (filter (retrieval_row env q now) (md_records db)) \<le> 512 \<Longrightarrow> r \<in> set (md_records db) \<Longrightarrow>
      retrieval_row env q now r \<Longrightarrow> mq_min_relevance q \<le> row_score q r \<Longrightarrow>
      (\<And>sources. record_sources db (mr_record_id r) = Some sources \<Longrightarrow> commit_current (mq_current_commit q) r sources) \<Longrightarrow>
      \<exists>sources. (row_score q r, r, sources) \<in> set ranked"
proof -
  let ?f = "\<lambda>r. do { sources \<leftarrow> record_sources db (mr_record_id r); Some (row_score q r, r, sources) }"
  let ?sel = "sort_key (\<lambda>r. (- mr_observed_at r, mr_record_id r)) (filter (retrieval_row env q now) (md_records db))"
  obtain rows where rows: "mapM ?f (take 512 ?sel) = Some rows"
    and ranked: "set ranked = set (filter (\<lambda>(score, r, sources).
        commit_current (mq_current_commit q) r sources \<and> mq_min_relevance q \<le> score) rows)"
    using assms unfolding ranked_rows_def bind_eq_Some_conv by auto
  show "r \<in> set (md_records db) \<and> retrieval_row env q now r \<and> record_sources db (mr_record_id r) = Some sources \<and>
      commit_current (mq_current_commit q) r sources \<and> mq_min_relevance q \<le> score \<and> score = row_score q r"
    if "(score, r, sources) \<in> set ranked"
  proof -
    from that ranked have in_rows: "(score, r, sources) \<in> set rows"
      and keep: "commit_current (mq_current_commit q) r sources \<and> mq_min_relevance q \<le> score" by auto
    from mapM_in_result[OF rows in_rows] have "r \<in> set (take 512 ?sel)"
      "record_sources db (mr_record_id r) = Some sources \<and> score = row_score q r" by (auto simp: bind_eq_Some_conv)
    with keep in_set_takeD[of r 512 ?sel] show ?thesis by simp
  qed
  assume few: "length (filter (retrieval_row env q now) (md_records db)) \<le> 512"
    and r: "r \<in> set (md_records db)" "retrieval_row env q now r" and score: "mq_min_relevance q \<le> row_score q r"
    and commit: "\<And>sources. record_sources db (mr_record_id r) = Some sources \<Longrightarrow>
      commit_current (mq_current_commit q) r sources"
  from few r have "r \<in> set (take 512 ?sel)" by simp
  then obtain i where i: "i < length (take 512 ?sel)" "take 512 ?sel ! i = r" unfolding in_set_conv_nth by blast
  from rows have all: "list_all2 (\<lambda>x y. ?f x = Some y) (take 512 ?sel) rows" by (simp only: mapM_Some_iff)
  from list_all2_nthD[OF all i(1)] i(2) have "?f r = Some (rows ! i)" by simp
  then obtain sources where sources: "record_sources db (mr_record_id r) = Some sources" "rows ! i = (row_score q r, r, sources)"
    by (auto simp: bind_eq_Some_conv)
  have "rows ! i \<in> set rows" using i(1) list_all2_lengthD[OF all] by (metis nth_mem)
  with sources commit score ranked show "\<exists>sources. (row_score q r, r, sources) \<in> set ranked" by auto
qed

lemma retrieve_spec:
  assumes "retrieve_memory env q now db = Inr result"
  obtains kept ranked where "ranked_rows env q now db = Some ranked \<or> ranked = [] \<and> tokens (query_text q) = []"
    "subseq kept (map (retrieval_item env q) ranked)"
    "list_all2 (\<lambda>raw item. validate_RetrievalItemV1 raw = Some item) kept (rr_items result)"
    "rr_used_chars result = sum_list (map (item_cost env) kept)" "rr_used_chars result \<le> rr_max_chars result"
    "rr_max_chars result = char_limit q" "int (length (rr_items result)) \<le> record_limit q"
    "int (length (rr_items result)) < record_limit q \<longrightarrow> (\<forall>raw \<in> set (map (retrieval_item env q) ranked).
       raw \<in> set kept \<or> rr_max_chars result - rr_used_chars result < item_cost env raw)"
proof (cases "tokens (query_text q) = []")
  case True
  with assms show thesis by (intro that[of "[]" "[]"]) (auto simp: retrieve_memory_def char_limit_def record_limit_def)
next
  case False
  with assms obtain ranked where ranked: "ranked_rows env q now db = Some ranked"
    and packed: "pack_items env (record_limit q) (char_limit q) (map (retrieval_item env q) ranked) [] 0 =
      Some (rr_items result, rr_used_chars result)" and limit: "rr_max_chars result = char_limit q"
    by (auto simp: retrieve_memory_def)
  have limits: "0 \<le> char_limit q" "int (length []) < record_limit q" by (simp_all add: char_limit_def record_limit_def)
  obtain kept where
    "subseq kept (map (retrieval_item env q) ranked)"
    "list_all2 (\<lambda>raw item. validate_RetrievalItemV1 raw = Some item) kept (rr_items result)"
    "rr_used_chars result = sum_list (map (item_cost env) kept)" "rr_used_chars result \<le> char_limit q"
    "int (length (rr_items result)) \<le> record_limit q"
    "int (length (rr_items result)) < record_limit q \<longrightarrow> (\<forall>raw \<in> set (map (retrieval_item env q) ranked).
       raw \<in> set kept \<or> char_limit q - rr_used_chars result < item_cost env raw)"
    using pack_items_spec[OF packed limits] by (auto simp del: set_map)
  with ranked limit show thesis by (intro that[of ranked kept]) simp_all
qed

lemma item_of_ranked:
  assumes "ranked_rows env q now db = Some ranked" "subseq kept (map (retrieval_item env q) ranked)"
    "list_all2 (\<lambda>raw item. validate_RetrievalItemV1 raw = Some item) kept items" "item \<in> set items"
  obtains r sources where "(row_score q r, r, sources) \<in> set ranked"
    "validate_RetrievalItemV1 (retrieval_item env q (row_score q r, r, sources)) = Some item"
proof -
  obtain raw where raw: "raw \<in> set kept" "validate_RetrievalItemV1 raw = Some item"
    by (rule bexE[OF list_all2_preimage[OF assms(3,4)]])
  have "raw \<in> set (map (retrieval_item env q) ranked)" using list_emb_set[OF assms(2) raw(1)] by metis
  then obtain entry where entry: "entry \<in> set ranked" "raw = retrieval_item env q entry" by auto
  obtain score r sources where e: "entry = (score, r, sources)" by (rule prod_cases3)
  with entry ranked_rows_member(1)[OF assms(1), of score r sources] have "score = row_score q r" by simp
  with entry e raw(2) show thesis by (intro that[of r sources]) simp_all
qed

section \<open>Retrieval\<close>


text \<open>
  Retrieval leaves out only what does not fit. When a result is shorter than its limit of records
  and no more than 512 records match, every matching record that is current for its commit and scores
  high enough is in the result, or its entry needs more characters than the budget has left.
\<close>

theorem retrieval_omits_only_what_does_not_fit:
  assumes "retrieve_memory env q now db = Inr result" "int (length (rr_items result)) < record_limit q"
    and "length (filter (retrieval_row env q now) (md_records db)) \<le> 512"
    and "r \<in> set (md_records db)" "retrieval_row env q now r" "mq_min_relevance q \<le> row_score q r"
    and "record_sources db (mr_record_id r) = Some sources" "commit_current (mq_current_commit q) r sources"
  shows "(\<exists>item \<in> set (rr_items result). ri_record_id item = trim_ws (mr_record_id r)) \<or>
    rr_max_chars result - rr_used_chars result < item_cost env (retrieval_item env q (row_score q r, r, sources))"
proof -
  obtain kept ranked where ranked: "ranked_rows env q now db = Some ranked \<or> ranked = [] \<and> tokens (query_text q) = []"
    and kept: "list_all2 (\<lambda>raw item. validate_RetrievalItemV1 raw = Some item) kept (rr_items result)"
    and out: "int (length (rr_items result)) < record_limit q \<longrightarrow> (\<forall>raw \<in> set (map (retrieval_item env q) ranked).
       raw \<in> set kept \<or> rr_max_chars result - rr_used_chars result < item_cost env raw)"
    by (rule retrieve_spec[OF assms(1)])
  have "tokens (query_text q) \<noteq> []" using assms(5) by (auto simp: retrieval_row_def shared_def)
  with ranked have rows: "ranked_rows env q now db = Some ranked" by blast
  obtain sources' where member: "(row_score q r, r, sources') \<in> set ranked"
    using ranked_rows_member(2)[OF rows assms(3-6)] assms(7,8) by auto
  with ranked_rows_member(1)[OF rows member] assms(7) have
    "retrieval_item env q (row_score q r, r, sources) \<in> set (map (retrieval_item env q) ranked)" by auto
  with out assms(2) consider "retrieval_item env q (row_score q r, r, sources) \<in> set kept"
    | "rr_max_chars result - rr_used_chars result < item_cost env (retrieval_item env q (row_score q r, r, sources))"
    by blast
  then show ?thesis
  proof cases
    case 1
    obtain item where item: "item \<in> set (rr_items result)"
      "validate_RetrievalItemV1 (retrieval_item env q (row_score q r, r, sources)) = Some item"
      by (rule bexE[OF list_all2_image[OF kept 1]])
    with validate_item_fields(1)[OF item(2)] show ?thesis by (auto simp: retrieval_item_def Let_def)
  qed simp
qed

section \<open>Search\<close>

lemma list_memory_member:
  assumes "list_memory env owner f limit db = Inr records" "item \<in> set records"
  shows "\<exists>r key. r \<in> set (md_records db) \<and> record_of_row env db r = Some item \<and> listed env owner f key r \<and>
    (mf_scope f = Some MSC_TASK \<and> mf_task_id f \<noteq> None \<longrightarrow>
       key = scope_key_of MSC_TASK owner (mv_project_path env (mf_project_path f)) (mf_task_id f))"
proof -
  obtain key rows where key: "mf_scope f = Some MSC_TASK \<and> mf_task_id f \<noteq> None \<longrightarrow>
       key = scope_key_of MSC_TASK owner (mv_project_path env (mf_project_path f)) (mf_task_id f)"
    and rows: "mapM (record_of_row env db) (take (nat (max 1 (min limit 1000))) rows) = Some records"
    "set rows = {r \<in> set (md_records db). listed env owner f key r}"
    using assms(1) unfolding list_memory_def and_then_Inr or_fail_Inr
    by (auto split: if_splits intro: set_sort)
  from mapM_in_result[OF rows(1) assms(2)] obtain r where
    r: "r \<in> set (take (nat (max 1 (min limit 1000))) rows)" "record_of_row env db r = Some item" by blast
  with rows(2) in_set_takeD[OF r(1)] key show ?thesis by blast
qed

lemma search_never_crosses_scope:
  assumes "search_memory env query owner f updated_after updated_before limit db = Inr records"
  shows "int (length records) \<le> max 1 (min limit 1000) \<and>
    (\<forall>item \<in> set records. \<exists>r \<in> set (md_records db). record_of_row env db r = Some item \<and>
       mr_owner_id r = owner \<and> (\<forall>scope. mf_scope f = Some scope \<longrightarrow> mr_scope_type r = scope) \<and>
       (mf_project_path f \<noteq> None \<longrightarrow> mr_project_realpath r = mv_project_path env (mf_project_path f)) \<and>
       (mf_task_id f \<noteq> None \<longrightarrow> mr_task_id r = mf_task_id f) \<and>
       set (tokens query) \<subseteq> set (tokens (me_subject item @ '' '' @ mv_canonical_json env (me_value item))))"
proof -
  let ?f = "f\<lparr>mf_include_deleted := False\<rparr>"
  from assms obtain candidates where
    listing: "list_memory env owner ?f (min 1000 (max (limit * 8) 64)) db = Inr candidates"
    and records: "records = take (nat (max 1 (min limit 1000))) (filter (\<lambda>item.
       \<not> (case updated_after of None \<Rightarrow> False | Some t \<Rightarrow> dt_less (me_updated_at item) t) \<and>
       \<not> (case updated_before of None \<Rightarrow> False | Some t \<Rightarrow> dt_less t (me_updated_at item)) \<and>
       (tokens query = [] \<or> set (tokens query) \<subseteq>
          set (tokens (me_subject item @ '' '' @ mv_canonical_json env (me_value item))))) candidates)"
    unfolding search_memory_def and_then_Inr guard_Inr sum.inject by blast
  have len: "length records \<le> nat (max 1 (min limit 1000))" unfolding records by simp
  have sub: "item \<in> set candidates \<and> (tokens query = [] \<or> set (tokens query) \<subseteq>
          set (tokens (me_subject item @ '' '' @ mv_canonical_json env (me_value item))))"
    if "item \<in> set records" for item
    using in_set_takeD[OF that[unfolded records]] by (simp only: set_filter mem_Collect_eq)
  have "\<exists>r \<in> set (md_records db). record_of_row env db r = Some item \<and>
       mr_owner_id r = owner \<and> (\<forall>scope. mf_scope f = Some scope \<longrightarrow> mr_scope_type r = scope) \<and>
       (mf_project_path f \<noteq> None \<longrightarrow> mr_project_realpath r = mv_project_path env (mf_project_path f)) \<and>
       (mf_task_id f \<noteq> None \<longrightarrow> mr_task_id r = mf_task_id f) \<and>
       set (tokens query) \<subseteq> set (tokens (me_subject item @ '' '' @ mv_canonical_json env (me_value item)))"
    if item: "item \<in> set records" for item
  proof -
    from list_memory_member[OF listing conjunct1[OF sub[OF item]]] obtain r key where
      r: "r \<in> set (md_records db)" "record_of_row env db r = Some item" "listed env owner ?f key r" by blast
    from r(3) have "mr_owner_id r = owner" "\<forall>scope. mf_scope f = Some scope \<longrightarrow> mr_scope_type r = scope"
      "mf_project_path f \<noteq> None \<longrightarrow> mr_project_realpath r = mv_project_path env (mf_project_path f)"
      "mf_task_id f \<noteq> None \<longrightarrow> mr_task_id r = mf_task_id f" by (auto simp: listed_def)
    moreover from sub[OF item] have
      "set (tokens query) \<subseteq> set (tokens (me_subject item @ '' '' @ mv_canonical_json env (me_value item)))" by auto
    ultimately show ?thesis using r(1,2) by blast
  qed
  with len show ?thesis by auto
qed

section \<open>Witnesses\<close>

definition sample_query :: "int \<Rightarrow> MemoryQuery" where
  "sample_query max_chars =
     \<lparr>mq_owner = ''local'', mq_project_path = None, mq_task_id = None, mq_query = ''Language, please'',
      mq_max_records = 6, mq_max_chars = max_chars, mq_min_relevance = 8 / 100, mq_current_commit = None,
      mq_allowed_types = []\<rparr>"

definition sample_result :: "int \<Rightarrow> RetrievalResultV1" where
  "sample_result max_chars = retrieve_memory_safe sample_memory_env (sample_query max_chars) 400 chosen_db"

lemma sample_retrieved:
  "\<not> isl (retrieve_memory sample_memory_env (sample_query n) 400 chosen_db) \<Longrightarrow>
     retrieve_memory sample_memory_env (sample_query n) 400 chosen_db = Inr (sample_result n)"
  by (auto simp: sample_result_def retrieve_memory_safe_def split: sum.split)

lemma sample_large: "\<not> isl (retrieve_memory sample_memory_env (sample_query 1500) 400 chosen_db)"
  by code_simp

lemma sample_small: "\<not> isl (retrieve_memory sample_memory_env (sample_query 20) 400 chosen_db)"
  by code_simp

lemma sample_large_items: "map ri_record_id (rr_items (sample_result 1500)) = [''r2'']"
  by code_simp

lemma sample_small_items: "rr_items (sample_result 20) = []"
  by code_simp

lemma sample_matches:
  "\<exists>r \<in> set (md_records chosen_db). retrieval_row sample_memory_env (sample_query 20) 400 r \<and>
     mq_min_relevance (sample_query 20) \<le> row_score (sample_query 20) r \<and>
     map_option (commit_current None r) (record_sources chosen_db (mr_record_id r)) = Some True"
  by code_simp

lemma sample_few: "length (filter (retrieval_row sample_memory_env (sample_query 20) 400) (md_records chosen_db)) \<le> 512"
  by code_simp


theorem retrieval_omits_only_what_does_not_fit_witness:
  "\<exists>r \<in> set (md_records chosen_db). \<exists>sources.
     rr_max_chars (sample_result 20) - rr_used_chars (sample_result 20) <
       item_cost sample_memory_env (retrieval_item sample_memory_env (sample_query 20) (row_score (sample_query 20) r, r, sources))"
proof -
  obtain r where r: "r \<in> set (md_records chosen_db)" "retrieval_row sample_memory_env (sample_query 20) 400 r"
    "mq_min_relevance (sample_query 20) \<le> row_score (sample_query 20) r"
    "map_option (commit_current None r) (record_sources chosen_db (mr_record_id r)) = Some True"
    using sample_matches by blast
  then obtain sources where s: "record_sources chosen_db (mr_record_id r) = Some sources" "commit_current None r sources"
    by auto
  have short: "int (length (rr_items (sample_result 20))) < record_limit (sample_query 20)"
    by (simp add: sample_small_items record_limit_def sample_query_def)
  have commit: "commit_current (mq_current_commit (sample_query 20)) r sources" using s(2) by (simp add: sample_query_def)
  from retrieval_omits_only_what_does_not_fit[OF sample_retrieved[OF sample_small] short sample_few r(1-3) s(1) commit]
    sample_small_items r(1) show ?thesis by auto
qed

end
