(* ===== verification/Reviewer.thy ===== *)
theory Reviewer
  imports CodingContracts Results "HOL-Library.Char_ord" "HOL-Library.List_Lexorder"
begin

text \<open>
  The independent evidence gate of \<open>services/coding/reviewer.py\<close>. What the code asks Git and the file
  system is the record \<open>ReviewEvidence\<close>; hashing and secret detection are functions of \<open>ReviewEnv\<close>.
  Paths follow \<open>posixpath\<close>; on Windows (\<open>rn_nt\<close>) they are compared without case.
\<close>

datatype ReviewError = ReviewPolicyError | ReviewValidationError

type_synonym 'a review = "ReviewError + 'a"

record SourceIdentity =
  si_base_commit :: string
  si_git_metadata :: string
  si_dirty :: string

text \<open>
  The live identity of the source, the changed paths, whether the paths of the worktree resolve to the
  target and the source, its \<open>HEAD\<close>, the bounded diff (\<open>None\<close> when scanning or rendering raises), and
  the exit status of \<open>git diff --check\<close>.
\<close>

record ReviewEvidence =
  re_live_source :: SourceIdentity
  re_modified :: "string list"
  re_target_matches :: bool
  re_source_matches :: bool
  re_head :: string
  re_diff :: "string option"
  re_diff_check_ok :: bool
  re_read_only_unchanged :: bool
  re_reviewed_at :: datetime

record ReviewEnv =
  rn_nt :: bool
  rn_detect_secret :: "string \<Rightarrow> string option"
  rn_reviewer_digest :: "string list \<Rightarrow> string \<Rightarrow> string"

section \<open>Paths\<close>

text \<open>\<open>posixpath.normpath\<close>: empty and dot components go, a parent takes back what it can.\<close>

fun norm_parts :: "bool \<Rightarrow> string list \<Rightarrow> string list \<Rightarrow> string list" where
  "norm_parts absolute kept [] = rev kept"
| "norm_parts absolute kept (c # cs) =
     (if c = [] \<or> c = ''.'' then norm_parts absolute kept cs
      else if c \<noteq> ''..'' \<or> (\<not> absolute \<and> kept = []) \<or> (kept \<noteq> [] \<and> hd kept = ''..'')
        then norm_parts absolute (c # kept) cs
      else norm_parts absolute (tl kept) cs)"

definition normpath :: "string \<Rightarrow> string" where
  "normpath s =
     (if s = [] then ''.''
      else let slashes = (if prefix ''//'' s \<and> \<not> prefix ''///'' s then ''//'' else if prefix ''/'' s then ''/'' else []);
          path = slashes @ join ''/'' (norm_parts (slashes \<noteq> []) [] (split_on (CHR ''/'') [] s))
        in if path = [] then ''.'' else path)"

definition rstrip_slash :: "string \<Rightarrow> string" where
  "rstrip_slash s = rev (dropWhile (\<lambda>c. c = CHR ''/'') (rev s))"

definition safe_expected_path :: "string \<Rightarrow> string review" where
  "safe_expected_path value =
     (let slashed = slash_normalized value; normalized = rstrip_slash slashed in
      and_then (guard (\<not> (prefix ''/'' slashed \<or> has_drive_prefix slashed)) ReviewPolicyError) (\<lambda>_.
      and_then (guard (\<not> (normalized = [] \<or> prefix ''/'' normalized \<or> ''..'' \<in> set (posix_parts normalized)))
        ReviewPolicyError) (\<lambda>_.
      Inr (normpath normalized))))"

definition scope_key :: "bool \<Rightarrow> string \<Rightarrow> string" where
  "scope_key nt s = (if nt then casefold s else s)"

definition matches_scope :: "bool \<Rightarrow> string \<Rightarrow> string list \<Rightarrow> bool" where
  "matches_scope nt path expected \<longleftrightarrow>
     (let candidate = scope_key nt (normpath (slash_normalized path)) in
      list_ex (\<lambda>item. candidate = scope_key nt item \<or> prefix (scope_key nt item @ ''/'') candidate) expected)"

fun map_result :: "('a \<Rightarrow> 'e + 'b) \<Rightarrow> 'a list \<Rightarrow> 'e + 'b list" where
  "map_result f [] = Inr []"
| "map_result f (x # xs) = and_then (f x) (\<lambda>y. and_then (map_result f xs) (\<lambda>ys. Inr (y # ys)))"

section \<open>Findings\<close>

definition finding :: "ReviewSeverity \<Rightarrow> string \<Rightarrow> string \<Rightarrow> string \<Rightarrow> string option \<Rightarrow> ReviewFindingV1 review" where
  "finding severity code scenario remediation path =
     or_fail ReviewValidationError (validate_ReviewFindingV1
       \<lparr>fi_severity = severity, fi_code = code, fi_file = path, fi_line = None,
        fi_failure_scenario = scenario, fi_remediation = remediation\<rparr>)"

text \<open>One finding when a condition holds, none otherwise.\<close>

definition finding_if :: "bool \<Rightarrow> ReviewFindingV1 review \<Rightarrow> ReviewFindingV1 list review" where
  "finding_if b f = (if b then and_then f (\<lambda>item. Inr [item]) else Inr [])"

fun all_findings :: "ReviewFindingV1 list review list \<Rightarrow> ReviewFindingV1 list review" where
  "all_findings [] = Inr []"
| "all_findings (f # fs) = and_then f (\<lambda>xs. and_then (all_findings fs) (\<lambda>ys. Inr (xs @ ys)))"

definition source_findings :: "SourceIdentity \<Rightarrow> SourceIdentity \<Rightarrow> ReviewFindingV1 list review" where
  "source_findings live snapshot = all_findings
     [finding_if (si_base_commit live \<noteq> si_base_commit snapshot)
        (finding SEV_CRITICAL ''source.head_changed''
          ''The user's source worktree moved to another HEAD while the isolated task was running.''
          ''Stop and let the user reconcile the source repository before resuming.'' None),
      finding_if (si_git_metadata live \<noteq> si_git_metadata snapshot)
        (finding SEV_CRITICAL ''source.git_metadata_changed''
          ''Shared Git configuration, tags, or remote-tracking refs changed while the isolated task was running.''
          ''Stop before approval/commit; inspect remote configuration and protected refs, then restart from a confirmed snapshot.''
          None),
      finding_if (si_dirty live \<noteq> si_dirty snapshot)
        (finding SEV_CRITICAL ''source.dirty_work_changed''
          ''The user's pre-existing uncommitted work changed during task execution.''
          ''Stop; preserve the user worktree and resume only from a newly confirmed snapshot.'' None)]"

definition worktree_findings ::
    "ReviewEvidence \<Rightarrow> SourceIdentity \<Rightarrow> WorktreeRecordV1 option \<Rightarrow> ReviewFindingV1 list review" where
  "worktree_findings ev snapshot worktree =
     (case worktree of
        None \<Rightarrow> all_findings
          [finding_if True (finding SEV_CRITICAL ''worktree.missing''
            ''The reviewed result has no isolated task worktree.''
            ''Create and register an owned task worktree before execution.'' None)]
      | Some w \<Rightarrow> all_findings
          [finding_if (\<not> re_target_matches ev \<or> \<not> re_source_matches ev \<or> wr_base_commit w \<noteq> si_base_commit snapshot)
            (finding SEV_CRITICAL ''worktree.identity_mismatch''
              ''The registered worktree does not match the reviewed target, source repository, and base commit.''
              ''Stop and recreate the owned worktree from the recorded source snapshot.'' None),
           finding_if (re_head ev \<noteq> wr_base_commit w)
            (finding SEV_HIGH ''executor.commit_forbidden''
              ''The executor changed HEAD before the independent review/commit gate.''
              ''Discard the executor commit and let the Coding Engine create the sole optional local commit.'' None)])"

definition read_only_findings :: "ReviewEvidence \<Rightarrow> CommandResultV1 list \<Rightarrow> ReviewFindingV1 list review" where
  "read_only_findings ev results = all_findings
     [finding_if (results \<noteq> [])
        (finding SEV_HIGH ''read_only.project_command''
          ''A read-only inspect/list/review task recorded a project command.''
          ''Repeat the task without executing project scripts or verifiers.'' None),
      finding_if (re_modified ev \<noteq> [])
        (finding SEV_CRITICAL ''read_only.worktree_changed''
          ''A read-only task changed files in its isolated worktree.''
          ''Discard the isolated changes and repeat with read-only tools only.'' (Some (hd (re_modified ev)))),
      finding_if (\<not> re_read_only_unchanged ev \<and> re_modified ev = [])
        (finding SEV_CRITICAL ''read_only.worktree_changed''
          ''A read-only task changed the isolated worktree, including ignored files or Git HEAD.''
          ''Preserve the worktree for audit and repeat in a proven read-only sandbox.'' None)]"

text \<open>
  \<open>(?m)^\+(?!\+\+\+).*?[\t ]\r?$\<close>: an added line of the diff that ends in a tab or a blank, before an
  optional carriage return.
\<close>

definition added_trailing_whitespace :: "string \<Rightarrow> bool" where
  "added_trailing_whitespace diff \<longleftrightarrow>
     list_ex (\<lambda>line. prefix ''+'' line \<and> \<not> prefix ''++++'' line \<and>
         (let body = tl line; ends = (\<lambda>s. s \<noteq> [] \<and> last s \<in> {CHR 0x09, CHR '' ''}) in
          ends body \<or> (body \<noteq> [] \<and> last body = CHR 0x0D \<and> ends (butlast body))))
       (split_on (CHR 0x0A) [] diff)"

definition scope_findings :: "bool \<Rightarrow> CodingTaskRequestV1 \<Rightarrow> string list \<Rightarrow> ReviewFindingV1 list review" where
  "scope_findings nt request modified =
     and_then (map_result safe_expected_path (cq_expected_diff_paths request)) (\<lambda>expected.
     and_then (map_result (\<lambda>path. finding SEV_HIGH ''diff.unexpected_file''
         ''The executor modified a file outside the task's declared diff scope.''
         ''Revert this file in the isolated worktree or explicitly expand the task scope.'' (Some path))
       (take 64 (filter (\<lambda>item. expected \<noteq> [] \<and> \<not> matches_scope nt item expected) modified))) (\<lambda>unexpected.
     and_then (map_result safe_expected_path (cq_forbidden_diff_paths request)) (\<lambda>forbidden.
     and_then (map_result (\<lambda>path. finding SEV_HIGH ''diff.forbidden_file''
         ''The executor modified a file that the task explicitly protected from changes.''
         ''Revert this file in the isolated worktree; a negative path constraint cannot be overridden by the executor.''
         (Some path))
       (take 64 (filter (\<lambda>item. matches_scope nt item forbidden) modified))) (\<lambda>denied.
     Inr (unexpected @ denied)))))"

definition write_findings :: "ReviewEnv \<Rightarrow> ReviewEvidence \<Rightarrow> CodingTaskRequestV1 \<Rightarrow> ReviewFindingV1 list review" where
  "write_findings env ev request =
     (let diff = (case re_diff ev of None \<Rightarrow> [] | Some d \<Rightarrow> d);
          secret = (if diff \<noteq> [] then rn_detect_secret env diff else None)
      in all_findings
     [finding_if (re_modified ev = [])
        (finding SEV_HIGH ''diff.empty'' ''The write task produced no reviewable file change.''
          ''Re-run with a concrete minimal change or mark the task blocked with evidence.'' None),
      finding_if (re_diff ev = None)
        (finding SEV_HIGH ''diff.unavailable'' ''The complete bounded diff could not be rendered.''
          ''Reduce the change scope and regenerate a bounded diff before review.'' None),
      finding_if (\<not> re_diff_check_ok ev \<or> added_trailing_whitespace diff)
        (finding SEV_HIGH ''diff.whitespace_error'' ''Git detected whitespace errors in the task diff.''
          ''Correct the reported whitespace errors and rerun verification.'' None),
      scope_findings (rn_nt env) request (re_modified ev),
      finding_if (truthy secret)
        (finding SEV_CRITICAL ''diff.secret_detected''
          (''The bounded diff matched privacy rule '' @ the secret @ ''.'')
          ''Remove the credential or secret material; do not persist or hand it off.'' None)])"

section \<open>Verification evidence\<close>

fun command_status_text :: "CommandStatus \<Rightarrow> string" where
  "command_status_text CS_PASSED = ''passed''"
| "command_status_text CS_FAILED = ''failed''"
| "command_status_text CS_TIMED_OUT = ''timed_out''"
| "command_status_text CS_CANCELLED = ''cancelled''"
| "command_status_text CS_NOT_RUN = ''not_run''"

definition remove_suffix :: "string \<Rightarrow> string \<Rightarrow> string" where
  "remove_suffix end s = (if suffix end s then take (length s - length end) s else s)"

definition program_name :: "string \<Rightarrow> string" where
  "program_name value = casefold (last (split_on (CHR ''/'') [] (slash_normalized value)))"

definition is_semantic_verification_argv :: "string list \<Rightarrow> bool" where
  "is_semantic_verification_argv argv \<longleftrightarrow>
     argv \<noteq> [] \<and> remove_suffix ''.cmd'' (remove_suffix ''.exe'' (program_name (hd argv))) \<noteq> ''git''"

text \<open>The required commands are a set, listed without repetition.\<close>

definition missing_commands :: "string list \<Rightarrow> CommandResultV1 list \<Rightarrow> string list" where
  "missing_commands required results =
     sort (filter (\<lambda>i. i \<notin> cm_command_id ` set results) (dedup required))"

definition failed_results :: "string list \<Rightarrow> CommandResultV1 list \<Rightarrow> CommandResultV1 list" where
  "failed_results required results =
     filter (\<lambda>item. cm_command_id item \<in> set required \<and> cm_status item \<noteq> CS_PASSED) results"

definition semantic_evidence_passed :: "string list \<Rightarrow> CommandResultV1 list \<Rightarrow> bool" where
  "semantic_evidence_passed required results \<longleftrightarrow>
     (let semantic = filter (\<lambda>item. cm_command_id item \<in> set required \<and> is_semantic_verification_argv (cm_argv item)) results
      in semantic \<noteq> [] \<and> list_all (\<lambda>item. cm_status item = CS_PASSED) semantic)"

definition verification_findings ::
    "CodingMode \<Rightarrow> string list \<Rightarrow> CommandResultV1 list \<Rightarrow> ReviewFindingV1 list review" where
  "verification_findings mode required results = all_findings
     [map_result (\<lambda>i. finding SEV_HIGH ''verification.missing''
          (''Required verification '' @ i @ '' has no recorded result.'')
          ''Run the required allowlisted verifier in the task worktree.'' None)
        (missing_commands required results),
      map_result (\<lambda>item. finding SEV_HIGH ''verification.failed''
          (''Required verification '' @ cm_command_id item @ '' ended as '' @ command_status_text (cm_status item) @ ''.'')
          ''Fix the failure and rerun this exact verifier before commit.'' None)
        (failed_results required results),
      finding_if (mode = CM_WRITE \<and> \<not> semantic_evidence_passed required results)
        (finding SEV_HIGH ''requirements.evidence_missing''
          ''The write result has no passed semantic test, build, typecheck, lint, or UI verifier for its acceptance criteria.''
          ''Add a bounded repository verifier that exercises the requested behavior and rerun before approval.'' None)]"

section \<open>The review\<close>

definition has_code :: "string list \<Rightarrow> ReviewFindingV1 list \<Rightarrow> bool" where
  "has_code codes findings \<longleftrightarrow> list_ex (\<lambda>item. fi_code item \<in> set codes) findings"

definition constitution_codes :: "string list" where
  "constitution_codes =
     [''source.head_changed'', ''source.git_metadata_changed'', ''source.dirty_work_changed'',
      ''read_only.project_command'', ''read_only.worktree_changed'', ''executor.commit_forbidden'',
      ''worktree.missing'', ''worktree.identity_mismatch'']"

definition blocking_findings :: "ReviewFindingV1 list \<Rightarrow> bool" where
  "blocking_findings findings \<longleftrightarrow> list_ex (\<lambda>item. blocking_severity (fi_severity item)) findings"

text \<open>What the review collects, and the result it builds from its findings.\<close>

definition review_findings ::
    "ReviewEnv \<Rightarrow> ReviewEvidence \<Rightarrow> CodingTaskRequestV1 \<Rightarrow> SourceIdentity \<Rightarrow> WorktreeRecordV1 option \<Rightarrow>
     CommandResultV1 list \<Rightarrow> string list \<Rightarrow> ReviewFindingV1 list review" where
  "review_findings env ev request snapshot worktree results required = all_findings
     [source_findings (re_live_source ev) snapshot, worktree_findings ev snapshot worktree,
      if cq_mode request = CM_READ_ONLY then read_only_findings ev results else write_findings env ev request,
      verification_findings (cq_mode request) required results]"

definition raw_review ::
    "ReviewEnv \<Rightarrow> ReviewEvidence \<Rightarrow> CodingTaskRequestV1 \<Rightarrow> SourceIdentity \<Rightarrow> CommandResultV1 list \<Rightarrow> string list \<Rightarrow>
     ReviewFindingV1 list \<Rightarrow> ReviewResultV1" where
  "raw_review env ev request snapshot results required findings =
     (let read_only = (cq_mode request = CM_READ_ONLY);
         diff_available = (read_only \<or> re_diff ev \<noteq> None);
         verdict = (if blocking_findings findings then REJECTED else APPROVED);
         material = [cq_task_id request, si_base_commit snapshot, si_git_metadata snapshot]
           @ cq_expected_diff_paths request @ cq_forbidden_diff_paths request @ re_modified ev @ sort (dedup required);
         diff = (if read_only then [] else case re_diff ev of None \<Rightarrow> [] | Some d \<Rightarrow> d)
     in \<lparr>rv_reviewer_id = ''review-'' @ take 16 (rn_reviewer_digest env material diff),
        rv_reviewer = DETERMINISTIC, rv_independent = True, rv_verdict = verdict, rv_findings = findings,
        rv_checked_requirements = False,
        rv_checked_tests = (read_only \<or> (semantic_evidence_passed required results \<and>
          missing_commands required results = [] \<and> failed_results required results = [])),
        rv_checked_diff_scope = (diff_available \<and>
          \<not> has_code [''diff.unavailable'', ''diff.unexpected_file'', ''diff.forbidden_file''] findings),
        rv_checked_secrets = (diff_available \<and> \<not> has_code [''diff.secret_detected''] findings),
        rv_checked_constitution = (\<not> has_code constitution_codes findings),
        rv_subject_sha256 = None, rv_evidence_artifact_id = None, rv_evidence_artifact_sha256 = None,
        rv_summary = (if verdict = APPROVED then ''Independent evidence gate approved the bounded result.''
          else ''Independent evidence gate rejected the result; blocking findings remain.''),
        rv_reviewed_at = re_reviewed_at ev\<rparr>)"

definition deterministic_review ::
    "ReviewEnv \<Rightarrow> ReviewEvidence \<Rightarrow> CodingTaskRequestV1 \<Rightarrow> SourceIdentity \<Rightarrow> WorktreeRecordV1 option \<Rightarrow>
     CommandResultV1 list \<Rightarrow> string list \<Rightarrow> ReviewResultV1 review" where
  "deterministic_review env ev request snapshot worktree results required =
     and_then (review_findings env ev request snapshot worktree results required) (\<lambda>findings.
     or_fail ReviewValidationError
       (validate_ReviewResultV1 (raw_review env ev request snapshot results required findings)))"

end
