(* ===== verification/Regex.thy ===== *)
theory Regex
  imports Prelude
begin

text \<open>
  The part of Python's \<open>re\<close> that the code uses: backtracking over a pattern. \<open>matches r s i caps\<close> lists
  the ends of all matches of \<open>r\<close> in \<open>s\<close> from position \<open>i\<close>, the preferred one first, each with its
  captured groups; \<open>re.match\<close> and \<open>re.search\<close> take the first. A repetition stops when its body consumes
  nothing. Patterns are values, built as the source writes them.
\<close>

datatype rx =
    RChar "char \<Rightarrow> bool"
  | REps
  | RSeq rx rx
  | RAlt rx rx
  | RStar bool rx
  | RGroup nat rx
  | RStart
  | REnd
  | RNotAfter "char \<Rightarrow> bool"
  | RAhead bool rx

type_synonym captures = "(nat \<times> nat \<times> nat) list"

definition at_end :: "string \<Rightarrow> nat \<Rightarrow> bool" where
  "at_end s i \<longleftrightarrow> i = length s \<or> (i + 1 = length s \<and> s ! i = CHR 0x0A)"

text \<open>
  \<open>then_from\<close> continues every end in a list with the next pattern, \<open>again_from\<close> those that moved on with
  the same repetition.
\<close>

function (sequential) matches :: "rx \<Rightarrow> string \<Rightarrow> nat \<Rightarrow> captures \<Rightarrow> (nat \<times> captures) list"
  and then_from :: "rx \<Rightarrow> string \<Rightarrow> nat \<Rightarrow> (nat \<times> captures) list \<Rightarrow> (nat \<times> captures) list"
  and again_from :: "bool \<Rightarrow> rx \<Rightarrow> string \<Rightarrow> nat \<Rightarrow> (nat \<times> captures) list \<Rightarrow> (nat \<times> captures) list" where
  "matches (RChar p) s i caps = (if i < length s \<and> p (s ! i) then [(i + 1, caps)] else [])"
| "matches REps s i caps = [(i, caps)]"
| "matches (RSeq a b) s i caps = then_from b s i (matches a s i caps)"
| "matches (RAlt a b) s i caps = matches a s i caps @ matches b s i caps"
| "matches (RStar greedy a) s i caps =
     (if greedy then again_from greedy a s i (matches a s i caps) @ [(i, caps)]
      else (i, caps) # again_from greedy a s i (matches a s i caps))"
| "matches (RGroup n a) s i caps = map (\<lambda>(j, c). (j, (n, i, j) # c)) (matches a s i caps)"
| "matches RStart s i caps = (if i = 0 then [(i, caps)] else [])"
| "matches REnd s i caps = (if at_end s i then [(i, caps)] else [])"
| "matches (RNotAfter p) s i caps = (if i \<noteq> 0 \<and> i \<le> length s \<and> p (s ! (i - 1)) then [] else [(i, caps)])"
| "matches (RAhead wanted a) s i caps = (if (matches a s i caps \<noteq> []) = wanted then [(i, caps)] else [])"
| "then_from b s i [] = []"
| "then_from b s i ((j, c) # ends) = (if i \<le> j then matches b s j c else []) @ then_from b s i ends"
| "again_from greedy a s i [] = []"
| "again_from greedy a s i ((j, c) # ends) =
     (if i < j \<and> j \<le> length s then matches (RStar greedy a) s j c else []) @ again_from greedy a s i ends"
  by pat_completeness auto

termination
  by (relation "measures
      [\<lambda>v. case v of Inl (r, s, i, caps) \<Rightarrow> length s - i | Inr (Inl (b, s, i, ends)) \<Rightarrow> length s - i
         | Inr (Inr (greedy, a, s, i, ends)) \<Rightarrow> length s - i,
       \<lambda>v. case v of Inl (r, s, i, caps) \<Rightarrow> size r | Inr (Inl (b, s, i, ends)) \<Rightarrow> size b
         | Inr (Inr (greedy, a, s, i, ends)) \<Rightarrow> size (RStar greedy a),
       \<lambda>v. case v of Inl x \<Rightarrow> 1 | Inr (Inl x) \<Rightarrow> 2 | Inr (Inr x) \<Rightarrow> 0,
       \<lambda>v. case v of Inl x \<Rightarrow> 0 | Inr (Inl (b, s, i, ends)) \<Rightarrow> length ends
         | Inr (Inr (greedy, a, s, i, ends)) \<Rightarrow> length ends]") auto

section \<open>Patterns\<close>

definition r_lit :: "string \<Rightarrow> rx" where
  "r_lit s = foldr (\<lambda>c r. RSeq (RChar (\<lambda>d. d = c)) r) s REps"

definition r_class :: "string \<Rightarrow> rx" where
  "r_class cs = RChar (\<lambda>c. c \<in> set cs)"

definition r_seq :: "rx list \<Rightarrow> rx" where
  "r_seq rs = foldr RSeq rs REps"

definition r_opt :: "rx \<Rightarrow> rx" where
  "r_opt r = RAlt r REps"

definition r_plus :: "rx \<Rightarrow> rx" where
  "r_plus r = RSeq r (RStar True r)"

definition r_lazy_plus :: "rx \<Rightarrow> rx" where
  "r_lazy_plus r = RSeq r (RStar False r)"

definition r_space :: rx where
  "r_space = RChar is_py_space"

definition r_digit :: rx where
  "r_digit = RChar is_digit_char"

text \<open>The dot: every character but the line feed.\<close>

definition r_any :: rx where
  "r_any = RChar (\<lambda>c. c \<noteq> CHR 0x0A)"

section \<open>Searching\<close>

definition match_at :: "rx \<Rightarrow> string \<Rightarrow> nat \<Rightarrow> (nat \<times> nat \<times> captures) option" where
  "match_at r s i = (case matches r s i [] of [] \<Rightarrow> None | (j, c) # _ \<Rightarrow> Some (i, j, c))"

definition re_match :: "rx \<Rightarrow> string \<Rightarrow> (nat \<times> nat \<times> captures) option" where
  "re_match r s = match_at r s 0"

definition re_fullmatch :: "rx \<Rightarrow> string \<Rightarrow> (nat \<times> nat \<times> captures) option" where
  "re_fullmatch r s =
     (case filter (\<lambda>(j, c). j = length s) (matches r s 0 []) of [] \<Rightarrow> None | (j, c) # _ \<Rightarrow> Some (0, j, c))"

fun first_match :: "rx \<Rightarrow> string \<Rightarrow> nat list \<Rightarrow> (nat \<times> nat \<times> captures) option" where
  "first_match r s [] = None"
| "first_match r s (i # is) = (case match_at r s i of None \<Rightarrow> first_match r s is | Some m \<Rightarrow> Some m)"

definition re_search :: "rx \<Rightarrow> string \<Rightarrow> (nat \<times> nat \<times> captures) option" where
  "re_search r s = first_match r s [0..<length s + 1]"

text \<open>\<open>m.group(n)\<close>, \<open>None\<close> for a group that took no part.\<close>

definition group_text :: "string \<Rightarrow> captures \<Rightarrow> nat \<Rightarrow> string option" where
  "group_text s caps n = (case map_of caps n of None \<Rightarrow> None | Some (i, j) \<Rightarrow> Some (take (j - i) (drop i s)))"

section \<open>Where matches end\<close>

definition ends_ok :: "string \<Rightarrow> nat \<Rightarrow> (nat \<times> captures) list \<Rightarrow> bool" where
  "ends_ok s i ends \<longleftrightarrow> list_all (\<lambda>e. i \<le> fst e \<and> (i \<le> length s \<longrightarrow> fst e \<le> length s)) ends"

lemma ends_ok_simps [simp]:
  "ends_ok s i []" "ends_ok s i ((j, c) # ends) \<longleftrightarrow> i \<le> j \<and> (i \<le> length s \<longrightarrow> j \<le> length s) \<and> ends_ok s i ends"
  "ends_ok s i (xs @ ys) \<longleftrightarrow> ends_ok s i xs \<and> ends_ok s i ys"
  by (auto simp: ends_ok_def)

lemma ends_ok_groups [simp]: "ends_ok s i (map (\<lambda>(j, c). (j, f j c)) xs) \<longleftrightarrow> ends_ok s i xs"
  by (auto simp: ends_ok_def list_all_iff split_beta)

lemma ends_ok_later: "ends_ok s j ends \<Longrightarrow> i \<le> j \<Longrightarrow> (i \<le> length s \<longrightarrow> j \<le> length s) \<Longrightarrow> ends_ok s i ends"
  by (fastforce simp: ends_ok_def list_all_iff)

lemma matches_ends_ok:
  "ends_ok s i (matches r s i caps)"
  "ends_ok s i ends \<Longrightarrow> ends_ok s i (then_from b s i ends)"
  "ends_ok s i (again_from greedy b s i ends)"
proof (induction r s i caps and b s i ends and greedy b s i ends rule: matches_then_from_again_from.induct)
  case (12 b s i j c ends)
  then show ?case using ends_ok_later[of s j "matches b s j c" i] by simp
next
  case (14 greedy a s i j c ends)
  then show ?case using ends_ok_later[of s j "matches (RStar greedy a) s j c" i] by simp
qed simp_all

lemma matches_forward: "(j, c) \<in> set (matches r s i caps) \<Longrightarrow> i \<le> j \<and> (i \<le> length s \<longrightarrow> j \<le> length s)"
  using matches_ends_ok(1)[of s i r caps] by (auto simp: ends_ok_def list_all_iff)

lemma match_at_forward: "match_at r s i = Some (b, e, c) \<Longrightarrow> b = i \<and> b \<le> e \<and> (i \<le> length s \<longrightarrow> e \<le> length s)"
proof -
  assume m: "match_at r s i = Some (b, e, c)"
  then obtain rest where "matches r s i [] = (e, c) # rest" "b = i"
    by (auto simp: match_at_def split: list.splits)
  with matches_forward[of e c r s i "[]"] show ?thesis by simp
qed

lemma re_search_forward: "re_search r s = Some (b, e, c) \<Longrightarrow> b \<le> e \<and> e \<le> length s"
proof -
  have "first_match r s is = Some (b, e, c) \<Longrightarrow> \<forall>i \<in> set is. i \<le> length s \<Longrightarrow> b \<le> e \<and> e \<le> length s" for "is"
    by (induction "is") (auto split: option.splits dest!: match_at_forward)
  then show "re_search r s = Some (b, e, c) \<Longrightarrow> b \<le> e \<and> e \<le> length s" by (simp add: re_search_def)
qed

end
