(* ===== verification/CodexReview.thy ===== *)
theory CodexReview
  imports Reviewer Regex Json
begin

text \<open>
  The specialized Codex review and its merge with the evidence gate, \<open>merge_codex_review\<close> of
  \<open>services/coding/reviewer.py\<close>: the strict JSON protocol, the two text protocols for findings, and the
  verdict. \<open>CodexEnv\<close> holds \<open>json.loads\<close> (an object with all its pairs, \<open>None\<close> when it raises), the
  resolution of paths and the digest. A dash is the ASCII one, the others lie outside the modelled texts.
\<close>

text \<open>A \<open>ReviewPolicyError\<close> with its message, or another exception.\<close>

datatype CodexError = CodexPolicy string | CodexFailure

type_synonym 'a codex = "CodexError + 'a"

record CodexEnv =
  cx_loads :: "string \<Rightarrow> json option"
  cx_inside :: "string \<Rightarrow> string \<Rightarrow> bool"
  cx_absolute :: "string \<Rightarrow> bool"
  cx_relative_parts :: "string \<Rightarrow> string \<Rightarrow> string list option"
  cx_digest :: "string \<Rightarrow> string \<Rightarrow> string"

section \<open>Shared pieces\<close>

text \<open>\<open>re.sub(r"[^a-z0-9]+", ".", s)\<close>.\<close>

definition slug_char :: "char \<Rightarrow> bool" where
  "slug_char c \<longleftrightarrow> is_lower_char c \<or> is_digit_char c"

function dotted :: "string \<Rightarrow> string" where
  "dotted [] = []"
| "dotted (c # cs) = (if slug_char c then c # dotted cs else CHR ''.'' # dotted (dropWhile (\<lambda>d. \<not> slug_char d) cs))"
  by pat_completeness auto

termination
  by (relation "measure length") (auto simp: le_imp_less_Suc length_dropWhile_le)

definition slug_of :: "string \<Rightarrow> string" where
  "slug_of title =
     (let slug = take 80 (strip_by (\<lambda>c. c = CHR ''.'') (dotted (casefold title))) in
      if slug = [] then ''finding'' else slug)"

definition priority_severity :: "nat \<Rightarrow> ReviewSeverity" where
  "priority_severity p = (if p = 0 then SEV_CRITICAL else if p = 1 then SEV_HIGH else if p = 2 then SEV_MEDIUM else SEV_LOW)"

definition codex_finding :: "nat \<Rightarrow> string \<Rightarrow> string option \<Rightarrow> int option \<Rightarrow> string \<Rightarrow> ReviewFindingV1 codex" where
  "codex_finding priority title path line scenario =
     or_fail CodexFailure (validate_ReviewFindingV1
       \<lparr>fi_severity = priority_severity priority,
        fi_code = ''codex.p'' @ show_nat priority @ ''.'' @ slug_of title, fi_file = path, fi_line = line,
        fi_failure_scenario = scenario,
        fi_remediation = take 4096 (''Resolve the specialized review finding: '' @ title)\<rparr>)"

definition escape_message :: string where
  "escape_message = ''specialized review finding path escapes repository scope''"

definition safe_review_file :: "CodexEnv \<Rightarrow> string option \<Rightarrow> string \<Rightarrow> string codex" where
  "safe_review_file env repository value =
     (let normalized = slash_normalized (py_strip value); relative = normpath normalized in
      and_then (guard (\<not> (normalized = [] \<or> prefix ''/'' normalized \<or> has_drive_prefix normalized \<or>
          ''..'' \<in> set (posix_parts normalized))) (CodexPolicy escape_message)) (\<lambda>_.
      and_then (guard (relative \<noteq> ''.'' \<and> \<not> prefix ''../'' relative) (CodexPolicy escape_message)) (\<lambda>_.
      and_then (guard (case repository of None \<Rightarrow> True | Some root_dir \<Rightarrow> cx_inside env root_dir relative)
        (CodexPolicy escape_message)) (\<lambda>_.
      Inr relative))))"

section \<open>The JSON protocol\<close>

fun no_duplicate_keys :: "json \<Rightarrow> bool" where
  "no_duplicate_keys (JList xs) = list_all no_duplicate_keys xs"
| "no_duplicate_keys (JObj kvs) \<longleftrightarrow> distinct (map fst kvs) \<and> list_all no_duplicate_keys (map snd kvs)"
| "no_duplicate_keys JNull = True"
| "no_duplicate_keys (JBool b) = True"
| "no_duplicate_keys (JInt n) = True"
| "no_duplicate_keys (JFloat x) = True"
| "no_duplicate_keys (JStr s) = True"

definition exact_object_keys :: "json \<Rightarrow> string list \<Rightarrow> string list \<Rightarrow> (string \<times> json) list codex" where
  "exact_object_keys value required optional_keys =
     (case value of
        JObj kvs \<Rightarrow>
          if set required \<subseteq> set (map fst kvs) \<and> set (map fst kvs) \<subseteq> set required \<union> set optional_keys then Inr kvs
          else Inl (CodexPolicy ''Codex review JSON object has invalid fields'')
      | _ \<Rightarrow> Inl (CodexPolicy ''Codex review JSON object has an invalid type''))"

definition invalid_field :: "string \<Rightarrow> CodexError" where
  "invalid_field field = CodexPolicy (''Codex review JSON '' @ field @ '' is invalid'')"

definition member :: "string \<Rightarrow> (string \<times> json) list \<Rightarrow> json" where
  "member key kvs = (case jget key kvs of None \<Rightarrow> JNull | Some v \<Rightarrow> v)"

definition bounded_review_string :: "json \<Rightarrow> string \<Rightarrow> nat \<Rightarrow> string codex" where
  "bounded_review_string value field maximum =
     (case value of
        JStr s \<Rightarrow> if 1 \<le> length s \<and> length s \<le> maximum then Inr s else Inl (invalid_field field)
      | _ \<Rightarrow> Inl (invalid_field field))"

definition bounded_review_number :: "json \<Rightarrow> string \<Rightarrow> unit codex" where
  "bounded_review_number value field =
     guard (case value of JInt n \<Rightarrow> 0 \<le> n \<and> n \<le> 1 | JFloat x \<Rightarrow> 0 \<le> x \<and> x \<le> 1 | _ \<Rightarrow> False) (invalid_field field)"

definition bounded_review_integer :: "json \<Rightarrow> string \<Rightarrow> int \<Rightarrow> int \<Rightarrow> int codex" where
  "bounded_review_integer value field minimum maximum =
     (case value of
        JInt n \<Rightarrow> if minimum \<le> n \<and> n \<le> maximum then Inr n else Inl (invalid_field field)
      | _ \<Rightarrow> Inl (invalid_field field))"

definition safe_absolute_review_file :: "CodexEnv \<Rightarrow> string option \<Rightarrow> json \<Rightarrow> string codex" where
  "safe_absolute_review_file env repository value =
     and_then (bounded_review_string value ''absolute_file_path'' 4096) (\<lambda>raw.
     and_then (guard (raw = py_strip raw \<and> list_all (\<lambda>c. 32 \<le> code_of c) raw)
       (CodexPolicy ''Codex review JSON path is invalid'')) (\<lambda>_.
     and_then (or_fail (CodexPolicy ''Codex review JSON path has no repository boundary'') repository) (\<lambda>root_dir.
     and_then (guard (\<not> prefix ''//'' (slash_normalized raw))
       (CodexPolicy ''Codex review JSON path escapes repository scope'')) (\<lambda>_.
     and_then (guard (cx_absolute env raw) (CodexPolicy ''Codex review JSON path must be absolute'')) (\<lambda>_.
     and_then (or_fail (CodexPolicy ''Codex review JSON path escapes repository scope'')
       (cx_relative_parts env root_dir raw)) (\<lambda>parts.
     and_then (guard (parts \<noteq> [] \<and> casefold (hd parts) \<noteq> ''.git'')
       (CodexPolicy ''Codex review JSON path escapes repository scope'')) (\<lambda>_.
     Inr (join ''/'' parts))))))))"

definition priority_marker :: rx where
  "priority_marker = RGroup 1 (RSeq (r_lit ''P'') (r_class ''0123''))"

definition title_pattern :: rx where
  "title_pattern = r_seq [r_lit ''['', priority_marker, r_lit '']'', r_plus r_space, RGroup 2 (r_plus r_any)]"

text \<open>The digit of a priority \<open>P0\<close> to \<open>P3\<close>, and the text of a group that took part.\<close>

definition priority_of :: "string \<Rightarrow> captures \<Rightarrow> nat" where
  "priority_of s caps = (case group_text s caps 1 of Some [p, d] \<Rightarrow> code_of d - 48 | _ \<Rightarrow> 0)"

definition group_or_empty :: "string \<Rightarrow> captures \<Rightarrow> nat \<Rightarrow> string" where
  "group_or_empty s caps n = (case group_text s caps n of None \<Rightarrow> [] | Some t \<Rightarrow> t)"

definition declared_priority :: "(string \<times> json) list \<Rightarrow> nat \<Rightarrow> unit codex" where
  "declared_priority kvs title_priority =
     (case jget ''priority'' kvs of
        None \<Rightarrow> Inr ()
      | Some v \<Rightarrow>
          and_then (bounded_review_integer v ''finding.priority'' 0 3) (\<lambda>p.
          guard (p = int title_priority) (CodexPolicy ''Codex review JSON priority fields are inconsistent'')))"

definition parse_json_finding :: "CodexEnv \<Rightarrow> string option \<Rightarrow> json \<Rightarrow> ReviewFindingV1 codex" where
  "parse_json_finding env repository raw =
     and_then (exact_object_keys raw [''title'', ''body'', ''confidence_score'', ''code_location''] [''priority'']) (\<lambda>kvs.
     and_then (bounded_review_string (member ''title'' kvs) ''finding.title'' 80) (\<lambda>title.
     and_then (or_fail (CodexPolicy ''Codex review JSON title has no priority marker'') (re_fullmatch title_pattern title))
       (\<lambda>(b, e, caps).
     let priority = priority_of title caps; clean_title = group_or_empty title caps 2 in
     and_then (declared_priority kvs priority) (\<lambda>_.
     and_then (bounded_review_string (member ''body'' kvs) ''finding.body'' 4096) (\<lambda>body.
     and_then (bounded_review_number (member ''confidence_score'' kvs) ''finding.confidence_score'') (\<lambda>_.
     and_then (exact_object_keys (member ''code_location'' kvs) [''absolute_file_path'', ''line_range''] []) (\<lambda>location.
     and_then (safe_absolute_review_file env repository (member ''absolute_file_path'' location)) (\<lambda>path.
     and_then (exact_object_keys (member ''line_range'' location) [''start'', ''end''] []) (\<lambda>range.
     and_then (bounded_review_integer (member ''start'' range) ''line_range.start'' 1 2147483647) (\<lambda>first.
     and_then (bounded_review_integer (member ''end'' range) ''line_range.end'' 1 2147483647) (\<lambda>final.
     and_then (guard (first \<le> final \<and> final - first + 1 \<le> 10)
       (CodexPolicy ''Codex review JSON line range is invalid'')) (\<lambda>_.
     codex_finding priority clean_title (Some path) (Some first) body))))))))))))"

definition parse_codex_json_review ::
    "CodexEnv \<Rightarrow> string option \<Rightarrow> string \<Rightarrow> (ReviewFindingV1 list \<times> bool) codex" where
  "parse_codex_json_review env repository codex_summary =
     and_then (or_fail (CodexPolicy ''Codex review JSON is invalid'') (cx_loads env codex_summary)) (\<lambda>payload.
     and_then (guard (no_duplicate_keys payload) (CodexPolicy ''Codex review JSON is invalid'')) (\<lambda>_.
     and_then (exact_object_keys payload
       [''findings'', ''overall_correctness'', ''overall_explanation'', ''overall_confidence_score''] []) (\<lambda>envelope.
     and_then (case member ''findings'' envelope of
         JList raws \<Rightarrow> if length raws \<le> 256 then Inr raws else Inl (CodexPolicy ''Codex review JSON findings are invalid'')
       | _ \<Rightarrow> Inl (CodexPolicy ''Codex review JSON findings are invalid'')) (\<lambda>raws.
     and_then (bounded_review_string (member ''overall_correctness'' envelope) ''overall_correctness'' 64) (\<lambda>overall.
     and_then (guard (overall \<in> {''patch is correct'', ''patch is incorrect''})
       (CodexPolicy ''Codex review JSON verdict is invalid'')) (\<lambda>_.
     and_then (bounded_review_string (member ''overall_explanation'' envelope) ''overall_explanation'' 4096) (\<lambda>_.
     and_then (bounded_review_number (member ''overall_confidence_score'' envelope) ''overall_confidence_score'') (\<lambda>_.
     and_then (guard ((raws \<noteq> []) = (overall = ''patch is incorrect''))
       (CodexPolicy ''Codex review JSON verdict is inconsistent'')) (\<lambda>_.
     and_then (map_result (parse_json_finding env repository) raws) (\<lambda>parsed.
     Inr (parsed, overall = ''patch is correct'')))))))))))"

section \<open>The text protocols\<close>

text \<open>\<open>str.splitlines\<close>.\<close>

definition is_line_break :: "char \<Rightarrow> bool" where
  "is_line_break c \<longleftrightarrow> code_of c \<in> {10, 11, 12, 13, 28, 29, 30, 133}"

fun splitlines :: "string \<Rightarrow> string \<Rightarrow> string list" where
  "splitlines acc [] = (if acc = [] then [] else [rev acc])"
| "splitlines acc (c # cs) =
     (if is_line_break c then
        rev acc # (if c = CHR 0x0D \<and> cs \<noteq> [] \<and> hd cs = CHR 0x0A then splitlines [] (tl cs) else splitlines [] cs)
      else splitlines (c # acc) cs)"

definition dash_separator :: rx where
  "dash_separator = r_seq [r_plus r_space, r_lit ''-'', r_plus r_space]"

definition header_pattern :: rx where
  "header_pattern = r_seq
     [RStart, r_opt (RSeq (r_lit ''-'') (r_plus r_space)), r_lit ''['', priority_marker, r_lit '']'', r_plus r_space,
      RGroup 2 (r_lazy_plus r_any), dash_separator, r_opt (r_lit ''`''), RGroup 3 (r_lazy_plus r_any), r_lit '':'',
      RGroup 4 (r_plus r_digit), r_opt (RSeq (r_lit ''-'') (r_plus r_digit)), r_opt (r_lit ''`''),
      r_opt (RSeq (RAlt dash_separator (RSeq (r_lit '':'') (RStar True r_space))) (RGroup 5 (r_plus r_any))),
      RStar True r_space, REnd]"

record CodexHeader =
  ch_priority :: nat
  ch_title :: string
  ch_file :: string
  ch_line :: string
  ch_scenario :: string

definition header_of :: "string \<Rightarrow> CodexHeader option" where
  "header_of raw =
     (let line = py_strip raw in
      case re_match header_pattern line of
        None \<Rightarrow> None
      | Some (b, e, caps) \<Rightarrow> Some \<lparr>ch_priority = priority_of line caps, ch_title = group_or_empty line caps 2,
          ch_file = group_or_empty line caps 3, ch_line = group_or_empty line caps 4,
          ch_scenario = group_or_empty line caps 5\<rparr>)"

text \<open>\<open>int(digits)\<close>, which raises beyond 4300 digits.\<close>

definition digits_int :: "string \<Rightarrow> int option" where
  "digits_int s =
     (if length s \<le> 4300 then Some (foldl (\<lambda>n c. 10 * n + (int (code_of c) - 48)) 0 s) else None)"

definition first_nonempty :: "string \<Rightarrow> string \<Rightarrow> string" where
  "first_nonempty a b = (if a = [] then b else a)"

definition header_finding :: "CodexEnv \<Rightarrow> string option \<Rightarrow> CodexHeader \<Rightarrow> string list \<Rightarrow> ReviewFindingV1 codex" where
  "header_finding env repository header body =
     and_then (safe_review_file env repository (ch_file header)) (\<lambda>path.
     and_then (or_fail CodexFailure (digits_int (ch_line header))) (\<lambda>line.
     codex_finding (ch_priority header) (ch_title header) (Some (take 4096 path)) (Some line)
       (first_nonempty (take 4096 (join '' '' ((if ch_scenario header = [] then [] else [ch_scenario header]) @ body)))
          (take 4096 (ch_title header)))))"

definition body_lines :: "string list \<Rightarrow> string list" where
  "body_lines lines =
     filter (\<lambda>l. l \<noteq> []) (map py_strip (takeWhile (\<lambda>l. header_of l = None) lines))"

text \<open>One finding for each header; the lines up to the next header are its body.\<close>

function text_findings :: "CodexEnv \<Rightarrow> string option \<Rightarrow> string list \<Rightarrow> ReviewFindingV1 list codex" where
  "text_findings env repository [] = Inr []"
| "text_findings env repository (l # ls) =
     (case header_of l of
        None \<Rightarrow> text_findings env repository ls
      | Some header \<Rightarrow>
          (case header_finding env repository header (body_lines ls) of
             Inl e \<Rightarrow> Inl e
           | Inr item \<Rightarrow>
               (case text_findings env repository (dropWhile (\<lambda>m. header_of m = None) ls) of
                  Inl e \<Rightarrow> Inl e | Inr items \<Rightarrow> Inr (item # items))))"
  by pat_completeness auto

termination
  by (relation "measure (\<lambda>(env, repository, lines). length lines)") (auto simp: le_imp_less_Suc length_dropWhile_le)

definition fallback_header :: rx where
  "fallback_header = r_seq
     [RStart, r_opt (RSeq (r_lit ''-'') (r_plus r_space)), r_lit ''['', priority_marker, r_lit '']'', RStar True r_space,
      r_opt (r_lit '':''), RStar True (r_class ('' '' @ [CHR 0x09])), RGroup 2 (r_plus r_any), REnd]"

definition path_char :: "char \<Rightarrow> bool" where
  "path_char c \<longleftrightarrow> is_alnum_char c \<or> in_class c ''_.-''"

definition escaping_path :: rx where
  "escaping_path = RSeq
     (RAlt RStart (RChar (\<lambda>c. is_py_space c \<or> in_class c ''`('')))
     (RAlt (r_seq [RChar (\<lambda>c. is_lower_char c \<or> is_upper_char c), r_lit '':'', r_class [CHR ''/'', CHR 0x5C]])
        (RAlt (r_lit ''/'') (RSeq (r_lit ''..'') (r_class [CHR ''/'', CHR 0x5C]))))"

definition fallback_location :: rx where
  "fallback_location = r_seq
     [RNotAfter (\<lambda>c. path_char c \<or> c = CHR ''/''),
      RGroup 1 (r_seq [RStar True (RSeq (r_plus (RChar path_char)) (r_lit ''/'')), r_plus (RChar path_char), r_lit ''.'',
        r_plus (RChar path_char)]),
      r_lit '':'', RGroup 2 (r_plus r_digit)]"

definition fallback_position ::
    "CodexEnv \<Rightarrow> string option \<Rightarrow> string \<Rightarrow> captures option \<Rightarrow> (string option \<times> int option) codex" where
  "fallback_position env repository searched found =
     (case found of
        None \<Rightarrow> Inr (None, None)
      | Some caps \<Rightarrow>
          and_then (safe_review_file env repository (group_or_empty searched caps 1)) (\<lambda>path.
          and_then (or_fail (CodexPolicy []) (digits_int (group_or_empty searched caps 2))) (\<lambda>line.
          Inr (Some path, Some line))))"

definition fallback_finding :: "CodexEnv \<Rightarrow> string option \<Rightarrow> nat \<Rightarrow> string \<Rightarrow> ReviewFindingV1 codex" where
  "fallback_finding env repository priority remainder =
     and_then (guard (re_search escaping_path remainder = None) (CodexPolicy [])) (\<lambda>_.
     let searched = slash_normalized remainder; found = re_search fallback_location searched;
         start = (case found of None \<Rightarrow> length remainder | Some (b, e, caps) \<Rightarrow> b);
         title = first_nonempty (strip_by (\<lambda>c. in_class c '' `[]()-:'') (take start remainder)) ''specialized review finding''
     in and_then (fallback_position env repository searched (map_option (\<lambda>(b, e, caps). caps) found)) (\<lambda>(path, line).
     codex_finding priority title path line (take 4096 remainder)))"

fun fallback_findings :: "CodexEnv \<Rightarrow> string option \<Rightarrow> string list \<Rightarrow> ReviewFindingV1 list codex" where
  "fallback_findings env repository [] = Inr []"
| "fallback_findings env repository (l # ls) =
     (let line = py_strip l in
      case re_match fallback_header line of
        None \<Rightarrow> fallback_findings env repository ls
      | Some (b, e, caps) \<Rightarrow>
          and_then (fallback_finding env repository (priority_of line caps) (group_or_empty line caps 2)) (\<lambda>item.
          and_then (fallback_findings env repository ls) (\<lambda>items. Inr (item # items))))"

section \<open>The merge\<close>

text \<open>What the protocols made of the output: findings, an invalid protocol with its reason, an approval.\<close>

record CodexReading =
  cr_parsed :: "ReviewFindingV1 list"
  cr_invalid :: bool
  cr_reason :: "string option"
  cr_approved :: bool

definition invalid_reading :: "string option \<Rightarrow> CodexReading" where
  "invalid_reading reason = \<lparr>cr_parsed = [], cr_invalid = True, cr_reason = reason, cr_approved = False\<rparr>"

definition valid_reading :: "ReviewFindingV1 list \<Rightarrow> bool \<Rightarrow> CodexReading" where
  "valid_reading parsed approved = \<lparr>cr_parsed = parsed, cr_invalid = False, cr_reason = None, cr_approved = approved\<rparr>"

definition read_text :: "CodexEnv \<Rightarrow> string option \<Rightarrow> string \<Rightarrow> CodexReading codex" where
  "read_text env repository codex_summary =
     (case text_findings env repository (splitlines [] codex_summary) of
        Inl (CodexPolicy m) \<Rightarrow> Inr (invalid_reading None)
      | Inl CodexFailure \<Rightarrow> Inl CodexFailure
      | Inr (item # items) \<Rightarrow> Inr (valid_reading (item # items) False)
      | Inr [] \<Rightarrow>
          (case fallback_findings env repository (splitlines [] codex_summary) of
             Inl (CodexPolicy m) \<Rightarrow> Inr (invalid_reading None)
           | Inl CodexFailure \<Rightarrow> Inl CodexFailure
           | Inr items \<Rightarrow> Inr (valid_reading items False)))"

definition read_codex :: "CodexEnv \<Rightarrow> string option \<Rightarrow> string \<Rightarrow> CodexReading codex" where
  "read_codex env repository codex_summary =
     (if prefix ''{'' (py_strip codex_summary) then
        (case parse_codex_json_review env repository codex_summary of
           Inr (parsed, approved) \<Rightarrow> Inr (valid_reading parsed approved)
         | Inl (CodexPolicy m) \<Rightarrow> Inr (invalid_reading (Some (take 512 m)))
         | Inl CodexFailure \<Rightarrow> Inl CodexFailure)
      else read_text env repository codex_summary)"

definition no_findings_text :: "string \<Rightarrow> bool" where
  "no_findings_text codex_summary \<longleftrightarrow> py_strip codex_summary = ''NO_FINDINGS''"

definition codex_verdict :: "CodexReading \<Rightarrow> string \<Rightarrow> ReviewVerdict" where
  "codex_verdict r codex_summary =
     (if cr_parsed r \<noteq> [] \<and> \<not> cr_invalid r then REJECTED
      else if \<not> cr_invalid r \<and> (cr_approved r \<or> no_findings_text codex_summary) then APPROVED
      else RV_BLOCKED)"

definition codex_review_summary :: "ReviewVerdict \<Rightarrow> string" where
  "codex_review_summary verdict =
     (if verdict = REJECTED then ''Specialized Codex review returned actionable findings.''
      else if verdict = APPROVED then ''Specialized Codex review returned no actionable findings.''
      else ''Specialized Codex review output could not be validated.'')"

definition unstructured_scenario :: "string option \<Rightarrow> string" where
  "unstructured_scenario reason =
     ''The specialized Codex reviewer output failed strict validation'' @
       (if truthy reason then '': '' @ the reason else ''.'')"

definition failure_of_finding :: "ReviewFindingV1 review \<Rightarrow> ReviewFindingV1 codex" where
  "failure_of_finding r = (case r of Inl e \<Rightarrow> Inl CodexFailure | Inr x \<Rightarrow> Inr x)"

text \<open>The findings a reading adds, and those of a mutated worktree.\<close>

definition reading_findings :: "CodexReading \<Rightarrow> ReviewVerdict \<Rightarrow> ReviewFindingV1 list codex" where
  "reading_findings r verdict =
     (if verdict = REJECTED then Inr (cr_parsed r)
      else if verdict = APPROVED then Inr []
      else and_then (failure_of_finding (finding SEV_HIGH ''codex.review_unstructured'' (unstructured_scenario (cr_reason r))
          ''Repeat specialized review with the strict JSON protocol before commit.'' None)) (\<lambda>item. Inr [item]))"

definition mutation_findings :: "bool \<Rightarrow> ReviewFindingV1 list codex" where
  "mutation_findings worktree_unchanged =
     (if worktree_unchanged then Inr []
      else and_then (failure_of_finding (finding SEV_CRITICAL ''codex.review_mutated_worktree''
          ''The read-only specialized review changed the task worktree.''
          ''Stop, inspect the isolated worktree, and repeat review in a proven read-only sandbox.'' None)) (\<lambda>item. Inr [item]))"

definition merged_verdict :: "ReviewVerdict \<Rightarrow> bool \<Rightarrow> ReviewVerdict \<Rightarrow> ReviewVerdict" where
  "merged_verdict gate blocking codex =
     (if gate = REJECTED then REJECTED
      else if gate = RV_BLOCKED then RV_BLOCKED
      else if blocking \<or> codex = REJECTED then REJECTED
      else if codex = RV_BLOCKED then RV_BLOCKED else APPROVED)"

definition merge_codex_review ::
    "CodexEnv \<Rightarrow> datetime \<Rightarrow> ReviewResultV1 \<Rightarrow> string \<Rightarrow> bool \<Rightarrow> string option \<Rightarrow> ReviewResultV1 codex" where
  "merge_codex_review env now deterministic codex_summary worktree_unchanged repository =
     and_then (read_codex env repository codex_summary) (\<lambda>r.
     let codex = codex_verdict r codex_summary in
     and_then (reading_findings r codex) (\<lambda>added.
     and_then (mutation_findings worktree_unchanged) (\<lambda>mutated.
     let findings = rv_findings deterministic @ added @ mutated in
     or_fail CodexFailure (validate_ReviewResultV1
       \<lparr>rv_reviewer_id = ''codex-review-'' @ take 12 (cx_digest env (rv_reviewer_id deterministic) codex_summary),
        rv_reviewer = CODEX_REVIEW, rv_independent = True,
        rv_verdict = merged_verdict (rv_verdict deterministic) (blocking_findings findings) codex,
        rv_findings = findings,
        rv_checked_requirements = (\<not> cr_invalid r \<and>
          (cr_parsed r \<noteq> [] \<or> cr_approved r \<or> no_findings_text codex_summary) \<and> worktree_unchanged),
        rv_checked_tests = rv_checked_tests deterministic, rv_checked_diff_scope = rv_checked_diff_scope deterministic,
        rv_checked_secrets = rv_checked_secrets deterministic,
        rv_checked_constitution = (rv_checked_constitution deterministic \<and> worktree_unchanged),
        rv_subject_sha256 = None, rv_evidence_artifact_id = None, rv_evidence_artifact_sha256 = None,
        rv_summary = codex_review_summary codex, rv_reviewed_at = now\<rparr>))))"

end
