(* ===== verification/ReviewerProperties.thy ===== *)
theory ReviewerProperties
  imports Reviewer
begin

text \<open>
  The evidence gate decides exactly by its evidence: a write review is approved if and only if the
  source stood still, the worktree is the recorded one, the diff is in scope and clean, and every
  required command passed.
\<close>

section \<open>Collected findings\<close>

lemma map_result_Nil [simp]: "map_result f xs = Inr [] \<longleftrightarrow> xs = []"
  by (cases xs) auto

lemma map_result_mem: "map_result f xs = Inr ys \<Longrightarrow> y \<in> set ys \<Longrightarrow> \<exists>x \<in> set xs. f x = Inr y"
  by (induction xs arbitrary: ys) auto

lemma map_result_image: "map_result f xs = Inr ys \<Longrightarrow> x \<in> set xs \<Longrightarrow> \<exists>y \<in> set ys. f x = Inr y"
  by (induction xs arbitrary: ys) auto

lemma finding_severity: "finding sev code s m p = Inr f \<Longrightarrow> fi_severity f = sev \<and> fi_code f = code"
  by (auto simp: finding_def validate_ReviewFindingV1_def bind_eq_Some_conv sized_def)

lemma finding_if_Nil [simp]: "finding_if b f = Inr [] \<longleftrightarrow> \<not> b"
  by (simp add: finding_if_def)

lemma finding_if_mem: "finding_if b f = Inr ys \<Longrightarrow> y \<in> set ys \<Longrightarrow> b \<and> f = Inr y"
  by (auto simp: finding_if_def split: if_splits)

lemma all_findings_Nil [simp]: "all_findings fs = Inr [] \<longleftrightarrow> (\<forall>f \<in> set fs. f = Inr [])"
  by (induction fs) auto

lemma all_findings_mem: "all_findings fs = Inr xs \<Longrightarrow> x \<in> set xs \<Longrightarrow> \<exists>f \<in> set fs. \<exists>ys. f = Inr ys \<and> x \<in> set ys"
  by (induction fs arbitrary: xs) auto

text \<open>Every finding of the gate blocks.\<close>

definition blocks :: "ReviewFindingV1 list review \<Rightarrow> bool" where
  "blocks f \<longleftrightarrow> (\<forall>xs. f = Inr xs \<longrightarrow> (\<forall>x \<in> set xs. blocking_severity (fi_severity x)))"

lemma blocksI: "(\<And>xs x. f = Inr xs \<Longrightarrow> x \<in> set xs \<Longrightarrow> blocking_severity (fi_severity x)) \<Longrightarrow> blocks f"
  unfolding blocks_def by blast

lemma blocks_all:
  assumes "\<forall>f \<in> set fs. blocks f"
  shows "blocks (all_findings fs)"
proof (rule blocksI)
  fix xs x assume "all_findings fs = Inr xs" "x \<in> set xs"
  from all_findings_mem[OF this] assms show "blocking_severity (fi_severity x)" unfolding blocks_def by blast
qed

lemma blocks_finding_if:
  assumes "blocking_severity sev"
  shows "blocks (finding_if b (finding sev code s m p))"
proof (rule blocksI)
  fix xs x assume "finding_if b (finding sev code s m p) = Inr xs" "x \<in> set xs"
  from finding_if_mem[OF this] finding_severity[of sev code s m p x] assms
  show "blocking_severity (fi_severity x)" by simp
qed

lemma blocks_map:
  assumes "blocking_severity sev"
  shows "blocks (map_result (\<lambda>x. finding sev code (s x) m (p x)) xs)"
proof (rule blocksI)
  fix ys y assume "map_result (\<lambda>x. finding sev code (s x) m (p x)) xs = Inr ys" "y \<in> set ys"
  from map_result_mem[OF this] finding_severity[of sev code _ m _ y] assms
  show "blocking_severity (fi_severity y)" by auto
qed

lemma blocking_severities [simp]: "blocking_severity SEV_HIGH" "blocking_severity SEV_CRITICAL"
  by (simp_all add: blocking_severity_def)

lemma blocks_scope: "blocks (scope_findings nt request modified)"
proof -
  have "blocking_severity (fi_severity x)"
    if "scope_findings nt request modified = Inr xs" "x \<in> set xs" for x xs
    using that unfolding scope_findings_def and_then_Inr
    by (auto dest!: map_result_mem dest: finding_severity)
  then show ?thesis unfolding blocks_def by blast
qed

lemmas blocks_intros = blocks_all blocks_finding_if blocks_map blocks_scope

lemma blocks_parts:
  "blocks (source_findings live snapshot)" "blocks (worktree_findings ev snapshot worktree)"
  "blocks (read_only_findings ev results)" "blocks (write_findings env ev request)"
  "blocks (verification_findings mode required results)"
  unfolding source_findings_def worktree_findings_def read_only_findings_def write_findings_def
    verification_findings_def Let_def
  by (auto split: option.split simp del: all_findings.simps intro!: blocks_intros)

section \<open>When the parts find nothing\<close>

lemma source_clean: "source_findings live snapshot = Inr [] \<longleftrightarrow> live = snapshot"
  by (cases live; cases snapshot) (auto simp: source_findings_def)

lemma worktree_clean:
  "worktree_findings ev snapshot worktree = Inr [] \<longleftrightarrow>
     (\<exists>w. worktree = Some w \<and> re_target_matches ev \<and> re_source_matches ev \<and>
        wr_base_commit w = si_base_commit snapshot \<and> re_head ev = wr_base_commit w)"
  by (auto simp: worktree_findings_def split: option.splits)

definition paths_in_scope :: "bool \<Rightarrow> CodingTaskRequestV1 \<Rightarrow> string list \<Rightarrow> bool" where
  "paths_in_scope nt request modified \<longleftrightarrow>
     (\<exists>expected forbidden. map_result safe_expected_path (cq_expected_diff_paths request) = Inr expected \<and>
        map_result safe_expected_path (cq_forbidden_diff_paths request) = Inr forbidden \<and>
        (\<forall>path \<in> set modified. (expected = [] \<or> matches_scope nt path expected) \<and> \<not> matches_scope nt path forbidden))"

lemma scope_clean: "scope_findings nt request modified = Inr [] \<longleftrightarrow> paths_in_scope nt request modified"
  unfolding scope_findings_def and_then_Inr paths_in_scope_def by (auto simp: filter_empty_conv)

lemma write_clean:
  "write_findings env ev request = Inr [] \<longleftrightarrow>
     re_modified ev \<noteq> [] \<and> re_diff_check_ok ev \<and>
     (\<exists>d. re_diff ev = Some d \<and> \<not> added_trailing_whitespace d \<and> (d = [] \<or> \<not> truthy (rn_detect_secret env d))) \<and>
     paths_in_scope (rn_nt env) request (re_modified ev)"
  by (auto simp: write_findings_def Let_def scope_clean truthy_def)

lemma sort_eq_Nil: "sort xs = [] \<longleftrightarrow> xs = []"
  by (metis set_empty set_sort)

lemma verification_clean:
  "verification_findings CM_WRITE required results = Inr [] \<longleftrightarrow>
     set required \<subseteq> cm_command_id ` set results \<and>
     (\<forall>item \<in> set results. cm_command_id item \<in> set required \<longrightarrow> cm_status item = CS_PASSED) \<and>
     semantic_evidence_passed required results"
  by (auto simp: verification_findings_def missing_commands_def failed_results_def filter_empty_conv sort_eq_Nil)

section \<open>The verdict\<close>

lemma validate_finding_same: "validate_ReviewFindingV1 f = Some g \<Longrightarrow> g = f"
  by (cases f) (auto simp: validate_ReviewFindingV1_def bind_eq_Some_conv sized_def optional_Some)

lemma validate_findings_same: "mapM validate_ReviewFindingV1 fs = Some gs \<Longrightarrow> gs = fs"
  unfolding mapM_Some_iff by (induction rule: list_all2_induct) (auto dest: validate_finding_same)

lemma validate_review_fields:
  assumes "validate_ReviewResultV1 raw = Some r"
  shows "rv_verdict r = rv_verdict raw" "rv_findings r = rv_findings raw" "rv_reviewer r = rv_reviewer raw"
    "rv_checked_requirements r = rv_checked_requirements raw" "rv_checked_tests r = rv_checked_tests raw"
    "rv_checked_diff_scope r = rv_checked_diff_scope raw" "rv_checked_secrets r = rv_checked_secrets raw"
    "rv_checked_constitution r = rv_checked_constitution raw"
  using assms unfolding validate_ReviewResultV1_def bind_eq_Some_conv Let_def
  by (auto dest!: validate_findings_same)

text \<open>What a write review asks of its evidence.\<close>

definition clean_write_evidence ::
    "ReviewEnv \<Rightarrow> ReviewEvidence \<Rightarrow> CodingTaskRequestV1 \<Rightarrow> SourceIdentity \<Rightarrow> WorktreeRecordV1 option \<Rightarrow>
     CommandResultV1 list \<Rightarrow> string list \<Rightarrow> bool" where
  "clean_write_evidence env ev request snapshot worktree results required \<longleftrightarrow>
     re_live_source ev = snapshot \<and>
     (\<exists>w. worktree = Some w \<and> re_target_matches ev \<and> re_source_matches ev \<and>
        wr_base_commit w = si_base_commit snapshot \<and> re_head ev = wr_base_commit w) \<and>
     re_modified ev \<noteq> [] \<and> re_diff_check_ok ev \<and>
     (\<exists>d. re_diff ev = Some d \<and> \<not> added_trailing_whitespace d \<and> (d = [] \<or> \<not> truthy (rn_detect_secret env d))) \<and>
     paths_in_scope (rn_nt env) request (re_modified ev) \<and>
     set required \<subseteq> cm_command_id ` set results \<and>
     (\<forall>item \<in> set results. cm_command_id item \<in> set required \<longrightarrow> cm_status item = CS_PASSED) \<and>
     semantic_evidence_passed required results"

lemma raw_review_simps [simp]:
  "rv_findings (raw_review env ev request snapshot results required fs) = fs"
  "rv_reviewer (raw_review env ev request snapshot results required fs) = DETERMINISTIC"
  "rv_verdict (raw_review env ev request snapshot results required fs) = (if blocking_findings fs then REJECTED else APPROVED)"
  "\<not> rv_checked_requirements (raw_review env ev request snapshot results required fs)"
  "rv_checked_tests (raw_review env ev request snapshot results required fs) \<longleftrightarrow> cq_mode request = CM_READ_ONLY \<or>
     (semantic_evidence_passed required results \<and> missing_commands required results = [] \<and> failed_results required results = [])"
  "rv_checked_diff_scope (raw_review env ev request snapshot results required fs) \<longleftrightarrow>
     (cq_mode request = CM_READ_ONLY \<or> re_diff ev \<noteq> None) \<and>
     \<not> has_code [''diff.unavailable'', ''diff.unexpected_file'', ''diff.forbidden_file''] fs"
  "rv_checked_secrets (raw_review env ev request snapshot results required fs) \<longleftrightarrow>
     (cq_mode request = CM_READ_ONLY \<or> re_diff ev \<noteq> None) \<and> \<not> has_code [''diff.secret_detected''] fs"
  "rv_checked_constitution (raw_review env ev request snapshot results required fs) \<longleftrightarrow> \<not> has_code constitution_codes fs"
  by (simp_all add: raw_review_def Let_def)

text \<open>Every finding blocks, so a review is approved exactly when it found nothing.\<close>

lemma approved_iff_no_findings:
  assumes "review_findings env ev request snapshot worktree results required = Inr findings"
  shows "blocking_findings findings \<longleftrightarrow> findings \<noteq> []"
proof -
  have "blocks (review_findings env ev request snapshot worktree results required)"
    unfolding review_findings_def by (rule blocks_all) (simp add: blocks_parts)
  with assms have "\<forall>x \<in> set findings. blocking_severity (fi_severity x)" unfolding blocks_def by blast
  then show ?thesis unfolding blocking_findings_def by (cases findings) auto
qed

lemma no_findings_iff:
  assumes "cq_mode request = CM_WRITE"
  shows "review_findings env ev request snapshot worktree results required = Inr [] \<longleftrightarrow>
    clean_write_evidence env ev request snapshot worktree results required"
proof -
  have "review_findings env ev request snapshot worktree results required = Inr [] \<longleftrightarrow>
      source_findings (re_live_source ev) snapshot = Inr [] \<and>
      worktree_findings ev snapshot worktree = Inr [] \<and> write_findings env ev request = Inr [] \<and>
      verification_findings CM_WRITE required results = Inr []"
    unfolding review_findings_def all_findings_Nil using assms by simp
  then show ?thesis
    unfolding source_clean worktree_clean write_clean verification_clean clean_write_evidence_def by blast
qed

lemma write_review_approves_iff:
  assumes "deterministic_review env ev request snapshot worktree results required = Inr r"
    "cq_mode request = CM_WRITE"
  shows "(rv_verdict r = APPROVED \<longleftrightarrow> clean_write_evidence env ev request snapshot worktree results required) \<and>
    (rv_verdict r = APPROVED \<longrightarrow> rv_findings r = [] \<and> rv_checked_tests r \<and> rv_checked_diff_scope r \<and>
       rv_checked_secrets r \<and> rv_checked_constitution r)"
proof -
  let ?clean = "clean_write_evidence env ev request snapshot worktree results required"
  obtain findings where findings: "review_findings env ev request snapshot worktree results required = Inr findings"
    and valid: "validate_ReviewResultV1 (raw_review env ev request snapshot results required findings) = Some r"
    using assms(1) unfolding deterministic_review_def and_then_Inr or_fail_Inr by blast
  note fields = validate_review_fields[OF valid, unfolded raw_review_simps]
  have none: "findings = [] \<longleftrightarrow> ?clean" using no_findings_iff[OF assms(2), of env ev snapshot worktree results required] findings
    by (metis sum.inject(2))
  have verdict: "rv_verdict r = APPROVED \<longleftrightarrow> findings = []"
    using fields(1) approved_iff_no_findings[OF findings] by simp
  have "?clean \<longrightarrow> missing_commands required results = [] \<and> failed_results required results = [] \<and>
      semantic_evidence_passed required results \<and> re_diff ev \<noteq> None"
    by (auto simp: clean_write_evidence_def missing_commands_def failed_results_def sort_eq_Nil filter_empty_conv)
  then have gates: "rv_checked_tests r \<and> rv_checked_diff_scope r \<and> rv_checked_secrets r \<and> rv_checked_constitution r"
    if "findings = []" using that none unfolding fields by (simp add: has_code_def)
  show ?thesis
  proof (cases "findings = []")
    case True
    with gates verdict none fields(2) show ?thesis by simp
  next
    case False
    with verdict none show ?thesis by blast
  qed
qed

text \<open>
  C21: The evidence gate approves a write exactly on clean evidence. The verdict is APPROVED if and only
  if the source did not move, the reviewed tree is the recorded worktree at its base commit, the
  complete diff is non-empty, free of white-space errors and secrets, every changed path lies in the
  declared scope and outside the protected one, and every required command passed with a semantic one
  among them; then the four structural gates are checked and nothing is found.
\<close>

theorem write_review_approves_exactly_clean_evidence:
  assumes "deterministic_review env ev request snapshot worktree results required = Inr r"
    "cq_mode request = CM_WRITE"
  shows "(rv_verdict r = APPROVED \<longleftrightarrow> clean_write_evidence env ev request snapshot worktree results required) \<and>
    (rv_verdict r = APPROVED \<longrightarrow> rv_findings r = [] \<and> rv_checked_tests r \<and> rv_checked_diff_scope r \<and>
       rv_checked_secrets r \<and> rv_checked_constitution r)"
  by (rule write_review_approves_iff[OF assms])

text \<open>A write that stays in its scope and passes its tests is approved.\<close>

definition sample_review_env :: ReviewEnv where
  "sample_review_env = \<lparr>rn_nt = False, rn_detect_secret = (\<lambda>d. None),
     rn_reviewer_digest = (\<lambda>material diff. replicate 64 (CHR ''a''))\<rparr>"

definition sample_source :: SourceIdentity where
  "sample_source = \<lparr>si_base_commit = replicate 40 (CHR ''0''), si_git_metadata = ''m'', si_dirty = ''d''\<rparr>"

definition sample_evidence :: ReviewEvidence where
  "sample_evidence = \<lparr>re_live_source = sample_source, re_modified = [''docs/guide.md''], re_target_matches = True,
     re_source_matches = True, re_head = replicate 40 (CHR ''0''), re_diff = Some ''+text'', re_diff_check_ok = True,
     re_read_only_unchanged = True, re_reviewed_at = Aware 5 0\<rparr>"

definition sample_write_request :: CodingTaskRequestV1 where
  "sample_write_request = \<lparr>cq_schema_version = ''1.0'', cq_task_id = ''t1'', cq_request_id = ''r1'',
     cq_goal = ''Improve the guide'', cq_repository_path = ''/repo'', cq_mode = CM_WRITE,
     cq_risk = CR_LOW, cq_constraints = [], cq_acceptance_criteria = [''written''],
     cq_verification_plan = [''test it''], cq_verification_commands = [],
     cq_permissions = \<lparr>cp_modify_files = True, cp_local_commit = False, cp_cloud_execution = False,
       cp_data_classification = DC_INTERNAL, cp_push = False, cp_deploy = False\<rparr>,
     cq_route_reasons = [], cq_rule_scope_paths = [], cq_expected_diff_paths = [''docs''],
     cq_forbidden_diff_paths = [''docs/private/''], cq_commit_message = None, cq_ui_url = None,
     cq_ui_selector = None, cq_ui_expected_text = None\<rparr>"

definition sample_worktree :: WorktreeRecordV1 where
  "sample_worktree = \<lparr>wr_schema_version = ''1.0'', wr_task_id = ''t1'', wr_source_repository = ''/repo'',
     wr_worktree_path = ''/w1'', wr_branch = Some ''task'', wr_git_dir = None, wr_git_common_dir = None,
     wr_git_marker_sha256 = None, wr_base_commit = replicate 40 (CHR ''0''),
     wr_owner_token_hash = replicate 64 (CHR ''c''), wr_status = WS_ACTIVE, wr_owner_pid = 7,
     wr_created_at = Aware 0 0, wr_heartbeat_at = Aware 1 0, wr_completed_at = None\<rparr>"

definition sample_command :: CommandResultV1 where
  "sample_command = \<lparr>cm_command_id = ''tests'', cm_argv = [''pytest''], cm_cwd = ''/w1'', cm_purpose = ''tests'',
     cm_status = CS_PASSED, cm_exit_code = Some 0, cm_started_at = Aware 2 0, cm_finished_at = Aware 3 0,
     cm_duration_ms = 5, cm_output_artifact_id = None, cm_summary = ''ok''\<rparr>"

definition sample_gate :: "ReviewEvidence \<Rightarrow> ReviewResultV1 review" where
  "sample_gate ev = deterministic_review sample_review_env ev sample_write_request sample_source
     (Some sample_worktree) [sample_command] [''tests'']"

lemma sample_gate_runs:
  "case sample_gate sample_evidence of Inl e \<Rightarrow> False | Inr r \<Rightarrow> rv_verdict r = APPROVED"
  "case sample_gate (sample_evidence\<lparr>re_modified := [''docs/private/key'']\<rparr>) of
     Inl e \<Rightarrow> False | Inr r \<Rightarrow> map fi_code (rv_findings r) = [''diff.forbidden_file'']"
  by code_simp+

theorem write_review_approves_exactly_clean_evidence_witness:
  "clean_write_evidence sample_review_env sample_evidence sample_write_request sample_source
     (Some sample_worktree) [sample_command] [''tests'']"
proof -
  obtain r where r: "sample_gate sample_evidence = Inr r" "rv_verdict r = APPROVED"
    using sample_gate_runs(1) by (auto split: sum.splits)
  have "cq_mode sample_write_request = CM_WRITE" by (simp add: sample_write_request_def)
  from write_review_approves_exactly_clean_evidence[OF r(1)[unfolded sample_gate_def] this] r(2)
  show ?thesis by blast
qed

end
