(* ===== verification/CodexReviewProperties.thy ===== *)
theory CodexReviewProperties
  imports CodexReview ReviewerProperties
begin

text \<open>
  The specialized review can only tighten the evidence gate: an approved merge of a write means clean
  evidence and a review without findings, and every priority marker in a text becomes a finding.
\<close>

section \<open>The merge\<close>

lemma codex_verdict_APPROVED:
  "codex_verdict r s = APPROVED \<longleftrightarrow> cr_parsed r = [] \<and> \<not> cr_invalid r \<and> (cr_approved r \<or> no_findings_text s)"
  by (auto simp: codex_verdict_def)

lemma codex_verdict_REJECTED: "codex_verdict r s = REJECTED \<longleftrightarrow> cr_parsed r \<noteq> [] \<and> \<not> cr_invalid r"
  by (auto simp: codex_verdict_def)

lemma failure_of_finding_Inr [simp]: "failure_of_finding f = Inr x \<longleftrightarrow> f = Inr x"
  by (cases f) (auto simp: failure_of_finding_def)

lemma mutation_findings_blocking:
  assumes "mutation_findings unchanged = Inr fs"
  shows "fs = [] \<longleftrightarrow> unchanged" "\<forall>f \<in> set fs. blocking_severity (fi_severity f)"
  using assms by (auto simp: mutation_findings_def dest!: finding_severity split: if_splits)

text \<open>What a successful merge returns.\<close>

lemma merge_codex_fields:
  assumes "merge_codex_review env now gate s unchanged repository = Inr r"
  obtains reading added mutated where "read_codex env repository s = Inr reading"
    "reading_findings reading (codex_verdict reading s) = Inr added" "mutation_findings unchanged = Inr mutated"
    "rv_findings r = rv_findings gate @ added @ mutated" "rv_reviewer r = CODEX_REVIEW"
    "rv_verdict r = merged_verdict (rv_verdict gate) (blocking_findings (rv_findings r)) (codex_verdict reading s)"
    "rv_checked_requirements r \<longleftrightarrow> \<not> cr_invalid reading \<and>
       (cr_parsed reading \<noteq> [] \<or> cr_approved reading \<or> no_findings_text s) \<and> unchanged"
    "rv_checked_tests r = rv_checked_tests gate" "rv_checked_diff_scope r = rv_checked_diff_scope gate"
    "rv_checked_secrets r = rv_checked_secrets gate"
    "rv_checked_constitution r \<longleftrightarrow> rv_checked_constitution gate \<and> unchanged"
proof -
  from assms obtain reading added mutated raw where parts: "read_codex env repository s = Inr reading"
    "reading_findings reading (codex_verdict reading s) = Inr added" "mutation_findings unchanged = Inr mutated"
    and valid: "validate_ReviewResultV1 raw = Some r"
    and raw: "raw = \<lparr>rv_reviewer_id = ''codex-review-'' @ take 12 (cx_digest env (rv_reviewer_id gate) s),
        rv_reviewer = CODEX_REVIEW, rv_independent = True,
        rv_verdict = merged_verdict (rv_verdict gate) (blocking_findings (rv_findings gate @ added @ mutated)) (codex_verdict reading s),
        rv_findings = rv_findings gate @ added @ mutated,
        rv_checked_requirements = (\<not> cr_invalid reading \<and>
          (cr_parsed reading \<noteq> [] \<or> cr_approved reading \<or> no_findings_text s) \<and> unchanged),
        rv_checked_tests = rv_checked_tests gate, rv_checked_diff_scope = rv_checked_diff_scope gate,
        rv_checked_secrets = rv_checked_secrets gate,
        rv_checked_constitution = (rv_checked_constitution gate \<and> unchanged),
        rv_subject_sha256 = None, rv_evidence_artifact_id = None, rv_evidence_artifact_sha256 = None,
        rv_summary = codex_review_summary (codex_verdict reading s), rv_reviewed_at = now\<rparr>"
    unfolding merge_codex_review_def Let_def and_then_Inr or_fail_Inr by blast
  note fields = validate_review_fields[OF valid]
  show ?thesis by (rule that[OF parts]) (simp_all add: fields raw)
qed

lemma merged_verdict_APPROVED:
  "merged_verdict gate blocking codex = APPROVED \<longleftrightarrow> gate = APPROVED \<and> \<not> blocking \<and> codex = APPROVED"
  by (cases gate; cases codex) (auto simp: merged_verdict_def)

lemma blocking_append [simp]: "blocking_findings (xs @ ys) \<longleftrightarrow> blocking_findings xs \<or> blocking_findings ys"
  by (auto simp: blocking_findings_def)

lemma blocking_Nil [simp]: "\<not> blocking_findings []"
  by (simp add: blocking_findings_def)

lemma blocking_all: "\<forall>f \<in> set fs. blocking_severity (fi_severity f) \<Longrightarrow> blocking_findings fs \<longleftrightarrow> fs \<noteq> []"
  by (cases fs) (auto simp: blocking_findings_def)

text \<open>A gate that did not approve decides alone, and its findings stay.\<close>

lemma merge_keeps_gate:
  assumes "merge_codex_review env now gate s unchanged repository = Inr r"
  shows "(rv_verdict gate \<noteq> APPROVED \<longrightarrow> rv_verdict r = rv_verdict gate) \<and> prefix (rv_findings gate) (rv_findings r)"
  using merge_codex_fields[OF assms]
  by (metis (full_types) ReviewVerdict.exhaust merged_verdict_def prefixI)

lemma merge_approves:
  assumes merge: "merge_codex_review env now gate s unchanged repository = Inr r"
  shows "rv_verdict r = APPROVED \<longleftrightarrow> rv_verdict gate = APPROVED \<and> \<not> blocking_findings (rv_findings gate) \<and> unchanged \<and>
    (\<exists>reading. read_codex env repository s = Inr reading \<and> codex_verdict reading s = APPROVED)"
proof -
  obtain reading added mutated where m: "read_codex env repository s = Inr reading"
    "reading_findings reading (codex_verdict reading s) = Inr added" "mutation_findings unchanged = Inr mutated"
    "rv_findings r = rv_findings gate @ added @ mutated"
    "rv_verdict r = merged_verdict (rv_verdict gate) (blocking_findings (rv_findings r)) (codex_verdict reading s)"
    by (rule merge_codex_fields[OF merge])
  have mutated: "blocking_findings mutated \<longleftrightarrow> \<not> unchanged"
    using mutation_findings_blocking[OF m(3)] blocking_all[of mutated] by blast
  have added: "codex_verdict reading s = APPROVED \<longrightarrow> added = []"
    using m(2) by (auto simp: reading_findings_def)
  show ?thesis unfolding m(5) merged_verdict_APPROVED m(4) using m(1) mutated added by auto
qed

text \<open>
  C25: An approved Codex review is a delivery over clean evidence. The merge of a write review with the
  specialized review is APPROVED if and only if the evidence gate found the evidence clean, the
  worktree stayed as it was, and the output reads as a valid protocol without findings that approves;
  then all gates are checked and the result counts as a successful delivery of the request.
\<close>

theorem approved_codex_review_is_a_delivery:
  assumes gate: "deterministic_review renv ev request snapshot worktree results required = Inr gate"
    and mode: "cq_mode request = CM_WRITE"
    and merge: "merge_codex_review env now gate s unchanged repository = Inr r"
  shows "(rv_verdict r = APPROVED \<longleftrightarrow>
      clean_write_evidence renv ev request snapshot worktree results required \<and> unchanged \<and>
      (\<exists>reading. read_codex env repository s = Inr reading \<and> cr_parsed reading = [] \<and> \<not> cr_invalid reading \<and>
         (cr_approved reading \<or> no_findings_text s))) \<and>
    (rv_verdict r = APPROVED \<longrightarrow> all_gates r \<and> is_successful_review_delivery request r)"
proof -
  have evidence: "rv_verdict gate = APPROVED \<longleftrightarrow> clean_write_evidence renv ev request snapshot worktree results required"
    and gates: "rv_verdict gate = APPROVED \<longrightarrow> rv_findings gate = [] \<and> rv_checked_tests gate \<and> rv_checked_diff_scope gate \<and>
       rv_checked_secrets gate \<and> rv_checked_constitution gate"
    using write_review_approves_iff[OF gate mode] by blast+
  have approved: "rv_verdict r = APPROVED \<longleftrightarrow> rv_verdict gate = APPROVED \<and> unchanged \<and>
    (\<exists>reading. read_codex env repository s = Inr reading \<and> codex_verdict reading s = APPROVED)"
    unfolding merge_approves[OF merge] using gates by auto
  have "all_gates r" "rv_reviewer r = CODEX_REVIEW" if r: "rv_verdict r = APPROVED"
  proof -
    obtain reading where m: "read_codex env repository s = Inr reading" "rv_reviewer r = CODEX_REVIEW"
      "rv_checked_requirements r \<longleftrightarrow> \<not> cr_invalid reading \<and>
         (cr_parsed reading \<noteq> [] \<or> cr_approved reading \<or> no_findings_text s) \<and> unchanged"
      "rv_checked_tests r = rv_checked_tests gate" "rv_checked_diff_scope r = rv_checked_diff_scope gate"
      "rv_checked_secrets r = rv_checked_secrets gate"
      "rv_checked_constitution r \<longleftrightarrow> rv_checked_constitution gate \<and> unchanged"
      by (rule merge_codex_fields[OF merge])
    from approved r m(1) have "codex_verdict reading s = APPROVED" "unchanged" "rv_verdict gate = APPROVED" by auto
    with m gates show "all_gates r" "rv_reviewer r = CODEX_REVIEW" by (auto simp: all_gates_def codex_verdict_APPROVED)
  qed
  then have "rv_verdict r = APPROVED \<longrightarrow> all_gates r \<and> is_successful_review_delivery request r"
    by (simp add: is_successful_review_delivery_def)
  then show ?thesis unfolding approved evidence codex_verdict_APPROVED by blast
qed

section \<open>Text protocols\<close>

definition is_marked :: "string \<Rightarrow> bool" where
  "is_marked l \<longleftrightarrow> re_match fallback_header (py_strip l) \<noteq> None"

lemma filter_dropWhile: "filter P (dropWhile (\<lambda>x. \<not> P x) xs) = filter P xs"
  by (induction xs) auto

lemma text_findings_count:
  "text_findings env repository lines = Inr items \<Longrightarrow>
   length items = length (filter (\<lambda>l. header_of l \<noteq> None) lines)"
proof (induction env repository lines arbitrary: items rule: text_findings.induct)
  case (2 env repository l ls)
  show ?case
  proof (cases "header_of l")
    case None
    with 2 show ?thesis by simp
  next
    case (Some header)
    with 2(3) obtain item rest where item: "header_finding env repository header (body_lines ls) = Inr item"
      and rest: "text_findings env repository (dropWhile (\<lambda>m. header_of m = None) ls) = Inr rest" "items = item # rest"
      by (auto split: sum.splits)
    have "filter (\<lambda>l. header_of l \<noteq> None) (dropWhile (\<lambda>m. header_of m = None) ls) = filter (\<lambda>l. header_of l \<noteq> None) ls"
      using filter_dropWhile[of "\<lambda>l. header_of l \<noteq> None" ls] by simp
    with 2(2)[OF Some item rest(1)] Some rest(2) show ?thesis by simp
  qed
qed simp

lemma fallback_findings_count:
  "fallback_findings env repository lines = Inr items \<Longrightarrow> length items = length (filter is_marked lines)"
  by (induction env repository lines arbitrary: items rule: fallback_findings.induct)
    (auto simp: is_marked_def Let_def split: option.splits)

text \<open>
  C26: A priority marker is a finding, never an approval. When the output of a text protocol is read as
  valid, there is exactly one finding for each line with a complete header, or, when no line has one,
  exactly one for each line with a priority marker; and an output with such a line never approves.
\<close>

theorem every_priority_marker_becomes_a_finding:
  assumes read: "read_codex env repository s = Inr reading" and plain: "\<not> prefix ''{'' (py_strip s)"
  shows "(\<not> cr_invalid reading \<longrightarrow> length (cr_parsed reading) =
       (let headers = filter (\<lambda>l. header_of l \<noteq> None) (splitlines [] s)
        in if headers \<noteq> [] then length headers else length (filter is_marked (splitlines [] s)))) \<and>
    (codex_verdict reading s = APPROVED \<longrightarrow>
       filter (\<lambda>l. header_of l \<noteq> None \<or> is_marked l) (splitlines [] s) = [])"
proof -
  let ?headers = "filter (\<lambda>l. header_of l \<noteq> None) (splitlines [] s)"
  let ?marked = "filter is_marked (splitlines [] s)"
  have valid: "length (cr_parsed reading) = (if ?headers \<noteq> [] then length ?headers else length ?marked)"
    if ok: "\<not> cr_invalid reading"
  proof (cases "text_findings env repository (splitlines [] s)")
    case (Inl e)
    with read plain ok show ?thesis
      by (cases e) (auto simp: read_codex_def read_text_def invalid_reading_def)
  next
    case (Inr items)
    note count = text_findings_count[OF Inr]
    show ?thesis
    proof (cases items)
      case Nil
      then obtain found where "fallback_findings env repository (splitlines [] s) = Inr found" "cr_parsed reading = found"
        using read plain ok Inr
        by (auto simp: read_codex_def read_text_def invalid_reading_def valid_reading_def split: sum.splits CodexError.splits)
      with fallback_findings_count[OF this(1)] count Nil show ?thesis by simp
    next
      case (Cons item rest)
      with read plain Inr have "cr_parsed reading = items" by (auto simp: read_codex_def read_text_def valid_reading_def)
      with count Cons show ?thesis by (metis length_0_conv list.distinct(1))
    qed
  qed
  moreover have "filter (\<lambda>l. header_of l \<noteq> None \<or> is_marked l) (splitlines [] s) = []"
    if "codex_verdict reading s = APPROVED"
    using that valid by (auto simp: codex_verdict_APPROVED filter_empty_conv split: if_splits)
  ultimately show ?thesis by (simp add: Let_def)
qed

section \<open>Reviews of the sample task\<close>

definition sample_codex_env :: CodexEnv where
  "sample_codex_env = \<lparr>cx_loads = (\<lambda>s. Some (JObj [(''findings'', JList []),
       (''overall_correctness'', JStr ''patch is correct''), (''overall_explanation'', JStr ''fine''),
       (''overall_confidence_score'', JFloat (1 / 2))])),
     cx_inside = (\<lambda>r p. True), cx_absolute = (\<lambda>p. prefix ''/'' p), cx_relative_parts = (\<lambda>r p. Some [p]),
     cx_digest = (\<lambda>a b. replicate 64 (CHR ''d''))\<rparr>"

definition sample_gate_result :: ReviewResultV1 where
  "sample_gate_result = (case sample_gate sample_evidence of Inr r \<Rightarrow> r | Inl e \<Rightarrow> undefined)"

definition sample_merge :: "bool \<Rightarrow> ReviewResultV1 codex" where
  "sample_merge unchanged =
     merge_codex_review sample_codex_env (Aware 6 0) sample_gate_result ''{}'' unchanged (Some ''/repo'')"

lemma sample_merge_runs:
  "case sample_merge True of Inl e \<Rightarrow> False | Inr r \<Rightarrow> rv_verdict r = APPROVED"
  "case sample_merge False of Inl e \<Rightarrow> False | Inr r \<Rightarrow> rv_verdict r = REJECTED"
  by code_simp+

theorem approved_codex_review_is_a_delivery_witness:
  "\<exists>r. sample_merge True = Inr r \<and> is_successful_review_delivery sample_write_request r"
proof -
  obtain r where r: "sample_merge True = Inr r" "rv_verdict r = APPROVED"
    using sample_merge_runs(1) by (auto split: sum.splits)
  obtain gate where gate: "sample_gate sample_evidence = Inr gate"
    using sample_gate_runs(1) by (auto split: sum.splits)
  have mode: "cq_mode sample_write_request = CM_WRITE" by (simp add: sample_write_request_def)
  have "sample_gate_result = gate" by (simp add: sample_gate_result_def gate)
  with approved_codex_review_is_a_delivery[OF gate[unfolded sample_gate_def] mode, of sample_codex_env "Aware 6 0" "''{}''" True "Some ''/repo''" r] r
  have "is_successful_review_delivery sample_write_request r" by (simp add: sample_merge_def)
  with r show ?thesis by blast
qed

lemma sample_text_read:
  "case read_codex sample_codex_env None ''[P1] bad - a.py:3'' of
     Inl e \<Rightarrow> False | Inr reading \<Rightarrow> \<not> cr_invalid reading \<and> map fi_line (cr_parsed reading) = [Some 3]"
  "\<not> prefix ''{'' (py_strip ''[P1] bad - a.py:3'')"
  by code_simp+

theorem every_priority_marker_becomes_a_finding_witness:
  "\<exists>reading. read_codex sample_codex_env None ''[P1] bad - a.py:3'' = Inr reading \<and>
     length (filter (\<lambda>l. header_of l \<noteq> None \<or> is_marked l) (splitlines [] ''[P1] bad - a.py:3'')) = 1 \<and>
     codex_verdict reading ''[P1] bad - a.py:3'' \<noteq> APPROVED"
proof -
  obtain reading where r: "read_codex sample_codex_env None ''[P1] bad - a.py:3'' = Inr reading"
    using sample_text_read(1) by (auto split: sum.splits)
  have one: "length (filter (\<lambda>l. header_of l \<noteq> None \<or> is_marked l) (splitlines [] ''[P1] bad - a.py:3'')) = 1"
    by code_simp
  with every_priority_marker_becomes_a_finding[OF r sample_text_read(2)]
  have "codex_verdict reading ''[P1] bad - a.py:3'' \<noteq> APPROVED" by (metis length_0_conv zero_neq_one)
  with r one show ?thesis by blast
qed

end
