(* ===== verification/CodingConfig.thy ===== *)
theory CodingConfig
  imports CodingContracts
begin

text \<open>
  The policy of the coding engine, \<open>services/coding/config.py\<close>: the record \<open>CodingPolicy\<close>, its bounds
  and validators. Reading and caching the file is I/O. Floats are rationals.
\<close>

record CodingPolicy =
  cy_schema_version :: string
  cy_policy_version :: string
  cy_branch_prefix :: string
  cy_max_local_attempts :: int
  cy_lease_acquire_timeout_seconds :: int
  cy_lease_heartbeat_seconds :: int
  cy_lease_stale_seconds :: int
  cy_process_poll_seconds :: rat
  cy_qwen_timeout_seconds :: int
  cy_codex_timeout_seconds :: int
  cy_verification_timeout_seconds :: int
  cy_review_timeout_seconds :: int
  cy_context_token_budget :: int
  cy_max_artifact_bytes :: int
  cy_max_output_chars :: int
  cy_max_diff_bytes :: int
  cy_qwen_agent_memory_bytes :: int
  cy_qwen_agent_memory_swap_bytes :: int
  cy_qwen_agent_cpus :: rat
  cy_qwen_proxy_memory_bytes :: int
  cy_qwen_proxy_memory_swap_bytes :: int
  cy_qwen_proxy_cpus :: rat
  cy_qwen_probe_memory_bytes :: int
  cy_qwen_probe_memory_swap_bytes :: int
  cy_qwen_probe_cpus :: rat
  cy_verifier_memory_bytes :: int
  cy_verifier_memory_swap_bytes :: int
  cy_verifier_cpus :: rat
  cy_qwen_max_writable_bytes :: int
  cy_verifier_max_writable_bytes :: int
  cy_host_free_space_reserve_bytes :: int
  cy_free_space_watchdog_poll_seconds :: rat
  cy_writable_watchdog_poll_seconds :: rat
  cy_writable_watchdog_scan_timeout_seconds :: rat
  cy_writable_watchdog_max_entries :: int
  cy_local_semantic_model :: string
  cy_local_semantic_expected_model_digest :: string
  cy_local_semantic_expected_executable_path :: string
  cy_local_semantic_expected_executable_sha256 :: string
  cy_allowed_verification_programs :: "string list"
  cy_denied_verification_tokens :: "string list"

definition between :: "'a::linorder \<Rightarrow> 'a \<Rightarrow> 'a \<Rightarrow> bool" where
  "between lo hi n \<longleftrightarrow> lo \<le> n \<and> n \<le> hi"

definition policy_bounds :: "CodingPolicy \<Rightarrow> bool" where
  "policy_bounds p \<longleftrightarrow>
     between 1 2 (cy_max_local_attempts p) \<and> between 1 3600 (cy_lease_acquire_timeout_seconds p) \<and>
     between 1 60 (cy_lease_heartbeat_seconds p) \<and> between 10 86400 (cy_lease_stale_seconds p) \<and>
     0 < cy_process_poll_seconds p \<and> cy_process_poll_seconds p \<le> 5 \<and>
     between 10 7200 (cy_qwen_timeout_seconds p) \<and> between 10 14400 (cy_codex_timeout_seconds p) \<and>
     between 1 7200 (cy_verification_timeout_seconds p) \<and> between 10 7200 (cy_review_timeout_seconds p) \<and>
     between 512 32768 (cy_context_token_budget p) \<and>
     between 1024 (64 * 1024 * 1024) (cy_max_artifact_bytes p) \<and>
     between 1000 1000000 (cy_max_output_chars p) \<and> between 1024 (64 * 1024 * 1024) (cy_max_diff_bytes p) \<and>
     between (64 * 1024 ^ 2) (64 * 1024 ^ 3) (cy_qwen_agent_memory_bytes p) \<and>
     between (64 * 1024 ^ 2) (64 * 1024 ^ 3) (cy_qwen_agent_memory_swap_bytes p) \<and>
     between (1 / 10) 64 (cy_qwen_agent_cpus p) \<and>
     between (64 * 1024 ^ 2) (8 * 1024 ^ 3) (cy_qwen_proxy_memory_bytes p) \<and>
     between (64 * 1024 ^ 2) (8 * 1024 ^ 3) (cy_qwen_proxy_memory_swap_bytes p) \<and>
     between (1 / 10) 8 (cy_qwen_proxy_cpus p) \<and>
     between (64 * 1024 ^ 2) (4 * 1024 ^ 3) (cy_qwen_probe_memory_bytes p) \<and>
     between (64 * 1024 ^ 2) (4 * 1024 ^ 3) (cy_qwen_probe_memory_swap_bytes p) \<and>
     between (1 / 10) 4 (cy_qwen_probe_cpus p) \<and>
     between (64 * 1024 ^ 2) (64 * 1024 ^ 3) (cy_verifier_memory_bytes p) \<and>
     between (64 * 1024 ^ 2) (64 * 1024 ^ 3) (cy_verifier_memory_swap_bytes p) \<and>
     between (1 / 10) 64 (cy_verifier_cpus p) \<and>
     between (1024 ^ 2) (128 * 1024 ^ 3) (cy_qwen_max_writable_bytes p) \<and>
     between (1024 ^ 2) (128 * 1024 ^ 3) (cy_verifier_max_writable_bytes p) \<and>
     between (1024 ^ 2) (1024 ^ 4) (cy_host_free_space_reserve_bytes p) \<and>
     between (1 / 20) 5 (cy_free_space_watchdog_poll_seconds p) \<and>
     between (1 / 20) 10 (cy_writable_watchdog_poll_seconds p) \<and>
     between (1 / 10) 60 (cy_writable_watchdog_scan_timeout_seconds p) \<and>
     between 100 2000000 (cy_writable_watchdog_max_entries p)"

text \<open>\<open>\d{4}-\d{2}-\d{2}\.\d+\<close> on the whole text.\<close>

definition validate_policy_version :: "string \<Rightarrow> bool" where
  "validate_policy_version s \<longleftrightarrow>
     12 \<le> length s \<and> list_all is_digit_char (take 4 s) \<and> s ! 4 = CHR ''-'' \<and>
     list_all is_digit_char (take 2 (drop 5 s)) \<and> s ! 7 = CHR ''-'' \<and>
     list_all is_digit_char (take 2 (drop 8 s)) \<and> s ! 10 = CHR ''.'' \<and> list_all is_digit_char (drop 11 s)"

definition prefix_start_char :: "char \<Rightarrow> bool" where
  "prefix_start_char c \<longleftrightarrow> is_lower_char c \<or> is_digit_char c"

definition validate_branch_prefix :: "string \<Rightarrow> bool" where
  "validate_branch_prefix s \<longleftrightarrow>
     2 \<le> length s \<and> length s \<le> 64 \<and> prefix_start_char (hd s) \<and>
     list_all (\<lambda>c. prefix_start_char c \<or> in_class c ''._/-'') (tl s) \<and> last s = CHR ''-'' \<and>
     \<not> sublist ''..'' s \<and> \<not> sublist ''//'' s"

definition validate_unique_tokens :: "string list \<Rightarrow> bool" where
  "validate_unique_tokens tokens \<longleftrightarrow>
     distinct (map casefold tokens) \<and>
     list_all (\<lambda>item. item \<noteq> [] \<and> \<not> list_ex is_py_space item) tokens"

definition hex64 :: "string \<Rightarrow> bool" where
  "hex64 s \<longleftrightarrow> length s = 64 \<and> list_all is_lower_hex s"

definition validate_local_semantic_sha256 :: "string \<Rightarrow> string option" where
  "validate_local_semantic_sha256 value = (let lowered = casefold value in require (hex64 lowered) lowered)"

definition validate_local_semantic_executable_sha256 :: "string \<Rightarrow> string option" where
  "validate_local_semantic_executable_sha256 value =
     (let lowered = casefold value in require (lowered = ''auto'' \<or> hex64 lowered) lowered)"

text \<open>A text that ends in a suffix, with one printable character or more between a root and it.\<close>

definition rooted_executable :: "nat \<Rightarrow> string \<Rightarrow> string \<Rightarrow> bool" where
  "rooted_executable start ending s \<longleftrightarrow>
     suffix ending s \<and> start < length s - length ending \<and>
     list_all (\<lambda>c. 32 \<le> code_of c) (drop start (take (length s - length ending) s))"

definition validate_local_semantic_executable_path :: "string \<Rightarrow> string option" where
  "validate_local_semantic_executable_path value =
     (let normalized = slash_normalized value in
      require (normalized = ''auto'' \<or>
          (has_drive_prefix normalized \<and> prefix ''/'' (drop 2 normalized) \<and>
             rooted_executable 3 ''/ollama.exe'' (py_lower normalized)) \<or>
          (prefix ''/'' normalized \<and> rooted_executable 1 ''/ollama'' normalized))
        normalized)"

definition validate_container_resource_relations :: "CodingPolicy \<Rightarrow> bool" where
  "validate_container_resource_relations p \<longleftrightarrow>
     cy_qwen_agent_memory_bytes p \<le> cy_qwen_agent_memory_swap_bytes p \<and>
     cy_qwen_proxy_memory_bytes p \<le> cy_qwen_proxy_memory_swap_bytes p \<and>
     cy_qwen_probe_memory_bytes p \<le> cy_qwen_probe_memory_swap_bytes p \<and>
     cy_verifier_memory_bytes p \<le> cy_verifier_memory_swap_bytes p"

definition validate_CodingPolicy :: "CodingPolicy \<Rightarrow> CodingPolicy option" where
  "validate_CodingPolicy p = do {
     _ \<leftarrow> require (cy_schema_version p = ''1.0'' \<and> policy_bounds p) ();
     _ \<leftarrow> require (validate_policy_version (cy_policy_version p)) ();
     _ \<leftarrow> require (validate_branch_prefix (cy_branch_prefix p)) ();
     programs \<leftarrow> bounded_len 1 64 (cy_allowed_verification_programs p);
     denied \<leftarrow> bounded_len 1 128 (cy_denied_verification_tokens p);
     _ \<leftarrow> require (validate_unique_tokens programs \<and> validate_unique_tokens denied) ();
     _ \<leftarrow> require (cy_local_semantic_model p = ''local-strong'') ();
     digest \<leftarrow> validate_local_semantic_sha256 (cy_local_semantic_expected_model_digest p);
     path \<leftarrow> validate_local_semantic_executable_path (cy_local_semantic_expected_executable_path p);
     sha \<leftarrow> validate_local_semantic_executable_sha256 (cy_local_semantic_expected_executable_sha256 p);
     let p' = p\<lparr>cy_local_semantic_expected_model_digest := digest,
                cy_local_semantic_expected_executable_path := path,
                cy_local_semantic_expected_executable_sha256 := sha\<rparr>;
     require (validate_container_resource_relations p') p'
   }"

end
