(* ===== verification/Verification.thy ===== *)
theory Verification
  imports CodingConfig Reviewer
begin

text \<open>
  The verification commands of the coding engine, \<open>services/coding/verification.py\<close>: which argument
  vectors are accepted, which executable they are bound to, and the container they run in. The host
  (\<open>PATH\<close>, the file system, the interpreter of the engine) is the record \<open>HostEnv\<close>; a path is its text.
  \<open>HostFailure\<close> stands for every exception that is no \<open>VerificationPolicyError\<close>.
\<close>

datatype VerificationError = VerificationPolicyError string | HostFailure | VerificationValidationError

type_synonym 'a verification = "VerificationError + 'a"

abbreviation refuse :: "string \<Rightarrow> 'a verification" where
  "refuse message \<equiv> Inl (VerificationPolicyError message)"

text \<open>
  \<open>he_resolve\<close> is \<open>Path.resolve(strict=True)\<close> (\<open>None\<close> when it raises \<open>OSError\<close>), \<open>he_relative p root\<close> says
  that \<open>p.relative_to(root)\<close> succeeds, \<open>he_name\<close> is \<open>Path.name\<close> and \<open>he_join\<close> the operator \<open>/\<close>.
\<close>

record HostEnv =
  he_nt :: bool
  he_path :: "string list"
  he_pathext :: "string list"
  he_executable :: string
  he_working_directory :: string
  he_absolute :: "string \<Rightarrow> bool"
  he_resolve :: "string \<Rightarrow> string option"
  he_relative :: "string \<Rightarrow> string \<Rightarrow> bool"
  he_join :: "string \<Rightarrow> string \<Rightarrow> string"
  he_name :: "string \<Rightarrow> string"
  he_is_dir :: "string \<Rightarrow> bool"
  he_is_file :: "string \<Rightarrow> bool"
  he_executable_bit :: "string \<Rightarrow> bool"
  he_normcase :: "string \<Rightarrow> string"

section \<open>Names of programs\<close>

definition shell_programs :: "string list" where
  "shell_programs = [''bash'', ''cmd'', ''cmd.exe'', ''powershell'', ''powershell.exe'', ''pwsh'', ''pwsh.exe'', ''sh'']"

definition node_safe_targets :: "string list" where
  "node_safe_targets = [''test'', ''lint'', ''typecheck'', ''build'', ''check'']"

definition external_path_options :: "string list" where
  "external_path_options =
     [''--artifacts-path'', ''--basetemp'', ''--confcutdir'', ''--config-file'', ''--cov-config'', ''--cov-report'',
      ''--html'', ''--junitxml'', ''--manifest-path'', ''--output'', ''--prefix'', ''--rootdir'', ''--target-dir'',
      ''-c'', ''-exec'', ''-o'', ''-toolexec'']"

definition bare_program :: "string \<Rightarrow> string" where
  "bare_program value = remove_suffix ''.cmd'' (remove_suffix ''.exe'' (program_name value))"

definition program_is_path_qualified :: "string \<Rightarrow> bool" where
  "program_is_path_qualified value \<longleftrightarrow>
     value \<noteq> last (split_on (CHR ''/'') [] (slash_normalized value)) \<or> CHR ''/'' \<in> set value \<or>
     CHR 0x5C \<in> set value \<or> has_drive_prefix value"

text \<open>\<open>PurePath.suffix\<close> of a name: from its last dot, unless that begins or ends it.\<close>

definition name_suffix :: "string \<Rightarrow> string" where
  "name_suffix name =
     (let ending = takeWhile (\<lambda>c. c \<noteq> CHR ''.'') (rev name) in
      if ending \<noteq> [] \<and> length ending + 1 < length name then CHR ''.'' # rev ending else [])"

section \<open>Trusted executables\<close>

definition path_key :: "HostEnv \<Rightarrow> string \<Rightarrow> string verification" where
  "path_key env path = and_then (or_fail HostFailure (he_resolve env path)) (\<lambda>p. Inr (he_normcase env p))"

definition is_within :: "HostEnv \<Rightarrow> string \<Rightarrow> string \<Rightarrow> bool" where
  "is_within env candidate root_dir \<longleftrightarrow>
     (case (he_resolve env candidate, he_resolve env root_dir) of
        (Some c, Some r) \<Rightarrow> he_relative env c r | _ \<Rightarrow> False)"

fun search_directories :: "HostEnv \<Rightarrow> string option \<Rightarrow> string list \<Rightarrow> string list \<Rightarrow> string list" where
  "search_directories env cwd seen [] = []"
| "search_directories env cwd seen (raw # rest) =
     (if raw = [] \<or> \<not> he_absolute env raw then search_directories env cwd seen rest
      else case he_resolve env raw of
        None \<Rightarrow> search_directories env cwd seen rest
      | Some canonical \<Rightarrow>
          if \<not> he_is_dir env canonical \<or> (case cwd of None \<Rightarrow> False | Some c \<Rightarrow> is_within env canonical c)
          then search_directories env cwd seen rest
          else let key = he_normcase env canonical in
            if key \<in> set seen then search_directories env cwd seen rest
            else canonical # search_directories env cwd (key # seen) rest)"

definition trusted_search_directories :: "HostEnv \<Rightarrow> string option \<Rightarrow> string list" where
  "trusted_search_directories env cwd = search_directories env cwd [] (he_path env)"

definition candidate_names :: "HostEnv \<Rightarrow> string \<Rightarrow> string list" where
  "candidate_names env program =
     (if \<not> he_nt env then [program]
      else let extensions = map casefold (filter (\<lambda>e. e \<noteq> []) (he_pathext env)) in
        if casefold (name_suffix program) \<in> set extensions then [program]
        else dedup (program # map (\<lambda>extension. program @ extension) extensions))"

definition usable_executable :: "HostEnv \<Rightarrow> string \<Rightarrow> string option" where
  "usable_executable env candidate =
     (case he_resolve env candidate of
        None \<Rightarrow> None
      | Some canonical \<Rightarrow>
          if he_is_file env canonical \<and> (he_nt env \<or> he_executable_bit env canonical) then Some canonical else None)"

fun first_some :: "('a \<Rightarrow> 'b option) \<Rightarrow> 'a list \<Rightarrow> 'b option" where
  "first_some f [] = None"
| "first_some f (x # xs) = (case f x of None \<Rightarrow> first_some f xs | Some y \<Rightarrow> Some y)"

definition discover_trusted_program :: "HostEnv \<Rightarrow> string option \<Rightarrow> string \<Rightarrow> string option" where
  "discover_trusted_program env cwd program =
     first_some (\<lambda>directory. first_some (\<lambda>name. usable_executable env (he_join env directory name))
         (candidate_names env program))
       (trusted_search_directories env cwd)"

definition allowed_programs :: "CodingPolicy \<Rightarrow> string set" where
  "allowed_programs policy = set (map casefold (cy_allowed_verification_programs policy))"

definition explicit_executable :: "HostEnv \<Rightarrow> string option \<Rightarrow> string \<Rightarrow> string option verification" where
  "explicit_executable env cwd value =
     (if \<not> program_is_path_qualified value then Inr None
      else let base = (case cwd of None \<Rightarrow> he_working_directory env | Some c \<Rightarrow> c);
               candidate = (if he_absolute env value then value else he_join env base value)
        in and_then (or_fail (VerificationPolicyError ''verification executable path is unavailable'')
             (he_resolve env candidate)) (\<lambda>path. Inr (Some path)))"

text \<open>Whether the path that was asked for, if any, is the one that was found.\<close>

definition same_executable :: "HostEnv \<Rightarrow> string option \<Rightarrow> string \<Rightarrow> bool verification" where
  "same_executable env explicit found =
     (case explicit of
        None \<Rightarrow> Inr True
      | Some path \<Rightarrow> and_then (path_key env path) (\<lambda>a. and_then (path_key env found) (\<lambda>b. Inr (a = b))))"

definition engine_interpreter ::
    "HostEnv \<Rightarrow> CodingPolicy \<Rightarrow> string option \<Rightarrow> string \<Rightarrow> string option verification" where
  "engine_interpreter env policy explicit value =
     (case he_resolve env (he_executable env) of
        None \<Rightarrow> Inr None
      | Some python \<Rightarrow>
          if bare_program value \<noteq> ''python'' then Inr None
          else and_then (same_executable env explicit python) (\<lambda>same.
            Inr (if same \<and> program_name (he_name env python) \<in> allowed_programs policy then Some python else None)))"

definition discovered_executable ::
    "HostEnv \<Rightarrow> string option \<Rightarrow> CodingPolicy \<Rightarrow> string option \<Rightarrow> string \<Rightarrow> string verification" where
  "discovered_executable env cwd policy explicit value =
     (let requested = program_name value;
          discovered = (case discover_trusted_program env cwd requested of
             Some p \<Rightarrow> Some p
           | None \<Rightarrow> if suffix ''.exe'' requested \<or> suffix ''.cmd'' requested
               then discover_trusted_program env cwd (bare_program value) else None)
      in case discovered of
           None \<Rightarrow> refuse ''trusted verification executable is unavailable''
         | Some found \<Rightarrow>
             and_then (same_executable env explicit found) (\<lambda>same.
             and_then (guard same (VerificationPolicyError
               ''verification executable path is not the canonical trusted discovery result'')) (\<lambda>_.
             and_then (guard (program_name (he_name env found) \<in> allowed_programs policy)
               (VerificationPolicyError ''resolved verification executable is not allowlisted'')) (\<lambda>_.
             Inr found))))"

definition resolve_trusted_program ::
    "HostEnv \<Rightarrow> string option \<Rightarrow> CodingPolicy \<Rightarrow> string \<Rightarrow> string verification" where
  "resolve_trusted_program env cwd policy value =
     and_then (explicit_executable env cwd value) (\<lambda>explicit.
     and_then (engine_interpreter env policy explicit value) (\<lambda>engine.
     case engine of
       Some python \<Rightarrow> Inr python
     | None \<Rightarrow> discovered_executable env cwd policy explicit value))"

section \<open>Argument vectors\<close>

definition tokens_of :: "string list \<Rightarrow> string list" where
  "tokens_of argv = map (\<lambda>item. py_strip (casefold item)) argv"

fun split_by :: "(char \<Rightarrow> bool) \<Rightarrow> string \<Rightarrow> string \<Rightarrow> string list" where
  "split_by p acc [] = [rev acc]"
| "split_by p acc (c # cs) = (if p c then rev acc # split_by p [] cs else split_by p (c # acc) cs)"

definition token_words :: "string \<Rightarrow> string list" where
  "token_words token =
     filter (\<lambda>w. w \<noteq> []) (split_by (\<lambda>c. \<not> (is_lower_char c \<or> is_digit_char c)) []
       (dropWhile (\<lambda>c. c = CHR ''-'') token))"

definition denied_token :: "CodingPolicy \<Rightarrow> string \<Rightarrow> bool" where
  "denied_token policy token \<longleftrightarrow>
     (let denied = set (map casefold (cy_denied_verification_tokens policy)) in
      token \<in> denied \<or> list_ex (\<lambda>w. w \<in> denied) (token_words token))"

definition option_of :: "string \<Rightarrow> string" where
  "option_of token = takeWhile (\<lambda>c. c \<noteq> CHR ''='') (casefold token)"

definition escapes_worktree :: "string \<Rightarrow> bool" where
  "escapes_worktree token \<longleftrightarrow>
     (let normalized = slash_normalized token in
      prefix ''/'' normalized \<or> has_drive_prefix normalized \<or>
      ''..'' \<in> set (split_on (CHR ''/'') [] normalized))"

fun reject_external_paths :: "string list \<Rightarrow> unit verification" where
  "reject_external_paths [] = Inr ()"
| "reject_external_paths (token # rest) =
     (if option_of token \<in> set external_path_options then refuse ''verification path/output override is forbidden''
      else if \<not> prefix ''-'' token \<and> escapes_worktree token then refuse ''verification argument escapes the task worktree''
      else reject_external_paths rest)"

definition is_option :: "string \<Rightarrow> bool" where
  "is_option item \<longleftrightarrow> prefix ''-'' item"

definition runs_test_module :: "string list \<Rightarrow> bool" where
  "runs_test_module arguments \<longleftrightarrow>
     2 \<le> length arguments \<and> arguments ! 0 = ''-m'' \<and> arguments ! 1 \<in> {''pytest'', ''unittest''}"

text \<open>The index among the arguments of the first one after \<open>run\<close> that is no option.\<close>

fun nested_index_from :: "nat \<Rightarrow> string list \<Rightarrow> nat option" where
  "nested_index_from i [] = None"
| "nested_index_from i (item # rest) = (if is_option item then nested_index_from (Suc i) rest else Some i)"

definition uv_shape :: "string list \<Rightarrow> string list \<Rightarrow> unit verification" where
  "uv_shape argv arguments =
     and_then (guard (arguments \<noteq> [] \<and> arguments ! 0 = ''run'')
       (VerificationPolicyError ''uv verification must start with uv run'')) (\<lambda>_.
     case nested_index_from 1 (drop 1 arguments) of
       None \<Rightarrow> refuse ''uv run requires an allowlisted nested verifier''
     | Some index \<Rightarrow>
         let uv_options = take (index - 1) (drop 1 arguments); nested = drop (index + 1) argv in
         and_then (guard (''--no-sync'' \<in> set uv_options \<and> set uv_options \<subseteq> {''--no-sync'', ''--offline'', ''--frozen''})
           (VerificationPolicyError ''uv run must be non-syncing and use only safe runtime options'')) (\<lambda>_.
         and_then (guard (nested \<noteq> [])
           (VerificationPolicyError ''uv run requires an allowlisted nested verifier'')) (\<lambda>_.
         guard (bare_program (hd nested) = ''pytest'' \<or>
             (bare_program (hd nested) = ''python'' \<and> runs_test_module (tokens_of (tl nested))))
           (VerificationPolicyError ''uv run nested verifier is not allowlisted''))))"

definition node_target_ok :: "string \<Rightarrow> bool" where
  "node_target_ok target \<longleftrightarrow>
     (let parts = posix_parts (slash_normalized target) in
      parts \<noteq> [] \<and> casefold (hd parts) \<in> {''test'', ''tests''} \<and>
      casefold (name_suffix (last parts)) \<in> {''.js'', ''.cjs'', ''.mjs''})"

definition git_shape_ok :: "string list \<Rightarrow> bool" where
  "git_shape_ok arguments \<longleftrightarrow>
     arguments = [''diff'', ''--check''] \<or>
     (2 \<le> length arguments \<and> arguments ! 0 = ''status'' \<and>
      list_ex (\<lambda>item. item \<in> {''--porcelain'', ''--porcelain=v1''}) (tl arguments) \<and>
      list_all (\<lambda>item. item \<in> {''--porcelain'', ''--porcelain=v1'', ''-z'', ''--untracked-files=all''}) (tl arguments))"

text \<open>The shape of the arguments each program accepts.\<close>

definition command_shape :: "string \<Rightarrow> string list \<Rightarrow> string list \<Rightarrow> unit verification" where
  "command_shape bare argv arguments =
     (let positional = filter (\<lambda>item. \<not> is_option item) arguments in
      if bare = ''pytest'' then Inr ()
      else if bare = ''python'' then guard (runs_test_module arguments)
        (VerificationPolicyError ''python verification must use -m pytest or -m unittest'')
      else if bare = ''uv'' then uv_shape argv arguments
      else if bare \<in> {''npm'', ''pnpm'', ''yarn''} then
        guard (positional = [''test''] \<or>
            (length positional = 2 \<and> positional ! 0 \<in> {''run'', ''run-script''} \<and> positional ! 1 \<in> set node_safe_targets))
          (VerificationPolicyError ''package verification must run an existing safe script'')
      else if bare = ''cargo'' then guard (positional \<noteq> [] \<and> positional ! 0 \<in> {''test'', ''check'', ''clippy''})
        (VerificationPolicyError ''cargo verification action is not allowlisted'')
      else if bare = ''go'' then guard (arguments \<noteq> [] \<and> arguments ! 0 = ''test'')
        (VerificationPolicyError ''go verification must use go test'')
      else if bare = ''dotnet'' then guard (arguments \<noteq> [] \<and> arguments ! 0 \<in> {''test'', ''build''})
        (VerificationPolicyError ''dotnet verification action is not allowlisted'')
      else if bare = ''node'' then
        and_then (guard (length argv = 2)
          (VerificationPolicyError ''node verification requires one repository test file'')) (\<lambda>_.
        guard (node_target_ok (argv ! 1))
          (VerificationPolicyError ''node verification target must be a repository test file''))
      else if bare = ''git'' then guard (git_shape_ok arguments)
        (VerificationPolicyError ''only git diff --check or porcelain status is a verifier'')
      else refuse ''verification command shape is not allowlisted'')"

definition clean_argument :: "string \<Rightarrow> bool" where
  "clean_argument item \<longleftrightarrow> item \<noteq> [] \<and> NUL \<notin> set item \<and> CHR 0x0D \<notin> set item \<and> CHR 0x0A \<notin> set item"

definition validate_verification_argv ::
    "HostEnv \<Rightarrow> CodingPolicy \<Rightarrow> string option \<Rightarrow> string list \<Rightarrow> string list verification" where
  "validate_verification_argv env policy cwd argv =
     and_then (guard (argv \<noteq> [] \<and> length argv \<le> 64)
       (VerificationPolicyError ''verification argv must contain 1-64 arguments'')) (\<lambda>_.
     and_then (guard (list_all clean_argument argv)
       (VerificationPolicyError ''verification argv contains an invalid argument'')) (\<lambda>_.
     let program = program_name (hd argv); lowered = tokens_of argv in
     and_then (guard (program \<in> allowed_programs policy \<and> program \<notin> set shell_programs)
       (VerificationPolicyError ''verification program is not allowlisted'')) (\<lambda>_.
     and_then (if program_is_path_qualified (hd argv)
       then and_then (resolve_trusted_program env cwd policy (hd argv)) (\<lambda>_. Inr ()) else Inr ()) (\<lambda>_.
     and_then (guard (\<not> list_ex (denied_token policy) (tl lowered))
       (VerificationPolicyError ''verification command contains a denied operation'')) (\<lambda>_.
     and_then (reject_external_paths (tl argv)) (\<lambda>_.
     and_then (command_shape (bare_program (hd argv)) argv (tl lowered)) (\<lambda>_.
     Inr argv)))))))"

definition resolve_verification_argv ::
    "HostEnv \<Rightarrow> CodingPolicy \<Rightarrow> string \<Rightarrow> string list \<Rightarrow> string list verification" where
  "resolve_verification_argv env policy cwd argv =
     and_then (or_fail (VerificationPolicyError ''verification cwd is unavailable'') (he_resolve env cwd)) (\<lambda>canonical.
     and_then (validate_verification_argv env policy (Some canonical) argv) (\<lambda>validated.
     and_then (resolve_trusted_program env (Some canonical) policy (hd validated)) (\<lambda>executable.
     Inr (executable # tl validated))))"

end
