(* ===== verification/VerificationSandbox.thy ===== *)
theory VerificationSandbox
  imports Verification Json
begin

text \<open>
  The container a verification command runs in, \<open>services/coding/verification.py\<close>: the checks of the
  images, the sandbox arguments, the run, its clean-up and the recorded result. The process runner is a
  function on a state of its own, so that two starts of one command may answer differently. Creating
  the runtime directories and writing the patch of the diff check are parts of \<open>SandboxEnv\<close>.
\<close>

section \<open>Processes\<close>

record ProcessOutcome =
  po_status :: CommandStatus
  po_exit_code :: "int option"
  po_stdout :: string
  po_stderr :: string
  po_duration_ms :: int

text \<open>What a start can raise: the watchdog of the writable mounts, or another exception.\<close>

datatype ProcessFault = WritableResourceLimit | ProcessRaised

type_synonym 'w runner = "string list \<Rightarrow> 'w \<Rightarrow> (ProcessFault + ProcessOutcome) \<times> 'w"

type_synonym ('w, 'a) action = "'w \<Rightarrow> 'a verification \<times> 'w"

definition pure_act :: "'a verification \<Rightarrow> ('w, 'a) action" where
  "pure_act r = (\<lambda>w. (r, w))"

definition and_do :: "('w, 'a) action \<Rightarrow> ('a \<Rightarrow> ('w, 'b) action) \<Rightarrow> ('w, 'b) action" where
  "and_do act f = (\<lambda>w. case act w of (r, w') \<Rightarrow> (case r of Inl e \<Rightarrow> (Inl e, w') | Inr x \<Rightarrow> f x w'))"

definition start :: "'w runner \<Rightarrow> string list \<Rightarrow> ('w, ProcessOutcome) action" where
  "start run argv = (\<lambda>w. case run argv w of (r, w') \<Rightarrow>
     (case r of Inl e \<Rightarrow> (Inl HostFailure, w') | Inr outcome \<Rightarrow> (Inr outcome, w')))"

record SandboxEnv =
  sb_host :: HostEnv
  sb_docker :: "string option"
  sb_loads :: "string \<Rightarrow> json option"
  sb_recipe_context :: string
  sb_dockerfile :: string
  sb_runtime_directory :: "string \<Rightarrow> string verification"
  sb_task_root :: "string option"
  sb_task_id :: string
  sb_owned_marker :: "string \<Rightarrow> bool"
  sb_prepare_diff_check :: "unit verification"
  sb_show_number :: "rat \<Rightarrow> string"
  sb_nonce :: string

section \<open>Images\<close>

definition python_verifier_base_image :: string where
  "python_verifier_base_image = ''python@sha256:519591d6871b7bc437060736b9f7456b8731f1499a57e22e6c285135ae657bf7''"

definition python_verifier_image :: string where
  "python_verifier_image = ''local-agent/verifier-python:3.12.11-pytest8.4.1-v2''"

definition python_verifier_recipe :: string where
  "python_verifier_recipe = ''python-3.12.11-pytest-8.4.1-v2''"

definition node_verifier_image :: string where
  "node_verifier_image = ''ghcr.io/qwenlm/qwen-code:0.19.10@sha256:03456a270da8d1bf1f1d5e6bf5e340718b595355b68649e0f6940cb7ff8dbeda''"

definition image_id :: "string \<Rightarrow> bool" where
  "image_id s \<longleftrightarrow> prefix ''sha256:'' s \<and> hex64 (drop 7 s)"

text \<open>\<open>s.rsplit(sep, 1)[-1]\<close>.\<close>

definition after_last :: "string \<Rightarrow> string \<Rightarrow> string" where
  "after_last sep s =
     (case filter (\<lambda>k. prefix sep (drop k s)) (rev [0..<length s]) of [] \<Rightarrow> s | k # ks \<Rightarrow> drop (k + length sep) s)"

definition trusted_docker :: "SandboxEnv \<Rightarrow> string \<Rightarrow> string verification" where
  "trusted_docker env repository =
     and_then (or_fail (VerificationPolicyError ''Docker is required for coding verification'') (sb_docker env)) (\<lambda>executable.
     and_then (or_fail (VerificationPolicyError ''trusted Docker executable is unavailable'')
       (he_resolve (sb_host env) executable)) (\<lambda>canonical.
     and_then (or_fail (VerificationPolicyError ''trusted Docker executable is unavailable'')
       (he_resolve (sb_host env) repository)) (\<lambda>inside.
     and_then (guard (\<not> he_relative (sb_host env) canonical inside)
       (VerificationPolicyError ''repository-local Docker executable is forbidden'')) (\<lambda>_.
     and_then (guard (casefold (he_name (sb_host env) canonical) \<in> {''docker'', ''docker.exe''} \<and>
         he_is_file (sb_host env) canonical)
       (VerificationPolicyError ''trusted Docker executable is invalid'')) (\<lambda>_.
     Inr canonical)))))"

definition inspect_id :: "ProcessOutcome \<Rightarrow> string option" where
  "inspect_id outcome =
     (let ident = py_strip (po_stdout outcome) in
      if po_status outcome = CS_PASSED \<and> image_id ident then Some ident else None)"

definition inspect_command :: "string \<Rightarrow> string \<Rightarrow> string list" where
  "inspect_command docker reference = [docker, ''image'', ''inspect'', ''--format'', ''{{.Id}}'', reference]"

definition ensure_remote_image :: "'w runner \<Rightarrow> string \<Rightarrow> string \<Rightarrow> ('w, string) action" where
  "ensure_remote_image run docker reference =
     and_do (start run (inspect_command docker reference)) (\<lambda>first.
     and_do (case inspect_id first of
         Some ident \<Rightarrow> pure_act (Inr ident)
       | None \<Rightarrow>
           and_do (start run [docker, ''pull'', reference]) (\<lambda>pulled.
           and_do (pure_act (guard (po_status pulled = CS_PASSED)
             (VerificationPolicyError ''pinned verification image is unavailable''))) (\<lambda>_.
           and_do (start run (inspect_command docker reference)) (\<lambda>second.
           pure_act (or_fail (VerificationPolicyError ''pinned verification image identity is invalid'')
             (inspect_id second)))))) (\<lambda>ident.
     and_do (pure_act (guard (ident = ''sha256:'' @ after_last ''@sha256:'' reference)
       (VerificationPolicyError ''pinned verification image digest mismatch''))) (\<lambda>_.
     pure_act (Inr ident))))"

text \<open>\<open>s.split(" ", 1)\<close> of a text without a blank is the text alone.\<close>

definition split_once :: "string \<Rightarrow> string \<times> string option" where
  "split_once s =
     (let head = takeWhile (\<lambda>c. c \<noteq> CHR '' '') s in
      (head, if length head < length s then Some (drop (length head + 1) s) else None))"

text \<open>The image ID of an inspected verifier image whose labels name the recipe, if it is valid.\<close>

definition verifier_identity :: "SandboxEnv \<Rightarrow> ProcessOutcome \<Rightarrow> string option verification" where
  "verifier_identity env outcome =
     (case split_once (py_strip (po_stdout outcome)) of
        (ident, None) \<Rightarrow> Inr None
      | (ident, Some text) \<Rightarrow>
          if po_status outcome \<noteq> CS_PASSED \<or> \<not> image_id ident then Inr None
          else (case sb_loads env text of
              None \<Rightarrow> Inr None
            | Some (JObj labels) \<Rightarrow> Inr (if
                jget ''local-agent.component'' labels = Some (JStr ''coding-verifier-python'') \<and>
                jget ''local-agent.recipe'' labels = Some (JStr python_verifier_recipe) then Some ident else None)
            | Some other \<Rightarrow> Inl HostFailure))"

definition inspect_labels_command :: "string \<Rightarrow> string list" where
  "inspect_labels_command docker =
     [docker, ''image'', ''inspect'', ''--format'', ''{{.Id}} {{json .Config.Labels}}'', python_verifier_image]"

definition build_command :: "SandboxEnv \<Rightarrow> string \<Rightarrow> string list" where
  "build_command env docker =
     [docker, ''build'', ''--pull=false'', ''--network=default'', ''--tag'', python_verifier_image,
      ''--file'', sb_dockerfile env, sb_recipe_context env]"

definition ensure_python_verifier_image :: "SandboxEnv \<Rightarrow> 'w runner \<Rightarrow> string \<Rightarrow> ('w, string) action" where
  "ensure_python_verifier_image env run docker =
     and_do (start run (inspect_labels_command docker)) (\<lambda>first.
     and_do (pure_act (verifier_identity env first)) (\<lambda>known.
     case known of
       Some ident \<Rightarrow> pure_act (Inr ident)
     | None \<Rightarrow>
         and_do (ensure_remote_image run docker python_verifier_base_image) (\<lambda>_.
         and_do (pure_act (guard (he_relative (sb_host env) (sb_dockerfile env) (sb_recipe_context env))
           (VerificationPolicyError ''verification image recipe escapes trusted config''))) (\<lambda>_.
         and_do (start run (build_command env docker)) (\<lambda>built.
         and_do (pure_act (guard (po_status built = CS_PASSED)
           (VerificationPolicyError ''trusted Python verifier image build failed''))) (\<lambda>_.
         and_do (start run (inspect_labels_command docker)) (\<lambda>second.
         and_do (pure_act (verifier_identity env second)) (\<lambda>rebuilt.
         pure_act (or_fail (VerificationPolicyError ''trusted Python verifier image identity is invalid'') rebuilt)))))))))"

section \<open>The container\<close>

record VerificationContainerSpec =
  vs_image :: string
  vs_argv :: "string list"
  vs_workspace_writable :: bool
  vs_runtime_read_only :: bool

definition python_inner_argv :: "string list \<Rightarrow> string list verification" where
  "python_inner_argv requested =
     (let bare = bare_program (hd requested) in
      if bare = ''pytest'' then Inr ([''/usr/local/bin/python'', ''-m'', ''pytest''] @ tl requested)
      else if bare = ''python'' then Inr (''/usr/local/bin/python'' # tl requested)
      else if bare = ''uv'' then
        (let arguments = tl requested in
         case nested_index_from 1 (drop 1 arguments) of
           None \<Rightarrow> refuse ''uv verifier has no nested command''
         | Some index \<Rightarrow>
             let nested = drop index arguments in
             if bare_program (hd nested) = ''pytest'' then Inr ([''/usr/local/bin/python'', ''-m'', ''pytest''] @ tl nested)
             else if bare_program (hd nested) = ''python'' then Inr (''/usr/local/bin/python'' # tl nested)
             else refuse ''Python verification adapter rejected the command'')
      else refuse ''Python verification adapter rejected the command'')"

definition verification_container_spec ::
    "SandboxEnv \<Rightarrow> string \<Rightarrow> string list \<Rightarrow> VerificationContainerSpec verification" where
  "verification_container_spec env python_image requested =
     (let bare = bare_program (hd requested) in
      if bare \<in> {''python'', ''pytest'', ''uv''} then
        and_then (python_inner_argv requested) (\<lambda>argv.
        Inr \<lparr>vs_image = python_image, vs_argv = argv, vs_workspace_writable = False, vs_runtime_read_only = False\<rparr>)
      else if bare \<in> {''node'', ''npm'', ''yarn''} then
        Inr \<lparr>vs_image = node_verifier_image, vs_argv = (''/usr/local/bin/'' @ bare) # tl requested,
          vs_workspace_writable = (bare \<in> {''npm'', ''yarn''} \<and> list_ex (\<lambda>item. casefold item = ''build'') (tl requested)),
          vs_runtime_read_only = False\<rparr>
      else if bare = ''git'' then
        and_then (sb_prepare_diff_check env) (\<lambda>_.
        Inr \<lparr>vs_image = python_image,
          vs_argv = [''/usr/local/bin/python'', ''/local-agent/runtime/check_diff.py'', ''/local-agent/runtime/input.diff''],
          vs_workspace_writable = False, vs_runtime_read_only = True\<rparr>)
      else refuse (''the pinned verification sandbox does not provide '' @ bare @ '' yet''))"

definition sandbox_environment :: "(string \<times> string) list" where
  "sandbox_environment =
     [(''CI'', ''1''), (''HOME'', ''/home/local-agent''), (''USERPROFILE'', ''/home/local-agent''),
      (''TEMP'', ''/tmp''), (''TMP'', ''/tmp''), (''TMPDIR'', ''/tmp''),
      (''XDG_CACHE_HOME'', ''/local-agent/cache''), (''PYTHONDONTWRITEBYTECODE'', ''1''),
      (''PYTHONPYCACHEPREFIX'', ''/tmp/pycache''), (''PYTEST_ADDOPTS'', ''-p no:cacheprovider''),
      (''NPM_CONFIG_CACHE'', ''/local-agent/cache/npm''), (''NPM_CONFIG_UPDATE_NOTIFIER'', ''false''),
      (''GIT_CONFIG_NOSYSTEM'', ''1''), (''GIT_CONFIG_GLOBAL'', ''/dev/null''), (''GIT_NO_REPLACE_OBJECTS'', ''1''),
      (''GIT_CONFIG_COUNT'', ''3''), (''GIT_CONFIG_KEY_0'', ''safe.directory''), (''GIT_CONFIG_VALUE_0'', ''/workspace''),
      (''GIT_CONFIG_KEY_1'', ''core.hooksPath''), (''GIT_CONFIG_VALUE_1'', ''/local-agent/empty-hooks''),
      (''GIT_CONFIG_KEY_2'', ''credential.helper''), (''GIT_CONFIG_VALUE_2'', []),
      (''GIT_TERMINAL_PROMPT'', ''0''), (''HTTP_PROXY'', []), (''HTTPS_PROXY'', []), (''ALL_PROXY'', []), (''NO_PROXY'', ''*'')]"

definition environment_args :: "string list" where
  "environment_args = concat (map (\<lambda>(key, value). [''--env'', key @ ''='' @ value]) sandbox_environment)"

definition isolation_args :: "SandboxEnv \<Rightarrow> CodingPolicy \<Rightarrow> string list" where
  "isolation_args env policy =
     [''--rm'', ''--init'', ''--read-only'', ''--network'', ''none'', ''--user'', ''1000:1000'',
      ''--cap-drop'', ''ALL'', ''--security-opt'', ''no-new-privileges:true'', ''--pids-limit'', ''256'',
      ''--memory'', show_nat (nat (cy_verifier_memory_bytes policy)),
      ''--memory-swap'', show_nat (nat (cy_verifier_memory_swap_bytes policy)),
      ''--cpus'', sb_show_number env (cy_verifier_cpus policy),
      ''--tmpfs'', ''/tmp:rw,nosuid,nodev,size=536870912,mode=1777'']"

definition container_name :: "SandboxEnv \<Rightarrow> string" where
  "container_name env = ''local-agent-verify-'' @ sb_nonce env"

definition run_label :: "SandboxEnv \<Rightarrow> string" where
  "run_label env = ''local-agent.run='' @ sb_nonce env"

definition label_args :: "SandboxEnv \<Rightarrow> string list" where
  "label_args env =
     [''--name'', container_name env, ''--label'', ''local-agent.owner=coding-engine'',
      ''--label'', ''local-agent.component=coding-verification'', ''--label'', run_label env,
      ''--label'', ''local-agent.task='' @ sb_task_id env]"

record RuntimeDirectories =
  rd_runtime :: string
  rd_home :: string
  rd_cache :: string
  rd_hooks :: string

definition mount_args :: "VerificationContainerSpec \<Rightarrow> RuntimeDirectories \<Rightarrow> string \<Rightarrow> string \<Rightarrow> string list" where
  "mount_args spec dirs marker repository =
     [''--workdir'', ''/workspace'',
      ''--volume'', repository @ '':/workspace:'' @ (if vs_workspace_writable spec then ''rw'' else ''ro'')]
     @ (if vs_workspace_writable spec then [''--volume'', marker @ '':/workspace/.git:ro''] else [])
     @ [''--volume'', rd_home dirs @ '':/home/local-agent:rw'', ''--volume'', rd_cache dirs @ '':/local-agent/cache:rw'',
        ''--volume'', rd_hooks dirs @ '':/local-agent/empty-hooks:ro'',
        ''--volume'', rd_runtime dirs @ '':/local-agent/runtime:'' @ (if vs_runtime_read_only spec then ''ro'' else ''rw'')]"

definition docker_argv ::
    "SandboxEnv \<Rightarrow> CodingPolicy \<Rightarrow> string \<Rightarrow> VerificationContainerSpec \<Rightarrow> RuntimeDirectories \<Rightarrow> string \<Rightarrow> string \<Rightarrow>
     int \<Rightarrow> string list" where
  "docker_argv env policy docker spec dirs marker repository timeout =
     [docker, ''run''] @ isolation_args env policy @ label_args env @ mount_args spec dirs marker repository
     @ environment_args @ [''--entrypoint'', ''/usr/bin/timeout'', vs_image spec, ''--signal=TERM'', ''--kill-after=10s'',
       show_nat (nat (timeout + 30)) @ ''s''] @ vs_argv spec"

section \<open>One verification\<close>

definition runtime_directories :: "SandboxEnv \<Rightarrow> string \<Rightarrow> RuntimeDirectories verification" where
  "runtime_directories env runtime =
     (let directory = (\<lambda>name. or_fail HostFailure (he_resolve (sb_host env) (he_join (sb_host env) runtime name))) in
      and_then (directory ''home'') (\<lambda>home.
      and_then (directory ''cache'') (\<lambda>cache.
      and_then (directory ''empty-hooks'') (\<lambda>hooks.
      Inr \<lparr>rd_runtime = runtime, rd_home = home, rd_cache = cache, rd_hooks = hooks\<rparr>))))"

definition removal_command :: "SandboxEnv \<Rightarrow> string \<Rightarrow> string list" where
  "removal_command env docker = [docker, ''rm'', ''--force'', container_name env]"

definition remaining_command :: "SandboxEnv \<Rightarrow> string \<Rightarrow> string list" where
  "remaining_command env docker =
     [docker, ''ps'', ''--all'', ''--filter'', ''label='' @ run_label env, ''--format'', ''{{.Names}}'']"

text \<open>The run and, whatever it does, the removal of its container and the search for remains.\<close>

definition run_and_clean ::
    "SandboxEnv \<Rightarrow> 'w runner \<Rightarrow> string \<Rightarrow> string list \<Rightarrow> ('w, ProcessOutcome) action" where
  "run_and_clean env run docker argv w =
     (let (ended, w1) = run argv w;
          (removed, w2) = run (removal_command env docker) w1;
          (remaining, w3) = run (remaining_command env docker) w2;
          cleaned = (\<not> isl removed \<and>
            (case remaining of Inl e \<Rightarrow> False
             | Inr listed \<Rightarrow> po_status listed = CS_PASSED \<and> py_strip (po_stdout listed) = []))
      in (if \<not> cleaned then refuse ''verification sandbox resources could not be cleaned up''
          else case ended of
            Inr outcome \<Rightarrow> Inr outcome
          | Inl WritableResourceLimit \<Rightarrow> refuse ''verification writable resource watchdog blocked execution''
          | Inl ProcessRaised \<Rightarrow> Inl HostFailure, w3))"

definition run_verification_in_docker ::
    "SandboxEnv \<Rightarrow> CodingPolicy \<Rightarrow> 'w runner \<Rightarrow> string list \<Rightarrow> string \<Rightarrow> string \<Rightarrow> int \<Rightarrow>
     ('w, ProcessOutcome) action" where
  "run_verification_in_docker env policy run requested repository command_id timeout =
     and_do (pure_act (trusted_docker env repository)) (\<lambda>docker.
     and_do (pure_act (sb_runtime_directory env command_id)) (\<lambda>runtime.
     and_do (pure_act (or_fail HostFailure (sb_task_root env))) (\<lambda>task_root.
     and_do (pure_act (guard (\<not> he_relative (sb_host env) task_root repository) (VerificationPolicyError
       ''verification task directories may not be nested in the worktree''))) (\<lambda>_.
     and_do (pure_act (guard (\<not> he_relative (sb_host env) repository task_root) (VerificationPolicyError
       ''verification worktree may not be nested in task directories''))) (\<lambda>_.
     and_do (ensure_python_verifier_image env run docker) (\<lambda>python_image.
     and_do (pure_act (verification_container_spec env python_image requested)) (\<lambda>spec.
     and_do (if vs_image spec = node_verifier_image then ensure_remote_image run docker node_verifier_image
       else pure_act (Inr (vs_image spec))) (\<lambda>_.
     let marker = he_join (sb_host env) repository ''.git'' in
     and_do (pure_act (guard (vs_workspace_writable spec \<longrightarrow> sb_owned_marker env marker) (VerificationPolicyError
       ''writable verification requires an owned linked-worktree Git marker''))) (\<lambda>_.
     and_do (pure_act (runtime_directories env runtime)) (\<lambda>dirs.
     run_and_clean env run docker (docker_argv env policy docker spec dirs marker repository timeout)))))))))))"

section \<open>The recorded result\<close>

text \<open>
  What surrounds one run: the clock, whether the task was cancelled, the duration that is recorded
  when the sandbox fails closed, and the store of the output.
\<close>

record RunContext =
  rx_started_at :: datetime
  rx_finished_at :: datetime
  rx_cancelled :: bool
  rx_elapsed_ms :: int
  rx_write_output :: "string \<Rightarrow> string verification"

definition safe_command_id :: "string \<Rightarrow> bool" where
  "safe_command_id s \<longleftrightarrow>
     s \<noteq> [] \<and> length s \<le> 64 \<and> is_alnum_char (hd s) \<and> list_all (\<lambda>c. is_alnum_char c \<or> in_class c ''._-'') (tl s)"

fun status_summary :: "CommandStatus \<Rightarrow> string" where
  "status_summary CS_PASSED = ''verification passed''"
| "status_summary CS_FAILED = ''verification failed''"
| "status_summary CS_TIMED_OUT = ''verification timed out''"
| "status_summary CS_CANCELLED = ''verification cancelled''"
| "status_summary CS_NOT_RUN = ''verification was not run''"

definition closed_outcome :: "RunContext \<Rightarrow> string \<Rightarrow> ProcessOutcome" where
  "closed_outcome ctx message =
     \<lparr>po_status = (if rx_cancelled ctx then CS_CANCELLED else CS_FAILED),
      po_exit_code = (if rx_cancelled ctx then None else Some 125), po_stdout = [],
      po_stderr = ''verification sandbox failed closed: '' @ message, po_duration_ms = rx_elapsed_ms ctx\<rparr>"

definition combined_output :: "ProcessOutcome \<Rightarrow> string" where
  "combined_output outcome =
     (let combined = (if po_stderr outcome = [] then po_stdout outcome
        else if po_stdout outcome = [] then po_stderr outcome
        else po_stdout outcome @ newline @ po_stderr outcome)
      in if combined = [] then ''[no output]'' else combined)"

definition recorded_result ::
    "RunContext \<Rightarrow> VerificationCommandV1 \<Rightarrow> string \<Rightarrow> string list \<Rightarrow> string \<Rightarrow> ProcessOutcome \<Rightarrow> CommandResultV1 verification" where
  "recorded_result ctx command command_id argv cwd outcome =
     and_then (rx_write_output ctx (combined_output outcome)) (\<lambda>artifact.
     or_fail VerificationValidationError (validate_CommandResultV1
       \<lparr>cm_command_id = command_id, cm_argv = argv, cm_cwd = cwd, cm_purpose = vc_purpose command,
        cm_status = po_status outcome, cm_exit_code = po_exit_code outcome,
        cm_started_at = rx_started_at ctx, cm_finished_at = rx_finished_at ctx,
        cm_duration_ms = po_duration_ms outcome, cm_output_artifact_id = Some artifact,
        cm_summary = status_summary (po_status outcome)\<rparr>))"

text \<open>\<open>VerificationRunner.run\<close>.\<close>

definition run_verification ::
    "SandboxEnv \<Rightarrow> CodingPolicy \<Rightarrow> RunContext \<Rightarrow> 'w runner \<Rightarrow> VerificationCommandV1 \<Rightarrow> string \<Rightarrow> string \<Rightarrow>
     ('w, CommandResultV1) action" where
  "run_verification env policy ctx run command command_id cwd =
     and_do (pure_act (guard (safe_command_id command_id) (VerificationPolicyError ''invalid command id''))) (\<lambda>_.
     and_do (pure_act (or_fail (VerificationPolicyError ''verification cwd is unavailable'')
       (he_resolve (sb_host env) cwd))) (\<lambda>canonical.
     and_do (pure_act (resolve_verification_argv (sb_host env) policy canonical (vc_argv command))) (\<lambda>argv w.
     let (ended, w') = run_verification_in_docker env policy run (vc_argv command) canonical command_id
           (min (vc_timeout_seconds command) (cy_verification_timeout_seconds policy)) w
     in case ended of
          Inr outcome \<Rightarrow> (recorded_result ctx command command_id argv canonical outcome, w')
        | Inl (VerificationPolicyError message) \<Rightarrow>
            (recorded_result ctx command command_id argv canonical (closed_outcome ctx message), w')
        | Inl e \<Rightarrow> (Inl e, w'))))"

end
