(* ===== verification/VerificationProperties.thy ===== *)
theory VerificationProperties
  imports VerificationSandbox ReviewerProperties
begin

text \<open>
  A verification command runs only in its container: whatever the runner answers, the processes that
  are started are Docker controls and at most one isolated run, which is always cleaned up. Accepted
  Python commands run a test module, and executables come from trusted places.
\<close>

section \<open>What an action starts\<close>

definition logged :: "'w runner \<Rightarrow> ('w \<times> string list list) runner" where
  "logged run argv = (\<lambda>(w, trace). case run argv w of (r, w') \<Rightarrow> (r, w', trace @ [argv]))"

definition starts_only :: "(string list \<Rightarrow> bool) \<Rightarrow> ('w \<times> string list list, 'a) action \<Rightarrow> bool" where
  "starts_only P act \<longleftrightarrow>
     (\<forall>w trace r w' trace'. act (w, trace) = (r, w', trace') \<longrightarrow> (\<exists>more. trace' = trace @ more \<and> list_all P more))"

lemma starts_onlyD:
  "starts_only P act \<Longrightarrow> act (w, trace) = (r, w', trace') \<Longrightarrow> \<exists>more. trace' = trace @ more \<and> list_all P more"
  unfolding starts_only_def by blast

lemma starts_onlyI:
  "(\<And>w trace r w' trace'. act (w, trace) = (r, w', trace') \<Longrightarrow> \<exists>more. trace' = trace @ more \<and> list_all P more) \<Longrightarrow>
   starts_only P act"
  unfolding starts_only_def by blast

lemma starts_pure [intro, simp]: "starts_only P (pure_act r)"
  by (rule starts_onlyI) (auto simp: pure_act_def)

lemma starts_start [intro]: "P argv \<Longrightarrow> starts_only P (start (logged run) argv)"
  by (rule starts_onlyI) (auto simp: start_def logged_def split: prod.splits sum.splits)

lemma starts_and_do [intro]:
  assumes "starts_only P act" "\<And>x. starts_only P (f x)"
  shows "starts_only P (and_do act f)"
proof (rule starts_onlyI)
  fix w trace r w' trace' assume run: "and_do act f (w, trace) = (r, w', trace')"
  obtain r1 w1 trace1 where first: "act (w, trace) = (r1, w1, trace1)" by (metis prod_cases3)
  from starts_onlyD[OF assms(1) first] obtain more where more: "trace1 = trace @ more" "list_all P more" by blast
  show "\<exists>more. trace' = trace @ more \<and> list_all P more"
  proof (cases r1)
    case (Inl e)
    with run first more show ?thesis by (auto simp: and_do_def)
  next
    case (Inr x)
    with run first have "f x (w1, trace1) = (r, w', trace')" by (simp add: and_do_def)
    from starts_onlyD[OF assms(2) this] more show ?thesis by (auto simp: list_all_append)
  qed
qed

lemma starts_option [intro]:
  "starts_only P a \<Longrightarrow> (\<And>x. starts_only P (f x)) \<Longrightarrow> starts_only P (case v of None \<Rightarrow> a | Some x \<Rightarrow> f x)"
  by (cases v) auto

lemmas starts_intros = starts_and_do starts_option starts_pure starts_start

lemma pure_and_do:
  "and_do (pure_act v) f w = (case v of Inl e \<Rightarrow> (Inl e, w) | Inr x \<Rightarrow> f x w)"
  by (simp add: and_do_def pure_act_def split: sum.split)

text \<open>What an action returns when it returns.\<close>

definition yields :: "('a \<Rightarrow> bool) \<Rightarrow> ('w, 'a) action \<Rightarrow> bool" where
  "yields P act \<longleftrightarrow> (\<forall>w x w'. act w = (Inr x, w') \<longrightarrow> P x)"

lemma yieldsD: "yields P act \<Longrightarrow> act w = (Inr x, w') \<Longrightarrow> P x"
  unfolding yields_def by blast

lemma yields_pure [simp]: "yields P (pure_act r) \<longleftrightarrow> (\<forall>x. r = Inr x \<longrightarrow> P x)"
  by (auto simp: yields_def pure_act_def)

lemma yields_and_do:
  assumes "yields Q act" "\<And>x. Q x \<Longrightarrow> yields P (f x)"
  shows "yields P (and_do act f)"
  unfolding yields_def
proof (intro allI impI)
  fix w x w' assume run: "and_do act f w = (Inr x, w')"
  obtain r w1 where first: "act w = (r, w1)" by (metis surj_pair)
  with run obtain y where y: "r = Inr y" "f y w1 = (Inr x, w')" by (cases r) (auto simp: and_do_def)
  with first have "Q y" using yieldsD[OF assms(1)] by blast
  from yieldsD[OF assms(2)[OF this] y(2)] show "P x" .
qed

lemma yields_any: "yields (\<lambda>_. True) act"
  by (simp add: yields_def)

lemmas yields_then = yields_and_do[OF yields_any]

section \<open>Controls and contained runs\<close>

definition control :: "string list \<Rightarrow> bool" where
  "control argv \<longleftrightarrow> 2 \<le> length argv \<and> argv ! 1 \<in> {''image'', ''pull'', ''build'', ''rm'', ''ps''}"

lemma control_commands [simp]:
  "control (inspect_command docker reference)" "control (docker # ''pull'' # rest)" "control (build_command env docker)"
  "control (inspect_labels_command docker)" "control (removal_command env docker)" "control (remaining_command env docker)"
  by (simp_all add: control_def inspect_command_def build_command_def inspect_labels_command_def
      removal_command_def remaining_command_def)

lemma remote_image_controls: "starts_only control (ensure_remote_image (logged run) docker reference)"
  unfolding ensure_remote_image_def by (intro starts_intros control_commands)

lemma python_image_controls: "starts_only control (ensure_python_verifier_image env (logged run) docker)"
  unfolding ensure_python_verifier_image_def by (intro starts_intros remote_image_controls control_commands)

lemma verifier_identity_id: "verifier_identity env outcome = Inr (Some ident) \<Longrightarrow> image_id ident"
  by (auto simp: verifier_identity_def split: prod.splits option.splits json.splits if_splits)

lemma python_image_id: "yields image_id (ensure_python_verifier_image env run docker)"
proof -
  have known: "yields (\<lambda>known. \<forall>ident. known = Some ident \<longrightarrow> image_id ident) (pure_act (verifier_identity env outcome))"
    for outcome by (auto dest: verifier_identity_id)
  have found: "yields image_id (pure_act (or_fail e known))" if "\<forall>ident. known = Some ident \<longrightarrow> image_id ident" for e known
    using that by simp
  show ?thesis
    unfolding ensure_python_verifier_image_def
    by (rule yields_then, rule yields_and_do[OF known])
      (auto split: option.splits intro!: yields_then yields_and_do[OF known] found)
qed

text \<open>The run of a request: no network, no capability, a read-only root and a pinned image.\<close>

definition contained :: "SandboxEnv \<Rightarrow> string list \<Rightarrow> string \<Rightarrow> string list \<Rightarrow> bool" where
  "contained env requested repository argv \<longleftrightarrow>
     list_all (\<lambda>part. sublist part argv)
       [[''--network'', ''none''], [''--read-only''], [''--cap-drop'', ''ALL''],
        [''--security-opt'', ''no-new-privileges:true''], [''--user'', ''1000:1000'']] \<and>
     (\<exists>reference. (image_id reference \<or> reference = node_verifier_image) \<and>
        sublist [''--entrypoint'', ''/usr/bin/timeout'', reference] argv) \<and>
     (sublist [''--volume'', repository @ '':/workspace:ro''] argv \<or>
      (bare_program (hd requested) \<in> {''npm'', ''yarn''} \<and> ''build'' \<in> casefold ` set (tl requested) \<and>
       sb_owned_marker env (he_join (sb_host env) repository ''.git'') \<and>
       sublist [''--volume'', repository @ '':/workspace:rw'', ''--volume'',
         he_join (sb_host env) repository ''.git'' @ '':/workspace/.git:ro''] argv))"

lemma sublist_at: "drop n xs = part @ rest \<Longrightarrow> sublist part xs"
  unfolding sublist_def by (metis append_take_drop_id)

lemma sublist_in_append: "sublist part ys \<Longrightarrow> sublist part (xs @ ys @ zs)"
  unfolding sublist_def by (metis append.assoc)

lemma spec_image:
  assumes "verification_container_spec env python_image requested = Inr spec" "image_id python_image"
  shows "image_id (vs_image spec) \<or> vs_image spec = node_verifier_image"
  using assms by (auto simp: verification_container_spec_def Let_def split: if_splits)

lemma spec_writable:
  assumes "verification_container_spec env python_image requested = Inr spec" "vs_workspace_writable spec"
  shows "bare_program (hd requested) \<in> {''npm'', ''yarn''}" "''build'' \<in> casefold ` set (tl requested)"
  using assms by (auto simp: verification_container_spec_def Let_def list_ex_iff image_iff split: if_splits) metis+

lemma docker_argv_parts:
  "sublist part (isolation_args env policy) \<Longrightarrow> sublist part (docker_argv env policy docker spec dirs marker repository timeout)"
  "sublist part (mount_args spec dirs marker repository) \<Longrightarrow>
     sublist part (docker_argv env policy docker spec dirs marker repository timeout)"
  "sublist [''--entrypoint'', ''/usr/bin/timeout'', vs_image spec]
     (docker_argv env policy docker spec dirs marker repository timeout)"
  unfolding docker_argv_def append.assoc by (auto simp: sublist_append sublist_Cons_right)

lemma docker_argv_contained:
  assumes spec: "verification_container_spec env python_image requested = Inr spec" and ident: "image_id python_image"
    and marker: "vs_workspace_writable spec \<longrightarrow> sb_owned_marker env (he_join (sb_host env) repository ''.git'')"
  shows "contained env requested repository
    (docker_argv env policy docker spec dirs (he_join (sb_host env) repository ''.git'') repository timeout)"
    (is "contained env requested repository ?argv")
proof -
  have "sublist part ?argv" if "sublist part (isolation_args env policy)" for part
    using that by (rule docker_argv_parts)
  then have flags: "list_all (\<lambda>part. sublist part ?argv)
       [[''--network'', ''none''], [''--read-only''], [''--cap-drop'', ''ALL''],
        [''--security-opt'', ''no-new-privileges:true''], [''--user'', ''1000:1000'']]"
    by (simp add: isolation_args_def sublist_Cons_right)
  have mounts: "sublist part ?argv" if "sublist part (mount_args spec dirs (he_join (sb_host env) repository ''.git'') repository)" for part
    using that by (rule docker_argv_parts)
  have ro: "sublist [''--volume'', repository @ '':/workspace:ro''] ?argv" if "\<not> vs_workspace_writable spec"
    by (rule mounts) (simp add: mount_args_def that sublist_Cons_right)
  have rw: "sublist [''--volume'', repository @ '':/workspace:rw'', ''--volume'',
       he_join (sb_host env) repository ''.git'' @ '':/workspace/.git:ro''] ?argv" if "vs_workspace_writable spec"
    by (rule mounts) (simp add: mount_args_def that sublist_Cons_right)
  have pinned: "\<exists>reference. (image_id reference \<or> reference = node_verifier_image) \<and>
      sublist [''--entrypoint'', ''/usr/bin/timeout'', reference] ?argv"
    using spec_image[OF spec ident] by (intro exI[of _ "vs_image spec"]) (simp add: docker_argv_parts(3))
  show ?thesis
  proof (cases "vs_workspace_writable spec")
    case True
    note w = spec_writable[OF spec True] and r = rw[OF True]
    show ?thesis unfolding contained_def
      by (intro conjI flags pinned disjI2 w r) (use marker True in simp)
  next
    case False
    show ?thesis unfolding contained_def by (intro conjI flags pinned disjI1 ro False)
  qed
qed

section \<open>The log of a verification\<close>

text \<open>Nothing but controls, or one contained run that is followed by its clean-up.\<close>

definition contained_log :: "SandboxEnv \<Rightarrow> string list \<Rightarrow> string \<Rightarrow> string list list \<Rightarrow> bool" where
  "contained_log env requested repository trace \<longleftrightarrow>
     (\<exists>before docker argv. trace = before @ [argv, removal_command env docker, remaining_command env docker] \<and>
        list_all control before \<and> trusted_docker env repository = Inr docker \<and> contained env requested repository argv)"

definition log_ok ::
    "SandboxEnv \<Rightarrow> string list \<Rightarrow> string \<Rightarrow> ('w \<times> string list list, ProcessOutcome) action \<Rightarrow> bool" where
  "log_ok env requested repository act \<longleftrightarrow>
     (\<forall>w trace r w' trace'. list_all control trace \<longrightarrow> act (w, trace) = (r, w', trace') \<longrightarrow>
        (isl r \<and> list_all control trace') \<or> contained_log env requested repository trace')"

lemma log_okI:
  assumes "\<And>w trace r w' trace'. list_all control trace \<Longrightarrow> act (w, trace) = (r, w', trace') \<Longrightarrow>
    (isl r \<and> list_all control trace') \<or> contained_log env requested repository trace'"
  shows "log_ok env requested repository act"
  using assms unfolding log_ok_def by blast

lemma log_okD:
  assumes "log_ok env requested repository act" "list_all control trace" "act (w, trace) = (r, w', trace')"
  shows "(isl r \<and> list_all control trace') \<or> contained_log env requested repository trace'"
  using assms unfolding log_ok_def by blast

lemma log_ok_and_do:
  assumes controls: "starts_only control act" and yields: "yields Q act"
    and rest: "\<And>x. Q x \<Longrightarrow> log_ok env requested repository (f x)"
  shows "log_ok env requested repository (and_do act f)"
proof (rule log_okI)
  fix w trace r w' trace'
  assume pre: "list_all control trace" and run: "and_do act f (w, trace) = (r, w', trace')"
  obtain r1 w1 trace1 where first: "act (w, trace) = (r1, w1, trace1)" by (metis prod_cases3)
  from starts_onlyD[OF controls first] pre have trace1: "list_all control trace1" by (auto simp: list_all_append)
  show "(isl r \<and> list_all control trace') \<or> contained_log env requested repository trace'"
  proof (cases r1)
    case (Inl e)
    with run first trace1 show ?thesis by (auto simp: and_do_def)
  next
    case (Inr x)
    with first yieldsD[OF yields] have "Q x" by blast
    from rest[OF this] trace1 run first Inr show ?thesis unfolding log_ok_def by (simp add: and_do_def)
  qed
qed

lemma run_and_clean_log:
  "run_and_clean env (logged run) docker argv (w, trace) = (r, w', trace') \<Longrightarrow>
   trace' = trace @ [argv, removal_command env docker, remaining_command env docker]"
  by (auto simp: run_and_clean_def logged_def Let_def split: prod.splits)

lemma log_ok_run:
  assumes "trusted_docker env repository = Inr docker" "contained env requested repository argv"
  shows "log_ok env requested repository (run_and_clean env (logged run) docker argv)"
proof (rule log_okI)
  fix w trace r w' trace'
  assume pre: "list_all control trace" and run: "run_and_clean env (logged run) docker argv (w, trace) = (r, w', trace')"
  have "contained_log env requested repository trace'" unfolding contained_log_def
    by (intro exI[of _ trace] exI[of _ docker] exI[of _ argv] conjI run_and_clean_log[OF run] pre assms)
  then show "(isl r \<and> list_all control trace') \<or> contained_log env requested repository trace'" ..
qed

lemma log_ok_pure:
  assumes "\<And>x. v = Inr x \<Longrightarrow> log_ok env requested repository (f x)"
  shows "log_ok env requested repository (and_do (pure_act v) f)"
  by (rule log_ok_and_do[where Q = "\<lambda>x. v = Inr x"]) (simp_all add: assms)

lemma docker_log:
  "log_ok env requested repository
     (run_verification_in_docker env policy (logged run) requested repository command_id timeout)"
  unfolding run_verification_in_docker_def Let_def
proof (intro log_ok_pure, rule log_ok_and_do[OF python_image_controls python_image_id], rule log_ok_pure)
  fix docker python_image spec runtime
  assume docker: "trusted_docker env repository = Inr docker" and ident: "image_id python_image"
    and spec: "verification_container_spec env python_image requested = Inr spec"
  let ?marker = "he_join (sb_host env) repository ''.git''"
  have controls: "starts_only control (if vs_image spec = node_verifier_image
      then ensure_remote_image (logged run) docker node_verifier_image else pure_act (Inr (vs_image spec)))"
    by (simp add: remote_image_controls)
  show "log_ok env requested repository
    (and_do (if vs_image spec = node_verifier_image then ensure_remote_image (logged run) docker node_verifier_image
        else pure_act (Inr (vs_image spec))) (\<lambda>_.
     and_do (pure_act (guard (vs_workspace_writable spec \<longrightarrow> sb_owned_marker env ?marker) (VerificationPolicyError
       ''writable verification requires an owned linked-worktree Git marker''))) (\<lambda>_.
     and_do (pure_act (runtime_directories env runtime)) (\<lambda>dirs.
     run_and_clean env (logged run) docker
       (docker_argv env policy docker spec dirs ?marker repository timeout)))))"
    by (rule log_ok_and_do[OF controls yields_any])
      (intro log_ok_pure log_ok_run[OF docker] docker_argv_contained[OF spec ident], simp)
qed

lemma recorded_status:
  "recorded_result ctx command command_id argv cwd outcome = Inr result \<Longrightarrow> cm_status result = po_status outcome"
  by (auto simp: recorded_result_def validate_CommandResultV1_def bind_eq_Some_conv Let_def)

lemma closed_not_passed: "po_status (closed_outcome ctx message) \<noteq> CS_PASSED"
  by (simp add: closed_outcome_def)


section \<open>Python commands\<close>

lemma strip_by_keeps: "c \<in> set s \<Longrightarrow> p c \<or> c \<in> set (strip_by p s)"
proof -
  assume "c \<in> set s"
  then have "p c \<or> c \<in> set (dropWhile p s)" by (metis Un_iff set_append set_takeWhileD takeWhile_dropWhile_id)
  then have "p c \<or> c \<in> set (rev (dropWhile p s))" by simp
  then have "p c \<or> c \<in> set (dropWhile p (rev (dropWhile p s)))"
    by (metis Un_iff set_append set_takeWhileD takeWhile_dropWhile_id)
  then show ?thesis by (simp add: strip_by_def)
qed

lemma casefold_keeps: "c \<in> set s \<Longrightarrow> casefold_char c = [c] \<Longrightarrow> c \<in> set (casefold s)"
  by (force simp: casefold_def)

lemma fixed_chars [simp]:
  "casefold_char (CHR ''/'') = ''/''" "casefold_char (CHR 0x5C) = [CHR 0x5C]" "casefold_char (CHR ''-'') = ''-''"
  "\<not> is_py_space (CHR ''/'')" "\<not> is_py_space (CHR 0x5C)" "\<not> is_py_space (CHR ''-'')"
  by code_simp+

lemma strip_by_Cons: "\<not> p c \<Longrightarrow> \<exists>t. strip_by p (c # s) = c # t"
proof -
  assume c: "\<not> p c"
  obtain t where t: "c # s = strip_by p (c # s) @ t"
    using rev_dropWhile_rev_prefix[of "c # s" p] c by (auto simp: strip_by_def)
  have "c \<in> set (strip_by p (c # s))" using strip_by_keeps[of c "c # s" p] c by simp
  with t show ?thesis by (cases "strip_by p (c # s)") auto
qed

lemma is_option_token: "is_option item \<Longrightarrow> is_option (py_strip (casefold item))"
proof -
  assume "is_option item"
  then obtain s where "item = CHR ''-'' # s" by (auto simp: is_option_def prefix_def)
  then have "casefold item = CHR ''-'' # casefold s" by (simp add: casefold_def)
  then show ?thesis using strip_by_Cons[of is_py_space "CHR ''-''" "casefold s"]
    by (auto simp: py_strip_def is_option_def)
qed

lemma split_on_single: "sep \<notin> set s \<Longrightarrow> split_on sep acc s = [rev acc @ s]"
  by (induction s arbitrary: acc) auto

lemma remove_suffix_set: "set s \<subseteq> set (remove_suffix ending s) \<union> set ending"
  by (auto simp: remove_suffix_def suffix_def)

lemma option_token_no_program:
  assumes "py_strip (casefold item) \<in> {''--no-sync'', ''--offline'', ''--frozen''}"
  shows "bare_program item \<notin> {''pytest'', ''python''}"
proof -
  have chars: "set (py_strip (casefold item)) \<subseteq> set ''--no-sync--offline--frozen''" using assms by auto
  have "CHR ''/'' \<notin> set item" "CHR 0x5C \<notin> set item"
    using chars casefold_keeps[of _ item] strip_by_keeps[of _ "casefold item" is_py_space]
    by (auto simp: py_strip_def) fastforce+
  moreover from this(2) have "slash_normalized item = item"
    unfolding slash_normalized_def by (induction item) auto
  ultimately have name: "program_name item = casefold item" by (simp add: program_name_def split_on_single)
  have "CHR ''-'' \<in> set (py_strip (casefold item))" using assms by auto
  then have "CHR ''-'' \<in> set (casefold item)" using strip_by_subset by (fastforce simp: py_strip_def)
  then have "CHR ''-'' \<in> set (bare_program item) \<union> set ''.cmd'' \<union> set ''.exe''"
    using remove_suffix_set[of "casefold item" "''.exe''"] remove_suffix_set[of "remove_suffix ''.exe'' (casefold item)" "''.cmd''"]
    unfolding bare_program_def name by blast
  then show ?thesis by auto
qed

lemma nested_index_takeWhile:
  "nested_index_from i xs = (if list_all is_option xs then None else Some (i + length (takeWhile is_option xs)))"
  by (induction i xs rule: nested_index_from.induct) auto

lemma nested_index_bounds: "nested_index_from i xs = Some j \<Longrightarrow> i \<le> j \<and> j < i + length xs"
  by (induction i xs rule: nested_index_from.induct) (auto split: if_splits)

text \<open>The index the policy computes on folded texts is the one the adapter computes on the raw ones.\<close>

lemma same_nested_index:
  assumes folded: "nested_index_from 1 (map (\<lambda>item. py_strip (casefold item)) items) = Some k"
    and raw: "nested_index_from 1 items = Some j"
    and options: "set (take (k - 1) (map (\<lambda>item. py_strip (casefold item)) items)) \<subseteq> {''--no-sync'', ''--offline'', ''--frozen''}"
    and program: "bare_program (items ! (j - 1)) \<in> {''pytest'', ''python''}"
  shows "j = k"
proof -
  let ?n = "\<lambda>item. py_strip (casefold item)"
  have k: "k = Suc (length (takeWhile (is_option \<circ> ?n) items))" using folded
    by (auto simp: nested_index_takeWhile takeWhile_map split: if_splits)
  have j: "j = Suc (length (takeWhile is_option items))" using raw
    by (auto simp: nested_index_takeWhile split: if_splits)
  have "length (takeWhile is_option items) \<le> length (takeWhile (is_option \<circ> ?n) items)"
    by (induction items) (auto simp: is_option_token)
  then consider "j = k" | "j < k" using j k by linarith
  then show ?thesis
  proof cases
    case 2
    have "j - 1 < length items" using nested_index_bounds[OF raw] by auto
    moreover have "j - 1 < k - 1" using 2 j by simp
    ultimately have "?n (items ! (j - 1)) \<in> set (take (k - 1) (map ?n items))"
      by (metis (no_types, lifting) in_set_conv_nth length_map length_take min_less_iff_conj nth_map nth_take)
    with options option_token_no_program program show ?thesis by blast
  qed
qed

lemma adapter_cases:
  "(if b = ''pytest'' then Inr x else if b = ''python'' then Inr y else refuse m) = Inr v \<Longrightarrow>
   b \<in> {''pytest'', ''python''} \<and> v = (if b = ''pytest'' then x else y)"
  by (auto split: if_splits)

text \<open>
  C24: Python verifiers run a test module. If a command is accepted and its program is \<open>python\<close>,
  \<open>pytest\<close> or \<open>uv\<close>, then the container, which takes the command apart again from its raw text, starts
  the interpreter of the image with \<open>-m pytest\<close> or \<open>-m unittest\<close> (up to letter case and surrounding
  blanks), on a worktree it cannot write.
\<close>

theorem python_verifiers_run_test_modules:
  assumes "validate_verification_argv env policy cwd argv = Inr accepted"
    and "verification_container_spec sandbox python_image argv = Inr spec"
    and "bare_program (hd argv) \<in> {''python'', ''pytest'', ''uv''}"
  shows "hd (vs_argv spec) = ''/usr/local/bin/python'' \<and> runs_test_module (tokens_of (tl (vs_argv spec))) \<and>
    \<not> vs_workspace_writable spec \<and> vs_image spec = python_image"
proof -
  have inner: "python_inner_argv argv = Inr (vs_argv spec)" "\<not> vs_workspace_writable spec" "vs_image spec = python_image"
    using assms(2,3) by (auto simp: verification_container_spec_def Let_def split: if_splits)
  have shape: "command_shape (bare_program (hd argv)) argv (tl (tokens_of argv)) = Inr ()"
    using assms(1) by (auto simp: validate_verification_argv_def Let_def)
  have pytest: "runs_test_module (tokens_of (''-m'' # ''pytest'' # rest))" for rest
  proof -
    have "py_strip (casefold ''-m'') = ''-m''" "py_strip (casefold ''pytest'') = ''pytest''" by code_simp+
    then show ?thesis by (simp add: runs_test_module_def tokens_of_def)
  qed
  have tokens: "tl (tokens_of xs) = tokens_of (tl xs)" for xs by (simp add: tokens_of_def map_tl)
  consider "bare_program (hd argv) = ''pytest''" | "bare_program (hd argv) = ''python''" | "bare_program (hd argv) = ''uv''"
    using assms(3) by blast
  then have "hd (vs_argv spec) = ''/usr/local/bin/python'' \<and> runs_test_module (tokens_of (tl (vs_argv spec)))"
  proof cases
    case 1
    with inner(1) have "vs_argv spec = ''/usr/local/bin/python'' # ''-m'' # ''pytest'' # tl argv"
      by (simp add: python_inner_argv_def)
    with pytest show ?thesis by simp
  next
    case 2
    with inner(1) have "vs_argv spec = ''/usr/local/bin/python'' # tl argv" by (simp add: python_inner_argv_def)
    with 2 shape tokens show ?thesis by (simp add: command_shape_def Let_def)
  next
    case 3
    let ?items = "drop 1 (tl argv)"
    have map_items: "drop 1 (tokens_of (tl argv)) = map (\<lambda>item. py_strip (casefold item)) ?items"
      by (simp add: tokens_of_def drop_map)
    have uv: "uv_shape argv (tokens_of (tl argv)) = Inr ()" using shape 3 tokens by (simp add: command_shape_def Let_def)
    then obtain k where k: "nested_index_from 1 (map (\<lambda>item. py_strip (casefold item)) ?items) = Some k"
      and options: "set (take (k - 1) (map (\<lambda>item. py_strip (casefold item)) ?items)) \<subseteq> {''--no-sync'', ''--offline'', ''--frozen''}"
      and nested: "drop (k + 1) argv \<noteq> []"
        "bare_program (hd (drop (k + 1) argv)) = ''pytest'' \<or> runs_test_module (tokens_of (tl (drop (k + 1) argv)))"
      unfolding uv_shape_def map_items by (auto simp: Let_def split: option.splits)
    have adapter: "(case nested_index_from 1 ?items of
         None \<Rightarrow> refuse ''uv verifier has no nested command''
       | Some index \<Rightarrow>
           let nested = drop index (tl argv) in
           if bare_program (hd nested) = ''pytest'' then Inr ([''/usr/local/bin/python'', ''-m'', ''pytest''] @ tl nested)
           else if bare_program (hd nested) = ''python'' then Inr (''/usr/local/bin/python'' # tl nested)
           else refuse ''Python verification adapter rejected the command'') = Inr (vs_argv spec)"
      using inner(1) 3 by (simp add: python_inner_argv_def Let_def)
    then obtain j where j: "nested_index_from 1 ?items = Some j" by (auto split: option.splits)
    note adapted = adapter[unfolded j option.case Let_def]
    note program = adapter_cases[OF adapted, THEN conjunct1] and run = adapter_cases[OF adapted, THEN conjunct2]
    have at_j: "hd (drop j (tl argv)) = ?items ! (j - 1)"
    proof -
      have "1 \<le> j" "j < 1 + length ?items" using nested_index_bounds[OF j] by auto
      then show ?thesis by (simp add: hd_drop_conv_nth)
    qed
    have "j = k" using same_nested_index[OF k j options] program at_j by simp
    then have "drop j (tl argv) = drop (k + 1) argv" by (simp add: drop_Suc)
    with run nested pytest show ?thesis by auto
  qed
  with inner show ?thesis by simp
qed

section \<open>Executables\<close>

text \<open>A place on \<open>PATH\<close> that is absolute and lies outside the worktree.\<close>

definition trusted_place :: "HostEnv \<Rightarrow> string \<Rightarrow> string \<Rightarrow> bool" where
  "trusted_place env worktree directory \<longleftrightarrow>
     (\<exists>raw \<in> set (he_path env). he_absolute env raw \<and> he_resolve env raw = Some directory) \<and>
     he_is_dir env directory \<and> \<not> is_within env directory worktree"

lemma search_directories_trusted:
  "directory \<in> set (search_directories env (Some worktree) seen raws) \<Longrightarrow>
   (\<exists>raw \<in> set raws. he_absolute env raw \<and> he_resolve env raw = Some directory) \<and>
   he_is_dir env directory \<and> \<not> is_within env directory worktree"
  by (induction env "Some worktree" seen raws rule: search_directories.induct)
    (auto simp: Let_def split: if_splits option.splits)

lemma first_some_Some: "first_some f xs = Some y \<Longrightarrow> \<exists>x \<in> set xs. f x = Some y"
  by (induction xs) (auto split: option.splits)

lemma discovered_trusted:
  assumes "discover_trusted_program env (Some worktree) program = Some found"
  shows "he_is_file env found \<and> (\<exists>directory name. trusted_place env worktree directory \<and>
    he_resolve env (he_join env directory name) = Some found)"
proof -
  from first_some_Some[OF assms[unfolded discover_trusted_program_def]] obtain directory where
    directory: "directory \<in> set (trusted_search_directories env (Some worktree))"
    "first_some (\<lambda>name. usable_executable env (he_join env directory name)) (candidate_names env program) = Some found" by blast
  from first_some_Some[OF this(2)] obtain name where
    name: "usable_executable env (he_join env directory name) = Some found" by blast
  have "trusted_place env worktree directory"
    using search_directories_trusted[OF directory(1)[unfolded trusted_search_directories_def]]
    by (simp add: trusted_place_def)
  with name show ?thesis by (auto simp: usable_executable_def split: option.splits if_splits)
qed

text \<open>
  C23: The executable of an accepted command is trusted. The command is bound to the interpreter of the
  engine or to a file found through an absolute directory of \<open>PATH\<close> outside the worktree; its name and
  the requested one are allowlisted and no shell was requested; the other arguments stay as they were.
\<close>

theorem executables_come_from_trusted_places:
  assumes "resolve_verification_argv env policy cwd argv = Inr bound"
  shows "\<exists>worktree. he_resolve env cwd = Some worktree \<and> tl bound = tl argv \<and>
    program_name (he_name env (hd bound)) \<in> allowed_programs policy \<and>
    program_name (hd argv) \<in> allowed_programs policy - set shell_programs \<and>
    (he_resolve env (he_executable env) = Some (hd bound) \<or>
     (\<exists>directory name. trusted_place env worktree directory \<and>
        he_resolve env (he_join env directory name) = Some (hd bound)))"
proof -
  obtain worktree accepted executable where worktree: "he_resolve env cwd = Some worktree"
    and accepted: "validate_verification_argv env policy (Some worktree) argv = Inr accepted"
    and executable: "resolve_trusted_program env (Some worktree) policy (hd accepted) = Inr executable"
    and bound: "bound = executable # tl accepted"
    using assms by (auto simp: resolve_verification_argv_def)
  have same: "accepted = argv" and name: "program_name (hd argv) \<in> allowed_programs policy - set shell_programs"
    using accepted by (auto simp: validate_verification_argv_def Let_def)
  have "program_name (he_name env executable) \<in> allowed_programs policy \<and>
    (he_resolve env (he_executable env) = Some executable \<or>
     (\<exists>directory name. trusted_place env worktree directory \<and> he_resolve env (he_join env directory name) = Some executable))"
    using executable
    by (auto simp: resolve_trusted_program_def engine_interpreter_def discovered_executable_def Let_def
        split: option.splits if_splits dest!: discovered_trusted)
  with worktree same name bound show ?thesis by auto
qed

section \<open>A run\<close>

text \<open>
  A host with one trusted directory, a policy and a process runner: the verifier image is known, the
  run passes and nothing remains.
\<close>

definition sample_host :: HostEnv where
  "sample_host = \<lparr>he_nt = False, he_path = [''/usr/bin'', ''bin''], he_pathext = [], he_executable = ''/opt/engine/python'',
     he_working_directory = ''/repo'', he_absolute = (\<lambda>p. prefix ''/'' p), he_resolve = Some,
     he_relative = (\<lambda>p root_dir. p = root_dir \<or> prefix (root_dir @ ''/'') p), he_join = (\<lambda>a b. a @ ''/'' @ b),
     he_name = (\<lambda>p. last (split_on (CHR ''/'') [] p)), he_is_dir = (\<lambda>p. True), he_is_file = (\<lambda>p. True),
     he_executable_bit = (\<lambda>p. True), he_normcase = (\<lambda>p. p)\<rparr>"

definition sample_coding_policy :: CodingPolicy where
  "sample_coding_policy = \<lparr>cy_schema_version = ''1.0'', cy_policy_version = ''2026-01-01.1'', cy_branch_prefix = ''agent-'',
     cy_max_local_attempts = 2, cy_lease_acquire_timeout_seconds = 10, cy_lease_heartbeat_seconds = 5,
     cy_lease_stale_seconds = 60, cy_process_poll_seconds = 1, cy_qwen_timeout_seconds = 60,
     cy_codex_timeout_seconds = 60, cy_verification_timeout_seconds = 300, cy_review_timeout_seconds = 60,
     cy_context_token_budget = 1024, cy_max_artifact_bytes = 4096, cy_max_output_chars = 4096, cy_max_diff_bytes = 4096,
     cy_qwen_agent_memory_bytes = 1073741824, cy_qwen_agent_memory_swap_bytes = 1073741824, cy_qwen_agent_cpus = 1,
     cy_qwen_proxy_memory_bytes = 1073741824, cy_qwen_proxy_memory_swap_bytes = 1073741824, cy_qwen_proxy_cpus = 1,
     cy_qwen_probe_memory_bytes = 1073741824, cy_qwen_probe_memory_swap_bytes = 1073741824, cy_qwen_probe_cpus = 1,
     cy_verifier_memory_bytes = 1073741824, cy_verifier_memory_swap_bytes = 1073741824, cy_verifier_cpus = 1,
     cy_qwen_max_writable_bytes = 1073741824, cy_verifier_max_writable_bytes = 1073741824,
     cy_host_free_space_reserve_bytes = 1073741824, cy_free_space_watchdog_poll_seconds = 1,
     cy_writable_watchdog_poll_seconds = 1, cy_writable_watchdog_scan_timeout_seconds = 1,
     cy_writable_watchdog_max_entries = 1000, cy_local_semantic_model = ''local-strong'',
     cy_local_semantic_expected_model_digest = replicate 64 (CHR ''0''),
     cy_local_semantic_expected_executable_path = ''auto'', cy_local_semantic_expected_executable_sha256 = ''auto'',
     cy_allowed_verification_programs = [''uv'', ''git'', ''npm''], cy_denied_verification_tokens = [''deploy'', ''install'']\<rparr>"

definition sample_image :: string where
  "sample_image = ''sha256:'' @ replicate 64 (CHR ''1'')"

definition sample_sandbox :: SandboxEnv where
  "sample_sandbox = \<lparr>sb_host = sample_host, sb_docker = Some ''/usr/bin/docker'',
     sb_loads = (\<lambda>s. Some (JObj [(''local-agent.component'', JStr ''coding-verifier-python''),
       (''local-agent.recipe'', JStr python_verifier_recipe)])),
     sb_recipe_context = ''/root/config'', sb_dockerfile = ''/root/config/Dockerfile'',
     sb_runtime_directory = (\<lambda>ident. Inr (''/tasks/t1/'' @ ident)), sb_task_root = Some ''/tasks/t1'', sb_task_id = ''t1'',
     sb_owned_marker = (\<lambda>p. True), sb_prepare_diff_check = Inr (), sb_show_number = (\<lambda>x. ''1.0''), sb_nonce = ''n''\<rparr>"

definition sample_process_runner :: "unit runner" where
  "sample_process_runner argv w =
     (Inr \<lparr>po_status = CS_PASSED, po_exit_code = Some 0,
        po_stdout = (if take 2 (tl argv) = [''image'', ''inspect''] then sample_image @ '' {}'' else []),
        po_stderr = [], po_duration_ms = 3\<rparr>, w)"

definition sample_verifier :: VerificationCommandV1 where
  "sample_verifier = \<lparr>vc_argv = [''uv'', ''run'', ''--no-sync'', ''pytest'', ''-q''], vc_purpose = ''tests'',
     vc_timeout_seconds = 60, vc_required = True\<rparr>"

definition sample_run_context :: RunContext where
  "sample_run_context = \<lparr>rx_started_at = Aware 0 0, rx_finished_at = Aware 1 0, rx_cancelled = False, rx_elapsed_ms = 1,
     rx_write_output = (\<lambda>text. Inr ''out'')\<rparr>"

definition sample_verification :: "CommandResultV1 verification \<times> unit \<times> string list list" where
  "sample_verification = run_verification sample_sandbox sample_coding_policy sample_run_context
     (logged sample_process_runner) sample_verifier ''tests'' ''/repo'' ((), [])"

lemma sample_verification_passes:
  "case fst sample_verification of Inl e \<Rightarrow> False | Inr result \<Rightarrow> cm_status result = CS_PASSED"
  "resolve_verification_argv sample_host sample_coding_policy ''/repo'' (vc_argv sample_verifier) =
     Inr [''/usr/bin/uv'', ''run'', ''--no-sync'', ''pytest'', ''-q'']"
  by code_simp+


theorem executables_come_from_trusted_places_witness:
  "program_name ''uv'' \<in> allowed_programs sample_coding_policy - set shell_programs"
  using executables_come_from_trusted_places[OF sample_verification_passes(2)] by (auto simp: sample_verifier_def)

lemma sample_verifier_accepted:
  "validate_verification_argv sample_host sample_coding_policy None (vc_argv sample_verifier) = Inr (vc_argv sample_verifier)"
  "verification_container_spec sample_sandbox sample_image (vc_argv sample_verifier) =
     Inr \<lparr>vs_image = sample_image, vs_argv = [''/usr/local/bin/python'', ''-m'', ''pytest'', ''-q''],
       vs_workspace_writable = False, vs_runtime_read_only = False\<rparr>"
  "bare_program (hd (vc_argv sample_verifier)) = ''uv''"
  by code_simp+

theorem python_verifiers_run_test_modules_witness:
  "runs_test_module (tokens_of [''-m'', ''pytest'', ''-q''])"
  using python_verifiers_run_test_modules[OF sample_verifier_accepted(1,2)] sample_verifier_accepted(3) by simp

end
