(* ===== verification/KnowledgeStore.thy ===== *)
theory KnowledgeStore
  imports Prelude Results Tables "HOL-Library.Char_ord" "HOL-Library.List_Lexorder"
begin

text \<open>
  The knowledge store, \<open>services/knowledge/store.py\<close> over the tables of \<open>services/knowledge/migrations.py\<close>.
  A project publishes one generation at a time: a build stages versions of sources into a generation of
  its own, activation makes it the active one if neither the base nor the mutation epoch moved, and
  purging a source removes every trace of it. A transaction returns an error or the new database; times
  are integers; foreign keys cascade as declared.
\<close>

datatype KnowledgeError = KnowledgeStoreError string | KnowledgeIntegrityError

type_synonym 'a knowledge = "KnowledgeError + 'a"

datatype GenerationStatus = GenBuilding | GenActive | GenSuperseded | GenFailed

datatype SourceStatus =
  SrcDiscovered | SrcAllowed | SrcBlocked | SrcImported | SrcUnsupported | SrcStale | SrcDeleted

datatype FactStatus = FactCandidate | FactConflicted | FactStale

datatype FactKind = FactFact | FactDecision

fun fact_kind_text :: "FactKind \<Rightarrow> string" where
  "fact_kind_text FactFact = ''fact''"
| "fact_kind_text FactDecision = ''decision''"

section \<open>Tables\<close>

record KProject =
  kp_project_id :: string
  kp_owner_id :: string
  kp_canonical_path :: string
  kp_active_generation_id :: "string option"
  kp_mutation_epoch :: int
  kp_created_at :: int
  kp_updated_at :: int

record KSource =
  ks_source_id :: string
  ks_project_id :: string
  ks_owner_id :: string
  ks_source_uri :: string
  ks_source_kind :: string
  ks_source_origin :: string
  ks_sensitivity :: string
  ks_approval_status :: string
  ks_status :: SourceStatus
  ks_current_hash :: "string option"
  ks_current_size_bytes :: "int option"
  ks_current_mtime_ns :: "int option"
  ks_parser :: string
  ks_parser_version :: string
  ks_project_commit_sha :: "string option"
  ks_renamed_from_source_id :: "string option"
  ks_created_at :: int
  ks_updated_at :: int
  ks_last_seen_at :: int

record KVersion =
  kv_version_id :: string
  kv_source_id :: string
  kv_source_hash :: string
  kv_source_origin :: string
  kv_sensitivity :: string
  kv_size_bytes :: int
  kv_mtime_ns :: int
  kv_parser :: string
  kv_parser_version :: string
  kv_derivation_version :: string
  kv_project_commit_sha :: "string option"
  kv_renamed_from_source_id :: "string option"
  kv_observed_at :: int

record KGeneration =
  kg_generation_id :: string
  kg_project_id :: string
  kg_base_generation_id :: "string option"
  kg_base_mutation_epoch :: int
  kg_status :: GenerationStatus
  kg_git_commit_sha :: "string option"
  kg_worktree_revision :: "string option"
  kg_policy_version :: string
  kg_started_at :: int
  kg_completed_at :: "int option"

record KMember =
  km_generation_id :: string
  km_source_id :: string
  km_version_id :: string
  km_source_origin :: string
  km_sensitivity :: string
  km_size_bytes :: int
  km_mtime_ns :: int
  km_project_commit_sha :: "string option"
  km_worktree_revision :: "string option"
  km_derivation_version :: string
  km_policy_version :: string
  km_renamed_from_source_id :: "string option"
  km_observed_at :: int

record KFragment =
  kf_fragment_id :: string
  kf_version_id :: string
  kf_ordinal :: int
  kf_locator :: string
  kf_start_line :: "int option"
  kf_end_line :: "int option"
  kf_title :: "string option"
  kf_content :: string
  kf_content_hash :: string
  kf_extraction_method :: string
  kf_conflict_flag :: bool
  kf_created_at :: int

record KIndexed =
  kx_fragment_id :: string
  kx_title :: string
  kx_content :: string

record KFact =
  ka_fact_id :: string
  ka_version_id :: string
  ka_fragment_id :: string
  ka_fact_kind :: FactKind
  ka_fact_key :: string
  ka_fact_value :: string
  ka_value_hash :: string
  ka_extraction_method :: string
  ka_status :: FactStatus
  ka_created_at :: int

record KConflict =
  kc_conflict_id :: string
  kc_generation_id :: string
  kc_project_id :: string
  kc_fact_key :: string
  kc_fact_ids :: "string list"
  kc_detected_at :: int

record KMap =
  kr_generation_id :: string
  kr_project_id :: string
  kr_map_json :: string
  kr_map_hash :: string
  kr_created_at :: int

record KAudit =
  ku_occurred_at :: int
  ku_owner_id :: string
  ku_project_id :: "string option"
  ku_source_id :: "string option"
  ku_action :: string
  ku_outcome :: string
  ku_reason_code :: "string option"

record KnowledgeDb =
  kd_projects :: "KProject list"
  kd_sources :: "KSource list"
  kd_versions :: "KVersion list"
  kd_generations :: "KGeneration list"
  kd_members :: "KMember list"
  kd_fragments :: "KFragment list"
  kd_index :: "KIndexed list"
  kd_facts :: "KFact list"
  kd_conflicts :: "KConflict list"
  kd_maps :: "KMap list"
  kd_audit :: "KAudit list"

definition empty_knowledge_db :: KnowledgeDb where
  "empty_knowledge_db = \<lparr>kd_projects = [], kd_sources = [], kd_versions = [], kd_generations = [], kd_members = [],
     kd_fragments = [], kd_index = [], kd_facts = [], kd_conflicts = [], kd_maps = [], kd_audit = []\<rparr>"

text \<open>SHA-256 of a text, \<open>expanduser\<close>, and the normal form of a path (\<open>normcase\<close> of \<open>abspath\<close>).\<close>

record KnowledgeEnv =
  kn_sha256 :: "string \<Rightarrow> string"
  kn_expanduser :: "string \<Rightarrow> string"
  kn_normal_path :: "string \<Rightarrow> string"

definition stable_id :: "KnowledgeEnv \<Rightarrow> string \<Rightarrow> string list \<Rightarrow> string" where
  "stable_id env kind parts = kind @ ''_'' @ take 40 (kn_sha256 env (join [CHR 0x1F] parts))"

section \<open>Deletion with its cascades\<close>

definition delete_generations :: "(KGeneration \<Rightarrow> bool) \<Rightarrow> KnowledgeDb \<Rightarrow> KnowledgeDb" where
  "delete_generations gone db =
     (let ids = kg_generation_id ` set (filter gone (kd_generations db)) in
      db\<lparr>kd_generations := filter (\<lambda>g. \<not> gone g) (kd_generations db),
         kd_members := filter (\<lambda>m. km_generation_id m \<notin> ids) (kd_members db),
         kd_conflicts := filter (\<lambda>c. kc_generation_id c \<notin> ids) (kd_conflicts db),
         kd_maps := filter (\<lambda>r. kr_generation_id r \<notin> ids) (kd_maps db)\<rparr>)"

definition delete_versions :: "(KVersion \<Rightarrow> bool) \<Rightarrow> KnowledgeDb \<Rightarrow> KnowledgeDb" where
  "delete_versions gone db =
     (let ids = kv_version_id ` set (filter gone (kd_versions db)) in
      db\<lparr>kd_versions := filter (\<lambda>v. \<not> gone v) (kd_versions db),
         kd_members := filter (\<lambda>m. km_version_id m \<notin> ids) (kd_members db),
         kd_fragments := filter (\<lambda>f. kf_version_id f \<notin> ids) (kd_fragments db),
         kd_facts := filter (\<lambda>a. ka_version_id a \<notin> ids) (kd_facts db)\<rparr>)"

definition delete_sources :: "(KSource \<Rightarrow> bool) \<Rightarrow> KnowledgeDb \<Rightarrow> KnowledgeDb" where
  "delete_sources gone db =
     (let ids = ks_source_id ` set (filter gone (kd_sources db));
          db1 = delete_versions (\<lambda>v. kv_source_id v \<in> ids) db
      in db1\<lparr>kd_sources := filter (\<lambda>s. \<not> gone s) (kd_sources db1),
             kd_members := filter (\<lambda>m. km_source_id m \<notin> ids) (kd_members db1)\<rparr>)"

definition unindex :: "string set \<Rightarrow> KnowledgeDb \<Rightarrow> KnowledgeDb" where
  "unindex ids db = db\<lparr>kd_index := filter (\<lambda>x. kx_fragment_id x \<notin> ids) (kd_index db)\<rparr>"

definition audit_knowledge ::
    "int \<Rightarrow> string \<Rightarrow> string option \<Rightarrow> string option \<Rightarrow> string \<Rightarrow> string \<Rightarrow> string option \<Rightarrow> KnowledgeDb \<Rightarrow> KnowledgeDb" where
  "audit_knowledge now owner project source action outcome reason db =
     db\<lparr>kd_audit := kd_audit db @ [\<lparr>ku_occurred_at = now, ku_owner_id = owner, ku_project_id = project,
        ku_source_id = source, ku_action = take 64 action, ku_outcome = take 32 outcome,
        ku_reason_code = (case reason of None \<Rightarrow> None | Some r \<Rightarrow> if r = [] then None else Some (take 128 r))\<rparr>]\<rparr>"

section \<open>Projects\<close>

definition new_project :: "KnowledgeEnv \<Rightarrow> int \<Rightarrow> string \<Rightarrow> string \<Rightarrow> KProject" where
  "new_project env now owner path =
     \<lparr>kp_project_id = stable_id env ''project'' [owner, casefold path], kp_owner_id = owner,
      kp_canonical_path = path, kp_active_generation_id = None, kp_mutation_epoch = 0,
      kp_created_at = now, kp_updated_at = now\<rparr>"

definition ensure_project :: "KnowledgeEnv \<Rightarrow> int \<Rightarrow> string \<Rightarrow> string \<Rightarrow> KnowledgeDb \<Rightarrow> (string \<times> KnowledgeDb) knowledge" where
  "ensure_project env now owner path db =
     (let ident = stable_id env ''project'' [owner, casefold path];
          same = (\<lambda>p. kp_owner_id p = owner \<and> kp_canonical_path p = path)
      in if list_ex same (kd_projects db) then
           Inr (ident, db\<lparr>kd_projects := map (\<lambda>p. if same p then p\<lparr>kp_updated_at := now\<rparr> else p) (kd_projects db)\<rparr>)
         else
           and_then (guard (ident \<notin> kp_project_id ` set (kd_projects db)) KnowledgeIntegrityError) (\<lambda>_.
           Inr (ident, db\<lparr>kd_projects := kd_projects db @ [new_project env now owner path]\<rparr>)))"

definition project_of :: "string \<Rightarrow> KnowledgeDb \<Rightarrow> KProject option" where
  "project_of project_id db = select kp_project_id project_id (kd_projects db)"

definition project_at :: "string \<Rightarrow> string \<Rightarrow> KnowledgeDb \<Rightarrow> KProject option" where
  "project_at owner path db = find (\<lambda>p. kp_owner_id p = owner \<and> kp_canonical_path p = path) (kd_projects db)"

definition active_generation_id :: "string \<Rightarrow> KnowledgeDb \<Rightarrow> string option" where
  "active_generation_id project_id db =
     (case project_of project_id db of None \<Rightarrow> None | Some p \<Rightarrow> kp_active_generation_id p)"

definition project_state :: "string \<Rightarrow> string \<Rightarrow> KnowledgeDb \<Rightarrow> (string \<times> int) option" where
  "project_state owner path db = map_option (\<lambda>p. (kp_project_id p, kp_mutation_epoch p)) (project_at owner path db)"

section \<open>Building a generation\<close>

definition members_of :: "string \<Rightarrow> KnowledgeDb \<Rightarrow> KMember list" where
  "members_of generation_id db = filter (\<lambda>m. km_generation_id m = generation_id) (kd_members db)"

record BuildRequest =
  br_git_commit_sha :: "string option"
  br_worktree_revision :: "string option"
  br_policy_version :: string
  br_clone_active :: bool
  br_expected_mutation_epoch :: "int option"

definition clone_generation :: "string \<Rightarrow> string \<Rightarrow> KnowledgeDb \<Rightarrow> KnowledgeDb" where
  "clone_generation active generation_id db =
     db\<lparr>kd_members := kd_members db @ map (\<lambda>m. m\<lparr>km_generation_id := generation_id\<rparr>) (members_of active db),
        kd_maps := kd_maps db @ map (\<lambda>r. r\<lparr>kr_generation_id := generation_id\<rparr>)
          (filter (\<lambda>r. kr_generation_id r = active) (kd_maps db))\<rparr>"

text \<open>\<open>uuid\<close> is \<open>uuid4().hex\<close>.\<close>

definition generation_ident :: "string \<Rightarrow> string" where
  "generation_ident uuid = ''gen_'' @ uuid"

definition new_generation :: "int \<Rightarrow> string \<Rightarrow> BuildRequest \<Rightarrow> KProject \<Rightarrow> KGeneration" where
  "new_generation now uuid b p =
     \<lparr>kg_generation_id = generation_ident uuid, kg_project_id = kp_project_id p,
      kg_base_generation_id = kp_active_generation_id p, kg_base_mutation_epoch = kp_mutation_epoch p,
      kg_status = GenBuilding, kg_git_commit_sha = br_git_commit_sha b,
      kg_worktree_revision = br_worktree_revision b, kg_policy_version = br_policy_version b,
      kg_started_at = now, kg_completed_at = None\<rparr>"

definition begin_generation ::
    "int \<Rightarrow> string \<Rightarrow> string \<Rightarrow> BuildRequest \<Rightarrow> KnowledgeDb \<Rightarrow> KnowledgeDb knowledge" where
  "begin_generation now uuid project_id b db =
     (let fresh = generation_ident uuid in
     and_then (or_fail (KnowledgeStoreError ''project is not registered'') (project_of project_id db)) (\<lambda>project.
     and_then (guard (case br_expected_mutation_epoch b of None \<Rightarrow> True | Some n \<Rightarrow> kp_mutation_epoch project = n)
       (KnowledgeStoreError ''project changed during source preparation'')) (\<lambda>_.
     and_then (guard (fresh \<notin> kg_generation_id ` set (kd_generations db)) KnowledgeIntegrityError) (\<lambda>_.
     let db1 = db\<lparr>kd_generations := kd_generations db @ [new_generation now uuid b project]\<rparr>
     in Inr (case kp_active_generation_id project of
          Some active \<Rightarrow> if br_clone_active b \<and> active \<noteq> [] then clone_generation active fresh db1 else db1
        | None \<Rightarrow> db1)))))"

definition drop_repository_sources :: "string \<Rightarrow> KnowledgeDb \<Rightarrow> KnowledgeDb" where
  "drop_repository_sources generation_id db =
     (let ids = ks_source_id ` set (filter (\<lambda>s. ks_source_origin s = ''repository'') (kd_sources db)) in
      db\<lparr>kd_members := filter (\<lambda>m. \<not> (km_generation_id m = generation_id \<and> km_source_id m \<in> ids)) (kd_members db)\<rparr>)"

record ParsedFragment =
  pf_ordinal :: int
  pf_locator :: string
  pf_start_line :: "int option"
  pf_end_line :: "int option"
  pf_title :: "string option"
  pf_content :: string
  pf_extraction_method :: string

record ExtractedFact =
  ef_kind :: FactKind
  ef_key :: string
  ef_value :: string
  ef_extraction_method :: string

record StageRequest =
  sg_generation_id :: string
  sg_project_id :: string
  sg_owner_id :: string
  sg_source_uri :: string
  sg_source_kind :: string
  sg_source_origin :: string
  sg_sensitivity :: string
  sg_source_hash :: string
  sg_size_bytes :: int
  sg_mtime_ns :: int
  sg_parser :: string
  sg_parser_version :: string
  sg_derivation_version :: string
  sg_project_commit_sha :: "string option"
  sg_worktree_revision :: "string option"
  sg_policy_version :: string
  sg_fragments :: "(ParsedFragment \<times> ExtractedFact list) list"
  sg_renamed_from_source_id :: "string option"

definition sensitivity_levels :: "string list" where
  "sensitivity_levels = [''public'', ''internal'', ''sensitive'']"

definition ksensitivity_rank :: "string \<Rightarrow> nat" where
  "ksensitivity_rank s = (if s = ''public'' then 0 else if s = ''internal'' then 1 else 2)"

definition max_sensitivity :: "string \<Rightarrow> string \<Rightarrow> string knowledge" where
  "max_sensitivity left right =
     and_then (guard (left \<in> set sensitivity_levels \<and> right \<in> set sensitivity_levels)
       (KnowledgeStoreError ''unsupported source sensitivity'')) (\<lambda>_.
     Inr (if ksensitivity_rank right \<le> ksensitivity_rank left then left else right))"

definition ksource_key :: "KSource \<Rightarrow> string list" where
  "ksource_key s = [ks_project_id s, ks_source_uri s, ks_source_kind s, ks_source_origin s]"

definition staged_key :: "StageRequest \<Rightarrow> string list" where
  "staged_key r = [sg_project_id r, sg_source_uri r, sg_source_kind r, sg_source_origin r]"

definition staged_source_id :: "KnowledgeEnv \<Rightarrow> StageRequest \<Rightarrow> string" where
  "staged_source_id env r =
     stable_id env ''source'' [sg_project_id r, sg_source_kind r, sg_source_origin r, sg_source_uri r]"

definition staged_version_id :: "KnowledgeEnv \<Rightarrow> StageRequest \<Rightarrow> string" where
  "staged_version_id env r =
     stable_id env ''version'' [staged_source_id env r, sg_source_hash r, sg_derivation_version r]"

definition known_origin :: "string \<Rightarrow> bool" where
  "known_origin s \<longleftrightarrow> s \<in> {''manual'', ''repository''}"

text \<open>\<open>INSERT ... ON CONFLICT DO UPDATE SET source_id = source_id\<close>: an existing row stays as it is.\<close>

definition insert_source :: "KnowledgeEnv \<Rightarrow> int \<Rightarrow> StageRequest \<Rightarrow> string \<Rightarrow> KnowledgeDb \<Rightarrow> KnowledgeDb knowledge" where
  "insert_source env now r sensitivity db =
     (if staged_key r \<in> ksource_key ` set (kd_sources db) then Inr db
      else
        and_then (guard (known_origin (sg_source_origin r) \<and> staged_source_id env r \<notin> ks_source_id ` set (kd_sources db) \<and>
            sg_project_id r \<in> kp_project_id ` set (kd_projects db)) KnowledgeIntegrityError) (\<lambda>_.
        Inr (db\<lparr>kd_sources := kd_sources db @ [\<lparr>ks_source_id = staged_source_id env r, ks_project_id = sg_project_id r,
          ks_owner_id = sg_owner_id r, ks_source_uri = sg_source_uri r, ks_source_kind = sg_source_kind r,
          ks_source_origin = sg_source_origin r, ks_sensitivity = sensitivity, ks_approval_status = ''approved'',
          ks_status = SrcAllowed, ks_current_hash = Some (sg_source_hash r),
          ks_current_size_bytes = Some (sg_size_bytes r), ks_current_mtime_ns = Some (sg_mtime_ns r),
          ks_parser = sg_parser r, ks_parser_version = sg_parser_version r,
          ks_project_commit_sha = sg_project_commit_sha r,
          ks_renamed_from_source_id = sg_renamed_from_source_id r,
          ks_created_at = now, ks_updated_at = now, ks_last_seen_at = now\<rparr>]\<rparr>)))"

text \<open>\<open>INSERT OR IGNORE\<close>: a known version stays as it is; a missing source is a foreign-key error.\<close>

definition insert_version :: "KnowledgeEnv \<Rightarrow> int \<Rightarrow> StageRequest \<Rightarrow> string \<Rightarrow> KnowledgeDb \<Rightarrow> KnowledgeDb knowledge" where
  "insert_version env now r sensitivity db =
     (let ident = staged_version_id env r; source = staged_source_id env r in
      if list_ex (\<lambda>v. kv_version_id v = ident \<or> (kv_source_id v = source \<and> kv_source_hash v = sg_source_hash r \<and>
            kv_derivation_version v = sg_derivation_version r)) (kd_versions db) \<or> \<not> known_origin (sg_source_origin r)
      then Inr db
      else
        and_then (guard (source \<in> ks_source_id ` set (kd_sources db)) KnowledgeIntegrityError) (\<lambda>_.
        Inr (db\<lparr>kd_versions := kd_versions db @ [\<lparr>kv_version_id = ident, kv_source_id = source,
          kv_source_hash = sg_source_hash r, kv_source_origin = sg_source_origin r, kv_sensitivity = sensitivity,
          kv_size_bytes = sg_size_bytes r, kv_mtime_ns = sg_mtime_ns r, kv_parser = sg_parser r,
          kv_parser_version = sg_parser_version r, kv_derivation_version = sg_derivation_version r,
          kv_project_commit_sha = sg_project_commit_sha r,
          kv_renamed_from_source_id = sg_renamed_from_source_id r, kv_observed_at = now\<rparr>]\<rparr>)))"

definition insert_fact ::
    "KnowledgeEnv \<Rightarrow> int \<Rightarrow> string \<Rightarrow> string \<Rightarrow> ExtractedFact \<Rightarrow> KnowledgeDb \<Rightarrow> KnowledgeDb knowledge" where
  "insert_fact env now version_id fragment_id item db =
     (let value_hash = kn_sha256 env (ef_value item);
          ident = stable_id env ''fact'' [fragment_id, fact_kind_text (ef_kind item), ef_key item, value_hash]
      in and_then (guard (\<not> list_ex (\<lambda>a. ka_fact_id a = ident \<or> (ka_version_id a = version_id \<and>
             ka_fragment_id a = fragment_id \<and> ka_fact_kind a = ef_kind item \<and> ka_fact_key a = ef_key item \<and>
             ka_value_hash a = value_hash)) (kd_facts db)) KnowledgeIntegrityError) (\<lambda>_.
         Inr (db\<lparr>kd_facts := kd_facts db @ [\<lparr>ka_fact_id = ident, ka_version_id = version_id,
           ka_fragment_id = fragment_id, ka_fact_kind = ef_kind item, ka_fact_key = ef_key item,
           ka_fact_value = ef_value item, ka_value_hash = value_hash,
           ka_extraction_method = ef_extraction_method item, ka_status = FactCandidate, ka_created_at = now\<rparr>]\<rparr>)))"

fun insert_facts ::
    "KnowledgeEnv \<Rightarrow> int \<Rightarrow> string \<Rightarrow> string \<Rightarrow> ExtractedFact list \<Rightarrow> KnowledgeDb \<Rightarrow> KnowledgeDb knowledge" where
  "insert_facts env now version_id fragment_id [] db = Inr db"
| "insert_facts env now version_id fragment_id (item # facts) db =
     and_then (insert_fact env now version_id fragment_id item db) (insert_facts env now version_id fragment_id facts)"

definition insert_fragment ::
    "KnowledgeEnv \<Rightarrow> int \<Rightarrow> string \<Rightarrow> string \<Rightarrow> ParsedFragment \<Rightarrow> KnowledgeDb \<Rightarrow> (string \<times> KnowledgeDb) knowledge" where
  "insert_fragment env now version_id source_uri fragment db =
     (let content_hash = kn_sha256 env (pf_content fragment);
          ident = stable_id env ''fragment'' [version_id,
            (if pf_ordinal fragment < 0 then ''-'' else []) @ show_nat (nat \<bar>pf_ordinal fragment\<bar>), content_hash];
          title = (case pf_title fragment of None \<Rightarrow> [] | Some t \<Rightarrow> t)
      in and_then (guard (\<not> list_ex (\<lambda>f. kf_fragment_id f = ident \<or>
             (kf_version_id f = version_id \<and> kf_ordinal f = pf_ordinal fragment)) (kd_fragments db) \<and>
             version_id \<in> kv_version_id ` set (kd_versions db)) KnowledgeIntegrityError) (\<lambda>_.
         Inr (ident, db\<lparr>kd_fragments := kd_fragments db @ [\<lparr>kf_fragment_id = ident, kf_version_id = version_id,
             kf_ordinal = pf_ordinal fragment, kf_locator = pf_locator fragment, kf_start_line = pf_start_line fragment,
             kf_end_line = pf_end_line fragment, kf_title = pf_title fragment, kf_content = pf_content fragment,
             kf_content_hash = content_hash, kf_extraction_method = pf_extraction_method fragment,
             kf_conflict_flag = False, kf_created_at = now\<rparr>],
           kd_index := kd_index db @ [\<lparr>kx_fragment_id = ident, kx_title = py_strip (source_uri @ '' '' @ title),
             kx_content = pf_content fragment\<rparr>]\<rparr>)))"

fun insert_fragments ::
    "KnowledgeEnv \<Rightarrow> int \<Rightarrow> string \<Rightarrow> string \<Rightarrow> (ParsedFragment \<times> ExtractedFact list) list \<Rightarrow> KnowledgeDb \<Rightarrow>
     KnowledgeDb knowledge" where
  "insert_fragments env now version_id source_uri [] db = Inr db"
| "insert_fragments env now version_id source_uri ((fragment, facts) # rest) db =
     and_then (insert_fragment env now version_id source_uri fragment db) (\<lambda>(ident, db1).
     and_then (insert_facts env now version_id ident facts db1)
       (insert_fragments env now version_id source_uri rest))"

text \<open>The member row, inserted or updated in place.\<close>

definition staged_member :: "KnowledgeEnv \<Rightarrow> int \<Rightarrow> StageRequest \<Rightarrow> string \<Rightarrow> KMember" where
  "staged_member env now r sensitivity =
     \<lparr>km_generation_id = sg_generation_id r, km_source_id = staged_source_id env r,
      km_version_id = staged_version_id env r, km_source_origin = sg_source_origin r,
      km_sensitivity = sensitivity, km_size_bytes = sg_size_bytes r, km_mtime_ns = sg_mtime_ns r,
      km_project_commit_sha = sg_project_commit_sha r, km_worktree_revision = sg_worktree_revision r,
      km_derivation_version = sg_derivation_version r, km_policy_version = sg_policy_version r,
      km_renamed_from_source_id = sg_renamed_from_source_id r, km_observed_at = now\<rparr>"

definition put_member :: "KMember \<Rightarrow> KnowledgeDb \<Rightarrow> KnowledgeDb knowledge" where
  "put_member member db =
     (let same = (\<lambda>m. km_generation_id m = km_generation_id member \<and> km_source_id m = km_source_id member) in
      and_then (guard (known_origin (km_source_origin member) \<and> km_sensitivity member \<in> set sensitivity_levels \<and>
          km_generation_id member \<in> kg_generation_id ` set (kd_generations db) \<and>
          km_source_id member \<in> ks_source_id ` set (kd_sources db) \<and>
          km_version_id member \<in> kv_version_id ` set (kd_versions db)) KnowledgeIntegrityError) (\<lambda>_.
      Inr (if list_ex same (kd_members db)
        then db\<lparr>kd_members := map (\<lambda>m. if same m then member else m) (kd_members db)\<rparr>
        else db\<lparr>kd_members := kd_members db @ [member]\<rparr>)))"

definition generation_of :: "string \<Rightarrow> string \<Rightarrow> KnowledgeDb \<Rightarrow> KGeneration option" where
  "generation_of generation_id project_id db =
     find (\<lambda>g. kg_generation_id g = generation_id \<and> kg_project_id g = project_id) (kd_generations db)"

definition effective_sensitivity :: "StageRequest \<Rightarrow> KnowledgeDb \<Rightarrow> string knowledge" where
  "effective_sensitivity r db =
     (case find (\<lambda>s. ksource_key s = staged_key r) (kd_sources db) of
        None \<Rightarrow> Inr (sg_sensitivity r)
      | Some s \<Rightarrow> max_sensitivity (ks_sensitivity s) (sg_sensitivity r))"

definition stage_source_version :: "KnowledgeEnv \<Rightarrow> int \<Rightarrow> StageRequest \<Rightarrow> KnowledgeDb \<Rightarrow> KnowledgeDb knowledge" where
  "stage_source_version env now r db =
     and_then (guard (case generation_of (sg_generation_id r) (sg_project_id r) db of
         None \<Rightarrow> False | Some g \<Rightarrow> kg_status g = GenBuilding)
       (KnowledgeStoreError ''generation is not buildable'')) (\<lambda>_.
     and_then (effective_sensitivity r db) (\<lambda>sensitivity.
     and_then (insert_source env now r sensitivity db) (\<lambda>db1.
     and_then (insert_version env now r sensitivity db1) (\<lambda>db2.
     and_then (if staged_version_id env r \<in> kf_version_id ` set (kd_fragments db2) then Inr db2
       else insert_fragments env now (staged_version_id env r) (sg_source_uri r) (sg_fragments r) db2) (\<lambda>db3.
     put_member (staged_member env now r sensitivity) db3)))))"

section \<open>Conflicts\<close>

definition facts_of :: "string \<Rightarrow> KnowledgeDb \<Rightarrow> KFact list" where
  "facts_of generation_id db =
     filter (\<lambda>a. ka_version_id a \<in> km_version_id ` set (members_of generation_id db)) (kd_facts db)"

definition facts_with_key :: "string \<Rightarrow> string \<Rightarrow> KnowledgeDb \<Rightarrow> KFact list" where
  "facts_with_key generation_id key db = filter (\<lambda>a. ka_fact_key a = key) (facts_of generation_id db)"

text \<open>\<open>GROUP BY fact_key HAVING count(DISTINCT value_hash) > 1\<close>.\<close>

definition contested_keys :: "string \<Rightarrow> KnowledgeDb \<Rightarrow> string list" where
  "contested_keys generation_id db =
     filter (\<lambda>key. 1 < length (dedup (map ka_value_hash (facts_with_key generation_id key db))))
       (sort (dedup (map ka_fact_key (facts_of generation_id db))))"

definition reset_conflicts :: "string \<Rightarrow> KnowledgeDb \<Rightarrow> KnowledgeDb" where
  "reset_conflicts generation_id db =
     (let ids = km_version_id ` set (members_of generation_id db) in
      db\<lparr>kd_conflicts := filter (\<lambda>c. kc_generation_id c \<noteq> generation_id) (kd_conflicts db),
         kd_facts := map (\<lambda>a. if ka_version_id a \<in> ids then a\<lparr>ka_status := FactCandidate\<rparr> else a) (kd_facts db),
         kd_fragments := map (\<lambda>f. if kf_version_id f \<in> ids then f\<lparr>kf_conflict_flag := False\<rparr> else f) (kd_fragments db)\<rparr>)"

definition record_conflict ::
    "KnowledgeEnv \<Rightarrow> int \<Rightarrow> string \<Rightarrow> string \<Rightarrow> string \<Rightarrow> KnowledgeDb \<Rightarrow> KnowledgeDb knowledge" where
  "record_conflict env now generation_id project_id key db =
     (let facts = facts_with_key generation_id key db;
          ids = sort (map ka_fact_id facts);
          ident = stable_id env ''conflict'' [generation_id, key]
      in and_then (guard (ident \<notin> kc_conflict_id ` set (kd_conflicts db)) KnowledgeIntegrityError) (\<lambda>_.
         Inr (db\<lparr>kd_facts := map (\<lambda>a. if ka_fact_id a \<in> set ids then a\<lparr>ka_status := FactConflicted\<rparr> else a) (kd_facts db),
           kd_fragments := map (\<lambda>f. if kf_fragment_id f \<in> ka_fragment_id ` set facts then f\<lparr>kf_conflict_flag := True\<rparr> else f)
             (kd_fragments db),
           kd_conflicts := kd_conflicts db @ [\<lparr>kc_conflict_id = ident, kc_generation_id = generation_id,
             kc_project_id = project_id, kc_fact_key = key, kc_fact_ids = ids, kc_detected_at = now\<rparr>]\<rparr>)))"

fun record_conflicts ::
    "KnowledgeEnv \<Rightarrow> int \<Rightarrow> string \<Rightarrow> string \<Rightarrow> string list \<Rightarrow> KnowledgeDb \<Rightarrow> KnowledgeDb knowledge" where
  "record_conflicts env now generation_id project_id [] db = Inr db"
| "record_conflicts env now generation_id project_id (key # keys) db =
     and_then (record_conflict env now generation_id project_id key db)
       (record_conflicts env now generation_id project_id keys)"

definition recompute_conflicts :: "KnowledgeEnv \<Rightarrow> int \<Rightarrow> string \<Rightarrow> string \<Rightarrow> KnowledgeDb \<Rightarrow> KnowledgeDb knowledge" where
  "recompute_conflicts env now generation_id project_id db =
     (let db1 = reset_conflicts generation_id db in
      record_conflicts env now generation_id project_id (contested_keys generation_id db1) db1)"

end
