(* ===== verification/KnowledgePublish.thy ===== *)
theory KnowledgePublish
  imports KnowledgeStore
begin

text \<open>
  Publishing and removing knowledge, \<open>services/knowledge/store.py\<close>: activation of a generation, failed
  and abandoned builds, repository maps, the purge of a source, and the steps a store can take.
\<close>

section \<open>Activation\<close>

definition set_status :: "string \<Rightarrow> GenerationStatus \<Rightarrow> int option \<Rightarrow> KnowledgeDb \<Rightarrow> KnowledgeDb" where
  "set_status generation_id status completed db =
     db\<lparr>kd_generations := map (\<lambda>g. if kg_generation_id g = generation_id
        then g\<lparr>kg_status := status, kg_completed_at := (case completed of None \<Rightarrow> kg_completed_at g | Some t \<Rightarrow> Some t)\<rparr>
        else g) (kd_generations db)\<rparr>"

definition joined_sensitivity :: "string \<Rightarrow> string option \<Rightarrow> string" where
  "joined_sensitivity left right =
     (if left = ''sensitive'' \<or> right = Some ''sensitive'' then ''sensitive''
      else if left = ''internal'' \<or> right = Some ''internal'' then ''internal'' else ''public'')"

text \<open>The row of a published source; its member and version exist by the foreign keys.\<close>

definition published_source :: "int \<Rightarrow> string \<Rightarrow> KnowledgeDb \<Rightarrow> KSource \<Rightarrow> KSource" where
  "published_source now generation_id db s =
     (case find (\<lambda>m. km_source_id m = ks_source_id s) (members_of generation_id db) of
        None \<Rightarrow> s\<lparr>ks_status := SrcStale, ks_updated_at := now\<rparr>
      | Some m \<Rightarrow>
          let version = select kv_version_id (km_version_id m) (kd_versions db) in
          s\<lparr>ks_status := SrcImported, ks_updated_at := now,
            ks_current_hash := map_option kv_source_hash version,
            ks_current_size_bytes := Some (km_size_bytes m), ks_current_mtime_ns := Some (km_mtime_ns m),
            ks_parser := (case version of None \<Rightarrow> ks_parser s | Some v \<Rightarrow> kv_parser v),
            ks_parser_version := (case version of None \<Rightarrow> ks_parser_version s | Some v \<Rightarrow> kv_parser_version v),
            ks_project_commit_sha := km_project_commit_sha m,
            ks_sensitivity := joined_sensitivity (ks_sensitivity s) (Some (km_sensitivity m)),
            ks_renamed_from_source_id := km_renamed_from_source_id m, ks_last_seen_at := now\<rparr>)"

text \<open>Every source of the project becomes stale, then those of the generation are imported.\<close>

definition publish_sources :: "int \<Rightarrow> string \<Rightarrow> string \<Rightarrow> KnowledgeDb \<Rightarrow> KnowledgeDb" where
  "publish_sources now project_id generation_id db =
     db\<lparr>kd_sources := map (\<lambda>s. if ks_project_id s = project_id \<or>
          ks_source_id s \<in> km_source_id ` set (members_of generation_id db)
        then published_source now generation_id db s else s) (kd_sources db)\<rparr>"

definition activate_generation :: "KnowledgeEnv \<Rightarrow> int \<Rightarrow> string \<Rightarrow> string \<Rightarrow> KnowledgeDb \<Rightarrow> KnowledgeDb knowledge" where
  "activate_generation env now project_id generation_id db =
     and_then (or_fail (KnowledgeStoreError ''generation cannot be activated'') (generation_of generation_id project_id db)) (\<lambda>generation.
     and_then (guard (kg_status generation = GenBuilding) (KnowledgeStoreError ''generation cannot be activated'')) (\<lambda>_.
     and_then (or_fail KnowledgeIntegrityError (project_of project_id db)) (\<lambda>project.
     and_then (guard (kp_active_generation_id project = kg_base_generation_id generation)
       (KnowledgeStoreError ''active generation changed during build'')) (\<lambda>_.
     and_then (guard (kp_mutation_epoch project = kg_base_mutation_epoch generation)
       (KnowledgeStoreError ''project mutation epoch changed during build'')) (\<lambda>_.
     and_then (recompute_conflicts env now generation_id project_id db) (\<lambda>db1.
     let db2 = (case kp_active_generation_id project of
           None \<Rightarrow> db1 | Some previous \<Rightarrow> if previous = [] then db1 else set_status previous GenSuperseded None db1);
         db3 = set_status generation_id GenActive (Some now) db2;
         db4 = db3\<lparr>kd_projects := map (\<lambda>p. if kp_project_id p = project_id
           then p\<lparr>kp_active_generation_id := Some generation_id, kp_updated_at := now\<rparr> else p) (kd_projects db3)\<rparr>
     in Inr (publish_sources now project_id generation_id db4)))))))"

section \<open>Failed builds\<close>

definition unfinished :: "KGeneration \<Rightarrow> bool" where
  "unfinished g \<longleftrightarrow> kg_status g \<in> {GenBuilding, GenFailed}"

definition disposable_versions :: "string \<Rightarrow> KnowledgeDb \<Rightarrow> string list" where
  "disposable_versions generation_id db =
     filter (\<lambda>v. \<not> list_ex (\<lambda>m. km_version_id m = v \<and> km_generation_id m \<noteq> generation_id) (kd_members db))
       (dedup (map km_version_id (members_of generation_id db)))"

definition delete_unversioned :: "string \<Rightarrow> KnowledgeDb \<Rightarrow> KnowledgeDb" where
  "delete_unversioned project_id db =
     delete_sources (\<lambda>s. ks_project_id s = project_id \<and> ks_source_id s \<notin> kv_source_id ` set (kd_versions db)) db"

definition fail_generation :: "int \<Rightarrow> string \<Rightarrow> string \<Rightarrow> KnowledgeDb \<Rightarrow> KnowledgeDb" where
  "fail_generation now generation_id reason db =
     (case find (\<lambda>g. kg_generation_id g = generation_id \<and> unfinished g \<and> project_of (kg_project_id g) db \<noteq> None)
         (kd_generations db) of
        None \<Rightarrow> db
      | Some g \<Rightarrow>
          let versions = set (disposable_versions generation_id db);
              fragments = kf_fragment_id ` set (filter (\<lambda>f. kf_version_id f \<in> versions) (kd_fragments db));
              db1 = delete_generations (\<lambda>x. kg_generation_id x = generation_id) (unindex fragments db);
              db2 = delete_versions (\<lambda>v. kv_version_id v \<in> versions) db1;
              db3 = delete_unversioned (kg_project_id g) db2;
              owner = (case project_of (kg_project_id g) db of None \<Rightarrow> [] | Some p \<Rightarrow> kp_owner_id p)
          in audit_knowledge now owner (Some (kg_project_id g)) None ''build'' ''failed'' (Some reason) db3)"

definition abandoned :: "int \<Rightarrow> KGeneration \<Rightarrow> bool" where
  "abandoned cutoff g \<longleftrightarrow> kg_status g = GenFailed \<or> (kg_status g = GenBuilding \<and> kg_started_at g < cutoff)"

definition recover_abandoned_generations :: "int \<Rightarrow> int \<Rightarrow> KnowledgeDb \<Rightarrow> KnowledgeDb" where
  "recover_abandoned_generations now older_than_us db =
     fold (\<lambda>g. fail_generation now (kg_generation_id g) ''build.abandoned'')
       (sort_key kg_started_at (filter (abandoned (now - older_than_us)) (kd_generations db))) db"

section \<open>Repository maps\<close>

definition save_repository_map ::
    "KnowledgeEnv \<Rightarrow> int \<Rightarrow> string \<Rightarrow> string \<Rightarrow> string \<Rightarrow> KnowledgeDb \<Rightarrow> KnowledgeDb knowledge" where
  "save_repository_map env now generation_id project_id payload db =
     (let row = \<lparr>kr_generation_id = generation_id, kr_project_id = project_id, kr_map_json = payload,
            kr_map_hash = kn_sha256 env payload, kr_created_at = now\<rparr>
      in and_then (guard (generation_id \<in> kg_generation_id ` set (kd_generations db) \<and>
           project_id \<in> kp_project_id ` set (kd_projects db)) KnowledgeIntegrityError) (\<lambda>_.
         Inr (if generation_id \<in> kr_generation_id ` set (kd_maps db)
           then db\<lparr>kd_maps := map (\<lambda>r. if kr_generation_id r = generation_id then row else r) (kd_maps db)\<rparr>
           else db\<lparr>kd_maps := kd_maps db @ [row]\<rparr>)))"

definition repository_map :: "string \<Rightarrow> string \<Rightarrow> KnowledgeDb \<Rightarrow> string option" where
  "repository_map owner path db =
     (case project_at owner path db of
        None \<Rightarrow> None
      | Some p \<Rightarrow>
          (case kp_active_generation_id p of
             None \<Rightarrow> None
           | Some g \<Rightarrow> map_option kr_map_json (select kr_generation_id g (kd_maps db))))"

section \<open>Purging a source\<close>

definition versions_of :: "string \<Rightarrow> KnowledgeDb \<Rightarrow> string set" where
  "versions_of source_id db = kv_version_id ` set (filter (\<lambda>v. kv_source_id v = source_id) (kd_versions db))"

definition purge_counts :: "string \<Rightarrow> KnowledgeDb \<Rightarrow> nat \<times> nat \<times> nat" where
  "purge_counts source_id db =
     (length (filter (\<lambda>v. kv_source_id v = source_id) (kd_versions db)),
      length (filter (\<lambda>f. kf_version_id f \<in> versions_of source_id db) (kd_fragments db)),
      length (filter (\<lambda>a. ka_version_id a \<in> versions_of source_id db) (kd_facts db)))"

text \<open>The epoch moves on and every build of the project fails.\<close>

definition interrupt_builds :: "int \<Rightarrow> string \<Rightarrow> KnowledgeDb \<Rightarrow> KnowledgeDb" where
  "interrupt_builds now project_id db =
     db\<lparr>kd_projects := map (\<lambda>p. if kp_project_id p = project_id
          then p\<lparr>kp_mutation_epoch := kp_mutation_epoch p + 1, kp_updated_at := now\<rparr> else p) (kd_projects db),
        kd_generations := map (\<lambda>g. if kg_project_id g = project_id \<and> kg_status g = GenBuilding
          then g\<lparr>kg_status := GenFailed, kg_completed_at := Some now\<rparr> else g) (kd_generations db)\<rparr>"

definition forget_map :: "string \<Rightarrow> KnowledgeDb \<Rightarrow> KnowledgeDb" where
  "forget_map generation_id db =
     db\<lparr>kd_maps := filter (\<lambda>r. kr_generation_id r \<noteq> generation_id) (kd_maps db),
        kd_generations := map (\<lambda>g. if kg_generation_id g = generation_id then g\<lparr>kg_worktree_revision := None\<rparr> else g)
          (kd_generations db)\<rparr>"

fun recompute_all ::
    "KnowledgeEnv \<Rightarrow> int \<Rightarrow> KSource \<Rightarrow> string list \<Rightarrow> KnowledgeDb \<Rightarrow> KnowledgeDb knowledge" where
  "recompute_all env now s [] db = Inr db"
| "recompute_all env now s (generation_id # rest) db =
     and_then (recompute_conflicts env now generation_id (ks_project_id s)
         (if ks_source_origin s = ''repository'' then forget_map generation_id db else db))
       (recompute_all env now s rest)"

definition owned_source :: "string \<Rightarrow> string \<Rightarrow> KnowledgeDb \<Rightarrow> KSource option" where
  "owned_source source_id owner db =
     find (\<lambda>s. ks_source_id s = source_id \<and> ks_owner_id s = owner \<and> project_of (ks_project_id s) db \<noteq> None) (kd_sources db)"

text \<open>The rows of the source, those of its versions and fragments, and their index entries.\<close>

definition remove_source :: "string \<Rightarrow> KnowledgeDb \<Rightarrow> KnowledgeDb" where
  "remove_source source_id db =
     (let fragments = kf_fragment_id ` set (filter (\<lambda>f. kf_version_id f \<in> versions_of source_id db) (kd_fragments db)) in
      delete_sources (\<lambda>x. ks_source_id x = source_id) (unindex fragments db))"

definition generations_with :: "string \<Rightarrow> KnowledgeDb \<Rightarrow> string list" where
  "generations_with source_id db =
     dedup (map km_generation_id (filter (\<lambda>m. km_source_id m = source_id) (kd_members db)))"

definition purge_logically :: "KnowledgeEnv \<Rightarrow> int \<Rightarrow> KSource \<Rightarrow> KnowledgeDb \<Rightarrow> KnowledgeDb knowledge" where
  "purge_logically env now s db =
     (let source_id = ks_source_id s; db1 = interrupt_builds now (ks_project_id s) db
      in and_then (recompute_all env now s (generations_with source_id db1) (remove_source source_id db1)) (\<lambda>db2.
         Inr (audit_knowledge now (ks_owner_id s) (Some (ks_project_id s)) (Some source_id)
           ''purge_source'' ''logical_complete'' None db2)))"

text \<open>
  \<open>checkpoint\<close> says whether the write-ahead log could be truncated before, \<open>physical\<close> whether the
  compaction afterwards succeeded; without \<open>apply\<close> nothing changes.
\<close>

definition purge_source ::
    "KnowledgeEnv \<Rightarrow> int \<Rightarrow> bool \<Rightarrow> bool \<Rightarrow> string \<Rightarrow> string \<Rightarrow> string \<Rightarrow> bool \<Rightarrow> KnowledgeDb \<Rightarrow> KnowledgeDb knowledge" where
  "purge_source env now checkpoint physical source_id owner path apply_purge db =
     and_then (or_fail (KnowledgeStoreError ''source not found'') (owned_source source_id owner db)) (\<lambda>s.
     and_then (or_fail (KnowledgeStoreError ''source not found'') (project_of (ks_project_id s) db)) (\<lambda>p.
     and_then (guard (kn_normal_path env (kp_canonical_path p) = kn_normal_path env (kn_expanduser env path))
       (KnowledgeStoreError ''source not found'')) (\<lambda>_.
     if \<not> apply_purge then Inr db
     else
       and_then (guard checkpoint (KnowledgeStoreError ''purge blocked by active database reader'')) (\<lambda>_.
       and_then (purge_logically env now s db) (\<lambda>purged.
       Inr (audit_knowledge now (ks_owner_id s) (Some (ks_project_id s)) (Some source_id) ''purge_compact''
         (if physical then ''physical_complete'' else ''deferred'')
         (if physical then None else Some ''purge.physical_deferred'') purged))))))"

section \<open>Steps\<close>

datatype KnowledgeOp =
    EnsureProject int string string
  | BeginGeneration int string string BuildRequest
  | DropRepositorySources string
  | StageSource int StageRequest
  | ActivateGeneration int string string
  | FailGeneration int string string
  | RecoverAbandoned int int
  | SaveMap int string string string
  | PurgeSource int bool bool string string string bool

fun apply_knowledge_op :: "KnowledgeEnv \<Rightarrow> KnowledgeOp \<Rightarrow> KnowledgeDb \<Rightarrow> KnowledgeDb knowledge" where
  "apply_knowledge_op env (EnsureProject now owner path) db = and_then (ensure_project env now owner path db) (\<lambda>r. Inr (snd r))"
| "apply_knowledge_op env (BeginGeneration now uuid project_id b) db = begin_generation now uuid project_id b db"
| "apply_knowledge_op env (DropRepositorySources g) db = Inr (drop_repository_sources g db)"
| "apply_knowledge_op env (StageSource now r) db = stage_source_version env now r db"
| "apply_knowledge_op env (ActivateGeneration now project_id g) db = activate_generation env now project_id g db"
| "apply_knowledge_op env (FailGeneration now g reason) db = Inr (fail_generation now g reason db)"
| "apply_knowledge_op env (RecoverAbandoned now older) db = Inr (recover_abandoned_generations now older db)"
| "apply_knowledge_op env (SaveMap now g project_id payload) db = save_repository_map env now g project_id payload db"
| "apply_knowledge_op env (PurgeSource now checkpoint physical source_id owner path apply_purge) db =
     purge_source env now checkpoint physical source_id owner path apply_purge db"

text \<open>A failed operation rolls back.\<close>

definition knowledge_step :: "KnowledgeEnv \<Rightarrow> KnowledgeOp \<Rightarrow> KnowledgeDb \<Rightarrow> KnowledgeDb" where
  "knowledge_step env op db = (case apply_knowledge_op env op db of Inl e \<Rightarrow> db | Inr db' \<Rightarrow> db')"

fun run_knowledge :: "KnowledgeEnv \<Rightarrow> KnowledgeOp list \<Rightarrow> KnowledgeDb \<Rightarrow> KnowledgeDb" where
  "run_knowledge env [] db = db"
| "run_knowledge env (op # ops) db = run_knowledge env ops (knowledge_step env op db)"

end
