(* ===== verification/KnowledgeRetrieval.thy ===== *)
theory KnowledgeRetrieval
  imports KnowledgePublish Complex_Main "HOL-Library.Sublist"
begin

text \<open>
  Retrieval from the knowledge store, \<open>KnowledgeStore.retrieve\<close>: the search terms of a query, the rows
  the SQL query yields (observations of the published generations, joined to sources, versions,
  fragments and the full-text index, at most three per source), and the loop that selects fragments
  within the token budget. The full-text engine is the record \<open>KnowledgeSearch\<close>.
\<close>

section \<open>Requests and results\<close>

datatype FreshnessRequirement = ActiveOnly | IncludeStale

record RetrievalRequest =
  rr_owner_id :: string
  rr_project_path :: string
  rr_query :: string
  rr_allowed_source_types :: "string list option"
  rr_token_budget :: int
  rr_max_fragments :: int
  rr_freshness :: FreshnessRequirement

record Provenance =
  pv_generation_id :: string
  pv_source_id :: string
  pv_source_uri :: string
  pv_source_origin :: string
  pv_source_hash :: string
  pv_source_size_bytes :: int
  pv_source_mtime_ns :: int
  pv_fragment_locator :: string
  pv_start_line :: "int option"
  pv_end_line :: "int option"
  pv_parser :: string
  pv_parser_version :: string
  pv_derivation_version :: string
  pv_policy_version :: string
  pv_extraction_method :: string
  pv_observed_at :: int
  pv_project_commit_sha :: "string option"
  pv_worktree_revision :: "string option"
  pv_sensitivity :: string
  pv_stale :: bool

record RetrievedFragment =
  rf_fragment_id :: string
  rf_source_kind :: string
  rf_content :: string
  rf_title :: "string option"
  rf_provenance :: Provenance
  rf_score :: rat
  rf_matched :: "string list"
  rf_estimated_tokens :: int
  rf_stale :: bool
  rf_conflict :: bool

record RetrievalResult =
  rs_project_path :: string
  rs_query :: string
  rs_token_budget :: int
  rs_estimated_tokens :: int
  rs_fragments :: "RetrievedFragment list"
  rs_next_offset :: "int option"

datatype RetrievalError = StoreFailed KnowledgeError | PathMissing | ContractFailed

section \<open>Queries\<close>

text \<open>\<open>re.findall\<close> of runs of 2 to 64 letters and digits: a longer run is cut every 64.\<close>

function query_tokens :: "string \<Rightarrow> string list" where
  "query_tokens [] = []"
| "query_tokens (c # s) =
     (if token_char c then
        let run = take 64 (takeWhile token_char (c # s)) in
        if 2 \<le> length run then run # query_tokens (drop (length run) (c # s)) else query_tokens s
      else query_tokens s)"
  by pat_completeness auto

termination
  by (relation "measure length") (auto simp: Let_def)

fun collect_terms :: "string list \<Rightarrow> string list \<Rightarrow> string list" where
  "collect_terms terms [] = terms"
| "collect_terms terms (token # tokens) =
     (let terms' = (if token \<in> set terms then terms else terms @ [token]) in
      if 16 \<le> length terms' then terms' else collect_terms terms' tokens)"

definition query_terms :: "string \<Rightarrow> (string list) knowledge" where
  "query_terms query =
     (let terms = collect_terms [] (query_tokens (casefold query)) in
      and_then (guard (terms \<noteq> []) (KnowledgeStoreError ''retrieval query has no searchable terms'')) (\<lambda>_. Inr terms))"

text \<open>A bound of \<open>len / 2\<close> and bytes / 3, rounded up, and 64 for the frame.\<close>

definition estimated_tokens :: "string \<Rightarrow> int" where
  "estimated_tokens content = max 1 (max ((int (length content) + 1) div 2) ((int (utf8_length content) + 2) div 3) + 64)"

section \<open>Rows\<close>

text \<open>Full-text search: whether an indexed row matches one of the terms, and its BM25 rank.\<close>

record KnowledgeSearch =
  fts_match :: "string list \<Rightarrow> KIndexed \<Rightarrow> bool"
  fts_rank :: "string list \<Rightarrow> KIndexed list \<Rightarrow> KIndexed \<Rightarrow> rat"
  fs_resolve :: "string \<Rightarrow> string option"

record Observation =
  ob_member :: KMember
  ob_generation :: KGeneration
  ob_active :: bool

definition published_observations :: "KProject \<Rightarrow> KnowledgeDb \<Rightarrow> Observation list" where
  "published_observations p db =
     concat (map (\<lambda>m.
       map (\<lambda>g. \<lparr>ob_member = m, ob_generation = g, ob_active = (kp_active_generation_id p = Some (km_generation_id m))\<rparr>)
         (filter (\<lambda>g. kg_generation_id g = km_generation_id m \<and> kg_project_id g = kp_project_id p \<and>
            kg_status g \<in> {GenActive, GenSuperseded}) (kd_generations db))) (kd_members db))"

definition observation_time :: "Observation \<Rightarrow> int" where
  "observation_time ob = (case kg_completed_at (ob_generation ob) of Some t \<Rightarrow> t | None \<Rightarrow> kg_started_at (ob_generation ob))"

text \<open>The order of \<open>ROW_NUMBER\<close>: the active generation first, then the latest, then the larger name.\<close>

definition preferred :: "Observation \<Rightarrow> Observation \<Rightarrow> bool" where
  "preferred a b \<longleftrightarrow>
     (if ob_active a \<noteq> ob_active b then ob_active a
      else if observation_time a \<noteq> observation_time b then observation_time b < observation_time a
      else kg_generation_id (ob_generation b) < kg_generation_id (ob_generation a))"

definition same_version :: "Observation \<Rightarrow> Observation \<Rightarrow> bool" where
  "same_version a b \<longleftrightarrow> km_source_id (ob_member a) = km_source_id (ob_member b) \<and>
     km_version_id (ob_member a) = km_version_id (ob_member b)"

definition first_observations :: "Observation list \<Rightarrow> Observation list" where
  "first_observations obs = filter (\<lambda>a. \<not> list_ex (\<lambda>b. same_version b a \<and> preferred b a) obs) obs"

record SearchRow =
  sr_source :: KSource
  sr_version :: KVersion
  sr_observation :: Observation
  sr_fragment :: KFragment
  sr_conflict :: bool
  sr_rank :: rat

definition observation_conflict :: "KnowledgeDb \<Rightarrow> string \<Rightarrow> string \<Rightarrow> bool" where
  "observation_conflict db generation_id fragment_id \<longleftrightarrow>
     list_ex (\<lambda>c. kc_generation_id c = generation_id \<and>
       list_ex (\<lambda>a. ka_fact_id a \<in> set (kc_fact_ids c) \<and> ka_fragment_id a = fragment_id) (kd_facts db)) (kd_conflicts db)"

text \<open>The fragments of one observed version that the index matches.\<close>

definition rows_of_observation ::
    "KnowledgeSearch \<Rightarrow> string list \<Rightarrow> KnowledgeDb \<Rightarrow> KSource \<Rightarrow> KVersion \<Rightarrow> Observation \<Rightarrow> SearchRow list" where
  "rows_of_observation fts terms db s v ob =
     concat (map (\<lambda>f. map (\<lambda>x. \<lparr>sr_source = s, sr_version = v, sr_observation = ob, sr_fragment = f,
           sr_conflict = observation_conflict db (km_generation_id (ob_member ob)) (kf_fragment_id f),
           sr_rank = fts_rank fts terms (kd_index db) x\<rparr>)
         (filter (\<lambda>x. kx_fragment_id x = kf_fragment_id f \<and> fts_match fts terms x) (kd_index db)))
       (filter (\<lambda>f. kf_version_id f = kv_version_id v) (kd_fragments db)))"

definition kind_allowed :: "string list option \<Rightarrow> string \<Rightarrow> bool" where
  "kind_allowed allowed kind \<longleftrightarrow> (case allowed of None \<Rightarrow> True | Some kinds \<Rightarrow> kind \<in> set kinds)"

definition match_rows ::
    "KnowledgeSearch \<Rightarrow> string list \<Rightarrow> FreshnessRequirement \<Rightarrow> string list option \<Rightarrow> KProject \<Rightarrow> KnowledgeDb \<Rightarrow> SearchRow list" where
  "match_rows fts terms freshness allowed p db =
     concat (map (\<lambda>s. concat (map (\<lambda>v. concat (map (rows_of_observation fts terms db s v)
           (filter (\<lambda>ob. km_source_id (ob_member ob) = ks_source_id s \<and> km_version_id (ob_member ob) = kv_version_id v \<and>
              (freshness = IncludeStale \<or> ob_active ob)) (first_observations (published_observations p db)))))
         (filter (\<lambda>v. kv_source_id v = ks_source_id s) (kd_versions db))))
       (filter (\<lambda>s. ks_project_id s = kp_project_id p \<and> kind_allowed allowed (ks_source_kind s)) (kd_sources db)))"

text \<open>\<open>source_rank <= 3\<close>: the three best rows of each source.\<close>

fun best_of_source :: "nat \<Rightarrow> (string \<Rightarrow> nat) \<Rightarrow> SearchRow list \<Rightarrow> SearchRow list" where
  "best_of_source limit seen [] = []"
| "best_of_source limit seen (r # rows) =
     (let key = ks_source_id (sr_source r) in
      if seen key < limit then r # best_of_source limit (seen(key := seen key + 1)) rows
      else best_of_source limit seen rows)"

definition balanced_rows :: "SearchRow list \<Rightarrow> SearchRow list" where
  "balanced_rows rows =
     best_of_source 3 (\<lambda>_. 0) (sort_key sr_rank (sort_key (\<lambda>r. kf_ordinal (sr_fragment r)) rows))"

definition ordered_rows :: "SearchRow list \<Rightarrow> SearchRow list" where
  "ordered_rows rows =
     sort_key (\<lambda>r. \<not> ob_active (sr_observation r))
       (sort_key sr_rank (sort_key (\<lambda>r. ks_source_uri (sr_source r)) (sort_key (\<lambda>r. kf_ordinal (sr_fragment r)) rows)))"

definition search_rows :: "KnowledgeSearch \<Rightarrow> string list \<Rightarrow> RetrievalRequest \<Rightarrow> string \<Rightarrow> KnowledgeDb \<Rightarrow> SearchRow list" where
  "search_rows fts terms r canonical db =
     (case project_at (rr_owner_id r) canonical db of
        None \<Rightarrow> []
      | Some p \<Rightarrow> ordered_rows (balanced_rows
          (match_rows fts terms (rr_freshness r) (rr_allowed_source_types r) p db)))"

section \<open>Selection\<close>

definition matched_terms :: "string list \<Rightarrow> string \<Rightarrow> string list" where
  "matched_terms terms content = filter (\<lambda>t. sublist t (casefold content)) terms"

definition fragment_score :: "rat \<Rightarrow> nat \<Rightarrow> rat" where
  "fragment_score rank hits = min 1 (max 0 (55 / 100 + min (4 / 10) (\<bar>rank\<bar> * 1000) + min (5 / 100) (of_nat hits / 100)))"

definition provenance_of :: "SearchRow \<Rightarrow> Provenance" where
  "provenance_of r =
     (let s = sr_source r; v = sr_version r; m = ob_member (sr_observation r); f = sr_fragment r in
      \<lparr>pv_generation_id = km_generation_id m, pv_source_id = ks_source_id s, pv_source_uri = ks_source_uri s,
       pv_source_origin = km_source_origin m, pv_source_hash = kv_source_hash v,
       pv_source_size_bytes = km_size_bytes m, pv_source_mtime_ns = km_mtime_ns m,
       pv_fragment_locator = kf_locator f, pv_start_line = kf_start_line f, pv_end_line = kf_end_line f,
       pv_parser = kv_parser v, pv_parser_version = kv_parser_version v,
       pv_derivation_version = km_derivation_version m, pv_policy_version = km_policy_version m,
       pv_extraction_method = kf_extraction_method f, pv_observed_at = km_observed_at m,
       pv_project_commit_sha = km_project_commit_sha m, pv_worktree_revision = km_worktree_revision m,
       pv_sensitivity = ks_sensitivity s, pv_stale = (\<not> ob_active (sr_observation r))\<rparr>)"

definition retrieved_fragment :: "string list \<Rightarrow> SearchRow \<Rightarrow> RetrievedFragment" where
  "retrieved_fragment terms r =
     (let content = kf_content (sr_fragment r); matched = matched_terms terms content in
      \<lparr>rf_fragment_id = kf_fragment_id (sr_fragment r), rf_source_kind = ks_source_kind (sr_source r),
       rf_content = py_strip content, rf_title = map_option py_strip (kf_title (sr_fragment r)),
       rf_provenance = provenance_of r, rf_score = fragment_score (sr_rank r) (length matched),
       rf_matched = take 6 matched, rf_estimated_tokens = estimated_tokens content,
       rf_stale = (\<not> ob_active (sr_observation r)), rf_conflict = sr_conflict r\<rparr>)"

text \<open>The patterns of hashes and commit identifiers.\<close>

definition hex_between :: "(char \<Rightarrow> bool) \<Rightarrow> nat \<Rightarrow> nat \<Rightarrow> string \<Rightarrow> bool" where
  "hex_between digit lo hi s \<longleftrightarrow> list_all digit s \<and> lo \<le> length s \<and> length s \<le> hi"

definition text_between :: "nat \<Rightarrow> nat \<Rightarrow> string \<Rightarrow> bool" where
  "text_between lo hi s \<longleftrightarrow> lo \<le> length (py_strip s) \<and> length (py_strip s) \<le> hi"

definition positive_line :: "int option \<Rightarrow> bool" where
  "positive_line n \<longleftrightarrow> (case n of None \<Rightarrow> True | Some k \<Rightarrow> 1 \<le> k)"

definition provenance_ok :: "Provenance \<Rightarrow> bool" where
  "provenance_ok p \<longleftrightarrow>
     text_between 1 64 (pv_generation_id p) \<and> text_between 1 64 (pv_source_id p) \<and>
     text_between 1 4096 (pv_source_uri p) \<and> pv_source_origin p \<in> {''manual'', ''repository''} \<and>
     hex_between is_lower_hex 64 64 (py_strip (pv_source_hash p)) \<and>
     0 \<le> pv_source_size_bytes p \<and> 0 \<le> pv_source_mtime_ns p \<and>
     text_between 1 1024 (pv_fragment_locator p) \<and> positive_line (pv_start_line p) \<and> positive_line (pv_end_line p) \<and>
     text_between 1 128 (pv_parser p) \<and> text_between 1 64 (pv_parser_version p) \<and>
     text_between 1 512 (pv_derivation_version p) \<and> text_between 1 128 (pv_policy_version p) \<and>
     text_between 1 128 (pv_extraction_method p) \<and>
     (case pv_project_commit_sha p of None \<Rightarrow> True | Some s \<Rightarrow> hex_between is_hex 7 64 (py_strip s)) \<and>
     (case pv_worktree_revision p of None \<Rightarrow> True | Some s \<Rightarrow> hex_between is_lower_hex 64 64 (py_strip s)) \<and>
     py_strip (pv_sensitivity p) \<in> {''public'', ''internal'', ''sensitive''}"

definition fragment_ok :: "RetrievedFragment \<Rightarrow> bool" where
  "fragment_ok f \<longleftrightarrow> 1 \<le> length (rf_content f) \<and> length (rf_content f) \<le> 16384 \<and> provenance_ok (rf_provenance f)"

text \<open>The locals of the selection loop.\<close>

record Selection =
  sel_fragments :: "RetrievedFragment list"
  sel_remaining :: int
  sel_per_source :: "string \<Rightarrow> nat"
  sel_hashes :: "string list"

text \<open>\<open>pool\<close> is \<open>candidate_pool\<close>: such a page keeps duplicates and ignores the budget.\<close>

definition skipped :: "bool \<Rightarrow> SearchRow \<Rightarrow> Selection \<Rightarrow> bool" where
  "skipped pool r sel \<longleftrightarrow>
     3 \<le> sel_per_source sel (ks_source_id (sr_source r)) \<or>
     (\<not> pool \<and> kf_content_hash (sr_fragment r) \<in> set (sel_hashes sel)) \<or>
     (\<not> pool \<and> sel_remaining sel < estimated_tokens (kf_content (sr_fragment r)))"

definition take_row :: "bool \<Rightarrow> string list \<Rightarrow> SearchRow \<Rightarrow> Selection \<Rightarrow> Selection" where
  "take_row pool terms r sel =
     (let source = ks_source_id (sr_source r) in
      \<lparr>sel_fragments = sel_fragments sel @ [retrieved_fragment terms r],
       sel_remaining = (if pool then sel_remaining sel else sel_remaining sel - estimated_tokens (kf_content (sr_fragment r))),
       sel_per_source = (sel_per_source sel)(source := sel_per_source sel source + 1),
       sel_hashes = (if pool then sel_hashes sel else sel_hashes sel @ [kf_content_hash (sr_fragment r)])\<rparr>)"

fun select_rows :: "bool \<Rightarrow> int \<Rightarrow> string list \<Rightarrow> SearchRow list \<Rightarrow> Selection \<Rightarrow> RetrievalError + Selection" where
  "select_rows pool limit terms [] sel = Inr sel"
| "select_rows pool limit terms (r # rows) sel =
     (if skipped pool r sel then select_rows pool limit terms rows sel
      else
        and_then (guard (fragment_ok (retrieved_fragment terms r)) ContractFailed) (\<lambda>_.
        if limit \<le> int (length (sel_fragments (take_row pool terms r sel))) then Inr (take_row pool terms r sel)
        else select_rows pool limit terms rows (take_row pool terms r sel)))"

definition retrieval_result ::
    "string \<Rightarrow> string \<Rightarrow> int \<Rightarrow> RetrievedFragment list \<Rightarrow> int option \<Rightarrow> RetrievalError + RetrievalResult" where
  "retrieval_result canonical query budget fragments next_offset =
     (let total = sum_list (map rf_estimated_tokens fragments) in
      and_then (guard (total \<le> budget) ContractFailed) (\<lambda>_.
      Inr \<lparr>rs_project_path = py_strip canonical, rs_query = py_strip query, rs_token_budget = budget,
        rs_estimated_tokens = total, rs_fragments = fragments, rs_next_offset = next_offset\<rparr>))"

definition start_selection :: "int \<Rightarrow> Selection" where
  "start_selection budget = \<lparr>sel_fragments = [], sel_remaining = budget, sel_per_source = (\<lambda>_. 0), sel_hashes = []\<rparr>"

definition retrieve_knowledge ::
    "KnowledgeSearch \<Rightarrow> RetrievalRequest \<Rightarrow> bool \<Rightarrow> nat \<Rightarrow> KnowledgeDb \<Rightarrow> RetrievalError + RetrievalResult" where
  "retrieve_knowledge fts r pool offset db =
     (case query_terms (rr_query r) of
        Inl e \<Rightarrow> Inl (StoreFailed e)
      | Inr terms \<Rightarrow>
          and_then (or_fail PathMissing (fs_resolve fts (rr_project_path r))) (\<lambda>canonical.
          if rr_allowed_source_types r = Some [] then retrieval_result canonical (rr_query r) (rr_token_budget r) [] None
          else
            let all_rows = search_rows fts terms r canonical db;
                rows = (if pool then take 257 (drop offset all_rows) else take 256 all_rows);
                more = (pool \<and> 256 < length rows);
                page = (if pool then take 256 rows else rows);
                limit = (if pool then 256 else rr_max_fragments r)
            in and_then (select_rows pool limit terms page (start_selection (rr_token_budget r))) (\<lambda>sel.
               retrieval_result canonical (rr_query r)
                 (if pool then max (rr_token_budget r) (sum_list (map rf_estimated_tokens (sel_fragments sel)))
                  else rr_token_budget r)
                 (sel_fragments sel) (if more then Some (int offset + 256) else None))))"

section \<open>Candidate facts\<close>

record CandidateFact =
  cf_fact_id :: string
  cf_fact_kind :: FactKind
  cf_fact_key :: string
  cf_fact_value :: string
  cf_conflicted :: bool
  cf_source_id :: string
  cf_source_uri :: string
  cf_source_hash :: string
  cf_locator :: string

definition fact_in_conflict :: "KnowledgeDb \<Rightarrow> string option \<Rightarrow> string \<Rightarrow> bool" where
  "fact_in_conflict db active fact_id \<longleftrightarrow>
     list_ex (\<lambda>c. Some (kc_generation_id c) = active \<and> fact_id \<in> set (kc_fact_ids c)) (kd_conflicts db)"

text \<open>The joins of a member with its source, version, facts and their fragments.\<close>

definition candidates_of_member :: "KnowledgeDb \<Rightarrow> string option \<Rightarrow> KMember \<Rightarrow> CandidateFact list" where
  "candidates_of_member db active m =
     concat (map (\<lambda>s. concat (map (\<lambda>v. concat (map (\<lambda>a. map (\<lambda>f.
         \<lparr>cf_fact_id = ka_fact_id a, cf_fact_kind = ka_fact_kind a, cf_fact_key = ka_fact_key a,
          cf_fact_value = ka_fact_value a, cf_conflicted = fact_in_conflict db active (ka_fact_id a),
          cf_source_id = ks_source_id s, cf_source_uri = ks_source_uri s, cf_source_hash = kv_source_hash v,
          cf_locator = kf_locator f\<rparr>)
           (filter (\<lambda>f. kf_fragment_id f = ka_fragment_id a) (kd_fragments db)))
         (filter (\<lambda>a. ka_version_id a = kv_version_id v) (kd_facts db))))
       (filter (\<lambda>v. kv_version_id v = km_version_id m) (kd_versions db))))
     (filter (\<lambda>s. ks_source_id s = km_source_id m) (kd_sources db)))"

definition list_candidates :: "string \<Rightarrow> string \<Rightarrow> KnowledgeDb \<Rightarrow> CandidateFact list" where
  "list_candidates owner path db =
     (case project_at owner path db of
        None \<Rightarrow> []
      | Some p \<Rightarrow>
          sort_key cf_fact_key (sort_key cf_fact_id (concat (map (candidates_of_member db (kp_active_generation_id p))
            (filter (\<lambda>m. Some (km_generation_id m) = kp_active_generation_id p) (kd_members db))))))"

section \<open>Other reads\<close>

definition current_generation :: "string \<Rightarrow> KnowledgeDb \<Rightarrow> KGeneration option" where
  "current_generation project_id db =
     (case active_generation_id project_id db of None \<Rightarrow> None | Some g \<Rightarrow> select kg_generation_id g (kd_generations db))"

definition project_id_for :: "string \<Rightarrow> string \<Rightarrow> KnowledgeDb \<Rightarrow> string option" where
  "project_id_for owner path db = map_option kp_project_id (project_at owner path db)"

text \<open>The newest repository source of this content whose file is gone.\<close>

definition find_rename_candidate :: "string \<Rightarrow> string \<Rightarrow> string set \<Rightarrow> KnowledgeDb \<Rightarrow> string option" where
  "find_rename_candidate project_id source_hash current_uris db =
     map_option ks_source_id (find (\<lambda>s. ks_source_uri s \<notin> current_uris)
       (sort_key (\<lambda>s. - ks_updated_at s) (filter (\<lambda>s. ks_project_id s = project_id \<and>
          ks_current_hash s = Some source_hash \<and> ks_source_origin s = ''repository'') (kd_sources db))))"

definition active_source ::
    "string \<Rightarrow> string \<Rightarrow> string \<Rightarrow> string \<Rightarrow> KnowledgeDb \<Rightarrow> (KSource \<times> KMember \<times> KVersion) option" where
  "active_source project_id source_uri source_kind source_origin db =
     (case active_generation_id project_id db of
        None \<Rightarrow> None
      | Some g \<Rightarrow>
          (case find (\<lambda>m. case select ks_source_id (km_source_id m) (kd_sources db) of
                None \<Rightarrow> False
              | Some s \<Rightarrow> ks_source_uri s = source_uri \<and> ks_source_kind s = source_kind \<and> ks_source_origin s = source_origin)
              (members_of g db) of
             None \<Rightarrow> None
           | Some m \<Rightarrow>
               (case (select ks_source_id (km_source_id m) (kd_sources db), select kv_version_id (km_version_id m) (kd_versions db)) of
                  (Some s, Some v) \<Rightarrow> Some (s, m, v)
                | _ \<Rightarrow> None)))"

end
