(* ===== verification/KnowledgeInvariant.thy ===== *)
theory KnowledgeInvariant
  imports KnowledgePublish
begin

text \<open>
  How the operations of the knowledge store change its tables, and the invariant of its publication:
  the active generation of a project is exactly its one generation of status \<open>GenActive\<close>.
\<close>

section \<open>What the steps leave alone\<close>

text \<open>The projects and generations of a database.\<close>

definition heads :: "KnowledgeDb \<Rightarrow> KProject list \<times> KGeneration list" where
  "heads db = (kd_projects db, kd_generations db)"

lemma heads_simps [simp]:
  "heads (db\<lparr>kd_sources := s\<rparr>) = heads db" "heads (db\<lparr>kd_versions := v\<rparr>) = heads db"
  "heads (db\<lparr>kd_members := m\<rparr>) = heads db" "heads (db\<lparr>kd_fragments := f\<rparr>) = heads db"
  "heads (db\<lparr>kd_index := x\<rparr>) = heads db" "heads (db\<lparr>kd_facts := a\<rparr>) = heads db"
  "heads (db\<lparr>kd_conflicts := c\<rparr>) = heads db" "heads (db\<lparr>kd_maps := r\<rparr>) = heads db"
  "heads (db\<lparr>kd_audit := u\<rparr>) = heads db"
  by (simp_all add: heads_def)

lemma heads_eq: "heads db' = heads db \<Longrightarrow> kd_projects db' = kd_projects db \<and> kd_generations db' = kd_generations db"
  by (simp add: heads_def)

lemma heads_deletes [simp]:
  "heads (delete_versions gone db) = heads db" "heads (delete_sources far db) = heads db"
  "heads (unindex ids db) = heads db" "heads (drop_repository_sources g db) = heads db"
  "heads (audit_knowledge now owner project source action outcome reason db) = heads db"
  "heads (reset_conflicts g db) = heads db" "heads (delete_unversioned p db) = heads db"
  "heads (publish_sources now p g db) = heads db"
  by (simp_all add: delete_versions_def delete_sources_def unindex_def drop_repository_sources_def Let_def
      audit_knowledge_def reset_conflicts_def delete_unversioned_def publish_sources_def)

lemma heads_insert_fact: "insert_fact env now v f item db = Inr db' \<Longrightarrow> heads db' = heads db"
  by (auto simp: insert_fact_def Let_def)

lemma heads_insert_facts: "insert_facts env now v f facts db = Inr db' \<Longrightarrow> heads db' = heads db"
  by (induction facts arbitrary: db) (fastforce dest: heads_insert_fact)+

lemma heads_insert_fragments: "insert_fragments env now v uri fragments db = Inr db' \<Longrightarrow> heads db' = heads db"
proof (induction fragments arbitrary: db)
  case (Cons x fragments)
  obtain fragment facts where x: "x = (fragment, facts)" by (cases x)
  from Cons.prems obtain ident db1 db2 where
    steps: "insert_fragment env now v uri fragment db = Inr (ident, db1)"
      "insert_facts env now v ident facts db1 = Inr db2" "insert_fragments env now v uri fragments db2 = Inr db'"
    by (auto simp: x)
  have "heads db1 = heads db" using steps(1) by (auto simp: insert_fragment_def Let_def)
  with heads_insert_facts[OF steps(2)] Cons.IH[OF steps(3)] show ?case by simp
qed simp

lemma heads_stage: "stage_source_version env now r db = Inr db' \<Longrightarrow> heads db' = heads db"
proof -
  assume "stage_source_version env now r db = Inr db'"
  then obtain s db1 db2 db3 where steps:
    "insert_source env now r s db = Inr db1" "insert_version env now r s db1 = Inr db2"
    "(if staged_version_id env r \<in> kf_version_id ` set (kd_fragments db2) then Inr db2
      else insert_fragments env now (staged_version_id env r) (sg_source_uri r) (sg_fragments r) db2) = Inr db3"
    "put_member (staged_member env now r s) db3 = Inr db'"
    unfolding stage_source_version_def by (simp only: and_then_Inr) blast
  have "heads db1 = heads db" using steps(1) by (auto simp: insert_source_def split: if_splits)
  moreover have "heads db2 = heads db1" using steps(2) by (auto simp: insert_version_def Let_def split: if_splits)
  moreover have "heads db3 = heads db2"
    using steps(3) heads_insert_fragments by (cases "staged_version_id env r \<in> kf_version_id ` set (kd_fragments db2)") auto
  moreover have "heads db' = heads db3" using steps(4) by (auto simp: put_member_def Let_def split: if_splits)
  ultimately show ?thesis by simp
qed

lemma heads_record_conflict: "record_conflict env now g p key db = Inr db' \<Longrightarrow> heads db' = heads db"
  by (auto simp: record_conflict_def Let_def)

lemma heads_record_conflicts: "record_conflicts env now g p keys db = Inr db' \<Longrightarrow> heads db' = heads db"
  by (induction keys arbitrary: db) (fastforce dest: heads_record_conflict)+

lemma heads_recompute: "recompute_conflicts env now g p db = Inr db' \<Longrightarrow> heads db' = heads db"
  unfolding recompute_conflicts_def Let_def by (drule heads_record_conflicts) simp

lemma heads_save_map: "save_repository_map env now g p payload db = Inr db' \<Longrightarrow> heads db' = heads db"
  by (auto simp: save_repository_map_def Let_def split: if_splits)

section \<open>One active generation\<close>

definition active_matches :: "KProject list \<Rightarrow> KGeneration list \<Rightarrow> bool" where
  "active_matches projects generations \<longleftrightarrow>
     distinct (map kp_project_id projects) \<and> distinct (map kg_generation_id generations) \<and>
     (\<forall>g \<in> set generations. kg_generation_id g \<noteq> []) \<and>
     (\<forall>p \<in> set projects. \<forall>g \<in> set generations. kg_project_id g = kp_project_id p \<longrightarrow>
        (kg_status g = GenActive \<longleftrightarrow> kp_active_generation_id p = Some (kg_generation_id g))) \<and>
     (\<forall>p \<in> set projects. \<forall>i. kp_active_generation_id p = Some i \<longrightarrow>
        (\<exists>g \<in> set generations. kg_generation_id g = i \<and> kg_project_id g = kp_project_id p)) \<and>
     (\<forall>g \<in> set generations. kg_project_id g \<in> kp_project_id ` set projects)"

lemma active_status:
  "active_matches ps gs \<Longrightarrow> p \<in> set ps \<Longrightarrow> g \<in> set gs \<Longrightarrow> kg_project_id g = kp_project_id p \<Longrightarrow>
     kg_status g = GenActive \<longleftrightarrow> kp_active_generation_id p = Some (kg_generation_id g)"
  unfolding active_matches_def by blast

lemma active_exists:
  "active_matches ps gs \<Longrightarrow> p \<in> set ps \<Longrightarrow> kp_active_generation_id p = Some i \<Longrightarrow>
     \<exists>g \<in> set gs. kg_generation_id g = i \<and> kg_project_id g = kp_project_id p"
  unfolding active_matches_def by blast

definition one_active :: "KnowledgeDb \<Rightarrow> bool" where
  "one_active db \<longleftrightarrow> active_matches (kd_projects db) (kd_generations db)"

lemma one_active_heads: "heads db' = heads db \<Longrightarrow> one_active db' = one_active db"
  by (simp add: heads_def one_active_def)

text \<open>An update of rows that keeps what the invariant reads.\<close>

lemma active_matches_maps:
  assumes "active_matches ps gs"
    and p: "\<And>p. kp_project_id (f p) = kp_project_id p \<and> kp_active_generation_id (f p) = kp_active_generation_id p"
    and g: "\<And>g. kg_generation_id (h g) = kg_generation_id g \<and> kg_project_id (h g) = kg_project_id g \<and>
      (kg_status (h g) = GenActive) = (kg_status g = GenActive)"
  shows "active_matches (map f ps) (map h gs)"
  using assms(1) p g unfolding active_matches_def by (simp add: comp_def image_image)

lemma active_matches_filter:
  assumes inv: "active_matches ps gs" and gone: "\<And>g. g \<in> set gs \<Longrightarrow> \<not> keep g \<Longrightarrow> kg_status g \<noteq> GenActive"
  shows "active_matches ps (filter keep gs)"
proof -
  have "\<exists>g \<in> set (filter keep gs). kg_generation_id g = i \<and> kg_project_id g = kp_project_id p"
    if p: "p \<in> set ps" "kp_active_generation_id p = Some i" for p i
  proof -
    from inv p obtain g where g: "g \<in> set gs" "kg_generation_id g = i" "kg_project_id g = kp_project_id p"
      unfolding active_matches_def by blast
    with inv p have "kg_status g = GenActive" unfolding active_matches_def by blast
    with g gone show ?thesis by auto
  qed
  with inv show ?thesis unfolding active_matches_def by (auto simp: distinct_map_filter)
qed

lemma active_matches_add_project:
  assumes inv: "active_matches ps gs" and new: "kp_project_id p \<notin> kp_project_id ` set ps" "kp_active_generation_id p = None"
  shows "active_matches (ps @ [p]) gs"
  unfolding active_matches_def
proof (intro conjI ballI allI impI)
  fix q g assume q: "q \<in> set (ps @ [p])" "g \<in> set gs" "kg_project_id g = kp_project_id q"
  have "kg_project_id g \<in> kp_project_id ` set ps" using inv q(2) unfolding active_matches_def by blast
  with q(3) new(1) have "q \<noteq> p" by auto
  with q inv show "(kg_status g = GenActive) = (kp_active_generation_id q = Some (kg_generation_id g))"
    by (auto simp: active_matches_def)
qed (use inv new in \<open>auto simp: active_matches_def\<close>)

lemma active_matches_add_generation:
  assumes inv: "active_matches ps gs" and new: "kg_generation_id g \<notin> kg_generation_id ` set gs" "kg_generation_id g \<noteq> []"
    "kg_status g = GenBuilding" "kg_project_id g \<in> kp_project_id ` set ps"
  shows "active_matches ps (gs @ [g])"
  unfolding active_matches_def
proof (intro conjI ballI allI impI)
  fix p h assume h: "p \<in> set ps" "h \<in> set (gs @ [g])" "kg_project_id h = kp_project_id p"
  have "kp_active_generation_id p \<noteq> Some (kg_generation_id g)"
  proof
    assume "kp_active_generation_id p = Some (kg_generation_id g)"
    from active_exists[OF inv h(1) this] obtain x where "x \<in> set gs" "kg_generation_id x = kg_generation_id g" by blast
    with new(1) show False by (metis imageI)
  qed
  with h(2,3) new(3) active_status[OF inv h(1)]
  show "(kg_status h = GenActive) = (kp_active_generation_id p = Some (kg_generation_id h))" by auto
next
  fix p i assume "p \<in> set ps" "kp_active_generation_id p = Some i"
  from active_exists[OF inv this]
  show "\<exists>h \<in> set (gs @ [g]). kg_generation_id h = i \<and> kg_project_id h = kp_project_id p" by auto
qed (use inv new in \<open>auto simp: active_matches_def\<close>)

text \<open>Each operation keeps it.\<close>

lemma one_active_ensure:
  assumes inv: "one_active db" and ok: "ensure_project env now owner path db = Inr (i, db')"
  shows "one_active db'"
proof (cases "list_ex (\<lambda>p. kp_owner_id p = owner \<and> kp_canonical_path p = path) (kd_projects db)")
  case True
  then have db': "db' = db\<lparr>kd_projects := map (\<lambda>p. if kp_owner_id p = owner \<and> kp_canonical_path p = path
      then p\<lparr>kp_updated_at := now\<rparr> else p) (kd_projects db)\<rparr>"
    using ok by (auto simp: ensure_project_def Let_def)
  have "active_matches (map (\<lambda>p. if kp_owner_id p = owner \<and> kp_canonical_path p = path
      then p\<lparr>kp_updated_at := now\<rparr> else p) (kd_projects db)) (map (\<lambda>g. g) (kd_generations db))"
    using inv unfolding one_active_def by (rule active_matches_maps) auto
  then show ?thesis by (simp add: db' one_active_def)
next
  case False
  then have "kp_project_id (new_project env now owner path) \<notin> kp_project_id ` set (kd_projects db)"
      "db' = db\<lparr>kd_projects := kd_projects db @ [new_project env now owner path]\<rparr>"
      "kp_active_generation_id (new_project env now owner path) = None"
    using ok by (auto simp: ensure_project_def Let_def new_project_def)
  with inv show ?thesis by (simp add: one_active_def active_matches_add_project)
qed

lemma one_active_begin:
  assumes inv: "one_active db" and ok: "begin_generation now uuid project_id b db = Inr db'"
  shows "one_active db'"
proof -
  from ok obtain p where p: "project_of project_id db = Some p"
      "generation_ident uuid \<notin> kg_generation_id ` set (kd_generations db)"
      "heads db' = (kd_projects db, kd_generations db @ [new_generation now uuid b p])"
    by (auto simp: begin_generation_def clone_generation_def Let_def heads_def split: option.splits if_splits)
  then have eq: "kd_projects db' = kd_projects db" "kd_generations db' = kd_generations db @ [new_generation now uuid b p]"
    by (simp_all add: heads_def)
  have "p \<in> set (kd_projects db)"
    using select_Some_in[of kp_project_id project_id "kd_projects db" p] p(1) by (simp add: project_of_def)
  moreover have "kg_generation_id (new_generation now uuid b p) = generation_ident uuid"
    "kg_project_id (new_generation now uuid b p) = kp_project_id p" "kg_status (new_generation now uuid b p) = GenBuilding"
    "generation_ident uuid \<noteq> []"
    by (simp_all add: new_generation_def generation_ident_def)
  ultimately show ?thesis using inv p(2) by (simp add: one_active_def active_matches_add_generation eq)
qed

lemma one_active_fail: "one_active db \<Longrightarrow> one_active (fail_generation now g reason db)"
proof -
  assume inv: "one_active db"
  show ?thesis
  proof (cases "find (\<lambda>x. kg_generation_id x = g \<and> unfinished x \<and> project_of (kg_project_id x) db \<noteq> None) (kd_generations db)")
    case None
    with inv show ?thesis by (simp add: fail_generation_def)
  next
    case (Some x)
    then have x: "x \<in> set (kd_generations db)" "kg_generation_id x = g" "unfinished x"
      by (auto simp: find_Some_iff in_set_conv_nth)
    have heads: "heads (fail_generation now g reason db) =
        (kd_projects db, filter (\<lambda>y. kg_generation_id y \<noteq> g) (kd_generations db))"
      using Some by (simp add: fail_generation_def Let_def delete_generations_def) (simp add: heads_def unindex_def)
    have "active_matches (kd_projects db) (filter (\<lambda>y. kg_generation_id y \<noteq> g) (kd_generations db))"
    proof (rule active_matches_filter)
      fix y assume "y \<in> set (kd_generations db)" "\<not> kg_generation_id y \<noteq> g"
      moreover have "inj_on kg_generation_id (set (kd_generations db))"
        using inv by (auto simp: one_active_def active_matches_def distinct_map)
      ultimately have "y = x" using x by (auto dest: inj_onD)
      with x show "kg_status y \<noteq> GenActive" by (auto simp: unfinished_def)
    qed (use inv in \<open>simp add: one_active_def\<close>)
    with heads show ?thesis by (simp add: heads_def one_active_def)
  qed
qed

lemma one_active_recover: "one_active db \<Longrightarrow> one_active (recover_abandoned_generations now older db)"
proof -
  have fold: "one_active (fold (\<lambda>g. fail_generation now (kg_generation_id g) reason) gs d)" if "one_active d" for gs d reason
    using that by (induction gs arbitrary: d) (simp_all add: one_active_fail)
  assume "one_active db"
  then show ?thesis unfolding recover_abandoned_generations_def by (rule fold)
qed

lemma one_active_interrupt: "one_active db \<Longrightarrow> one_active (interrupt_builds now project_id db)"
  unfolding one_active_def interrupt_builds_def
  by (simp, rule active_matches_maps) auto

lemma one_active_recompute_all: "recompute_all env now s gs db = Inr db' \<Longrightarrow> one_active db \<Longrightarrow> one_active db'"
proof (induction gs arbitrary: db)
  case (Cons g gs)
  let ?d = "if ks_source_origin s = ''repository'' then forget_map g db else db"
  from Cons.prems obtain db1 where steps: "recompute_conflicts env now g (ks_project_id s) ?d = Inr db1"
      "recompute_all env now s gs db1 = Inr db'" by auto
  have "active_matches (map (\<lambda>p. p) (kd_projects db)) (map (\<lambda>x. if kg_generation_id x = g
      then x\<lparr>kg_worktree_revision := None\<rparr> else x) (kd_generations db))"
    using Cons.prems(2) unfolding one_active_def by (rule active_matches_maps) auto
  then have "one_active ?d" using Cons.prems(2) by (auto simp: one_active_def forget_map_def)
  with one_active_heads[OF heads_recompute[OF steps(1)]] Cons.IH[OF steps(2)] show ?case by blast
qed simp

lemma one_active_purge_logically:
  assumes inv: "one_active db" and ok: "purge_logically env now s db = Inr db'"
  shows "one_active db'"
proof -
  from ok obtain db2 where steps: "recompute_all env now s
      (generations_with (ks_source_id s) (interrupt_builds now (ks_project_id s) db))
      (remove_source (ks_source_id s) (interrupt_builds now (ks_project_id s) db)) = Inr db2" "heads db' = heads db2"
    unfolding purge_logically_def by (auto simp: Let_def)
  have "heads (remove_source (ks_source_id s) (interrupt_builds now (ks_project_id s) db)) =
      heads (interrupt_builds now (ks_project_id s) db)" by (simp add: remove_source_def Let_def)
  from one_active_heads[OF this] one_active_interrupt[OF inv] one_active_recompute_all[OF steps(1)]
    one_active_heads[OF steps(2)] show ?thesis by blast
qed

lemma one_active_purge:
  assumes "one_active db" and "purge_source env now checkpoint physical source_id owner path apply_purge db = Inr db'"
  shows "one_active db'"
proof (cases apply_purge)
  case True
  with assms(2) obtain s d where "purge_logically env now s db = Inr d" "heads db' = heads d"
    unfolding purge_source_def by auto
  then show ?thesis using one_active_purge_logically[OF assms(1)] one_active_heads by blast
qed (use assms in \<open>auto simp: purge_source_def\<close>)

text \<open>Activation supersedes the previous generation; the identifiers are unique, so nothing else changes.\<close>

lemma active_matches_activate:
  assumes inv: "active_matches ps gs" and p: "p \<in> set ps" and g: "g \<in> set gs" "kg_project_id g = kp_project_id p"
    and upd: "\<And>q. kp_project_id (f q) = kp_project_id q \<and>
      kp_active_generation_id (f q) = (if kp_project_id q = kp_project_id p then Some (kg_generation_id g) else kp_active_generation_id q)"
      "\<And>h'. kg_generation_id (h h') = kg_generation_id h' \<and> kg_project_id (h h') = kg_project_id h' \<and>
        kg_status (h h') = (if kg_generation_id h' = kg_generation_id g then GenActive
          else if kp_active_generation_id p = Some (kg_generation_id h') then GenSuperseded else kg_status h')"
  shows "active_matches (map f ps) (map h gs)"
proof -
  have fields: "kp_project_id (f q) = kp_project_id q" "kg_generation_id (h x) = kg_generation_id x"
      "kg_project_id (h x) = kg_project_id x" for q x
    using upd by blast+
  have inj: "inj_on kp_project_id (set ps)" "inj_on kg_generation_id (set gs)"
    using inv by (auto simp: active_matches_def distinct_map)
  have status: "(kg_status (h x) = GenActive) = (kp_active_generation_id (f q) = Some (kg_generation_id (h x)))"
    if q: "q \<in> set ps" and x: "x \<in> set gs" "kg_project_id x = kp_project_id q" for q x
  proof (cases "q = p")
    case True
    with active_status[OF inv q x]
    have "(kg_status x = GenActive) = (kp_active_generation_id p = Some (kg_generation_id x))" by simp
    with True upd(1)[of q] upd(2)[of x] show ?thesis by auto
  next
    case False
    then have proj: "kp_project_id q \<noteq> kp_project_id p" using inj_onD[OF inj(1) _ q p] by blast
    with x g have "kg_generation_id x \<noteq> kg_generation_id g" using inj_onD[OF inj(2) _ x(1) g(1)] by metis
    moreover have "kp_active_generation_id p \<noteq> Some (kg_generation_id x)"
    proof
      assume "kp_active_generation_id p = Some (kg_generation_id x)"
      from active_exists[OF inv p this] obtain y
        where y: "y \<in> set gs" "kg_generation_id y = kg_generation_id x" "kg_project_id y = kp_project_id p" by blast
      from inj_onD[OF inj(2) y(2) y(1) x(1)] y(3) x(2) proj show False by simp
    qed
    moreover note active_status[OF inv q x]
    ultimately show ?thesis using proj upd(1)[of q] upd(2)[of x] by auto
  qed
  have "\<exists>x \<in> set (map h gs). kg_generation_id x = i \<and> kg_project_id x = kp_project_id (f q)"
    if "q \<in> set ps" "kp_active_generation_id (f q) = Some i" for q i
  proof (cases "kp_project_id q = kp_project_id p")
    case True
    with that(2) upd(1)[of q] have "i = kg_generation_id g" by simp
    with True g show ?thesis by (intro bexI[of _ "h g"]) (simp_all add: fields)
  next
    case False
    with that(2) upd(1)[of q] have "kp_active_generation_id q = Some i" by simp
    from active_exists[OF inv that(1) this] obtain x
      where "x \<in> set gs" "kg_generation_id x = i" "kg_project_id x = kp_project_id q" by blast
    then show ?thesis by (intro bexI[of _ "h x"]) (simp_all add: fields)
  qed
  then show ?thesis using inv status unfolding active_matches_def
    by (simp add: comp_def image_image fields)
qed

lemma activation_heads:
  assumes ok: "activate_generation env now project_id generation_id db = Inr db'"
  obtains p g where "project_of project_id db = Some p" "generation_of generation_id project_id db = Some g"
    "kg_status g = GenBuilding" "kp_active_generation_id p = kg_base_generation_id g"
    "kp_mutation_epoch p = kg_base_mutation_epoch g"
    "kd_projects db' = map (\<lambda>q. if kp_project_id q = project_id
       then q\<lparr>kp_active_generation_id := Some generation_id, kp_updated_at := now\<rparr> else q) (kd_projects db)"
    "kd_generations db' = kd_generations (set_status generation_id GenActive (Some now)
       (case kp_active_generation_id p of None \<Rightarrow> db
        | Some previous \<Rightarrow> if previous = [] then db else set_status previous GenSuperseded None db))"
proof -
  from ok obtain p g db1 where steps: "project_of project_id db = Some p"
      "generation_of generation_id project_id db = Some g" "kg_status g = GenBuilding"
      "kp_active_generation_id p = kg_base_generation_id g" "kp_mutation_epoch p = kg_base_mutation_epoch g"
      "recompute_conflicts env now generation_id project_id db = Inr db1"
      "heads db' = heads ((set_status generation_id GenActive (Some now)
       (case kp_active_generation_id p of None \<Rightarrow> db1
        | Some previous \<Rightarrow> if previous = [] then db1 else set_status previous GenSuperseded None db1))
          \<lparr>kd_projects := map (\<lambda>q. if kp_project_id q = project_id
       then q\<lparr>kp_active_generation_id := Some generation_id, kp_updated_at := now\<rparr> else q)
         (kd_projects (set_status generation_id GenActive (Some now)
       (case kp_active_generation_id p of None \<Rightarrow> db1
        | Some previous \<Rightarrow> if previous = [] then db1 else set_status previous GenSuperseded None db1)))\<rparr>)"
    unfolding activate_generation_def Let_def by auto
  have "kd_projects db1 = kd_projects db" "kd_generations db1 = kd_generations db"
    using heads_eq[OF heads_recompute[OF steps(6)]] by simp_all
  with that[OF steps(1-5)] steps(7) show ?thesis
    by (simp add: heads_def set_status_def split: option.splits if_splits)
qed

lemma one_active_activate:
  assumes inv: "one_active db" and ok: "activate_generation env now project_id generation_id db = Inr db'"
  shows "one_active db'"
proof -
  from ok obtain p g where steps: "project_of project_id db = Some p"
      "generation_of generation_id project_id db = Some g"
      "kd_projects db' = map (\<lambda>q. if kp_project_id q = project_id
       then q\<lparr>kp_active_generation_id := Some generation_id, kp_updated_at := now\<rparr> else q) (kd_projects db)"
      "kd_generations db' = kd_generations (set_status generation_id GenActive (Some now)
       (case kp_active_generation_id p of None \<Rightarrow> db
        | Some previous \<Rightarrow> if previous = [] then db else set_status previous GenSuperseded None db))"
    by (rule activation_heads)
  let ?h = "\<lambda>x. if kg_generation_id x = generation_id then x\<lparr>kg_status := GenActive, kg_completed_at := Some now\<rparr>
     else if kp_active_generation_id p = Some (kg_generation_id x) then x\<lparr>kg_status := GenSuperseded\<rparr> else x"
  have p: "p \<in> set (kd_projects db)" "kp_project_id p = project_id"
    using select_Some_in[of kp_project_id project_id "kd_projects db" p] steps(1) by (simp_all add: project_of_def)
  have g: "g \<in> set (kd_generations db)" "kg_generation_id g = generation_id" "kg_project_id g = kp_project_id p"
    using steps(2) p(2) by (auto simp: generation_of_def find_Some_iff in_set_conv_nth)
  have nonempty: "kp_active_generation_id p \<noteq> Some []"
    using inv active_exists[of _ _ p "[]"] p(1) unfolding one_active_def by (force simp: active_matches_def)
  have gens: "kd_generations db' = map ?h (kd_generations db)"
    using nonempty by (auto simp: steps(4) set_status_def split: option.splits)
  have "active_matches (kd_projects db') (kd_generations db')"
    unfolding steps(3) gens
    by (rule active_matches_activate[OF inv[unfolded one_active_def] p(1) g(1) g(3)]) (auto simp: p(2) g(2))
  then show ?thesis by (simp add: one_active_def)
qed

lemma one_active_step: "one_active db \<Longrightarrow> one_active (knowledge_step env op db)"
proof (cases "apply_knowledge_op env op db")
  case (Inr db')
  assume inv: "one_active db"
  have "one_active db'"
  proof (cases op)
    case (EnsureProject now owner path)
    with Inr one_active_ensure[OF inv] show ?thesis by force
  next
    case (BeginGeneration now uuid p b)
    with Inr one_active_begin[OF inv] show ?thesis by simp
  next
    case (DropRepositorySources g)
    with Inr have "db' = drop_repository_sources g db" by simp
    with one_active_heads[of db' db] inv show ?thesis by simp
  next
    case (StageSource now r)
    with Inr one_active_heads[OF heads_stage] inv show ?thesis by simp
  next
    case (ActivateGeneration now p g)
    with Inr one_active_activate[OF inv] show ?thesis by simp
  next
    case (FailGeneration now g reason)
    with Inr one_active_fail[OF inv] show ?thesis by auto
  next
    case (RecoverAbandoned now older)
    with Inr one_active_recover[OF inv] show ?thesis by auto
  next
    case (SaveMap now g p payload)
    with Inr one_active_heads[OF heads_save_map] inv show ?thesis by simp
  next
    case (PurgeSource now checkpoint physical source_id owner path apply_purge)
    with Inr one_active_purge[OF inv] show ?thesis by simp
  qed
  with Inr show ?thesis by (simp add: knowledge_step_def)
qed (simp add: knowledge_step_def)

lemma one_active_run: "one_active db \<Longrightarrow> one_active (run_knowledge env ops db)"
  by (induction ops arbitrary: db) (simp_all add: one_active_step)

lemma one_active_empty: "one_active empty_knowledge_db"
  by (simp add: one_active_def active_matches_def empty_knowledge_db_def)

section \<open>Builds that can no longer be published\<close>

text \<open>No row of this identifier is building or was published.\<close>

definition dead_build :: "string \<Rightarrow> KnowledgeDb \<Rightarrow> bool" where
  "dead_build generation_id db \<longleftrightarrow>
     (\<forall>g \<in> set (kd_generations db). kg_generation_id g = generation_id \<longrightarrow> kg_status g = GenFailed)"

fun begins :: "string \<Rightarrow> KnowledgeOp \<Rightarrow> bool" where
  "begins generation_id (BeginGeneration now uuid p b) \<longleftrightarrow> generation_ident uuid = generation_id"
| "begins generation_id _ \<longleftrightarrow> False"

lemma dead_heads: "heads db' = heads db \<Longrightarrow> dead_build g db' = dead_build g db"
  by (simp add: heads_def dead_build_def)

lemma dead_fail: "dead_build i db \<Longrightarrow> dead_build i (fail_generation now g reason db)"
proof (cases "find (\<lambda>x. kg_generation_id x = g \<and> unfinished x \<and> project_of (kg_project_id x) db \<noteq> None) (kd_generations db)")
  case (Some x)
  assume dead: "dead_build i db"
  have "heads (fail_generation now g reason db) =
      (kd_projects db, filter (\<lambda>y. kg_generation_id y \<noteq> g) (kd_generations db))"
    using Some by (simp add: fail_generation_def Let_def delete_generations_def) (simp add: heads_def unindex_def)
  with dead show ?thesis by (simp add: heads_def dead_build_def)
qed (simp add: fail_generation_def)

lemma dead_recover: "dead_build i db \<Longrightarrow> dead_build i (recover_abandoned_generations now older db)"
proof -
  have fold: "dead_build i (fold (\<lambda>g. fail_generation now (kg_generation_id g) reason) gs d)" if "dead_build i d" for gs d reason
    using that by (induction gs arbitrary: d) (simp_all add: dead_fail)
  assume "dead_build i db"
  then show ?thesis unfolding recover_abandoned_generations_def by (rule fold)
qed

lemma dead_recompute_all: "recompute_all env now s gs db = Inr db' \<Longrightarrow> dead_build i db \<Longrightarrow> dead_build i db'"
proof (induction gs arbitrary: db)
  case (Cons g gs)
  let ?d = "if ks_source_origin s = ''repository'' then forget_map g db else db"
  from Cons.prems obtain db1 where steps: "recompute_conflicts env now g (ks_project_id s) ?d = Inr db1"
      "recompute_all env now s gs db1 = Inr db'" by auto
  have "dead_build i ?d" using Cons.prems(2) by (auto simp: dead_build_def forget_map_def)
  with dead_heads[OF heads_recompute[OF steps(1)]] Cons.IH[OF steps(2)] show ?case by blast
qed simp

lemma dead_purge_logically:
  assumes ok: "purge_logically env now s db = Inr db'"
    and dead: "dead_build i (interrupt_builds now (ks_project_id s) db)"
  shows "dead_build i db'"
proof -
  from ok obtain db2 where steps: "recompute_all env now s
      (generations_with (ks_source_id s) (interrupt_builds now (ks_project_id s) db))
      (remove_source (ks_source_id s) (interrupt_builds now (ks_project_id s) db)) = Inr db2" "heads db' = heads db2"
    unfolding purge_logically_def by (auto simp: Let_def)
  have "heads (remove_source (ks_source_id s) (interrupt_builds now (ks_project_id s) db)) =
      heads (interrupt_builds now (ks_project_id s) db)" by (simp add: remove_source_def Let_def)
  from dead_heads[OF this] dead dead_recompute_all[OF steps(1)] dead_heads[OF steps(2)] show ?thesis by blast
qed

lemma dead_purge:
  assumes "dead_build i db" and "purge_source env now checkpoint physical source_id owner path apply_purge db = Inr db'"
  shows "dead_build i db'"
proof (cases apply_purge)
  case True
  with assms(2) obtain s d where "purge_logically env now s db = Inr d" "heads db' = heads d"
    unfolding purge_source_def by auto
  moreover have "dead_build i (interrupt_builds now p db)" for p
    using assms(1) by (auto simp: dead_build_def interrupt_builds_def)
  ultimately show ?thesis using dead_purge_logically dead_heads by blast
qed (use assms in \<open>auto simp: purge_source_def\<close>)

text \<open>Only a building generation is activated, and the superseded one was active.\<close>

lemma dead_activate:
  assumes inv: "one_active db" and dead: "dead_build i db"
    and ok: "activate_generation env now project_id generation_id db = Inr db'"
  shows "dead_build i db'"
proof -
  from ok obtain p g where steps: "project_of project_id db = Some p"
      "generation_of generation_id project_id db = Some g" "kg_status g = GenBuilding"
      "kd_generations db' = kd_generations (set_status generation_id GenActive (Some now)
       (case kp_active_generation_id p of None \<Rightarrow> db
        | Some previous \<Rightarrow> if previous = [] then db else set_status previous GenSuperseded None db))"
    by (rule activation_heads)
  have g: "g \<in> set (kd_generations db)" "kg_generation_id g = generation_id"
    using steps(2) by (auto simp: generation_of_def find_Some_iff in_set_conv_nth)
  have new: "generation_id \<noteq> i" using g steps(3) dead by (auto simp: dead_build_def)
  have p: "p \<in> set (kd_projects db)"
    using select_Some_in[of kp_project_id project_id "kd_projects db" p] steps(1) by (simp add: project_of_def)
  have old: "kp_active_generation_id p \<noteq> Some i"
  proof
    assume a: "kp_active_generation_id p = Some i"
    from active_exists[OF inv[unfolded one_active_def] p a] obtain x
      where x: "x \<in> set (kd_generations db)" "kg_generation_id x = i" "kg_project_id x = kp_project_id p" by blast
    from active_status[OF inv[unfolded one_active_def] p x(1,3)] a x dead show False by (simp add: dead_build_def)
  qed
  show ?thesis using dead new old
    by (auto simp: dead_build_def steps(4) set_status_def split: option.splits if_splits)
qed

lemma dead_begin:
  assumes dead: "dead_build i db" and other: "generation_ident uuid \<noteq> i"
    and ok: "begin_generation now uuid project_id b db = Inr db'"
  shows "dead_build i db'"
proof -
  from ok obtain p where "kd_generations db' = kd_generations db @ [new_generation now uuid b p]"
    by (auto simp: begin_generation_def clone_generation_def Let_def split: option.splits if_splits)
  with dead other show ?thesis by (auto simp: dead_build_def new_generation_def)
qed

lemma dead_step:
  assumes inv: "one_active db" and dead: "dead_build i db" and other: "\<not> begins i op"
  shows "dead_build i (knowledge_step env op db)"
proof (cases "apply_knowledge_op env op db")
  case (Inr db')
  have "dead_build i db'"
  proof (cases op)
    case (EnsureProject now owner path)
    with Inr have "kd_generations db' = kd_generations db"
      by (auto simp: ensure_project_def Let_def split: if_splits)
    with dead show ?thesis by (simp add: dead_build_def)
  next
    case (BeginGeneration now uuid p b)
    with Inr other dead_begin[OF dead] show ?thesis by simp
  next
    case (DropRepositorySources g)
    with Inr have "db' = drop_repository_sources g db" by simp
    with dead_heads[of db' db] dead show ?thesis by simp
  next
    case (StageSource now r)
    with Inr dead_heads[OF heads_stage] dead show ?thesis by simp
  next
    case (ActivateGeneration now p g)
    with Inr dead_activate[OF inv dead] show ?thesis by simp
  next
    case (FailGeneration now g reason)
    with Inr dead_fail[OF dead] show ?thesis by auto
  next
    case (RecoverAbandoned now older)
    with Inr dead_recover[OF dead] show ?thesis by auto
  next
    case (SaveMap now g p payload)
    with Inr dead_heads[OF heads_save_map] dead show ?thesis by simp
  next
    case (PurgeSource now checkpoint physical source_id owner path apply_purge)
    with Inr dead_purge[OF dead] show ?thesis by simp
  qed
  with Inr show ?thesis by (simp add: knowledge_step_def)
qed (simp add: knowledge_step_def dead)

lemma dead_run:
  "one_active db \<Longrightarrow> dead_build i db \<Longrightarrow> \<not> list_ex (begins i) ops \<Longrightarrow> dead_build i (run_knowledge env ops db)"
  by (induction ops arbitrary: db) (simp_all add: one_active_step dead_step)

end
