(* ===== verification/KnowledgeProperties.thy ===== *)
theory KnowledgeProperties
  imports KnowledgeInvariant
begin

text \<open>
  Properties of the knowledge store: what a recomputation of conflicts writes, what a purge removes and
  keeps, what a failed build leaves alone.
\<close>

section \<open>Recomputing conflicts\<close>

definition bare_fact :: "KFact \<Rightarrow> KFact" where
  "bare_fact a = a\<lparr>ka_status := FactCandidate\<rparr>"

definition bare_fragment :: "KFragment \<Rightarrow> KFragment" where
  "bare_fragment f = f\<lparr>kf_conflict_flag := False\<rparr>"

text \<open>The databases agree but for conflicts, statuses of facts and flags of fragments.\<close>

definition same_knowledge :: "KnowledgeDb \<Rightarrow> KnowledgeDb \<Rightarrow> bool" where
  "same_knowledge db db' \<longleftrightarrow>
     kd_sources db' = kd_sources db \<and> kd_versions db' = kd_versions db \<and> kd_members db' = kd_members db \<and>
     kd_index db' = kd_index db \<and> map bare_fact (kd_facts db') = map bare_fact (kd_facts db) \<and>
     map bare_fragment (kd_fragments db') = map bare_fragment (kd_fragments db)"

lemma same_knowledge_refl [simp]: "same_knowledge db db"
  by (simp add: same_knowledge_def)

lemma same_knowledge_trans: "same_knowledge a b \<Longrightarrow> same_knowledge b c \<Longrightarrow> same_knowledge a c"
  by (simp add: same_knowledge_def)

lemma bare_fact_fields [simp]:
  "ka_fact_id (bare_fact a) = ka_fact_id a" "ka_version_id (bare_fact a) = ka_version_id a"
  "ka_fragment_id (bare_fact a) = ka_fragment_id a" "ka_fact_key (bare_fact a) = ka_fact_key a"
  "ka_value_hash (bare_fact a) = ka_value_hash a" "bare_fact (a\<lparr>ka_status := s\<rparr>) = bare_fact a"
  by (simp_all add: bare_fact_def)

lemma bare_fragment_fields [simp]:
  "kf_fragment_id (bare_fragment f) = kf_fragment_id f" "kf_version_id (bare_fragment f) = kf_version_id f"
  "bare_fragment (f\<lparr>kf_conflict_flag := b\<rparr>) = bare_fragment f"
  by (simp_all add: bare_fragment_def)

lemma same_reset: "same_knowledge db (reset_conflicts g db)"
  by (simp add: same_knowledge_def reset_conflicts_def Let_def comp_def if_distrib[of bare_fact] if_distrib[of bare_fragment] cong: if_cong)

lemma same_record: "record_conflict env now g p key db = Inr db' \<Longrightarrow> same_knowledge db db'"
  by (auto simp: record_conflict_def Let_def same_knowledge_def comp_def if_distrib[of bare_fact]
      if_distrib[of bare_fragment] cong: if_cong)

lemma same_records: "record_conflicts env now g p keys db = Inr db' \<Longrightarrow> same_knowledge db db'"
proof (induction keys arbitrary: db)
  case (Cons key keys)
  then obtain m where "record_conflict env now g p key db = Inr m" "record_conflicts env now g p keys m = Inr db'" by auto
  then show ?case using Cons.IH same_record same_knowledge_trans by blast
qed simp

lemma same_recompute: "recompute_conflicts env now g p db = Inr db' \<Longrightarrow> same_knowledge db db'"
  unfolding recompute_conflicts_def Let_def using same_reset same_records same_knowledge_trans by blast

text \<open>What the facts of a generation say does not depend on the statuses.\<close>

lemma bare_filter: "map bare_fact (filter (\<lambda>a. p (bare_fact a)) xs) = filter p (map bare_fact xs)"
  by (induction xs) auto

lemma facts_of_bare:
  assumes "same_knowledge db db'"
  shows "map bare_fact (facts_of g db') = map bare_fact (facts_of g db)"
proof -
  have eq: "map bare_fact (facts_of g d) =
      filter (\<lambda>a. ka_version_id a \<in> km_version_id ` set (members_of g d)) (map bare_fact (kd_facts d))" for d
    using bare_filter[of "\<lambda>a. ka_version_id a \<in> km_version_id ` set (members_of g d)" "kd_facts d"]
    by (simp add: facts_of_def)
  show ?thesis using assms unfolding eq same_knowledge_def members_of_def by simp
qed

lemma facts_with_key_bare:
  assumes "same_knowledge db db'"
  shows "map bare_fact (facts_with_key g key db') = map bare_fact (facts_with_key g key db)"
  using facts_of_bare[OF assms, of g] bare_filter[of "\<lambda>a. ka_fact_key a = key" "facts_of g db"]
    bare_filter[of "\<lambda>a. ka_fact_key a = key" "facts_of g db'"]
  by (simp add: facts_with_key_def)

lemma keyed_fields:
  assumes "same_knowledge db db'"
  shows "map ka_fact_id (facts_with_key g key db') = map ka_fact_id (facts_with_key g key db)"
    and "map ka_value_hash (facts_with_key g key db') = map ka_value_hash (facts_with_key g key db)"
    and "map ka_fragment_id (facts_with_key g key db') = map ka_fragment_id (facts_with_key g key db)"
proof -
  have step: "map f (facts_with_key g key db') = map f (facts_with_key g key db)" if "\<And>a. f (bare_fact a) = f a" for f :: "KFact \<Rightarrow> string"
    using arg_cong[OF facts_with_key_bare[OF assms], of "map f" g key] that by (simp add: comp_def)
  show "map ka_fact_id (facts_with_key g key db') = map ka_fact_id (facts_with_key g key db)" by (rule step) simp
  show "map ka_value_hash (facts_with_key g key db') = map ka_value_hash (facts_with_key g key db)" by (rule step) simp
  show "map ka_fragment_id (facts_with_key g key db') = map ka_fragment_id (facts_with_key g key db)" by (rule step) simp
qed

lemma keys_bare:
  assumes "same_knowledge db db'"
  shows "map ka_fact_key (facts_of g db') = map ka_fact_key (facts_of g db)"
  using arg_cong[OF facts_of_bare[OF assms], of "map ka_fact_key" g] by (simp add: comp_def)

lemma contested_keys_bare: "same_knowledge db db' \<Longrightarrow> contested_keys g db' = contested_keys g db"
  by (simp add: contested_keys_def keyed_fields keys_bare)

lemma contested_iff:
  "key \<in> set (contested_keys g db) \<longleftrightarrow>
     (\<exists>a \<in> set (facts_of g db). \<exists>b \<in> set (facts_of g db).
        ka_fact_key a = key \<and> ka_fact_key b = key \<and> ka_value_hash a \<noteq> ka_value_hash b)"
proof -
  let ?hashes = "ka_value_hash ` set (facts_with_key g key db)"
  have "1 < length (dedup (map ka_value_hash (facts_with_key g key db))) \<longleftrightarrow> \<not> card ?hashes \<le> Suc 0"
    by (simp add: length_dedup_card) linarith
  also have "\<dots> \<longleftrightarrow> (\<exists>x \<in> ?hashes. \<exists>y \<in> ?hashes. x \<noteq> y)"
    by (simp only: card_le_Suc0_iff_eq[OF finite_imageI[OF finite_set]] bex_simps ball_simps)
  also have "\<dots> \<longleftrightarrow> (\<exists>a \<in> set (facts_of g db). \<exists>b \<in> set (facts_of g db).
      ka_fact_key a = key \<and> ka_fact_key b = key \<and> ka_value_hash a \<noteq> ka_value_hash b)"
    by (auto simp: facts_with_key_def)
  finally show ?thesis by (auto simp: contested_keys_def)
qed

text \<open>One conflict per contested key, naming the facts of the key.\<close>

definition conflict_entry :: "KConflict \<Rightarrow> string \<times> string \<times> string list" where
  "conflict_entry c = (kc_generation_id c, kc_fact_key c, kc_fact_ids c)"

lemma record_conflicts_entries:
  "record_conflicts env now g p keys db = Inr db' \<Longrightarrow>
     map conflict_entry (kd_conflicts db') =
       map conflict_entry (kd_conflicts db) @ map (\<lambda>k. (g, k, sort (map ka_fact_id (facts_with_key g k db)))) keys"
proof (induction keys arbitrary: db)
  case (Cons key keys)
  then obtain m where m: "record_conflict env now g p key db = Inr m" "record_conflicts env now g p keys m = Inr db'" by auto
  from Cons.IH[OF m(2)] keyed_fields(1)[OF same_record[OF m(1)]] m(1)
  show ?case by (auto simp: record_conflict_def Let_def conflict_entry_def)
qed simp

lemma recompute_entries:
  assumes ok: "recompute_conflicts env now g p db = Inr db'"
  shows "map conflict_entry (kd_conflicts db') =
     map conflict_entry (filter (\<lambda>c. kc_generation_id c \<noteq> g) (kd_conflicts db)) @
     map (\<lambda>k. (g, k, sort (map ka_fact_id (facts_with_key g k db)))) (contested_keys g db)"
proof -
  have "record_conflicts env now g p (contested_keys g (reset_conflicts g db)) (reset_conflicts g db) = Inr db'"
    using ok by (simp add: recompute_conflicts_def Let_def)
  from record_conflicts_entries[OF this] show ?thesis
    by (simp add: contested_keys_bare[OF same_reset] keyed_fields(1)[OF same_reset])
      (simp add: reset_conflicts_def Let_def)
qed

lemma activation_conflicts:
  assumes ok: "activate_generation env now p g db = Inr db'"
  shows "map conflict_entry (kd_conflicts db') =
     map conflict_entry (filter (\<lambda>c. kc_generation_id c \<noteq> g) (kd_conflicts db)) @
     map (\<lambda>k. (g, k, sort (map ka_fact_id (facts_with_key g k db)))) (contested_keys g db)"
proof -
  from ok obtain db1 where db1: "recompute_conflicts env now g p db = Inr db1" "kd_conflicts db' = kd_conflicts db1"
    unfolding activate_generation_def Let_def
    by (auto simp: publish_sources_def set_status_def split: option.splits)
  from recompute_entries[OF db1(1)] db1(2) show ?thesis by simp
qed

text \<open>activating a generation records exactly the keys for which its facts hold two different values, each with all its facts.\<close>

theorem activation_records_exactly_the_contested_keys:
  assumes "activate_generation env now project_id generation_id db = Inr db'"
  shows "(\<exists>c \<in> set (kd_conflicts db'). kc_generation_id c = generation_id \<and> kc_fact_key c = key \<and> kc_fact_ids c = ids) \<longleftrightarrow>
     ids = sort (map ka_fact_id (facts_with_key generation_id key db)) \<and>
     (\<exists>a \<in> set (facts_of generation_id db). \<exists>b \<in> set (facts_of generation_id db).
        ka_fact_key a = key \<and> ka_fact_key b = key \<and> ka_value_hash a \<noteq> ka_value_hash b)"
proof -
  have "(\<exists>c \<in> set (kd_conflicts db'). kc_generation_id c = generation_id \<and> kc_fact_key c = key \<and> kc_fact_ids c = ids) \<longleftrightarrow>
      (generation_id, key, ids) \<in> set (map conflict_entry (kd_conflicts db'))"
    by (auto simp: conflict_entry_def image_iff)
  also have "\<dots> \<longleftrightarrow> key \<in> set (contested_keys generation_id db) \<and> ids = sort (map ka_fact_id (facts_with_key generation_id key db))"
    unfolding activation_conflicts[OF assms] by (auto simp: conflict_entry_def)
  finally show ?thesis unfolding contested_iff by blast
qed

section \<open>Publication\<close>

text \<open>C33: whatever operations a knowledge store executed, the active generation of a project is exactly its generation of status active.\<close>

theorem a_project_publishes_one_generation:
  assumes "project_of project_id (run_knowledge env ops empty_knowledge_db) = Some p"
  shows "{kg_generation_id g | g. g \<in> set (kd_generations (run_knowledge env ops empty_knowledge_db)) \<and>
      kg_project_id g = project_id \<and> kg_status g = GenActive} = set_option (kp_active_generation_id p)"
proof -
  let ?db = "run_knowledge env ops empty_knowledge_db"
  have inv: "active_matches (kd_projects ?db) (kd_generations ?db)"
    using one_active_run[OF one_active_empty] by (simp add: one_active_def)
  have p: "p \<in> set (kd_projects ?db)" "kp_project_id p = project_id"
    using select_Some_in[of kp_project_id project_id "kd_projects ?db" p] assms by (simp_all add: project_of_def)
  show ?thesis
  proof (intro set_eqI iffI)
    fix i assume "i \<in> {kg_generation_id g | g. g \<in> set (kd_generations ?db) \<and> kg_project_id g = project_id \<and> kg_status g = GenActive}"
    then obtain g where "g \<in> set (kd_generations ?db)" "kg_project_id g = project_id" "kg_status g = GenActive"
        "i = kg_generation_id g" by blast
    with active_status[OF inv p(1)] p(2) show "i \<in> set_option (kp_active_generation_id p)" by simp
  next
    fix i assume "i \<in> set_option (kp_active_generation_id p)"
    then have i: "kp_active_generation_id p = Some i" by simp
    from active_exists[OF inv p(1) i] obtain g
      where g: "g \<in> set (kd_generations ?db)" "kg_generation_id g = i" "kg_project_id g = kp_project_id p" by blast
    with active_status[OF inv p(1)] i p(2)
    show "i \<in> {kg_generation_id g | g. g \<in> set (kd_generations ?db) \<and> kg_project_id g = project_id \<and> kg_status g = GenActive}"
      by force
  qed
qed

section \<open>Purging\<close>

lemma recompute_all_same: "recompute_all env now s gs db = Inr db' \<Longrightarrow> same_knowledge db db'"
proof (induction gs arbitrary: db)
  case (Cons g gs)
  let ?d = "if ks_source_origin s = ''repository'' then forget_map g db else db"
  from Cons.prems obtain db1 where steps: "recompute_conflicts env now g (ks_project_id s) ?d = Inr db1"
      "recompute_all env now s gs db1 = Inr db'" by auto
  have "same_knowledge db ?d" by (simp add: same_knowledge_def forget_map_def)
  then show ?case using same_recompute[OF steps(1)] Cons.IH[OF steps(2)] same_knowledge_trans by blast
qed simp

lemma purge_tables:
  assumes ok: "purge_source env now checkpoint physical source_id owner path True db = Inr db'"
  shows "same_knowledge (remove_source source_id db) db'"
proof -
  from ok obtain s where s: "ks_source_id s = source_id"
      "\<exists>d. purge_logically env now s db = Inr d \<and> same_knowledge d db'"
    unfolding purge_source_def
    by (auto simp: owned_source_def find_Some_iff audit_knowledge_def same_knowledge_def)
  then obtain d db2 where "recompute_all env now s
      (generations_with source_id (interrupt_builds now (ks_project_id s) db))
      (remove_source source_id (interrupt_builds now (ks_project_id s) db)) = Inr db2" "same_knowledge db2 db'"
    unfolding purge_logically_def by (auto simp: Let_def audit_knowledge_def same_knowledge_def)
  then have "same_knowledge (remove_source source_id (interrupt_builds now (ks_project_id s) db)) db'"
    using recompute_all_same same_knowledge_trans by blast
  moreover have "same_knowledge (remove_source source_id db) (remove_source source_id (interrupt_builds now (ks_project_id s) db))"
    by (simp add: same_knowledge_def remove_source_def interrupt_builds_def delete_sources_def delete_versions_def
        unindex_def versions_of_def Let_def)
  ultimately show ?thesis using same_knowledge_trans by blast
qed

lemma remove_source_tables:
  assumes "source_id \<in> ks_source_id ` set (kd_sources db)"
  shows "kd_sources (remove_source source_id db) = filter (\<lambda>s. ks_source_id s \<noteq> source_id) (kd_sources db)"
    and "kd_versions (remove_source source_id db) = filter (\<lambda>v. kv_source_id v \<noteq> source_id) (kd_versions db)"
    and "kd_members (remove_source source_id db) =
      filter (\<lambda>m. km_version_id m \<notin> versions_of source_id db \<and> km_source_id m \<noteq> source_id) (kd_members db)"
    and "kd_fragments (remove_source source_id db) = filter (\<lambda>f. kf_version_id f \<notin> versions_of source_id db) (kd_fragments db)"
    and "kd_facts (remove_source source_id db) = filter (\<lambda>a. ka_version_id a \<notin> versions_of source_id db) (kd_facts db)"
    and "kd_index (remove_source source_id db) =
      filter (\<lambda>x. \<not> (\<exists>f \<in> set (kd_fragments db). kf_version_id f \<in> versions_of source_id db \<and>
        kf_fragment_id f = kx_fragment_id x)) (kd_index db)"
proof -
  have ids: "ks_source_id ` {s \<in> set (kd_sources db). ks_source_id s = source_id} = {source_id}" using assms by auto
  show "kd_sources (remove_source source_id db) = filter (\<lambda>s. ks_source_id s \<noteq> source_id) (kd_sources db)"
    and "kd_versions (remove_source source_id db) = filter (\<lambda>v. kv_source_id v \<noteq> source_id) (kd_versions db)"
    and "kd_members (remove_source source_id db) =
      filter (\<lambda>m. km_version_id m \<notin> versions_of source_id db \<and> km_source_id m \<noteq> source_id) (kd_members db)"
    and "kd_fragments (remove_source source_id db) = filter (\<lambda>f. kf_version_id f \<notin> versions_of source_id db) (kd_fragments db)"
    and "kd_facts (remove_source source_id db) = filter (\<lambda>a. ka_version_id a \<notin> versions_of source_id db) (kd_facts db)"
    by (simp_all add: remove_source_def Let_def delete_sources_def delete_versions_def unindex_def ids versions_of_def cong del: image_cong_simp)
  have frags: "x \<in> kf_fragment_id ` {f \<in> set (kd_fragments db). kf_version_id f \<in> versions_of source_id db} \<longleftrightarrow>
      (\<exists>f \<in> set (kd_fragments db). kf_version_id f \<in> versions_of source_id db \<and> kf_fragment_id f = x)" for x by auto
  show "kd_index (remove_source source_id db) =
      filter (\<lambda>x. \<not> (\<exists>f \<in> set (kd_fragments db). kf_version_id f \<in> versions_of source_id db \<and>
        kf_fragment_id f = kx_fragment_id x)) (kd_index db)"
    by (simp add: remove_source_def Let_def delete_sources_def delete_versions_def unindex_def frags cong del: image_cong_simp)
qed


text \<open>C34: once a source was purged, no build that was running in its project is ever activated, whatever is executed later.\<close>

theorem purged_builds_are_never_published:
  assumes "purge_source env now checkpoint physical source_id owner path True
      (run_knowledge env ops empty_knowledge_db) = Inr db'"
    and "owned_source source_id owner (run_knowledge env ops empty_knowledge_db) = Some s"
    and "g \<in> set (kd_generations (run_knowledge env ops empty_knowledge_db))"
    and "kg_project_id g = ks_project_id s" and "kg_status g = GenBuilding"
    and "\<not> list_ex (begins (kg_generation_id g)) later"
    and "x \<in> set (kd_generations (run_knowledge env later db'))" and "kg_generation_id x = kg_generation_id g"
  shows "kg_status x = GenFailed"
proof -
  let ?db = "run_knowledge env ops empty_knowledge_db"
  have inv: "one_active ?db" using one_active_run[OF one_active_empty] .
  from assms(1,2) obtain d where d: "purge_logically env now s ?db = Inr d" "heads db' = heads d"
    unfolding purge_source_def by auto
  have "inj_on kg_generation_id (set (kd_generations ?db))"
    using inv by (simp add: one_active_def active_matches_def distinct_map)
  then have "h = g" if "h \<in> set (kd_generations ?db)" "kg_generation_id h = kg_generation_id g" for h
    using inj_onD[OF _ that(2) that(1) assms(3)] by blast
  then have "dead_build (kg_generation_id g) (interrupt_builds now (ks_project_id s) ?db)"
    using assms(4,5) by (fastforce simp: dead_build_def interrupt_builds_def)
  from dead_purge_logically[OF d(1) this] dead_heads[OF d(2)]
  have "dead_build (kg_generation_id g) db'" by blast
  from dead_run[OF one_active_purge[OF inv assms(1)] this assms(6)] assms(7,8)
  show ?thesis by (simp add: dead_build_def)
qed

section \<open>Failed builds\<close>

text \<open>Foreign keys and primary keys: members name a version of their source, fragments are unique.\<close>

definition members_fit :: "KnowledgeDb \<Rightarrow> bool" where
  "members_fit db \<longleftrightarrow>
     list_all (\<lambda>m. list_ex (\<lambda>v. kv_version_id v = km_version_id m \<and> kv_source_id v = km_source_id m) (kd_versions db)) (kd_members db) \<and>
     distinct (map kf_fragment_id (kd_fragments db))"

text \<open>What a reader of a generation finds: its members, and the rows of a version.\<close>

definition version_rows :: "string \<Rightarrow> KnowledgeDb \<Rightarrow> KVersion list \<times> KFragment list \<times> KFact list \<times> KIndexed list" where
  "version_rows version_id db =
     (let fragments = filter (\<lambda>f. kf_version_id f = version_id) (kd_fragments db) in
      (filter (\<lambda>v. kv_version_id v = version_id) (kd_versions db), fragments,
       filter (\<lambda>a. ka_version_id a = version_id) (kd_facts db),
       filter (\<lambda>x. kx_fragment_id x \<in> kf_fragment_id ` set fragments) (kd_index db)))"

lemma delete_unversioned_rows:
  "kd_versions (delete_unversioned p db) = kd_versions db"
  "kd_fragments (delete_unversioned p db) = kd_fragments db"
  "kd_facts (delete_unversioned p db) = kd_facts db"
  "kd_index (delete_unversioned p db) = kd_index db"
proof -
  let ?gone = "\<lambda>s. ks_project_id s = p \<and> ks_source_id s \<notin> kv_source_id ` set (kd_versions db)"
  have none: "filter (\<lambda>v. kv_source_id v \<in> ks_source_id ` set (filter ?gone (kd_sources db))) (kd_versions db) = []"
    by (auto simp: filter_empty_conv) (metis imageI)
  then have all: "filter (\<lambda>v. kv_source_id v \<notin> ks_source_id ` set (filter ?gone (kd_sources db))) (kd_versions db) = kd_versions db"
    by (auto simp: filter_empty_conv filter_id_conv)
  show "kd_versions (delete_unversioned p db) = kd_versions db"
    "kd_fragments (delete_unversioned p db) = kd_fragments db"
    "kd_facts (delete_unversioned p db) = kd_facts db"
    "kd_index (delete_unversioned p db) = kd_index db"
    unfolding delete_unversioned_def delete_sources_def delete_versions_def Let_def none all by simp_all
qed

lemma delete_unversioned_members:
  assumes "m \<in> set (kd_members db)" and "km_source_id m \<in> kv_source_id ` set (kd_versions db)"
  shows "m \<in> set (kd_members (delete_unversioned p db))"
proof -
  let ?gone = "\<lambda>s. ks_project_id s = p \<and> ks_source_id s \<notin> kv_source_id ` set (kd_versions db)"
  have none: "filter (\<lambda>v. kv_source_id v \<in> ks_source_id ` set (filter ?gone (kd_sources db))) (kd_versions db) = []"
    by (auto simp: filter_empty_conv) (metis imageI)
  show ?thesis using assms
    unfolding delete_unversioned_def delete_sources_def delete_versions_def Let_def none by auto
qed

text \<open>A version that another generation uses is not disposable.\<close>

lemma not_disposable:
  "m \<in> set (kd_members db) \<Longrightarrow> km_generation_id m \<noteq> g \<Longrightarrow> km_version_id m \<notin> set (disposable_versions g db)"
  by (auto simp: disposable_versions_def list_ex_iff)

text \<open>A failed build takes only its own rows away: every membership of another generation stays, with the version it names, its fragments, facts and index entries.\<close>

theorem failed_build_keeps_every_other_generation:
  assumes fit: "members_fit db" and m: "m \<in> set (members_of other db)" and other: "other \<noteq> g"
  shows "m \<in> set (members_of other (fail_generation now g reason db)) \<and>
    version_rows (km_version_id m) (fail_generation now g reason db) = version_rows (km_version_id m) db"
proof (cases "find (\<lambda>x. kg_generation_id x = g \<and> unfinished x \<and> project_of (kg_project_id x) db \<noteq> None) (kd_generations db)")
  case None
  with m show ?thesis by (simp add: fail_generation_def)
next
  case (Some x)
  have x: "kg_generation_id x = g" using Some by (auto simp: find_Some_iff)
  define versions where "versions = set (disposable_versions g db)"
  define frags where "frags = kf_fragment_id ` set (filter (\<lambda>f. kf_version_id f \<in> versions) (kd_fragments db))"
  define d where "d = delete_versions (\<lambda>v. kv_version_id v \<in> versions)
    (delete_generations (\<lambda>y. kg_generation_id y = g) (unindex frags db))"
  have result: "\<exists>owner. fail_generation now g reason db =
      audit_knowledge now owner (Some (kg_project_id x)) None ''build'' ''failed'' (Some reason)
        (delete_unversioned (kg_project_id x) d)"
    using Some by (auto simp: fail_generation_def Let_def d_def frags_def versions_def)
  have mem: "m \<in> set (kd_members db)" "km_generation_id m = other" using m by (auto simp: members_of_def)
  have keep: "km_version_id m \<notin> versions" using not_disposable[of m db g] mem other by (simp add: versions_def)
  obtain v where v: "v \<in> set (kd_versions db)" "kv_version_id v = km_version_id m" "kv_source_id v = km_source_id m"
    using fit mem(1) by (auto simp: members_fit_def list_all_iff list_ex_iff)
  have dm: "m \<in> set (kd_members d)" "v \<in> set (kd_versions d)"
    using mem other keep v(1,2)
    by (auto simp: d_def delete_versions_def delete_generations_def unindex_def Let_def)
  have "m \<in> set (kd_members (delete_unversioned (kg_project_id x) d))"
    using delete_unversioned_members[OF dm(1)] dm(2) v(3) by (metis imageI)
  then have member: "m \<in> set (members_of other (fail_generation now g reason db))"
    using result mem(2) by (auto simp: members_of_def audit_knowledge_def)
  have gone: "kv_version_id ` {y \<in> set (kd_versions db). kv_version_id y \<in> versions} \<subseteq> versions" by auto
  have rows: "filter (\<lambda>y. kv_version_id y = km_version_id m) (kd_versions d) = filter (\<lambda>y. kv_version_id y = km_version_id m) (kd_versions db)"
    "filter (\<lambda>f. kf_version_id f = km_version_id m) (kd_fragments d) = filter (\<lambda>f. kf_version_id f = km_version_id m) (kd_fragments db)"
    "filter (\<lambda>a. ka_version_id a = km_version_id m) (kd_facts d) = filter (\<lambda>a. ka_version_id a = km_version_id m) (kd_facts db)"
    using keep gone
    by (auto simp: d_def delete_versions_def delete_generations_def unindex_def Let_def intro!: filter_cong)
  have inj: "inj_on kf_fragment_id (set (kd_fragments db))" using fit by (simp add: members_fit_def distinct_map)
  have "kf_fragment_id f \<notin> frags" if "f \<in> set (kd_fragments db)" "kf_version_id f = km_version_id m" for f
  proof
    assume "kf_fragment_id f \<in> frags"
    then obtain f' where "f' \<in> set (kd_fragments db)" "kf_version_id f' \<in> versions" "kf_fragment_id f' = kf_fragment_id f"
      by (auto simp: frags_def)
    with inj_onD[OF inj, of f' f] that keep show False by auto
  qed
  then have index: "filter (\<lambda>y. kx_fragment_id y \<in> kf_fragment_id ` set (filter (\<lambda>f. kf_version_id f = km_version_id m) (kd_fragments db))) (kd_index d)
    = filter (\<lambda>y. kx_fragment_id y \<in> kf_fragment_id ` set (filter (\<lambda>f. kf_version_id f = km_version_id m) (kd_fragments db))) (kd_index db)"
    by (auto simp: d_def delete_versions_def delete_generations_def unindex_def Let_def intro!: filter_cong)
  have "version_rows (km_version_id m) (fail_generation now g reason db) = version_rows (km_version_id m) d"
    using result by (auto simp: version_rows_def Let_def audit_knowledge_def delete_unversioned_rows)
  also have "\<dots> = version_rows (km_version_id m) db"
    by (simp only: version_rows_def Let_def rows index)
  finally show ?thesis using member by simp
qed

end
