(* ===== verification/KnowledgeRetrievalProperties.thy ===== *)
theory KnowledgeRetrievalProperties
  imports KnowledgeRetrieval KnowledgeProperties
begin

text \<open>
  Properties of a retrieval: the loop chooses a subsequence of the search rows that keeps the token
  budget, the limits per source and per request; every fragment belongs to the owner's project and, unless
  stale knowledge was asked for, to its active generation; what is left out did not fit.
\<close>

section \<open>The selection loop\<close>

definition row_source :: "SearchRow \<Rightarrow> string" where
  "row_source r = ks_source_id (sr_source r)"

definition row_tokens :: "SearchRow \<Rightarrow> int" where
  "row_tokens r = estimated_tokens (kf_content (sr_fragment r))"

definition row_hash :: "SearchRow \<Rightarrow> string" where
  "row_hash r = kf_content_hash (sr_fragment r)"

text \<open>The locals after the rows \<open>chosen\<close> were taken.\<close>

definition chosen_state :: "string list \<Rightarrow> int \<Rightarrow> SearchRow list \<Rightarrow> Selection \<Rightarrow> bool" where
  "chosen_state terms budget chosen sel \<longleftrightarrow>
     sel_fragments sel = map (retrieved_fragment terms) chosen \<and>
     sel_remaining sel = budget - sum_list (map row_tokens chosen) \<and> 0 \<le> sel_remaining sel \<and>
     (\<forall>s. sel_per_source sel s = length (filter (\<lambda>r. row_source r = s) chosen)) \<and>
     (\<forall>s. length (filter (\<lambda>r. row_source r = s) chosen) \<le> 3) \<and>
     sel_hashes sel = map row_hash chosen \<and> distinct (map row_hash chosen)"

lemma chosen_start: "0 \<le> budget \<Longrightarrow> chosen_state terms budget [] (start_selection budget)"
  by (simp add: chosen_state_def start_selection_def)

lemma chosen_take:
  assumes "chosen_state terms budget chosen sel" and "\<not> skipped False r sel"
  shows "chosen_state terms budget (chosen @ [r]) (take_row False terms r sel)"
  using assms by (auto simp: chosen_state_def skipped_def take_row_def Let_def row_source_def row_tokens_def row_hash_def)

text \<open>Why a row was left out, told by the rows that were chosen.\<close>

definition left_out :: "int \<Rightarrow> SearchRow list \<Rightarrow> SearchRow \<Rightarrow> bool" where
  "left_out budget chosen r \<longleftrightarrow>
     length (filter (\<lambda>c. row_source c = row_source r) chosen) = 3 \<or> row_hash r \<in> row_hash ` set chosen \<or>
     budget - sum_list (map row_tokens chosen) < row_tokens r"

lemma row_tokens_pos: "0 < row_tokens r"
  by (simp add: row_tokens_def estimated_tokens_def)

lemma skipped_left_out:
  assumes "chosen_state terms budget chosen sel" and "skipped False r sel" and "chosen_state terms budget (chosen @ extra) sel'"
  shows "left_out budget (chosen @ extra) r"
proof -
  let ?count = "\<lambda>xs. length (filter (\<lambda>c. row_source c = row_source r) xs)"
  consider "3 \<le> ?count chosen" | "row_hash r \<in> row_hash ` set chosen" | "budget - sum_list (map row_tokens chosen) < row_tokens r"
    using assms(1,2) by (auto simp: chosen_state_def skipped_def row_source_def row_hash_def row_tokens_def)
  then show ?thesis
  proof cases
    case 1
    moreover have "?count (chosen @ extra) \<le> 3" using assms(3) unfolding chosen_state_def by metis
    ultimately show ?thesis by (simp add: left_out_def)
  next
    case 3
    have "0 \<le> sum_list (map row_tokens extra)"
      by (intro sum_list_nonneg) (auto simp: less_imp_le[OF row_tokens_pos])
    with 3 show ?thesis by (simp add: left_out_def)
  qed (auto simp: left_out_def)
qed

lemma select_rows_chosen:
  assumes "select_rows False limit terms rows sel = Inr sel'" and "chosen_state terms budget chosen sel"
    and "int (length chosen) < limit"
  shows "\<exists>extra. subseq extra rows \<and> chosen_state terms budget (chosen @ extra) sel' \<and>
    int (length (chosen @ extra)) \<le> limit \<and>
    (int (length (chosen @ extra)) < limit \<longrightarrow>
       (\<forall>r \<in> set rows. r \<in> set extra \<or> left_out budget (chosen @ extra) r))"
  using assms
proof (induction rows arbitrary: sel chosen)
  case Nil
  then show ?case by (intro exI[of _ "[]"]) simp
next
  case (Cons r rows)
  show ?case
  proof (cases "skipped False r sel")
    case True
    with Cons.prems(1) have "select_rows False limit terms rows sel = Inr sel'" by simp
    from Cons.IH[OF this Cons.prems(2,3)] obtain extra where extra: "subseq extra rows"
        "chosen_state terms budget (chosen @ extra) sel'" "int (length (chosen @ extra)) \<le> limit"
        "int (length (chosen @ extra)) < limit \<longrightarrow> (\<forall>r \<in> set rows. r \<in> set extra \<or> left_out budget (chosen @ extra) r)"
      by blast
    with skipped_left_out[OF Cons.prems(2) True extra(2)] show ?thesis
      by (intro exI[of _ extra]) (auto intro: subseq_Cons')
  next
    case False
    let ?next = "take_row False terms r sel"
    have state: "chosen_state terms budget (chosen @ [r]) ?next" by (rule chosen_take[OF Cons.prems(2) False])
    then have len: "length (sel_fragments ?next) = length (chosen @ [r])" by (simp add: chosen_state_def)
    show ?thesis
    proof (cases "limit \<le> int (length (sel_fragments ?next))")
      case True
      with False Cons.prems(1) have "sel' = ?next" by auto
      moreover have "int (length (chosen @ [r])) = limit" using True len Cons.prems(3) by simp
      ultimately show ?thesis using state by (intro exI[of _ "[r]"]) auto
    next
      case go: False
      with False Cons.prems(1) have "select_rows False limit terms rows ?next = Inr sel'" by auto
      from Cons.IH[OF this state] go len obtain extra where "subseq extra rows"
          "chosen_state terms budget ((chosen @ [r]) @ extra) sel'" "int (length ((chosen @ [r]) @ extra)) \<le> limit"
          "int (length ((chosen @ [r]) @ extra)) < limit \<longrightarrow>
             (\<forall>x \<in> set rows. x \<in> set extra \<or> left_out budget ((chosen @ [r]) @ extra) x)"
        by force
      then show ?thesis by (intro exI[of _ "r # extra"]) auto
    qed
  qed
qed

lemma select_rows_total:
  "(\<And>r. r \<in> set rows \<Longrightarrow> fragment_ok (retrieved_fragment terms r)) \<Longrightarrow> \<exists>sel'. select_rows pool limit terms rows sel = Inr sel'"
proof (induction rows arbitrary: sel)
  case (Cons r rows)
  then show ?case by (auto simp: and_then_def guard_def)
qed simp

section \<open>Retrievals\<close>

lemma fragments_tokens: "sum_list (map rf_estimated_tokens (map (retrieved_fragment terms) rows)) = sum_list (map row_tokens rows)"
  by (induction rows) (simp_all add: retrieved_fragment_def Let_def row_tokens_def)

text \<open>A retrieval for a prompt is a choice among its first 256 search rows.\<close>

lemma retrieval_choice:
  assumes ok: "retrieve_knowledge fts r False offset db = Inr res" and budget: "0 \<le> rr_token_budget r" "0 < rr_max_fragments r"
    and terms: "query_terms (rr_query r) = Inr terms" and path: "fs_resolve fts (rr_project_path r) = Some canonical"
    and kinds: "rr_allowed_source_types r \<noteq> Some []"
  obtains chosen where "subseq chosen (take 256 (search_rows fts terms r canonical db))"
    "rs_fragments res = map (retrieved_fragment terms) chosen"
    "rs_estimated_tokens res = sum_list (map row_tokens chosen)" "rs_estimated_tokens res \<le> rr_token_budget r"
    "int (length chosen) \<le> rr_max_fragments r" "\<And>s. length (filter (\<lambda>c. row_source c = s) chosen) \<le> 3"
    "distinct (map row_hash chosen)"
    "\<And>c. int (length chosen) < rr_max_fragments r \<Longrightarrow> c \<in> set (take 256 (search_rows fts terms r canonical db)) \<Longrightarrow>
       c \<in> set chosen \<or> left_out (rr_token_budget r) chosen c"
proof -
  obtain sel where sel: "select_rows False (rr_max_fragments r) terms (take 256 (search_rows fts terms r canonical db))
        (start_selection (rr_token_budget r)) = Inr sel"
      "retrieval_result canonical (rr_query r) (rr_token_budget r) (sel_fragments sel) None = Inr res"
    using ok kinds by (auto simp: retrieve_knowledge_def terms path or_fail_def and_then_def Let_def split: sum.splits)
  from select_rows_chosen[OF sel(1) chosen_start[OF budget(1)]] budget(2) obtain chosen where c:
      "subseq chosen (take 256 (search_rows fts terms r canonical db))"
      "chosen_state terms (rr_token_budget r) chosen sel" "int (length chosen) \<le> rr_max_fragments r"
      "int (length chosen) < rr_max_fragments r \<longrightarrow>
        (\<forall>c \<in> set (take 256 (search_rows fts terms r canonical db)). c \<in> set chosen \<or> left_out (rr_token_budget r) chosen c)"
    by auto
  have res: "rs_fragments res = sel_fragments sel" "rs_estimated_tokens res = sum_list (map rf_estimated_tokens (sel_fragments sel))"
    using sel(2) by (auto simp: retrieval_result_def Let_def)
  have tokens: "rs_estimated_tokens res = sum_list (map row_tokens chosen)"
    using c(2) unfolding res chosen_state_def by (simp only: fragments_tokens)
  show ?thesis
  proof (rule that[OF c(1) _ tokens _ c(3)])
    show "rs_fragments res = map (retrieved_fragment terms) chosen" using c(2) by (simp add: res chosen_state_def)
    show "rs_estimated_tokens res \<le> rr_token_budget r" using c(2) by (simp add: tokens chosen_state_def)
    show "length (filter (\<lambda>c. row_source c = s) chosen) \<le> 3" for s using c(2) unfolding chosen_state_def by metis
    show "distinct (map row_hash chosen)" using c(2) by (simp add: chosen_state_def)
    fix c show "int (length chosen) < rr_max_fragments r \<Longrightarrow> c \<in> set (take 256 (search_rows fts terms r canonical db)) \<Longrightarrow>
       c \<in> set chosen \<or> left_out (rr_token_budget r) chosen c" using c(4) by blast
  qed
qed


section \<open>Where fragments come from\<close>

lemma set_best_of_source: "set (best_of_source limit seen rows) \<subseteq> set rows"
proof (induction rows arbitrary: seen)
  case (Cons r rows)
  then show ?case by (auto simp: Let_def dest!: subsetD[OF Cons.IH])
qed simp

text \<open>A search row joins a member of a published generation of the project with its source, version and fragment.\<close>

lemma search_rows_origin:
  assumes "c \<in> set (search_rows fts terms r canonical db)"
  obtains p where "project_at (rr_owner_id r) canonical db = Some p"
    "sr_source c \<in> set (kd_sources db)" "ks_project_id (sr_source c) = kp_project_id p"
    "kind_allowed (rr_allowed_source_types r) (ks_source_kind (sr_source c))"
    "sr_version c \<in> set (kd_versions db)" "kv_source_id (sr_version c) = ks_source_id (sr_source c)"
    "sr_fragment c \<in> set (kd_fragments db)" "kf_version_id (sr_fragment c) = kv_version_id (sr_version c)"
    "ob_member (sr_observation c) \<in> set (kd_members db)"
    "km_source_id (ob_member (sr_observation c)) = ks_source_id (sr_source c)"
    "km_version_id (ob_member (sr_observation c)) = kv_version_id (sr_version c)"
    "ob_generation (sr_observation c) \<in> set (kd_generations db)"
    "kg_generation_id (ob_generation (sr_observation c)) = km_generation_id (ob_member (sr_observation c))"
    "kg_status (ob_generation (sr_observation c)) \<in> {GenActive, GenSuperseded}"
    "ob_active (sr_observation c) = (kp_active_generation_id p = Some (km_generation_id (ob_member (sr_observation c))))"
    "rr_freshness r = IncludeStale \<or> ob_active (sr_observation c)"
proof -
  from assms obtain p where p0: "project_at (rr_owner_id r) canonical db = Some p"
    by (cases "project_at (rr_owner_id r) canonical db") (auto simp: search_rows_def)
  let ?rows = "match_rows fts terms (rr_freshness r) (rr_allowed_source_types r) p db"
  have "c \<in> set (balanced_rows ?rows)" using assms p0 by (simp add: search_rows_def ordered_rows_def)
  then have "c \<in> set (sort_key sr_rank (sort_key (\<lambda>r. kf_ordinal (sr_fragment r)) ?rows))"
    unfolding balanced_rows_def by (rule subsetD[OF set_best_of_source])
  then have p: "project_at (rr_owner_id r) canonical db = Some p" "c \<in> set ?rows" using p0 by simp_all
  from p(2) obtain s v ob where row: "s \<in> set (kd_sources db)" "ks_project_id s = kp_project_id p"
      "kind_allowed (rr_allowed_source_types r) (ks_source_kind s)"
      "v \<in> set (kd_versions db)" "kv_source_id v = ks_source_id s"
      "ob \<in> set (published_observations p db)" "km_source_id (ob_member ob) = ks_source_id s"
      "km_version_id (ob_member ob) = kv_version_id v" "rr_freshness r = IncludeStale \<or> ob_active ob"
      "c \<in> set (rows_of_observation fts terms db s v ob)"
    unfolding match_rows_def first_observations_def by auto
  from row(10) have parts: "sr_source c = s" "sr_version c = v" "sr_observation c = ob"
      "sr_fragment c \<in> set (kd_fragments db)" "kf_version_id (sr_fragment c) = kv_version_id v"
    by (auto simp: rows_of_observation_def)
  from row(6) have ob: "ob_member ob \<in> set (kd_members db)" "ob_generation ob \<in> set (kd_generations db)"
      "kg_generation_id (ob_generation ob) = km_generation_id (ob_member ob)"
      "kg_status (ob_generation ob) \<in> {GenActive, GenSuperseded}"
      "ob_active ob = (kp_active_generation_id p = Some (km_generation_id (ob_member ob)))"
    by (auto simp: published_observations_def)
  from that[OF p(1)] row ob parts show ?thesis by simp
qed

lemma retrieved_row:
  assumes "retrieve_knowledge fts r False offset db = Inr res" and "0 \<le> rr_token_budget r" "0 < rr_max_fragments r"
    and "f \<in> set (rs_fragments res)"
  obtains terms canonical c where "fs_resolve fts (rr_project_path r) = Some canonical"
    "c \<in> set (search_rows fts terms r canonical db)" "f = retrieved_fragment terms c"
proof -
  from assms(1) obtain terms canonical where t: "query_terms (rr_query r) = Inr terms"
      "fs_resolve fts (rr_project_path r) = Some canonical"
    by (auto simp: retrieve_knowledge_def or_fail_def and_then_def split: sum.splits option.splits)
  have kinds: "rr_allowed_source_types r \<noteq> Some []"
    using assms(1,4) t by (auto simp: retrieve_knowledge_def retrieval_result_def Let_def)
  show ?thesis
  proof (rule retrieval_choice[OF assms(1-3) t kinds])
    fix chosen assume c: "subseq chosen (take 256 (search_rows fts terms r canonical db))"
      "rs_fragments res = map (retrieved_fragment terms) chosen"
    from c(2) assms(4) obtain row where row: "row \<in> set chosen" "f = retrieved_fragment terms row" by auto
    have "row \<in> set (take 256 (search_rows fts terms r canonical db))"
      using c(1) row(1) by (metis set_nths_subset subseq_conv_nths subsetD)
    then have "row \<in> set (search_rows fts terms r canonical db)" by (rule in_set_takeD)
    from that[OF t(2) this row(2)] show ?thesis .
  qed
qed

text \<open>C36: a retrieval that wants fresh knowledge serves only fragments of versions in the active generation of the owner's project, from the kinds of source it allows.\<close>

theorem fresh_retrieval_serves_the_active_generation:
  assumes "retrieve_knowledge fts r False offset db = Inr res" and "0 \<le> rr_token_budget r" and "0 < rr_max_fragments r"
    and "rr_freshness r = ActiveOnly" and "f \<in> set (rs_fragments res)"
  shows "\<exists>canonical p m s. fs_resolve fts (rr_project_path r) = Some canonical \<and>
     project_at (rr_owner_id r) canonical db = Some p \<and>
     kp_active_generation_id p = Some (pv_generation_id (rf_provenance f)) \<and>
     m \<in> set (members_of (pv_generation_id (rf_provenance f)) db) \<and>
     s \<in> set (kd_sources db) \<and> ks_project_id s = kp_project_id p \<and> km_source_id m = ks_source_id s \<and>
     pv_source_id (rf_provenance f) = ks_source_id s \<and> rf_source_kind f = ks_source_kind s \<and>
     kind_allowed (rr_allowed_source_types r) (rf_source_kind f) \<and>
     (\<exists>x \<in> set (kd_fragments db). kf_fragment_id x = rf_fragment_id f \<and> kf_version_id x = km_version_id m \<and>
        rf_content f = py_strip (kf_content x)) \<and>
     \<not> rf_stale f"
proof (rule retrieved_row[OF assms(1-3,5)])
  fix terms canonical c
  assume c: "fs_resolve fts (rr_project_path r) = Some canonical" "c \<in> set (search_rows fts terms r canonical db)"
    "f = retrieved_fragment terms c"
  show ?thesis
  proof (rule search_rows_origin[OF c(2)])
    fix p assume o: "project_at (rr_owner_id r) canonical db = Some p" "sr_source c \<in> set (kd_sources db)"
      "ks_project_id (sr_source c) = kp_project_id p"
      "kind_allowed (rr_allowed_source_types r) (ks_source_kind (sr_source c))"
      "sr_fragment c \<in> set (kd_fragments db)" "kf_version_id (sr_fragment c) = kv_version_id (sr_version c)"
      "ob_member (sr_observation c) \<in> set (kd_members db)"
      "km_source_id (ob_member (sr_observation c)) = ks_source_id (sr_source c)"
      "km_version_id (ob_member (sr_observation c)) = kv_version_id (sr_version c)"
      "ob_active (sr_observation c) = (kp_active_generation_id p = Some (km_generation_id (ob_member (sr_observation c))))"
      "rr_freshness r = IncludeStale \<or> ob_active (sr_observation c)"
    then have active: "kp_active_generation_id p = Some (km_generation_id (ob_member (sr_observation c)))"
      "ob_active (sr_observation c)" using assms(4) by simp_all
    have f: "pv_generation_id (rf_provenance f) = km_generation_id (ob_member (sr_observation c))"
      "pv_source_id (rf_provenance f) = ks_source_id (sr_source c)" "rf_source_kind f = ks_source_kind (sr_source c)"
      "rf_fragment_id f = kf_fragment_id (sr_fragment c)" "rf_content f = py_strip (kf_content (sr_fragment c))"
      "rf_stale f \<longleftrightarrow> \<not> ob_active (sr_observation c)"
      by (simp_all add: c(3) retrieved_fragment_def provenance_of_def Let_def)
    have fragment: "\<exists>x \<in> set (kd_fragments db). kf_fragment_id x = rf_fragment_id f \<and>
        kf_version_id x = km_version_id (ob_member (sr_observation c)) \<and> rf_content f = py_strip (kf_content x)"
      using o(5,6,9) by (intro bexI[of _ "sr_fragment c"]) (simp_all add: f(4,5))
    have member: "ob_member (sr_observation c) \<in> set (members_of (pv_generation_id (rf_provenance f)) db)"
      using o(7) by (simp add: members_of_def f(1))
    show ?thesis
    proof (intro exI conjI)
      show "fs_resolve fts (rr_project_path r) = Some canonical" by (rule c(1))
      show "project_at (rr_owner_id r) canonical db = Some p" by (rule o(1))
      show "kp_active_generation_id p = Some (pv_generation_id (rf_provenance f))" using active f(1) by simp
      show "ob_member (sr_observation c) \<in> set (members_of (pv_generation_id (rf_provenance f)) db)" by (rule member)
      show "sr_source c \<in> set (kd_sources db)" by (rule o(2))
      show "\<exists>x \<in> set (kd_fragments db). kf_fragment_id x = rf_fragment_id f \<and>
        kf_version_id x = km_version_id (ob_member (sr_observation c)) \<and> rf_content f = py_strip (kf_content x)" by (rule fragment)
    qed (use o(3,4,8) active(2) f(2,3,6) in simp_all)
  qed
qed

text \<open>C37: a retrieval keeps the token budget and the number of fragments of its request, takes at most three fragments of a source, never the same content twice, and when it returns fewer fragments than allowed, each other search row has a reason: its source is exhausted, its content is there, or it exceeds what is left of the budget.\<close>

theorem retrieval_is_bounded_and_maximal:
  assumes "retrieve_knowledge fts r False offset db = Inr res" and "0 \<le> rr_token_budget r" and "0 < rr_max_fragments r"
    and "query_terms (rr_query r) = Inr terms" and "fs_resolve fts (rr_project_path r) = Some canonical"
    and "rr_allowed_source_types r \<noteq> Some []"
  shows "\<exists>chosen. subseq chosen (take 256 (search_rows fts terms r canonical db)) \<and>
     rs_fragments res = map (retrieved_fragment terms) chosen \<and>
     rs_estimated_tokens res = sum_list (map row_tokens chosen) \<and> rs_estimated_tokens res \<le> rr_token_budget r \<and>
     int (length chosen) \<le> rr_max_fragments r \<and> distinct (map row_hash chosen) \<and>
     (\<forall>s. length (filter (\<lambda>c. row_source c = s) chosen) \<le> 3) \<and>
     (int (length chosen) < rr_max_fragments r \<longrightarrow>
       (\<forall>c \<in> set (take 256 (search_rows fts terms r canonical db)). c \<in> set chosen \<or> left_out (rr_token_budget r) chosen c))"
proof (rule retrieval_choice[OF assms])
  fix chosen
  assume "subseq chosen (take 256 (search_rows fts terms r canonical db))"
    "rs_fragments res = map (retrieved_fragment terms) chosen"
    "rs_estimated_tokens res = sum_list (map row_tokens chosen)" "rs_estimated_tokens res \<le> rr_token_budget r"
    "int (length chosen) \<le> rr_max_fragments r" "\<And>s. length (filter (\<lambda>c. row_source c = s) chosen) \<le> 3"
    "distinct (map row_hash chosen)"
    "\<And>c. int (length chosen) < rr_max_fragments r \<Longrightarrow> c \<in> set (take 256 (search_rows fts terms r canonical db)) \<Longrightarrow>
       c \<in> set chosen \<or> left_out (rr_token_budget r) chosen c"
  then show ?thesis by blast
qed

text \<open>what was purged is not retrieved any more, by no request.\<close>

theorem purged_source_is_never_retrieved:
  assumes "purge_source env now checkpoint physical source_id owner path True db = Inr db'"
    and "retrieve_knowledge fts r False offset db' = Inr res" and "0 \<le> rr_token_budget r" and "0 < rr_max_fragments r"
    and "f \<in> set (rs_fragments res)"
  shows "pv_source_id (rf_provenance f) \<noteq> source_id"
proof (rule retrieved_row[OF assms(2-5)])
  fix terms canonical c
  assume c: "c \<in> set (search_rows fts terms r canonical db')" "f = retrieved_fragment terms c"
  have owned: "source_id \<in> ks_source_id ` set (kd_sources db)"
    using assms(1) by (auto simp: purge_source_def owned_source_def find_Some_iff intro!: imageI)
  show ?thesis
  proof (rule search_rows_origin[OF c(1)])
    assume "sr_source c \<in> set (kd_sources db')"
    then have "ks_source_id (sr_source c) \<noteq> source_id"
      using purge_tables[OF assms(1)] by (simp add: same_knowledge_def remove_source_tables(1)[OF owned])
    then show ?thesis by (simp add: c(2) retrieved_fragment_def provenance_of_def Let_def)
  qed
qed

end
