(* ===== verification/KnowledgeSamples.thy ===== *)
theory KnowledgeSamples
  imports KnowledgeRetrievalProperties
begin

text \<open>
  A run of the knowledge store: a project with two notes that disagree is published, a second build
  starts, and one note is purged. The properties of the store and of its retrieval are applied to it.
\<close>

section \<open>A run\<close>

definition sample_kenv :: KnowledgeEnv where
  "sample_kenv = \<lparr>kn_sha256 = rev, kn_expanduser = (\<lambda>p. p), kn_normal_path = (\<lambda>p. p)\<rparr>"

definition sample_project :: string where
  "sample_project = stable_id sample_kenv ''project'' [''me'', ''/p'']"

definition sample_build :: BuildRequest where
  "sample_build = \<lparr>br_git_commit_sha = None, br_worktree_revision = None, br_policy_version = ''1'',
     br_clone_active = True, br_expected_mutation_epoch = None\<rparr>"

definition sample_stage :: "string \<Rightarrow> string \<Rightarrow> string \<Rightarrow> StageRequest" where
  "sample_stage generation uri value =
     \<lparr>sg_generation_id = generation, sg_project_id = sample_project, sg_owner_id = ''me'', sg_source_uri = uri,
      sg_source_kind = ''markdown'', sg_source_origin = ''manual'', sg_sensitivity = ''internal'',
      sg_source_hash = replicate 64 (CHR ''a''), sg_size_bytes = 5, sg_mtime_ns = 7, sg_parser = ''md'',
      sg_parser_version = ''1'', sg_derivation_version = uri, sg_project_commit_sha = None,
      sg_worktree_revision = None, sg_policy_version = ''1'',
      sg_fragments = [(\<lparr>pf_ordinal = 0, pf_locator = ''l'', pf_start_line = Some 1, pf_end_line = Some 1,
        pf_title = None, pf_content = value, pf_extraction_method = ''x''\<rparr>,
        [\<lparr>ef_kind = FactFact, ef_key = ''port'', ef_value = value, ef_extraction_method = ''x''\<rparr>])],
      sg_renamed_from_source_id = None\<rparr>"

definition sample_note :: "string \<Rightarrow> string" where
  "sample_note uri = staged_source_id sample_kenv (sample_stage ''gen_1'' uri ''80'')"

definition sample_kops :: "KnowledgeOp list" where
  "sample_kops =
     [EnsureProject 1 ''me'' ''/p'', BeginGeneration 2 ''1'' sample_project sample_build,
      StageSource 3 (sample_stage ''gen_1'' ''a'' ''80''), StageSource 4 (sample_stage ''gen_1'' ''b'' ''90'')]"

definition published_kops :: "KnowledgeOp list" where
  "published_kops = sample_kops @ [ActivateGeneration 5 sample_project ''gen_1'']"

definition rebuilding_kops :: "KnowledgeOp list" where
  "rebuilding_kops = published_kops @ [BeginGeneration 6 ''2'' sample_project sample_build]"

lemma run_knowledge_append: "run_knowledge env (xs @ ys) db = run_knowledge env ys (run_knowledge env xs db)"
  by (induction xs arbitrary: db) simp_all

definition staged_db :: KnowledgeDb where
  "staged_db = run_knowledge sample_kenv sample_kops empty_knowledge_db"

definition published_db :: KnowledgeDb where
  "published_db = run_knowledge sample_kenv published_kops empty_knowledge_db"

definition rebuilding_db :: KnowledgeDb where
  "rebuilding_db = run_knowledge sample_kenv rebuilding_kops empty_knowledge_db"

definition sample_purge :: "KnowledgeDb knowledge" where
  "sample_purge = purge_source sample_kenv 7 True True (sample_note ''a'') ''me'' ''/p'' True rebuilding_db"

definition purged_db :: KnowledgeDb where
  "purged_db = (case sample_purge of Inl e \<Rightarrow> empty_knowledge_db | Inr db \<Rightarrow> db)"

lemma knowledge_result: "\<not> isl r \<Longrightarrow> r = Inr (case r of Inl e \<Rightarrow> d | Inr db \<Rightarrow> db)"
  by (cases r) simp_all

text \<open>What the databases of the run hold, each evaluated once.\<close>

lemma rebuilding_facts [unfolded Let_def]:
  "let db = rebuilding_db in
     map_option kp_active_generation_id (project_of sample_project db) = Some (Some ''gen_1'') \<and>
     length (kd_sources db) = 2 \<and> owned_source (sample_note ''a'') ''me'' db = Some (kd_sources db ! 0) \<and>
     length (kd_generations db) = 2 \<and>
     kg_project_id (kd_generations db ! 1) = ks_project_id (kd_sources db ! 0) \<and>
     kg_generation_id (kd_generations db ! 1) = ''gen_2'' \<and> kg_status (kd_generations db ! 1) = GenBuilding \<and>
     members_fit db \<and> length (members_of ''gen_1'' db) = 2 \<and>
     map km_source_id (members_of ''gen_2'' (fail_generation 9 ''gen_2'' ''x'' db)) = [] \<and>
     \<not> isl (purge_source sample_kenv 7 True True (sample_note ''a'') ''me'' ''/p'' True db)"
  by code_simp

lemma sample_purge_ok:
  "purge_source sample_kenv 7 True True (sample_note ''a'') ''me'' ''/p'' True rebuilding_db = Inr purged_db"
  using rebuilding_facts knowledge_result[of "purge_source sample_kenv 7 True True (sample_note ''a'') ''me'' ''/p'' True rebuilding_db"]
  by (simp add: purged_db_def sample_purge_def)

section \<open>The properties at the run\<close>

lemma a_project_publishes_one_generation_witness:
  "{kg_generation_id g | g. g \<in> set (kd_generations (run_knowledge sample_kenv rebuilding_kops empty_knowledge_db)) \<and>
      kg_project_id g = sample_project \<and> kg_status g = GenActive} = {''gen_1''}"
proof -
  let ?db = "run_knowledge sample_kenv rebuilding_kops empty_knowledge_db"
  have "map_option kp_active_generation_id (project_of sample_project ?db) = Some (Some ''gen_1'')"
    using rebuilding_facts by (simp add: rebuilding_db_def)
  then obtain p where p: "project_of sample_project ?db = Some p" "kp_active_generation_id p = Some ''gen_1''" by auto
  from a_project_publishes_one_generation[OF p(1)] p(2) show ?thesis by simp
qed

lemma activation_records_exactly_the_contested_keys_witness:
  "\<exists>c \<in> set (kd_conflicts published_db). kc_generation_id c = ''gen_1'' \<and> kc_fact_key c = ''port'' \<and>
     kc_fact_ids c = sort (map ka_fact_id (facts_with_key ''gen_1'' ''port'' staged_db))"
proof -
  have "\<not> isl (activate_generation sample_kenv 5 sample_project ''gen_1'' staged_db)" by code_simp
  from knowledge_result[OF this, of staged_db]
  have ok: "activate_generation sample_kenv 5 sample_project ''gen_1'' staged_db = Inr published_db"
    by (simp add: published_db_def published_kops_def run_knowledge_append staged_db_def knowledge_step_def split: sum.splits)
  have "ka_fact_key (kd_facts staged_db ! 0) = ''port'' \<and> ka_fact_key (kd_facts staged_db ! 1) = ''port'' \<and>
      ka_value_hash (kd_facts staged_db ! 0) \<noteq> ka_value_hash (kd_facts staged_db ! 1) \<and>
      kd_facts staged_db ! 0 \<in> set (facts_of ''gen_1'' staged_db) \<and> kd_facts staged_db ! 1 \<in> set (facts_of ''gen_1'' staged_db)"
    by code_simp
  then show ?thesis unfolding activation_records_exactly_the_contested_keys[OF ok] by blast
qed


lemma later_facts [unfolded Let_def]:
  "let db = run_knowledge sample_kenv [ActivateGeneration 8 sample_project ''gen_2''] purged_db in
     length (kd_generations db) = 2 \<and> kg_generation_id (kd_generations db ! 1) = ''gen_2''"
  by code_simp

lemma purged_builds_are_never_published_witness:
  "kg_status (kd_generations (run_knowledge sample_kenv [ActivateGeneration 8 sample_project ''gen_2''] purged_db) ! 1) = GenFailed"
proof (rule purged_builds_are_never_published[OF sample_purge_ok[unfolded rebuilding_db_def]])
  show "owned_source (sample_note ''a'') ''me'' (run_knowledge sample_kenv rebuilding_kops empty_knowledge_db) =
      Some (kd_sources rebuilding_db ! 0)"
    and "kg_project_id (kd_generations rebuilding_db ! 1) = ks_project_id (kd_sources rebuilding_db ! 0)"
    and "kg_status (kd_generations rebuilding_db ! 1) = GenBuilding"
    and "\<not> list_ex (begins (kg_generation_id (kd_generations rebuilding_db ! 1))) [ActivateGeneration 8 sample_project ''gen_2'']"
    using rebuilding_facts by (simp_all add: rebuilding_db_def)
  show "kd_generations rebuilding_db ! 1 \<in> set (kd_generations (run_knowledge sample_kenv rebuilding_kops empty_knowledge_db))"
    unfolding rebuilding_db_def[symmetric] using rebuilding_facts by (intro nth_mem) simp
  show "kd_generations (run_knowledge sample_kenv [ActivateGeneration 8 sample_project ''gen_2''] purged_db) ! 1
      \<in> set (kd_generations (run_knowledge sample_kenv [ActivateGeneration 8 sample_project ''gen_2''] purged_db))"
    using later_facts by (intro nth_mem) simp
  show "kg_generation_id (kd_generations (run_knowledge sample_kenv [ActivateGeneration 8 sample_project ''gen_2''] purged_db) ! 1)
      = kg_generation_id (kd_generations rebuilding_db ! 1)"
    using later_facts rebuilding_facts by simp
qed

lemma failed_build_keeps_every_other_generation_witness:
  "map km_source_id (members_of ''gen_2'' (fail_generation 9 ''gen_2'' ''x'' rebuilding_db)) = [] \<and>
     members_of ''gen_1'' rebuilding_db ! 0 \<in> set (members_of ''gen_1'' (fail_generation 9 ''gen_2'' ''x'' rebuilding_db))"
proof -
  have "members_of ''gen_1'' rebuilding_db ! 0 \<in> set (members_of ''gen_1'' rebuilding_db)"
    using rebuilding_facts by (intro nth_mem) simp
  then show ?thesis
    using failed_build_keeps_every_other_generation[of rebuilding_db _ "''gen_1''" "''gen_2''"] rebuilding_facts by simp
qed

section \<open>Retrievals at the run\<close>

definition sample_search :: KnowledgeSearch where
  "sample_search = \<lparr>fts_match = (\<lambda>terms x. list_ex (\<lambda>t. sublist t (casefold (kx_content x))) terms),
     fts_rank = (\<lambda>terms rows x. - 1), fs_resolve = Some\<rparr>"

definition sample_retrieval :: RetrievalRequest where
  "sample_retrieval = \<lparr>rr_owner_id = ''me'', rr_project_path = ''/p'', rr_query = ''80 90'',
     rr_allowed_source_types = None, rr_token_budget = 150, rr_max_fragments = 2, rr_freshness = ActiveOnly\<rparr>"

definition retrieved :: "KnowledgeDb \<Rightarrow> RetrievalResult" where
  "retrieved db = (case retrieve_knowledge sample_search sample_retrieval False 0 db of
     Inl e \<Rightarrow> \<lparr>rs_project_path = [], rs_query = [], rs_token_budget = 0, rs_estimated_tokens = 0, rs_fragments = [], rs_next_offset = None\<rparr>
   | Inr r \<Rightarrow> r)"

lemma sample_bounds: "0 \<le> rr_token_budget sample_retrieval" "0 < rr_max_fragments sample_retrieval"
  by (simp_all add: sample_retrieval_def)

lemma retrieved_result:
  "\<not> isl (retrieve_knowledge sample_search sample_retrieval False 0 db) \<Longrightarrow>
     retrieve_knowledge sample_search sample_retrieval False 0 db = Inr (retrieved db)"
  unfolding retrieved_def by (rule knowledge_result)

lemma published_facts [unfolded Let_def]:
  "let r = retrieve_knowledge sample_search sample_retrieval False 0 published_db in
     \<not> isl r \<and> length (rs_fragments (projr r)) = 2"
  by code_simp

lemma purged_facts [unfolded Let_def]:
  "let r = retrieve_knowledge sample_search sample_retrieval False 0 purged_db in
     \<not> isl r \<and> length (rs_fragments (projr r)) = 1"
  by code_simp

lemma sample_retrieves:
  "retrieve_knowledge sample_search sample_retrieval False 0 published_db = Inr (retrieved published_db)"
  "retrieve_knowledge sample_search sample_retrieval False 0 purged_db = Inr (retrieved purged_db)"
  using published_facts purged_facts retrieved_result by blast+

lemma sample_lengths:
  "length (rs_fragments (retrieved published_db)) = 2" "length (rs_fragments (retrieved purged_db)) = 1"
  using published_facts purged_facts by (simp_all add: sample_retrieves)

lemma fresh_retrieval_serves_the_active_generation_witness:
  "pv_generation_id (rf_provenance (rs_fragments (retrieved published_db) ! 0)) = ''gen_1'' \<and>
     \<not> rf_stale (rs_fragments (retrieved published_db) ! 0)"
proof -
  have "rr_freshness sample_retrieval = ActiveOnly" by (simp add: sample_retrieval_def)
  moreover have "rs_fragments (retrieved published_db) ! 0 \<in> set (rs_fragments (retrieved published_db))"
    using sample_lengths(1) by (intro nth_mem) simp
  ultimately obtain canonical p where p: "fs_resolve sample_search (rr_project_path sample_retrieval) = Some canonical"
      "project_at (rr_owner_id sample_retrieval) canonical published_db = Some p"
      "kp_active_generation_id p = Some (pv_generation_id (rf_provenance (rs_fragments (retrieved published_db) ! 0)))"
      "\<not> rf_stale (rs_fragments (retrieved published_db) ! 0)"
    using fresh_retrieval_serves_the_active_generation[OF sample_retrieves(1) sample_bounds] by blast
  have "map_option kp_active_generation_id (project_at ''me'' ''/p'' published_db) = Some (Some ''gen_1'')" by code_simp
  with p show ?thesis by (auto simp: sample_search_def sample_retrieval_def)
qed

lemma retrieval_is_bounded_and_maximal_witness:
  "rs_estimated_tokens (retrieved published_db) \<le> 150 \<and> length (rs_fragments (retrieved published_db)) = 2"
proof -
  have "query_terms (rr_query sample_retrieval) = Inr [''80'', ''90'']" by code_simp
  moreover have "fs_resolve sample_search (rr_project_path sample_retrieval) = Some ''/p''"
    by (simp add: sample_search_def sample_retrieval_def)
  moreover have "rr_allowed_source_types sample_retrieval \<noteq> Some []" by (simp add: sample_retrieval_def)
  ultimately have "rs_estimated_tokens (retrieved published_db) \<le> rr_token_budget sample_retrieval"
    using retrieval_is_bounded_and_maximal[OF sample_retrieves(1) sample_bounds] by blast
  then show ?thesis using sample_lengths(1) by (simp add: sample_retrieval_def)
qed

lemma purged_source_is_never_retrieved_witness:
  "length (rs_fragments (retrieved purged_db)) = 1 \<and>
     pv_source_id (rf_provenance (rs_fragments (retrieved purged_db) ! 0)) \<noteq> sample_note ''a''"
proof -
  have "rs_fragments (retrieved purged_db) ! 0 \<in> set (rs_fragments (retrieved purged_db))"
    using sample_lengths(2) by (intro nth_mem) simp
  from purged_source_is_never_retrieved[OF sample_purge_ok sample_retrieves(2) sample_bounds this]
  show ?thesis using sample_lengths(2) by simp
qed

section \<open>A fact that is written twice\<close>

text \<open>A fragment in which one fact line is repeated cannot be staged: the two facts share their identifier.\<close>

definition repeated_fact :: StageRequest where
  "repeated_fact =
     (let r = sample_stage ''gen_2'' ''c'' ''70''
      in r\<lparr>sg_fragments := map (\<lambda>(f, facts). (f, facts @ facts)) (sg_fragments r)\<rparr>)"

lemma a_repeated_fact_fails_the_import:
  "stage_source_version sample_kenv 3 (sample_stage ''gen_2'' ''c'' ''70'') rebuilding_db \<noteq> Inl KnowledgeIntegrityError \<and>
   stage_source_version sample_kenv 3 repeated_fact rebuilding_db = Inl KnowledgeIntegrityError"
proof -
  have "\<not> isl (stage_source_version sample_kenv 3 (sample_stage ''gen_2'' ''c'' ''70'') rebuilding_db)" by code_simp
  moreover have "case stage_source_version sample_kenv 3 repeated_fact rebuilding_db of
      Inl e \<Rightarrow> e = KnowledgeIntegrityError | Inr db \<Rightarrow> False" by code_simp
  ultimately show ?thesis by (auto split: sum.splits)
qed

end
