(* ===== verification/EngineBase.thy ===== *)
theory EngineBase
  imports CodingStore CodingConfig Json Results "HOL-Library.Char_ord" "HOL-Library.List_Lexorder"
begin

text \<open>
  The ground of the coding engine, \<open>services/coding/engine.py\<close>: its errors, its surroundings, the
  statements of a flow over the durable store, and the small helpers its phases share. A flow carries
  the database, the world outside (files, Git, processes, models, the clock) and the locals that an
  exception handler still sees; a statement returns an error or a value and the flow after it.
\<close>

section \<open>Errors and values\<close>

text \<open>
  \<open>ExecutorRaised\<close> stands for \<open>ExecutorFailure\<close> and \<open>ExecutorPolicyError\<close>, with the output artifact the
  former may carry; \<open>HostRaised\<close> for every exception the engine does not name.
\<close>

datatype EngineError =
    CodingEngineError string
  | HandoffPolicyError string
  | ExecutorRaised string "ArtifactReferenceV1 option"
  | ArtifactPolicyError
  | StoreRaised StoreError
  | ContractRaised
  | UnicodeRaised
  | HostRaised string

record ExecutorResult =
  xr_summary :: string
  xr_inspected_files :: "string list"
  xr_output_artifact :: ArtifactReferenceV1

record WorktreeBinding =
  wb_head_sha :: string
  wb_status_paths :: "string list"
  wb_diff_sha256 :: string
  wb_ignored_fingerprint :: string
  wb_changed_content_fingerprint :: string
  wb_content_fingerprint :: string
  wb_full_fingerprint :: string

text \<open>\<open>RepositoryIdentity\<close>: the source as it was resolved.\<close>

record Source =
  so_canonical_root :: string
  so_base_commit :: string
  so_dirty_paths :: "string list"
  so_dirty_fingerprint :: string
  so_git_metadata_fingerprint :: string
  so_excluded_git_refs :: "string list"

section \<open>Statements\<close>

record 'w Flow =
  fl_db :: CodingDb
  fl_world :: 'w
  fl_source :: Source
  fl_state :: CodingTaskStateV1
  fl_version :: int
  fl_previous_error :: "string option"
  fl_last_summary :: string

type_synonym ('w, 'a) outside = "'w \<Rightarrow> (EngineError + 'a) \<times> 'w"

type_synonym ('w, 'a) stm = "'w Flow \<Rightarrow> (EngineError + 'a) \<times> 'w Flow"

definition give :: "'a \<Rightarrow> ('w, 'a) stm" where
  "give x = (\<lambda>fl. (Inr x, fl))"

definition raises :: "EngineError \<Rightarrow> ('w, 'a) stm" where
  "raises e = (\<lambda>fl. (Inl e, fl))"

definition do_then :: "('w, 'a) stm \<Rightarrow> ('a \<Rightarrow> ('w, 'b) stm) \<Rightarrow> ('w, 'b) stm" where
  "do_then m f = (\<lambda>fl. case m fl of (Inl e, fl') \<Rightarrow> (Inl e, fl') | (Inr x, fl') \<Rightarrow> f x fl')"

definition do_ensure :: "bool \<Rightarrow> EngineError \<Rightarrow> ('w, unit) stm" where
  "do_ensure b e = (if b then give () else raises e)"

definition do_some :: "EngineError \<Rightarrow> 'a option \<Rightarrow> ('w, 'a) stm" where
  "do_some e v = (case v of None \<Rightarrow> raises e | Some x \<Rightarrow> give x)"

text \<open>\<open>try: m except e: h e\<close>: the handler runs on the flow as the exception left it.\<close>

definition do_try :: "('w, 'a) stm \<Rightarrow> (EngineError \<Rightarrow> ('w, 'a) stm) \<Rightarrow> ('w, 'a) stm" where
  "do_try m h = (\<lambda>fl. case m fl of (Inl e, fl') \<Rightarrow> h e fl' | (Inr x, fl') \<Rightarrow> (Inr x, fl'))"

definition outside :: "('w, 'a) outside \<Rightarrow> ('w, 'a) stm" where
  "outside act = (\<lambda>fl. case act (fl_world fl) of (r, w) \<Rightarrow> (r, fl\<lparr>fl_world := w\<rparr>))"

definition ask :: "('w \<Rightarrow> 'a \<times> 'w) \<Rightarrow> ('w, 'a) stm" where
  "ask act = (\<lambda>fl. case act (fl_world fl) of (x, w) \<Rightarrow> (Inr x, fl\<lparr>fl_world := w\<rparr>))"

definition the_state :: "('w, CodingTaskStateV1) stm" where
  "the_state = (\<lambda>fl. (Inr (fl_state fl), fl))"

definition the_source :: "('w, Source) stm" where
  "the_source = (\<lambda>fl. (Inr (fl_source fl), fl))"

definition the_database :: "('w, CodingDb) stm" where
  "the_database = (\<lambda>fl. (Inr (fl_db fl), fl))"

section \<open>Surroundings\<close>

text \<open>
  \<open>ee_git argv\<close> is \<open>run_git\<close> in the task worktree and returns its standard output, decoded;
  \<open>ee_sha256_frames\<close> digests texts that are preceded by their lengths. The live rules are
  the digests by relative path of \<open>applicable_agent_rules\<close> below the source (\<open>True\<close>) or the worktree.
\<close>

record 'w EngineEnv =
  ee_store :: StoreEnv
  ee_policy :: CodingPolicy
  ee_now :: "'w \<Rightarrow> datetime \<times> 'w"
  ee_cancelled :: "'w \<Rightarrow> bool \<times> 'w"
  ee_sha256 :: "string \<Rightarrow> string"
  ee_sha256_frames :: "string list \<Rightarrow> string"
  ee_sanitize :: "string \<Rightarrow> string"
  ee_detect_secret :: "string \<Rightarrow> string option"
  ee_live_rules :: "bool \<Rightarrow> string list \<Rightarrow> ('w, (string \<times> string) list) outside"
  ee_rule_relative :: "string \<Rightarrow> ('w, string option) outside"
  ee_rule_digest :: "bool \<Rightarrow> string \<Rightarrow> ('w, string option) outside"
  ee_discover_rules :: "string list \<Rightarrow> ('w, RuleReferenceV1 list) outside"
  ee_git_scope_valid :: "'w \<Rightarrow> bool \<times> 'w"
  ee_owned_path :: "('w, WorktreeRecordV1) outside"
  ee_git :: "string list \<Rightarrow> ('w, string) outside"
  ee_ignored_paths :: "('w, string list) outside"
  ee_status_paths :: "('w, string list) outside"
  ee_fingerprint :: "('w, string) outside"
  ee_git_diff :: "('w, string) outside"
  ee_ignored_fingerprint :: "('w, string) outside"
  ee_scan_changed :: "('w, string) outside"
  ee_scan_commit :: "string \<Rightarrow> string \<Rightarrow> ('w, string) outside"
  ee_resolve :: "string \<Rightarrow> string list \<Rightarrow> ('w, Source) outside"
  ee_active_refs :: "('w, string list) outside"
  ee_write_diff :: "string \<Rightarrow> ('w, ArtifactReferenceV1) outside"
  ee_write_review :: "ReviewResultV1 \<Rightarrow> ('w, ArtifactReferenceV1) outside"
  ee_read_verified :: "ArtifactReferenceV1 \<Rightarrow> ('w, string) outside"
  ee_read_text :: "ArtifactReferenceV1 \<Rightarrow> ('w, string) outside"
  ee_artifact_reference :: "string \<Rightarrow> ('w, ArtifactReferenceV1) outside"
  ee_execute :: "ExecutorKind \<Rightarrow> bool \<Rightarrow> CodingTaskRequestV1 \<Rightarrow> string \<Rightarrow> string \<Rightarrow> ('w, ExecutorResult) outside"
  ee_executor_model :: "ExecutorKind \<Rightarrow> string option"
  ee_public_snapshot :: "string \<Rightarrow> 'w \<Rightarrow> (string + string) \<times> 'w"
  ee_run_verifier :: "VerificationCommandV1 \<Rightarrow> string \<Rightarrow> ('w, CommandResultV1) outside"
  ee_run_ui :: "CodingTaskRequestV1 \<Rightarrow> string \<Rightarrow> ('w, CommandResultV1 \<times> ArtifactReferenceV1 option \<times> ArtifactReferenceV1 option) outside"
  ee_deterministic_review :: "Source \<Rightarrow> CodingTaskStateV1 \<Rightarrow> string list \<Rightarrow> CommandResultV1 list \<Rightarrow> bool \<Rightarrow> ('w, ReviewResultV1) outside"
  ee_merge_codex :: "ReviewResultV1 \<Rightarrow> string \<Rightarrow> bool \<Rightarrow> ('w, ReviewResultV1) outside"
  ee_semantic_review :: "ReviewResultV1 \<Rightarrow> CodingTaskStateV1 \<Rightarrow> WorktreeBinding \<Rightarrow> ArtifactReferenceV1 option \<Rightarrow>
    ExecutorResult \<Rightarrow> CommandResultV1 list \<Rightarrow> ('w, ReviewResultV1 \<times> ArtifactReferenceV1 option \<times> ArtifactReferenceV1 list) outside"
  ee_dump_argv :: "string list \<Rightarrow> string"
  ee_dump_review :: "ReviewResultV1 \<Rightarrow> string"
  ee_loads_unique :: "string \<Rightarrow> json option"
  ee_canonical_json :: "json \<Rightarrow> string"
  ee_worktree_load :: "string \<Rightarrow> ('w, WorktreeRecordV1 option) outside"
  ee_mark_orphaned :: "string \<Rightarrow> ('w, WorktreeRecordV1) outside"
  ee_complete_worktree :: "string \<Rightarrow> ('w, WorktreeRecordV1) outside"
  ee_create_handoff :: "CodingTaskStateV1 \<Rightarrow> string \<Rightarrow> string option \<Rightarrow> ('w, ArtifactReferenceV1 \<times> ArtifactReferenceV1) outside"

section \<open>Lists\<close>

text \<open>\<open>_unique\<close> drops empty items and repetitions; \<open>_artifacts\<close> is a \<open>dict\<close> by identifier.\<close>

definition unique_items :: "string list \<Rightarrow> string list" where
  "unique_items values = dedup (filter (\<lambda>v. v \<noteq> []) values)"

fun put_artifact :: "ArtifactReferenceV1 \<Rightarrow> ArtifactReferenceV1 list \<Rightarrow> ArtifactReferenceV1 list" where
  "put_artifact a [] = [a]"
| "put_artifact a (b # bs) = (if af_artifact_id a = af_artifact_id b then a # bs else b # put_artifact a bs)"

definition merge_artifacts :: "ArtifactReferenceV1 list \<Rightarrow> ArtifactReferenceV1 option list \<Rightarrow> ArtifactReferenceV1 list" where
  "merge_artifacts existing additional =
     foldl (\<lambda>acc item. case item of None \<Rightarrow> acc | Some a \<Rightarrow> put_artifact a acc)
       (foldl (\<lambda>acc a. put_artifact a acc) [] existing) additional"

text \<open>\<open>[*state.attempts[:-1], attempt]\<close>.\<close>

definition replace_last :: "'a list \<Rightarrow> 'a \<Rightarrow> 'a list" where
  "replace_last xs x = butlast xs @ [x]"

section \<open>The durable state\<close>

text \<open>
  \<open>_transition\<close>: the updates, the status and the time are set, the contract validates the candidate, the
  store records it under the expected version; only then do the locals change.
\<close>

definition transition_to ::
    "'w EngineEnv \<Rightarrow> CodingTaskStatus \<Rightarrow> string \<Rightarrow> string option \<Rightarrow> (CodingTaskStateV1 \<Rightarrow> CodingTaskStateV1) \<Rightarrow> ('w, unit) stm" where
  "transition_to env status event_type reason_code updates =
     do_then (ask (ee_now env)) (\<lambda>now.
     do_then the_state (\<lambda>state.
     do_then (do_some ContractRaised (validate_CodingTaskStateV1 (se_nt (ee_store env))
       ((updates state)\<lparr>ct_status := status, ct_updated_at := now\<rparr>))) (\<lambda>candidate.
     do_then (ask (ee_now env)) (\<lambda>recorded fl.
       case transition_task (ee_store env) recorded candidate event_type reason_code (Some (fl_version fl)) (fl_db fl) of
         Inl e \<Rightarrow> (Inl (StoreRaised e), fl)
       | Inr (db, version) \<Rightarrow> (Inr (), fl\<lparr>fl_db := db, fl_state := candidate, fl_version := version\<rparr>)))))"

definition store_worktree :: "'w EngineEnv \<Rightarrow> WorktreeRecordV1 \<Rightarrow> ('w, unit) stm" where
  "store_worktree env r =
     do_then (ask (ee_now env)) (\<lambda>now fl.
       case update_worktree (ee_store env) now r (fl_db fl) of
         Inl e \<Rightarrow> (Inl (StoreRaised e), fl)
       | Inr db \<Rightarrow> (Inr (), fl\<lparr>fl_db := db\<rparr>))"

definition sync_worktree :: "'w EngineEnv \<Rightarrow> string \<Rightarrow> ('w, unit) stm" where
  "sync_worktree env event_type =
     do_then the_state (\<lambda>state.
     do_then (outside (ee_worktree_load env (cq_task_id (ct_request state)))) (\<lambda>loaded.
     do_then (do_some (CodingEngineError ''task worktree disappeared from the ownership registry'') loaded) (\<lambda>current.
     do_then the_database (\<lambda>db.
     do_then (case load_worktree (ee_store env) db (cq_task_id (ct_request state)) of
         Inl e \<Rightarrow> raises (StoreRaised e)
       | Inr v \<Rightarrow> do_some (CodingEngineError ''task worktree disappeared from the durable registry'') v) (\<lambda>stored.
     do_then (if current \<noteq> stored then store_worktree env current else give ()) (\<lambda>_.
     if ct_worktree state \<noteq> Some current
     then transition_to env (ct_status state) event_type None (\<lambda>s. s\<lparr>ct_worktree := Some current\<rparr>)
     else give ()))))))"

definition preserve_cancelled_worktree :: "'w EngineEnv \<Rightarrow> ('w, WorktreeRecordV1 option) stm" where
  "preserve_cancelled_worktree env =
     do_then the_state (\<lambda>state.
     if ct_worktree state = None then give None
     else
       do_then (outside (ee_mark_orphaned env (cq_task_id (ct_request state)))) (\<lambda>r.
       do_then (store_worktree env r) (\<lambda>_.
       give (Some r))))"

section \<open>Guards of the worktree\<close>

text \<open>\<open>_validate_task_git_scope\<close>; the errors it catches are those of its two calls.\<close>

definition validate_task_git_scope :: "'w EngineEnv \<Rightarrow> ('w, unit) stm" where
  "validate_task_git_scope env =
     (let changed = CodingEngineError ''task worktree Git metadata scope changed from its registered identity'' in
      do_then (ask (ee_git_scope_valid env)) (\<lambda>valid.
      do_then (do_ensure valid changed) (\<lambda>_.
      do_try (do_then (outside (ee_owned_path env)) (\<lambda>_. give ())) (\<lambda>_. raises changed))))"

definition assert_no_ignored_files :: "'w EngineEnv \<Rightarrow> string \<Rightarrow> ('w, unit) stm" where
  "assert_no_ignored_files env phase =
     do_then (outside (ee_ignored_paths env)) (\<lambda>paths.
     do_ensure (paths = []) (CodingEngineError (''ignored files appeared in the owned worktree '' @ phase)))"

definition guard_worktree :: "'w EngineEnv \<Rightarrow> string \<Rightarrow> ('w, unit) stm" where
  "guard_worktree env phase = do_then (validate_task_git_scope env) (\<lambda>_. assert_no_ignored_files env phase)"

definition same_snapshot :: "Source \<Rightarrow> Source \<Rightarrow> bool" where
  "same_snapshot live source \<longleftrightarrow>
     so_base_commit live = so_base_commit source \<and> so_dirty_fingerprint live = so_dirty_fingerprint source \<and>
     so_git_metadata_fingerprint live = so_git_metadata_fingerprint source"

text \<open>\<open>_refresh_source_snapshot\<close>: the owned branches of all tasks are left out of the comparison.\<close>

definition assert_source_snapshot :: "'w EngineEnv \<Rightarrow> ('w, unit) stm" where
  "assert_source_snapshot env =
     do_then the_source (\<lambda>source.
     do_then (outside (ee_active_refs env)) (\<lambda>refs.
     do_then (outside (ee_resolve env (so_canonical_root source) (sort (dedup (so_excluded_git_refs source @ refs))))) (\<lambda>live.
     do_ensure (same_snapshot live source)
       (CodingEngineError ''source repository or protected Git metadata changed before completion''))))"

section \<open>Rules\<close>

definition scope_targets :: "CodingTaskStateV1 \<Rightarrow> string list \<Rightarrow> string list" where
  "scope_targets state additional_modified =
     unique_items (cq_rule_scope_paths (ct_request state) @ cq_expected_diff_paths (ct_request state) @
       cq_forbidden_diff_paths (ct_request state) @ ct_inspected_files state @ ct_modified_files state @ additional_modified)"

definition new_applicable_rules :: "RuleReferenceV1 list \<Rightarrow> RuleReferenceV1 list \<Rightarrow> RuleReferenceV1 list" where
  "new_applicable_rules known discovered =
     (let identity = (\<lambda>r. (ru_path r, ru_sha256 r, ru_scope r)) in
      filter (\<lambda>r. identity r \<notin> set (map identity known)) discovered)"

definition rule_expansion_message :: "RuleReferenceV1 list \<Rightarrow> string" where
  "rule_expansion_message rules =
     (let scopes = join '', '' (map ru_scope (take 16 rules)) @
        (if 16 < length rules then '', and '' @ show_nat (length rules - 16) @ '' more'' else [])
      in ''New applicable AGENTS.md rule scope was discovered after repository inspection'' @
         '' ('' @ scopes @ ''). The current attempt cannot pass; read the newly recorded rule files '' @
         ''before continuing in the next bounded attempt.'')"

definition differs_message :: "string \<Rightarrow> string" where
  "differs_message relative =
     ''applicable AGENTS.md bytes differ between the source working tree '' @
     ''and isolated base-commit worktree ('' @ relative @ ''); commit or reconcile the rule before coding''"

text \<open>Every recorded rule file must hold the recorded bytes on both sides.\<close>

fun check_rule_files :: "'w EngineEnv \<Rightarrow> RuleReferenceV1 list \<Rightarrow> ('w, unit) stm" where
  "check_rule_files env [] = give ()"
| "check_rule_files env (rule # rules) =
     do_then (outside (ee_rule_relative env (ru_path rule))) (\<lambda>found.
     do_then (do_some (CodingEngineError ''applicable AGENTS.md rule no longer belongs to the source repository'') found) (\<lambda>relative.
     do_then (outside (ee_rule_digest env True relative)) (\<lambda>source_digest.
     do_then (outside (ee_rule_digest env False relative)) (\<lambda>target_digest.
     do_then (do_ensure (source_digest = Some (ru_sha256 rule) \<and> target_digest = Some (ru_sha256 rule))
       (CodingEngineError (differs_message relative))) (\<lambda>_.
     check_rule_files env rules)))))"

definition raise_first :: "string list \<Rightarrow> ('w, unit) stm" where
  "raise_first mismatched =
     (case mismatched of [] \<Rightarrow> give () | relative # _ \<Rightarrow> raises (CodingEngineError (differs_message relative)))"

lemma raise_first_ensure [simp]: "raise_first ms = do_ensure (ms = []) (CodingEngineError (differs_message (hd ms)))"
  by (simp add: raise_first_def do_ensure_def split: list.split)

definition assert_rule_bytes_match :: "'w EngineEnv \<Rightarrow> RuleReferenceV1 list \<Rightarrow> string list \<Rightarrow> ('w, unit) stm" where
  "assert_rule_bytes_match env rules targets =
     do_then (outside (ee_live_rules env True targets)) (\<lambda>source_rules.
     do_then (outside (ee_live_rules env False targets)) (\<lambda>executor_rules.
     let mismatched = sort (filter (\<lambda>relative. map_of source_rules relative \<noteq> map_of executor_rules relative)
           (dedup (map fst source_rules @ map fst executor_rules)))
     in do_then (raise_first mismatched) (\<lambda>_.
        check_rule_files env rules)))"

text \<open>The check on the current state.\<close>

definition assert_current_rules :: "'w EngineEnv \<Rightarrow> ('w, unit) stm" where
  "assert_current_rules env =
     do_then the_state (\<lambda>state. assert_rule_bytes_match env (ct_applicable_rules state) (scope_targets state []))"

end
