(* ===== verification/EngineGit.thy ===== *)
theory EngineGit
  imports EngineText CodexReview
begin

text \<open>
  What the coding engine does with Git, \<open>services/coding/engine.py\<close>: the binding of an observed
  worktree, the gate of the local commit and the check before completion. Every Git command is an
  argument vector; \<open>CommitGate\<close> is what the gate hands on.
\<close>

section \<open>Observations\<close>

definition git_text :: "'w EngineEnv \<Rightarrow> string list \<Rightarrow> ('w, string) stm" where
  "git_text env argv = do_then (outside (ee_git env argv)) (\<lambda>out. give (casefold (py_strip out)))"

definition head_command :: "string list" where
  "head_command = [''rev-parse'', ''--verify'', ''HEAD'']"

record Observed =
  ob_head :: string
  ob_status :: "string list"
  ob_diff :: string
  ob_ignored :: string

definition observe :: "'w EngineEnv \<Rightarrow> ('w, Observed) stm" where
  "observe env =
     do_then (git_text env head_command) (\<lambda>head.
     do_then (outside (ee_status_paths env)) (\<lambda>status.
     do_then (outside (ee_git_diff env)) (\<lambda>diff.
     do_then (outside (ee_ignored_fingerprint env)) (\<lambda>ignored.
     give \<lparr>ob_head = head, ob_status = status, ob_diff = diff, ob_ignored = ignored\<rparr>))))"

definition binding_of :: "'w EngineEnv \<Rightarrow> Observed \<Rightarrow> string \<Rightarrow> string \<Rightarrow> WorktreeBinding" where
  "binding_of env o1 changed after =
     (let diff_sha256 = ee_sha256 env (ob_diff o1) in
      \<lparr>wb_head_sha = ob_head o1, wb_status_paths = ob_status o1, wb_diff_sha256 = diff_sha256,
       wb_ignored_fingerprint = ob_ignored o1, wb_changed_content_fingerprint = changed,
       wb_content_fingerprint = ee_sha256_frames env ([ob_head o1, diff_sha256, ob_ignored o1, changed] @ ob_status o1),
       wb_full_fingerprint = after\<rparr>)"

text \<open>A round observes everything twice; only when both agree is there a binding. There are three rounds.\<close>

fun binding_rounds :: "'w EngineEnv \<Rightarrow> nat \<Rightarrow> ('w, WorktreeBinding \<times> string) stm" where
  "binding_rounds env 0 =
     raises (CodingEngineError ''worktree changed while its approved diff fingerprint was captured'')"
| "binding_rounds env (Suc n) =
     do_then (outside (ee_scan_changed env)) (\<lambda>changed.
     do_then (outside (ee_fingerprint env)) (\<lambda>earlier.
     do_then (observe env) (\<lambda>first.
     do_then (observe env) (\<lambda>second.
     do_then (outside (ee_scan_changed env)) (\<lambda>repeated_changed.
     do_then (outside (ee_fingerprint env)) (\<lambda>after.
     if earlier \<noteq> after \<or> first \<noteq> second \<or> changed \<noteq> repeated_changed then binding_rounds env n
     else
       do_then (validate_task_git_scope env) (\<lambda>_.
       do_then (assert_no_ignored_files env ''during fingerprinting'') (\<lambda>_.
       give (binding_of env first changed after, ob_diff first)))))))))"

definition capture_worktree_binding :: "'w EngineEnv \<Rightarrow> ('w, WorktreeBinding \<times> string) stm" where
  "capture_worktree_binding env =
     do_then (validate_task_git_scope env) (\<lambda>_.
     do_then (assert_no_ignored_files env ''before fingerprinting'') (\<lambda>_.
     binding_rounds env 3))"

definition assert_same_approved_binding ::
    "WorktreeBinding \<Rightarrow> WorktreeBinding \<Rightarrow> string \<Rightarrow> bool \<Rightarrow> ('w, unit) stm" where
  "assert_same_approved_binding expected actual phase allow_index_transition =
     do_ensure (if allow_index_transition then wb_content_fingerprint expected = wb_content_fingerprint actual
         else expected = actual)
       (CodingEngineError (''approved diff/worktree fingerprint changed '' @ phase))"

definition capture_diff :: "'w EngineEnv \<Rightarrow> ('w, ArtifactReferenceV1 option) stm" where
  "capture_diff env =
     do_then (outside (ee_scan_changed env)) (\<lambda>_.
     do_then (outside (ee_git_diff env)) (\<lambda>payload.
     if payload = [] then give None
     else do_then (outside (ee_write_diff env payload)) (\<lambda>a. give (Some a))))"

section \<open>The commit gate\<close>

record CommitGate =
  cg_commit_sha :: "string option"
  cg_tree_sha :: "string option"
  cg_approved_diff_sha256 :: string
  cg_staged_diff_sha256 :: "string option"
  cg_terminal_binding :: WorktreeBinding

definition worktree_identity_fields :: "WorktreeRecordV1 \<Rightarrow> string option list" where
  "worktree_identity_fields r =
     [Some (wr_task_id r), Some (wr_source_repository r), Some (wr_worktree_path r), wr_branch r,
      wr_git_dir r, wr_git_common_dir r, wr_git_marker_sha256 r, Some (wr_base_commit r),
      Some (wr_owner_token_hash r)]"

definition owned_ref :: "WorktreeRecordV1 \<Rightarrow> string" where
  "owned_ref r = ''refs/heads/'' @ (case wr_branch r of None \<Rightarrow> ''None'' | Some b \<Rightarrow> b)"

text \<open>Symbolic HEAD, HEAD and the branch all stand where they should.\<close>

definition branch_at :: "'w EngineEnv \<Rightarrow> string \<Rightarrow> string \<Rightarrow> ('w, bool) stm" where
  "branch_at env exact_ref expected_head =
     do_then (do_then (outside (ee_git env [''symbolic-ref'', ''--quiet'', ''HEAD''])) (\<lambda>out. give (py_strip out))) (\<lambda>symbolic.
     do_then (git_text env head_command) (\<lambda>head.
     do_then (git_text env [''rev-parse'', ''--verify'', exact_ref]) (\<lambda>ref_head.
     give (symbolic = exact_ref \<and> head = expected_head \<and> ref_head = expected_head))))"

definition assert_owned_branch_head :: "'w EngineEnv \<Rightarrow> CodingTaskStateV1 \<Rightarrow> string \<Rightarrow> ('w, string) stm" where
  "assert_owned_branch_head env state expected_head =
     do_then (do_some (CodingEngineError ''local commit requires a registered task branch'')
       (case ct_worktree state of None \<Rightarrow> None | Some w \<Rightarrow> if wr_branch w = None then None else Some w)) (\<lambda>w.
     do_then (validate_task_git_scope env) (\<lambda>_.
     do_then (outside (ee_owned_path env)) (\<lambda>registered.
     do_then (do_ensure (worktree_identity_fields registered = worktree_identity_fields w)
       (CodingEngineError ''local commit worktree registry identity changed'')) (\<lambda>_.
     do_then (branch_at env (owned_ref registered) expected_head) (\<lambda>there.
     do_then (do_ensure there (CodingEngineError ''owned branch/ref/HEAD changed before guarded update'')) (\<lambda>_.
     give (owned_ref registered)))))))"

definition staged_diff_command :: "string list" where
  "staged_diff_command =
     [''diff'', ''--cached'', ''--binary'', ''--text'', ''--no-ext-diff'', ''--no-textconv'', ''--no-color'', ''HEAD'', ''--'']"

definition assert_exact_verified_index :: "'w EngineEnv \<Rightarrow> string \<Rightarrow> string \<Rightarrow> ('w, unit) stm" where
  "assert_exact_verified_index env expected_tree approved_diff_sha256 =
     do_then (validate_task_git_scope env) (\<lambda>_.
     do_then (git_text env [''write-tree'']) (\<lambda>tree.
     do_then (outside (ee_git env staged_diff_command)) (\<lambda>staged_diff.
     do_ensure (tree = expected_tree \<and> ee_sha256 env staged_diff = approved_diff_sha256)
       (CodingEngineError ''staged index changed after exact diff/tree approval''))))"

definition commit_tree_command :: "string \<Rightarrow> string \<Rightarrow> string \<Rightarrow> string list" where
  "commit_tree_command tree parent message =
     [''-c'', ''user.name=Local Agent'', ''-c'', ''user.email=local-agent@localhost.invalid'', ''-c'', ''commit.gpgSign=false'',
      ''commit-tree'', tree, ''-p'', parent, ''-m'', message]"

definition tree_command :: "string \<Rightarrow> string list" where
  "tree_command commit = [''rev-parse'', ''--verify'', commit @ ''^{tree}'']"

definition commit_diff_command :: "string \<Rightarrow> string \<Rightarrow> string list" where
  "commit_diff_command old new =
     [''diff'', ''--binary'', ''--text'', ''--no-ext-diff'', ''--no-textconv'', ''--no-color'', old, new, ''--'']"

text \<open>The commit object holds the approved tree, patch and contents; nothing refers to it yet.\<close>

definition assert_unreachable_commit ::
    "'w EngineEnv \<Rightarrow> string \<Rightarrow> string \<Rightarrow> string \<Rightarrow> string \<Rightarrow> string \<Rightarrow> ('w, unit) stm" where
  "assert_unreachable_commit env commit old_head expected_tree approved_diff_sha256 approved_content =
     do_then (git_text env (tree_command commit)) (\<lambda>tree.
     do_then (outside (ee_git env (commit_diff_command old_head commit))) (\<lambda>diff.
     do_then (outside (ee_scan_commit env old_head commit)) (\<lambda>content.
     do_ensure (tree = expected_tree \<and> ee_sha256 env diff = approved_diff_sha256 \<and> content = approved_content)
       (CodingEngineError ''unreachable commit differs from the exact approved tree/diff''))))"

definition update_ref_command :: "string \<Rightarrow> string \<Rightarrow> string \<Rightarrow> string list" where
  "update_ref_command exact_ref commit old_head = [''update-ref'', exact_ref, commit, old_head]"

definition create_guarded_commit ::
    "'w EngineEnv \<Rightarrow> CodingTaskStateV1 \<Rightarrow> string \<Rightarrow> string \<Rightarrow> string \<Rightarrow> string \<Rightarrow> ('w, string \<times> string) stm" where
  "create_guarded_commit env state expected_tree approved_diff_sha256 approved_content message =
     do_then (do_some (CodingEngineError ''guarded commit requires an owned worktree'') (ct_worktree state)) (\<lambda>w.
     do_then (assert_owned_branch_head env state (wr_base_commit w)) (\<lambda>_.
     do_then (assert_exact_verified_index env expected_tree approved_diff_sha256) (\<lambda>_.
     do_then (git_text env (commit_tree_command expected_tree (wr_base_commit w) message)) (\<lambda>commit.
     do_then (assert_unreachable_commit env commit (wr_base_commit w) expected_tree approved_diff_sha256 approved_content) (\<lambda>_.
     do_then (assert_owned_branch_head env state (wr_base_commit w)) (\<lambda>exact_ref.
     do_then (assert_exact_verified_index env expected_tree approved_diff_sha256) (\<lambda>_.
     do_then (outside (ee_git env (update_ref_command exact_ref commit (wr_base_commit w)))) (\<lambda>_.
     do_then (validate_task_git_scope env) (\<lambda>_.
     do_then (branch_at env exact_ref commit) (\<lambda>there.
     do_then (do_ensure there (CodingEngineError ''guarded update did not advance the exact owned ref'')) (\<lambda>_.
     do_then (git_text env (tree_command commit)) (\<lambda>committed_tree.
     do_then (outside (ee_git env (commit_diff_command (wr_base_commit w) commit))) (\<lambda>committed_diff.
     do_then (do_ensure (committed_tree = expected_tree \<and> ee_sha256 env committed_diff = approved_diff_sha256)
       (CodingEngineError ''guarded commit differs from the exact approved tree/diff'')) (\<lambda>_.
     give (commit, committed_tree)))))))))))))))"

text \<open>\<open>goal.splitlines()[0][:180]\<close> for a goal that is not blank.\<close>

definition commit_message :: "CodingTaskRequestV1 \<Rightarrow> string" where
  "commit_message request =
     (case cq_commit_message request of
        Some m \<Rightarrow> if m \<noteq> [] then m
          else ''Local Agent: '' @ take 180 (takeWhile (\<lambda>c. \<not> is_line_break c) (cq_goal request))
      | None \<Rightarrow> ''Local Agent: '' @ take 180 (takeWhile (\<lambda>c. \<not> is_line_break c) (cq_goal request)))"

text \<open>The commit itself, after the staged index was found equal to the approved diff.\<close>

definition finish_commit :: "'w EngineEnv \<Rightarrow> CodingTaskStateV1 \<Rightarrow> WorktreeRecordV1 \<Rightarrow> WorktreeBinding \<Rightarrow> string \<Rightarrow> ('w, CommitGate) stm" where
  "finish_commit env state w approved staged_diff_sha256 =
     do_then (git_text env [''write-tree'']) (\<lambda>expected_tree.
     do_then (assert_source_snapshot env) (\<lambda>_.
     do_then (validate_task_git_scope env) (\<lambda>_.
     do_then (create_guarded_commit env state expected_tree (wb_diff_sha256 approved)
       (wb_changed_content_fingerprint approved) (commit_message (ct_request state))) (\<lambda>(sha, committed_tree).
     do_then (do_then (outside (ee_git env [''rev-list'', ''--count'', sha, ''^'' @ wr_base_commit w, ''--''])) (\<lambda>out. give (py_strip out))) (\<lambda>count.
     do_then (if count \<noteq> ''1'' then give False else do_then (outside (ee_status_paths env)) (\<lambda>paths. give (paths = []))) (\<lambda>one_clean.
     do_then (do_ensure one_clean (CodingEngineError ''local commit gate did not produce exactly one clean local commit'')) (\<lambda>_.
     do_then (capture_worktree_binding env) (\<lambda>(terminal, _).
     do_then (do_ensure (wb_head_sha terminal = sha \<and> wb_status_paths terminal = [] \<and>
         wb_diff_sha256 terminal = ee_sha256 env [] \<and> wb_ignored_fingerprint terminal = wb_ignored_fingerprint approved)
       (CodingEngineError ''worktree changed while the approved local commit was finalized'')) (\<lambda>_.
     give \<lparr>cg_commit_sha = Some sha, cg_tree_sha = Some committed_tree, cg_approved_diff_sha256 = wb_diff_sha256 approved,
       cg_staged_diff_sha256 = Some staged_diff_sha256, cg_terminal_binding = terminal\<rparr>)))))))))"

definition commit_staged :: "'w EngineEnv \<Rightarrow> CodingTaskStateV1 \<Rightarrow> WorktreeBinding \<Rightarrow> ('w, CommitGate) stm" where
  "commit_staged env state approved =
     do_then (do_ensure (case ct_review state of None \<Rightarrow> False | Some r \<Rightarrow> rv_verdict r = APPROVED)
       (CodingEngineError ''local commit gate requires an approved independent review'')) (\<lambda>_.
     do_then (do_some (CodingEngineError ''local commit gate requires an isolated worktree'') (ct_worktree state)) (\<lambda>w.
     do_then (git_text env head_command) (\<lambda>head.
     do_then (do_ensure (head = wr_base_commit w) (CodingEngineError ''executor changed HEAD before the local commit gate'')) (\<lambda>_.
     do_then (outside (ee_status_paths env)) (\<lambda>paths.
     do_then (do_ensure (paths \<noteq> []) (CodingEngineError ''local commit was requested but the approved diff is empty'')) (\<lambda>_.
     do_then (validate_task_git_scope env) (\<lambda>_.
     do_then (outside (ee_git env [''add'', ''--all''])) (\<lambda>_.
     do_then (capture_worktree_binding env) (\<lambda>(staged_binding, _).
     do_then (assert_same_approved_binding approved staged_binding ''during staging'' True) (\<lambda>_.
     do_then (outside (ee_git env staged_diff_command)) (\<lambda>staged_diff.
     do_then (do_ensure (staged_diff \<noteq> []) (CodingEngineError ''local commit staging produced an empty diff'')) (\<lambda>_.
     do_then (do_ensure (ee_sha256 env staged_diff = wb_diff_sha256 approved)
       (CodingEngineError ''exact staged diff differs from the independently approved diff'')) (\<lambda>_.
     finish_commit env state w approved (ee_sha256 env staged_diff))))))))))))))"

definition commit_gate :: "'w EngineEnv \<Rightarrow> WorktreeBinding \<Rightarrow> ('w, CommitGate) stm" where
  "commit_gate env approved =
     do_then the_state (\<lambda>state.
     do_then (guard_worktree env ''before commit'') (\<lambda>_.
     do_then (assert_source_snapshot env) (\<lambda>_.
     do_then (capture_worktree_binding env) (\<lambda>(before_stage, _).
     do_then (assert_same_approved_binding approved before_stage ''before staging'' False) (\<lambda>_.
     if \<not> cp_local_commit (cq_permissions (ct_request state))
     then give \<lparr>cg_commit_sha = None, cg_tree_sha = None, cg_approved_diff_sha256 = wb_diff_sha256 approved,
       cg_staged_diff_sha256 = None, cg_terminal_binding = before_stage\<rparr>
     else commit_staged env state approved)))))"

definition final_diff_command :: "string \<Rightarrow> string \<Rightarrow> string list" where
  "final_diff_command base commit =
     [''diff'', ''--binary'', ''--no-ext-diff'', ''--no-textconv'', ''--no-color'', base, commit, ''--'']"

definition assert_terminal_commit_gate :: "'w EngineEnv \<Rightarrow> CommitGate \<Rightarrow> ('w, unit) stm" where
  "assert_terminal_commit_gate env gate =
     do_then the_state (\<lambda>state.
     do_then (guard_worktree env ''before completion'') (\<lambda>_.
     do_then (capture_worktree_binding env) (\<lambda>(current, _).
     do_then (do_ensure (current = cg_terminal_binding gate)
       (CodingEngineError ''approved worktree changed before terminal completion'')) (\<lambda>_.
     case cg_commit_sha gate of
       None \<Rightarrow> give ()
     | Some sha \<Rightarrow>
         (case (ct_worktree state, cg_tree_sha gate, cg_staged_diff_sha256 gate) of
            (Some w, Some tree_sha, Some staged) \<Rightarrow>
              do_then (git_text env (tree_command sha)) (\<lambda>tree.
              do_then (do_ensure (tree = tree_sha) (CodingEngineError ''committed tree changed before terminal completion'')) (\<lambda>_.
              do_then (outside (ee_git env (final_diff_command (wr_base_commit w) sha))) (\<lambda>diff.
              do_then (do_ensure (ee_sha256 env diff = staged)
                (CodingEngineError ''committed diff changed before terminal completion'')) (\<lambda>_.
              validate_task_git_scope env))))
          | _ \<Rightarrow> raises (CodingEngineError ''local commit terminal binding is incomplete''))))))"

end
