(* ===== verification/EngineReview.thy ===== *)
theory EngineReview
  imports EngineGit
begin

text \<open>
  Verification and review in the coding engine, \<open>services/coding/engine.py\<close>: the commands of an attempt,
  the independent review with its redaction, and the re-authentication of the review before the
  irreversible steps. The deterministic gate, the merge of the Codex review (theories Reviewer and
  CodexReview) and the local semantic review enter as functions of the surroundings.
\<close>

section \<open>Verification\<close>

definition diff_check_command :: "CodingPolicy \<Rightarrow> VerificationCommandV1" where
  "diff_check_command policy =
     \<lparr>vc_argv = [''git'', ''diff'', ''--check''], vc_purpose = ''Reject whitespace errors in the bounded task diff.'',
      vc_timeout_seconds = min 60 (cy_verification_timeout_seconds policy), vc_required = True\<rparr>"

text \<open>\<open>a<attempt>-verify-<ordinal>\<close>, from 1.\<close>

definition command_specs :: "nat \<Rightarrow> VerificationCommandV1 list \<Rightarrow> (string \<times> VerificationCommandV1) list" where
  "command_specs attempt_index commands =
     map (\<lambda>(n, c). (''a'' @ show_nat attempt_index @ ''-verify-'' @ show_nat (n + 1), c)) (enumerate 0 commands)"

definition halts_verification :: "CommandResultV1 \<Rightarrow> bool" where
  "halts_verification r \<longleftrightarrow> cm_status r \<in> {CS_CANCELLED, CS_TIMED_OUT}"

text \<open>The results so far and their output artifacts; a cancelled or timed-out command ends the run.\<close>

fun run_commands ::
    "'w EngineEnv \<Rightarrow> (string \<times> VerificationCommandV1) list \<Rightarrow> ('w, CommandResultV1 list \<times> ArtifactReferenceV1 list) stm" where
  "run_commands env [] = give ([], [])"
| "run_commands env ((command_id, command) # specs) =
     do_then (outside (ee_run_verifier env command command_id)) (\<lambda>result.
     do_then (if truthy (cm_output_artifact_id result)
         then do_then (outside (ee_artifact_reference env (the (cm_output_artifact_id result)))) (\<lambda>a. give [a])
         else give []) (\<lambda>references.
     if halts_verification result then give ([result], references)
     else do_then (run_commands env specs) (\<lambda>(results, later). give (result # results, references @ later))))"

definition verify_attempt_commands ::
    "'w EngineEnv \<Rightarrow> nat \<Rightarrow> ('w, CommandResultV1 list \<times> string list \<times> ArtifactReferenceV1 list) stm" where
  "verify_attempt_commands env attempt_index =
     do_then the_state (\<lambda>state.
     let request = ct_request state in
     if cq_mode request = CM_READ_ONLY then give ([], [], [])
     else
       let specs = command_specs attempt_index (cq_verification_commands request @ [diff_check_command (ee_policy env)]);
           ui = (if truthy (cq_ui_url request) then Some (''a'' @ show_nat attempt_index @ ''-ui'') else None);
           required = map fst (filter (\<lambda>s. vc_required (snd s)) specs) @ (case ui of None \<Rightarrow> [] | Some i \<Rightarrow> [i])
       in do_then (run_commands env specs) (\<lambda>(results, references).
          case ui of
            None \<Rightarrow> give (results, required, references)
          | Some ui_id \<Rightarrow>
              if list_ex halts_verification results then give (results, required, references)
              else
                do_then (outside (ee_run_ui env request ui_id)) (\<lambda>(ui_result, screenshot, evidence).
                give (results @ [ui_result], required,
                  references @ List.map_filter (\<lambda>a. a) [screenshot, evidence]))))"

definition verification_failed :: "CommandResultV1 list \<Rightarrow> string list \<Rightarrow> bool" where
  "verification_failed results required \<longleftrightarrow>
     list_ex (\<lambda>r. cm_command_id r \<in> set required \<and> cm_status r \<noteq> CS_PASSED) results \<or>
     \<not> set required \<subseteq> set (map cm_command_id results)"

section \<open>Review\<close>

definition review_finding :: "ReviewSeverity \<Rightarrow> string \<Rightarrow> string \<Rightarrow> string \<Rightarrow> ReviewFindingV1" where
  "review_finding severity code scenario remediation =
     \<lparr>fi_severity = severity, fi_code = code, fi_file = None, fi_line = None, fi_failure_scenario = scenario,
      fi_remediation = remediation\<rparr>"

text \<open>A review whose dump holds a secret is replaced by a blocked one.\<close>

definition redacted_review :: "'w EngineEnv \<Rightarrow> datetime \<Rightarrow> ReviewResultV1 \<Rightarrow> ReviewResultV1" where
  "redacted_review env now review =
     \<lparr>rv_reviewer_id = ''review-redacted-'' @ take 12 (ee_sha256 env (rv_reviewer_id review)),
      rv_reviewer = DETERMINISTIC, rv_independent = True, rv_verdict = RV_BLOCKED,
      rv_findings = [review_finding SEV_CRITICAL ''review.secret_detected''
        ''Reviewer output contained material blocked by the privacy policy.''
        ''Remove secret material and repeat review without persisting raw output.''],
      rv_checked_requirements = rv_checked_requirements review, rv_checked_tests = rv_checked_tests review,
      rv_checked_diff_scope = rv_checked_diff_scope review, rv_checked_secrets = False,
      rv_checked_constitution = rv_checked_constitution review, rv_subject_sha256 = None,
      rv_evidence_artifact_id = None, rv_evidence_artifact_sha256 = None,
      rv_summary = ''Reviewer output was blocked by privacy policy.'', rv_reviewed_at = now\<rparr>"

definition safe_review :: "'w EngineEnv \<Rightarrow> ReviewResultV1 \<Rightarrow> ('w, ReviewResultV1) stm" where
  "safe_review env review =
     (if ee_detect_secret env (ee_dump_review env review) = None then give review
      else
        do_then (ask (ee_now env)) (\<lambda>now.
        do_some ContractRaised (validate_ReviewResultV1 (redacted_review env now review))))"

definition failed_codex_review :: "CodingTaskRequestV1 \<Rightarrow> datetime \<Rightarrow> ReviewResultV1 \<Rightarrow> ReviewResultV1" where
  "failed_codex_review request now deterministic =
     \<lparr>rv_reviewer_id = ''codex-review-failed-'' @ take 24 (cq_task_id request),
      rv_reviewer = CODEX_REVIEW, rv_independent = True, rv_verdict = RV_BLOCKED,
      rv_findings = [review_finding SEV_HIGH ''codex.review_failed''
        ''The required independent Codex review did not complete.''
        ''Repeat the specialized read-only review before commit.''],
      rv_checked_requirements = rv_checked_requirements deterministic, rv_checked_tests = rv_checked_tests deterministic,
      rv_checked_diff_scope = rv_checked_diff_scope deterministic, rv_checked_secrets = rv_checked_secrets deterministic,
      rv_checked_constitution = rv_checked_constitution deterministic, rv_subject_sha256 = None,
      rv_evidence_artifact_id = None, rv_evidence_artifact_sha256 = None,
      rv_summary = ''Required specialized Codex review failed.'', rv_reviewed_at = now\<rparr>"

text \<open>A public snapshot is known by its digest, \<open>None\<close> when there was no preflight.\<close>

definition assert_public_data_snapshot :: "'w EngineEnv \<Rightarrow> string option \<Rightarrow> ('w, unit) stm" where
  "assert_public_data_snapshot env expected =
     do_then (do_some (CodingEngineError ''Codex execution has no bound PUBLIC repository preflight'') expected) (\<lambda>snapshot.
     do_then (ask (ee_public_snapshot env snapshot)) (\<lambda>r.
     case r of
       Inl message \<Rightarrow> raises (CodingEngineError (''Codex PUBLIC repository preflight changed: '' @ message))
     | Inr current \<Rightarrow>
         do_ensure (current = snapshot) (CodingEngineError ''Codex PUBLIC repository snapshot changed before execution'')))"

definition prompt_stm :: "CodingTaskStateV1 \<Rightarrow> string option \<Rightarrow> bool \<Rightarrow> ('w, string) stm" where
  "prompt_stm state previous_error resume =
     (case coding_prompt (ct_request state) (ct_applicable_rules state) previous_error resume of
        Inl e \<Rightarrow> raises e
      | Inr p \<Rightarrow> give p)"

text \<open>The final review by Codex over a preflight taken now.\<close>

definition codex_final_review ::
    "'w EngineEnv \<Rightarrow> string \<Rightarrow> string option \<Rightarrow> ReviewResultV1 \<Rightarrow> CodingTaskStateV1 \<Rightarrow>
     ('w, ReviewResultV1 \<times> ArtifactReferenceV1 option) stm" where
  "codex_final_review env context_json snapshot deterministic state =
     do_then (outside (ee_fingerprint env)) (\<lambda>earlier.
     do_try
       (do_then (do_some (CodingEngineError ''Codex review has no bound PUBLIC repository preflight'') snapshot) (\<lambda>bound.
        do_then (ask (ee_public_snapshot env bound)) (\<lambda>r.
        do_then (case r of Inl message \<Rightarrow> raises (HostRaised message) | Inr current \<Rightarrow> give current) (\<lambda>current.
        do_then (assert_public_data_snapshot env (Some current)) (\<lambda>_.
        do_then (prompt_stm state None False) (\<lambda>prompt.
        do_then (outside (ee_execute env CODEX_EXEC True (ct_request state) prompt context_json)) (\<lambda>codex.
        do_then (outside (ee_fingerprint env)) (\<lambda>after.
        do_then (outside (ee_merge_codex env deterministic (xr_summary codex) (earlier = after))) (\<lambda>review.
        give (review, Some (xr_output_artifact codex)))))))))))
       (\<lambda>e. case e of
          ExecutorRaised message artifact \<Rightarrow>
            do_then (ask (ee_cancelled env)) (\<lambda>cancelled.
            if cancelled then raises e
            else
              do_then (ask (ee_now env)) (\<lambda>now.
              do_then (do_some ContractRaised (validate_ReviewResultV1 (failed_codex_review (ct_request state) now deterministic))) (\<lambda>review.
              give (review, artifact))))
        | _ \<Rightarrow> raises e))"

record ReviewInputs =
  ri_context_json :: string
  ri_required :: "string list"
  ri_results :: "CommandResultV1 list"
  ri_binding :: WorktreeBinding
  ri_diff :: "ArtifactReferenceV1 option"
  ri_execution :: ExecutorResult
  ri_cloud_final_review :: bool
  ri_primary_review_only :: bool
  ri_unchanged :: bool
  ri_snapshot :: "string option"

definition review_attempt ::
    "'w EngineEnv \<Rightarrow> ReviewInputs \<Rightarrow> ('w, ReviewResultV1 \<times> ArtifactReferenceV1 option \<times> ArtifactReferenceV1 list) stm" where
  "review_attempt env r =
     do_then the_state (\<lambda>state.
     do_then the_source (\<lambda>source.
     do_then (outside (ee_deterministic_review env source state (ri_required r) (ri_results r) (ri_unchanged r))) (\<lambda>deterministic.
     do_then
       (if ri_primary_review_only r then
          do_then (outside (ee_merge_codex env deterministic (xr_summary (ri_execution r)) (ri_unchanged r))) (\<lambda>review.
          give (review, None, []))
        else if ri_cloud_final_review r then
          do_then (codex_final_review env (ri_context_json r) (ri_snapshot r) deterministic state) (\<lambda>(review, artifact).
          give (review, artifact, []))
        else outside (ee_semantic_review env deterministic state (ri_binding r) (ri_diff r) (ri_execution r) (ri_results r)))
       (\<lambda>(review, artifact, audit).
     do_then (safe_review env review) (\<lambda>safe.
     give (safe, artifact, audit))))))"

section \<open>Before the irreversible steps\<close>

definition jstr :: "json option \<Rightarrow> string option" where
  "jstr v = (case v of Some (JStr s) \<Rightarrow> Some s | _ \<Rightarrow> None)"

definition semantic_review_producer :: string where
  "semantic_review_producer = ''local-semantic-reviewer''"

definition verdict_text :: "ReviewVerdict \<Rightarrow> string" where
  "verdict_text v = (case v of APPROVED \<Rightarrow> ''approved'' | REJECTED \<Rightarrow> ''rejected'' | RV_BLOCKED \<Rightarrow> ''blocked'')"

text \<open>The stored evidence names the review, and its subject and response digest to what it says.\<close>

definition evidence_bound :: "'w EngineEnv \<Rightarrow> ReviewResultV1 \<Rightarrow> (string \<times> json) list \<Rightarrow> json \<Rightarrow> json \<Rightarrow> bool" where
  "evidence_bound env review envelope subject response \<longleftrightarrow>
     jstr (jget ''producer'' envelope) = Some semantic_review_producer \<and>
     jstr (jget ''subject_sha256'' envelope) = rv_subject_sha256 review \<and>
     jstr (jget ''canonical_subject_sha256'' envelope) = rv_subject_sha256 review \<and>
     jstr (jget ''verdict'' envelope) = Some (verdict_text (rv_verdict review)) \<and>
     Some (ee_sha256 env (ee_canonical_json env subject)) = rv_subject_sha256 review \<and>
     jstr (jget ''canonical_response_sha256'' envelope) = Some (ee_sha256 env (ee_canonical_json env response)) \<and>
     (case response of
        JObj members \<Rightarrow> jstr (jget ''subject_sha256'' members) = rv_subject_sha256 review \<and>
          jstr (jget ''verdict'' members) = Some (verdict_text (rv_verdict review))
      | _ \<Rightarrow> False)"

definition assert_semantic_evidence :: "'w EngineEnv \<Rightarrow> CodingTaskStateV1 \<Rightarrow> ReviewResultV1 \<Rightarrow> ('w, unit) stm" where
  "assert_semantic_evidence env state review =
     (let matches = filter (\<lambda>a. Some (af_artifact_id a) = rv_evidence_artifact_id review) (ct_artifacts state);
          unread = CodingEngineError ''local semantic review evidence could not be re-authenticated'' in
      do_then (do_ensure (length matches = 1 \<and> rv_subject_sha256 review \<noteq> None \<and> rv_evidence_artifact_sha256 review \<noteq> None)
        (CodingEngineError ''local semantic review evidence is missing or ambiguous'')) (\<lambda>_.
      let evidence = hd matches in
      do_then (do_ensure (af_kind evidence = AF_REVIEW \<and> af_producer evidence = semantic_review_producer \<and>
          af_media_type evidence = ''application/json'' \<and> Some (af_sha256 evidence) = rv_evidence_artifact_sha256 review)
        (CodingEngineError ''local semantic review evidence identity does not match the review'')) (\<lambda>_.
      do_then (do_try (outside (ee_read_text env evidence))
        (\<lambda>e. if e \<in> {ArtifactPolicyError, UnicodeRaised} then raises unread else raises e)) (\<lambda>payload.
      case ee_loads_unique env payload of
        Some (JObj envelope) \<Rightarrow>
          (case (jget ''canonical_subject'' envelope, jget ''canonical_response'' envelope) of
             (Some subject, Some response) \<Rightarrow>
               do_ensure (evidence_bound env review envelope subject response)
                 (CodingEngineError ''local semantic review evidence is not bound to the delivered review'')
           | _ \<Rightarrow> raises unread)
      | _ \<Rightarrow> raises unread))))"

definition assert_review_delivery_ready :: "'w EngineEnv \<Rightarrow> ('w, unit) stm" where
  "assert_review_delivery_ready env =
     do_then the_state (\<lambda>state.
     do_then (do_some (CodingEngineError ''review delivery is not complete enough for commit or terminal completion'')
       (case ct_review state of None \<Rightarrow> None
        | Some r \<Rightarrow> if is_successful_review_delivery (ct_request state) r then Some r else None)) (\<lambda>review.
     do_then (do_ensure (cp_local_commit (cq_permissions (ct_request state)) \<longrightarrow> rv_verdict review = APPROVED)
       (CodingEngineError ''local commit requires an approved review delivery'')) (\<lambda>_.
     if rv_reviewer review \<noteq> LOCAL_SEMANTIC_REVIEW then give ()
     else assert_semantic_evidence env state review)))"

end
