(* ===== verification/EngineFlow.thy ===== *)
theory EngineFlow
  imports EngineReview
begin

text \<open>
  The bounded executor loop of the coding engine, \<open>CodingEngine._execute_flow\<close> in
  \<open>services/coding/engine.py\<close>, one definition per phase of an attempt: execution with its three
  exception handlers, verification, capture of the diff, independent review, completion. A phase goes
  on with a value, asks for another attempt, or has finished the task with a result.
\<close>

section \<open>Results\<close>

definition command_passed :: "CommandResultV1 list \<Rightarrow> string \<Rightarrow> bool" where
  "command_passed results command_id =
     (case last_result results command_id of None \<Rightarrow> False | Some r \<Rightarrow> cm_status r = CS_PASSED)"

definition result_verified :: "CodingTaskStateV1 \<Rightarrow> bool" where
  "result_verified state \<longleftrightarrow>
     cq_mode (ct_request state) = CM_READ_ONLY \<or>
     (ct_attempts state \<noteq> [] \<and>
      (let attempt = last (ct_attempts state) in
       at_status attempt = AT_PASSED \<and> at_command_ids attempt \<noteq> [] \<and>
       list_all (command_passed (ct_command_results state)) (at_command_ids attempt)))"

definition safe_summary :: "'w EngineEnv \<Rightarrow> string \<Rightarrow> string" where
  "safe_summary env summary =
     take 4096 (if ee_detect_secret env summary \<noteq> None then ee_sanitize env summary else py_strip summary)"

definition result_of :: "'w EngineEnv \<Rightarrow> CodingTaskStateV1 \<Rightarrow> string \<Rightarrow> string option \<Rightarrow> CodingTaskResultV1" where
  "result_of env state summary handoff_path =
     (let executor = (if ct_attempts state = [] then None else Some (at_executor (last (ct_attempts state))));
          model = (case executor of
             None \<Rightarrow> None
           | Some k \<Rightarrow> if k \<in> {LOCAL_QWEN, CODEX_EXEC, CODEX_REVIEW} then ee_executor_model env k else None)
      in \<lparr>cs_schema_version = ''1.0'', cs_task_id = cq_task_id (ct_request state), cs_status = ct_status state,
          cs_summary = safe_summary env summary, cs_source_repository = ct_source_repository state,
          cs_worktree_path = map_option wr_worktree_path (ct_worktree state),
          cs_branch = (case ct_worktree state of None \<Rightarrow> None | Some w \<Rightarrow> wr_branch w),
          cs_commit_sha = ct_commit_sha state, cs_attempts = int (length (ct_attempts state)),
          cs_modified_files = ct_modified_files state, cs_verification_passed = result_verified state,
          cs_review_verdict = map_option rv_verdict (ct_review state), cs_final_executor = executor,
          cs_final_model = (if truthy model then model else None),
          cs_review_findings_count = (case ct_review state of None \<Rightarrow> 0 | Some r \<Rightarrow> int (length (rv_findings r))),
          cs_artifact_paths = map af_path (ct_artifacts state), cs_handoff_path = handoff_path\<rparr>)"

definition result_with :: "'w EngineEnv \<Rightarrow> string \<Rightarrow> string option \<Rightarrow> ('w, CodingTaskResultV1) stm" where
  "result_with env summary handoff_path =
     do_then the_state (\<lambda>state.
     do_some ContractRaised (validate_CodingTaskResultV1 (result_of env state summary handoff_path)))"

section \<open>Handoff\<close>

definition sanitized :: "'w EngineEnv \<Rightarrow> string \<Rightarrow> string" where
  "sanitized env message = take 2048 (ee_sanitize env message)"

text \<open>\<open>unresolved_errors=_unique([*state.unresolved_errors, message])\<close>.\<close>

definition add_error :: "string \<Rightarrow> CodingTaskStateV1 \<Rightarrow> CodingTaskStateV1" where
  "add_error message s = s\<lparr>ct_unresolved_errors := unique_items (ct_unresolved_errors s @ [message])\<rparr>"

definition privacy_message :: string where
  "privacy_message = ''Task diff was blocked by privacy policy.''"

definition privacy_summary :: string where
  "privacy_summary = ''Task blocked: the diff contains privacy-sensitive material.''"

text \<open>The rest of \<open>_handoff\<close>, once the diff is stored.\<close>

definition prepare_handoff ::
    "'w EngineEnv \<Rightarrow> string \<Rightarrow> ArtifactReferenceV1 option \<Rightarrow> ('w, CodingTaskResultV1) stm" where
  "prepare_handoff env safe_error diff_artifact =
     do_then (sync_worktree env ''worktree.synced'') (\<lambda>_.
     do_then the_state (\<lambda>state.
     do_then (outside (ee_status_paths env)) (\<lambda>paths.
     do_then (transition_to env (ct_status state) ''handoff.prepared'' None
       (\<lambda>s. (add_error safe_error s)\<lparr>ct_modified_files := paths,
          ct_artifacts := merge_artifacts (ct_artifacts s) [diff_artifact]\<rparr>)) (\<lambda>_.
     do_then the_source (\<lambda>source.
     do_then the_state (\<lambda>prepared.
     do_then (outside (ee_create_handoff env prepared (so_dirty_fingerprint source) (map_option af_artifact_id diff_artifact)))
       (\<lambda>(json_artifact, markdown_artifact).
     do_then (transition_to env HANDOFF_READY ''handoff.ready'' (Some ''fallback.codex_handoff'')
       (\<lambda>s. s\<lparr>ct_handoff_artifact_id := Some (af_artifact_id json_artifact),
          ct_artifacts := merge_artifacts (ct_artifacts s) [Some json_artifact, Some markdown_artifact]\<rparr>)) (\<lambda>_.
     result_with env ''Bounded local attempts stopped; a validated resumable Codex handoff is ready.''
       (Some (af_path json_artifact))))))))))"

definition handoff :: "'w EngineEnv \<Rightarrow> string \<Rightarrow> ('w, CodingTaskResultV1) stm" where
  "handoff env error_text =
     do_then (guard_worktree env ''before handoff'') (\<lambda>_.
     do_then (assert_current_rules env) (\<lambda>_.
     do_then (do_try (do_then (capture_diff env) (\<lambda>a. give (Inr a)))
       (\<lambda>e. if e = ArtifactPolicyError then give (Inl ()) else raises e)) (\<lambda>captured.
     case captured of
       Inr diff_artifact \<Rightarrow> prepare_handoff env (sanitized env error_text) diff_artifact
     | Inl _ \<Rightarrow>
         do_then (transition_to env BLOCKED ''handoff.privacy_blocked'' (Some ''privacy.diff_blocked'')
           (add_error privacy_message)) (\<lambda>_.
         result_with env privacy_summary None))))"

text \<open>
  A call keeps its changes of the caller's state to itself unless it returns: the caller assigns the
  returned state.
\<close>

definition in_call :: "('w, 'a) stm \<Rightarrow> ('w, 'a) stm" where
  "in_call m = (\<lambda>fl. case m fl of
     (Inl e, fl') \<Rightarrow> (Inl e, fl'\<lparr>fl_state := fl_state fl, fl_version := fl_version fl\<rparr>)
   | (Inr x, fl') \<Rightarrow> (Inr x, fl'))"

section \<open>Attempts\<close>

text \<open>The arguments of \<open>_execute_flow\<close> that do not change during it.\<close>

record 'w Run =
  rn_executor :: ExecutorKind
  rn_context_json :: string
  rn_allow_handoff :: bool
  rn_primary_review_only :: bool
  rn_cloud_final_review :: bool
  rn_resume :: bool
  rn_pre_check :: "('w, unit) stm option"
  rn_snapshot :: "string option"

datatype 'a Phase = Onward 'a | Again | Finished CodingTaskResultV1

definition do_onward :: "('w, 'a Phase) stm \<Rightarrow> ('a \<Rightarrow> ('w, 'b Phase) stm) \<Rightarrow> ('w, 'b Phase) stm" where
  "do_onward m f = do_then m (\<lambda>p. case p of Onward x \<Rightarrow> f x | Again \<Rightarrow> give Again | Finished r \<Rightarrow> give (Finished r))"

definition finished :: "('w, CodingTaskResultV1) stm \<Rightarrow> ('w, 'a Phase) stm" where
  "finished m = do_then m (\<lambda>r. give (Finished r))"

definition remember_error :: "string \<Rightarrow> ('w, unit) stm" where
  "remember_error message = (\<lambda>fl. (Inr (), fl\<lparr>fl_previous_error := Some message\<rparr>))"

definition remember_summary :: "string \<Rightarrow> ('w, unit) stm" where
  "remember_summary summary = (\<lambda>fl. (Inr (), fl\<lparr>fl_last_summary := summary\<rparr>))"

definition previous_error :: "('w, string option) stm" where
  "previous_error = (\<lambda>fl. (Inr (fl_previous_error fl), fl))"

definition last_summary :: "('w, string) stm" where
  "last_summary = (\<lambda>fl. (Inr (fl_last_summary fl), fl))"

text \<open>
  The end of a failed attempt: the next attempt if one is left, else the handoff if it is allowed, else
  the task is blocked.
\<close>

definition stop_or_retry ::
    "'w EngineEnv \<Rightarrow> 'w Run \<Rightarrow> bool \<Rightarrow> string \<Rightarrow> string \<Rightarrow> string \<Rightarrow> string \<Rightarrow> ('w, 'a Phase) stm" where
  "stop_or_retry env run another message event_type reason_code summary =
     do_then (remember_error message) (\<lambda>_.
     if another then give Again
     else if rn_allow_handoff run then finished (in_call (handoff env message))
     else
       do_then (transition_to env BLOCKED event_type (Some reason_code) (\<lambda>s. s)) (\<lambda>_.
       finished (result_with env summary None)))"

definition running_attempt :: "'w Run \<Rightarrow> nat \<Rightarrow> datetime \<Rightarrow> CodingAttemptV1" where
  "running_attempt run index started =
     \<lparr>at_index = int index, at_executor = (if rn_primary_review_only run then CODEX_REVIEW else rn_executor run),
      at_status = AT_RUNNING,
      at_strategy = (if rn_resume run then ''resume validated Codex handoff'' else ''bounded attempt '' @ show_nat index),
      at_started_at = started, at_finished_at = None, at_error_summary = None, at_command_ids = [],
      at_modified_files = [], at_artifact_ids = []\<rparr>"

text \<open>The attempt with its status, the end \<open>now\<close>, its message, commands, files and artifacts.\<close>

definition closed_attempt ::
    "CodingAttemptV1 \<Rightarrow> AttemptStatus \<Rightarrow> datetime \<Rightarrow> string option \<Rightarrow> string list \<Rightarrow> string list \<Rightarrow> string list \<Rightarrow>
     ('w, CodingAttemptV1) stm" where
  "closed_attempt running status now message command_ids files artifact_ids =
     do_some ContractRaised (validate_CodingAttemptV1 (running\<lparr>at_status := status, at_finished_at := Some now,
       at_error_summary := message, at_command_ids := command_ids, at_modified_files := files,
       at_artifact_ids := artifact_ids\<rparr>))"

definition close_last :: "CodingAttemptV1 \<Rightarrow> CodingTaskStateV1 \<Rightarrow> CodingTaskStateV1" where
  "close_last terminal s = s\<lparr>ct_attempts := replace_last (ct_attempts s) terminal\<rparr>"

fun attempt_status_text :: "AttemptStatus \<Rightarrow> string" where
  "attempt_status_text AT_RUNNING = ''running''"
| "attempt_status_text AT_PASSED = ''passed''"
| "attempt_status_text AT_FAILED = ''failed''"
| "attempt_status_text AT_TIMED_OUT = ''timed_out''"
| "attempt_status_text AT_CANCELLED = ''cancelled''"

definition artifact_ids :: "ArtifactReferenceV1 option \<Rightarrow> string list" where
  "artifact_ids a = (case a of None \<Rightarrow> [] | Some r \<Rightarrow> [af_artifact_id r])"

section \<open>Execution\<close>

text \<open>The repository showed new rules: this attempt has failed, the rules are recorded.\<close>

definition expand_rules ::
    "'w EngineEnv \<Rightarrow> 'w Run \<Rightarrow> bool \<Rightarrow> CodingAttemptV1 \<Rightarrow> ExecutorResult \<Rightarrow> RuleReferenceV1 list \<Rightarrow> RuleReferenceV1 list \<Rightarrow>
     ('w, 'a Phase) stm" where
  "expand_rules env run another running execution discovered new_rules =
     (let message = rule_expansion_message new_rules in
      do_then (ask (ee_now env)) (\<lambda>now.
      do_then the_state (\<lambda>state.
      do_then (closed_attempt running AT_FAILED now (Some message) [] (ct_modified_files state)
        [af_artifact_id (xr_output_artifact execution)]) (\<lambda>terminal.
      do_then (transition_to env EXECUTING ''rules.scope_expanded'' (Some ''rules.applicable_scope_discovered'')
        (\<lambda>s. (add_error message (close_last terminal s))\<lparr>ct_applicable_rules := discovered\<rparr>)) (\<lambda>_.
      stop_or_retry env run another message ''rules.scope_blocked'' ''rules.retry_required''
        ''Coding task stopped because newly applicable rules require a fresh bounded attempt.'')))))"

definition execute_body ::
    "'w EngineEnv \<Rightarrow> 'w Run \<Rightarrow> bool \<Rightarrow> CodingAttemptV1 \<Rightarrow> ('w, ExecutorResult Phase) stm" where
  "execute_body env run another running =
     do_then the_state (\<lambda>started.
     do_then previous_error (\<lambda>previous.
     do_then (prompt_stm started previous (rn_resume run)) (\<lambda>prompt.
     do_then (case rn_pre_check run of None \<Rightarrow> give () | Some check \<Rightarrow> check) (\<lambda>_.
     do_then (if rn_executor run \<in> {CODEX_EXEC, CODEX_REVIEW} then assert_public_data_snapshot env (rn_snapshot run)
       else give ()) (\<lambda>_.
     do_then (outside (ee_execute env (rn_executor run) (rn_primary_review_only run) (ct_request started) prompt
       (rn_context_json run))) (\<lambda>execution.
     do_then (guard_worktree env ''after executor'') (\<lambda>_.
     do_then (remember_summary (xr_summary execution)) (\<lambda>_.
     do_then (outside (ee_status_paths env)) (\<lambda>paths.
     do_then (transition_to env EXECUTING ''executor.output_recorded'' None
       (\<lambda>s. s\<lparr>ct_inspected_files := unique_items (ct_inspected_files s @ xr_inspected_files execution),
          ct_artifacts := merge_artifacts (ct_artifacts s) [Some (xr_output_artifact execution)],
          ct_modified_files := paths\<rparr>)) (\<lambda>_.
     do_then the_state (\<lambda>state.
     do_then (outside (ee_discover_rules env (scope_targets state []))) (\<lambda>discovered.
     do_then (assert_rule_bytes_match env discovered (scope_targets state [])) (\<lambda>_.
     let new_rules = new_applicable_rules (ct_applicable_rules state) discovered in
     if new_rules = [] then give (Onward execution)
     else expand_rules env run another running execution discovered new_rules)))))))))))))"

text \<open>The inputs of a handoff changed before the executor started: the handoff stays, the error goes on.\<close>

definition revalidation_failed ::
    "'w EngineEnv \<Rightarrow> CodingAttemptV1 \<Rightarrow> string \<Rightarrow> ('w, 'a Phase) stm" where
  "revalidation_failed env running error_text =
     do_then (guard_worktree env ''after handoff pre-executor failure'') (\<lambda>_.
     do_then (ask (ee_now env)) (\<lambda>now.
     do_then (outside (ee_status_paths env)) (\<lambda>paths.
     do_then (closed_attempt running AT_FAILED now (Some (sanitized env error_text)) [] paths []) (\<lambda>terminal.
     do_then (transition_to env HANDOFF_READY ''handoff.revalidation_failed'' (Some ''handoff.mutable_input_changed'')
       (\<lambda>s. add_error (sanitized env error_text) (close_last terminal s))) (\<lambda>_.
     raises (HandoffPolicyError error_text))))))"

definition failure_status :: "bool \<Rightarrow> string \<Rightarrow> AttemptStatus" where
  "failure_status cancelled message =
     (if cancelled then AT_CANCELLED
      else if sublist ''timed_out'' (casefold message) \<or> sublist ''timed out'' (casefold message) then AT_TIMED_OUT
      else AT_FAILED)"

text \<open>The attempt is closed and stored; a cancelled one ends the task with its worktree preserved.\<close>

definition record_executor_failure ::
    "'w EngineEnv \<Rightarrow> AttemptStatus \<Rightarrow> string \<Rightarrow> string \<Rightarrow> CodingAttemptV1 \<Rightarrow>
     (CodingTaskStateV1 \<Rightarrow> CodingTaskStateV1) \<Rightarrow> ('w, unit) stm" where
  "record_executor_failure env status event_type message terminal updates =
     do_then the_state (\<lambda>state.
     do_then (if status = AT_CANCELLED then preserve_cancelled_worktree env else give (ct_worktree state)) (\<lambda>preserved.
     transition_to env (if status = AT_CANCELLED then CANCELLED else EXECUTING) event_type
       (Some (''attempt.'' @ attempt_status_text status))
       (\<lambda>s. (add_error message (close_last terminal (updates s)))\<lparr>ct_worktree := preserved\<rparr>)))"

definition executor_failed ::
    "'w EngineEnv \<Rightarrow> 'w Run \<Rightarrow> bool \<Rightarrow> CodingAttemptV1 \<Rightarrow> string \<Rightarrow> ArtifactReferenceV1 option \<Rightarrow> ('w, 'a Phase) stm" where
  "executor_failed env run another running error_text output_artifact =
     do_then (guard_worktree env ''after failed executor'') (\<lambda>_.
     do_then (outside (ee_status_paths env)) (\<lambda>modified.
     do_then the_state (\<lambda>state.
     do_then (outside (ee_discover_rules env (scope_targets state modified))) (\<lambda>discovered.
     do_then (assert_rule_bytes_match env discovered (scope_targets state modified)) (\<lambda>_.
     let new_rules = new_applicable_rules (ct_applicable_rules state) discovered;
         message0 = sanitized env error_text;
         message = (if new_rules = [] then message0
           else take 2048 (take 1400 message0 @ newline @ rule_expansion_message new_rules))
     in
     do_then (ask (ee_cancelled env)) (\<lambda>cancelled.
     let status = failure_status cancelled message in
     do_then (ask (ee_now env)) (\<lambda>now.
     do_then (closed_attempt running status now (Some message) [] modified (artifact_ids output_artifact)) (\<lambda>terminal.
     do_then (record_executor_failure env status
       (if status = AT_CANCELLED then ''executor.cancelled'' else ''executor.failed'') message terminal
       (\<lambda>s. s\<lparr>ct_artifacts := merge_artifacts (ct_artifacts s) [output_artifact], ct_modified_files := modified,
          ct_applicable_rules := (if new_rules = [] then ct_applicable_rules s else discovered)\<rparr>)) (\<lambda>_.
     if status = AT_CANCELLED
     then finished (result_with env ''Coding task was cancelled; the owned worktree was preserved for recovery.'' None)
     else stop_or_retry env run another message ''executor.blocked'' ''executor.attempt_limit''
       ''Coding executor did not complete within the bounded attempts.'')))))))))"

definition execute_phase ::
    "'w EngineEnv \<Rightarrow> 'w Run \<Rightarrow> bool \<Rightarrow> CodingAttemptV1 \<Rightarrow> ('w, ExecutorResult Phase) stm" where
  "execute_phase env run another running =
     do_try (execute_body env run another running)
       (\<lambda>e. case e of
          HandoffPolicyError message \<Rightarrow> revalidation_failed env running message
        | ExecutorRaised message artifact \<Rightarrow> executor_failed env run another running message artifact
        | _ \<Rightarrow> do_then (guard_worktree env ''after unexpected executor failure'') (\<lambda>_. raises e))"

end
