(* ===== verification/EngineLoop.thy ===== *)
theory EngineLoop
  imports EngineFlow
begin

text \<open>
  The later phases of an attempt of \<open>CodingEngine._execute_flow\<close>, \<open>services/coding/engine.py\<close>, and the
  loop over the attempts.
\<close>

section \<open>Verification\<close>

text \<open>What an attempt has produced so far.\<close>

record Evidence =
  ev_execution :: ExecutorResult
  ev_results :: "CommandResultV1 list"
  ev_required :: "string list"

definition result_ids :: "CommandResultV1 list \<Rightarrow> string list" where
  "result_ids results = map cm_command_id results"

definition verification_status :: "bool \<Rightarrow> CommandResultV1 list \<Rightarrow> AttemptStatus" where
  "verification_status cancelled results =
     (if cancelled then AT_CANCELLED
      else if list_ex (\<lambda>r. cm_status r = CS_TIMED_OUT) results then AT_TIMED_OUT
      else AT_FAILED)"

definition verification_rejected ::
    "'w EngineEnv \<Rightarrow> 'w Run \<Rightarrow> bool \<Rightarrow> CodingAttemptV1 \<Rightarrow> CommandResultV1 list \<Rightarrow> string list \<Rightarrow> ('w, 'a Phase) stm" where
  "verification_rejected env run another running results required =
     do_then (verification_retry_message env results required) (\<lambda>message.
     do_then (ask (ee_cancelled env)) (\<lambda>cancelled.
     let status = verification_status cancelled results in
     do_then (ask (ee_now env)) (\<lambda>now.
     do_then the_state (\<lambda>state.
     do_then (closed_attempt running status now (Some message) (result_ids results) (ct_modified_files state) []) (\<lambda>terminal.
     do_then (record_executor_failure env status ''verification.failed'' message terminal (\<lambda>s. s)) (\<lambda>_.
     if status = AT_CANCELLED
     then finished (result_with env ''Coding task was cancelled during verification; worktree preserved.'' None)
     else stop_or_retry env run another message ''verification.blocked'' ''verification.required_failed''
       ''Required verification did not pass.''))))))"

definition verify_phase ::
    "'w EngineEnv \<Rightarrow> 'w Run \<Rightarrow> bool \<Rightarrow> nat \<Rightarrow> CodingAttemptV1 \<Rightarrow> ExecutorResult \<Rightarrow> ('w, Evidence Phase) stm" where
  "verify_phase env run another index running execution =
     do_then (transition_to env VERIFYING ''verification.started'' None (\<lambda>s. s)) (\<lambda>_.
     do_then (do_try (verify_attempt_commands env index)
       (\<lambda>e. do_then (guard_worktree env ''after unexpected verification failure'') (\<lambda>_. raises e)))
       (\<lambda>(results, required, references).
     do_then (guard_worktree env ''after writable verification'') (\<lambda>_.
     do_then (outside (ee_status_paths env)) (\<lambda>paths.
     do_then (transition_to env VERIFYING ''verification.recorded'' None
       (\<lambda>s. s\<lparr>ct_command_results := ct_command_results s @ results,
          ct_artifacts := merge_artifacts (ct_artifacts s) (map Some references), ct_modified_files := paths\<rparr>)) (\<lambda>_.
     do_then (assert_current_rules env) (\<lambda>_.
     if verification_failed results required then verification_rejected env run another running results required
     else give (Onward \<lparr>ev_execution = execution, ev_results = results, ev_required = required\<rparr>)))))))"

section \<open>Capture of the diff\<close>

text \<open>The stored diff and the binding of the worktree it was taken from; a private diff blocks the task.\<close>

definition captured_body :: "'w EngineEnv \<Rightarrow> ('w, ArtifactReferenceV1 option \<times> WorktreeBinding) stm" where
  "captured_body env =
     do_then (capture_diff env) (\<lambda>diff_artifact.
     do_then (capture_worktree_binding env) (\<lambda>(approved_binding, approved_diff).
     do_then (case diff_artifact of
         None \<Rightarrow> do_ensure (approved_diff = []) (CodingEngineError ''approved worktree diff has no canonical artifact'')
       | Some a \<Rightarrow>
           do_then (outside (ee_read_verified env a)) (\<lambda>payload.
           do_ensure (payload = approved_diff)
             (CodingEngineError ''canonical diff artifact changed before independent review''))) (\<lambda>_.
     give (diff_artifact, approved_binding))))"

definition capture_phase :: "'w EngineEnv \<Rightarrow> ('w, (ArtifactReferenceV1 option \<times> WorktreeBinding) Phase) stm" where
  "capture_phase env =
     do_then (guard_worktree env ''after writable verification'') (\<lambda>_.
     do_then (do_try (do_then (captured_body env) (\<lambda>c. give (Some c)))
       (\<lambda>e. if e = ArtifactPolicyError then give None else raises e)) (\<lambda>captured.
     case captured of
       Some c \<Rightarrow> give (Onward c)
     | None \<Rightarrow>
         do_then (transition_to env BLOCKED ''review.privacy_blocked'' (Some ''privacy.diff_blocked'')
           (add_error privacy_message)) (\<lambda>_.
         finished (result_with env privacy_summary None))))"

section \<open>Review\<close>

text \<open>A cancelled review closes the attempt and preserves the worktree.\<close>

definition review_cancelled ::
    "'w EngineEnv \<Rightarrow> CodingAttemptV1 \<Rightarrow> CommandResultV1 list \<Rightarrow> string \<Rightarrow> ArtifactReferenceV1 option \<Rightarrow> ('w, 'a Phase) stm" where
  "review_cancelled env running results error_text output_artifact =
     do_then (ask (ee_now env)) (\<lambda>now.
     do_then the_state (\<lambda>state.
     do_then (closed_attempt running AT_CANCELLED now (Some (sanitized env error_text)) (result_ids results)
       (ct_modified_files state) (artifact_ids output_artifact)) (\<lambda>terminal.
     do_then (preserve_cancelled_worktree env) (\<lambda>preserved.
     do_then (transition_to env CANCELLED ''review.cancelled'' (Some ''review.cancelled'')
       (\<lambda>s. (add_error (sanitized env error_text) (close_last terminal s))\<lparr>
          ct_artifacts := merge_artifacts (ct_artifacts s) [output_artifact], ct_worktree := preserved\<rparr>)) (\<lambda>_.
     finished (result_with env
       ''Coding task was cancelled during independent review; the owned worktree was preserved.'' None))))))"

definition review_raised ::
    "'w EngineEnv \<Rightarrow> CodingAttemptV1 \<Rightarrow> CommandResultV1 list \<Rightarrow> EngineError \<Rightarrow> ('w, 'a Phase) stm" where
  "review_raised env running results e =
     do_then (guard_worktree env ''after failed independent reviewer'') (\<lambda>_.
     case e of
       ExecutorRaised message artifact \<Rightarrow>
         do_then (ask (ee_cancelled env)) (\<lambda>cancelled.
         if cancelled then review_cancelled env running results message artifact else raises e)
     | _ \<Rightarrow> raises e)"

definition delivered_by :: "'w Run \<Rightarrow> CodingTaskRequestV1 \<Rightarrow> ReviewResultV1 \<Rightarrow> bool" where
  "delivered_by run request review \<longleftrightarrow> rn_primary_review_only run \<and> is_successful_review_delivery request review"

text \<open>The review and the artifacts it left: the attempt's audit, the reviewer's evidence, the review itself.\<close>

record Reviewed =
  re_review :: ReviewResultV1
  re_evidence :: "ArtifactReferenceV1 option"
  re_audit :: "ArtifactReferenceV1 list"
  re_artifact :: ArtifactReferenceV1
  re_diff :: "ArtifactReferenceV1 option"
  re_binding :: WorktreeBinding

definition review_artifact_ids :: "Reviewed \<Rightarrow> string list" where
  "review_artifact_ids r =
     map af_artifact_id (re_audit r) @ artifact_ids (re_evidence r) @ [af_artifact_id (re_artifact r)]"

text \<open>After the reviewer returned: the worktree is the reviewed one, and the review is recorded.\<close>

definition record_review ::
    "'w EngineEnv \<Rightarrow> 'w Run \<Rightarrow> ArtifactReferenceV1 option \<Rightarrow> WorktreeBinding \<Rightarrow>
     ReviewResultV1 \<times> ArtifactReferenceV1 option \<times> ArtifactReferenceV1 list \<Rightarrow> ('w, Reviewed) stm" where
  "record_review env run diff_artifact approved = (\<lambda>(review, evidence, audit).
     do_then (assert_no_ignored_files env ''after independent reviewer'') (\<lambda>_.
     do_then (capture_worktree_binding env) (\<lambda>(review_binding, _).
     do_then the_state (\<lambda>state.
     do_then (if rv_verdict review = APPROVED \<or> delivered_by run (ct_request state) review
         then assert_same_approved_binding approved review_binding ''during independent review'' False
         else give ()) (\<lambda>_.
     do_then (outside (ee_write_review env review)) (\<lambda>review_artifact.
     do_then (transition_to env REVIEWING ''review.recorded'' None
       (\<lambda>s. s\<lparr>ct_review := Some review,
          ct_artifacts := merge_artifacts (ct_artifacts s) (map Some audit @ [evidence, Some review_artifact])\<rparr>)) (\<lambda>_.
     give \<lparr>re_review = review, re_evidence = evidence, re_audit = audit, re_artifact = review_artifact,
       re_diff = diff_artifact, re_binding = approved\<rparr>)))))))"

definition review_inputs ::
    "'w Run \<Rightarrow> Evidence \<Rightarrow> ArtifactReferenceV1 option \<Rightarrow> WorktreeBinding \<Rightarrow> bool \<Rightarrow> ReviewInputs" where
  "review_inputs run ev diff_artifact approved unchanged =
     \<lparr>ri_context_json = rn_context_json run, ri_required = ev_required ev, ri_results = ev_results ev,
      ri_binding = approved, ri_diff = diff_artifact, ri_execution = ev_execution ev,
      ri_cloud_final_review = rn_cloud_final_review run, ri_primary_review_only = rn_primary_review_only run,
      ri_unchanged = unchanged, ri_snapshot = rn_snapshot run\<rparr>"

text \<open>\<open>fingerprint\<close> is that of a read-only worktree before the executor ran.\<close>

definition review_phase ::
    "'w EngineEnv \<Rightarrow> 'w Run \<Rightarrow> string option \<Rightarrow> CodingAttemptV1 \<Rightarrow> Evidence \<Rightarrow>
     ArtifactReferenceV1 option \<times> WorktreeBinding \<Rightarrow> ('w, Reviewed Phase) stm" where
  "review_phase env run fingerprint running ev = (\<lambda>(diff_artifact, approved).
     do_then (transition_to env REVIEWING ''review.started'' None
       (\<lambda>s. s\<lparr>ct_artifacts := merge_artifacts (ct_artifacts s) [diff_artifact]\<rparr>)) (\<lambda>_.
     do_then (case fingerprint of
         None \<Rightarrow> give True
       | Some f \<Rightarrow> do_then (outside (ee_fingerprint env)) (\<lambda>current. give (f = current))) (\<lambda>unchanged.
     do_onward
       (do_try (do_then (review_attempt env (review_inputs run ev diff_artifact approved unchanged)) (\<lambda>r. give (Onward r)))
         (\<lambda>e. review_raised env running (ev_results ev) e)) (\<lambda>r.
     do_then (record_review env run diff_artifact approved r) (\<lambda>reviewed. give (Onward reviewed))))))"

definition retry_exhausted_prefix :: string where
  "retry_exhausted_prefix = ''local_semantic.reviewer_retry_exhausted.''"

definition reviewer_retry_exhausted :: "ReviewResultV1 \<Rightarrow> bool" where
  "reviewer_retry_exhausted review \<longleftrightarrow>
     rv_reviewer review = LOCAL_SEMANTIC_REVIEW \<and> rv_verdict review = RV_BLOCKED \<and>
     list_ex (\<lambda>f. prefix retry_exhausted_prefix (fi_code f)) (rv_findings review)"

definition rejection_reason :: "ReviewResultV1 \<Rightarrow> string" where
  "rejection_reason review =
     (if reviewer_retry_exhausted review then ''review.local_semantic_retry_exhausted''
      else ''review.blocking_findings'')"

definition review_rejected ::
    "'w EngineEnv \<Rightarrow> 'w Run \<Rightarrow> bool \<Rightarrow> CodingAttemptV1 \<Rightarrow> Evidence \<Rightarrow> Reviewed \<Rightarrow> ('w, 'a Phase) stm" where
  "review_rejected env run another running ev r =
     (let review = re_review r; message = review_retry_message env review in
      do_then (ask (ee_now env)) (\<lambda>now.
      do_then the_state (\<lambda>state.
      do_then (closed_attempt running AT_FAILED now (Some message) (result_ids (ev_results ev)) (ct_modified_files state)
        (unique_items (review_artifact_ids r))) (\<lambda>terminal.
      do_then (transition_to env EXECUTING ''review.rejected'' (Some (rejection_reason review))
        (\<lambda>s. add_error message (close_last terminal s))) (\<lambda>_.
      stop_or_retry env run (another \<and> \<not> reviewer_retry_exhausted review) message ''review.blocked''
        (rejection_reason review) ''Independent review rejected the coding result.'')))))"

section \<open>Completion\<close>

definition pass_attempt :: "'w EngineEnv \<Rightarrow> CodingAttemptV1 \<Rightarrow> Evidence \<Rightarrow> Reviewed \<Rightarrow> ('w, unit) stm" where
  "pass_attempt env running ev r =
     do_then (ask (ee_now env)) (\<lambda>now.
     do_then the_state (\<lambda>state.
     do_then (closed_attempt running AT_PASSED now None (result_ids (ev_results ev)) (ct_modified_files state)
       (unique_items (af_artifact_id (xr_output_artifact (ev_execution ev)) # artifact_ids (re_diff r) @
          review_artifact_ids r))) (\<lambda>passed.
     transition_to env REVIEWING ''attempt.passed'' None
       (\<lambda>s. (close_last passed s)\<lparr>ct_unresolved_errors := []\<rparr>))))"

text \<open>The final state is validated before either registry changes.\<close>

definition preview_completion :: "'w EngineEnv \<Rightarrow> string option \<Rightarrow> ('w, unit) stm" where
  "preview_completion env commit_sha =
     do_then the_state (\<lambda>state.
     do_then (do_some (CodingEngineError ''completed coding task lost its owned worktree record'') (ct_worktree state)) (\<lambda>w.
     do_then (ask (ee_now env)) (\<lambda>now.
     do_then (do_some ContractRaised (validate_WorktreeRecordV1
       (w\<lparr>wr_status := WS_COMPLETE, wr_heartbeat_at := now, wr_completed_at := Some now\<rparr>))) (\<lambda>preview.
     do_then (do_some ContractRaised (validate_CodingTaskStateV1 (se_nt (ee_store env))
       (state\<lparr>ct_status := COMPLETED, ct_worktree := Some preview, ct_commit_sha := commit_sha,
          ct_unresolved_errors := [], ct_updated_at := now\<rparr>))) (\<lambda>_.
     give ())))))"

definition completion_reason :: "'w Run \<Rightarrow> CodingTaskRequestV1 \<Rightarrow> ReviewResultV1 \<Rightarrow> string" where
  "completion_reason run request review =
     (if delivered_by run request review \<and> rv_verdict review = REJECTED then ''review.findings_delivered''
      else ''review.approved'')"

definition complete_task ::
    "'w EngineEnv \<Rightarrow> 'w Run \<Rightarrow> CodingAttemptV1 \<Rightarrow> Evidence \<Rightarrow> Reviewed \<Rightarrow> ('w, CodingTaskResultV1) stm" where
  "complete_task env run running ev r =
     do_then (pass_attempt env running ev r) (\<lambda>_.
     do_then (assert_review_delivery_ready env) (\<lambda>_.
     do_then (commit_gate env (re_binding r)) (\<lambda>gate.
     do_then (preview_completion env (cg_commit_sha gate)) (\<lambda>_.
     do_then (assert_source_snapshot env) (\<lambda>_.
     do_then (assert_terminal_commit_gate env gate) (\<lambda>_.
     do_then (assert_review_delivery_ready env) (\<lambda>_.
     do_then the_state (\<lambda>state.
     do_then (outside (ee_complete_worktree env (cq_task_id (ct_request state)))) (\<lambda>completed_worktree.
     do_then (store_worktree env completed_worktree) (\<lambda>_.
     do_then (transition_to env COMPLETED ''task.completed'' (Some (completion_reason run (ct_request state) (re_review r)))
       (\<lambda>s. s\<lparr>ct_worktree := Some completed_worktree, ct_commit_sha := cg_commit_sha gate,
          ct_unresolved_errors := []\<rparr>)) (\<lambda>_.
     do_then last_summary (\<lambda>summary.
     result_with env summary None))))))))))))"

section \<open>The loop\<close>

definition judge ::
    "'w EngineEnv \<Rightarrow> 'w Run \<Rightarrow> bool \<Rightarrow> CodingAttemptV1 \<Rightarrow> Evidence \<Rightarrow> Reviewed \<Rightarrow> ('w, unit Phase) stm" where
  "judge env run another running ev r =
     do_then the_state (\<lambda>state.
     if rv_verdict (re_review r) \<noteq> APPROVED \<and> \<not> delivered_by run (ct_request state) (re_review r)
     then review_rejected env run another running ev r
     else finished (complete_task env run running ev r))"

definition start_attempt :: "'w EngineEnv \<Rightarrow> 'w Run \<Rightarrow> nat \<Rightarrow> ('w, CodingAttemptV1 \<times> string option) stm" where
  "start_attempt env run index =
     do_then (assert_current_rules env) (\<lambda>_.
     do_then (ask (ee_now env)) (\<lambda>started.
     do_then (do_some ContractRaised (validate_CodingAttemptV1 (running_attempt run index started))) (\<lambda>running.
     do_then (transition_to env EXECUTING ''executor.started'' (Some (''attempt.'' @ show_nat index))
       (\<lambda>s. s\<lparr>ct_attempts := ct_attempts s @ [running]\<rparr>)) (\<lambda>_.
     do_then the_state (\<lambda>state.
     do_then (if cq_mode (ct_request state) = CM_READ_ONLY
         then do_then (outside (ee_fingerprint env)) (\<lambda>f. give (Some f)) else give None) (\<lambda>fingerprint.
     give (running, fingerprint)))))))"

text \<open>One pass of the loop; \<open>another\<close> says whether one more may follow.\<close>

definition attempt_round :: "'w EngineEnv \<Rightarrow> 'w Run \<Rightarrow> bool \<Rightarrow> nat \<Rightarrow> ('w, unit Phase) stm" where
  "attempt_round env run another index =
     do_then (start_attempt env run index) (\<lambda>(running, fingerprint).
     do_onward (execute_phase env run another running) (\<lambda>execution.
     do_onward (verify_phase env run another index running execution) (\<lambda>ev.
     do_onward (capture_phase env) (\<lambda>captured.
     do_onward (review_phase env run fingerprint running ev captured) (\<lambda>reviewed.
     judge env run another running ev reviewed)))))"

fun attempt_rounds :: "'w EngineEnv \<Rightarrow> 'w Run \<Rightarrow> nat \<Rightarrow> nat \<Rightarrow> ('w, CodingTaskResultV1) stm" where
  "attempt_rounds env run 0 index = raises (CodingEngineError ''bounded executor loop ended without a terminal result'')"
| "attempt_rounds env run (Suc n) index =
     do_then (attempt_round env run (0 < n) index) (\<lambda>p.
     case p of Finished result \<Rightarrow> give result | _ \<Rightarrow> attempt_rounds env run n (Suc index))"

definition begin_flow :: "('w, nat) stm" where
  "begin_flow = (\<lambda>fl.
     (Inr (Suc (length (ct_attempts (fl_state fl)))),
      fl\<lparr>fl_previous_error := (if ct_unresolved_errors (fl_state fl) = [] then None
           else Some (last (ct_unresolved_errors (fl_state fl)))),
         fl_last_summary := ''Coding executor completed.''\<rparr>))"

definition execute_flow :: "'w EngineEnv \<Rightarrow> 'w Run \<Rightarrow> nat \<Rightarrow> ('w, CodingTaskResultV1) stm" where
  "execute_flow env run max_attempts = do_then begin_flow (\<lambda>start_index. attempt_rounds env run max_attempts start_index)"

end
