(* ===== verification/EngineRun.thy ===== *)
theory EngineRun
  imports EngineLoop
begin

text \<open>
  Running and resuming a coding task, \<open>CodingEngine.run\<close>, \<open>_run_impl\<close> and \<open>resume\<close> in
  \<open>services/coding/engine.py\<close>: the preflight, the creation of the durable task and of its worktree, the
  choice of the executor, the lease around the flow, and the durable end of a task whose engine failed.
\<close>

section \<open>Surroundings\<close>

text \<open>
  \<open>sv_task\<close> are the surroundings of the task's flow. The private parts of a handoff contract are one
  text; contracts are compared by value. \<open>sv_error_text\<close> is \<open>type(exc).__name__: exc\<close>.
\<close>

record HandoffContract =
  hc_modified_files :: "string list"
  hc_unresolved_questions :: "string list"
  hc_binding :: string

record TaskContext =
  tc_artifact :: ArtifactReferenceV1
  tc_envelope_json :: string
  tc_blocked_files :: int

record 'w Services =
  sv_task :: "'w EngineEnv"
  sv_request_json :: "CodingTaskRequestV1 \<Rightarrow> string"
  sv_check_capabilities :: "Source \<Rightarrow> CodingTaskRequestV1 \<Rightarrow> 'w \<Rightarrow> (string + unit) \<times> 'w"
  sv_open_artifacts :: "string \<Rightarrow> ('w, unit) outside"
  sv_create_worktree :: "string \<Rightarrow> Source \<Rightarrow> ('w, WorktreeRecordV1) outside"
  sv_acquire_lease :: "WorktreeRecordV1 \<Rightarrow> ('w, unit) outside"
  sv_release_lease :: "('w, unit) outside"
  sv_build_context :: "CodingTaskRequestV1 \<Rightarrow> string list \<Rightarrow> string list \<Rightarrow> ('w, TaskContext) outside"
  sv_build_snapshot :: "int \<Rightarrow> 'w \<Rightarrow> (string + string) \<times> 'w"
  sv_load_handoff :: "CodingTaskStateV1 \<Rightarrow> ArtifactReferenceV1 \<Rightarrow> ('w, HandoffContract) outside"
  sv_error_text :: "EngineError \<Rightarrow> string"

definition then_outside :: "('w, 'a) outside \<Rightarrow> ('a \<Rightarrow> ('w, 'b) outside) \<Rightarrow> ('w, 'b) outside" where
  "then_outside act f = (\<lambda>w. case act w of (Inl e, w') \<Rightarrow> (Inl e, w') | (Inr x, w') \<Rightarrow> f x w')"

definition fails :: "EngineError \<Rightarrow> ('w, 'a) outside" where
  "fails e = (\<lambda>w. (Inl e, w))"

section \<open>Before the task exists\<close>

text \<open>Nothing here touches the store: a refused request leaves no task.\<close>

definition preflight :: "'w Services \<Rightarrow> CodingTaskRequestV1 \<Rightarrow> ('w, Source) outside" where
  "preflight sv request =
     (case ee_detect_secret (sv_task sv) (sv_request_json sv request) of
        Some kind \<Rightarrow> fails (CodingEngineError (''coding request blocked by privacy policy ('' @ kind @ '')''))
      | None \<Rightarrow>
          then_outside (ee_active_refs (sv_task sv)) (\<lambda>refs.
          then_outside (ee_resolve (sv_task sv) (cq_repository_path request) refs) (\<lambda>source.
          if so_dirty_paths source \<noteq> []
          then fails (CodingEngineError (''source repository has tracked or untracked changes; reconcile or commit '' @
             ''them before starting an isolated coding task''))
          else (\<lambda>w. case sv_check_capabilities sv source request w of
             (Inl message, w') \<Rightarrow>
               fails (CodingEngineError (''verification capability preflight failed before executor: '' @ message)) w'
           | (Inr _, w') \<Rightarrow> (Inr source, w')))))"

definition initial_state :: "CodingTaskRequestV1 \<Rightarrow> Source \<Rightarrow> datetime \<Rightarrow> CodingTaskStateV1" where
  "initial_state request source now =
     \<lparr>ct_schema_version = ''1.0'', ct_request = request, ct_status = CREATED,
      ct_source_repository = so_canonical_root source, ct_worktree = None, ct_applicable_rules = [],
      ct_inspected_files = [], ct_context_artifact_id = None, ct_attempts = [], ct_command_results = [],
      ct_artifacts = [], ct_modified_files = [], ct_review = None, ct_handoff_artifact_id = None,
      ct_commit_sha = None, ct_unresolved_errors = [], ct_created_at = now, ct_updated_at = now\<rparr>"

section \<open>The task\<close>

definition set_source :: "Source \<Rightarrow> ('w, unit) stm" where
  "set_source source = (\<lambda>fl. (Inr (), fl\<lparr>fl_source := source\<rparr>))"

text \<open>A \<open>with\<close> block: the lease is released on every way out, and a failing release hides the outcome.\<close>

definition with_lease :: "'w Services \<Rightarrow> WorktreeRecordV1 \<Rightarrow> ('w, 'a) stm \<Rightarrow> ('w, 'a) stm" where
  "with_lease sv r body =
     do_then (outside (sv_acquire_lease sv r)) (\<lambda>_ fl.
     case body fl of (outcome, fl') \<Rightarrow>
       (case outside (sv_release_lease sv) fl' of
          (Inl e, fl'') \<Rightarrow> (Inl e, fl'')
        | (Inr _, fl'') \<Rightarrow> (outcome, fl'')))"

definition register_task_worktree :: "'w Services \<Rightarrow> ('w, WorktreeRecordV1) stm" where
  "register_task_worktree sv =
     (let env = sv_task sv in
      do_then the_state (\<lambda>state.
      do_then the_source (\<lambda>source.
      do_then (outside (sv_create_worktree sv (cq_task_id (ct_request state)) source)) (\<lambda>r.
      do_then (ask (ee_now env)) (\<lambda>now.
      do_then (\<lambda>fl. case register_worktree (ee_store env) now r (fl_db fl) of
          Inl e \<Rightarrow> (Inl (StoreRaised e), fl) | Inr db \<Rightarrow> (Inr (), fl\<lparr>fl_db := db\<rparr>)) (\<lambda>_.
      do_then (transition_to env ISOLATED ''worktree.created'' None (\<lambda>s. s\<lparr>ct_worktree := Some r\<rparr>)) (\<lambda>_.
      give r)))))))"

text \<open>Creating the worktree may only have added the owned branch.\<close>

definition reresolve_source :: "'w Services \<Rightarrow> WorktreeRecordV1 \<Rightarrow> ('w, unit) stm" where
  "reresolve_source sv r =
     (let env = sv_task sv in
      do_then the_source (\<lambda>source.
      do_then (outside (ee_active_refs env)) (\<lambda>refs.
      do_then (outside (ee_resolve env (so_canonical_root source)
        (sort (dedup (so_excluded_git_refs source @ refs @ [owned_ref r]))))) (\<lambda>isolated.
      do_then (do_ensure (same_snapshot isolated source)
        (CodingEngineError ''source repository changed while the owned worktree was created'')) (\<lambda>_.
      set_source isolated)))))"

definition isolate :: "'w Services \<Rightarrow> ('w, WorktreeRecordV1) stm" where
  "isolate sv =
     (let env = sv_task sv in
      do_then the_state (\<lambda>state.
      let request = ct_request state in
      do_then (outside (ee_discover_rules env
        (unique_items (cq_rule_scope_paths request @ cq_expected_diff_paths request @ cq_forbidden_diff_paths request)))) (\<lambda>rules.
      do_then (transition_to env INSPECTED ''repository.inspected'' None (\<lambda>s. s\<lparr>ct_applicable_rules := rules\<rparr>)) (\<lambda>_.
      do_then (transition_to env PLANNED ''task.planned'' None (\<lambda>s. s)) (\<lambda>_.
      do_then (register_task_worktree sv) (\<lambda>r.
      do_then (guard_worktree env ''after worktree creation'') (\<lambda>_.
      do_then (do_ensure (wr_branch r \<noteq> None) (CodingEngineError ''owned coding worktree has no registered branch'')) (\<lambda>_.
      do_then (reresolve_source sv r) (\<lambda>_.
      give r)))))))))"

definition capture_public_data_snapshot :: "'w Services \<Rightarrow> CodingPermissionsV1 \<Rightarrow> int \<Rightarrow> ('w, string option) stm" where
  "capture_public_data_snapshot sv permissions blocked =
     (if \<not> cp_cloud_execution permissions then give None
      else
        do_then (do_ensure (cp_data_classification permissions = DC_PUBLIC)
          (CodingEngineError ''Codex execution requires an exact PUBLIC repository preflight'')) (\<lambda>_.
        do_then (ask (sv_build_snapshot sv blocked)) (\<lambda>r.
        case r of
          Inl message \<Rightarrow> raises (CodingEngineError (''Codex PUBLIC repository preflight failed: '' @ message))
        | Inr snapshot \<Rightarrow> give (Some snapshot))))"

text \<open>The context is built and recorded; \<open>event_type\<close> is that of a new or of a resumed task.\<close>

definition record_context :: "'w Services \<Rightarrow> string \<Rightarrow> string list \<Rightarrow> string list \<Rightarrow> ('w, TaskContext) stm" where
  "record_context sv event_type modified_files unresolved =
     do_then the_state (\<lambda>state.
     do_then (outside (sv_build_context sv (ct_request state) modified_files unresolved)) (\<lambda>ctx.
     do_then (transition_to (sv_task sv) ISOLATED event_type None
       (\<lambda>s. s\<lparr>ct_context_artifact_id := Some (af_artifact_id (tc_artifact ctx)),
          ct_artifacts := merge_artifacts (ct_artifacts s) [Some (tc_artifact ctx)]\<rparr>)) (\<lambda>_.
     give ctx)))"

definition high_risk :: "CodingTaskRequestV1 \<Rightarrow> bool" where
  "high_risk request \<longleftrightarrow> cq_risk request \<in> {CR_HIGH, CR_CRITICAL}"

definition codex_run :: "CodingTaskRequestV1 \<Rightarrow> string \<Rightarrow> string option \<Rightarrow> 'w Run" where
  "codex_run request context_json snapshot =
     \<lparr>rn_executor = CODEX_EXEC, rn_context_json = context_json, rn_allow_handoff = False,
      rn_primary_review_only = (cq_mode request = CM_READ_ONLY), rn_cloud_final_review = (cq_mode request = CM_WRITE),
      rn_resume = False, rn_pre_check = None, rn_snapshot = snapshot\<rparr>"

definition qwen_run :: "CodingTaskRequestV1 \<Rightarrow> string \<Rightarrow> string option \<Rightarrow> 'w Run" where
  "qwen_run request context_json snapshot =
     \<lparr>rn_executor = LOCAL_QWEN, rn_context_json = context_json, rn_allow_handoff = True,
      rn_primary_review_only = False, rn_cloud_final_review = cp_cloud_execution (cq_permissions request),
      rn_resume = False, rn_pre_check = None, rn_snapshot = snapshot\<rparr>"

text \<open>Under the lease: high risk goes to Codex or to a handoff, everything else to the local model.\<close>

definition leased_task :: "'w Services \<Rightarrow> ('w, CodingTaskResultV1) stm" where
  "leased_task sv =
     (let env = sv_task sv in
      do_then (assert_current_rules env) (\<lambda>_.
      do_then (record_context sv ''context.built'' [] []) (\<lambda>ctx.
      do_then the_state (\<lambda>state.
      let request = ct_request state in
      do_then (capture_public_data_snapshot sv (cq_permissions request) (tc_blocked_files ctx)) (\<lambda>snapshot.
      if high_risk request then
        if \<not> cp_cloud_execution (cq_permissions request)
        then handoff env ''High-risk task requires explicit scoped Codex cloud approval.''
        else execute_flow env (codex_run request (tc_envelope_json ctx) snapshot) 1
      else execute_flow env (qwen_run request (tc_envelope_json ctx) snapshot)
        (nat (cy_max_local_attempts (ee_policy env))))))))"

definition run_task :: "'w Services \<Rightarrow> ('w, CodingTaskResultV1) stm" where
  "run_task sv = do_then (isolate sv) (\<lambda>r. with_lease sv r (leased_task sv))"

type_synonym 'w outcome = "(EngineError + CodingTaskResultV1) \<times> CodingDb \<times> 'w"

definition flow_from :: "CodingDb \<Rightarrow> 'w \<Rightarrow> Source \<Rightarrow> CodingTaskStateV1 \<Rightarrow> int \<Rightarrow> 'w Flow" where
  "flow_from db w source state version =
     \<lparr>fl_db = db, fl_world = w, fl_source = source, fl_state = state, fl_version = version,
      fl_previous_error = None, fl_last_summary = []\<rparr>"

definition outcome_of :: "(EngineError + CodingTaskResultV1) \<times> 'w Flow \<Rightarrow> 'w outcome" where
  "outcome_of p = (fst p, fl_db (snd p), fl_world (snd p))"

text \<open>The task is created and run.\<close>

definition create_and_run :: "'w Services \<Rightarrow> CodingTaskRequestV1 \<Rightarrow> Source \<Rightarrow> CodingDb \<Rightarrow> 'w \<Rightarrow> 'w outcome" where
  "create_and_run sv request source db w =
     (let env = sv_task sv; (now, w1) = ee_now env w in
      case validate_CodingTaskStateV1 (se_nt (ee_store env)) (initial_state request source now) of
        None \<Rightarrow> (Inl ContractRaised, db, w1)
      | Some state \<Rightarrow>
          (let (recorded, w2) = ee_now env w1 in
           case create_task (ee_store env) recorded state db of
             Inl e \<Rightarrow> (Inl (StoreRaised e), db, w2)
           | Inr (db', version) \<Rightarrow> outcome_of (run_task sv (flow_from db' w2 source state version))))"

definition run_impl :: "'w Services \<Rightarrow> CodingTaskRequestV1 \<Rightarrow> CodingDb \<Rightarrow> 'w \<Rightarrow> 'w outcome" where
  "run_impl sv request db w =
     (case preflight sv request w of
        (Inl e, w1) \<Rightarrow> (Inl e, db, w1)
      | (Inr source, w1) \<Rightarrow>
          case sv_open_artifacts sv (cq_task_id request) w1 of
            (Inl e, w2) \<Rightarrow> (Inl e, db, w2)
          | (Inr _, w2) \<Rightarrow> create_and_run sv request source db w2)"

section \<open>The end of a failed run\<close>

definition blank_source :: Source where
  "blank_source = \<lparr>so_canonical_root = [], so_base_commit = [], so_dirty_paths = [], so_dirty_fingerprint = [],
     so_git_metadata_fingerprint = [], so_excluded_git_refs = []\<rparr>"

text \<open>The worktree is orphaned if that succeeds; the state records the failure either way.\<close>

definition orphan_worktree :: "'w EngineEnv \<Rightarrow> ('w, WorktreeRecordV1 option) stm" where
  "orphan_worktree env =
     do_then the_state (\<lambda>state.
     do_try (preserve_cancelled_worktree env) (\<lambda>_. give (ct_worktree state)))"

definition record_unexpected_failure :: "'w EngineEnv \<Rightarrow> string \<Rightarrow> ('w, unit) stm" where
  "record_unexpected_failure env error_text =
     do_then (orphan_worktree env) (\<lambda>w.
     do_then (ask (ee_cancelled env)) (\<lambda>cancelled.
     transition_to env (if cancelled then CANCELLED else FAILED) ''task.unexpected_failure''
       (Some ''engine.unexpected_failure'')
       (\<lambda>s. (add_error (sanitized env error_text) s)\<lparr>ct_worktree := w\<rparr>)))"

definition settle_failure :: "'w Services \<Rightarrow> string \<Rightarrow> EngineError \<Rightarrow> CodingDb \<Rightarrow> 'w \<Rightarrow> CodingDb \<times> 'w" where
  "settle_failure sv task e db w =
     (let env = sv_task sv in
      case (load_task (ee_store env) db task, task_version db task) of
        (Inr (Some latest), Inr version) \<Rightarrow>
          if ct_status latest \<in> {COMPLETED, FAILED, CANCELLED} then (db, w)
          else (case record_unexpected_failure env (sv_error_text sv e) (flow_from db w blank_source latest version) of
            (_, fl) \<Rightarrow> (fl_db fl, fl_world fl))
      | _ \<Rightarrow> (db, w))"

text \<open>\<open>run\<close>: the exception goes on after the task was settled.\<close>

definition run :: "'w Services \<Rightarrow> CodingTaskRequestV1 \<Rightarrow> CodingDb \<Rightarrow> 'w \<Rightarrow> 'w outcome" where
  "run sv request db w =
     (case run_impl sv request db w of
        (Inr result, db', w') \<Rightarrow> (Inr result, db', w')
      | (Inl e, db', w') \<Rightarrow> (Inl e, settle_failure sv (cq_task_id request) e db' w'))"

section \<open>Resuming\<close>

definition canonical_handoff :: "CodingTaskStateV1 \<Rightarrow> ArtifactReferenceV1 option" where
  "canonical_handoff state =
     find (\<lambda>a. Some (af_artifact_id a) = ct_handoff_artifact_id state \<and> af_kind a = AF_HANDOFF \<and>
       af_media_type a = ''application/json'') (ct_artifacts state)"

definition resume_run :: "string \<Rightarrow> ('w, unit) stm \<Rightarrow> string option \<Rightarrow> 'w Run" where
  "resume_run context_json check snapshot =
     \<lparr>rn_executor = CODEX_EXEC, rn_context_json = context_json, rn_allow_handoff = False,
      rn_primary_review_only = False, rn_cloud_final_review = True, rn_resume = True,
      rn_pre_check = Some check, rn_snapshot = snapshot\<rparr>"

text \<open>\<open>revalidate_handoff_immediately_before_executor\<close> over the state as it was resumed.\<close>

definition revalidate_handoff ::
    "'w Services \<Rightarrow> CodingTaskStateV1 \<Rightarrow> ArtifactReferenceV1 \<Rightarrow> HandoffContract \<Rightarrow> string option \<Rightarrow> ('w, unit) stm" where
  "revalidate_handoff sv state handoff_artifact contract snapshot =
     do_then (outside (sv_load_handoff sv state handoff_artifact)) (\<lambda>current.
     do_then (do_ensure (current = contract)
       (HandoffPolicyError ''canonical handoff contract changed before executor start'')) (\<lambda>_.
     assert_public_data_snapshot (sv_task sv) snapshot))"

definition leased_resume :: "'w Services \<Rightarrow> ArtifactReferenceV1 \<Rightarrow> ('w, CodingTaskResultV1) stm" where
  "leased_resume sv handoff_artifact =
     (let env = sv_task sv in
      do_then the_state (\<lambda>stored.
      do_then (outside (sv_load_handoff sv stored handoff_artifact)) (\<lambda>contract.
      do_then (outside (ee_active_refs env)) (\<lambda>refs.
      do_then (outside (ee_resolve env (ct_source_repository stored) refs)) (\<lambda>source.
      do_then (set_source source) (\<lambda>_.
      do_then (record_context sv ''handoff.resumed'' (hc_modified_files contract) (hc_unresolved_questions contract)) (\<lambda>ctx.
      do_then the_state (\<lambda>state.
      do_then (capture_public_data_snapshot sv (cq_permissions (ct_request state)) (tc_blocked_files ctx)) (\<lambda>snapshot.
      execute_flow env (resume_run (tc_envelope_json ctx)
        (revalidate_handoff sv state handoff_artifact contract snapshot) snapshot) 1)))))))))"

definition resume_impl :: "'w Services \<Rightarrow> ('w, CodingTaskResultV1) stm" where
  "resume_impl sv =
     (let env = sv_task sv in
      do_then the_state (\<lambda>state.
      do_then (do_ensure (ct_status state = HANDOFF_READY) (HandoffPolicyError ''task is not in resumable handoff state'')) (\<lambda>_.
      do_then (do_ensure (cp_cloud_execution (cq_permissions (ct_request state)))
        (HandoffPolicyError ''task has no explicit scoped Codex cloud approval'')) (\<lambda>_.
      do_then (outside (sv_open_artifacts sv (cq_task_id (ct_request state)))) (\<lambda>_.
      do_then (do_some (HandoffPolicyError ''canonical handoff artifact is missing from task state'') (canonical_handoff state)) (\<lambda>a.
      do_then (outside (ee_worktree_load env (cq_task_id (ct_request state)))) (\<lambda>loaded.
      do_then (do_some (HandoffPolicyError ''handoff worktree registry record is missing'') loaded) (\<lambda>r.
      do_then the_database (\<lambda>db.
      do_then (do_ensure (verify_coding_data db) (HostRaised ''CodingMigrationError'')) (\<lambda>_.
      with_lease sv r (leased_resume sv a)))))))))))"

definition resume :: "'w Services \<Rightarrow> string \<Rightarrow> CodingDb \<Rightarrow> 'w \<Rightarrow> 'w outcome" where
  "resume sv task db w =
     (let env = sv_task sv in
      case load_task (ee_store env) db task of
        Inl e \<Rightarrow> (Inl (StoreRaised e), db, w)
      | Inr None \<Rightarrow> (Inl (HandoffPolicyError ''task is not in resumable handoff state''), db, w)
      | Inr (Some state) \<Rightarrow>
          (case task_version db task of
             Inl e \<Rightarrow> (Inl (StoreRaised e), db, w)
           | Inr version \<Rightarrow> outcome_of (resume_impl sv (flow_from db w blank_source state version))))"

end
