(* ===== verification/EngineGuarantee.thy ===== *)
theory EngineGuarantee
  imports EngineRun
begin

text \<open>
  Guarantees of the coding engine. A statement \<open>obeys\<close> a relation on flows when every flow of the given
  request is related to the flow it leaves, whether it returns or raises. The locale
  \<open>engine_guarantee\<close> lists what a relation has to allow: what the surroundings may do, the
  transitions of the task, the updates of locals. Its lemmas lift the relation to every phase, to the loop
  of attempts and, in \<open>task_guarantee\<close>, to the whole task.
\<close>

section \<open>Statements\<close>

definition confined :: "('w \<Rightarrow> 'w \<Rightarrow> bool) \<Rightarrow> ('w \<Rightarrow> 'a \<times> 'w) \<Rightarrow> bool" where
  "confined G act \<longleftrightarrow> (\<forall>w. G w (snd (act w)))"

definition of_request :: "bool \<Rightarrow> CodingTaskRequestV1 \<Rightarrow> 'w Flow \<Rightarrow> bool" where
  "of_request nt q fl \<longleftrightarrow> ct_request (fl_state fl) = q \<and> validate_CodingTaskRequestV1 nt q = Some q"

definition state_of :: "CodingTaskRequestV1 \<Rightarrow> CodingTaskStateV1 \<Rightarrow> bool" where
  "state_of q s \<longleftrightarrow> ct_request s = q"

definition obeys ::
    "bool \<Rightarrow> CodingTaskRequestV1 \<Rightarrow> ('w Flow \<Rightarrow> 'w Flow \<Rightarrow> bool) \<Rightarrow> ('w, 'a) stm \<Rightarrow> bool" where
  "obeys nt q R m \<longleftrightarrow> (\<forall>fl. of_request nt q fl \<longrightarrow> R fl (snd (m fl)) \<and> of_request nt q (snd (m fl)))"

lemma obeysD: "obeys nt q R m \<Longrightarrow> of_request nt q fl \<Longrightarrow> m fl = (v, fl1) \<Longrightarrow> R fl fl1 \<and> of_request nt q fl1"
  by (force simp: obeys_def)

text \<open>The values an outside action can return.\<close>

definition results_of :: "('w, 'a) outside \<Rightarrow> 'a set" where
  "results_of act = {x. \<exists>w w'. act w = (Inr x, w')}"

text \<open>Updates of the state that a transition makes: the request stays, and so do the attempts but the last.\<close>

definition modest :: "(CodingTaskStateV1 \<Rightarrow> CodingTaskStateV1) \<Rightarrow> bool" where
  "modest u \<longleftrightarrow> (\<forall>s. ct_request (u s) = ct_request s \<and>
     (ct_attempts (u s) = ct_attempts s \<or> (\<exists>t. ct_attempts (u s) = replace_last (ct_attempts s) t)))"

text \<open>
  What the surroundings may do to the world: everything they do is in \<open>G\<close>, except that Git is only
  accounted for on the commands of \<open>git_ok\<close>, and the executors on the calls of \<open>exec_ok\<close>.
\<close>

definition surroundings_confined ::
    "('w \<Rightarrow> 'w \<Rightarrow> bool) \<Rightarrow> (string list \<Rightarrow> bool) \<Rightarrow> (ExecutorKind \<Rightarrow> bool) \<Rightarrow> 'w EngineEnv \<Rightarrow> bool" where
  "surroundings_confined G git_ok exec_ok env \<longleftrightarrow>
     confined G (ee_now env) \<and> confined G (ee_cancelled env) \<and> confined G (ee_git_scope_valid env) \<and>
     confined G (ee_owned_path env) \<and> confined G (ee_ignored_paths env) \<and> confined G (ee_status_paths env) \<and>
     confined G (ee_fingerprint env) \<and> confined G (ee_git_diff env) \<and> confined G (ee_ignored_fingerprint env) \<and>
     confined G (ee_scan_changed env) \<and> confined G (ee_active_refs env) \<and>
     (\<forall>b ts. confined G (ee_live_rules env b ts)) \<and> (\<forall>p. confined G (ee_rule_relative env p)) \<and>
     (\<forall>b p. confined G (ee_rule_digest env b p)) \<and> (\<forall>ts. confined G (ee_discover_rules env ts)) \<and>
     (\<forall>a b. confined G (ee_scan_commit env a b)) \<and> (\<forall>p rs. confined G (ee_resolve env p rs)) \<and>
     (\<forall>p. confined G (ee_write_diff env p)) \<and> (\<forall>r. confined G (ee_write_review env r)) \<and>
     (\<forall>a. confined G (ee_read_verified env a)) \<and> (\<forall>a. confined G (ee_read_text env a)) \<and>
     (\<forall>i. confined G (ee_artifact_reference env i)) \<and> (\<forall>s. confined G (ee_public_snapshot env s)) \<and>
     (\<forall>c i. confined G (ee_run_verifier env c i)) \<and> (\<forall>r i. confined G (ee_run_ui env r i)) \<and>
     (\<forall>source s req res u. confined G (ee_deterministic_review env source s req res u)) \<and>
     (\<forall>r t b. confined G (ee_merge_codex env r t b)) \<and>
     (\<forall>r s b d x cs. confined G (ee_semantic_review env r s b d x cs)) \<and>
     (\<forall>t. confined G (ee_worktree_load env t)) \<and> (\<forall>t. confined G (ee_mark_orphaned env t)) \<and>
     (\<forall>t. confined G (ee_complete_worktree env t)) \<and> (\<forall>s f d. confined G (ee_create_handoff env s f d)) \<and>
     (\<forall>argv. git_ok argv \<longrightarrow> confined G (ee_git env argv)) \<and>
     (\<forall>k b q p c. exec_ok k \<longrightarrow> confined G (ee_execute env k b q p c))"

text \<open>What holds of the value and the flow of a statement that returns.\<close>

definition returns :: "('w, 'a) stm \<Rightarrow> ('a \<Rightarrow> 'w Flow \<Rightarrow> bool) \<Rightarrow> bool" where
  "returns m Q \<longleftrightarrow> (\<forall>fl x fl'. m fl = (Inr x, fl') \<longrightarrow> Q x fl')"

named_theorems returns_intro "what statements yield"

lemma returns_give [returns_intro]: "(\<And>fl. Q x fl) \<Longrightarrow> returns (give x) Q"
  by (simp add: returns_def give_def)

lemma returns_raises [returns_intro]: "returns (raises e) Q"
  by (simp add: returns_def raises_def)

lemma returns_then [returns_intro]: "(\<And>x. returns (f x) Q) \<Longrightarrow> returns (do_then m f) Q"
  by (auto simp: returns_def do_then_def split: prod.splits sum.splits)

lemma returns_try [returns_intro]: "returns m Q \<Longrightarrow> (\<And>e. returns (h e) Q) \<Longrightarrow> returns (do_try m h) Q"
  by (auto simp: returns_def do_try_def split: prod.splits sum.splits)

lemma returns_then_value:
  "returns m (\<lambda>x _. P x) \<Longrightarrow> (\<And>x. P x \<Longrightarrow> returns (f x) Q) \<Longrightarrow> returns (do_then m f) Q"
  by (fastforce simp: returns_def do_then_def split: prod.splits sum.splits)

lemma returns_if [returns_intro]: "(b \<Longrightarrow> returns m Q) \<Longrightarrow> (\<not> b \<Longrightarrow> returns n Q) \<Longrightarrow> returns (if b then m else n) Q"
  by simp

lemma returns_option [returns_intro]:
  "returns m Q \<Longrightarrow> (\<And>x. v = Some x \<Longrightarrow> returns (f x) Q) \<Longrightarrow> returns (case v of None \<Rightarrow> m | Some x \<Rightarrow> f x) Q"
  by (cases v) auto

lemma returns_prod [returns_intro]: "(\<And>x y. v = (x, y) \<Longrightarrow> returns (f x y) Q) \<Longrightarrow> returns (case v of (x, y) \<Rightarrow> f x y) Q"
  by (cases v) auto

lemma returns_Let [returns_intro]: "returns (f v) Q \<Longrightarrow> returns (Let v f) Q"
  by simp

lemma checked_head_is_owned: "returns (assert_owned_branch_head env state head) (\<lambda>x _. \<exists>r. x = owned_ref r)"
  unfolding assert_owned_branch_head_def by (intro returns_intro) blast

named_theorems obeys_intro "statements that obey a guarantee"

section \<open>Commands\<close>

definition reading_command :: "string list \<Rightarrow> bool" where
  "reading_command argv \<longleftrightarrow> argv = head_command"

text \<open>What the commit gate and the check before completion may run.\<close>

definition commit_command :: "string list \<Rightarrow> bool" where
  "commit_command argv \<longleftrightarrow>
     argv \<in> {[''symbolic-ref'', ''--quiet'', ''HEAD''], staged_diff_command, [''write-tree''], [''add'', ''--all'']} \<or>
     (\<exists>ref. argv = [''rev-parse'', ''--verify'', ref]) \<or>
     (\<exists>tree parent message. argv = commit_tree_command tree parent message) \<or>
     (\<exists>old new. argv = commit_diff_command old new) \<or> (\<exists>old new. argv = final_diff_command old new) \<or>
     (\<exists>sha base. argv = [''rev-list'', ''--count'', sha, ''^'' @ base, ''--'']) \<or>
     (\<exists>branch sha base. argv = update_ref_command (''refs/heads/'' @ branch) sha base)"

section \<open>The guarantee of the flow\<close>

locale engine_guarantee =
  fixes env :: "'w EngineEnv"
    and nt :: bool
    and q :: CodingTaskRequestV1
    and G :: "'w \<Rightarrow> 'w \<Rightarrow> bool"
    and R :: "'w Flow \<Rightarrow> 'w Flow \<Rightarrow> bool"
    and git_ok :: "string list \<Rightarrow> bool"
    and exec_ok :: "ExecutorKind \<Rightarrow> bool"
    and rec_ok :: "WorktreeRecordV1 \<Rightarrow> bool"
  assumes R_refl: "R fl fl"
    and R_trans: "R fl fl1 \<Longrightarrow> R fl1 fl2 \<Longrightarrow> R fl fl2"
    and R_world: "G (fl_world fl) w \<Longrightarrow> R fl (fl\<lparr>fl_world := w\<rparr>)"
    and R_error: "R fl (fl\<lparr>fl_previous_error := v\<rparr>)"
    and R_summary: "R fl (fl\<lparr>fl_last_summary := t\<rparr>)"
    and R_source: "R fl (fl\<lparr>fl_source := s\<rparr>)"
    and R_call: "R fl fl1 \<Longrightarrow> R fl (fl1\<lparr>fl_state := fl_state fl, fl_version := fl_version fl\<rparr>)"
    and R_transition: "modest u \<Longrightarrow> obeys nt q R (transition_to env status event_type reason_code u)"
    and R_store: "rec_ok r \<Longrightarrow> obeys nt q R (store_worktree env r)"
    and surroundings: "surroundings_confined G git_ok exec_ok env"
    and orphaned: "r \<in> results_of (ee_mark_orphaned env t) \<Longrightarrow> rec_ok r"
    and completed: "r \<in> results_of (ee_complete_worktree env t) \<Longrightarrow> rec_ok r"
    and loaded: "Some r \<in> results_of (ee_worktree_load env t) \<Longrightarrow> rec_ok r"
    and reads: "git_ok head_command"
    and commits: "cp_local_commit (cq_permissions q) \<Longrightarrow> commit_command argv \<Longrightarrow> git_ok argv"
begin

lemma obeys_give [obeys_intro]: "obeys nt q R (give x)"
  by (simp add: obeys_def give_def R_refl)

lemma obeys_raises [obeys_intro]: "obeys nt q R (raises e)"
  by (simp add: obeys_def raises_def R_refl)

lemma obeys_then [obeys_intro]:
  assumes "obeys nt q R m" and "\<And>x. obeys nt q R (f x)"
  shows "obeys nt q R (do_then m f)"
proof (unfold obeys_def, intro allI impI)
  fix fl :: "'w Flow"
  assume fl: "of_request nt q fl"
  obtain r fl1 where m: "m fl = (r, fl1)" by fastforce
  have 1: "R fl fl1" "of_request nt q fl1" using obeysD[OF assms(1) fl m] by simp_all
  have 2: "\<And>x. R fl1 (snd (f x fl1)) \<and> of_request nt q (snd (f x fl1))" using assms(2) 1(2) by (auto simp: obeys_def)
  show "R fl (snd (do_then m f fl)) \<and> of_request nt q (snd (do_then m f fl))"
    using m 1 2 R_trans by (cases r) (auto simp: do_then_def)
qed

lemma obeys_try [obeys_intro]:
  assumes "obeys nt q R m" and "\<And>e. obeys nt q R (h e)"
  shows "obeys nt q R (do_try m h)"
proof (unfold obeys_def, intro allI impI)
  fix fl :: "'w Flow"
  assume fl: "of_request nt q fl"
  obtain r fl1 where m: "m fl = (r, fl1)" by fastforce
  have 1: "R fl fl1" "of_request nt q fl1" using obeysD[OF assms(1) fl m] by simp_all
  have 2: "\<And>x. R fl1 (snd (h x fl1)) \<and> of_request nt q (snd (h x fl1))" using assms(2) 1(2) by (auto simp: obeys_def)
  show "R fl (snd (do_try m h fl)) \<and> of_request nt q (snd (do_try m h fl))"
    using m 1 2 R_trans by (cases r) (auto simp: do_try_def)
qed

lemma obeys_ensure [obeys_intro]: "obeys nt q R (do_ensure b e)"
  by (simp add: do_ensure_def obeys_intro)

lemma obeys_some [obeys_intro]: "obeys nt q R (do_some e v)"
  by (auto simp: do_some_def obeys_intro split: option.splits)

lemma obeys_ask: "confined G act \<Longrightarrow> obeys nt q R (ask act)"
  by (auto simp: obeys_def confined_def ask_def of_request_def intro!: R_world split: prod.splits)
    (metis snd_conv)

lemma obeys_outside: "confined G act \<Longrightarrow> obeys nt q R (outside act)"
  by (auto simp: obeys_def confined_def outside_def of_request_def intro!: R_world split: prod.splits)
    (metis snd_conv)

lemma obeys_outside_then:
  assumes "confined G act" and "\<And>x. x \<in> results_of act \<Longrightarrow> obeys nt q R (f x)"
  shows "obeys nt q R (do_then (outside act) f)"
proof (unfold obeys_def, intro allI impI)
  fix fl :: "'w Flow"
  assume fl: "of_request nt q fl"
  obtain r w where act: "act (fl_world fl) = (r, w)" by fastforce
  have 1: "R fl (fl\<lparr>fl_world := w\<rparr>)" using assms(1) act R_world unfolding confined_def by (metis snd_conv)
  have 2: "of_request nt q (fl\<lparr>fl_world := w\<rparr>)" using fl by (simp add: of_request_def)
  show "R fl (snd (do_then (outside act) f fl)) \<and> of_request nt q (snd (do_then (outside act) f fl))"
  proof (cases r)
    case (Inl e)
    then show ?thesis using act 1 2 by (simp add: do_then_def outside_def)
  next
    case (Inr x)
    have "x \<in> results_of act" using act Inr unfolding results_of_def by blast
    then have "R (fl\<lparr>fl_world := w\<rparr>) (snd (f x (fl\<lparr>fl_world := w\<rparr>))) \<and> of_request nt q (snd (f x (fl\<lparr>fl_world := w\<rparr>)))"
      using assms(2) 2 by (simp add: obeys_def)
    then show ?thesis using act 1 Inr R_trans by (auto simp: do_then_def outside_def)
  qed
qed

lemma obeys_the_state [obeys_intro]:
  assumes "\<And>s. state_of q s \<Longrightarrow> obeys nt q R (f s)"
  shows "obeys nt q R (do_then the_state f)"
  using assms by (auto simp: obeys_def do_then_def the_state_def of_request_def state_of_def)

lemma obeys_the_source [obeys_intro]: "obeys nt q R the_source"
  by (simp add: obeys_def the_source_def R_refl)

lemma obeys_the_database [obeys_intro]: "obeys nt q R the_database"
  by (simp add: obeys_def the_database_def R_refl)

lemma obeys_locals [obeys_intro]:
  "obeys nt q R (remember_error m)" "obeys nt q R (remember_summary m)" "obeys nt q R previous_error"
  "obeys nt q R last_summary" "obeys nt q R (set_source src)"
  by (simp_all add: obeys_def remember_error_def remember_summary_def previous_error_def last_summary_def
      set_source_def of_request_def R_refl R_error R_summary R_source)

lemma obeys_call [obeys_intro]:
  assumes "obeys nt q R m"
  shows "obeys nt q R (in_call m)"
proof (unfold obeys_def, intro allI impI)
  fix fl :: "'w Flow"
  assume fl: "of_request nt q fl"
  obtain r fl1 where m: "m fl = (r, fl1)" by fastforce
  have 1: "R fl fl1" "of_request nt q fl1" using obeysD[OF assms fl m] by simp_all
  show "R fl (snd (in_call m fl)) \<and> of_request nt q (snd (in_call m fl))"
    using m 1 fl R_call[OF 1(1)] by (cases r) (simp_all add: in_call_def of_request_def)
qed

lemma obeys_if [obeys_intro]:
  "(b \<Longrightarrow> obeys nt q R m) \<Longrightarrow> (\<not> b \<Longrightarrow> obeys nt q R n) \<Longrightarrow> obeys nt q R (if b then m else n)"
  by simp

lemma obeys_option [obeys_intro]:
  "obeys nt q R m \<Longrightarrow> (\<And>x. v = Some x \<Longrightarrow> obeys nt q R (f x)) \<Longrightarrow> obeys nt q R (case v of None \<Rightarrow> m | Some x \<Rightarrow> f x)"
  by (cases v) auto

lemma obeys_sum [obeys_intro]:
  "(\<And>x. v = Inl x \<Longrightarrow> obeys nt q R (f x)) \<Longrightarrow> (\<And>x. v = Inr x \<Longrightarrow> obeys nt q R (g x)) \<Longrightarrow>
   obeys nt q R (case v of Inl x \<Rightarrow> f x | Inr x \<Rightarrow> g x)"
  by (cases v) auto

lemma obeys_prod [obeys_intro]: "(\<And>x y. v = (x, y) \<Longrightarrow> obeys nt q R (f x y)) \<Longrightarrow> obeys nt q R (case v of (x, y) \<Rightarrow> f x y)"
  by (cases v) auto

lemma obeys_Let [obeys_intro]: "obeys nt q R (f v) \<Longrightarrow> obeys nt q R (Let v f)"
  by simp

lemma asks [obeys_intro]:
  "obeys nt q R (ask (ee_now env))" "obeys nt q R (ask (ee_cancelled env))" "obeys nt q R (ask (ee_git_scope_valid env))"
  "obeys nt q R (ask (ee_public_snapshot env s))"
  using surroundings by (auto simp: surroundings_confined_def intro!: obeys_ask)

lemma acts [obeys_intro]:
  "obeys nt q R (outside (ee_owned_path env))" "obeys nt q R (outside (ee_ignored_paths env))"
  "obeys nt q R (outside (ee_status_paths env))" "obeys nt q R (outside (ee_fingerprint env))"
  "obeys nt q R (outside (ee_git_diff env))" "obeys nt q R (outside (ee_ignored_fingerprint env))"
  "obeys nt q R (outside (ee_scan_changed env))" "obeys nt q R (outside (ee_active_refs env))"
  "obeys nt q R (outside (ee_live_rules env b ts))" "obeys nt q R (outside (ee_rule_relative env p))"
  "obeys nt q R (outside (ee_rule_digest env b p))" "obeys nt q R (outside (ee_discover_rules env ts))"
  "obeys nt q R (outside (ee_scan_commit env x y))" "obeys nt q R (outside (ee_resolve env p ts))"
  "obeys nt q R (outside (ee_write_diff env p))" "obeys nt q R (outside (ee_write_review env rv))"
  "obeys nt q R (outside (ee_read_verified env a))" "obeys nt q R (outside (ee_read_text env a))"
  "obeys nt q R (outside (ee_artifact_reference env i))" "obeys nt q R (outside (ee_run_verifier env c i))"
  "obeys nt q R (outside (ee_run_ui env rq i))" "obeys nt q R (outside (ee_deterministic_review env src st ts cs u))"
  "obeys nt q R (outside (ee_merge_codex env rv i u))" "obeys nt q R (outside (ee_semantic_review env rv st wb ar xr cs))"
  "obeys nt q R (outside (ee_worktree_load env i))" "obeys nt q R (outside (ee_mark_orphaned env i))"
  "obeys nt q R (outside (ee_complete_worktree env i))" "obeys nt q R (outside (ee_create_handoff env st i j))"
  using surroundings by (auto simp: surroundings_confined_def intro!: obeys_outside)

lemma obeys_git: "git_ok argv \<Longrightarrow> obeys nt q R (outside (ee_git env argv))"
  using surroundings by (auto simp: surroundings_confined_def intro!: obeys_outside)

lemma obeys_execute: "exec_ok k \<Longrightarrow> obeys nt q R (outside (ee_execute env k b rq p c))"
  using surroundings by (auto simp: surroundings_confined_def intro!: obeys_outside)

lemma obeys_transition [obeys_intro]:
  "(\<And>s. ct_request (u s) = ct_request s) \<Longrightarrow>
   (\<And>s. ct_attempts (u s) = ct_attempts s \<or> (\<exists>t. ct_attempts (u s) = replace_last (ct_attempts s) t)) \<Longrightarrow>
   obeys nt q R (transition_to env status event_type reason_code u)"
  by (rule R_transition) (simp add: modest_def)

lemma add_error_fields [simp]:
  "ct_request (add_error m s) = ct_request s" "ct_attempts (add_error m s) = ct_attempts s"
  by (simp_all add: add_error_def)

lemma close_last_fields [simp]:
  "ct_request (close_last t s) = ct_request s" "ct_attempts (close_last t s) = replace_last (ct_attempts s) t"
  by (simp_all add: close_last_def)

subsection \<open>Guards and rules\<close>

lemma obeys_guards [obeys_intro]:
  "obeys nt q R (validate_task_git_scope env)" "obeys nt q R (assert_no_ignored_files env phase)"
  "obeys nt q R (guard_worktree env phase)" "obeys nt q R (assert_source_snapshot env)"
  by (auto simp: validate_task_git_scope_def assert_no_ignored_files_def guard_worktree_def
      assert_source_snapshot_def Let_def intro!: obeys_intro)

lemma obeys_check_rule_files [obeys_intro]: "obeys nt q R (check_rule_files env rules)"
  by (induction rules) (auto intro!: obeys_intro)

lemma obeys_rules [obeys_intro]:
  "obeys nt q R (assert_rule_bytes_match env rules targets)" "obeys nt q R (assert_current_rules env)"
  by (auto simp: assert_rule_bytes_match_def assert_current_rules_def Let_def intro!: obeys_intro)

lemma then_some [simp]:
  "do_then (do_some e None) f = raises e" "do_then (do_some e (Some x)) f = f x"
  by (auto simp: do_then_def do_some_def raises_def give_def)

lemma registry_confined:
  "confined G (ee_mark_orphaned env t)" "confined G (ee_complete_worktree env t)" "confined G (ee_worktree_load env t)"
  using surroundings by (simp_all add: surroundings_confined_def)

lemma obeys_preserve [obeys_intro]: "obeys nt q R (preserve_cancelled_worktree env)"
  unfolding preserve_cancelled_worktree_def
  by (intro obeys_the_state obeys_if obeys_give obeys_outside_then[OF registry_confined(1)])
    (auto intro!: obeys_intro R_store dest: orphaned)

lemma obeys_sync [obeys_intro]: "obeys nt q R (sync_worktree env event_type)"
  unfolding sync_worktree_def
proof (rule obeys_the_state, rule obeys_outside_then[OF registry_confined(3)])
  fix s v
  assume v: "v \<in> results_of (ee_worktree_load env (cq_task_id (ct_request s)))"
  show "obeys nt q R (do_then (do_some (CodingEngineError ''task worktree disappeared from the ownership registry'') v)
    (\<lambda>current. do_then the_database (\<lambda>db.
     do_then (case load_worktree (ee_store env) db (cq_task_id (ct_request s)) of
         Inl e \<Rightarrow> raises (StoreRaised e)
       | Inr v \<Rightarrow> do_some (CodingEngineError ''task worktree disappeared from the durable registry'') v) (\<lambda>stored.
     do_then (if current \<noteq> stored then store_worktree env current else give ()) (\<lambda>_.
     if ct_worktree s \<noteq> Some current
     then transition_to env (ct_status s) event_type None (\<lambda>s. s\<lparr>ct_worktree := Some current\<rparr>)
     else give ())))))"
    using v by (cases v) (auto intro!: obeys_intro R_store loaded)
qed

subsection \<open>Git\<close>

lemma obeys_head [obeys_intro]: "obeys nt q R (git_text env head_command)"
  by (auto simp: git_text_def intro!: obeys_intro obeys_git reads)

lemma obeys_observe [obeys_intro]: "obeys nt q R (observe env)"
  by (auto simp: observe_def intro!: obeys_intro)

lemma obeys_rounds [obeys_intro]: "obeys nt q R (binding_rounds env n)"
  by (induction n) (auto intro!: obeys_intro)

lemma obeys_binding [obeys_intro]:
  "obeys nt q R (capture_worktree_binding env)" "obeys nt q R (assert_same_approved_binding x y phase b)"
  "obeys nt q R (capture_diff env)"
  by (auto simp: capture_worktree_binding_def assert_same_approved_binding_def capture_diff_def intro!: obeys_intro)

lemma obeys_commit_command:
  assumes "cp_local_commit (cq_permissions q)" and "commit_command argv"
  shows "obeys nt q R (outside (ee_git env argv))" "obeys nt q R (git_text env argv)"
  using assms by (auto simp: git_text_def intro!: obeys_intro obeys_git commits)

lemma commit_commands:
  "commit_command [''symbolic-ref'', ''--quiet'', ''HEAD'']" "commit_command [''rev-parse'', ''--verify'', ref]"
  "commit_command staged_diff_command" "commit_command [''write-tree'']" "commit_command [''add'', ''--all'']"
  "commit_command (tree_command sha)" "commit_command (commit_tree_command tree parent message)"
  "commit_command (commit_diff_command old new)" "commit_command (final_diff_command old new)"
  "commit_command [''rev-list'', ''--count'', sha, ''^'' @ base, ''--'']"
  "commit_command (update_ref_command (owned_ref r) sha base)"
  by (simp_all add: commit_command_def tree_command_def owned_ref_def commit_tree_command_def commit_diff_command_def
      final_diff_command_def update_ref_command_def staged_diff_command_def)

lemma obeys_branch:
  assumes "cp_local_commit (cq_permissions q)"
  shows "obeys nt q R (branch_at env ref head)"
  unfolding branch_at_def by (intro obeys_intro obeys_commit_command assms commit_commands)

lemma obeys_commit_checks:
  assumes "cp_local_commit (cq_permissions q)"
  shows "obeys nt q R (assert_owned_branch_head env state head)" "obeys nt q R (assert_exact_verified_index env tree diff)"
    "obeys nt q R (assert_unreachable_commit env commit old tree diff content)"
proof -
  note commit = obeys_commit_command[OF assms] obeys_branch[OF assms] commit_commands
  show "obeys nt q R (assert_owned_branch_head env state head)"
    unfolding assert_owned_branch_head_def by (intro obeys_intro commit)
  show "obeys nt q R (assert_exact_verified_index env tree diff)"
    unfolding assert_exact_verified_index_def by (intro obeys_intro commit)
  show "obeys nt q R (assert_unreachable_commit env commit old tree diff content)"
    unfolding assert_unreachable_commit_def by (intro obeys_intro commit)
qed

lemma obeys_head_then:
  assumes "cp_local_commit (cq_permissions q)" and "\<And>r. obeys nt q R (f (owned_ref r))"
  shows "obeys nt q R (do_then (assert_owned_branch_head env state head) f)"
proof (unfold obeys_def, intro allI impI)
  fix fl :: "'w Flow"
  assume fl: "of_request nt q fl"
  obtain v fl1 where m: "assert_owned_branch_head env state head fl = (v, fl1)" by fastforce
  have 1: "R fl fl1" "of_request nt q fl1" using obeysD[OF obeys_commit_checks(1)[OF assms(1)] fl m] by simp_all
  show "R fl (snd (do_then (assert_owned_branch_head env state head) f fl)) \<and>
    of_request nt q (snd (do_then (assert_owned_branch_head env state head) f fl))"
  proof (cases v)
    case (Inr x)
    then obtain r where "x = owned_ref r" using checked_head_is_owned m unfolding returns_def by blast
    then have "R fl1 (snd (f x fl1)) \<and> of_request nt q (snd (f x fl1))" using assms(2) 1(2) by (simp add: obeys_def)
    then show ?thesis using m Inr 1(1) R_trans by (auto simp: do_then_def)
  qed (use m 1 in \<open>simp add: do_then_def\<close>)
qed

lemma obeys_guarded_commit:
  assumes "cp_local_commit (cq_permissions q)"
  shows "obeys nt q R (create_guarded_commit env state tree diff content message)"
  unfolding create_guarded_commit_def
  by (rule obeys_then obeys_head_then obeys_some assms |
      intro obeys_intro obeys_commit_checks obeys_commit_command obeys_branch commit_commands assms)+

lemma obeys_commit_staged:
  assumes "cp_local_commit (cq_permissions q)"
  shows "obeys nt q R (commit_staged env state approved)"
  unfolding commit_staged_def finish_commit_def
  by (intro obeys_intro obeys_guarded_commit obeys_commit_command commit_commands assms)

lemma obeys_commit_gate [obeys_intro]: "obeys nt q R (commit_gate env approved)"
  unfolding commit_gate_def
proof (rule obeys_the_state)
  fix s
  assume "state_of q s"
  then have s: "cq_permissions (ct_request s) = cq_permissions q" by (simp add: state_of_def)
  show "obeys nt q R (do_then (guard_worktree env ''before commit'') (\<lambda>_.
     do_then (assert_source_snapshot env) (\<lambda>_.
     do_then (capture_worktree_binding env) (\<lambda>(before_stage, _).
     do_then (assert_same_approved_binding approved before_stage ''before staging'' False) (\<lambda>_.
     if \<not> cp_local_commit (cq_permissions (ct_request s))
     then give \<lparr>cg_commit_sha = None, cg_tree_sha = None, cg_approved_diff_sha256 = wb_diff_sha256 approved,
       cg_staged_diff_sha256 = None, cg_terminal_binding = before_stage\<rparr>
     else commit_staged env s approved)))))"
    unfolding s by (auto intro!: obeys_intro obeys_commit_staged)
qed

text \<open>The check before completion reads the commit only when the gate made one.\<close>

lemma obeys_terminal_gate:
  assumes "cg_commit_sha gate \<noteq> None \<Longrightarrow> cp_local_commit (cq_permissions q)"
  shows "obeys nt q R (assert_terminal_commit_gate env gate)"
  unfolding assert_terminal_commit_gate_def
  by (cases "cg_commit_sha gate")
    (auto intro!: obeys_intro obeys_commit_command commit_commands assms split: option.split)

subsection \<open>Texts and verification\<close>

lemma obeys_failures [obeys_intro]:
  "obeys nt q R (failure_output env r)" "obeys nt q R (command_failures env results ids)"
  "obeys nt q R (verification_retry_message env results required)"
proof -
  show printed: "obeys nt q R (failure_output env r)" for r
    by (auto simp: failure_output_def Let_def intro!: obeys_intro split: option.split)
  show failures: "obeys nt q R (command_failures env results ids)" for ids
    by (induction ids) (auto intro!: obeys_intro printed split: option.split)
  show "obeys nt q R (verification_retry_message env results required)"
    by (auto simp: verification_retry_message_def intro!: obeys_intro failures)
qed

lemma obeys_commands [obeys_intro]: "obeys nt q R (run_commands env specs)"
proof (induction specs)
  case (Cons spec specs)
  then show ?case by (cases spec) (auto intro!: obeys_intro)
qed (simp add: obeys_give)

lemma obeys_verification [obeys_intro]: "obeys nt q R (verify_attempt_commands env index)"
  unfolding verify_attempt_commands_def Let_def by (auto intro!: obeys_intro split: option.split)

lemma obeys_prompt [obeys_intro]: "obeys nt q R (prompt_stm state previous resumed)"
  by (auto simp: prompt_stm_def intro!: obeys_intro)

lemma obeys_snapshot [obeys_intro]: "obeys nt q R (assert_public_data_snapshot env snapshot)"
  unfolding assert_public_data_snapshot_def by (auto intro!: obeys_intro)

lemma obeys_safe_review [obeys_intro]: "obeys nt q R (safe_review env review)"
  unfolding safe_review_def by (auto intro!: obeys_intro)

lemma obeys_codex_review: "exec_ok CODEX_EXEC \<Longrightarrow> obeys nt q R (codex_final_review env ctx snapshot review state)"
  unfolding codex_final_review_def by (auto intro!: obeys_intro obeys_execute split: EngineError.split)

lemma obeys_review:
  assumes "ri_cloud_final_review r \<Longrightarrow> \<not> ri_primary_review_only r \<Longrightarrow> exec_ok CODEX_EXEC"
  shows "obeys nt q R (review_attempt env r)"
  unfolding review_attempt_def by (auto intro!: obeys_intro obeys_codex_review assms)

lemma obeys_delivery [obeys_intro]: "obeys nt q R (assert_review_delivery_ready env)"
  unfolding assert_review_delivery_ready_def assert_semantic_evidence_def Let_def
  by (auto intro!: obeys_intro split: option.split json.split)

subsection \<open>Results and handoff\<close>

lemma obeys_result [obeys_intro]: "obeys nt q R (result_with env summary path)"
  unfolding result_with_def by (auto intro!: obeys_intro)

lemma obeys_finished [obeys_intro]: "obeys nt q R m \<Longrightarrow> obeys nt q R (finished m)"
  unfolding finished_def by (auto intro!: obeys_intro)

lemma obeys_closed [obeys_intro]: "obeys nt q R (closed_attempt running status now m cs fs ids)"
  unfolding closed_attempt_def by (auto intro!: obeys_intro)

lemma obeys_onward [obeys_intro]:
  "obeys nt q R m \<Longrightarrow> (\<And>x. obeys nt q R (f x)) \<Longrightarrow> obeys nt q R (do_onward m f)"
  unfolding do_onward_def by (auto intro!: obeys_intro split: Phase.split)

lemma obeys_handoff [obeys_intro]: "obeys nt q R (handoff env message)"
  unfolding handoff_def prepare_handoff_def by (auto intro!: obeys_intro)

lemma obeys_stop [obeys_intro]: "obeys nt q R (stop_or_retry env rn another message ev rc summary)"
  unfolding stop_or_retry_def by (auto intro!: obeys_intro)

lemma obeys_record_failure [obeys_intro]:
  assumes "\<And>s. ct_request (u s) = ct_request s" "\<And>s. ct_attempts (u s) = ct_attempts s"
  shows "obeys nt q R (record_executor_failure env status ev message terminal u)"
  unfolding record_executor_failure_def by (auto simp: assms intro!: obeys_intro)

subsection \<open>Execution\<close>

lemma obeys_execute_body [obeys_intro]:
  assumes "exec_ok (rn_executor rn)" and "\<And>c. rn_pre_check rn = Some c \<Longrightarrow> obeys nt q R c"
  shows "obeys nt q R (execute_body env rn another running)"
  unfolding execute_body_def expand_rules_def Let_def
  using assms(1) by (auto intro!: obeys_intro obeys_execute dest: assms(2))

lemma obeys_execute_handlers [obeys_intro]:
  "obeys nt q R (revalidation_failed env running message)"
  "obeys nt q R (executor_failed env rn another running message artifact)"
  unfolding revalidation_failed_def executor_failed_def Let_def
  by (auto intro!: obeys_intro)

lemma obeys_execute_phase [obeys_intro]:
  assumes "exec_ok (rn_executor rn)" and "\<And>c. rn_pre_check rn = Some c \<Longrightarrow> obeys nt q R c"
  shows "obeys nt q R (execute_phase env rn another running)"
  unfolding execute_phase_def using assms by (auto intro!: obeys_intro split: EngineError.split)

subsection \<open>Verification, capture and review\<close>

lemma obeys_verify_phase [obeys_intro]: "obeys nt q R (verify_phase env rn another index running execution)"
  unfolding verify_phase_def verification_rejected_def Let_def
  by (auto intro!: obeys_intro)

lemma obeys_capture_phase [obeys_intro]: "obeys nt q R (capture_phase env)"
  unfolding capture_phase_def captured_body_def by (auto intro!: obeys_intro)

lemma obeys_review_raised [obeys_intro]: "obeys nt q R (review_raised env running results e)"
  unfolding review_raised_def review_cancelled_def by (auto intro!: obeys_intro split: EngineError.split)

lemma obeys_record_review [obeys_intro]: "obeys nt q R (record_review env rn diff approved r)"
  unfolding record_review_def by (cases r) (auto intro!: obeys_intro)

lemma obeys_review_phase [obeys_intro]:
  assumes "rn_cloud_final_review rn \<Longrightarrow> \<not> rn_primary_review_only rn \<Longrightarrow> exec_ok CODEX_EXEC"
  shows "obeys nt q R (review_phase env rn fingerprint running ev captured)"
  unfolding review_phase_def
  by (cases captured) (auto intro!: obeys_intro obeys_review simp: review_inputs_def assms)

subsection \<open>Completion\<close>

lemma obeys_then_value:
  assumes "obeys nt q R m" and "\<And>fl x fl'. of_request nt q fl \<Longrightarrow> m fl = (Inr x, fl') \<Longrightarrow> obeys nt q R (f x)"
  shows "obeys nt q R (do_then m f)"
proof (unfold obeys_def, intro allI impI)
  fix fl :: "'w Flow"
  assume fl: "of_request nt q fl"
  obtain v fl1 where m: "m fl = (v, fl1)" by fastforce
  have 1: "R fl fl1" "of_request nt q fl1" using obeysD[OF assms(1) fl m] by simp_all
  show "R fl (snd (do_then m f fl)) \<and> of_request nt q (snd (do_then m f fl))"
  proof (cases v)
    case (Inr x)
    have "R fl1 (snd (f x fl1)) \<and> of_request nt q (snd (f x fl1))"
      using assms(2)[OF fl m[unfolded Inr]] 1(2) by (simp add: obeys_def)
    then show ?thesis using m Inr 1(1) R_trans by (auto simp: do_then_def)
  qed (use m 1 in \<open>simp add: do_then_def\<close>)
qed

lemma gate_without_permission:
  assumes "commit_gate env approved fl = (Inr gate, fl')" "of_request nt q fl" "cg_commit_sha gate \<noteq> None"
  shows "cp_local_commit (cq_permissions q)"
proof (rule ccontr)
  assume "\<not> ?thesis"
  then have "\<not> cp_local_commit (cq_permissions (ct_request (fl_state fl)))"
    using assms(2) by (simp add: of_request_def)
  then show False
    using assms(1,3) by (auto simp: commit_gate_def do_then_def the_state_def give_def split: prod.splits sum.splits)
qed

lemma obeys_pass [obeys_intro]: "obeys nt q R (pass_attempt env running ev r)"
  unfolding pass_attempt_def by (auto intro!: obeys_intro)

lemma obeys_preview [obeys_intro]: "obeys nt q R (preview_completion env commit)"
  unfolding preview_completion_def by (auto intro!: obeys_intro)

lemma obeys_complete [obeys_intro]: "obeys nt q R (complete_task env rn running ev r)"
  unfolding complete_task_def
proof (rule obeys_then[OF obeys_pass], rule obeys_then[OF obeys_delivery], rule obeys_then_value[OF obeys_commit_gate],
    goal_cases)
  case (1 _ _ fl gate fl')
  note terminal = obeys_terminal_gate[OF gate_without_permission[OF 1(2,1)]]
  show ?case
    by (rule obeys_then[OF obeys_preview], rule obeys_then[OF obeys_guards(4)], rule obeys_then[OF terminal], assumption,
        rule obeys_then[OF obeys_delivery], rule obeys_the_state,
        rule obeys_outside_then[OF registry_confined(2)])
      (auto intro!: obeys_intro R_store dest: completed)
qed

subsection \<open>The loop\<close>

lemma obeys_judge [obeys_intro]: "obeys nt q R (judge env rn another running ev r)"
  unfolding judge_def review_rejected_def Let_def by (auto intro!: obeys_intro)

lemma obeys_unexpected: "obeys nt q R (record_unexpected_failure env error_text)"
  unfolding record_unexpected_failure_def orphan_worktree_def by (auto intro!: obeys_intro)

definition fits :: "'w Run \<Rightarrow> bool" where
  "fits rn \<longleftrightarrow> exec_ok (rn_executor rn) \<and>
     (rn_cloud_final_review rn \<and> \<not> rn_primary_review_only rn \<longrightarrow> exec_ok CODEX_EXEC) \<and>
     (\<forall>c. rn_pre_check rn = Some c \<longrightarrow> obeys nt q R c)"

lemma obeys_round_after_start:
  assumes "fits rn"
  shows "obeys nt q R (do_onward (execute_phase env rn another running) (\<lambda>execution.
     do_onward (verify_phase env rn another index running execution) (\<lambda>ev.
     do_onward (capture_phase env) (\<lambda>captured.
     do_onward (review_phase env rn fingerprint running ev captured) (\<lambda>reviewed.
     judge env rn another running ev reviewed)))))"
  using assms unfolding fits_def by (auto intro!: obeys_intro)

end

section \<open>The guarantee of the loop and of the task\<close>

locale flow_guarantee = engine_guarantee +
  assumes R_start:
    "obeys nt q R (transition_to env EXECUTING event_type reason_code (\<lambda>s. s\<lparr>ct_attempts := ct_attempts s @ [running]\<rparr>))"
begin

lemma obeys_start: "obeys nt q R (start_attempt env rn index)"
  unfolding start_attempt_def
  by (rule obeys_then, (auto intro!: obeys_intro)[1], rule obeys_then, (auto intro!: obeys_intro)[1],
      rule obeys_then, (auto intro!: obeys_intro)[1], rule obeys_then[OF R_start])
    (auto intro!: obeys_intro)

lemma obeys_round: "fits rn \<Longrightarrow> obeys nt q R (attempt_round env rn another index)"
  unfolding attempt_round_def by (intro obeys_then obeys_start obeys_prod obeys_round_after_start)

lemma obeys_attempts: "fits rn \<Longrightarrow> obeys nt q R (attempt_rounds env rn n index)"
  by (induction n arbitrary: index) (auto intro!: obeys_intro obeys_round split: Phase.split)

lemma obeys_begin: "obeys nt q R begin_flow"
  using R_trans[OF R_error R_summary] by (simp add: obeys_def begin_flow_def of_request_def)

lemma obeys_flow: "fits rn \<Longrightarrow> obeys nt q R (execute_flow env rn n)"
  unfolding execute_flow_def by (intro obeys_then obeys_begin obeys_attempts)

end

text \<open>What the services around the flow may do to the world.\<close>

definition services_confined :: "('w \<Rightarrow> 'w \<Rightarrow> bool) \<Rightarrow> 'w Services \<Rightarrow> bool" where
  "services_confined G sv \<longleftrightarrow>
     (\<forall>s r. confined G (sv_check_capabilities sv s r)) \<and> (\<forall>t. confined G (sv_open_artifacts sv t)) \<and>
     (\<forall>t s. confined G (sv_create_worktree sv t s)) \<and> (\<forall>r. confined G (sv_acquire_lease sv r)) \<and>
     confined G (sv_release_lease sv) \<and> (\<forall>r m u. confined G (sv_build_context sv r m u)) \<and>
     (\<forall>b. confined G (sv_build_snapshot sv b)) \<and> (\<forall>s a. confined G (sv_load_handoff sv s a))"

locale task_guarantee = flow_guarantee "sv_task sv" nt q G R git_ok exec_ok rec_ok
  for sv :: "'w Services" and nt q G R git_ok exec_ok rec_ok +
  assumes services: "services_confined G sv"
    and created: "r \<in> results_of (sv_create_worktree sv t s) \<Longrightarrow> rec_ok r"
    and R_register: "rec_ok r \<Longrightarrow> obeys nt q R (\<lambda>fl. case register_worktree (ee_store (sv_task sv)) now r (fl_db fl) of
          Inl e \<Rightarrow> (Inl (StoreRaised e), fl) | Inr db \<Rightarrow> (Inr (), fl\<lparr>fl_db := db\<rparr>))"
    and local_allowed: "exec_ok LOCAL_QWEN"
    and cloud_allowed: "cp_cloud_execution (cq_permissions q) \<Longrightarrow> exec_ok CODEX_EXEC"
begin

lemma service_acts [obeys_intro]:
  "obeys nt q R (outside (sv_create_worktree sv t src))" "obeys nt q R (outside (sv_acquire_lease sv r))"
  "obeys nt q R (outside (sv_release_lease sv))" "obeys nt q R (outside (sv_build_context sv rq ts us))"
  "obeys nt q R (ask (sv_build_snapshot sv b))" "obeys nt q R (outside (sv_load_handoff sv st a))"
  "obeys nt q R (outside (sv_open_artifacts sv t))"
  using services by (auto simp: services_confined_def intro!: obeys_outside obeys_ask)

lemma obeys_lease [obeys_intro]:
  assumes "obeys nt q R body"
  shows "obeys nt q R (with_lease sv r body)"
  unfolding with_lease_def
proof (rule obeys_then[OF service_acts(2)], unfold obeys_def, intro allI impI)
  fix fl :: "'w Flow"
  assume fl: "of_request nt q fl"
  obtain v fl1 where m: "body fl = (v, fl1)" by fastforce
  obtain v' fl2 where m': "outside (sv_release_lease sv) fl1 = (v', fl2)" by fastforce
  have 1: "R fl fl1" "of_request nt q fl1" using obeysD[OF assms fl m] by simp_all
  have 2: "R fl1 fl2" "of_request nt q fl2" using obeysD[OF service_acts(3) 1(2) m'] by simp_all
  show "R fl (snd (case body fl of (outcome, fl') \<Rightarrow> case outside (sv_release_lease sv) fl' of
      (Inl e, fl'') \<Rightarrow> (Inl e, fl'') | (Inr _, fl'') \<Rightarrow> (outcome, fl''))) \<and>
    of_request nt q (snd (case body fl of (outcome, fl') \<Rightarrow> case outside (sv_release_lease sv) fl' of
      (Inl e, fl'') \<Rightarrow> (Inl e, fl'') | (Inr _, fl'') \<Rightarrow> (outcome, fl'')))"
    using m m' 2 R_trans[OF 1(1) 2(1)] by (cases v') simp_all
qed

lemma obeys_register [obeys_intro]: "obeys nt q R (register_task_worktree sv)"
  unfolding register_task_worktree_def Let_def
proof (rule obeys_the_state, rule obeys_then[OF obeys_the_source], rule obeys_outside_then, goal_cases)
  case (1 s source)
  show ?case using services by (simp add: services_confined_def)
next
  case (2 s source r)
  show ?case using created[OF 2(2)] by (auto intro!: obeys_intro R_register)
qed

lemma obeys_isolate [obeys_intro]: "obeys nt q R (isolate sv)"
  unfolding isolate_def reresolve_source_def Let_def by (auto intro!: obeys_intro)

lemma obeys_context [obeys_intro]:
  "obeys nt q R (record_context sv event_type ms us)" "obeys nt q R (capture_public_data_snapshot sv permissions blocked)"
  unfolding record_context_def capture_public_data_snapshot_def by (auto intro!: obeys_intro)

lemma obeys_leased [obeys_intro]: "obeys nt q R (leased_task sv)"
  unfolding leased_task_def Let_def
proof (rule obeys_then[OF obeys_rules(2)], rule obeys_then[OF obeys_context(1)], rule obeys_the_state, goal_cases)
  case (1 _ ctx s)
  then have s: "ct_request s = q" by (simp add: state_of_def)
  have codex: "fits (codex_run q c v)" if "cp_cloud_execution (cq_permissions q)" for c v
    using cloud_allowed[OF that] by (simp add: fits_def codex_run_def)
  have qwen: "fits (qwen_run q c v)" for c v
    using local_allowed cloud_allowed by (simp add: fits_def qwen_run_def)
  show ?case unfolding s by (auto intro!: obeys_intro obeys_flow codex qwen)
qed

lemma obeys_task: "obeys nt q R (run_task sv)"
  unfolding run_task_def by (auto intro!: obeys_intro)

lemma obeys_resume: "obeys nt q R (resume_impl sv)"
  unfolding resume_impl_def Let_def
proof (rule obeys_the_state, goal_cases)
  case (1 s)
  then have s: "ct_request s = q" by (simp add: state_of_def)
  have flow: "obeys nt q R (leased_resume sv a)" if "cp_cloud_execution (cq_permissions q)" for a
    using cloud_allowed[OF that] unfolding leased_resume_def Let_def
    by (auto simp: fits_def resume_run_def revalidate_handoff_def intro!: obeys_intro obeys_flow)
  show ?case
  proof (cases "cp_cloud_execution (cq_permissions q)")
    case True
    then show ?thesis unfolding s by (auto intro!: obeys_intro flow)
  next
    case False
    then show ?thesis unfolding s by (auto simp: do_then_def do_ensure_def raises_def give_def obeys_def R_refl)
  qed
qed

end

end
