(* ===== verification/EngineSafety.thy ===== *)
theory EngineSafety
  imports EngineGuarantee CodingStoreProperties
begin

text \<open>
  Relations that the coding engine obeys, as interpretations of the locales of EngineGuarantee: the rows
  of other tasks, the number of attempts, the steps of the store, and any relation on the world
  that the permitted actions of the surroundings maintain.
\<close>

section \<open>One transition\<close>

lemma candidate_fields:
  assumes "validate_CodingTaskStateV1 nt r = Some c"
  shows "validate_CodingTaskRequestV1 nt (ct_request r) = Some (ct_request c)" "ct_status c = ct_status r"
    "length (ct_attempts c) = length (ct_attempts r)"
proof -
  have len: "length ys = length xs" if "mapM f xs = Some ys" for f :: "CodingAttemptV1 \<Rightarrow> CodingAttemptV1 option" and xs ys
    using that by (induction xs arbitrary: ys) (auto simp: bind_eq_Some_conv)
  show "validate_CodingTaskRequestV1 nt (ct_request r) = Some (ct_request c)" "ct_status c = ct_status r"
    "length (ct_attempts c) = length (ct_attempts r)"
    using assms unfolding validate_CodingTaskStateV1_def
    by (auto simp: bind_eq_Some_conv Let_def bounded_len_def split: if_splits dest: len)
qed

lemma transition_toE:
  assumes "transition_to env status event_type reason u fl = (v, fl')" and "reflp G" and "transp G"
    and "confined G (ee_now env)"
  obtains w e where "fl' = fl\<lparr>fl_world := w\<rparr>" "G (fl_world fl) w" "v = Inl e"
  | w cand recorded db ver where "fl' = fl\<lparr>fl_db := db, fl_world := w, fl_state := cand, fl_version := ver\<rparr>"
      "G (fl_world fl) w" "v = Inr ()"
      "\<exists>now. validate_CodingTaskStateV1 (se_nt (ee_store env)) ((u (fl_state fl))\<lparr>ct_status := status, ct_updated_at := now\<rparr>) = Some cand"
      "transition_task (ee_store env) recorded cand event_type reason (Some (fl_version fl)) (fl_db fl) = Inr (db, ver)"
proof -
  obtain now w1 where 1: "ee_now env (fl_world fl) = (now, w1)" by fastforce
  obtain recorded w2 where 2: "ee_now env w1 = (recorded, w2)" by fastforce
  have g1: "G (fl_world fl) w1" and g2: "G w1 w2"
    using assms(4) 1 2 unfolding confined_def by (metis snd_conv)+
  have g: "G (fl_world fl) w2" using g1 g2 assms(3) by (meson transpE)
  let ?c = "validate_CodingTaskStateV1 (se_nt (ee_store env)) ((u (fl_state fl))\<lparr>ct_status := status, ct_updated_at := now\<rparr>)"
  show thesis
  proof (cases ?c)
    case None
    then have "v = Inl ContractRaised" "fl' = fl\<lparr>fl_world := w1\<rparr>"
      using assms(1) 1 by (simp_all add: transition_to_def do_then_def ask_def the_state_def do_some_def raises_def)
    then show thesis using that(1) g1 by blast
  next
    case (Some cand)
    show thesis
    proof (cases "transition_task (ee_store env) recorded cand event_type reason (Some (fl_version fl)) (fl_db fl)")
      case (Inl e)
      then have "v = Inl (StoreRaised e)" "fl' = fl\<lparr>fl_world := w2\<rparr>"
        using assms(1) 1 2 Some by (simp_all add: transition_to_def do_then_def ask_def the_state_def do_some_def give_def)
      then show thesis using that(1) g by blast
    next
      case (Inr p)
      obtain db ver where p: "p = (db, ver)" by fastforce
      have a: "v = Inr ()" "fl' = fl\<lparr>fl_db := db, fl_world := w2, fl_state := cand, fl_version := ver\<rparr>"
        using assms(1) 1 2 Some Inr p
        by (auto simp: transition_to_def do_then_def ask_def the_state_def do_some_def give_def)
      show thesis by (rule that(2)[OF a(2) g a(1) _ Inr[unfolded p]]) (use Some in blast)
    qed
  qed
qed

lemma store_worktreeE:
  assumes "store_worktree env r fl = (v, fl')" and "confined G (ee_now env)"
  obtains w e where "fl' = fl\<lparr>fl_world := w\<rparr>" "G (fl_world fl) w" "v = Inl e"
  | w now db where "fl' = fl\<lparr>fl_world := w, fl_db := db\<rparr>" "G (fl_world fl) w" "v = Inr ()"
      "update_worktree (ee_store env) now r (fl_db fl) = Inr db"
proof -
  obtain now w1 where 1: "ee_now env (fl_world fl) = (now, w1)" by fastforce
  have g1: "G (fl_world fl) w1" using assms(2) 1 unfolding confined_def by (metis snd_conv)
  show thesis
    using assms(1) g1 1 that
    by (auto simp: store_worktree_def do_then_def ask_def split: sum.splits prod.splits)
qed

text \<open>What a transition of the task of \<open>q\<close> keeps and changes.\<close>

lemma transition_request:
  assumes "of_request (se_nt (ee_store env)) q fl" and "modest u \<or> (\<exists>x. u = (\<lambda>s. s\<lparr>ct_attempts := ct_attempts s @ [x]\<rparr>))"
    and "\<exists>now. validate_CodingTaskStateV1 (se_nt (ee_store env)) ((u (fl_state fl))\<lparr>ct_status := status, ct_updated_at := now\<rparr>) = Some cand"
  shows "ct_request cand = q" and "ct_status cand = status"
    and "length (ct_attempts cand) = length (ct_attempts (u (fl_state fl)))"
proof -
  obtain now where v: "validate_CodingTaskStateV1 (se_nt (ee_store env)) ((u (fl_state fl))\<lparr>ct_status := status, ct_updated_at := now\<rparr>) = Some cand"
    using assms(3) by blast
  have "ct_request (u (fl_state fl)) = q" using assms(1,2) by (auto simp: modest_def of_request_def)
  then show "ct_request cand = q" using candidate_fields(1)[OF v] assms(1) by (simp add: of_request_def)
  show "ct_status cand = status" "length (ct_attempts cand) = length (ct_attempts (u (fl_state fl)))"
    using candidate_fields(2,3)[OF v] by simp_all
qed

section \<open>Other tasks\<close>

definition other_rows :: "string \<Rightarrow> 'w Flow \<Rightarrow> 'w Flow \<Rightarrow> bool" where
  "other_rows task fl fl' \<longleftrightarrow>
     (\<forall>t. t \<noteq> task \<longrightarrow> select tr_task_id t (db_tasks (fl_db fl')) = select tr_task_id t (db_tasks (fl_db fl)) \<and>
        history (db_events (fl_db fl')) t = history (db_events (fl_db fl)) t)"

lemma always_true: "reflp (\<lambda>_ _. True)" "transp (\<lambda>_ _. True)" "confined (\<lambda>_ _. True) act"
  by (simp_all add: reflp_def transp_def confined_def)

lemma transition_other_rows:
  assumes "transition_task env now state event_type reason expected db = Inr (db', v)" and "t \<noteq> cq_task_id (ct_request state)"
  shows "select tr_task_id t (db_tasks db') = select tr_task_id t (db_tasks db)" "history (db_events db') t = history (db_events db) t"
  using assms(1) by (elim transition_taskE, simp add: task_rows.select_other[OF assms(2)] assms(2)[symmetric])+

lemma other_rows_transition:
  assumes "modest u \<or> (\<exists>x. u = (\<lambda>s. s\<lparr>ct_attempts := ct_attempts s @ [x]\<rparr>))"
  shows "obeys (se_nt (ee_store env)) q (other_rows (cq_task_id q)) (transition_to env status event_type reason u)"
  unfolding obeys_def
proof (intro allI impI)
  fix fl :: "'a Flow"
  assume fl: "of_request (se_nt (ee_store env)) q fl"
  obtain v fl' where m: "transition_to env status event_type reason u fl = (v, fl')" by fastforce
  from m always_true(1,2) always_true(3)[of "ee_now env"]
  show "other_rows (cq_task_id q) fl (snd (transition_to env status event_type reason u fl)) \<and>
    of_request (se_nt (ee_store env)) q (snd (transition_to env status event_type reason u fl))"
  proof (cases rule: transition_toE)
    case (1 w e)
    then show ?thesis using fl m by (simp add: other_rows_def of_request_def)
  next
    case (2 w cand recorded db ver)
    then show ?thesis
      using fl m transition_request(1)[OF fl assms 2(4)] transition_other_rows[OF 2(5)]
      by (simp add: other_rows_def of_request_def)
  qed
qed

lemma other_rows_store: "obeys (se_nt (ee_store env)) q (other_rows task) (store_worktree env r)"
  unfolding obeys_def
proof (intro allI impI)
  fix fl :: "'a Flow"
  assume fl: "of_request (se_nt (ee_store env)) q fl"
  obtain v fl' where m: "store_worktree env r fl = (v, fl')" by fastforce
  from m always_true(3)[of "ee_now env"]
  show "other_rows task fl (snd (store_worktree env r fl)) \<and> of_request (se_nt (ee_store env)) q (snd (store_worktree env r fl))"
    by (cases rule: store_worktreeE)
      (use fl m in \<open>auto simp: other_rows_def of_request_def elim!: update_worktreeE\<close>)
qed

lemma other_rows_register:
  "obeys nt q (other_rows task) (\<lambda>fl. case register_worktree st now r (fl_db fl) of
     Inl e \<Rightarrow> (Inl (StoreRaised e), fl) | Inr db \<Rightarrow> (Inr (), fl\<lparr>fl_db := db\<rparr>))"
  by (auto simp: obeys_def other_rows_def of_request_def split: sum.splits elim!: register_worktreeE)

lemma other_rows_base:
  "other_rows task fl fl" "other_rows task fl fl1 \<Longrightarrow> other_rows task fl1 fl2 \<Longrightarrow> other_rows task fl fl2"
  "other_rows task fl (fl\<lparr>fl_world := w\<rparr>)" "other_rows task fl (fl\<lparr>fl_previous_error := v\<rparr>)"
  "other_rows task fl (fl\<lparr>fl_last_summary := x\<rparr>)" "other_rows task fl (fl\<lparr>fl_source := s\<rparr>)"
  "other_rows task fl fl1 \<Longrightarrow> other_rows task fl (fl1\<lparr>fl_state := fl_state fl, fl_version := fl_version fl\<rparr>)"
  by (simp_all add: other_rows_def)

lemma no_condition:
  "surroundings_confined (\<lambda>_ _. True) git_ok exec_ok env" "services_confined (\<lambda>_ _. True) sv"
  by (simp_all add: surroundings_confined_def services_confined_def always_true)

lemma other_rows_start:
  "obeys (se_nt (ee_store env)) q (other_rows (cq_task_id q))
     (transition_to env status event_type reason (\<lambda>s. s\<lparr>ct_attempts := ct_attempts s @ [running]\<rparr>))"
  by (rule other_rows_transition) blast

interpretation other_tasks: task_guarantee sv "se_nt (ee_store (sv_task sv))" q "\<lambda>_ _. True" "other_rows (cq_task_id q)"
    "\<lambda>_. True" "\<lambda>_. True" "\<lambda>_. True" for sv :: "'w Services" and q
  by unfold_locales
    (simp_all add: no_condition other_rows_base(1,3-7) other_rows_store other_rows_register other_rows_transition other_rows_start,
      rule other_rows_base(2))

section \<open>The steps of the store\<close>

text \<open>Everything a task writes is a sequence of steps of the store over valid values.\<close>

definition database_steps :: "StoreEnv \<Rightarrow> 'w Flow \<Rightarrow> 'w Flow \<Rightarrow> bool" where
  "database_steps env fl fl' \<longleftrightarrow> store_steps env (fl_db fl) (fl_db fl')"

definition valid_record :: "WorktreeRecordV1 \<Rightarrow> bool" where
  "valid_record r \<longleftrightarrow> validate_WorktreeRecordV1 r = Some r"

text \<open>The records that the registry of worktrees hands out are instances of their contract.\<close>

definition records_valid :: "'w Services \<Rightarrow> bool" where
  "records_valid sv \<longleftrightarrow>
     (\<forall>t r. r \<in> results_of (ee_mark_orphaned (sv_task sv) t) \<longrightarrow> valid_record r) \<and>
     (\<forall>t r. r \<in> results_of (ee_complete_worktree (sv_task sv) t) \<longrightarrow> valid_record r) \<and>
     (\<forall>t r. Some r \<in> results_of (ee_worktree_load (sv_task sv) t) \<longrightarrow> valid_record r) \<and>
     (\<forall>t s r. r \<in> results_of (sv_create_worktree sv t s) \<longrightarrow> valid_record r)"

lemma one_step: "op_valid env op \<Longrightarrow> apply_op env op db = Inr db' \<Longrightarrow> store_steps env db db'"
  unfolding store_steps_def by (blast intro: store_step_op)

lemma transition_steps:
  assumes "modest u \<or> (\<exists>x. u = (\<lambda>s. s\<lparr>ct_attempts := ct_attempts s @ [x]\<rparr>))"
  shows "obeys (se_nt (ee_store env)) q (database_steps (ee_store env)) (transition_to env status event_type reason u)"
  unfolding obeys_def
proof (intro allI impI)
  fix fl :: "'a Flow"
  assume fl: "of_request (se_nt (ee_store env)) q fl"
  obtain v fl' where m: "transition_to env status event_type reason u fl = (v, fl')" by fastforce
  from m always_true(1,2) always_true(3)[of "ee_now env"]
  show "database_steps (ee_store env) fl (snd (transition_to env status event_type reason u fl)) \<and>
    of_request (se_nt (ee_store env)) q (snd (transition_to env status event_type reason u fl))"
  proof (cases rule: transition_toE)
    case (1 w e)
    then show ?thesis using fl m by (simp add: database_steps_def store_steps_def of_request_def)
  next
    case (2 w cand recorded db ver)
    have "validate_CodingTaskStateV1 (se_nt (ee_store env)) cand = Some cand"
      using 2(4) validate_CodingTaskStateV1_idem by blast
    then have "store_steps (ee_store env) (fl_db fl) db"
      using 2(5) one_step[of "ee_store env" "TransitionTask recorded cand event_type reason (Some (fl_version fl))"]
      by simp
    then show ?thesis
      using fl m 2(1) transition_request(1)[OF fl assms 2(4)] by (simp add: database_steps_def of_request_def)
  qed
qed

lemma modest_transition_steps:
  "modest u \<Longrightarrow> obeys (se_nt (ee_store env)) q (database_steps (ee_store env)) (transition_to env status event_type reason u)"
  by (rule transition_steps) blast

lemma start_transition_steps:
  "obeys (se_nt (ee_store env)) q (database_steps (ee_store env))
     (transition_to env status event_type reason (\<lambda>s. s\<lparr>ct_attempts := ct_attempts s @ [running]\<rparr>))"
  by (rule transition_steps) blast

lemma store_worktree_steps:
  assumes "valid_record r"
  shows "obeys (se_nt (ee_store env)) q (database_steps (ee_store env)) (store_worktree env r)"
  unfolding obeys_def
proof (intro allI impI)
  fix fl :: "'a Flow"
  assume fl: "of_request (se_nt (ee_store env)) q fl"
  obtain v fl' where m: "store_worktree env r fl = (v, fl')" by fastforce
  from m always_true(3)[of "ee_now env"]
  show "database_steps (ee_store env) fl (snd (store_worktree env r fl)) \<and>
    of_request (se_nt (ee_store env)) q (snd (store_worktree env r fl))"
  proof (cases rule: store_worktreeE)
    case (1 w e)
    then show ?thesis using fl m by (simp add: database_steps_def store_steps_def of_request_def)
  next
    case (2 w now db)
    have "store_steps (ee_store env) (fl_db fl) db"
      using 2(4) assms one_step[of "ee_store env" "UpdateWorktree now r"] by (simp add: valid_record_def)
    then show ?thesis using fl m 2(1) by (simp add: database_steps_def of_request_def)
  qed
qed

lemma register_steps:
  assumes "valid_record r"
  shows "obeys nt q (database_steps env) (\<lambda>fl. case register_worktree env now r (fl_db fl) of
     Inl e \<Rightarrow> (Inl (StoreRaised e), fl) | Inr db \<Rightarrow> (Inr (), fl\<lparr>fl_db := db\<rparr>))"
  using assms one_step[of env "RegisterWorktree now r"]
  by (auto simp: obeys_def database_steps_def of_request_def valid_record_def store_steps_def split: sum.splits)

lemma database_steps_base:
  "database_steps env fl fl" "database_steps env fl fl1 \<Longrightarrow> database_steps env fl1 fl2 \<Longrightarrow> database_steps env fl fl2"
  "database_steps env fl (fl\<lparr>fl_world := w\<rparr>)" "database_steps env fl (fl\<lparr>fl_previous_error := v\<rparr>)"
  "database_steps env fl (fl\<lparr>fl_last_summary := x\<rparr>)" "database_steps env fl (fl\<lparr>fl_source := s\<rparr>)"
  "database_steps env fl fl1 \<Longrightarrow> database_steps env fl (fl1\<lparr>fl_state := fl_state fl, fl_version := fl_version fl\<rparr>)"
  by (simp_all add: database_steps_def store_steps_def)

lemma store_guarantee:
  assumes "records_valid sv"
  shows "task_guarantee sv (se_nt (ee_store (sv_task sv))) q (\<lambda>_ _. True) (database_steps (ee_store (sv_task sv)))
    (\<lambda>_. True) (\<lambda>_. True) valid_record"
  using assms unfolding records_valid_def
  by unfold_locales
    (simp_all add: no_condition database_steps_base(1,3-7) store_worktree_steps register_steps
      modest_transition_steps start_transition_steps, (blast intro: database_steps_base(2))+)

section \<open>The world\<close>

text \<open>\<open>G\<close> relates two worlds; the flows of a task are related as their worlds are.\<close>

definition world_related :: "('w \<Rightarrow> 'w \<Rightarrow> bool) \<Rightarrow> 'w Flow \<Rightarrow> 'w Flow \<Rightarrow> bool" where
  "world_related G fl fl' \<longleftrightarrow> G (fl_world fl) (fl_world fl')"

lemma world_transition:
  assumes "reflp G" "transp G" "confined G (ee_now env)"
    and "modest u \<or> (\<exists>x. u = (\<lambda>s. s\<lparr>ct_attempts := ct_attempts s @ [x]\<rparr>))"
  shows "obeys (se_nt (ee_store env)) q (world_related G) (transition_to env status event_type reason u)"
  unfolding obeys_def
proof (intro allI impI)
  fix fl :: "'a Flow"
  assume fl: "of_request (se_nt (ee_store env)) q fl"
  obtain v fl' where m: "transition_to env status event_type reason u fl = (v, fl')" by fastforce
  from m assms(1-3)
  show "world_related G fl (snd (transition_to env status event_type reason u fl)) \<and>
    of_request (se_nt (ee_store env)) q (snd (transition_to env status event_type reason u fl))"
  proof (cases rule: transition_toE)
    case (1 w e)
    then show ?thesis using fl m by (simp add: world_related_def of_request_def)
  next
    case (2 w cand recorded db ver)
    then show ?thesis
      using fl m transition_request(1)[OF fl assms(4) 2(4)] by (simp add: world_related_def of_request_def)
  qed
qed

lemma world_store:
  assumes "confined G (ee_now env)"
  shows "obeys nt q (world_related G) (store_worktree env r)"
  unfolding obeys_def
proof (intro allI impI)
  fix fl :: "'a Flow"
  assume fl: "of_request nt q fl"
  obtain v fl' where m: "store_worktree env r fl = (v, fl')" by fastforce
  from m assms
  show "world_related G fl (snd (store_worktree env r fl)) \<and> of_request nt q (snd (store_worktree env r fl))"
    by (cases rule: store_worktreeE) (use fl m in \<open>simp_all add: world_related_def of_request_def\<close>)
qed

lemma world_base:
  assumes "reflp G" "transp G"
  shows "world_related G fl fl" "world_related G fl fl1 \<Longrightarrow> world_related G fl1 fl2 \<Longrightarrow> world_related G fl fl2"
    "G (fl_world fl) w \<Longrightarrow> world_related G fl (fl\<lparr>fl_world := w\<rparr>)" "world_related G fl (fl\<lparr>fl_previous_error := v\<rparr>)"
    "world_related G fl (fl\<lparr>fl_last_summary := x\<rparr>)" "world_related G fl (fl\<lparr>fl_source := s\<rparr>)"
    "world_related G fl fl1 \<Longrightarrow> world_related G fl (fl1\<lparr>fl_state := fl_state fl, fl_version := fl_version fl\<rparr>)"
    "obeys nt q (world_related G) (\<lambda>fl. case register_worktree env now r (fl_db fl) of
     Inl e \<Rightarrow> (Inl (StoreRaised e), fl) | Inr db \<Rightarrow> (Inr (), fl\<lparr>fl_db := db\<rparr>))"
  using assms by (auto simp: world_related_def obeys_def of_request_def reflp_def split: sum.splits dest: transpD)

lemma world_guarantee:
  assumes "reflp G" "transp G" "surroundings_confined G git_ok exec_ok (sv_task sv)" "services_confined G sv"
    and "git_ok head_command" "exec_ok LOCAL_QWEN"
    and "\<And>argv. cp_local_commit (cq_permissions q) \<Longrightarrow> commit_command argv \<Longrightarrow> git_ok argv"
    and "cp_cloud_execution (cq_permissions q) \<Longrightarrow> exec_ok CODEX_EXEC"
  shows "task_guarantee sv (se_nt (ee_store (sv_task sv))) q G (world_related G) git_ok exec_ok (\<lambda>_. True)"
proof -
  have now: "confined G (ee_now (sv_task sv))" using assms(3) by (simp add: surroundings_confined_def)
  have tr: "modest u \<Longrightarrow> obeys (se_nt (ee_store (sv_task sv))) q (world_related G) (transition_to (sv_task sv) status ev rc u)" for u status ev rc
    by (rule world_transition[OF assms(1,2) now]) blast
  have st: "obeys (se_nt (ee_store (sv_task sv))) q (world_related G)
     (transition_to (sv_task sv) EXECUTING ev rc (\<lambda>s. s\<lparr>ct_attempts := ct_attempts s @ [x]\<rparr>))" for ev rc x
    by (rule world_transition[OF assms(1,2) now]) blast
  note base = world_base[OF assms(1,2)]
  show ?thesis
    by unfold_locales
      (assumption | rule base(1,3-8) tr st world_store[OF now] assms TrueI | erule (1) base(2))+
qed

section \<open>The number of attempts\<close>

text \<open>After its start an attempt only replaces the last one.\<close>

definition attempts_grow :: "'w Flow \<Rightarrow> 'w Flow \<Rightarrow> bool" where
  "attempts_grow fl fl' \<longleftrightarrow>
     length (ct_attempts (fl_state fl')) \<le> max 1 (length (ct_attempts (fl_state fl)))"

lemma replace_last_length: "length (replace_last xs x) = max 1 (length xs)"
  by (cases xs) (auto simp: replace_last_def)

lemma attempts_transition:
  assumes "modest u"
  shows "obeys (se_nt (ee_store env)) q attempts_grow (transition_to env status event_type reason u)"
  unfolding obeys_def
proof (intro allI impI)
  fix fl :: "'a Flow"
  assume fl: "of_request (se_nt (ee_store env)) q fl"
  obtain v fl' where m: "transition_to env status event_type reason u fl = (v, fl')" by fastforce
  have u: "length (ct_attempts (u s)) \<le> max 1 (length (ct_attempts s))" for s
    using assms unfolding modest_def by (metis le_max_iff_disj order_refl replace_last_length)
  from m always_true(1,2) always_true(3)[of "ee_now env"]
  show "attempts_grow fl (snd (transition_to env status event_type reason u fl)) \<and>
    of_request (se_nt (ee_store env)) q (snd (transition_to env status event_type reason u fl))"
  proof (cases rule: transition_toE)
    case (1 w e)
    then show ?thesis using fl m by (simp add: attempts_grow_def of_request_def)
  next
    case (2 w cand recorded db ver)
    note c = transition_request[OF fl disjI1[OF assms] 2(4)]
    show ?thesis using fl m 2(1) c u by (simp add: attempts_grow_def of_request_def)
  qed
qed

lemma attempts_store: "obeys nt q attempts_grow (store_worktree env r)"
  by (auto simp: obeys_def store_worktree_def do_then_def ask_def attempts_grow_def of_request_def
      split: prod.splits sum.splits)

lemma attempts_base:
  "attempts_grow fl fl" "attempts_grow fl fl1 \<Longrightarrow> attempts_grow fl1 fl2 \<Longrightarrow> attempts_grow fl fl2"
  "attempts_grow fl (fl\<lparr>fl_world := w\<rparr>)" "attempts_grow fl (fl\<lparr>fl_previous_error := v\<rparr>)"
  "attempts_grow fl (fl\<lparr>fl_last_summary := x\<rparr>)" "attempts_grow fl (fl\<lparr>fl_source := s\<rparr>)"
  "attempts_grow fl (fl1\<lparr>fl_state := fl_state fl, fl_version := fl_version fl\<rparr>)"
  by (auto simp: attempts_grow_def)

interpretation attempt_count: engine_guarantee env "se_nt (ee_store env)" q "\<lambda>_ _. True" attempts_grow
    "\<lambda>_. True" "\<lambda>_. True" "\<lambda>_. True" for env :: "'w EngineEnv" and q
  by unfold_locales
    (simp_all add: no_condition attempts_base(1,3-7) attempts_store attempts_transition, rule attempts_base(2))

text \<open>Statements without a transition keep the state.\<close>

definition keeps_state :: "('w, 'a) stm \<Rightarrow> bool" where
  "keeps_state m \<longleftrightarrow> (\<forall>fl. fl_state (snd (m fl)) = fl_state fl)"

lemma keeps_then: "keeps_state m \<Longrightarrow> (\<And>x. keeps_state (f x)) \<Longrightarrow> keeps_state (do_then m f)"
  by (simp add: keeps_state_def do_then_def split: prod.splits sum.splits) (metis snd_conv)

lemma keeps_basic:
  "keeps_state (give x)" "keeps_state (raises e)" "keeps_state (do_ensure b e)" "keeps_state (do_some e v)"
  "keeps_state (outside act)" "keeps_state (ask act')" "keeps_state the_state"
  by (auto simp: keeps_state_def give_def raises_def do_ensure_def do_some_def outside_def ask_def the_state_def
      split: prod.splits option.splits)

lemma keeps_rule_files: "keeps_state (check_rule_files env rules)"
  by (induction rules) (simp_all add: keeps_basic keeps_then)

lemma keeps_rules: "keeps_state (assert_current_rules env)"
  by (simp add: assert_current_rules_def assert_rule_bytes_match_def Let_def keeps_basic keeps_then keeps_rule_files)

text \<open>How much a statement adds to the attempts of a task of \<open>q\<close>.\<close>

definition adds_attempts :: "bool \<Rightarrow> CodingTaskRequestV1 \<Rightarrow> nat \<Rightarrow> ('w, 'a) stm \<Rightarrow> bool" where
  "adds_attempts nt q k m \<longleftrightarrow> obeys nt q (\<lambda>fl fl'.
     length (ct_attempts (fl_state fl')) \<le> length (ct_attempts (fl_state fl)) + k) m"

lemma adds_keeps: "keeps_state m \<Longrightarrow> adds_attempts nt q 0 m"
  by (simp add: adds_attempts_def obeys_def keeps_state_def of_request_def)

lemma adds_then:
  assumes "adds_attempts nt q k m" and "\<And>x. adds_attempts nt q n (f x)"
  shows "adds_attempts nt q (k + n) (do_then m f)"
  unfolding adds_attempts_def obeys_def
proof (intro allI impI)
  fix fl :: "'a Flow"
  assume fl: "of_request nt q fl"
  obtain v fl1 where m: "m fl = (v, fl1)" by fastforce
  note 1 = obeysD[OF assms(1)[unfolded adds_attempts_def] fl m]
  show "length (ct_attempts (fl_state (snd (do_then m f fl)))) \<le> length (ct_attempts (fl_state fl)) + (k + n) \<and>
    of_request nt q (snd (do_then m f fl))"
  proof (cases v)
    case (Inr x)
    obtain v' fl2 where f: "f x fl1 = (v', fl2)" by fastforce
    show ?thesis
      using obeysD[OF assms(2)[unfolded adds_attempts_def] conjunct2[OF 1] f] 1 m f Inr by (simp add: do_then_def)
  qed (use 1 m in \<open>simp add: do_then_def\<close>)
qed

lemma adds_transition:
  "adds_attempts (se_nt (ee_store env)) q 1
     (transition_to env status event_type reason (\<lambda>s. s\<lparr>ct_attempts := ct_attempts s @ [running]\<rparr>))"
  unfolding adds_attempts_def obeys_def
proof (intro allI impI)
  fix fl :: "'a Flow"
  let ?t = "transition_to env status event_type reason (\<lambda>s. s\<lparr>ct_attempts := ct_attempts s @ [running]\<rparr>)"
  assume fl: "of_request (se_nt (ee_store env)) q fl"
  obtain v fl' where m: "?t fl = (v, fl')" by fastforce
  from m always_true(1,2) always_true(3)[of "ee_now env"]
  show "length (ct_attempts (fl_state (snd (?t fl)))) \<le> length (ct_attempts (fl_state fl)) + 1 \<and>
    of_request (se_nt (ee_store env)) q (snd (?t fl))"
  proof (cases rule: transition_toE)
    case (1 w e)
    then show ?thesis using fl m by (simp add: of_request_def)
  next
    case (2 w cand recorded db ver)
    then obtain now where c: "validate_CodingTaskStateV1 (se_nt (ee_store env))
        ((fl_state fl)\<lparr>ct_attempts := ct_attempts (fl_state fl) @ [running], ct_status := status, ct_updated_at := now\<rparr>) = Some cand"
      by auto
    show ?thesis using fl m 2(1) candidate_fields[OF c] by (simp add: of_request_def)
  qed
qed

lemma adds_start: "adds_attempts (se_nt (ee_store env)) q 1 (start_attempt env rn index)"
proof -
  have tail: "keeps_state (do_then the_state (\<lambda>state.
     do_then (if cq_mode (ct_request state) = CM_READ_ONLY
         then do_then (outside (ee_fingerprint env)) (\<lambda>f. give (Some f)) else give None) (\<lambda>fingerprint.
     give (running, fingerprint))))" for running :: CodingAttemptV1
    by (simp add: keeps_basic keeps_then)
  have "adds_attempts (se_nt (ee_store env)) q (0 + (0 + (0 + (1 + 0)))) (start_attempt env rn index)"
    unfolding start_attempt_def by (intro adds_then adds_transition adds_keeps[OF tail] adds_keeps keeps_rules keeps_basic)
  then show ?thesis by simp
qed

lemma adds_round:
  assumes "rn_pre_check rn = None"
  shows "adds_attempts (se_nt (ee_store env)) q 1 (attempt_round env rn another index)"
  unfolding adds_attempts_def obeys_def
proof (intro allI impI)
  fix fl :: "'a Flow"
  let ?nt = "se_nt (ee_store env)"
  assume fl: "of_request ?nt q fl"
  obtain v fl1 where m: "start_attempt env rn index fl = (v, fl1)" by fastforce
  note 1 = obeysD[OF adds_start[unfolded adds_attempts_def] fl m]
  have fits: "attempt_count.fits env q rn" using assms by (simp add: attempt_count.fits_def)
  show "length (ct_attempts (fl_state (snd (attempt_round env rn another index fl)))) \<le>
      length (ct_attempts (fl_state fl)) + 1 \<and> of_request ?nt q (snd (attempt_round env rn another index fl))"
  proof (cases v)
    case (Inr x)
    obtain running fingerprint where x: "x = (running, fingerprint)" by fastforce
    obtain v' fl2 where f: "do_onward (execute_phase env rn another running) (\<lambda>execution.
     do_onward (verify_phase env rn another index running execution) (\<lambda>ev.
     do_onward (capture_phase env) (\<lambda>captured.
     do_onward (review_phase env rn fingerprint running ev captured) (\<lambda>reviewed.
     judge env rn another running ev reviewed)))) fl1 = (v', fl2)" by fastforce
    show ?thesis
      using obeysD[OF attempt_count.obeys_round_after_start[OF fits] conjunct2[OF 1] f] 1 m f Inr x
      by (auto simp: attempt_round_def do_then_def attempts_grow_def le_max_iff_disj)
  qed (use 1 m in \<open>simp add: attempt_round_def do_then_def\<close>)
qed

text \<open>\<open>n\<close> passes of the loop add at most \<open>n\<close> attempts.\<close>

lemma adds_rounds:
  assumes "rn_pre_check rn = None"
  shows "adds_attempts (se_nt (ee_store env)) q n (attempt_rounds env rn n index)"
proof (induction n arbitrary: index)
  case (Suc n)
  have "adds_attempts (se_nt (ee_store env)) q (1 + n) (attempt_rounds env rn (Suc n) index)"
    unfolding attempt_rounds.simps
  proof (rule adds_then[OF adds_round[OF assms]])
    fix x :: "unit Phase"
    have stop: "adds_attempts (se_nt (ee_store env)) q n (give r)" for r :: CodingTaskResultV1
      by (simp add: adds_attempts_def obeys_def give_def)
    show "adds_attempts (se_nt (ee_store env)) q n
       (case x of Finished result \<Rightarrow> give result | _ \<Rightarrow> attempt_rounds env rn n (Suc index))"
      using Suc.IH stop by (cases x) simp_all
  qed
  then show ?case by simp
qed (simp add: adds_keeps keeps_basic)

lemma adds_flow:
  assumes "rn_pre_check rn = None"
  shows "adds_attempts (se_nt (ee_store env)) q n (execute_flow env rn n)"
proof -
  have "keeps_state begin_flow" by (simp add: keeps_state_def begin_flow_def)
  then have "adds_attempts (se_nt (ee_store env)) q (0 + n) (execute_flow env rn n)"
    unfolding execute_flow_def by (intro adds_then adds_keeps adds_rounds assms)
  then show ?thesis by simp
qed

end
