(* ===== verification/EngineEnds.thy ===== *)
theory EngineEnds
  imports EngineSafety
begin

text \<open>
  How flows of the coding engine end: a result that is returned is the state that was stored last, and the
  last attempt of the loop decides.
\<close>

section \<open>Results are stored\<close>

definition resting_status :: "CodingTaskStatus \<Rightarrow> bool" where
  "resting_status s \<longleftrightarrow> s \<in> {COMPLETED, BLOCKED, CANCELLED, HANDOFF_READY}"

text \<open>The row of the task holds the state of the flow.\<close>

definition stored_as :: "CodingTaskStatus \<Rightarrow> 'w Flow \<Rightarrow> bool" where
  "stored_as status fl \<longleftrightarrow> ct_status (fl_state fl) = status \<and>
     (\<exists>row. select tr_task_id (cq_task_id (ct_request (fl_state fl))) (db_tasks (fl_db fl)) = Some row \<and>
        tr_json row = fl_state fl \<and> tr_status row = status)"

definition ended :: "CodingTaskResultV1 \<Rightarrow> 'w Flow \<Rightarrow> bool" where
  "ended result fl \<longleftrightarrow> resting_status (cs_status result) \<and> stored_as (cs_status result) fl \<and>
     cs_attempts result = int (length (ct_attempts (fl_state fl))) \<and>
     cs_task_id result = cq_task_id (ct_request (fl_state fl))"

definition phase_ended :: "'a Phase \<Rightarrow> 'w Flow \<Rightarrow> bool" where
  "phase_ended p fl \<longleftrightarrow> (case p of Finished result \<Rightarrow> ended result fl | _ \<Rightarrow> True)"

lemma transition_stores: "returns (transition_to env status event_type reason u) (\<lambda>_ fl. stored_as status fl)"
  unfolding returns_def
proof (intro allI impI)
  fix fl :: "'a Flow" and v fl'
  assume "transition_to env status event_type reason u fl = (Inr v, fl')"
  from this always_true(1,2) always_true(3)[of "ee_now env"]
  show "stored_as status fl'"
  proof (cases rule: transition_toE)
    case (2 w cand recorded db ver)
    from 2(4) have s: "ct_status cand = status" by (auto dest: candidate_fields(2))
    from 2(5) obtain row where row: "select tr_task_id (cq_task_id (ct_request cand)) (db_tasks (fl_db fl)) = Some row"
      and db: "db_tasks db = fst (cas_update tr_task_id tr_version set_task_row (cq_task_id (ct_request cand))
         (tr_version row) (cand, se_state_digest (ee_store env) cand) (db_tasks (fl_db fl)))"
      by (elim transition_taskE) simp
    show ?thesis
      using 2(1) s task_rows.select_updated[OF row refl] by (simp add: stored_as_def db set_task_row_def)
  qed simp
qed

lemma result_ends:
  assumes "stored_as status fl" "resting_status status" "result_with env summary path fl = (Inr result, fl')"
  shows "ended result fl'"
proof -
  have r: "validate_CodingTaskResultV1 (result_of env (fl_state fl) summary path) = Some result" and fl: "fl' = fl"
    using assms(3) by (auto simp: result_with_def do_then_def the_state_def do_some_def give_def raises_def split: option.splits)
  have "cs_status result = ct_status (fl_state fl)" "cs_attempts result = int (length (ct_attempts (fl_state fl)))"
    "cs_task_id result = cq_task_id (ct_request (fl_state fl))"
    using r by (auto simp: validate_CodingTaskResultV1_def result_of_def bind_eq_Some_conv Let_def bounded_int_def split: if_splits)
  then show ?thesis using assms(1,2) fl by (simp add: ended_def stored_as_def)
qed

lemma returns_after:
  assumes "returns m (\<lambda>_ fl. P fl)" and "\<And>x fl r fl'. P fl \<Longrightarrow> f x fl = (Inr r, fl') \<Longrightarrow> Q r fl'"
  shows "returns (do_then m f) Q"
  using assms by (fastforce simp: returns_def do_then_def split: prod.splits sum.splits)

lemma transition_ends:
  assumes "resting_status status"
  shows "returns (do_then (transition_to env status event_type reason u) (\<lambda>_. result_with env summary path)) ended"
  by (rule returns_after[OF transition_stores]) (rule result_ends[OF _ assms])

lemma returns_finished: "returns m ended \<Longrightarrow> returns (finished m) phase_ended"
  by (fastforce simp: returns_def finished_def do_then_def give_def phase_ended_def split: prod.splits sum.splits)

lemma transition_finishes:
  assumes "resting_status status"
  shows "returns (do_then (transition_to env status event_type reason u) (\<lambda>_. finished (result_with env summary path))) phase_ended"
proof (rule returns_after[OF transition_stores])
  fix x r and fl fl' :: "'a Flow"
  assume s: "stored_as status fl" and f: "finished (result_with env summary path) fl = (Inr r, fl')"
  from f obtain result where "result_with env summary path fl = (Inr result, fl')" "r = Finished result"
    by (auto simp: finished_def do_then_def give_def split: prod.splits sum.splits)
  then show "phase_ended r fl'" using result_ends[OF s assms] by (simp add: phase_ended_def)
qed

lemma returns_in_call: "returns m Q \<Longrightarrow> returns (in_call m) Q"
  by (auto simp: returns_def in_call_def split: prod.splits sum.splits)

lemma returns_give_phase [returns_intro]: "returns (give Again) phase_ended" "returns (give (Onward x)) phase_ended"
  by (simp_all add: returns_def give_def phase_ended_def)

lemma returns_onward:
  assumes "returns m phase_ended" and "\<And>x. returns (f x) phase_ended"
  shows "returns (do_onward m f) phase_ended"
  unfolding returns_def
proof (intro allI impI)
  fix fl :: "'a Flow" and r fl'
  assume "do_onward m f fl = (Inr r, fl')"
  then obtain p fl1 where m: "m fl = (Inr p, fl1)" and
    rest: "(case p of Onward x \<Rightarrow> f x | Again \<Rightarrow> give Again | Finished r \<Rightarrow> give (Finished r)) fl1 = (Inr r, fl')"
    by (auto simp: do_onward_def do_then_def split: prod.splits sum.splits)
  have p: "phase_ended p fl1" using assms(1) m unfolding returns_def by blast
  show "phase_ended r fl'"
  proof (cases p)
    case (Onward x)
    then show ?thesis using rest assms(2) by (auto simp: returns_def)
  next
    case Again
    then show ?thesis using rest by (auto simp: give_def phase_ended_def)
  next
    case (Finished result)
    then show ?thesis using rest p by (auto simp: give_def phase_ended_def)
  qed
qed

section \<open>The phases\<close>

lemma resting [simp]: "resting_status COMPLETED" "resting_status BLOCKED" "resting_status CANCELLED" "resting_status HANDOFF_READY"
  by (simp_all add: resting_status_def)

lemma handoff_ends: "returns (handoff env message) ended"
  unfolding handoff_def prepare_handoff_def
  by (intro returns_then) (auto intro!: returns_then returns_prod transition_ends split: sum.split)

lemma stop_ends: "returns (stop_or_retry env rn another message event_type reason summary) phase_ended"
  unfolding stop_or_retry_def
  by (rule returns_then)
    (auto intro!: returns_if returns_give_phase returns_finished returns_in_call handoff_ends transition_finishes)

lemma record_failure_ends:
  "returns (do_then (record_executor_failure env status event_type message terminal u) (\<lambda>_.
     if status = AT_CANCELLED then finished (result_with env summary path) else stop_or_retry env rn another m e r t)) phase_ended"
proof (cases "status = AT_CANCELLED")
  case True
  have "returns (record_executor_failure env AT_CANCELLED event_type message terminal u) (\<lambda>_ fl. stored_as CANCELLED fl)"
    unfolding record_executor_failure_def by (intro returns_then) (simp, rule transition_stores)
  then show ?thesis
    unfolding True
  proof (simp, elim returns_after)
    fix x r' and fl fl' :: "'a Flow"
    assume s: "stored_as CANCELLED fl" and f: "finished (result_with env summary path) fl = (Inr r', fl')"
    from f obtain result where "result_with env summary path fl = (Inr result, fl')" "r' = Finished result"
      by (auto simp: finished_def do_then_def give_def split: prod.splits sum.splits)
    then show "phase_ended r' fl'" using result_ends[OF s] by (simp add: phase_ended_def)
  qed
qed (auto intro!: returns_then stop_ends)

lemma execute_ends: "returns (execute_phase env rn another running) phase_ended"
proof -
  have body: "returns (execute_body env rn another running) phase_ended"
    unfolding execute_body_def expand_rules_def Let_def
    by (intro returns_then returns_if) (auto intro!: returns_then stop_ends returns_give_phase)
  have failed: "returns (executor_failed env rn another running message artifact) phase_ended" for message artifact
    unfolding executor_failed_def Let_def by (intro returns_then record_failure_ends)
  have changed: "returns (revalidation_failed env running message) phase_ended" for message
    unfolding revalidation_failed_def by (intro returns_then returns_raises)
  show ?thesis
    unfolding execute_phase_def
    by (rule returns_try[OF body]) (auto intro!: failed changed returns_then returns_raises split: EngineError.split)
qed

lemma verify_ends: "returns (verify_phase env rn another index running execution) phase_ended"
  unfolding verify_phase_def verification_rejected_def Let_def
  by (intro returns_then returns_prod returns_if record_failure_ends returns_give_phase)

lemma capture_ends: "returns (capture_phase env) phase_ended"
  unfolding capture_phase_def
  by (intro returns_then returns_option transition_finishes resting returns_give_phase)

lemma review_ends: "returns (review_phase env rn fingerprint running ev captured) phase_ended"
proof -
  have cancelled: "returns (review_cancelled env running results message artifact) phase_ended" for results message artifact
    unfolding review_cancelled_def by (intro returns_then transition_finishes resting)
  have raised: "returns (review_raised env running results e) phase_ended" for results e
    unfolding review_raised_def
    by (auto intro!: returns_then returns_if cancelled returns_raises split: EngineError.split)
  show ?thesis
    unfolding review_phase_def
    by (intro returns_prod returns_then returns_onward returns_try raised returns_give_phase)
qed

lemma complete_ends: "returns (complete_task env rn running ev r) ended"
proof -
  have last: "returns (do_then (transition_to env COMPLETED event_type reason u) (\<lambda>_.
     do_then last_summary (\<lambda>summary. result_with env summary None))) ended" for event_type reason u
  proof (rule returns_after[OF transition_stores])
    fix x r' and fl fl' :: "'a Flow"
    assume "stored_as COMPLETED fl" and "do_then last_summary (\<lambda>summary. result_with env summary None) fl = (Inr r', fl')"
    then show "ended r' fl'" using result_ends[of COMPLETED fl] by (simp add: do_then_def last_summary_def)
  qed
  show ?thesis unfolding complete_task_def by (intro returns_then last)
qed

lemma judge_ends: "returns (judge env rn another running ev r) phase_ended"
  unfolding judge_def review_rejected_def Let_def
  by (intro returns_then returns_if stop_ends returns_finished complete_ends)

lemma round_ends: "returns (attempt_round env rn another index) phase_ended"
  unfolding attempt_round_def
  by (intro returns_then returns_prod returns_onward execute_ends verify_ends capture_ends review_ends judge_ends)

lemma rounds_end: "returns (attempt_rounds env rn n index) ended"
proof (induction n arbitrary: index)
  case (Suc n)
  show ?case
    unfolding attempt_rounds.simps returns_def
  proof (intro allI impI)
    fix fl :: "'a Flow" and r fl'
    assume "do_then (attempt_round env rn (0 < n) index)
        (\<lambda>p. case p of Finished result \<Rightarrow> give result | _ \<Rightarrow> attempt_rounds env rn n (Suc index)) fl = (Inr r, fl')"
    then obtain p fl1 where m: "attempt_round env rn (0 < n) index fl = (Inr p, fl1)"
      and rest: "(case p of Finished result \<Rightarrow> give result | _ \<Rightarrow> attempt_rounds env rn n (Suc index)) fl1 = (Inr r, fl')"
      by (auto simp: do_then_def split: prod.splits sum.splits)
    have "phase_ended p fl1" using round_ends m unfolding returns_def by blast
    then show "ended r fl'"
      using rest Suc.IH by (cases p) (auto simp: phase_ended_def give_def returns_def)
  qed
qed (simp add: returns_raises)

lemma flow_ends: "returns (execute_flow env rn n) ended"
  unfolding execute_flow_def by (intro returns_then rounds_end)

section \<open>The last attempt decides\<close>

definition not_again :: "'a Phase \<Rightarrow> 'w Flow \<Rightarrow> bool" where
  "not_again p fl \<longleftrightarrow> p \<noteq> Again"

definition is_finished :: "'a Phase \<Rightarrow> 'w Flow \<Rightarrow> bool" where
  "is_finished p fl \<longleftrightarrow> (\<exists>r. p = Finished r)"

lemma finished_returns: "returns (finished m) is_finished"
  by (auto simp: returns_def finished_def do_then_def give_def is_finished_def split: prod.splits sum.splits)

lemma finished_not_again: "returns m is_finished \<Longrightarrow> returns m not_again"
  by (auto simp: returns_def is_finished_def not_again_def)

lemma onward_not_again [returns_intro]: "returns (give (Onward x)) not_again"
  by (simp add: returns_def give_def not_again_def)

lemma onward_decides:
  assumes "returns m not_again" and "\<And>x. returns (f x) is_finished"
  shows "returns (do_onward m f) is_finished"
  unfolding returns_def
proof (intro allI impI)
  fix fl :: "'a Flow" and r fl'
  assume "do_onward m f fl = (Inr r, fl')"
  then obtain p fl1 where m: "m fl = (Inr p, fl1)" and
    rest: "(case p of Onward x \<Rightarrow> f x | Again \<Rightarrow> give Again | Finished r \<Rightarrow> give (Finished r)) fl1 = (Inr r, fl')"
    by (auto simp: do_onward_def do_then_def split: prod.splits sum.splits)
  have "p \<noteq> Again" using assms(1) m unfolding returns_def not_again_def by blast
  moreover have "is_finished r fl'" if "f x fl1 = (Inr r, fl')" for x
    using assms(2)[of x] that unfolding returns_def by blast
  ultimately show "is_finished r fl'"
    using rest by (cases p) (auto simp: give_def is_finished_def[of "Finished _"])
qed

lemma onward_not_again_either:
  assumes "returns m not_again" and "\<And>x. returns (f x) not_again"
  shows "returns (do_onward m f) not_again"
  unfolding returns_def
proof (intro allI impI)
  fix fl :: "'a Flow" and r fl'
  assume "do_onward m f fl = (Inr r, fl')"
  then obtain p fl1 where m: "m fl = (Inr p, fl1)" and
    rest: "(case p of Onward x \<Rightarrow> f x | Again \<Rightarrow> give Again | Finished r \<Rightarrow> give (Finished r)) fl1 = (Inr r, fl')"
    by (auto simp: do_onward_def do_then_def split: prod.splits sum.splits)
  have "p \<noteq> Again" using assms(1) m unfolding returns_def not_again_def by blast
  then show "not_again r fl'"
    using rest assms(2) by (cases p) (auto simp: returns_def give_def not_again_def)
qed

lemma last_stop: "returns (stop_or_retry env rn False message event_type reason summary) is_finished"
  unfolding stop_or_retry_def by (auto intro!: returns_then returns_if finished_returns)

lemma last_failure:
  "returns (if status = AT_CANCELLED then finished (result_with env summary path)
     else stop_or_retry env rn False m e r t) is_finished"
  by (intro returns_if finished_returns last_stop)

lemma last_execute: "returns (execute_phase env rn False running) not_again"
proof -
  have body: "returns (execute_body env rn False running) not_again"
    unfolding execute_body_def expand_rules_def Let_def
    by (intro returns_then returns_if onward_not_again finished_not_again[OF last_stop])
  have failed: "returns (executor_failed env rn False running message artifact) not_again" for message artifact
    unfolding executor_failed_def Let_def by (intro returns_then finished_not_again[OF last_failure])
  have changed: "returns (revalidation_failed env running message) not_again" for message
    unfolding revalidation_failed_def by (intro returns_then returns_raises)
  show ?thesis
    unfolding execute_phase_def
    by (rule returns_try[OF body]) (auto intro!: failed changed returns_then returns_raises split: EngineError.split)
qed

lemma last_verify: "returns (verify_phase env rn False index running execution) not_again"
  unfolding verify_phase_def verification_rejected_def Let_def
  by (intro returns_then returns_prod returns_if[of _ "do_then _ _"] onward_not_again finished_not_again[OF last_failure])

lemma capture_not_again: "returns (capture_phase env) not_again"
  unfolding capture_phase_def
  by (intro returns_then returns_option onward_not_again finished_not_again[OF finished_returns])

lemma review_not_again: "returns (review_phase env rn fingerprint running ev captured) not_again"
proof -
  have cancelled: "returns (review_cancelled env running results message artifact) not_again" for results message artifact
    unfolding review_cancelled_def by (intro returns_then finished_not_again[OF finished_returns])
  have raised: "returns (review_raised env running results e) not_again" for results e
    unfolding review_raised_def
    by (auto intro!: returns_then returns_if cancelled returns_raises split: EngineError.split)
  show ?thesis
    unfolding review_phase_def
    by (intro returns_prod returns_then onward_not_again_either returns_try raised onward_not_again)
qed

lemma last_judge: "returns (judge env rn False running ev r) is_finished"
proof -
  have rejected: "returns (stop_or_retry env rn (False \<and> b) message event_type reason summary) is_finished"
    for b message event_type reason summary
    using last_stop by simp
  show ?thesis
    unfolding judge_def review_rejected_def Let_def
    by (intro returns_then returns_if rejected finished_returns)
qed

lemma last_round: "returns (attempt_round env rn False index) is_finished"
  unfolding attempt_round_def
  by (intro returns_then returns_prod onward_decides last_execute last_verify capture_not_again review_not_again last_judge)

end
