(* ===== verification/EngineProperties.thy ===== *)
theory EngineProperties
  imports EngineEnds
begin

text \<open>
  What a run of the coding engine guarantees as a whole: it extends the store by valid steps, leaves other
  tasks alone, returns what it stored, makes a bounded number of attempts, and asks Git and the executors
  only what the permissions of the request allow.
\<close>

section \<open>The parts of a run\<close>

lemma then_outside_confined:
  assumes "transp G" "confined G act" "\<And>x. confined G (f x)"
  shows "confined G (then_outside act f)"
  unfolding confined_def
proof
  fix w
  obtain v w1 where a: "act w = (v, w1)" by fastforce
  have 1: "G w w1" using assms(2) a unfolding confined_def by (metis snd_conv)
  show "G w (snd (then_outside act f w))"
  proof (cases v)
    case (Inr x)
    have "G w1 (snd (f x w1))" using assms(3) unfolding confined_def by blast
    then show ?thesis using 1 a Inr assms(1) by (auto simp: then_outside_def dest: transpD)
  qed (use 1 a in \<open>simp add: then_outside_def\<close>)
qed

lemma preflight_confined:
  assumes "reflp G" "transp G" "surroundings_confined G git_ok exec_ok (sv_task sv)" "services_confined G sv"
  shows "confined G (preflight sv request)"
proof -
  have stop: "confined G (fails e)" for e :: EngineError
    using assms(1) by (simp add: confined_def fails_def reflp_def)
  have checked: "confined G (\<lambda>w. case sv_check_capabilities sv source request w of
       (Inl message, w') \<Rightarrow> fails (CodingEngineError (m @ message)) w' | (Inr _, w') \<Rightarrow> (Inr source, w'))" for source m
    using assms(4) unfolding confined_def services_confined_def
    by (auto simp: fails_def split: prod.splits sum.splits) (metis snd_conv)+
  show ?thesis
    using assms(3) unfolding preflight_def surroundings_confined_def
    by (auto intro!: then_outside_confined[OF assms(2)] stop checked split: option.split)
qed

text \<open>A run refuses before there is a task, or creates it and runs its flow.\<close>

lemma create_and_runE:
  assumes "create_and_run sv request source db w = (v, db', w')" "transp G" "confined G (ee_now (sv_task sv))"
  obtains e where "v = Inl e" "db' = db" "G w w'"
  | state now recorded db1 w1 fl where
      "validate_CodingTaskStateV1 (se_nt (ee_store (sv_task sv))) (initial_state request source now) = Some state"
      "create_task (ee_store (sv_task sv)) recorded state db = Inr (db1, 1)" "G w w1"
      "run_task sv (flow_from db1 w1 source state 1) = (v, fl)" "db' = fl_db fl" "w' = fl_world fl"
proof -
  obtain now w3 where n: "ee_now (sv_task sv) w = (now, w3)" by fastforce
  obtain recorded w4 where r: "ee_now (sv_task sv) w3 = (recorded, w4)" by fastforce
  have g3: "G w w3" using assms(3) n unfolding confined_def by (metis snd_conv)
  have g4: "G w w4" using assms(3) r transpD[OF assms(2) g3] unfolding confined_def by (metis snd_conv)
  show thesis
  proof (cases "validate_CodingTaskStateV1 (se_nt (ee_store (sv_task sv))) (initial_state request source now)")
    case None
    then show thesis using that(1) assms(1) n g3 by (auto simp: create_and_run_def)
  next
    case (Some state)
    show thesis
    proof (cases "create_task (ee_store (sv_task sv)) recorded state db")
      case (Inl e)
      then show thesis using that(1) assms(1) n r g4 Some by (auto simp: create_and_run_def)
    next
      case (Inr d)
      obtain db1 ver where d: "d = (db1, ver)" by fastforce
      have ver: "ver = 1" using Inr d by (auto elim: create_taskE)
      obtain out fl where t: "run_task sv (flow_from db1 w4 source state 1) = (out, fl)" by fastforce
      have "out = v" "db' = fl_db fl" "w' = fl_world fl"
        using assms(1) n r Some Inr d ver t by (auto simp: create_and_run_def outcome_of_def)
      then show thesis using that(2)[OF Some _ g4] Inr d ver t by simp
    qed
  qed
qed

lemma run_implE:
  assumes "run_impl sv request db w = (v, db', w')"
    and "reflp G" "transp G" "surroundings_confined G git_ok exec_ok (sv_task sv)" "services_confined G sv"
  obtains e where "v = Inl e" "db' = db" "G w w'"
  | state source now recorded db1 w1 fl where
      "validate_CodingTaskStateV1 (se_nt (ee_store (sv_task sv))) (initial_state request source now) = Some state"
      "create_task (ee_store (sv_task sv)) recorded state db = Inr (db1, 1)" "G w w1"
      "run_task sv (flow_from db1 w1 source state 1) = (v, fl)" "db' = fl_db fl" "w' = fl_world fl"
proof -
  obtain p w1 where p: "preflight sv request w = (p, w1)" by fastforce
  have g1: "G w w1" using preflight_confined[OF assms(2-5)] p unfolding confined_def by (metis snd_conv)
  obtain a w2 where a: "sv_open_artifacts sv (cq_task_id request) w1 = (a, w2)" by fastforce
  have g2: "G w w2" using assms(5) a transpD[OF assms(3) g1] unfolding services_confined_def confined_def
    by (metis snd_conv)
  have c: "confined G (ee_now (sv_task sv))" using assms(4) by (simp add: surroundings_confined_def)
  show thesis
  proof (cases "\<exists>source u. p = Inr source \<and> a = Inr u")
    case True
    then obtain source u where pa: "p = Inr source" "a = Inr u" by blast
    have run: "create_and_run sv request source db w2 = (v, db', w')" using assms(1) p a pa by (simp add: run_impl_def)
    from run assms(3) c show thesis
      by (cases rule: create_and_runE) (use that g2 in \<open>auto dest: transpD[OF assms(3)]\<close>)
  next
    case False
    then show thesis using that(1) assms(1) p a g1 g2
      by (cases p; cases a) (auto simp: run_impl_def)
  qed
qed

lemma state_request:
  assumes "validate_CodingTaskStateV1 nt raw = Some state"
  shows "of_request nt (ct_request state) (flow_from db w source state version)"
    and "cq_task_id (ct_request state) = cq_task_id (ct_request raw)"
    and "cq_permissions (ct_request state) = cq_permissions (ct_request raw)"
proof -
  have v: "validate_CodingTaskRequestV1 nt (ct_request raw) = Some (ct_request state)" by (rule candidate_fields(1)[OF assms])
  then show "of_request nt (ct_request state) (flow_from db w source state version)"
    using validate_CodingTaskRequestV1_idem by (auto simp: of_request_def flow_from_def)
  show "cq_permissions (ct_request state) = cq_permissions (ct_request raw)"
    using v unfolding validate_CodingTaskRequestV1_def validate_CodingPermissionsV1_def
    by (auto simp: bind_eq_Some_conv Let_def require_def split: if_splits)
  show "cq_task_id (ct_request state) = cq_task_id (ct_request raw)"
    using v unfolding validate_CodingTaskRequestV1_def by (auto simp: bind_eq_Some_conv Let_def split: if_splits)
qed

text \<open>Settling a failed run either changes nothing or is one flow on the loaded state.\<close>

lemma settle_failureE:
  assumes "settle_failure sv task e db w = (db', w')"
  obtains "db' = db" "w' = w"
  | latest version fl r where "load_task (ee_store (sv_task sv)) db task = Inr (Some latest)"
      "of_request (se_nt (ee_store (sv_task sv))) (ct_request latest) (flow_from db w blank_source latest version)"
      "record_unexpected_failure (sv_task sv) (sv_error_text sv e) (flow_from db w blank_source latest version) = (r, fl)"
      "db' = fl_db fl" "w' = fl_world fl"
proof (cases "load_task (ee_store (sv_task sv)) db task")
  case (Inl e)
  then show thesis using that(1) assms by (simp add: settle_failure_def)
next
  case (Inr loaded)
  show thesis
  proof (cases "loaded = None \<or> (\<exists>e. task_version db task = Inl e) \<or> ct_status (the loaded) \<in> {COMPLETED, FAILED, CANCELLED}")
    case True
    then show thesis using that(1) assms Inr
      by (cases loaded; cases "task_version db task") (auto simp: settle_failure_def)
  next
    case False
    then obtain latest version where l: "loaded = Some latest" "task_version db task = Inr version"
      by (cases loaded; cases "task_version db task") auto
    obtain r fl where m: "record_unexpected_failure (sv_task sv) (sv_error_text sv e)
        (flow_from db w blank_source latest version) = (r, fl)" by fastforce
    obtain raw where "validate_CodingTaskStateV1 (se_nt (ee_store (sv_task sv))) raw = Some latest"
      using Inr l(1) by (auto simp: load_task_def load_state_json_def split: option.splits sum.splits if_splits)
    then have q: "of_request (se_nt (ee_store (sv_task sv))) (ct_request latest) (flow_from db w blank_source latest version)"
      by (rule state_request(1))
    have "db' = fl_db fl" "w' = fl_world fl"
      using assms Inr l m False by (auto simp: settle_failure_def)
    then show thesis using that(2)[OF _ q m] Inr l(1) by simp
  qed
qed

lemma runE:
  assumes "run sv request db w = (v, db', w')"
  obtains result where "run_impl sv request db w = (Inr result, db', w')" "v = Inr result"
  | e db1 w1 where "run_impl sv request db w = (Inl e, db1, w1)" "v = Inl e"
      "settle_failure sv (cq_task_id request) e db1 w1 = (db', w')"
proof -
  obtain v1 db1 w1 where r: "run_impl sv request db w = (v1, db1, w1)" by (metis prod_cases3)
  show thesis using assms that r by (cases v1) (auto simp: run_def)
qed

section \<open>The store\<close>

lemma run_impl_steps:
  assumes "records_valid sv" and "run_impl sv request db w = (v, db', w')"
  shows "store_steps (ee_store (sv_task sv)) db db'"
  using assms(2) always_true(1,2) no_condition(1,2)
proof (cases rule: run_implE)
  case (1 e)
  then show ?thesis by (simp add: store_steps_def)
next
  case (2 state source now recorded db1 w1 fl)
  have "validate_CodingTaskStateV1 (se_nt (ee_store (sv_task sv))) state = Some state"
    using 2(1) validate_CodingTaskStateV1_idem by blast
  then have "store_steps (ee_store (sv_task sv)) db db1"
    using 2(2) one_step[of "ee_store (sv_task sv)" "CreateTask recorded state"] by simp
  moreover have "store_steps (ee_store (sv_task sv)) db1 (fl_db fl)"
    using obeysD[OF task_guarantee.obeys_task[OF store_guarantee[OF assms(1)]] state_request(1)[OF 2(1)] 2(4)]
    by (simp add: database_steps_def flow_from_def)
  ultimately show ?thesis using 2(5) by (simp add: store_steps_def)
qed

lemma settle_steps:
  assumes "records_valid sv" and "settle_failure sv task e db w = (db', w')"
  shows "store_steps (ee_store (sv_task sv)) db db'"
  using assms(2)
proof (cases rule: settle_failureE)
  case (2 latest version fl r)
  have g: "engine_guarantee (sv_task sv) (se_nt (ee_store (sv_task sv))) (ct_request latest) (\<lambda>_ _. True)
      (database_steps (ee_store (sv_task sv))) (\<lambda>_. True) (\<lambda>_. True) valid_record"
    using store_guarantee[OF assms(1)] by (simp add: task_guarantee_def flow_guarantee_def)
  show ?thesis
    using obeysD[OF engine_guarantee.obeys_unexpected[OF g] 2(2,3)] 2(4) by (simp add: database_steps_def flow_from_def)
qed (simp add: store_steps_def)

text \<open>
  C2: everything a run writes to the database, from the creation of the task to the repair after an
  exception, is a sequence of valid operations of the task store, so that all that is shown of the
  reachable stores holds while and after the engine runs. The records of the worktree registry are instances
  of their contract.
\<close>

theorem runs_are_steps_of_the_store:
  assumes "records_valid sv"
  shows "store_steps (ee_store (sv_task sv)) db (fst (snd (run sv request db w)))"
proof -
  obtain v db' w' where r: "run sv request db w = (v, db', w')" by (metis prod_cases3)
  from r show ?thesis
  proof (cases rule: runE)
    case (1 result)
    then show ?thesis using run_impl_steps[OF assms] r by simp
  next
    case (2 e db1 w1)
    then show ?thesis
      using run_impl_steps[OF assms 2(1)] settle_steps[OF assms 2(3)] r by (simp add: store_steps_def)
  qed
qed

section \<open>Results\<close>

lemma task_ends: "returns (run_task sv) ended"
proof -
  have leased: "returns (leased_task sv) ended"
    unfolding leased_task_def Let_def by (intro returns_then returns_if handoff_ends flow_ends)
  have "returns (with_lease sv r (leased_task sv)) ended" for r
    unfolding with_lease_def
  proof (rule returns_then, unfold returns_def, intro allI impI)
    fix fl :: "'a Flow" and x result fl'
    assume "(case leased_task sv fl of (outcome, fl') \<Rightarrow> case outside (sv_release_lease sv) fl' of
      (Inl e, fl'') \<Rightarrow> (Inl e, fl'') | (Inr _, fl'') \<Rightarrow> (outcome, fl'')) = (Inr result, fl')"
    then obtain fl1 w where "leased_task sv fl = (Inr result, fl1)" "fl' = fl1\<lparr>fl_world := w\<rparr>"
      by (auto simp: outside_def split: prod.splits sum.splits)
    then show "ended result fl'" using leased by (fastforce simp: returns_def ended_def stored_as_def)
  qed
  then show ?thesis unfolding run_task_def by (intro returns_then)
qed

text \<open>
  C7: a run that returns has brought the task to rest and returns what is stored: the row of the task has the
  status of the result, which is completed, blocked, cancelled or ready for handoff.
\<close>

theorem returned_results_are_stored:
  "case run sv request db w of
     (Inr result, db', w') \<Rightarrow>
       cs_task_id result = cq_task_id request \<and> resting_status (cs_status result) \<and>
       map_option tr_status (select tr_task_id (cq_task_id request) (db_tasks db')) = Some (cs_status result)
   | _ \<Rightarrow> True"
proof (cases "run sv request db w")
  case (fields v db' w')
  show ?thesis
  proof (cases v)
    case (Inr result)
    from fields have "run_impl sv request db w = (Inr result, db', w')"
      by (cases rule: runE) (use Inr in auto)
    from this always_true(1,2) no_condition(1,2) show ?thesis
    proof (cases rule: run_implE)
      case (2 state source now recorded db1 w1 fl)
      have "ended result fl" using task_ends 2(4) unfolding returns_def by blast
      moreover have "ct_request (fl_state fl) = ct_request state"
        using obeysD[OF other_tasks.obeys_task state_request(1)[OF 2(1)] 2(4)] by (simp add: of_request_def)
      moreover have "cq_task_id (ct_request state) = cq_task_id request"
        using state_request(2)[OF 2(1)] by (simp add: initial_state_def)
      ultimately show ?thesis using fields Inr 2(5) by (auto simp: ended_def stored_as_def)
    qed simp
  qed (simp add: fields)
qed

section \<open>Attempts\<close>

named_theorems keeps_attempts "statements that start no attempt"

lemma adds_nothing_then [keeps_attempts]:
  "adds_attempts nt q 0 m \<Longrightarrow> (\<And>x. adds_attempts nt q 0 (f x)) \<Longrightarrow> adds_attempts nt q 0 (do_then m f)"
  using adds_then[of nt q 0 m 0 f] by simp

lemma keeps_try: "keeps_state m \<Longrightarrow> (\<And>e. keeps_state (h e)) \<Longrightarrow> keeps_state (do_try m h)"
  by (simp add: keeps_state_def do_try_def split: prod.splits sum.splits) (metis snd_conv)

lemma adds_nothing_transition [keeps_attempts]:
  assumes "\<And>s. ct_request (u s) = ct_request s" "\<And>s. ct_attempts (u s) = ct_attempts s"
  shows "adds_attempts (se_nt (ee_store env)) q 0 (transition_to env status event_type reason u)"
  unfolding adds_attempts_def obeys_def
proof (intro allI impI)
  fix fl :: "'a Flow"
  let ?t = "transition_to env status event_type reason u"
  assume fl: "of_request (se_nt (ee_store env)) q fl"
  obtain v fl' where m: "?t fl = (v, fl')" by fastforce
  from m always_true(1,2) always_true(3)[of "ee_now env"]
  show "length (ct_attempts (fl_state (snd (?t fl)))) \<le> length (ct_attempts (fl_state fl)) + 0 \<and>
    of_request (se_nt (ee_store env)) q (snd (?t fl))"
  proof (cases rule: transition_toE)
    case (1 w e)
    then show ?thesis using fl m by (simp add: of_request_def)
  next
    case (2 w cand recorded db ver)
    have u: "modest u" using assms by (simp add: modest_def)
    show ?thesis using fl m 2(1) transition_request[OF fl disjI1[OF u] 2(4)] assms(2) by (simp add: of_request_def)
  qed
qed

lemma keeps_locals:
  "keeps_state the_source" "keeps_state (set_source src)"
  "keeps_state (\<lambda>fl. case register_worktree st now r (fl_db fl) of
     Inl e \<Rightarrow> (Inl (StoreRaised e), fl) | Inr db \<Rightarrow> (Inr (), fl\<lparr>fl_db := db\<rparr>))"
  by (simp_all add: keeps_state_def the_source_def set_source_def split: sum.splits)

lemma adds_nothing_basic [keeps_attempts]:
  "adds_attempts nt q 0 (give x)" "adds_attempts nt q 0 (raises e)" "adds_attempts nt q 0 (do_ensure b e)"
  "adds_attempts nt q 0 (outside act)" "adds_attempts nt q 0 (ask act')" "adds_attempts nt q 0 the_state"
  "adds_attempts nt q 0 the_source" "adds_attempts nt q 0 (set_source src)"
  "adds_attempts nt q 0 (\<lambda>fl. case register_worktree st now r (fl_db fl) of
     Inl e \<Rightarrow> (Inl (StoreRaised e), fl) | Inr db \<Rightarrow> (Inr (), fl\<lparr>fl_db := db\<rparr>))"
  by (simp_all add: adds_keeps keeps_basic keeps_locals)

lemma adds_nothing_guards [keeps_attempts]:
  "adds_attempts nt q 0 (guard_worktree env phase)" "adds_attempts nt q 0 (assert_current_rules env)"
  by (rule adds_keeps, simp add: guard_worktree_def validate_task_git_scope_def assert_no_ignored_files_def Let_def
      keeps_basic keeps_then keeps_try keeps_rules)+

lemma isolate_adds_nothing: "adds_attempts (se_nt (ee_store (sv_task sv))) q 0 (isolate sv)"
  unfolding isolate_def register_task_worktree_def reresolve_source_def Let_def
  by (intro keeps_attempts) simp_all

text \<open>The attempts of a flow that starts without one.\<close>

definition attempts_within :: "nat \<Rightarrow> 'w Flow \<Rightarrow> 'w Flow \<Rightarrow> bool" where
  "attempts_within n fl fl' \<longleftrightarrow>
     length (ct_attempts (fl_state fl')) \<le> max 1 (length (ct_attempts (fl_state fl)) + n)"

lemma within_then:
  assumes "adds_attempts nt q 0 m" "\<And>x. obeys nt q (attempts_within n) (f x)"
  shows "obeys nt q (attempts_within n) (do_then m f)"
  unfolding obeys_def
proof (intro allI impI)
  fix fl :: "'a Flow"
  assume fl: "of_request nt q fl"
  obtain v fl1 where m: "m fl = (v, fl1)" by fastforce
  note 1 = obeysD[OF assms(1)[unfolded adds_attempts_def] fl m]
  show "attempts_within n fl (snd (do_then m f fl)) \<and> of_request nt q (snd (do_then m f fl))"
  proof (cases v)
    case (Inr x)
    obtain v' fl2 where f: "f x fl1 = (v', fl2)" by fastforce
    show ?thesis using obeysD[OF assms(2) conjunct2[OF 1] f] 1 m f Inr
      by (auto simp: do_then_def attempts_within_def le_max_iff_disj)
  qed (use 1 m in \<open>auto simp: do_then_def attempts_within_def\<close>)
qed

lemma within_adds: "adds_attempts nt q n m \<Longrightarrow> n \<le> k \<Longrightarrow> obeys nt q (attempts_within k) m"
  by (force simp: adds_attempts_def obeys_def attempts_within_def)

lemma within_grow: "obeys nt q attempts_grow m \<Longrightarrow> obeys nt q (attempts_within k) m"
  by (force simp: obeys_def attempts_within_def attempts_grow_def)

lemma leased_within:
  assumes "1 \<le> k" "nat (cy_max_local_attempts (ee_policy (sv_task sv))) \<le> k"
  shows "obeys (se_nt (ee_store (sv_task sv))) q (attempts_within k) (leased_task sv)"
proof -
  have codex: "obeys (se_nt (ee_store (sv_task sv))) q (attempts_within k) (execute_flow (sv_task sv) (codex_run r c v) 1)" for r c v
    by (rule within_adds[OF adds_flow]) (use assms(1) in \<open>simp_all add: codex_run_def\<close>)
  have qwen: "obeys (se_nt (ee_store (sv_task sv))) q (attempts_within k) (execute_flow (sv_task sv) (qwen_run r c v)
       (nat (cy_max_local_attempts (ee_policy (sv_task sv)))))" for r c v
    by (rule within_adds[OF adds_flow]) (use assms(2) in \<open>simp_all add: qwen_run_def\<close>)
  have snapshot: "adds_attempts nt q 0 (capture_public_data_snapshot sv permissions blocked)" for nt permissions blocked
    by (rule adds_keeps) (auto simp: capture_public_data_snapshot_def keeps_basic intro!: keeps_then split: sum.split)
  show ?thesis
    unfolding leased_task_def record_context_def Let_def
    by (rule within_then, intro keeps_attempts, rule within_then, intro keeps_attempts, simp, simp, rule within_then,
        intro keeps_attempts, rule within_then[OF snapshot])
      (auto intro!: within_grow[OF attempt_count.obeys_handoff] codex[unfolded One_nat_def] qwen)
qed

lemma task_within:
  assumes "1 \<le> k" "nat (cy_max_local_attempts (ee_policy (sv_task sv))) \<le> k"
  shows "obeys (se_nt (ee_store (sv_task sv))) q (attempts_within k) (run_task sv)"
  unfolding run_task_def
proof (rule within_then[OF isolate_adds_nothing], unfold with_lease_def, rule within_then, intro keeps_attempts,
    unfold obeys_def, intro allI impI)
  fix r x and fl :: "'a Flow"
  assume fl: "of_request (se_nt (ee_store (sv_task sv))) q fl"
  obtain v fl1 where m: "leased_task sv fl = (v, fl1)" by fastforce
  note 1 = obeysD[OF leased_within[OF assms] fl m]
  show "attempts_within k fl (snd (case leased_task sv fl of (outcome, fl') \<Rightarrow> case outside (sv_release_lease sv) fl' of
      (Inl e, fl'') \<Rightarrow> (Inl e, fl'') | (Inr _, fl'') \<Rightarrow> (outcome, fl''))) \<and>
    of_request (se_nt (ee_store (sv_task sv))) q (snd (case leased_task sv fl of (outcome, fl') \<Rightarrow>
      case outside (sv_release_lease sv) fl' of
      (Inl e, fl'') \<Rightarrow> (Inl e, fl'') | (Inr _, fl'') \<Rightarrow> (outcome, fl'')))"
    using 1 m by (auto simp: outside_def attempts_within_def of_request_def split: prod.splits sum.splits)
qed

text \<open>
  C6: the loop of attempts ends. With no attempt left a pass of the loop never asks for another one, so
  that the loop cannot run out of passes without a result; and a task that returns has made at most
  \<open>max_local_attempts\<close> attempts, or one with Codex or when it was handed off at once.
\<close>

theorem attempts_are_bounded:
  "(case fst (attempt_round env rn False index fl) of
      Inr (Finished result) \<Rightarrow> True | Inr _ \<Rightarrow> False | Inl _ \<Rightarrow> True) \<and>
   (case run sv request db w of
      (Inr result, _) \<Rightarrow> cs_attempts result \<le> max 1 (cy_max_local_attempts (ee_policy (sv_task sv)))
    | _ \<Rightarrow> True)"
proof
  obtain v fl' where m: "attempt_round env rn False index fl = (v, fl')" by fastforce
  have "is_finished p fl'" if "v = Inr p" for p using last_round m that unfolding returns_def by blast
  then show "case fst (attempt_round env rn False index fl) of
      Inr (Finished result) \<Rightarrow> True | Inr _ \<Rightarrow> False | Inl _ \<Rightarrow> True"
    using m by (cases v) (auto simp: is_finished_def)
next
  let ?n = "cy_max_local_attempts (ee_policy (sv_task sv))"
  show "case run sv request db w of (Inr result, _) \<Rightarrow> cs_attempts result \<le> max 1 ?n | _ \<Rightarrow> True"
  proof (cases "\<exists>result db' w'. run_impl sv request db w = (Inr result, db', w')")
    case True
    then obtain result db' w' where r: "run_impl sv request db w = (Inr result, db', w')" by blast
    from r always_true(1,2) no_condition(1,2) show ?thesis
    proof (cases rule: run_implE)
      case (2 state source now recorded db1 w1 fl)
      have e: "ended result fl" using task_ends 2(4) unfolding returns_def by blast
      have "ct_attempts state = []" using 2(1) candidate_fields(3) by (fastforce simp: initial_state_def)
      then have "length (ct_attempts (fl_state fl)) \<le> max 1 (nat ?n)"
        using obeysD[OF task_within[of "max 1 (nat ?n)" sv] state_request(1)[OF 2(1)] 2(4)]
        by (simp add: attempts_within_def flow_from_def)
      then show ?thesis using e r by (auto simp: run_def ended_def)
    qed simp
  next
    case False
    obtain v db' w' where r: "run_impl sv request db w = (v, db', w')" by (metis prod_cases3)
    then show ?thesis using False by (cases v) (auto simp: run_def split: prod.splits)
  qed
qed

section \<open>Permissions\<close>

text \<open>The repair after an exception, whatever the request allows.\<close>

definition keeps_world :: "('w \<Rightarrow> 'w \<Rightarrow> bool) \<Rightarrow> ('w, 'a) stm \<Rightarrow> bool" where
  "keeps_world G m \<longleftrightarrow> (\<forall>fl. G (fl_world fl) (fl_world (snd (m fl))))"

lemma keeps_worldD: "keeps_world G m \<Longrightarrow> m fl = (v, fl') \<Longrightarrow> G (fl_world fl) (fl_world fl')"
  unfolding keeps_world_def by (metis snd_conv)

lemma world_then:
  assumes "transp G" "keeps_world G m" "\<And>x. keeps_world G (f x)"
  shows "keeps_world G (do_then m f)"
  unfolding keeps_world_def
proof
  fix fl
  obtain v fl1 where m: "m fl = (v, fl1)" by fastforce
  note 1 = keeps_worldD[OF assms(2) m]
  have "G (fl_world fl1) (fl_world (snd (f x fl1)))" for x using assms(3) unfolding keeps_world_def by blast
  then show "G (fl_world fl) (fl_world (snd (do_then m f fl)))"
    using 1 m assms(1) by (cases v) (auto simp: do_then_def dest: transpD)
qed

lemma world_try:
  assumes "transp G" "keeps_world G m" "\<And>e. keeps_world G (h e)"
  shows "keeps_world G (do_try m h)"
  unfolding keeps_world_def
proof
  fix fl
  obtain v fl1 where m: "m fl = (v, fl1)" by fastforce
  note 1 = keeps_worldD[OF assms(2) m]
  have "G (fl_world fl1) (fl_world (snd (h x fl1)))" for x using assms(3) unfolding keeps_world_def by blast
  then show "G (fl_world fl) (fl_world (snd (do_try m h fl)))"
    using 1 m assms(1) by (cases v) (auto simp: do_try_def dest: transpD)
qed

lemma world_basic:
  assumes "reflp G"
  shows "keeps_world G (give x)" "keeps_world G the_state" "confined G act \<Longrightarrow> keeps_world G (ask act)"
    "confined G act' \<Longrightarrow> keeps_world G (outside act')"
  using assms unfolding keeps_world_def confined_def reflp_def
  by (auto simp: give_def the_state_def ask_def outside_def split: prod.splits) (metis snd_conv)+

lemma world_writes:
  assumes "reflp G" "transp G" "confined G (ee_now env)"
  shows "keeps_world G (transition_to env status event_type reason u)" "keeps_world G (store_worktree env r)"
proof -
  show "keeps_world G (transition_to env status event_type reason u)"
    unfolding keeps_world_def
  proof
    fix fl :: "'a Flow"
    obtain v fl' where m: "transition_to env status event_type reason u fl = (v, fl')" by fastforce
    from m assms show "G (fl_world fl) (fl_world (snd (transition_to env status event_type reason u fl)))"
      by (cases rule: transition_toE) (simp_all add: m)
  qed
  show "keeps_world G (store_worktree env r)"
    unfolding keeps_world_def
  proof
    fix fl :: "'a Flow"
    obtain v fl' where m: "store_worktree env r fl = (v, fl')" by fastforce
    from m assms(3) show "G (fl_world fl) (fl_world (snd (store_worktree env r fl)))"
      by (cases rule: store_worktreeE) (simp_all add: m)
  qed
qed

lemma settle_world:
  assumes "reflp G" "transp G" "surroundings_confined G git_ok exec_ok (sv_task sv)"
  shows "G w (snd (settle_failure sv task e db w))"
proof -
  have c: "confined G (ee_now (sv_task sv))" "confined G (ee_cancelled (sv_task sv))"
    "\<And>t. confined G (ee_mark_orphaned (sv_task sv) t)"
    using assms(3) by (simp_all add: surroundings_confined_def)
  note world = world_then[OF assms(2)] world_try[OF assms(2)] world_basic[OF assms(1)] world_writes[OF assms(1,2) c(1)] c
  have "keeps_world G (preserve_cancelled_worktree (sv_task sv))"
    unfolding preserve_cancelled_worktree_def by (rule world) (auto intro!: world)
  then have k: "keeps_world G (record_unexpected_failure (sv_task sv) message)" for message
    unfolding record_unexpected_failure_def orphan_worktree_def by (intro world)
  obtain db' w' where s: "settle_failure sv task e db w = (db', w')" by fastforce
  from s show ?thesis
  proof (cases rule: settle_failureE)
    case (2 latest version fl r)
    show ?thesis using keeps_worldD[OF k 2(3)] s 2(5) by (simp add: flow_from_def)
  qed (use s assms(1) in \<open>simp add: reflp_def\<close>)
qed

lemma run_world:
  assumes "reflp G" "transp G" "surroundings_confined G git_ok exec_ok (sv_task sv)" "services_confined G sv"
    and "git_ok head_command" "exec_ok LOCAL_QWEN"
    and "\<And>argv. cp_local_commit (cq_permissions request) \<Longrightarrow> commit_command argv \<Longrightarrow> git_ok argv"
    and "cp_cloud_execution (cq_permissions request) \<Longrightarrow> exec_ok CODEX_EXEC"
  shows "G w (snd (snd (run sv request db w)))"
proof -
  have impl: "G w w'" if r: "run_impl sv request db w = (v, db', w')" for v db' w'
    using r assms(1-4)
  proof (cases rule: run_implE)
    case (2 state source now recorded db1 w1 fl)
    have p: "cq_permissions (ct_request state) = cq_permissions request"
      using state_request(3)[OF 2(1)] by (simp add: initial_state_def)
    show ?thesis
      using obeysD[OF task_guarantee.obeys_task[OF world_guarantee[OF assms(1-6)]] state_request(1)[OF 2(1)] 2(4)]
        assms(7,8) 2(3,6) transpD[OF assms(2) 2(3)]
      by (simp add: world_related_def flow_from_def p)
  qed
  obtain v db' w' where r: "run sv request db w = (v, db', w')" by (metis prod_cases3)
  from r show ?thesis
  proof (cases rule: runE)
    case (1 result)
    then show ?thesis using impl r by simp
  next
    case (2 e db1 w1)
    then show ?thesis
      using transpD[OF assms(2) impl[OF 2(1)] settle_world[OF assms(1-3)]] r by (metis snd_conv)
  qed
qed

text \<open>
  C3: without the permission for cloud execution Codex never runs: whatever the surroundings leave
  unchanged when Codex is not called is unchanged by the whole run, repair after an exception included. A
  call of Codex is not accounted for by \<open>G\<close>.
\<close>

theorem without_cloud_permission_codex_never_runs:
  assumes "reflp G" "transp G" "services_confined G sv"
    and "surroundings_confined G (\<lambda>_. True) (\<lambda>k. k = LOCAL_QWEN) (sv_task sv)"
    and "\<not> cp_cloud_execution (cq_permissions request)"
  shows "G w (snd (snd (run sv request db w)))"
  by (rule run_world[OF assms(1,2,4,3)]) (use assms(5) in simp_all)


section \<open>Other tasks\<close>

lemma loaded_identity:
  assumes "store_reachable env db" "load_task env db task = Inr (Some state)"
  shows "cq_task_id (ct_request state) = task"
proof -
  obtain row where row: "select tr_task_id task (db_tasks db) = Some row"
    using assms(2) by (cases "select tr_task_id task (db_tasks db)") (auto simp: load_task_def)
  show ?thesis using task_row_loaded(1,4)[OF reachable_inv[OF assms(1)] row] assms(2) by simp
qed

lemma steps_reachable: "store_steps env db db' \<Longrightarrow> store_reachable env db \<Longrightarrow> store_reachable env db'"
  unfolding store_steps_def by (induction rule: rtranclp_induct) (auto intro: reachable_step)

lemma run_impl_other:
  assumes "run_impl sv request db w = (v, db', w')" and "t \<noteq> cq_task_id request"
  shows "select tr_task_id t (db_tasks db') = select tr_task_id t (db_tasks db) \<and>
    history (db_events db') t = history (db_events db) t"
  using assms(1) always_true(1,2) no_condition(1,2)
proof (cases rule: run_implE)
  case (2 state source now recorded db1 w1 fl)
  have i: "cq_task_id (ct_request state) = cq_task_id request"
    using state_request(2)[OF 2(1)] by (simp add: initial_state_def)
  have "select tr_task_id t (db_tasks db1) = select tr_task_id t (db_tasks db) \<and>
      history (db_events db1) t = history (db_events db) t"
    using 2(2) assms(2) i by (elim create_taskE) (auto simp: history_def select_append split: option.splits)
  then show ?thesis
    using obeysD[OF other_tasks.obeys_task state_request(1)[OF 2(1)] 2(4)] 2(5) assms(2) i
    by (simp add: other_rows_def flow_from_def)
qed simp

lemma settle_other:
  assumes "settle_failure sv task e db w = (db', w')" and "store_reachable (ee_store (sv_task sv)) db" and "t \<noteq> task"
  shows "select tr_task_id t (db_tasks db') = select tr_task_id t (db_tasks db) \<and>
    history (db_events db') t = history (db_events db) t"
  using assms(1)
proof (cases rule: settle_failureE)
  case (2 latest version fl r)
  have i: "cq_task_id (ct_request latest) = task" by (rule loaded_identity[OF assms(2) 2(1)])
  show ?thesis
    using obeysD[OF other_tasks.obeys_unexpected 2(2,3)] 2(4) assms(3) i by (simp add: other_rows_def flow_from_def)
qed simp

text \<open>
  C8: a run touches no task but its own: the rows and the histories of all others stay as they are, also when
  the run fails and is settled.
\<close>

theorem a_run_changes_no_other_task:
  assumes "store_reachable (ee_store (sv_task sv)) db" "records_valid sv" "t \<noteq> cq_task_id request"
  shows "(let db' = fst (snd (run sv request db w)) in
     select tr_task_id t (db_tasks db') = select tr_task_id t (db_tasks db) \<and>
     history (db_events db') t = history (db_events db) t)"
proof -
  obtain v db' w' where r: "run sv request db w = (v, db', w')" by (metis prod_cases3)
  from r show ?thesis
  proof (cases rule: runE)
    case (1 result)
    then show ?thesis using run_impl_other[OF 1(1) assms(3)] r by simp
  next
    case (2 e db1 w1)
    have "store_reachable (ee_store (sv_task sv)) db1"
      by (rule steps_reachable[OF run_impl_steps[OF assms(2) 2(1)] assms(1)])
    then show ?thesis using run_impl_other[OF 2(1) assms(3)] settle_other[OF 2(3) _ assms(3)] r by simp
  qed
qed

section \<open>What is committed and what is told\<close>

lemma returns_ensure: "(b \<Longrightarrow> returns (f ()) Q) \<Longrightarrow> returns (do_then (do_ensure b e) f) Q"
  by (cases b) (auto simp: returns_def do_then_def do_ensure_def give_def raises_def)

lemma returns_some: "(\<And>x. v = Some x \<Longrightarrow> returns (f x) Q) \<Longrightarrow> returns (do_then (do_some e v) f) Q"
  by (cases v) (auto simp: returns_def do_then_def do_some_def give_def raises_def)

lemma from_state:
  "do_then the_state f fl = (Inr x, fl') \<Longrightarrow> (\<And>s. returns (f s) (\<lambda>y _. Q s y)) \<Longrightarrow> Q (fl_state fl) x"
  by (auto simp: returns_def do_then_def the_state_def)

text \<open>A commit holds the approved diff: the staged digest is the approved one and the worktree is clean at the commit.\<close>

definition approved_commit :: "'w EngineEnv \<Rightarrow> WorktreeBinding \<Rightarrow> string \<Rightarrow> CommitGate \<Rightarrow> bool" where
  "approved_commit env approved staged gate \<longleftrightarrow>
     cg_approved_diff_sha256 gate = wb_diff_sha256 approved \<and> cg_staged_diff_sha256 gate = Some staged \<and>
     cg_commit_sha gate = Some (wb_head_sha (cg_terminal_binding gate)) \<and> cg_tree_sha gate \<noteq> None \<and>
     wb_status_paths (cg_terminal_binding gate) = [] \<and> wb_diff_sha256 (cg_terminal_binding gate) = ee_sha256 env [] \<and>
     wb_ignored_fingerprint (cg_terminal_binding gate) = wb_ignored_fingerprint approved"

lemma finished_commits: "returns (finish_commit env state w approved staged) (\<lambda>gate _. approved_commit env approved staged gate)"
  unfolding finish_commit_def
  by (intro returns_ensure returns_prod returns_give returns_then) (auto simp: approved_commit_def)

definition gate_passed :: "'w EngineEnv \<Rightarrow> CodingTaskStateV1 \<Rightarrow> WorktreeBinding \<Rightarrow> CommitGate \<Rightarrow> bool" where
  "gate_passed env state approved gate \<longleftrightarrow>
     (if cp_local_commit (cq_permissions (ct_request state))
      then (\<exists>r. ct_review state = Some r \<and> rv_verdict r = APPROVED) \<and>
        approved_commit env approved (wb_diff_sha256 approved) gate
      else cg_commit_sha gate = None \<and> cg_terminal_binding gate = approved)"

lemma staged_commits:
  assumes "cp_local_commit (cq_permissions (ct_request state))"
  shows "returns (commit_staged env state approved) (\<lambda>gate _. gate_passed env state approved gate)"
proof -
  have finished: "returns (finish_commit env state w approved staged) (\<lambda>gate _. gate_passed env state approved gate)"
    if "case ct_review state of None \<Rightarrow> False | Some r \<Rightarrow> rv_verdict r = APPROVED" "staged = wb_diff_sha256 approved" for w staged
    using finished_commits that assms unfolding returns_def gate_passed_def by (fastforce split: option.splits)
  show ?thesis
    unfolding commit_staged_def
    by (intro returns_ensure returns_some returns_prod returns_then) (rule finished, simp_all)
qed

text \<open>
  C5: the commit gate delivers exactly what was approved. When the request permits a local commit, the gate
  returns only for an approved review, with a commit whose staged diff has the digest of the approved
  one, at the head of a worktree that is clean; otherwise it commits nothing and the worktree is the
  approved one.
\<close>

theorem the_gate_commits_the_approved_diff:
  "case commit_gate env approved fl of
     (Inr gate, _) \<Rightarrow> gate_passed env (fl_state fl) approved gate
   | _ \<Rightarrow> True"
proof -
  have "Q (fl_state fl) gate" if "commit_gate env approved fl = (Inr gate, fl')"
      "Q = (\<lambda>state gate. gate_passed env state approved gate)" for Q gate fl'
    using that(1) unfolding commit_gate_def
  proof (rule from_state)
    fix state
    show "returns (do_then (guard_worktree env ''before commit'') (\<lambda>_.
       do_then (assert_source_snapshot env) (\<lambda>_.
       do_then (capture_worktree_binding env) (\<lambda>(before_stage, _).
       do_then (assert_same_approved_binding approved before_stage ''before staging'' False) (\<lambda>_.
       if \<not> cp_local_commit (cq_permissions (ct_request state))
       then give \<lparr>cg_commit_sha = None, cg_tree_sha = None, cg_approved_diff_sha256 = wb_diff_sha256 approved,
         cg_staged_diff_sha256 = None, cg_terminal_binding = before_stage\<rparr>
       else commit_staged env state approved))))) (\<lambda>gate _. Q state gate)"
      unfolding assert_same_approved_binding_def that(2)
      by (intro returns_ensure returns_if returns_give returns_prod returns_then staged_commits) (auto simp: gate_passed_def)
  qed
  then show ?thesis by (auto split: prod.splits sum.splits)
qed

end
