(* ===== verification/EngineSamples.thy ===== *)
theory EngineSamples
  imports EngineProperties CodingStoreSamples VerificationProperties
begin

text \<open>
  Concrete runs of the coding engine: a read-only task from the request to its result, a high-risk task
  that ends in a handoff, and a task whose identifier is already in use. The surroundings count what
  Git and Codex are asked; the properties of the engine are applied to them.
\<close>

section \<open>Surroundings\<close>

record SampleWorld =
  sw_git :: "string list list"
  sw_codex :: nat

definition sample_world :: SampleWorld where
  "sample_world = \<lparr>sw_git = [], sw_codex = 0\<rparr>"

definition answer :: "'a \<Rightarrow> (SampleWorld, 'a) outside" where
  "answer x = (\<lambda>w. (Inr x, w))"

definition sample_artifact :: "string \<Rightarrow> ArtifactKind \<Rightarrow> ArtifactReferenceV1" where
  "sample_artifact ident kind = \<lparr>af_artifact_id = ident, af_kind = kind, af_path = ''/artifacts/'' @ ident,
     af_sha256 = replicate 64 (CHR ''d''), af_size_bytes = 2, af_media_type = ''application/json'',
     af_producer = ''engine'', af_created_at = Aware 0 0\<rparr>"

definition engine_source :: Source where
  "engine_source = \<lparr>so_canonical_root = ''/repo'', so_base_commit = replicate 40 (CHR ''0''), so_dirty_paths = [],
     so_dirty_fingerprint = ''clean'', so_git_metadata_fingerprint = ''git'', so_excluded_git_refs = []\<rparr>"

definition sample_execution :: ExecutorResult where
  "sample_execution = \<lparr>xr_summary = ''The parser is recursive.'', xr_inspected_files = [''parser.py''],
     xr_output_artifact = sample_artifact ''out-1'' AF_COMMAND_OUTPUT\<rparr>"

definition sample_tree :: "string \<Rightarrow> WorktreeStatus \<Rightarrow> WorktreeRecordV1" where
  "sample_tree t status = (sample_record t ''/w1'' status 7)\<lparr>
     wr_heartbeat_at := Aware 9 0, wr_completed_at := (if status = WS_COMPLETE then Some (Aware 9 0) else None)\<rparr>"

text \<open>Git answers with the head of the worktree; Codex is counted.\<close>

definition sample_git :: "string list \<Rightarrow> (SampleWorld, string) outside" where
  "sample_git argv = (\<lambda>w. (Inr (replicate 40 (CHR ''0'')), w\<lparr>sw_git := sw_git w @ [argv]\<rparr>))"

definition sample_execute :: "ExecutorKind \<Rightarrow> (SampleWorld, ExecutorResult) outside" where
  "sample_execute kind = (\<lambda>w. (Inr sample_execution, if kind = LOCAL_QWEN then w else w\<lparr>sw_codex := Suc (sw_codex w)\<rparr>))"

definition sample_engine :: "SampleWorld EngineEnv" where
  "sample_engine = \<lparr>ee_store = sample_env, ee_policy = sample_coding_policy, ee_now = (\<lambda>w. (Aware 9 0, w)),
     ee_cancelled = (\<lambda>w. (False, w)), ee_sha256 = (\<lambda>t. replicate 64 (CHR ''e'')), ee_sha256_frames = concat,
     ee_sanitize = (\<lambda>t. t), ee_detect_secret = (\<lambda>t. None), ee_live_rules = (\<lambda>b ts. answer []),
     ee_rule_relative = (\<lambda>p. answer None), ee_rule_digest = (\<lambda>b p. answer None), ee_discover_rules = (\<lambda>ts. answer []),
     ee_git_scope_valid = (\<lambda>w. (True, w)), ee_owned_path = answer (sample_tree ''t1'' WS_ACTIVE), ee_git = sample_git,
     ee_ignored_paths = answer [], ee_status_paths = answer [], ee_fingerprint = answer ''tree'', ee_git_diff = answer [],
     ee_ignored_fingerprint = answer ''none'', ee_scan_changed = answer ''unchanged'', ee_scan_commit = (\<lambda>x y. answer []),
     ee_resolve = (\<lambda>p refs. answer engine_source), ee_active_refs = answer [],
     ee_write_diff = (\<lambda>p. answer (sample_artifact ''diff-1'' AF_DIFF)),
     ee_write_review = (\<lambda>r. answer (sample_artifact ''review-1'' AF_REVIEW)),
     ee_read_verified = (\<lambda>a. answer []), ee_read_text = (\<lambda>a. answer []),
     ee_artifact_reference = (\<lambda>i. answer (sample_artifact i AF_COMMAND_OUTPUT)), ee_execute = (\<lambda>k b q p c. sample_execute k),
     ee_executor_model = (\<lambda>k. Some ''qwen''), ee_public_snapshot = (\<lambda>s w. (Inr s, w)),
     ee_run_verifier = (\<lambda>c i w. (Inl (HostRaised ''OSError''), w)), ee_run_ui = (\<lambda>q i w. (Inl (HostRaised ''OSError''), w)),
     ee_deterministic_review = (\<lambda>source state required results unchanged. answer sample_review),
     ee_merge_codex = (\<lambda>r t b. answer r), ee_semantic_review = (\<lambda>r s b d x cs. answer (r, None, [])),
     ee_dump_argv = concat, ee_dump_review = rv_summary, ee_loads_unique = (\<lambda>t. None), ee_canonical_json = (\<lambda>j. []),
     ee_worktree_load = (\<lambda>t. answer (Some (sample_tree ''t1'' WS_ACTIVE))), ee_mark_orphaned = (\<lambda>t. answer (sample_tree ''t1'' WS_ORPHANED)),
     ee_complete_worktree = (\<lambda>t. answer (sample_tree ''t1'' WS_COMPLETE)),
     ee_create_handoff = (\<lambda>s f d. answer (sample_artifact ''handoff-1'' AF_HANDOFF, sample_artifact ''handoff-2'' AF_HANDOFF))\<rparr>"

definition sample_services :: "SampleWorld Services" where
  "sample_services = \<lparr>sv_task = sample_engine, sv_request_json = cq_goal, sv_check_capabilities = (\<lambda>s q w. (Inr (), w)),
     sv_open_artifacts = (\<lambda>t. answer ()), sv_create_worktree = (\<lambda>t s. answer (sample_tree ''t1'' WS_ACTIVE)),
     sv_acquire_lease = (\<lambda>r. answer ()), sv_release_lease = answer (),
     sv_build_context = (\<lambda>q ms us. answer \<lparr>tc_artifact = sample_artifact ''context-1'' AF_CONTEXT,
       tc_envelope_json = ''{}'', tc_blocked_files = 0\<rparr>),
     sv_build_snapshot = (\<lambda>n w. (Inr ''snapshot'', w)),
     sv_load_handoff = (\<lambda>s a. answer \<lparr>hc_modified_files = [], hc_unresolved_questions = [], hc_binding = ''b''\<rparr>),
     sv_error_text = (\<lambda>e. ''error'')\<rparr>"

lemma sample_parts: "sv_task sample_services = sample_engine" "ee_store sample_engine = sample_env"
  by (simp_all add: sample_services_def sample_engine_def)

lemma answers: "results_of (answer x) = {x}"
  by (auto simp: results_of_def answer_def)

lemma valid_trees: "valid_record (sample_tree ''t1'' WS_ACTIVE)" "valid_record (sample_tree ''t1'' WS_ORPHANED)"
    "valid_record (sample_tree ''t1'' WS_COMPLETE)"
  by code_simp+

lemma sample_records: "records_valid sample_services"
  by (auto simp: records_valid_def sample_services_def sample_engine_def answers valid_trees)

text \<open>A relation on worlds that only Git and Codex can break.\<close>

lemma sample_confined:
  assumes "\<And>w. G w w" and "\<And>argv w. git_ok argv \<Longrightarrow> G w (w\<lparr>sw_git := sw_git w @ [argv]\<rparr>)"
    and "\<And>k w. exec_ok k \<Longrightarrow> G w (if k = LOCAL_QWEN then w else w\<lparr>sw_codex := Suc (sw_codex w)\<rparr>)"
  shows "surroundings_confined G git_ok exec_ok sample_engine" "services_confined G sample_services"
  using assms
  by (simp_all add: surroundings_confined_def services_confined_def confined_def sample_engine_def sample_services_def
      answer_def sample_git_def sample_execute_def)

section \<open>Runs\<close>

text \<open>A read-only task, and the same request while its task is under review.\<close>

definition local_run :: "SampleWorld outcome" where
  "local_run = run sample_services (sample_coding_request ''t1'') empty_coding_db sample_world"

theorem runs_are_steps_of_the_store_witness:
  "store_steps sample_env empty_coding_db (fst (snd local_run))"
  using runs_are_steps_of_the_store[OF sample_records] unfolding local_run_def sample_parts .

definition same_codex :: "SampleWorld \<Rightarrow> SampleWorld \<Rightarrow> bool" where
  "same_codex w w' \<longleftrightarrow> sw_codex w' = sw_codex w"

theorem without_cloud_permission_codex_never_runs_witness:
  "sw_codex (snd (snd local_run)) = 0"
proof -
  have "same_codex sample_world (snd (snd (run sample_services (sample_coding_request ''t1'') empty_coding_db sample_world)))"
    by (rule without_cloud_permission_codex_never_runs)
      (auto simp: sample_parts reflp_def transp_def same_codex_def sample_coding_request_def intro!: sample_confined)
  then show ?thesis by (simp add: local_run_def same_codex_def sample_world_def)
qed

text \<open>What was asked of Git beside the head.\<close>

definition other_commands :: "SampleWorld \<Rightarrow> string list list" where
  "other_commands w = filter (\<lambda>argv. argv \<noteq> head_command) (sw_git w)"

definition same_commands :: "SampleWorld \<Rightarrow> SampleWorld \<Rightarrow> bool" where
  "same_commands w w' \<longleftrightarrow> other_commands w' = other_commands w"


text \<open>A run beside a task of another identifier.\<close>

theorem a_run_changes_no_other_task_witness:
  "select tr_task_id ''t1'' (db_tasks (fst (snd (run sample_services (sample_coding_request ''t9'') review_db sample_world)))) =
     select tr_task_id ''t1'' (db_tasks review_db)"
  using a_run_changes_no_other_task[of sample_services review_db "''t1''" "sample_coding_request ''t9''" sample_world]
    sample_records review_reachable
  by (simp add: sample_parts sample_coding_request_def Let_def)

section \<open>The same task twice\<close>

definition repeated_run :: "SampleWorld outcome" where
  "repeated_run = run sample_services (sample_coding_request ''t1'') review_db sample_world"

definition status_after :: "SampleWorld outcome \<Rightarrow> (EngineError + CodingTaskResultV1) \<times> CodingTaskStatus option" where
  "status_after p = (case p of (v, db, w) \<Rightarrow> (v, map_option tr_status (select tr_task_id ''t1'' (db_tasks db))))"


end
