(* ===== verification/CodingScope.thy ===== *)
theory CodingScope
  imports CodingContracts Regex Results
begin

text \<open>
  The declared scope of a coding request, \<open>services/coding/scope.py\<close>: the path references of a prompt, which of
  them are targets of a mutation or protected from one, and the collapsed lists of scopes. The file
  system, which resolves a reference below the repository, is the record \<open>ScopeEnv\<close>; the Cyrillic alternatives of
  the patterns match no text of the model.
\<close>

section \<open>Patterns\<close>

definition r_no_case :: "string \<Rightarrow> rx" where
  "r_no_case t = foldr (\<lambda>c r. RSeq (RChar (\<lambda>d. lower_char d = c)) r) t REps"

definition r_alt :: "rx list \<Rightarrow> rx" where
  "r_alt rs = (case rs of [] \<Rightarrow> RAhead False REps | r # rest \<Rightarrow> foldl RAlt r rest)"

definition r_none_of :: "string \<Rightarrow> rx" where
  "r_none_of cs = RChar (\<lambda>c. c \<notin> set cs)"

fun r_up_to :: "nat \<Rightarrow> rx \<Rightarrow> rx" where
  "r_up_to 0 r = REps"
| "r_up_to (Suc n) r = RAlt (RSeq r (r_up_to n r)) REps"

text \<open>\<open>\b\<close> before and after a word.\<close>

definition r_word_begin :: rx where
  "r_word_begin = RNotAfter is_word_char"

definition r_word_end :: rx where
  "r_word_end = RAhead False (RChar is_word_char)"

definition r_spaces :: rx where
  "r_spaces = r_plus r_space"

definition line_ends :: string where
  "line_ends = [CHR 0x0D, CHR 0x0A]"

definition single_quote :: string where
  "single_quote = [CHR 0x27]"

definition double_quote :: string where
  "double_quote = [CHR 0x22]"

definition back_quote :: string where
  "back_quote = [CHR 0x60]"

definition quoted :: "nat \<Rightarrow> string \<Rightarrow> rx" where
  "quoted n q = r_seq [r_lit q, RGroup n (r_plus (r_none_of (q @ line_ends))), r_lit q]"

definition project_declaration :: rx where
  "project_declaration = r_seq [r_word_begin,
     r_alt (map r_no_case [''project'', ''repo'', ''repository'', ''project path'', ''workspace'']),
     RStar True r_space, r_class '':='', RStar True r_space,
     r_alt [r_seq [r_lit double_quote, RStar True (r_none_of (double_quote @ line_ends)), r_lit double_quote],
       r_seq [r_lit single_quote, RStar True (r_none_of (single_quote @ line_ends)), r_lit single_quote],
       RStar True (r_none_of ('';'' @ line_ends))]]"

definition url_pattern :: rx where
  "url_pattern = r_seq [r_word_begin, r_alt (map r_no_case [''https'', ''http'', ''file'']), r_lit ''://'',
     r_plus (RChar (\<lambda>c. \<not> is_py_space c \<and> c \<notin> set ''<>''))]"

definition token_pattern :: rx where
  "token_pattern = r_alt [quoted 1 back_quote, quoted 2 double_quote, quoted 3 single_quote,
     RGroup 4 (r_plus (RChar (\<lambda>c. \<not> is_py_space c \<and> c \<notin> set '',;(){}[]<>'')))]"

definition mutation_words :: "string list" where
  "mutation_words = [''create'', ''add'', ''write'', ''edit'', ''modify'', ''change'', ''update'', ''delete'',
     ''remove'', ''fix'', ''generate'', ''implement'', ''replace'', ''touch'']"

definition mutation_action :: rx where
  "mutation_action = r_seq [r_word_begin, r_alt (map r_no_case mutation_words), r_word_end]"

definition rest_of_clause :: rx where
  "rest_of_clause = RSeq (r_up_to 48 (r_none_of (''.;!?'' @ line_ends))) REnd"

definition negation_before_action :: rx where
  "negation_before_action = RSeq (r_alt (map (\<lambda>r. r_seq [r_word_begin, r, r_word_end])
     [r_seq [r_no_case ''do'', r_spaces, r_no_case ''not''], r_no_case (''don'' @ single_quote @ ''t''), r_no_case ''never'',
      r_no_case ''without'', r_no_case ''no''])) rest_of_clause"

definition positive_exception :: rx where
  "positive_exception = r_seq [r_word_begin,
     r_alt [r_seq [r_no_case ''other'', r_spaces, r_no_case ''than''], r_no_case ''except''], r_word_end, rest_of_clause]"

definition source_only_boundary :: rx where
  "source_only_boundary = r_seq [r_word_begin, r_alt [r_no_case ''using'', r_no_case ''from'',
     r_seq [r_no_case ''based'', r_spaces, r_no_case ''on''], r_seq [r_no_case ''according'', r_spaces, r_no_case ''to''],
     r_seq [r_no_case ''after'', r_spaces, r_no_case ''reading''], r_seq [r_no_case ''by'', r_spaces, r_no_case ''reading'']],
     r_word_end]"

definition clause_boundary :: rx where
  "clause_boundary = r_alt [r_class ('';!?'' @ line_ends), RSeq (r_lit ''.'') (RAhead True (RAlt r_space REnd))]"

definition line_suffix :: rx where
  "line_suffix = r_seq [r_lit '':'', r_plus r_digit, r_opt (RSeq (r_lit '':'') (r_plus r_digit)), REnd]"

text \<open>\<open>finditer\<close> for patterns that do not match the empty text.\<close>

function find_all :: "rx \<Rightarrow> string \<Rightarrow> nat \<Rightarrow> (nat \<times> nat \<times> captures) list" where
  "find_all r s i =
     (case first_match r s [i..<length s + 1] of
        None \<Rightarrow> []
      | Some (b, e, c) \<Rightarrow> (b, e, c) # (if i < e then find_all r s e else []))"
  by pat_completeness auto

termination
proof (relation "measure (\<lambda>(r, s, i). length s + 1 - i)")
  fix r s i x2 x y xa ya
  assume "first_match r s [i..<length s + 1] = Some x2" "i < xa"
  then have "i < length s + 1" by (metis first_match.simps(1) not_less option.distinct(1) upt_conv_Nil)
  then show "((r, s, xa), r, s, i) \<in> measure (\<lambda>(r, s, i). length s + 1 - i)" using \<open>i < xa\<close> by auto
qed simp

declare find_all.simps [simp del]

definition masked_by :: "rx \<Rightarrow> string \<Rightarrow> string" where
  "masked_by r s =
     foldl (\<lambda>t (b, e, c). take b t @ replicate (e - b) (CHR '' '') @ drop e t) s (find_all r s 0)"

section \<open>References\<close>

definition known_basenames :: "string list" where
  "known_basenames = [''agents.md'', ''cmakelists.txt'', ''containerfile'', ''dockerfile'', ''gemfile'', ''justfile'',
     ''makefile'', ''procfile'', ''readme'', ''rakefile'']"

definition known_extensions :: "string list" where
  "known_extensions = [''.bat'', ''.bin'', ''.c'', ''.cc'', ''.cfg'', ''.cljs'', ''.clj'', ''.cmd'', ''.conf'', ''.cpp'', ''.cs'',
     ''.css'', ''.csv'', ''.cxx'', ''.dart'', ''.diff'', ''.dockerfile'', ''.env'', ''.ex'', ''.exs'', ''.fs'', ''.fsx'', ''.go'',
     ''.gradle'', ''.graphql'', ''.h'', ''.hpp'', ''.htm'', ''.html'', ''.ini'', ''.java'', ''.js'', ''.json'', ''.jsx'', ''.kt'',
     ''.kts'', ''.less'', ''.lock'', ''.lua'', ''.md'', ''.mjs'', ''.mm'', ''.php'', ''.pl'', ''.pm'', ''.properties'', ''.proto'',
     ''.ps1'', ''.py'', ''.pyi'', ''.rb'', ''.rs'', ''.rst'', ''.sass'', ''.scala'', ''.scss'', ''.sh'', ''.sql'', ''.svelte'',
     ''.swift'', ''.toml'', ''.ts'', ''.tsx'', ''.txt'', ''.vue'', ''.xml'', ''.yaml'', ''.yml'', ''.zig'']"

definition blocked_parts :: "string list" where
  "blocked_parts = [''.git'', ''.hg'', ''.svn'']"

definition max_declared_scope_paths :: nat where
  "max_declared_scope_paths = 256"

text \<open>A token has no line end, so that the suffix is found at most once.\<close>

definition clean_token :: "string \<Rightarrow> string" where
  "clean_token v =
     (let cleaned = strip_by (\<lambda>c. c \<in> set (back_quote @ double_quote @ single_quote)) (py_strip v);
          unnumbered = (case re_search line_suffix cleaned of
            None \<Rightarrow> cleaned | Some (b, e, c) \<Rightarrow> take b cleaned @ drop e cleaned)
      in rev (dropWhile (\<lambda>c. c \<in> set ''.,;:!?)]}'') (rev unnumbered)))"

text \<open>\<open>PurePosixPath.suffix\<close> of a name: from its last dot, which is neither the first nor the last character.\<close>

definition name_suffix_of :: "string \<Rightarrow> string" where
  "name_suffix_of name =
     (let tail = takeWhile (\<lambda>c. c \<noteq> CHR ''.'') (rev name) in
      if tail = [] \<or> length name \<le> Suc (length tail) then [] else CHR ''.'' # rev tail)"

definition looks_like_path :: "string \<Rightarrow> bool" where
  "looks_like_path v =
     (let normalized = slash_normalized v;
          name = (case posix_parts normalized of [] \<Rightarrow> [] | p # ps \<Rightarrow> casefold (last (p # ps)))
      in if normalized = [] \<or> list_ex (\<lambda>c. c = NUL \<or> c \<in> set ''*?'') normalized then False
         else CHR ''/'' \<in> set normalized \<or> name \<in> set known_basenames \<or>
           casefold (name_suffix_of name) \<in> set known_extensions)"

datatype ScopeError = CodingScopeError string | ScopeHostError

record PathReference =
  pr_start :: nat
  pr_end :: nat
  pr_value :: string

definition token_reference :: "string \<Rightarrow> nat \<times> nat \<times> captures \<Rightarrow> PathReference option" where
  "token_reference prompt = (\<lambda>(b, e, caps).
     (case List.map_filter (group_text prompt caps) [1, 2, 3, 4] of
        [] \<Rightarrow> None
      | raw # _ \<Rightarrow>
          let cleaned = clean_token raw in
          if looks_like_path cleaned then Some \<lparr>pr_start = b, pr_end = e, pr_value = cleaned\<rparr> else None))"

definition limit_error :: ScopeError where
  "limit_error = CodingScopeError ''declared coding path scope exceeds the policy limit''"

definition path_references :: "string \<Rightarrow> ScopeError + PathReference list" where
  "path_references prompt =
     (let references = List.map_filter (token_reference prompt) (find_all token_pattern prompt 0) in
      if length references > max_declared_scope_paths then Inl limit_error else Inr references)"

text \<open>
  \<open>sc_workspace\<close> is the requested project relative to the repository root. \<open>sc_resolve_absolute\<close> and
  \<open>sc_resolve_joined\<close> resolve an absolute reference, or parts below the requested project, and
  give the path relative to the root, \<open>None\<close> outside of it.
\<close>

record ScopeEnv =
  sc_workspace :: "ScopeError + string"
  sc_is_absolute :: "string \<Rightarrow> bool"
  sc_resolve_absolute :: "string \<Rightarrow> string option"
  sc_resolve_joined :: "string list \<Rightarrow> string option"

definition drive_relative :: "string \<Rightarrow> bool" where
  "drive_relative t \<longleftrightarrow>
     (case t of c # d # e # _ \<Rightarrow> (is_lower_char c \<or> is_upper_char c) \<and> d = CHR '':'' \<and> e \<noteq> CHR ''/'' | _ \<Rightarrow> False)"

definition protected_part :: "string \<Rightarrow> bool" where
  "protected_part part \<longleftrightarrow> part \<in> set blocked_parts \<or> part = ''.env'' \<or> prefix ''.env.'' part"

definition normalise_reference :: "ScopeEnv \<Rightarrow> string \<Rightarrow> string option" where
  "normalise_reference env v =
     (let normalized = slash_normalized v; parts = posix_parts normalized;
          lexical = (if prefix ''/'' normalized then ''/'' # parts else parts) in
      if normalized = [] \<or> prefix ''//'' normalized \<or> drive_relative normalized then None
      else if ''..'' \<in> set parts \<or> parts = [] then None
      else
        (case (if sc_is_absolute env normalized then sc_resolve_absolute env normalized else sc_resolve_joined env lexical) of
           None \<Rightarrow> None
         | Some relative \<Rightarrow>
             if relative \<in> {[], ''.''} \<or> list_ex (\<lambda>p. protected_part (casefold p)) (posix_parts relative) then None
             else Some relative))"

section \<open>Mutations\<close>

datatype MutationKind = Positive | Forbidden

definition slice :: "string \<Rightarrow> nat \<Rightarrow> nat \<Rightarrow> string" where
  "slice t b e = take (e - b) (drop b t)"

text \<open>The actions of the clause before the reference, each with its start and end.\<close>

definition clause_begin :: "string \<Rightarrow> nat" where
  "clause_begin t = (case rev (find_all clause_boundary t 0) of [] \<Rightarrow> 0 | (b, e, c) # _ \<Rightarrow> Suc b)"

definition clause_actions :: "string \<Rightarrow> (nat \<times> nat) list" where
  "clause_actions t =
     map (\<lambda>(b, e, c). (b, e)) (filter (\<lambda>(b, e, c). clause_begin t \<le> b) (find_all mutation_action t 0))"

definition mutation_reference_kind :: "string \<Rightarrow> PathReference \<Rightarrow> MutationKind option" where
  "mutation_reference_kind prompt reference =
     (let before_text = take (pr_start reference) prompt in
      case rev (clause_actions before_text) of
        [] \<Rightarrow> None
      | (b, e) # earlier \<Rightarrow>
          if pr_start reference - e > 192 then None
          else
            let context_start = (case earlier of [] \<Rightarrow> clause_begin before_text | (b', e') # _ \<Rightarrow> e');
                before_action = slice prompt (max context_start (b - 64)) b;
                between = slice prompt e (pr_start reference)
            in if re_search source_only_boundary between \<noteq> None then None
               else if re_search negation_before_action before_action \<noteq> None \<and> re_search positive_exception between = None
               then Some Forbidden
               else Some Positive)"

section \<open>Scopes\<close>

text \<open>\<open>a\<close> is \<open>b\<close> or lies below it.\<close>

definition in_scope :: "string \<Rightarrow> string \<Rightarrow> bool" where
  "in_scope a b \<longleftrightarrow> a = b \<or> prefix (b @ ''/'') a"

definition add_scope :: "string list \<Rightarrow> string \<Rightarrow> string list" where
  "add_scope scopes v =
     (if list_ex (in_scope v) scopes then scopes
      else filter (\<lambda>existing. \<not> prefix (v @ ''/'') existing) scopes @ [v])"

definition collapse_scopes :: "string list \<Rightarrow> string list" where
  "collapse_scopes values = foldl add_scope [] values"

record DeclaredScope =
  ds_rule_paths :: "string list"
  ds_expected_paths :: "string list"
  ds_forbidden_paths :: "string list"

definition normalized_references :: "ScopeEnv \<Rightarrow> PathReference list \<Rightarrow> (PathReference \<times> string) list" where
  "normalized_references env references =
     List.map_filter (\<lambda>r. map_option (\<lambda>relative. (r, relative)) (normalise_reference env (pr_value r))) references"

definition paths_of_kind :: "string \<Rightarrow> MutationKind \<Rightarrow> (PathReference \<times> string) list \<Rightarrow> string list" where
  "paths_of_kind prompt kind normalized =
     map snd (filter (\<lambda>(r, relative). mutation_reference_kind prompt r = Some kind) normalized)"

text \<open>The last checks: no writable scope lies in a protected one, and the lists are bounded.\<close>

definition checked_scope :: "string list \<Rightarrow> string list \<Rightarrow> string list \<Rightarrow> ScopeError + DeclaredScope" where
  "checked_scope rules expected forbidden =
     (if list_ex (\<lambda>p. list_ex (in_scope p) forbidden) expected
      then Inl (CodingScopeError ''declared coding path scope contains conflicting positive and forbidden targets'')
      else if list_ex (\<lambda>l. length l > max_declared_scope_paths) [rules, expected, forbidden] then Inl limit_error
      else Inr \<lparr>ds_rule_paths = rules, ds_expected_paths = expected, ds_forbidden_paths = forbidden\<rparr>)"

definition nested_workspace :: "string \<Rightarrow> string list" where
  "nested_workspace workspace = (if workspace = ''.'' then [] else [workspace])"

definition expected_values :: "string \<Rightarrow> bool \<Rightarrow> string \<Rightarrow> (PathReference \<times> string) list \<Rightarrow> string list" where
  "expected_values prompt write_mode workspace normalized =
     (if write_mode then nested_workspace workspace @ paths_of_kind prompt Positive normalized else [])"

definition forbidden_values :: "string \<Rightarrow> bool \<Rightarrow> (PathReference \<times> string) list \<Rightarrow> string list" where
  "forbidden_values prompt write_mode normalized = (if write_mode then paths_of_kind prompt Forbidden normalized else [])"

definition masked_prompt :: "string \<Rightarrow> string" where
  "masked_prompt prompt = masked_by url_pattern (masked_by project_declaration prompt)"

definition resolve_declared_coding_scope :: "ScopeEnv \<Rightarrow> string \<Rightarrow> bool \<Rightarrow> ScopeError + DeclaredScope" where
  "resolve_declared_coding_scope env prompt write_mode =
     and_then (sc_workspace env) (\<lambda>workspace.
     let masked = masked_prompt prompt in
     and_then (path_references masked) (\<lambda>references.
     let normalized = normalized_references env references in
     checked_scope (collapse_scopes (nested_workspace workspace @ map snd normalized))
       (collapse_scopes (expected_values masked write_mode workspace normalized))
       (collapse_scopes (forbidden_values masked write_mode normalized))))"

end
