(* ===== verification/CodingScopeProperties.thy ===== *)
theory CodingScopeProperties
  imports CodingScope
begin

text \<open>
  The declared scopes are minimal, consistent and hold only what the prompt names as a target; what the
  prompt protects stays protected.
\<close>

section \<open>Collapsing\<close>

lemma in_scope_refl [simp]: "in_scope a a"
  by (simp add: in_scope_def)

lemma in_scope_trans: "in_scope a b \<Longrightarrow> in_scope b c \<Longrightarrow> in_scope a c"
  by (auto simp: in_scope_def prefix_def)

text \<open>No scope of the list lies in another one.\<close>

definition separate :: "string list \<Rightarrow> bool" where
  "separate scopes \<longleftrightarrow> sorted_wrt (\<lambda>a b. \<not> in_scope a b \<and> \<not> in_scope b a) scopes"

lemma add_scope_separate: "separate scopes \<Longrightarrow> separate (add_scope scopes v)"
  by (auto simp: separate_def add_scope_def sorted_wrt_append sorted_wrt_filter list_ex_iff in_scope_def)

lemma add_scope_set: "set (add_scope scopes v) \<subseteq> insert v (set scopes)"
  by (auto simp: add_scope_def)

lemma add_scope_self: "list_ex (in_scope v) (add_scope scopes v)"
  by (auto simp: add_scope_def list_ex_iff)

lemma add_scope_covers:
  assumes "list_ex (in_scope a) scopes"
  shows "list_ex (in_scope a) (add_scope scopes v)"
proof (cases "list_ex (in_scope v) scopes")
  case False
  obtain r where r: "r \<in> set scopes" "in_scope a r" using assms by (auto simp: list_ex_iff)
  show ?thesis
  proof (cases "prefix (v @ ''/'') r")
    case True
    then have "in_scope a v" using r(2) in_scope_trans[of a r v] by (simp add: in_scope_def)
    then show ?thesis using False by (auto simp: add_scope_def list_ex_iff)
  qed (use False r in \<open>auto simp: add_scope_def list_ex_iff\<close>)
qed (use assms in \<open>simp add: add_scope_def\<close>)

lemma fold_scopes:
  assumes "separate scopes"
  shows "separate (foldl add_scope scopes targets)" "set (foldl add_scope scopes targets) \<subseteq> set scopes \<union> set targets"
    "list_ex (in_scope a) scopes \<Longrightarrow> list_ex (in_scope a) (foldl add_scope scopes targets)"
    "a \<in> set targets \<Longrightarrow> list_ex (in_scope a) (foldl add_scope scopes targets)"
proof -
  show "separate (foldl add_scope scopes targets)"
    using assms by (induction targets arbitrary: scopes) (simp_all add: add_scope_separate)
  show "set (foldl add_scope scopes targets) \<subseteq> set scopes \<union> set targets"
    by (induction targets arbitrary: scopes) (simp, use add_scope_set in \<open>fastforce\<close>)
  have covers: "list_ex (in_scope a) xs \<Longrightarrow> list_ex (in_scope a) (foldl add_scope xs vs)" for xs vs
    by (induction vs arbitrary: xs) (simp_all add: add_scope_covers)
  then show "list_ex (in_scope a) scopes \<Longrightarrow> list_ex (in_scope a) (foldl add_scope scopes targets)" .
  show "a \<in> set targets \<Longrightarrow> list_ex (in_scope a) (foldl add_scope scopes targets)"
    by (induction targets arbitrary: scopes) (auto intro: covers add_scope_self)
qed

lemma collapsed:
  "separate (collapse_scopes targets)" "set (collapse_scopes targets) \<subseteq> set targets"
  "a \<in> set targets \<Longrightarrow> list_ex (in_scope a) (collapse_scopes targets)"
  using fold_scopes[of "[]"] by (auto simp: collapse_scopes_def separate_def)

lemma collapsed_subset: "set xs \<subseteq> set ys \<Longrightarrow> p \<in> set (collapse_scopes xs) \<Longrightarrow> list_ex (in_scope p) (collapse_scopes ys)"
  using collapsed(2)[of xs] collapsed(3)[of p ys] by blast

section \<open>Declared scopes\<close>

lemma checked_scopeE:
  assumes "checked_scope rules expected forbidden = Inr scope"
  obtains "scope = \<lparr>ds_rule_paths = rules, ds_expected_paths = expected, ds_forbidden_paths = forbidden\<rparr>"
    "\<not> list_ex (\<lambda>p. list_ex (in_scope p) forbidden) expected"
    "list_all (\<lambda>l. length l \<le> max_declared_scope_paths) [rules, expected, forbidden]"
  using assms by (auto simp: checked_scope_def not_less split: if_splits)

lemma resolvedE:
  assumes "resolve_declared_coding_scope env prompt write_mode = Inr scope"
  obtains workspace references where "sc_workspace env = Inr workspace" "path_references (masked_prompt prompt) = Inr references"
    "ds_rule_paths scope = collapse_scopes (nested_workspace workspace @ map snd (normalized_references env references))"
    "ds_expected_paths scope = collapse_scopes
       (expected_values (masked_prompt prompt) write_mode workspace (normalized_references env references))"
    "ds_forbidden_paths scope = collapse_scopes
       (forbidden_values (masked_prompt prompt) write_mode (normalized_references env references))"
    "\<not> list_ex (\<lambda>p. list_ex (in_scope p) (ds_forbidden_paths scope)) (ds_expected_paths scope)"
    "list_all (\<lambda>l. length l \<le> 256) [ds_rule_paths scope, ds_expected_paths scope, ds_forbidden_paths scope]"
proof -
  obtain w refs where r: "sc_workspace env = Inr w" "path_references (masked_prompt prompt) = Inr refs"
    "checked_scope (collapse_scopes (nested_workspace w @ map snd (normalized_references env refs)))
       (collapse_scopes (expected_values (masked_prompt prompt) write_mode w (normalized_references env refs)))
       (collapse_scopes (forbidden_values (masked_prompt prompt) write_mode (normalized_references env refs))) = Inr scope"
    using assms by (auto simp: resolve_declared_coding_scope_def Let_def)
  from r(3) show thesis by (rule checked_scopeE) (rule that[OF r(1,2)], simp_all add: max_declared_scope_paths_def)
qed

lemma values_subset:
  "set (expected_values prompt write_mode w normalized) \<subseteq> set (nested_workspace w @ map snd normalized)"
  "set (forbidden_values prompt write_mode normalized) \<subseteq> set (nested_workspace w @ map snd normalized)"
  by (auto simp: expected_values_def forbidden_values_def paths_of_kind_def)

text \<open>
  C10: the scopes that a request declares are minimal, none lies in another of its list; they are
  bounded; no writable scope lies in a protected one; and every writable or protected scope lies in a scope
  whose rules apply.
\<close>

theorem declared_scopes_are_minimal_and_consistent:
  "case resolve_declared_coding_scope env prompt write_mode of
     Inr scope \<Rightarrow>
       list_all separate [ds_rule_paths scope, ds_expected_paths scope, ds_forbidden_paths scope] \<and>
       list_all (\<lambda>l. length l \<le> 256) [ds_rule_paths scope, ds_expected_paths scope, ds_forbidden_paths scope] \<and>
       \<not> list_ex (\<lambda>p. list_ex (in_scope p) (ds_forbidden_paths scope)) (ds_expected_paths scope) \<and>
       list_all (\<lambda>p. list_ex (in_scope p) (ds_rule_paths scope)) (ds_expected_paths scope @ ds_forbidden_paths scope)
   | Inl e \<Rightarrow> True"
proof (cases "resolve_declared_coding_scope env prompt write_mode")
  case (Inr scope)
  then show ?thesis
    by (rule resolvedE)
      (simp add: Inr collapsed(1) list_all_iff ball_Un collapsed_subset[OF values_subset(1)] collapsed_subset[OF values_subset(2)])
qed simp


section \<open>An example\<close>

definition sample_scope_env :: ScopeEnv where
  "sample_scope_env = \<lparr>sc_workspace = Inr ''.'', sc_is_absolute = (\<lambda>t. prefix ''/'' t), sc_resolve_absolute = (\<lambda>t. None),
     sc_resolve_joined = (\<lambda>parts. Some (join ''/'' parts))\<rparr>"

definition sample_scope :: DeclaredScope where
  "sample_scope = \<lparr>ds_rule_paths = [''a.c''], ds_expected_paths = [''a.c''], ds_forbidden_paths = []\<rparr>"

lemma sample_scope_declared: "resolve_declared_coding_scope sample_scope_env ''fix a.c'' True = Inr sample_scope"
  by code_simp


text \<open>
  The words after an exception may hold no dot: the second file that a prompt excepts from a prohibition
  is taken for a protected one.
\<close>

lemma second_exception_is_forbidden:
  "map (mutation_reference_kind ''no edit except a.c b.c'')
     [\<lparr>pr_start = 15, pr_end = 18, pr_value = ''a.c''\<rparr>, \<lparr>pr_start = 19, pr_end = 22, pr_value = ''b.c''\<rparr>] =
   [Some Positive, Some Forbidden]"
  by code_simp

end
