(* ===== verification/Spec2Isabelle.thy ===== *)
theory Spec2Isabelle
  imports PlannerProperties CodingStoreSamples NormalizerProperties Health McpCircuitProperties
    MemoryTypes MemoryRetrievalProperties CodexReviewProperties VerificationProperties
    KnowledgeSamples EngineSamples CodingScopeProperties
begin

text \<open>
  Verification of the core of locestra, a local assistant whose services plan, route and execute
  requests on the user's machine. The development models the Python code under \<open>src/services\<close>.

  \<^bold>\<open>The program and how its parts interact.\<close> A request of a front end (gateway, voice, Telegram,
  command line) becomes a \<open>NormalizedRequestV1\<close> in \<open>orchestration/normalizer.py\<close>: override commands are
  cut out, contents are flattened, attachments become references. \<open>orchestration/planner.py\<close> turns it
  into intent signals and a \<open>PlanV1\<close>; \<open>orchestration/router.py\<close> turns the plan, the permissions, the
  health of the capabilities and the failures so far into one \<open>RouteDecisionV1\<close>. A coding decision is
  executed by \<open>coding/engine.py\<close>: it resolves the repository, creates an owned worktree, lets the local
  model or Codex work in it, runs the verifiers (\<open>coding/verification.py\<close>), has the result reviewed
  (\<open>coding/reviewer.py\<close>), commits it where that is permitted, or hands the task off; every step is a
  transition of the durable state machine of \<open>coding/store.py\<close> over SQLite. Facts that outlive a task
  are kept by \<open>memory/store.py\<close>, which also selects what a prompt may contain; \<open>knowledge/store.py\<close> keeps
  the indexed generations of a project and retrieves from them. \<open>mcp_hub/runtime.py\<close> keeps the circuit
  breaker of each tool server, \<open>health.py\<close> combines observations to one report.

  \<^bold>\<open>Theories and the code they model.\<close>

  \<^item> Prelude: texts, times, list helpers, validators and the locale \<open>normaliser\<close> of validators that
    accept their own results. Tables: SQL rows by key, compare-and-swap updates (locale \<open>versioned\<close>)
    and status graphs (locale \<open>transition_graph\<close>). Json: JSON values. Results: code that can raise.
    Regex: a backtracking matcher for the patterns of the review protocols.
  \<^item> Contracts: \<open>contracts/v1.py\<close>, one record and one validator per Pydantic model.
  \<^item> RoutingPolicy, Planner, Router: \<open>orchestration/config.py\<close>, \<open>planner.py\<close> and \<open>router.py\<close>; the
    blocks of \<open>route_request\<close> are one definition each (\<open>permission_block\<close>, \<open>input_block\<close>,
    \<open>budget_block\<close>, \<open>capability_block\<close>, \<open>executor_block\<close>, \<open>cloud_block\<close>, \<open>attempt_limit_block\<close>,
    \<open>fill_blocking\<close>), composed by \<open>route_draft\<close> in the order of the code.
  \<^item> Normalizer: \<open>orchestration/normalizer.py\<close>.
  \<^item> CodingContracts, CodingConfig, CodingStore: \<open>coding/contracts.py\<close>, \<open>coding/config.py\<close>,
    \<open>coding/store.py\<close> and the schema of \<open>coding/migrations.py\<close>; the database is the record \<open>CodingDb\<close>, a
    transaction is a function that returns an error or the new database.
  \<^item> Verification, VerificationSandbox: \<open>coding/verification.py\<close>, the policy on argument vectors and the
    run of a command in its container, a sequence of process starts.
  \<^item> Reviewer, CodexReview: \<open>coding/reviewer.py\<close>, the deterministic evidence gate (what it asks Git is
    \<open>ReviewEvidence\<close>), the protocols of the Codex review and the merge of both.
  \<^item> EngineBase, EngineText, EngineGit, EngineReview, EngineFlow, EngineLoop, EngineRun:
    \<open>coding/engine.py\<close>. A statement of the engine is a function on a \<open>Flow\<close> (database, world, source, task
    state, version, locals of the loop) that returns an error or a value; \<open>do_then\<close>, \<open>do_try\<close> and
    \<open>do_ensure\<close> are sequence, \<open>try\<close> and \<open>raise\<close>. \<open>attempt_round\<close> is one pass of the loop of \<open>_execute_flow\<close>,
    composed of its phases; a phase goes on, asks for another pass or has finished (\<open>Phase\<close>).
  \<^item> CodingScope: \<open>coding/scope.py\<close>, the paths a prompt names as targets of a mutation or protects
    from one; the patterns of the code are run by the matcher of Regex.
  \<^item> McpCircuit: the status file and the circuit functions of \<open>mcp_hub/runtime.py\<close>. Health: \<open>health.py\<close>.
  \<^item> MemoryContracts, MemoryStore, MemoryRetrieval: \<open>memory/contracts.py\<close>, the writing and the reading
    side of \<open>memory/store.py\<close>, and the tables of \<open>memory/migrations.py\<close>; the database is \<open>MemoryDb\<close>.
  \<^item> KnowledgeStore, KnowledgePublish, KnowledgeRetrieval: the tables of
    \<open>knowledge/migrations.py\<close> and \<open>knowledge/store.py\<close>; the database is \<open>KnowledgeDb\<close>.

  \<^bold>\<open>What the lemmas show.\<close>

  \<^item> RouteDecision, RouteProperties, PlannerProperties: the planner and the router return for every
    accepted request a value their contract accepts; executing decisions have permission, a usable
    capability, cloud approval for Codex and the lock of the worktree; conflicting or denied requests
    never execute; context budgets, prompt limits and constraints keep their bounds.
  \<^item> NormalizerProperties: parsing undoes the writing of override commands; replacing the routed text
    changes only what executors read; attachments are positions of the last user message.
  \<^item> CodingStoreInvariant, CodingStoreProperties, CodingStoreSamples: \<open>store_inv\<close> holds in every
    reachable database, so that verification and reads succeed; completed tasks were verified and
    reviewed; terminal tasks are final; optimistic locking refuses the second writer; live worktrees
    never collide; allowed transitions succeed.
  \<^item> VerificationProperties: accepted commands start trusted executables and test modules only; a
    verification starts nothing but Docker controls and one isolated container.
  \<^item> ReviewerProperties, CodexReviewProperties: the gate approves a write exactly when its evidence is
    clean; a Codex review is approved exactly if its output is a valid protocol without blocking findings.
  \<^item> EngineGuarantee, EngineSafety, EngineEnds, EngineProperties: the locales \<open>engine_guarantee\<close>,
    \<open>flow_guarantee\<close> and \<open>task_guarantee\<close> lift a relation on flows from the transitions and the
    surroundings to the whole task. Their interpretations show that a run is a sequence of valid store
    operations, touches no other task, asks Codex and Git only what the request permits and makes a bounded
    number of attempts; \<open>returns\<close> describes results: what a run returns is stored, what the gate commits
    is the approved diff. EngineSamples applies them to concrete surroundings and runs into the handler
    that fails a stored task whose identifier is used again.
  \<^item> CodingScopeProperties: the declared scopes contain only targets the prompt names, are minimal and
    never allow what the prompt protects.
  \<^item> McpCircuitProperties: the status file refines an abstract circuit breaker (locale
    \<open>breaker_store\<close>, interpreted on the file functions), which opens and closes exactly as configured.
  \<^item> MemoryStoreInvariant, MemoryConflicts, MemoryProperties: how rows evolve under every operation
    (\<open>evolves\<close>, \<open>shrinks\<close>); the invariant \<open>memory_inv\<close> of records, conflicts and members; confirmed
    memories never contradict each other unless a stale record is revived; who can confirm; what a
    purge removes. MemorySamples runs the store and shows that revival does break agreement
    (\<open>revived_record_contradicts_confirmed\<close>).
  \<^item> MemoryTypes, MemoryRetrievalProperties: committed rows satisfy the table constraints and read back;
    a retrieval keeps its budget and its scope and leaves out only what does not fit.
  \<^item> KnowledgeInvariant, KnowledgeProperties, KnowledgeRetrievalProperties, KnowledgeSamples: a project has
    one active generation; interrupted builds are never published; a purge removes exactly its source; a
    retrieval serves the active generation within its budget.

  \<^bold>\<open>Conventions and bounds.\<close> A text is a list of code points 0 to 255, so the Cyrillic marker and stop
  words of the code are absent; times are integers (microseconds since the epoch); scores and
  confidences are exact rationals, where the code has floats, rounded half to even where the code
  rounds. Errors are values: \<open>option\<close> for validators, \<open>StoreError + 'a\<close>, \<open>MemoryError + 'a\<close> and
  \<open>EngineError + 'a\<close> for the stores and the engine; an error rolls a transaction back, while the
  effects of an engine statement on the world stay. Loops are structural recursions or have a measure (the
  clause splitter, the scanner of override commands, the word scanner). \<open>attempt_rounds\<close> counts the passes
  \<open>range(max_attempts)\<close> allows and \<open>binding_rounds\<close> the three observations of a worktree, as the code does.

  \<^bold>\<open>Parameters.\<close> Code that is read from outside Python's own semantics enters as a function of an
  environment record: SHA-256, canonical JSON, \<open>urlsplit\<close>, \<open>ipaddress\<close>, NFKC, the file system and path
  resolution (\<open>RouteEnv\<close>, \<open>NormalizerEnv\<close>, \<open>StoreEnv\<close>, \<open>ScopeEnv\<close>, \<open>HostEnv\<close>, \<open>MemoryEnv\<close>, \<open>KnowledgeEnv\<close>), the matches of the
  planner's large regular expressions (\<open>ScanEvidence\<close>), full-text search (\<open>KnowledgeSearch\<close>), the clock and
  fresh identifiers. Processes of the verification sandbox are functions on a state of their own
  (\<open>SandboxEnv\<close>). What the engine asks of Git, files, artifacts, executors, verifiers, reviewers and the
  worktree manager is a function on a world of any type (\<open>EngineEnv\<close>, \<open>Services\<close>), which may change at every
  call: properties that speak of it say what the calls keep (\<open>surroundings_confined\<close>,
  \<open>services_confined\<close>) and what they return (\<open>records_valid\<close>: records of their contract). The privacy
  inspection of \<open>memory/privacy.py\<close> and the typed values of \<open>memory/contracts.py\<close> are functions of
  \<open>MemoryEnv\<close>; \<open>uris_fit\<close> is the hypothesis on it that derived references fit 2048 characters.

  \<^bold>\<open>Not modelled.\<close> The local semantic review of the engine (\<open>_local_semantic_review\<close>), \<open>coding/semantic_review.py\<close>,
  the executors, the worktree manager, the Git adapter and the preflight of public data: HTTP, processes and the
  file system, which enter the engine as functions. The gateway, the front ends of coding, the knowledge
  engine and its parsers, the supervision of tool servers and the voice and Telegram adapters. Of the
  memory: \<open>export_records\<close>, \<open>audit_events\<close>, compaction (a busy database refuses \<open>hard_purge_source\<close>
  before it changes anything), backups and migration ledgers, the time stamp of a membership and the
  reason column of a conflict.
\<close>

end
